(* ===== verification/Prelude.thy ===== *)
theory Prelude imports Main "HOL-Library.Word" begin

text \<open>
  Shared vocabulary of the development: C++ exceptions as values, the outcome of a call
  (a value, a thrown exception, or undefined behaviour), the state-and-exception monad in which
  every stateful routine is written, its weakest-precondition rules, and the generic lemmas on
  lists that several components use. A \<open>std::string\<close> is a \<open>string\<close> (a list of bytes).
\<close>

unbundle bit_operations_syntax

section \<open>Automation collections\<close>

named_theorems wp_simps "weakest-precondition equations of the monad's operations"
named_theorems effect_defs "definitions of primitive effects, unfolded by component proofs"

section \<open>Exceptions and outcomes\<close>

text \<open>
  The exceptions the native code throws or lets through: \<open>std::runtime_error\<close> with its message,
  \<open>Ort::Exception\<close> with message and numeric error code, the JSON library's exceptions, the range
  errors of \<open>std::vector::at\<close>, exceptions raised inside a user callback, the length errors of
  \<open>std::string::resize\<close>, and the conversion errors of \<open>std::stoi\<close>.
\<close>

datatype exn =
    RuntimeError string
  | OrtException string int
  | JsonError string
  | OutOfRange string
  | CallbackError string
  | LengthError string
  | InvalidArgument string

fun exn_what :: "exn \<Rightarrow> string" where
  "exn_what (RuntimeError m) = m"
| "exn_what (OrtException m c) = m"
| "exn_what (JsonError m) = m"
| "exn_what (OutOfRange m) = m"
| "exn_what (CallbackError m) = m"
| "exn_what (LengthError m) = m"
| "exn_what (InvalidArgument m) = m"

text \<open>
  \<open>Crash\<close> is undefined behaviour (a null dereference): no \<open>catch\<close> clause intercepts it.
\<close>

datatype 'a outcome = Ok 'a | Throw exn | Crash string

fun is_ok :: "'a outcome \<Rightarrow> bool" where
  "is_ok (Ok x) = True"
| "is_ok (Throw e) = False"
| "is_ok (Crash c) = False"

section \<open>The state-and-exception monad\<close>

type_synonym ('s, 'a) action = "'s \<Rightarrow> 'a outcome \<times> 's"

definition mret :: "'a \<Rightarrow> ('s, 'a) action" where
  "mret x = (\<lambda>s. (Ok x, s))"

definition mbind :: "('s, 'a) action \<Rightarrow> ('a \<Rightarrow> ('s, 'b) action) \<Rightarrow> ('s, 'b) action" where
  "mbind m k = (\<lambda>s. case m s of
       (Ok x, t) \<Rightarrow> k x t
     | (Throw e, t) \<Rightarrow> (Throw e, t)
     | (Crash c, t) \<Rightarrow> (Crash c, t))"

definition mthen :: "('s, 'a) action \<Rightarrow> ('s, 'b) action \<Rightarrow> ('s, 'b) action" where
  "mthen m k = mbind m (\<lambda>_. k)"

definition mthrow :: "exn \<Rightarrow> ('s, 'a) action" where
  "mthrow e = (\<lambda>s. (Throw e, s))"

definition mcrash :: "string \<Rightarrow> ('s, 'a) action" where
  "mcrash c = (\<lambda>s. (Crash c, s))"

definition mget :: "('s \<Rightarrow> 'a) \<Rightarrow> ('s, 'a) action" where
  "mget f = (\<lambda>s. (Ok (f s), s))"

definition mmodify :: "('s \<Rightarrow> 's) \<Rightarrow> ('s, unit) action" where
  "mmodify f = (\<lambda>s. (Ok (), f s))"

text \<open>\<open>try { m } catch (...) { h }\<close>: the handler runs in the state the exception left.\<close>

definition mcatch :: "('s, 'a) action \<Rightarrow> (exn \<Rightarrow> ('s, 'a) action) \<Rightarrow> ('s, 'a) action" where
  "mcatch m h = (\<lambda>s. case m s of
       (Ok x, t) \<Rightarrow> (Ok x, t)
     | (Throw e, t) \<Rightarrow> h e t
     | (Crash c, t) \<Rightarrow> (Crash c, t))"

text \<open>\<open>if (b) throw e;\<close>\<close>

definition mguard :: "bool \<Rightarrow> exn \<Rightarrow> ('s, unit) action" where
  "mguard b e = (if b then mthrow e else mret ())"

section \<open>Weakest preconditions\<close>

text \<open>
  \<open>wp m Q E s\<close>: run from \<open>s\<close>, the action returns a value and state satisfying \<open>Q\<close> or throws with
  \<open>E\<close>, and never has undefined behaviour. Actions are total functions, so this is total
  correctness.
\<close>

definition wp :: "('s, 'a) action \<Rightarrow> ('a \<Rightarrow> 's \<Rightarrow> bool) \<Rightarrow> (exn \<Rightarrow> 's \<Rightarrow> bool) \<Rightarrow> 's \<Rightarrow> bool" where
  "wp m Q E s = (case m s of
       (Ok x, t) \<Rightarrow> Q x t
     | (Throw e, t) \<Rightarrow> E e t
     | (Crash c, t) \<Rightarrow> False)"

lemma wp_mret [wp_simps]: "wp (mret x) Q E s = Q x s"
  by (simp add: wp_def mret_def)

lemma wp_mbind [wp_simps]: "wp (mbind m k) Q E s = wp m (\<lambda>x t. wp (k x) Q E t) E s"
  by (simp add: wp_def mbind_def split: prod.splits outcome.splits)

lemma wp_mthen [wp_simps]: "wp (mthen m k) Q E s = wp m (\<lambda>x t. wp k Q E t) E s"
  by (simp add: mthen_def wp_mbind)

lemma wp_mthrow [wp_simps]: "wp (mthrow e) Q E s = E e s"
  by (simp add: wp_def mthrow_def)

lemma wp_mcrash [wp_simps]: "wp (mcrash c) Q E s = False"
  by (simp add: wp_def mcrash_def)

lemma wp_mget [wp_simps]: "wp (mget f) Q E s = Q (f s) s"
  by (simp add: wp_def mget_def)

lemma wp_mmodify [wp_simps]: "wp (mmodify f) Q E s = Q () (f s)"
  by (simp add: wp_def mmodify_def)

lemma wp_mcatch [wp_simps]:
  "wp (mcatch m h) Q E s = wp m Q (\<lambda>e t. wp (h e) Q E t) s"
  by (simp add: wp_def mcatch_def split: prod.splits outcome.splits)

lemma wp_mguard [wp_simps]:
  "wp (mguard b e) Q E s = (if b then E e s else Q () s)"
  by (simp add: mguard_def wp_simps)

lemma wp_if [wp_simps]:
  "wp (if b then m else n) Q E s = (if b then wp m Q E s else wp n Q E s)"
  by simp

lemma wp_mono:
  assumes "wp m Q E s"
    and "\<And>x t. Q x t \<Longrightarrow> Q' x t" and "\<And>e t. E e t \<Longrightarrow> E' e t"
  shows "wp m Q' E' s"
  using assms by (auto simp: wp_def split: prod.splits outcome.splits)

lemma wp_conj:
  "wp m Q E s \<Longrightarrow> wp m Q' E' s \<Longrightarrow> wp m (\<lambda>x t. Q x t \<and> Q' x t) (\<lambda>e t. E e t \<and> E' e t) s"
  by (auto simp: wp_def split: prod.splits outcome.splits)

lemma wp_Ok_D: "wp m Q E s \<Longrightarrow> m s = (Ok x, t) \<Longrightarrow> Q x t"
  by (simp add: wp_def)

lemma wp_Throw_D: "wp m Q E s \<Longrightarrow> m s = (Throw e, t) \<Longrightarrow> E e t"
  by (simp add: wp_def)

lemma wp_not_Crash: "wp m Q E s \<Longrightarrow> m s \<noteq> (Crash c, t)"
  by (auto simp: wp_def)

section \<open>Lists and strings\<close>

text \<open>
  A C string ends at the first NUL byte; \<open>c_str\<close> is what a callee sees of \<open>s.c_str()\<close>.
\<close>

definition c_str :: "string \<Rightarrow> string" where
  "c_str s = takeWhile (\<lambda>c. c \<noteq> CHR 0x00) s"

text \<open>A zero-filled buffer of \<open>n\<close> elements after a callee wrote \<open>xs\<close> to its front.\<close>

definition filled :: "nat \<Rightarrow> 'a \<Rightarrow> 'a list \<Rightarrow> 'a list" where
  "filled n z xs = take n (xs @ replicate n z)"

lemma length_filled [simp]: "length (filled n z xs) = n"
  by (simp add: filled_def)

lemma filled_eq_Nil [simp]: "(filled n z xs = []) = (n = 0)"
  by (metis length_filled length_0_conv)

lemma filled_exact [simp]: "length xs = n \<Longrightarrow> filled n z xs = xs"
  by (simp add: filled_def)

lemma take_drop_append_chunk:
  "take i xs @ take b (drop i xs) = take (i + b) xs"
  by (simp add: take_add)

text \<open>\<open>std::to_string\<close> of a non-negative integer: decimal digits, most significant first.\<close>

fun nat_digits :: "nat \<Rightarrow> string" where
  "nat_digits n = (if n < 10 then [char_of (48 + n)]
     else nat_digits (n div 10) @ [char_of (48 + n mod 10)])"

declare nat_digits.simps [simp del]

definition to_string :: "int \<Rightarrow> string" where
  "to_string i = (if i < 0 then CHR ''-'' # nat_digits (nat (- i)) else nat_digits (nat i))"

lemma digit_char_inj: "a < 10 \<Longrightarrow> b < 10 \<Longrightarrow> (char_of (48 + a) :: char) = char_of (48 + b) \<Longrightarrow> a = (b::nat)"
proof -
  assume "a < 10" "b < 10" and eq: "(char_of (48 + a) :: char) = char_of (48 + b)"
  from eq have "(of_char (char_of (48 + a) :: char) :: nat) = of_char (char_of (48 + b) :: char)"
    by simp
  with \<open>a < 10\<close> \<open>b < 10\<close> show "a = b" by simp
qed

lemma digit_char_bounds:
  "a < 10 \<Longrightarrow> (of_char (char_of (48 + a :: nat) :: char) :: nat) = 48 + a"
  by simp

lemma nat_digits_chars: "c \<in> set (nat_digits n) \<Longrightarrow> \<exists>d<10. c = char_of (48 + d :: nat)"
proof (induction n rule: nat_digits.induct)
  case (1 n)
  show ?case
  proof (cases "n < 10")
    case True
    with "1.prems" show ?thesis by (subst (asm) nat_digits.simps) auto
  next
    case False
    from "1.prems" False have "c \<in> set (nat_digits (n div 10)) \<or> c = char_of (48 + n mod 10)"
      by (subst (asm) nat_digits.simps) auto
    then show ?thesis
    proof
      assume "c \<in> set (nat_digits (n div 10))"
      with "1.IH" False show ?thesis by simp
    next
      assume "c = char_of (48 + n mod 10)"
      moreover have "n mod 10 < 10" by simp
      ultimately show ?thesis by blast
    qed
  qed
qed

lemma nat_digits_nonempty [simp]: "nat_digits n \<noteq> []"
  by (subst nat_digits.simps) simp

lemma nat_digits_nonempty' [simp]: "[] \<noteq> nat_digits n"
  using nat_digits_nonempty [of n] by metis

lemma nat_digits_inj: "nat_digits m = nat_digits n \<Longrightarrow> m = n"
proof (induction m arbitrary: n rule: nat_digits.induct)
  case (1 m)
  have mod10: "m mod 10 < 10" "n mod 10 < 10" by simp_all
  show ?case
  proof (cases "m < 10")
    case True
    then have m: "nat_digits m = [char_of (48 + m)]" by (subst nat_digits.simps) simp
    have "n < 10"
    proof (rule ccontr)
      assume "\<not> n < 10"
      then have "nat_digits n = nat_digits (n div 10) @ [char_of (48 + n mod 10)]"
        by (subst nat_digits.simps) simp
      with m "1.prems" show False by simp
    qed
    then have "nat_digits n = [char_of (48 + n)]" by (subst nat_digits.simps) simp
    with m "1.prems" True \<open>n < 10\<close> show ?thesis by (simp add: digit_char_inj)
  next
    case False
    then have m: "nat_digits m = nat_digits (m div 10) @ [char_of (48 + m mod 10)]"
      by (subst nat_digits.simps) simp
    have "\<not> n < 10"
    proof
      assume "n < 10"
      then have "nat_digits n = [char_of (48 + n)]" by (subst nat_digits.simps) simp
      with m "1.prems" show False by simp
    qed
    then have n: "nat_digits n = nat_digits (n div 10) @ [char_of (48 + n mod 10)]"
      by (subst nat_digits.simps) simp
    from m n "1.prems" have "nat_digits (m div 10) = nat_digits (n div 10)"
      and lastc: "(char_of (48 + m mod 10) :: char) = char_of (48 + n mod 10)" by simp_all
    with "1.IH" False have "m div 10 = n div 10" by blast
    moreover from lastc mod10 have "m mod 10 = n mod 10" by (rule digit_char_inj [rotated 2])
    ultimately show ?thesis by (metis div_mult_mod_eq)
  qed
qed

section \<open>Machine words and bytes\<close>

text \<open>\<open>static_cast<unsigned char>(c)\<close>.\<close>

definition uchar :: "char \<Rightarrow> 8 word" where
  "uchar c = word_of_nat (of_char c)"

lemma unat_uchar [simp]: "unat (uchar c) = of_char c"
  by (simp add: uchar_def unat_of_nat)

text \<open>Selecting \<open>k\<close> adjacent bits from position \<open>j\<close> on, as division and remainder.\<close>

lemma div_mult_add: "u < k \<Longrightarrow> (n * k + u) div k = (n::nat)"
  by simp

lemma mod_mult_add: "u < k \<Longrightarrow> (n * k + u) mod k = (u::nat)"
  by simp

lemma and_shifted_mask:
  "(n :: nat) AND (push_bit j (mask k)) = ((n div 2 ^ j) mod 2 ^ k) * 2 ^ j"
proof -
  have "n AND push_bit j (mask k) = push_bit j (drop_bit j n AND mask k)"
    by (rule bit_eqI) (auto simp: bit_simps)
  then show ?thesis
    by (simp add: take_bit_eq_mask [symmetric] take_bit_eq_mod drop_bit_eq_div push_bit_eq_mult)
qed

lemma and_0xC0_eq_0x80: "((x :: 8 word) AND 0xC0 = 0x80) = (0x80 \<le> unat x \<and> unat x < 0xC0)"
proof -
  have "(x AND 0xC0 = 0x80) = (unat x AND 0xC0 = 0x80)"
    by (simp add: word_unat_eq_iff unsigned_and_eq)
  also have "unat x AND 0xC0 = ((unat x div 64) mod 4) * 64"
    using and_shifted_mask [of "unat x" 6 2] by (simp add: mask_eq_exp_minus_1 push_bit_eq_mult)
  finally show ?thesis using unsigned_less [of x, where ?'a = nat] by auto
qed

end
