(* ===== verification/Utf8_Text.thy ===== *)
theory Utf8_Text imports Prelude begin

text \<open>
  The text helpers at the top of \<open>translation.cpp\<close> (\<open>longestCommonPrefix\<close>,
  \<open>completeUtf8Prefix\<close>, \<open>lastCompleteWordBoundary\<close>, \<open>trimProgress\<close>,
  \<open>parseOffloadedLayers\<close>) and \<open>validUtf8\<close> of \<open>smoke.cpp\<close>. The two scanners are related to
  the Unicode definition of UTF-8: concatenations of the encodings of scalar values.
\<close>

unbundle bit_operations_syntax

section \<open>Longest common prefix\<close>

function lcp_from :: "'a list \<Rightarrow> 'a list \<Rightarrow> nat \<Rightarrow> nat \<Rightarrow> nat" where
  "lcp_from left right limit count =
     (if count < limit \<and> left ! count = right ! count
      then lcp_from left right limit (Suc count) else count)"
  by pat_completeness auto
termination
  by (relation "measure (\<lambda>(l, r, limit, count). limit - count)") auto

declare lcp_from.simps [simp del]

definition longestCommonPrefix :: "'a list \<Rightarrow> 'a list \<Rightarrow> nat" where
  "longestCommonPrefix left right = lcp_from left right (min (length left) (length right)) 0"

lemma lcp_from_props:
  assumes "count \<le> limit" "limit \<le> length l" "limit \<le> length r" "take count l = take count r"
  shows "count \<le> lcp_from l r limit count \<and> lcp_from l r limit count \<le> limit
    \<and> take (lcp_from l r limit count) l = take (lcp_from l r limit count) r
    \<and> (lcp_from l r limit count < limit \<longrightarrow>
        l ! lcp_from l r limit count \<noteq> r ! lcp_from l r limit count)"
  using assms
proof (induction l r limit count rule: lcp_from.induct)
  case (1 l r limit count)
  show ?case
  proof (cases "count < limit \<and> l ! count = r ! count")
    case True
    with "1.prems" have "take (Suc count) l = take (Suc count) r"
      by (simp add: take_Suc_conv_app_nth)
    with True "1.IH" [OF True] "1.prems" show ?thesis
      by (auto simp: lcp_from.simps [of l r limit count])
  next
    case False
    with "1.prems" show ?thesis by (auto simp: lcp_from.simps [of l r limit count])
  qed
qed

lemma longestCommonPrefix_le:
  "longestCommonPrefix l r \<le> length l" "longestCommonPrefix l r \<le> length r"
  using lcp_from_props [of 0 "min (length l) (length r)" l r]
  by (auto simp: longestCommonPrefix_def)

lemma longestCommonPrefix_take:
  "take (longestCommonPrefix l r) l = take (longestCommonPrefix l r) r"
  using lcp_from_props [of 0 "min (length l) (length r)" l r]
  by (auto simp: longestCommonPrefix_def)

lemma longestCommonPrefix_take_le:
  "k \<le> longestCommonPrefix l r \<Longrightarrow> take k l = take k r"
  using longestCommonPrefix_take [of l r] by (metis min.absorb1 take_take)

lemma longestCommonPrefix_maximal:
  assumes "k \<le> length l" "k \<le> length r" "take k l = take k r"
  shows "k \<le> longestCommonPrefix l r"
proof (rule ccontr)
  let ?n = "longestCommonPrefix l r"
  assume "\<not> k \<le> ?n"
  then have lt: "?n < k" by simp
  with assms have "l ! ?n \<noteq> r ! ?n"
    using lcp_from_props [of 0 "min (length l) (length r)" l r]
    by (auto simp: longestCommonPrefix_def)
  moreover from assms(3) lt have "l ! ?n = r ! ?n" by (metis nth_take)
  ultimately show False by simp
qed

section \<open>The UTF-8 scanners\<close>

text \<open>The lead byte's sequence width; \<open>None\<close> is the final \<open>else\<close>.\<close>

definition lead_width :: "8 word \<Rightarrow> nat option" where
  "lead_width lead =
     (if lead \<le> 0x7f then Some 1
      else if 0xc2 \<le> lead \<and> lead \<le> 0xdf then Some 2
      else if 0xe0 \<le> lead \<and> lead \<le> 0xef then Some 3
      else if 0xf0 \<le> lead \<and> lead \<le> 0xf4 then Some 4
      else None)"

text \<open>The inner \<open>for\<close> loop from index \<open>i\<close> on: \<open>False\<close> is its early return.\<close>

definition continuation_bad :: "8 word \<Rightarrow> nat \<Rightarrow> 8 word \<Rightarrow> bool" where
  "continuation_bad lead i continuation =
     (continuation AND 0xc0 \<noteq> 0x80 \<or>
      (i = 1 \<and> ((lead = 0xe0 \<and> continuation < 0xa0) \<or>
                (lead = 0xed \<and> continuation \<ge> 0xa0) \<or>
                (lead = 0xf0 \<and> continuation < 0x90) \<or>
                (lead = 0xf4 \<and> continuation \<ge> 0x90))))"

function continuations_ok :: "string \<Rightarrow> nat \<Rightarrow> nat \<Rightarrow> nat \<Rightarrow> bool" where
  "continuations_ok v offset width i =
     (if i < width
      then (if continuation_bad (uchar (v ! offset)) i (uchar (v ! (offset + i))) then False
            else continuations_ok v offset width (Suc i))
      else True)"
  by pat_completeness auto
termination
  by (relation "measure (\<lambda>(v, offset, width, i). width - i)") auto

declare continuations_ok.simps [simp del]

lemma lead_width_pos: "lead_width l = Some w \<Longrightarrow> 0 < w"
  by (auto simp: lead_width_def split: if_splits)

function completeUtf8Prefix_from :: "string \<Rightarrow> nat \<Rightarrow> nat" where
  "completeUtf8Prefix_from v offset =
     (if offset < length v
      then (case lead_width (uchar (v ! offset)) of
              None \<Rightarrow> offset
            | Some width \<Rightarrow>
                if offset + width > length v then offset
                else if \<not> continuations_ok v offset width 1 then offset
                else completeUtf8Prefix_from v (offset + width))
      else offset)"
  by pat_completeness auto
termination
  by (relation "measure (\<lambda>(v, offset). length v - offset)") (auto dest: lead_width_pos)

declare completeUtf8Prefix_from.simps [simp del]

definition completeUtf8Prefix :: "string \<Rightarrow> nat" where
  "completeUtf8Prefix v = completeUtf8Prefix_from v 0"

function validUtf8_from :: "string \<Rightarrow> nat \<Rightarrow> bool" where
  "validUtf8_from v offset =
     (if offset < length v
      then (case lead_width (uchar (v ! offset)) of
              None \<Rightarrow> False
            | Some width \<Rightarrow>
                if offset + width > length v then False
                else if \<not> continuations_ok v offset width 1 then False
                else validUtf8_from v (offset + width))
      else True)"
  by pat_completeness auto
termination
  by (relation "measure (\<lambda>(v, offset). length v - offset)") (auto dest: lead_width_pos)

declare validUtf8_from.simps [simp del]

definition validUtf8 :: "string \<Rightarrow> bool" where
  "validUtf8 v = validUtf8_from v 0"

section \<open>The Unicode specification of UTF-8\<close>

definition scalar_value :: "nat \<Rightarrow> bool" where
  "scalar_value cp \<longleftrightarrow> cp < 0x110000 \<and> \<not> (0xD800 \<le> cp \<and> cp \<le> 0xDFFF)"

definition utf8_encode :: "nat \<Rightarrow> string" where
  "utf8_encode cp =
     (if cp < 0x80 then [char_of cp]
      else if cp < 0x800 then [char_of (0xC0 + cp div 64), char_of (0x80 + cp mod 64)]
      else if cp < 0x10000 then
        [char_of (0xE0 + cp div 4096), char_of (0x80 + cp div 64 mod 64), char_of (0x80 + cp mod 64)]
      else
        [char_of (0xF0 + cp div 262144), char_of (0x80 + cp div 4096 mod 64),
         char_of (0x80 + cp div 64 mod 64), char_of (0x80 + cp mod 64)])"

definition utf8_text :: "nat list \<Rightarrow> string" where
  "utf8_text cps = concat (map utf8_encode cps)"

definition well_formed :: "string \<Rightarrow> bool" where
  "well_formed t \<longleftrightarrow> (\<exists>cps. (\<forall>cp \<in> set cps. scalar_value cp) \<and> t = utf8_text cps)"


section \<open>Byte-level characterisation of the scanners\<close>


lemma uchar_le_nat: "(uchar a \<le> w) = (of_char a \<le> unat w)" "(w \<le> uchar a) = (unat w \<le> of_char a)"
  "(uchar a < w) = (of_char a < unat w)" "(uchar a = w) = (of_char a = unat w)"
  by (simp_all add: word_le_nat_alt word_less_nat_alt word_unat_eq_iff)

lemma lead_width_nat:
  "lead_width (uchar c) =
     (let l = of_char c :: nat in
      if l < 128 then Some 1
      else if 194 \<le> l \<and> l < 224 then Some 2
      else if 224 \<le> l \<and> l < 240 then Some 3
      else if 240 \<le> l \<and> l < 245 then Some 4
      else None)"
  by (auto simp: lead_width_def uchar_le_nat Let_def)

lemma continuation_bad_nat:
  "continuation_bad (uchar a) i (uchar b) =
     (let l = of_char a :: nat; c = of_char b :: nat in
      \<not> (128 \<le> c \<and> c < 192) \<or>
      (i = 1 \<and> (l = 224 \<and> c < 160 \<or> l = 237 \<and> 160 \<le> c \<or> l = 240 \<and> c < 144 \<or> l = 244 \<and> 144 \<le> c)))"
  by (simp add: continuation_bad_def and_0xC0_eq_0x80 uchar_le_nat Let_def)

lemma continuations_ok_1: "continuations_ok v off (Suc 0) (Suc 0)"
  by (simp add: continuations_ok.simps)

lemma continuations_ok_2:
  "continuations_ok v off 2 1 = (\<not> continuation_bad (uchar (v ! off)) 1 (uchar (v ! (off + 1))))"
  by (simp add: continuations_ok.simps [of v off 2])

lemma continuations_ok_3:
  "continuations_ok v off 3 1 = (\<not> continuation_bad (uchar (v ! off)) 1 (uchar (v ! (off + 1)))
     \<and> \<not> continuation_bad (uchar (v ! off)) 2 (uchar (v ! (off + 2))))"
  by (simp add: continuations_ok.simps eval_nat_numeral)

lemma continuations_ok_4:
  "continuations_ok v off 4 1 = (\<not> continuation_bad (uchar (v ! off)) 1 (uchar (v ! (off + 1)))
     \<and> \<not> continuation_bad (uchar (v ! off)) 2 (uchar (v ! (off + 2)))
     \<and> \<not> continuation_bad (uchar (v ! off)) 3 (uchar (v ! (off + 3))))"
  by (simp add: continuations_ok.simps eval_nat_numeral)

lemma upt_small: "[0..<2] = [0, 1]" "[0..<3] = [0, 1, 2]" "[0..<4] = [0, 1, 2, 3]"
  by (simp_all add: upt_rec eval_nat_numeral)

lemmas continuations_ok_simps = continuations_ok_1 continuations_ok_2 [simplified] continuations_ok_3 [simplified]
  continuations_ok_4 [simplified]

definition sequence_bytes :: "nat list \<Rightarrow> bool" where
  "sequence_bytes bs = (case bs of
      [a] \<Rightarrow> a < 128
    | [a, b] \<Rightarrow> 194 \<le> a \<and> a < 224 \<and> 128 \<le> b \<and> b < 192
    | [a, b, c] \<Rightarrow> 224 \<le> a \<and> a < 240 \<and> 128 \<le> b \<and> b < 192 \<and> 128 \<le> c \<and> c < 192
         \<and> (a = 224 \<longrightarrow> 160 \<le> b) \<and> (a = 237 \<longrightarrow> b < 160)
    | [a, b, c, d] \<Rightarrow> 240 \<le> a \<and> a < 245 \<and> 128 \<le> b \<and> b < 192 \<and> 128 \<le> c \<and> c < 192
         \<and> 128 \<le> d \<and> d < 192 \<and> (a = 240 \<longrightarrow> 144 \<le> b) \<and> (a = 244 \<longrightarrow> b < 144)
    | _ \<Rightarrow> False)"

lemma utf8_encode_bytes: 
  assumes "scalar_value cp" shows "sequence_bytes (map of_char (utf8_encode cp))"
proof -
  consider "cp < 0x80" | "0x80 \<le> cp" "cp < 0x800" | "0x800 \<le> cp" "cp < 0x10000" | "0x10000 \<le> cp" "cp < 0x110000"
    using assms unfolding scalar_value_def by linarith
  then show ?thesis
  proof cases
    case 1 then show ?thesis by (simp add: utf8_encode_def sequence_bytes_def)
  next
    case 2
    then have "cp div 64 < 32" "2 \<le> cp div 64" "cp mod 64 < 64" by auto
    with 2 show ?thesis by (simp add: utf8_encode_def sequence_bytes_def)
  next
    case 3
    define q where "q = cp div 64"
    have q: "cp div 4096 = q div 64" using div_mult2_eq [of cp 64 64] by (simp add: q_def)
    have "32 \<le> q" "q < 1024" using 3 by (auto simp: q_def)
    moreover have "q < 864 \<or> 896 \<le> q" using assms by (auto simp: q_def scalar_value_def)
    moreover have "q = 64 * (q div 64) + q mod 64" "q mod 64 < 64" by simp_all
    ultimately have "q div 64 < 16" "q mod 64 < 64" "cp mod 64 < 64" "q div 64 = 0 \<longrightarrow> 32 \<le> q mod 64"
      "q div 64 = 13 \<longrightarrow> q mod 64 < 32" by linarith+
    then have "cp div 4096 < 16" "cp div 64 mod 64 < 64" "cp mod 64 < 64"
      "cp div 4096 = 0 \<longrightarrow> 32 \<le> cp div 64 mod 64" "cp div 4096 = 13 \<longrightarrow> cp div 64 mod 64 < 32"
      unfolding q unfolding q_def by simp_all
    then show ?thesis using 3 by (simp add: utf8_encode_def sequence_bytes_def)
  next
    case 4
    define q where "q = cp div 4096"
    have q: "cp div 262144 = q div 64" using div_mult2_eq [of cp 4096 64] by (simp add: q_def)
    have "16 \<le> q" "q < 272" using 4 by (auto simp: q_def)
    moreover have "q = 64 * (q div 64) + q mod 64" "q mod 64 < 64" by simp_all
    ultimately have "q div 64 < 5" "q mod 64 < 64" "q div 64 = 0 \<longrightarrow> 16 \<le> q mod 64"
      "q div 64 = 4 \<longrightarrow> q mod 64 < 16" by linarith+
    then have "cp div 262144 < 5" "cp div 4096 mod 64 < 64" "cp div 64 mod 64 < 64" "cp mod 64 < 64"
      "cp div 262144 = 0 \<longrightarrow> 16 \<le> cp div 4096 mod 64" "cp div 262144 = 4 \<longrightarrow> cp div 4096 mod 64 < 16"
      unfolding q unfolding q_def by simp_all
    then show ?thesis using 4 by (simp add: utf8_encode_def sequence_bytes_def)
  qed
qed

lemma sequence_bytes_encode:
  assumes "sequence_bytes (map of_char t)"
  shows "\<exists>cp. scalar_value cp \<and> utf8_encode cp = t"
proof -
  consider a where "t = [a]" | a b where "t = [a,b]" | a b c where "t = [a,b,c]" | a b c d where "t = [a,b,c,d]"
    using assms by (auto simp: sequence_bytes_def split: list.splits)
  then show ?thesis
  proof cases
    case (1 a)
    with assms have "(of_char a::nat) < 128" by (simp add: sequence_bytes_def)
    with 1 show ?thesis by (intro exI [of _ "of_char a"]) (simp add: utf8_encode_def scalar_value_def)
  next
    case (2 a b)
    define x y where "x = (of_char a::nat) - 192" and "y = (of_char b :: nat) - 128"
    with assms 2 have ab: "(of_char a::nat) = 192 + x" "(of_char b::nat) = 128 + y" and "2 \<le> x" "x < 32" "y < 64"
      by (auto simp: sequence_bytes_def)
    then have "a = char_of (192 + x)" "b = char_of (128 + y)" by (metis char_of_char)+
    with \<open>2 \<le> x\<close> \<open>x < 32\<close> \<open>y < 64\<close> 2 show ?thesis
      by (intro exI [of _ "x * 64 + y"]) (auto simp: utf8_encode_def scalar_value_def)
  next
    case (3 a b c)
    define x y z where "x = (of_char a::nat) - 224" and "y = (of_char b :: nat) - 128" and "z = (of_char c :: nat) - 128"
    with assms 3 have ab: "(of_char a::nat) = 224 + x" "(of_char b::nat) = 128 + y" "(of_char c::nat) = 128 + z"
      and b: "x < 16" "y < 64" "z < 64" "x = 0 \<longrightarrow> 32 \<le> y" "x = 13 \<longrightarrow> y < 32"
      by (auto simp: sequence_bytes_def)
    then have "a = char_of (224 + x)" "b = char_of (128 + y)" "c = char_of (128 + z)" by (metis char_of_char)+
    moreover define cp where "cp = (x * 64 + y) * 64 + z"
    have "2048 \<le> cp" "cp < 65536" using b unfolding cp_def by (cases "x = 0"; simp)+
    moreover have "cp div 64 = x * 64 + y" "cp mod 64 = z" using b unfolding cp_def by (simp_all only: div_mult_add mod_mult_add)
    moreover have "cp div 4096 = x"
      using div_mult2_eq [of cp 64 64] unfolding \<open>cp div 64 = x * 64 + y\<close> div_mult_add [OF b(2)] by simp
    moreover have "scalar_value cp" using b unfolding cp_def scalar_value_def
      by (cases "x < 13"; cases "x = 13"; simp; linarith)
    ultimately show ?thesis using 3 b by (intro exI [of _ cp]) (simp add: utf8_encode_def div_mult_add mod_mult_add)
  next
    case (4 a b c d)
    define x y z u where "x = (of_char a::nat) - 240" and "y = (of_char b :: nat) - 128" and "z = (of_char c :: nat) - 128"
      and "u = (of_char d :: nat) - 128"
    with assms 4 have ab: "(of_char a::nat) = 240 + x" "(of_char b::nat) = 128 + y" "(of_char c::nat) = 128 + z" "(of_char d::nat) = 128 + u"
      and b: "x < 5" "y < 64" "z < 64" "u < 64" "x = 0 \<longrightarrow> 16 \<le> y" "x = 4 \<longrightarrow> y < 16"
      by (auto simp: sequence_bytes_def)
    then have "a = char_of (240 + x)" "b = char_of (128 + y)" "c = char_of (128 + z)" "d = char_of (128 + u)" by (metis char_of_char)+
    moreover define cp where "cp = ((x * 64 + y) * 64 + z) * 64 + u"
    have "65536 \<le> cp" "cp < 1114112" using b unfolding cp_def by (cases "x = 0"; cases "x = 4"; simp)+
    moreover have "cp div 64 = (x * 64 + y) * 64 + z" "cp mod 64 = u" using b unfolding cp_def by (simp_all only: div_mult_add mod_mult_add)
    moreover have "cp div 64 mod 64 = z"
      unfolding \<open>cp div 64 = (x * 64 + y) * 64 + z\<close> by (rule mod_mult_add [OF b(3)])
    moreover have "cp div 4096 mod 64 = y"
      using div_mult2_eq [of cp 64 64] unfolding \<open>cp div 64 = (x * 64 + y) * 64 + z\<close> div_mult_add [OF b(3)]
      using b(2) by simp
    moreover have "cp div 4096 = x * 64 + y"
      using div_mult2_eq [of cp 64 64] unfolding \<open>cp div 64 = (x * 64 + y) * 64 + z\<close> div_mult_add [OF b(3)] by simp
    moreover have "cp div 262144 = x"
      using div_mult2_eq [of cp 4096 64] unfolding \<open>cp div 4096 = x * 64 + y\<close> div_mult_add [OF b(2)] by simp
    ultimately show ?thesis using 4 b
      by (intro exI [of _ cp]) (simp add: utf8_encode_def scalar_value_def div_mult_add mod_mult_add)
  qed
qed

text \<open>One step of either scanner at an offset.\<close>

definition scan_step :: "string \<Rightarrow> nat \<Rightarrow> nat option" where
  "scan_step v off = (if off < length v then
     (case lead_width (uchar (v ! off)) of None \<Rightarrow> None
      | Some w \<Rightarrow> if off + w \<le> length v \<and> continuations_ok v off w 1 then Some w else None) else None)"

lemma scan_step_bytes:
  assumes "scan_step v off = Some w"
  shows "off < length v \<and> off + w \<le> length v \<and> sequence_bytes (map of_char (take w (drop off v)))"
proof -
  from assms have off: "off < length v" and lw: "lead_width (uchar (v ! off)) = Some w"
    and le: "off + w \<le> length v" and ok: "continuations_ok v off w 1"
    by (auto simp: scan_step_def split: if_splits option.splits)
  have nth: "take w (drop off v) = map (\<lambda>i. v ! (off + i)) [0..<w]"
    using le by (intro nth_equalityI) auto
  from lw consider "w = 1" | "w = 2" | "w = 3" | "w = 4"
    by (auto simp: lead_width_def split: if_splits)
  then have "sequence_bytes (map of_char (take w (drop off v)))"
  proof cases
    case 1 with lw show ?thesis unfolding nth
      by (auto simp: lead_width_nat Let_def sequence_bytes_def split: if_splits)
  next
    case 2 with lw ok show ?thesis unfolding nth
      by (auto simp: lead_width_nat continuations_ok_simps continuation_bad_nat Let_def sequence_bytes_def upt_small split: if_splits)
  next
    case 3 with lw ok show ?thesis unfolding nth
      by (auto simp: lead_width_nat continuations_ok_simps continuation_bad_nat Let_def sequence_bytes_def upt_small split: if_splits)
  next
    case 4 with lw ok show ?thesis unfolding nth
      by (auto simp: lead_width_nat continuations_ok_simps continuation_bad_nat Let_def sequence_bytes_def upt_small split: if_splits)
  qed
  with off le show ?thesis by simp
qed

lemma scan_step_encoded:
  assumes "drop off v = utf8_encode cp @ rest" "scalar_value cp"
  shows "scan_step v off = Some (length (utf8_encode cp))"
proof -
  let ?t = "utf8_encode cp"
  have sb: "sequence_bytes (map of_char ?t)" using assms(2) by (rule utf8_encode_bytes)
  have ne: "?t \<noteq> []" by (auto simp: utf8_encode_def)
  have len: "off + length ?t \<le> length v"
    using arg_cong [OF assms(1), of length] ne by (cases "off \<le> length v") auto
  have nth: "v ! (off + i) = ?t ! i" if "i < length ?t" for i
    using that assms(1) len by (metis (no_types) add_leD1 nth_append nth_drop)
  have nth0: "v ! off = ?t ! 0" using nth [of 0] ne by simp
  from sb consider a where "?t = [a]" | a b where "?t = [a,b]" | a b c where "?t = [a,b,c]" | a b c d where "?t = [a,b,c,d]"
    by (auto simp: sequence_bytes_def split: list.splits)
  then show ?thesis
  proof cases
    case (1 a) with sb len nth0 show ?thesis
      by (simp add: scan_step_def lead_width_nat sequence_bytes_def continuations_ok_1)
  next
    case (2 a b) with sb len nth0 nth [of 1] show ?thesis
      by (auto simp: scan_step_def lead_width_nat sequence_bytes_def continuations_ok_simps continuation_bad_nat Let_def)
  next
    case (3 a b c) with sb len nth0 nth [of 1] nth [of 2] show ?thesis
      by (auto simp: scan_step_def lead_width_nat sequence_bytes_def continuations_ok_simps continuation_bad_nat Let_def)
  next
    case (4 a b c d) with sb len nth0 nth [of 1] nth [of 2] nth [of 3] show ?thesis
      by (auto simp: scan_step_def lead_width_nat sequence_bytes_def continuations_ok_simps continuation_bad_nat Let_def)
  qed
qed

lemma scan_step_iff:
  "scan_step v off = Some w \<longleftrightarrow>
     (\<exists>cp rest. scalar_value cp \<and> drop off v = utf8_encode cp @ rest \<and> w = length (utf8_encode cp))"
proof
  assume s: "scan_step v off = Some w"
  from scan_step_bytes [OF s] obtain cp where cp: "scalar_value cp" "utf8_encode cp = take w (drop off v)"
    using sequence_bytes_encode by blast
  moreover have "drop off v = take w (drop off v) @ drop w (drop off v)" by (simp only: append_take_drop_id)
  moreover have "length (take w (drop off v)) = w" using scan_step_bytes [OF s] by auto
  ultimately show "\<exists>cp rest. scalar_value cp \<and> drop off v = utf8_encode cp @ rest \<and> w = length (utf8_encode cp)"
    by metis
next
  assume "\<exists>cp rest. scalar_value cp \<and> drop off v = utf8_encode cp @ rest \<and> w = length (utf8_encode cp)"
  then show "scan_step v off = Some w" using scan_step_encoded by blast
qed

lemma scan_step_pos: "scan_step v off = Some w \<Longrightarrow> 0 < w \<and> off + w \<le> length v"
  using scan_step_bytes [of v off w] by (cases w) (auto simp: sequence_bytes_def)

lemma completeUtf8Prefix_from_step:
  "completeUtf8Prefix_from v off = (case scan_step v off of None \<Rightarrow> off | Some w \<Rightarrow> completeUtf8Prefix_from v (off + w))"
  by (subst completeUtf8Prefix_from.simps) (auto simp: scan_step_def split: option.splits)

lemma validUtf8_from_step:
  "validUtf8_from v off = (if off < length v then
     (case scan_step v off of None \<Rightarrow> False | Some w \<Rightarrow> validUtf8_from v (off + w)) else True)"
  by (subst validUtf8_from.simps) (auto simp: scan_step_def split: option.splits)

lemma utf8_text_simps [simp]:
  "utf8_text [] = []" "utf8_text (cp # cps) = utf8_encode cp @ utf8_text cps"
  "utf8_text (xs @ ys) = utf8_text xs @ utf8_text ys"
  by (simp_all add: utf8_text_def)

lemma well_formed_Nil [simp]: "well_formed []"
  unfolding well_formed_def by (rule exI [of _ "[]"]) simp

lemma well_formed_Cons: "scalar_value cp \<Longrightarrow> well_formed t \<Longrightarrow> well_formed (utf8_encode cp @ t)"
  unfolding well_formed_def by (metis utf8_text_simps(2) set_ConsD)

lemma well_formed_append: "well_formed s \<Longrightarrow> well_formed t \<Longrightarrow> well_formed (s @ t)"
  unfolding well_formed_def by (metis Un_iff set_append utf8_text_simps(3))

lemma completeUtf8Prefix_from_props:
  "off \<le> length v \<Longrightarrow> off \<le> completeUtf8Prefix_from v off \<and> completeUtf8Prefix_from v off \<le> length v
     \<and> well_formed (take (completeUtf8Prefix_from v off - off) (drop off v))"
proof (induction "length v - off" arbitrary: off rule: less_induct)
  case less
  show ?case
  proof (cases "scan_step v off")
    case None
    with less.prems show ?thesis by (simp add: completeUtf8Prefix_from_step [of v off])
  next
    case (Some w)
    from scan_step_pos [OF Some] have w: "0 < w" "off + w \<le> length v" by simp_all
    from Some obtain cp rest where cp: "scalar_value cp" "drop off v = utf8_encode cp @ rest" "w = length (utf8_encode cp)"
      by (auto simp: scan_step_iff)
    let ?r = "completeUtf8Prefix_from v (off + w)"
    from less.hyps [of "off + w"] w have IH: "off + w \<le> ?r" "?r \<le> length v"
      "well_formed (take (?r - (off + w)) (drop (off + w) v))" by simp_all
    have "drop (off + w) v = rest" using cp by (metis append_eq_conv_conj drop_drop add.commute)
    then have "take (?r - off) (drop off v) = utf8_encode cp @ take (?r - (off + w)) (drop (off + w) v)"
      using cp IH(1) by simp
    with IH w cp(1) Some show ?thesis
      by (simp add: completeUtf8Prefix_from_step [of v off] well_formed_Cons)
  qed
qed

lemma completeUtf8Prefix_from_maximal:
  assumes "\<forall>cp \<in> set cps. scalar_value cp" "drop off v = utf8_text cps @ rest"
  shows "off + length (utf8_text cps) \<le> completeUtf8Prefix_from v off \<or> length v < off"
  using assms
proof (induction cps arbitrary: off)
  case Nil
  show ?case
  proof (cases "off \<le> length v")
    case True then show ?thesis using completeUtf8Prefix_from_props [of off v] by simp
  qed simp
next
  case (Cons cp cps)
  then have s: "scan_step v off = Some (length (utf8_encode cp))"
    by (intro scan_step_encoded [where rest = "utf8_text cps @ rest"]) simp_all
  from Cons.prems(2) have "drop (off + length (utf8_encode cp)) v = utf8_text cps @ rest"
    by (metis append.assoc append_eq_conv_conj drop_drop add.commute utf8_text_simps(2))
  with Cons.IH [of "off + length (utf8_encode cp)"] Cons.prems(1) s scan_step_pos [OF s]
  show ?case by (auto simp: completeUtf8Prefix_from_step [of v off])
qed

lemma validUtf8_from_iff: "off \<le> length v \<Longrightarrow> validUtf8_from v off = (completeUtf8Prefix_from v off = length v)"
proof (induction "length v - off" arbitrary: off rule: less_induct)
  case less
  show ?case
  proof (cases "scan_step v off")
    case None
    with less.prems show ?thesis
      by (auto simp: completeUtf8Prefix_from_step [of v off] validUtf8_from_step [of v off])
  next
    case (Some w)
    from scan_step_pos [OF Some] have w: "0 < w" "off + w \<le> length v" by simp_all
    with Some less.hyps [of "off + w"] show ?thesis
      by (auto simp: completeUtf8Prefix_from_step [of v off] validUtf8_from_step [of v off])
  qed
qed

lemma completeUtf8Prefix_le: "completeUtf8Prefix v \<le> length v"
  and completeUtf8Prefix_well_formed: "well_formed (take (completeUtf8Prefix v) v)"
  using completeUtf8Prefix_from_props [of 0 v] by (simp_all add: completeUtf8Prefix_def)

lemma completeUtf8Prefix_greatest:
  assumes "k \<le> length v" "well_formed (take k v)"
  shows "k \<le> completeUtf8Prefix v"
proof -
  from assms(2) obtain cps where cps: "\<forall>cp \<in> set cps. scalar_value cp" "take k v = utf8_text cps"
    unfolding well_formed_def by blast
  have "drop 0 v = utf8_text cps @ drop k v" using cps(2) by (metis append_take_drop_id drop0)
  from completeUtf8Prefix_from_maximal [OF cps(1) this] have "length (utf8_text cps) \<le> completeUtf8Prefix v"
    by (simp add: completeUtf8Prefix_def)
  moreover have "length (utf8_text cps) = k" using assms(1) cps(2) by (metis length_take min.absorb2)
  ultimately show ?thesis by simp
qed

lemma validUtf8_well_formed: "validUtf8 v = well_formed v"
proof -
  have "validUtf8 v = (completeUtf8Prefix v = length v)"
    using validUtf8_from_iff [of 0 v] by (simp add: validUtf8_def completeUtf8Prefix_def)
  then show ?thesis
    using completeUtf8Prefix_well_formed [of v] completeUtf8Prefix_greatest [of "length v" v] completeUtf8Prefix_le [of v]
    by fastforce
qed

text \<open>A boundary between two characters of a well-formed text keeps both sides well-formed.\<close>

lemma utf8_encode_nonempty [simp]: "utf8_encode cp \<noteq> []"
  by (auto simp: utf8_encode_def)

lemma utf8_encode_ascii:
  assumes "scalar_value cp" "c \<in> set (utf8_encode cp)" "(of_char c :: nat) < 128"
  shows "utf8_encode cp = [c]"
  using utf8_encode_bytes [OF assms(1)] assms(2,3)
  by (auto simp: sequence_bytes_def split: list.splits)

lemma well_formed_split_ascii:
  assumes "well_formed (s @ c # t)" "(of_char c :: nat) < 128"
  shows "well_formed s \<and> well_formed (s @ [c])"
proof -
  from assms(1) obtain cps where "\<forall>cp \<in> set cps. scalar_value cp" "s @ c # t = utf8_text cps"
    unfolding well_formed_def by blast
  then show ?thesis
  proof (induction cps arbitrary: s)
    case Nil then show ?case by simp
  next
    case (Cons cp cps)
    show ?case
    proof (cases "length s < length (utf8_encode cp)")
      case True
      have "c = (s @ c # t) ! length s" by simp
      also have "\<dots> = utf8_encode cp ! length s"
        unfolding Cons.prems(2) using True by (simp add: nth_append)
      finally have "c \<in> set (utf8_encode cp)" using True by simp
      with Cons.prems(1) assms(2) have e: "utf8_encode cp = [c]" by (intro utf8_encode_ascii) auto
      with True have "s = []" by simp
      with e Cons.prems(1) well_formed_Cons [of cp "[]"] show ?thesis by simp
    next
      case False
      have "\<exists>s'. s = utf8_encode cp @ s' \<and> s' @ c # t = utf8_text cps"
      proof -
        from Cons.prems(2) obtain us where
          "s @ us = utf8_encode cp \<and> c # t = us @ utf8_text cps \<or> s = utf8_encode cp @ us \<and> us @ c # t = utf8_text cps"
          by (auto simp: append_eq_append_conv2)
        moreover have "us = []" if "s @ us = utf8_encode cp"
          using False arg_cong [OF that, of length] by (simp flip: length_0_conv)
        ultimately show ?thesis by force
      qed
      then obtain s' where s': "s = utf8_encode cp @ s'" "s' @ c # t = utf8_text cps" by blast
      with Cons.IH [of s'] Cons.prems(1) show ?thesis by (simp add: well_formed_Cons)
    qed
  qed
qed

section \<open>Word boundaries and trimming\<close>

definition blank_char :: "char \<Rightarrow> bool" where
  "blank_char c \<longleftrightarrow> c = CHR '' '' \<or> c = CHR 0x09 \<or> c = CHR 0x0D \<or> c = CHR 0x0A"

definition punct_char :: "char \<Rightarrow> bool" where
  "punct_char c \<longleftrightarrow> c = CHR ''.'' \<or> c = CHR ''!'' \<or> c = CHR ''?'' \<or> c = CHR '','' \<or> c = CHR '';'' \<or> c = CHR '':''"

definition lastCompleteWordBoundary :: "string \<Rightarrow> nat \<Rightarrow> nat" where
  "lastCompleteWordBoundary v completeBytes =
     fold (\<lambda>i boundary.
        if blank_char (v ! i) then i + 1
        else if punct_char (v ! i) then i + 1
        else boundary) [0..<completeBytes] 0"

function trimProgress :: "string \<Rightarrow> string" where
  "trimProgress v = (if v \<noteq> [] \<and> blank_char (last v) then trimProgress (butlast v) else v)"
  by pat_completeness auto
termination
  by (relation "measure length") auto

declare trimProgress.simps [simp del]

lemma boundary_props:
  "lastCompleteWordBoundary v n \<le> n \<and>
   (lastCompleteWordBoundary v n = 0 \<or>
     (let c = v ! (lastCompleteWordBoundary v n - 1) in blank_char c \<or> punct_char c)) \<and>
   (\<forall>i. lastCompleteWordBoundary v n \<le> i \<and> i < n \<longrightarrow> \<not> blank_char (v ! i) \<and> \<not> punct_char (v ! i))"
proof (induction n)
  case 0
  show ?case by (simp add: lastCompleteWordBoundary_def)
next
  case (Suc n)
  have step: "lastCompleteWordBoundary v (Suc n) =
      (if blank_char (v ! n) \<or> punct_char (v ! n) then Suc n else lastCompleteWordBoundary v n)"
    by (simp add: lastCompleteWordBoundary_def)
  show ?case
  proof (cases "blank_char (v ! n) \<or> punct_char (v ! n)")
    case True
    then show ?thesis unfolding step by (auto simp: Let_def)
  next
    case False
    with Suc.IH show ?thesis unfolding step by (auto simp: less_Suc_eq)
  qed
qed

lemma boundary_le: "lastCompleteWordBoundary v n \<le> n"
  using boundary_props [of v n] by simp

lemma boundary_mono:
  assumes "n \<le> m" "m \<le> length w" "take n v = take n w" "n \<le> length v"
  shows "lastCompleteWordBoundary v n \<le> lastCompleteWordBoundary w m"
proof (rule ccontr)
  let ?b = "lastCompleteWordBoundary v n"
  assume "\<not> ?b \<le> lastCompleteWordBoundary w m"
  then have lt: "lastCompleteWordBoundary w m \<le> ?b - 1" "?b \<noteq> 0" by simp_all
  with boundary_props [of v n] have "blank_char (v ! (?b - 1)) \<or> punct_char (v ! (?b - 1))"
    by (simp add: Let_def)
  moreover have "v ! (?b - 1) = w ! (?b - 1)"
    using assms lt boundary_le [of v n] nth_take [of "?b - 1" n v] nth_take [of "?b - 1" n w] by simp
  moreover have "?b - 1 < m" using lt boundary_le [of v n] assms by linarith
  ultimately show False using boundary_props [of w m] lt by auto
qed

lemma ascii_break: "blank_char c \<or> punct_char c \<Longrightarrow> (of_char c :: nat) < 128"
  by (auto simp: blank_char_def punct_char_def)

lemma boundary_well_formed:
  assumes "n \<le> length v" "well_formed (take n v)"
  shows "well_formed (take (lastCompleteWordBoundary v n) v)"
proof -
  let ?b = "lastCompleteWordBoundary v n"
  show ?thesis
  proof (cases "?b = 0")
    case False
    then have br: "blank_char (v ! (?b - 1)) \<or> punct_char (v ! (?b - 1))"
      using boundary_props [of v n] by (simp add: Let_def)
    have lt: "?b - 1 < n" using boundary_le [of v n] False by simp
    have "take n v = take (?b - 1) v @ v ! (?b - 1) # drop ?b (take n v)"
      using id_take_nth_drop [of "?b - 1" "take n v"] lt assms(1) False by (simp add: min_def)
    with assms(2) have "well_formed (take (?b - 1) v @ [v ! (?b - 1)])"
      using well_formed_split_ascii ascii_break [OF br] by metis
    then show ?thesis
      using take_Suc_conv_app_nth [of "?b - 1" v] lt assms(1) False by simp
  qed simp
qed

lemma trimProgress_props:
  "\<exists>ws. v = trimProgress v @ ws \<and> (\<forall>c \<in> set ws. blank_char c)
     \<and> (trimProgress v \<noteq> [] \<longrightarrow> \<not> blank_char (last (trimProgress v)))"
proof (induction v rule: trimProgress.induct)
  case (1 v)
  show ?case
  proof (cases "v \<noteq> [] \<and> blank_char (last v)")
    case True
    with "1.IH" obtain ws where "butlast v = trimProgress (butlast v) @ ws" "\<forall>c \<in> set ws. blank_char c"
       "trimProgress (butlast v) \<noteq> [] \<longrightarrow> \<not> blank_char (last (trimProgress (butlast v)))" by blast
    with True show ?thesis
      by (intro exI [of _ "ws @ [last v]"])
        (auto simp: trimProgress.simps [of v] append_assoc [symmetric] simp del: append_assoc)
  next
    case False
    then show ?thesis by (intro exI [of _ "[]"]) (auto simp: trimProgress.simps [of v])
  qed
qed

lemma trimProgress_prefix: "\<exists>ws. v = trimProgress v @ ws"
  using trimProgress_props by blast

lemma trimProgress_length: "length (trimProgress v) \<le> length v"
  using trimProgress_prefix [of v] by (metis le_add1 length_append)

lemma trimProgress_well_formed: "well_formed v \<Longrightarrow> well_formed (trimProgress v)"
proof (induction v rule: trimProgress.induct)
  case (1 v)
  show ?case
  proof (cases "v \<noteq> [] \<and> blank_char (last v)")
    case True
    with "1.prems" have "well_formed (butlast v @ [last v])" by simp
    with True have "well_formed (butlast v)"
      using well_formed_split_ascii [of "butlast v" "last v" "[]"] ascii_break by blast
    with True "1.IH" show ?thesis by (simp add: trimProgress.simps [of v])
  next
    case False
    with "1.prems" show ?thesis by (auto simp: trimProgress.simps [of v])
  qed
qed

lemma completeUtf8Prefix_append_le: "completeUtf8Prefix v \<le> completeUtf8Prefix (v @ w)"
  using completeUtf8Prefix_greatest [of "completeUtf8Prefix v" "v @ w"] completeUtf8Prefix_le [of v]
    completeUtf8Prefix_well_formed [of v] by simp

text \<open>The text a progress event shows for the bytes decoded so far.\<close>

definition visible_text :: "string \<Rightarrow> string" where
  "visible_text v = trimProgress (take (lastCompleteWordBoundary v (completeUtf8Prefix v)) v)"

lemma visible_text_well_formed: "well_formed (visible_text v)"
  unfolding visible_text_def
  by (intro trimProgress_well_formed boundary_well_formed completeUtf8Prefix_le completeUtf8Prefix_well_formed)

lemma visible_text_prefix: "\<exists>ws. v = visible_text v @ ws"
  unfolding visible_text_def by (metis trimProgress_prefix append_take_drop_id append_assoc)

lemma boundary_append_mono:
  "lastCompleteWordBoundary v (completeUtf8Prefix v) \<le> lastCompleteWordBoundary (v @ w) (completeUtf8Prefix (v @ w))"
  using completeUtf8Prefix_append_le [of v w] completeUtf8Prefix_le [of v] completeUtf8Prefix_le [of "v @ w"]
  by (intro boundary_mono) simp_all

section \<open>The offload line of the model loader's log\<close>

definition occurs_at :: "string \<Rightarrow> string \<Rightarrow> nat \<Rightarrow> bool" where
  "occurs_at pat s i \<longleftrightarrow> take (length pat) (drop i s) = pat"

text \<open>\<open>std::string::find(pat, pos)\<close> and \<open>std::string::rfind(pat)\<close>; \<open>None\<close> is \<open>npos\<close>.\<close>

definition str_find :: "string \<Rightarrow> string \<Rightarrow> nat \<Rightarrow> nat option" where
  "str_find pat s pos = List.find (occurs_at pat s) [pos..<Suc (length s)]"

definition str_rfind :: "string \<Rightarrow> string \<Rightarrow> nat option" where
  "str_rfind pat s = List.find (occurs_at pat s) (rev [0..<Suc (length s)])"

definition is_digit :: "char \<Rightarrow> bool" where
  "is_digit c \<longleftrightarrow> 48 \<le> (of_char c :: nat) \<and> (of_char c :: nat) \<le> 57"

definition is_space :: "char \<Rightarrow> bool" where
  "is_space c \<longleftrightarrow> c = CHR '' '' \<or> (9 \<le> (of_char c :: nat) \<and> (of_char c :: nat) \<le> 13)"

definition digits_value :: "string \<Rightarrow> nat" where
  "digits_value ds = foldl (\<lambda>v c. v * 10 + (of_char c - 48)) 0 ds"

text \<open>
  \<open>std::stoll\<close>, base 10: leading white space, an optional sign, the longest run of digits; \<open>None\<close>
  stands for its \<open>invalid_argument\<close> and \<open>out_of_range\<close> exceptions.
\<close>

definition stoll :: "string \<Rightarrow> int option" where
  "stoll s =
     (let t = dropWhile is_space s;
          neg = (t \<noteq> [] \<and> hd t = CHR ''-'');
          u = (if t \<noteq> [] \<and> (hd t = CHR ''-'' \<or> hd t = CHR ''+'') then tl t else t);
          ds = takeWhile is_digit u;
          v = (if neg then - int (digits_value ds) else int (digits_value ds))
      in if ds = [] then None
         else if - (2 ^ 63) \<le> v \<and> v < 2 ^ 63 then Some v else None)"

definition parseOffloadedLayers :: "string \<Rightarrow> int \<times> int" where
  "parseOffloadedLayers log =
     (let marker = ''offloaded '' in
      case str_rfind marker log of None \<Rightarrow> (0, 0)
      | Some start \<Rightarrow>
          (let valueStart = start + length marker in
           case str_find ''/'' log valueStart of None \<Rightarrow> (0, 0)
           | Some slash \<Rightarrow>
               (case str_find '' layers to GPU'' log slash of None \<Rightarrow> (0, 0)
                | Some end_ \<Rightarrow>
                    (case (stoll (take (slash - valueStart) (drop valueStart log)),
                           stoll (take (end_ - slash - 1) (drop (slash + 1) log))) of
                       (Some a, Some b) \<Rightarrow> (a, b)
                     | _ \<Rightarrow> (0, 0)))))"

lemma find_upt_Some:
  assumes "a \<le> k" "k < b" "P k" "\<And>i. a \<le> i \<Longrightarrow> i < k \<Longrightarrow> \<not> P i"
  shows "List.find P [a..<b] = Some k"
  unfolding find_Some_iff
  using assms by (intro exI [of _ "k - a"]) auto

lemma find_rev_upt_Some:
  assumes "k < b" "P k" "\<And>i. k < i \<Longrightarrow> i < b \<Longrightarrow> \<not> P i"
  shows "List.find P (rev [0..<b]) = Some k"
  using assms
proof (induction b)
  case (Suc b)
  show ?case
  proof (cases "k = b")
    case True with Suc.prems show ?thesis by simp
  next
    case False with Suc show ?thesis by simp
  qed
qed simp

lemma digits_value_append [simp]: "digits_value (xs @ [c]) = digits_value xs * 10 + (of_char c - 48)"
  by (simp add: digits_value_def)

lemma digits_value_nat_digits [simp]: "digits_value (nat_digits n) = n"
proof (induction n rule: nat_digits.induct)
  case (1 n)
  show ?case
  proof (cases "n < 10")
    case True then show ?thesis by (subst nat_digits.simps) (simp add: digits_value_def)
  next
    case False
    have "n mod 10 < 10" by simp
    with False "1" show ?thesis by (subst nat_digits.simps) (simp del: char_of_mod_256)
  qed
qed

lemma nat_digits_is_digit: "c \<in> set (nat_digits n) \<Longrightarrow> is_digit c"
  by (auto dest!: nat_digits_chars simp: is_digit_def)

lemma digit_not_special: "is_digit c \<Longrightarrow> \<not> is_space c \<and> c \<noteq> CHR ''-'' \<and> c \<noteq> CHR ''+'' \<and> c \<noteq> CHR ''/''"
  by (auto simp: is_digit_def is_space_def)

lemma stoll_nat_digits:
  assumes "n < 2 ^ 63"
  shows "stoll (nat_digits n) = Some (int n)"
proof -
  have hd: "is_digit (hd (nat_digits n))" by (rule nat_digits_is_digit [OF hd_in_set]) simp
  have "dropWhile is_space (nat_digits n) = nat_digits n"
    using digit_not_special [OF hd] by (cases "nat_digits n") simp_all
  moreover have "takeWhile is_digit (nat_digits n) = nat_digits n"
    unfolding takeWhile_eq_all_conv using nat_digits_is_digit by blast
  ultimately show ?thesis
    using digit_not_special [OF hd] assms
    by (simp add: stoll_def Let_def del: takeWhile_eq_all_conv)
qed

lemma parse_offload_line:
  assumes "log = pre @ ''offloaded '' @ nat_digits n @ ''/'' @ nat_digits m @ '' layers to GPU'' @ post"
    and "\<forall>i > length pre. \<not> occurs_at ''offloaded '' log i" and "n < 2 ^ 63" "m < 2 ^ 63"
  shows "parseOffloadedLayers log = (int n, int m)"
proof -
  let ?vs = "length pre + 10"
  let ?sl = "?vs + length (nat_digits n)"
  let ?en = "?sl + 1 + length (nat_digits m)"
  have L: "length log = ?en + 14 + length post" by (simp add: assms(1))
  have d0: "drop (length pre) log = ''offloaded '' @ nat_digits n @ ''/'' @ nat_digits m @ '' layers to GPU'' @ post"
    by (simp add: assms(1))
  have d1: "drop ?vs log = nat_digits n @ ''/'' @ nat_digits m @ '' layers to GPU'' @ post"
    using arg_cong [OF d0, of "drop 10"] by (simp add: add.commute)
  have d2: "drop ?sl log = ''/'' @ nat_digits m @ '' layers to GPU'' @ post"
    using arg_cong [OF d1, of "drop (length (nat_digits n))"] by (simp add: add.commute)
  have d3: "drop (Suc ?sl) log = nat_digits m @ '' layers to GPU'' @ post"
    using arg_cong [OF d2, of "drop 1"] by simp
  have d4: "drop ?en log = '' layers to GPU'' @ post"
    using arg_cong [OF d3, of "drop (length (nat_digits m))"] by (simp add: add.commute)
  have r: "str_rfind ''offloaded '' log = Some (length pre)"
    unfolding str_rfind_def
    by (rule find_rev_upt_Some) (use assms(2) d0 L in \<open>auto simp: occurs_at_def\<close>)
  have s: "str_find ''/'' log ?vs = Some ?sl"
    unfolding str_find_def
  proof (rule find_upt_Some)
    fix i assume i: "?vs \<le> i" "i < ?sl"
    have "drop i log = drop (i - ?vs) (drop ?vs log)" using i by simp
    also have "\<dots> = drop (i - ?vs) (nat_digits n) @ ''/'' @ nat_digits m @ '' layers to GPU'' @ post"
      using i by (simp add: d1)
    finally have D: "drop i log = drop (i - ?vs) (nat_digits n) @ ''/'' @ nat_digits m @ '' layers to GPU'' @ post" .
    have "i - ?vs < length (nat_digits n)" using i by linarith
    then have "hd (drop i log) = nat_digits n ! (i - ?vs)"
      unfolding D by (simp add: hd_append hd_drop_conv_nth)
    moreover have "is_digit (nat_digits n ! (i - ?vs))" using i by (intro nat_digits_is_digit [OF nth_mem]) simp
    ultimately show "\<not> occurs_at ''/'' log i"
      using digit_not_special by (cases "drop i log") (auto simp: occurs_at_def)
  qed (use d2 L in \<open>auto simp: occurs_at_def\<close>)
  have e: "str_find '' layers to GPU'' log ?sl = Some ?en"
    unfolding str_find_def
  proof (rule find_upt_Some)
    fix i assume i: "?sl \<le> i" "i < ?en"
    have "hd (drop i log) \<noteq> CHR '' ''" "drop i log \<noteq> []"
    proof -
      have D: "drop i log = drop (i - ?sl) (CHR ''/'' # nat_digits m) @ '' layers to GPU'' @ post"
      proof -
        have "drop i log = drop (i - ?sl) (drop ?sl log)" using i(1) by simp
        also have "drop ?sl log = (CHR ''/'' # nat_digits m) @ '' layers to GPU'' @ post"
          unfolding d2 by simp
        finally show ?thesis using i by (simp only: drop_append) simp
      qed
      with i have "hd (drop i log) = (CHR ''/'' # nat_digits m) ! (i - ?sl)"
        by (simp add: hd_append hd_drop_conv_nth)
      moreover have "(CHR ''/'' # nat_digits m) ! (i - ?sl) \<in> set (CHR ''/'' # nat_digits m)"
        using i by (intro nth_mem) simp
      moreover have "CHR '' '' \<notin> set (CHR ''/'' # nat_digits m)"
        using nat_digits_is_digit [of "CHR '' ''" m] by (auto simp: is_digit_def)
      ultimately show "hd (drop i log) \<noteq> CHR '' ''" by metis
      show "drop i log \<noteq> []" using i L by simp
    qed
    then show "\<not> occurs_at '' layers to GPU'' log i" by (cases "drop i log") (auto simp: occurs_at_def)
  qed (use d4 L in \<open>auto simp: occurs_at_def\<close>)
  have t: "take (?sl - ?vs) (drop ?vs log) = nat_digits n" "take (?en - ?sl - 1) (drop (?sl + 1) log) = nat_digits m"
    using d1 d3 by simp_all
  have ten: "length ''offloaded '' = 10" by simp
  show ?thesis
    unfolding parseOffloadedLayers_def Let_def ten r option.case s e t
      stoll_nat_digits [OF assms(3)] stoll_nat_digits [OF assms(4)] by simp
qed

end
