(* ===== verification/Text_Properties.thy ===== *)
theory Text_Properties imports Utf8_Text begin

text \<open>
  The properties of the text routines of \<open>translation.cpp\<close> and \<open>smoke.cpp\<close>, against the Unicode
  definition of UTF-8 as the image of the scalar values under the encoder.
\<close>

text \<open>C12. \<open>completeUtf8Prefix\<close> returns the length of the longest prefix that is valid UTF-8.\<close>

theorem completeUtf8Prefix_longest:
  "completeUtf8Prefix v = Max {k. k \<le> length v \<and> well_formed (take k v)}"
proof (rule Max_eqI [symmetric])
  show "finite {k. k \<le> length v \<and> well_formed (take k v)}"
    by (rule finite_subset [of _ "{..length v}"]) auto
qed (use completeUtf8Prefix_le completeUtf8Prefix_well_formed completeUtf8Prefix_greatest in auto)

text \<open>C13. The smoke test's \<open>validUtf8\<close> accepts exactly the encodings of sequences of Unicode scalar
  values: no overlong form, no surrogate, nothing above U+10FFFF, no truncated sequence.\<close>

theorem validUtf8_exact:
  "validUtf8 v = (\<exists>cps. (\<forall>cp \<in> set cps. scalar_value cp) \<and> v = utf8_text cps)"
  using validUtf8_well_formed [of v] by (simp add: well_formed_def)

theorem validUtf8_exact_witness:
  "validUtf8 [CHR 0xC3, CHR 0xA9] = (\<exists>cps. (\<forall>cp \<in> set cps. scalar_value cp) \<and> [CHR 0xC3, CHR 0xA9] = utf8_text cps)"
  by (rule validUtf8_exact)

text \<open>\<open>longestCommonPrefix\<close> returns the greatest length on which the two sequences agree.\<close>

theorem longestCommonPrefix_greatest:
  "longestCommonPrefix l r = Max {k. k \<le> length l \<and> k \<le> length r \<and> take k l = take k r}"
proof (rule Max_eqI [symmetric])
  show "finite {k. k \<le> length l \<and> k \<le> length r \<and> take k l = take k r}"
    by (rule finite_subset [of _ "{..length l}"]) auto
qed (use longestCommonPrefix_le longestCommonPrefix_take longestCommonPrefix_maximal in auto)

text \<open>The text a progress event shows ends at a word or punctuation boundary of the longest valid
  prefix, without trailing blanks: it is a prefix of the decoded bytes and valid UTF-8.\<close>

theorem visible_text_is_clean:
  "\<exists>rest. v = visible_text v @ rest \<and> well_formed (visible_text v)
     \<and> dropWhile blank_char (rev (visible_text v)) = rev (visible_text v)
     \<and> length (visible_text v) \<le> completeUtf8Prefix v"
proof -
  let ?b = "lastCompleteWordBoundary v (completeUtf8Prefix v)"
  obtain rest where "v = visible_text v @ rest" using visible_text_prefix by blast
  moreover have "dropWhile blank_char (rev (visible_text v)) = rev (visible_text v)"
    using trimProgress_props [of "take ?b v"]
    by (cases "visible_text v" rule: rev_cases) (auto simp: visible_text_def)
  moreover have "length (visible_text v) \<le> completeUtf8Prefix v"
  proof -
    have "length (visible_text v) \<le> length (take ?b v)"
      unfolding visible_text_def by (rule trimProgress_length)
    also have "\<dots> \<le> ?b" by simp
    also have "?b \<le> completeUtf8Prefix v" by (rule boundary_le)
    finally show ?thesis .
  qed
  ultimately show ?thesis using visible_text_well_formed by blast
qed

text \<open>A log line \<open>offloaded n/m layers to GPU\<close>, the last of its kind in the loader's log, is parsed
  to the pair (n, m).\<close>

theorem offload_line_is_parsed:
  assumes "log = pre @ ''offloaded '' @ nat_digits n @ ''/'' @ nat_digits m @ '' layers to GPU'' @ post"
    and "\<forall>i > length pre. \<not> occurs_at ''offloaded '' log i" and "n < 2 ^ 63" "m < 2 ^ 63"
  shows "parseOffloadedLayers log = (int n, int m)"
  using assms by (rule parse_offload_line)

theorem offload_line_is_parsed_witness:
  "parseOffloadedLayers (''x: '' @ ''offloaded '' @ nat_digits 29 @ ''/'' @ nat_digits 33 @ '' layers to GPU'' @ [CHR 0x0A])
     = (29, 33)"
proof -
  let ?log = "''x: '' @ ''offloaded '' @ nat_digits 29 @ ''/'' @ nat_digits 33 @ '' layers to GPU'' @ [CHR 0x0A]"
  have d: "nat_digits 29 = ''29''" "nat_digits 33 = ''33''"
    by (simp_all add: nat_digits.simps char_of_def bit_0)
  have "\<not> occurs_at ''offloaded '' ?log i" if "i > length ''x: ''" for i
  proof (cases "i < length ?log")
    case True
    then have "i \<in> {4..<33}" using that by (simp add: d)
    then have "i \<in> set [4..<33]" unfolding set_upt .
    then show ?thesis by (auto simp: occurs_at_def d upt_rec)
  next
    case False
    then show ?thesis by (simp add: occurs_at_def)
  qed
  then show ?thesis using offload_line_is_parsed [OF refl, of "''x: ''" 29 33 "[CHR 0x0A]"] by simp
qed

end
