(* ===== verification/Engine_Types.thy ===== *)
theory Engine_Types imports Utf8_Text begin

text \<open>
  \<open>translation.hpp\<close>: the request metadata, the progress event, the statistics and the cancellation
  flag of the \<open>TranslationEngine\<close> base class. The flag is a \<open>std::atomic<bool>\<close> that other threads
  store to through \<open>cancel\<close> and \<open>resetCancellation\<close> while a translation runs.
\<close>

section \<open>Requests, progress events, statistics\<close>

record request =
  session_id :: int
  segment_id :: int
  revision :: int
  cache_scope :: string

definition default_request :: request where
  "default_request = \<lparr>session_id = 0, segment_id = 0, revision = 0, cache_scope = ''''\<rparr>"

record progress =
  p_session_id :: int
  p_segment_id :: int
  p_revision :: int
  p_elapsed_ms :: int
  p_text :: string
  p_provisional :: bool

record stats =
  prefill_ms :: int
  decode_ms :: int
  first_token_ms :: int
  output_tokens :: int
  input_tokens :: int
  cache_reused_tokens :: int
  prefill_decode_us :: int
  prefill_sync_us :: int
  sampling_us :: int
  decode_compute_us :: int
  decode_sync_us :: int
  first_visible_ms :: int
  complete_ms :: int
  device_bytes_allocated :: int
  offloaded_layers :: int
  total_layers :: int
  fallback_count :: int

definition zero_stats :: stats where
  "zero_stats = \<lparr>prefill_ms = 0, decode_ms = 0, first_token_ms = 0, output_tokens = 0,
     input_tokens = 0, cache_reused_tokens = 0, prefill_decode_us = 0, prefill_sync_us = 0,
     sampling_us = 0, decode_compute_us = 0, decode_sync_us = 0, first_visible_ms = 0,
     complete_ms = 0, device_bytes_allocated = 0, offloaded_layers = 0, total_layers = 0,
     fallback_count = 0\<rparr>"

text \<open>
  A progress callback is \<open>None\<close> when the \<open>std::function\<close> is empty. A present callback receives
  every event of the run so far, the newest last, and may throw.
\<close>

type_synonym callback = "(progress list \<Rightarrow> exn option) option"

section \<open>Clocks\<close>

text \<open>
  \<open>duration_cast\<close> of a difference of two \<open>steady_clock\<close> readings in nanoseconds: C++ truncates
  towards zero.
\<close>

definition trunc_div :: "int \<Rightarrow> int \<Rightarrow> int" where
  "trunc_div a b = (if 0 \<le> a then a div b else - ((- a) div b))"

definition to_ms :: "int \<Rightarrow> int" where
  "to_ms ns = trunc_div ns 1000000"

definition to_us :: "int \<Rightarrow> int" where
  "to_us ns = trunc_div ns 1000"

lemma to_ms_mono:
  assumes "a \<le> b" shows "to_ms a \<le> to_ms b"
proof (cases "0 \<le> a")
  case True
  with assms show ?thesis by (simp add: to_ms_def trunc_div_def zdiv_mono1)
next
  case False
  then have "0 \<le> (- a) div 1000000" by (simp add: pos_imp_zdiv_nonneg_iff)
  moreover have "0 \<le> b \<Longrightarrow> 0 \<le> b div 1000000" by (simp add: pos_imp_zdiv_nonneg_iff)
  ultimately show ?thesis using False assms
    by (auto simp: to_ms_def trunc_div_def intro: zdiv_mono1)
qed

lemma to_ms_gap: "0 \<le> a \<Longrightarrow> 80000000 \<le> b - a \<Longrightarrow> 80 \<le> to_ms b - to_ms a"
  by (simp add: to_ms_def trunc_div_def)

section \<open>The cancellation flag\<close>

text \<open>
  \<open>cancelled\<close> is the flag, \<open>loads\<close> counts the loads made so far. The interleaving with other threads
  is explicit: \<open>others n\<close> lists the stores they make between load \<open>n - 1\<close> and load \<open>n\<close>, oldest
  first (\<open>True\<close> for \<open>cancel()\<close>, \<open>False\<close> for \<open>resetCancellation()\<close>).
\<close>

record flag =
  cancelled :: bool
  loads :: nat

definition cancel :: "flag \<Rightarrow> flag" where
  "cancel f = f\<lparr>cancelled := True\<rparr>"

definition resetCancellation :: "flag \<Rightarrow> flag" where
  "resetCancellation f = f\<lparr>cancelled := False\<rparr>"

definition store_flag :: "bool \<Rightarrow> flag \<Rightarrow> flag" where
  "store_flag b f = (if b then cancel f else resetCancellation f)"

definition load_flag :: "(nat \<Rightarrow> bool list) \<Rightarrow> flag \<Rightarrow> bool \<times> flag" where
  "load_flag others f =
     (let g = fold store_flag (others (loads f)) f
      in (cancelled g, g\<lparr>loads := Suc (loads g)\<rparr>))"

lemma fold_store_flag:
  "fold store_flag bs f = f\<lparr>cancelled := (if bs = [] then cancelled f else last bs)\<rparr>"
  by (induction bs arbitrary: f) (auto simp: store_flag_def cancel_def resetCancellation_def)

lemma load_flag_eq:
  "load_flag others f =
     (let b = (if others (loads f) = [] then cancelled f else last (others (loads f)))
      in (b, f\<lparr>cancelled := b, loads := Suc (loads f)\<rparr>))"
  by (simp add: load_flag_def fold_store_flag Let_def)

definition quiet :: "(nat \<Rightarrow> bool list) \<Rightarrow> bool" where
  "quiet others \<longleftrightarrow> (\<forall>n. True \<notin> set (others n))"

lemma quiet_load:
  assumes "quiet others" "\<not> cancelled f"
  shows "load_flag others f = (False, f\<lparr>loads := Suc (loads f)\<rparr>)"
proof -
  have "\<not> last (others (loads f))" if "others (loads f) \<noteq> []"
    using assms(1) last_in_set [OF that] unfolding quiet_def by metis
  then show ?thesis using assms(2) by (simp add: load_flag_eq Let_def)
qed

end
