(* ===== verification/Llama.thy ===== *)
theory Llama imports Engine_Types begin

text \<open>
  The part of llama.cpp and ggml that \<open>translation.cpp\<close> calls. That code is fetched by the build
  and not part of the repository, so it is a parameter: a record of functions over abstract models
  \<open>'m\<close>, devices \<open>'d\<close>, contexts \<open>'c\<close> (with their KV memory), samplers \<open>'s\<close> and a world \<open>'w\<close> (driver,
  file system). \<open>kv_laws\<close> states the documented behaviour of the KV memory that prefix caching
  relies on, over a view of the tokens stored for sequence 0.
\<close>

section \<open>The parameter\<close>

text \<open>Sampler stages with their literal arguments; single-precision literals by their bits.\<close>

datatype sampler_stage =
    Penalties int int "32 word" "32 word" "32 word"
  | TopK int
  | TopP "32 word" int
  | Temp "32 word"
  | Dist int

record context_params =
  n_ctx :: int
  n_batch :: int
  n_ubatch :: int
  n_threads :: int
  n_threads_batch :: int

record ('m, 'd, 'c, 's, 'w) llama =
  devices :: "'d list"
  dev_reg_name :: "'d \<Rightarrow> string option"
  dev_name :: "'d \<Rightarrow> string"
  dev_description :: "'d \<Rightarrow> string"
  dev_memory_free :: "'d \<Rightarrow> 'w \<Rightarrow> nat"
  dev_probe :: "'d \<Rightarrow> 'w \<Rightarrow> bool \<times> 'w"
  load_model :: "string \<Rightarrow> int \<Rightarrow> 'd option \<Rightarrow> 'w \<Rightarrow> ((exn + 'm option) \<times> string) \<times> 'w"
  new_context :: "'m \<Rightarrow> context_params \<Rightarrow> 'w \<Rightarrow> 'c option \<times> 'w"
  model_n_layer :: "'m \<Rightarrow> int"
  vocab_n_tokens :: "'m \<Rightarrow> int"
  chat_template :: "'m \<Rightarrow> string option"
  apply_template :: "string \<Rightarrow> (string \<times> string) list \<Rightarrow> bool \<Rightarrow> nat \<Rightarrow> int \<times> string"
  tokenize :: "'m \<Rightarrow> string \<Rightarrow> nat \<Rightarrow> bool \<Rightarrow> bool \<Rightarrow> int \<times> int list"
  memory_clear :: "'c \<Rightarrow> 'c"
  seq_rm :: "'c \<Rightarrow> int \<Rightarrow> bool \<times> 'c"
  seq_pos_max :: "'c \<Rightarrow> int"
  decode :: "'c \<Rightarrow> int list \<Rightarrow> int \<times> 'c"
  synchronize :: "'c \<Rightarrow> 'c"
  sampler_chain :: "sampler_stage list \<Rightarrow> 's"
  sample :: "'s \<Rightarrow> 'c \<Rightarrow> int \<times> 's"
  is_eog :: "'m \<Rightarrow> int \<Rightarrow> bool"
  token_to_piece :: "'m \<Rightarrow> int \<Rightarrow> nat \<Rightarrow> int \<times> string"
  clock :: "nat \<Rightarrow> int"
  others :: "nat \<Rightarrow> bool list"

section \<open>Documented behaviour the engine relies on\<close>

text \<open>
  \<open>kv c\<close> is the token sequence stored for sequence 0 and \<open>fresh c\<close> says that the logits of its last
  token are available. Clearing empties the sequence; removing from position \<open>p\<close> on keeps the first
  \<open>p\<close> tokens; \<open>seq_pos_max\<close> is the last occupied position, \<open>-1\<close> when empty. A batch that is not empty
  and fits in the \<open>n_kv\<close> positions of the context is appended by a successful decode, which also
  computes the logits of its last token; a failed decode leaves at most that batch behind. What
  the sampler draws is then a function \<open>next_token\<close> of its own state and of the tokens in the
  sequence. Nothing is assumed of a decode that does not fit, and nothing of sampling when the
  logits are not fresh: the engine has to establish both.
\<close>

definition fits :: "nat \<Rightarrow> ('c \<Rightarrow> int list) \<Rightarrow> 'c \<Rightarrow> int list \<Rightarrow> bool" where
  "fits n_kv kv c ts \<longleftrightarrow> ts \<noteq> [] \<and> length (kv c) + length ts \<le> n_kv"

definition kv_laws ::
  "('m, 'd, 'c, 's, 'w) llama \<Rightarrow> nat \<Rightarrow> ('c \<Rightarrow> int list) \<Rightarrow> ('c \<Rightarrow> bool)
    \<Rightarrow> ('s \<Rightarrow> int list \<Rightarrow> int \<times> 's) \<Rightarrow> bool" where
  "kv_laws L n_kv kv fresh next_token \<longleftrightarrow>
     (\<forall>m p w c w'. n_ctx p = int n_kv \<longrightarrow> new_context L m p w = (Some c, w') \<longrightarrow> kv c = []) \<and>
     (\<forall>c. kv (memory_clear L c) = []) \<and>
     (\<forall>c p c'. 0 \<le> p \<longrightarrow> seq_rm L c p = (True, c') \<longrightarrow> kv c' = take (nat p) (kv c)) \<and>
     (\<forall>c. seq_pos_max L c = int (length (kv c)) - 1) \<and>
     (\<forall>c ts c'. fits n_kv kv c ts \<longrightarrow> decode L c ts = (0, c') \<longrightarrow> kv c' = kv c @ ts \<and> fresh c') \<and>
     (\<forall>c ts. fits n_kv kv c ts \<longrightarrow> length (kv (snd (decode L c ts))) \<le> length (kv c) + length ts) \<and>
     (\<forall>c. kv (synchronize L c) = kv c) \<and>
     (\<forall>c. fresh c \<longrightarrow> fresh (synchronize L c)) \<and>
     (\<forall>s c. fresh c \<longrightarrow> sample L s c = next_token s (kv c))"

lemma kv_new: "kv_laws L n kv fr nx \<Longrightarrow> new_context L m ps w = (Some c, w') \<Longrightarrow> n_ctx ps = int n \<Longrightarrow> kv c = []"
  and kv_clear: "kv_laws L n kv fr nx \<Longrightarrow> kv (memory_clear L c) = []"
  and kv_seq_rm: "kv_laws L n kv fr nx \<Longrightarrow> seq_rm L c p = (True, c') \<Longrightarrow> 0 \<le> p \<Longrightarrow> kv c' = take (nat p) (kv c)"
  and kv_pos_max: "kv_laws L n kv fr nx \<Longrightarrow> seq_pos_max L c = int (length (kv c)) - 1"
  and kv_decode: "kv_laws L n kv fr nx \<Longrightarrow> decode L c ts = (0, c') \<Longrightarrow> fits n kv c ts \<Longrightarrow> kv c' = kv c @ ts"
  and kv_decode_fresh: "kv_laws L n kv fr nx \<Longrightarrow> decode L c ts = (0, c') \<Longrightarrow> fits n kv c ts \<Longrightarrow> fr c'"
  and kv_decode_length: "kv_laws L n kv fr nx \<Longrightarrow> fits n kv c ts
        \<Longrightarrow> length (kv (snd (decode L c ts))) \<le> length (kv c) + length ts"
  and kv_synchronize: "kv_laws L n kv fr nx \<Longrightarrow> kv (synchronize L c) = kv c"
  and kv_synchronize_fresh: "kv_laws L n kv fr nx \<Longrightarrow> fr c \<Longrightarrow> fr (synchronize L c)"
  and kv_sample: "kv_laws L n kv fr nx \<Longrightarrow> fr c \<Longrightarrow> sample L s c = nx s (kv c)"
  unfolding kv_laws_def by blast+

text \<open>A decode that fits succeeds, no other thread cancels, and the callback does not throw.\<close>

definition reliable :: "('m, 'd, 'c, 's, 'w) llama \<Rightarrow> nat \<Rightarrow> ('c \<Rightarrow> int list) \<Rightarrow> callback \<Rightarrow> bool" where
  "reliable L n_kv kv callback \<longleftrightarrow>
     (\<forall>c ts. fits n_kv kv c ts \<longrightarrow> fst (decode L c ts) = 0) \<and> quiet (others L) \<and>
     (case callback of None \<Rightarrow> True | Some f \<Rightarrow> \<forall>evs. f evs = None)"

end
