(* ===== verification/HyMt.thy ===== *)
theory HyMt imports Llama begin

text \<open>
  The class \<open>HyMt\<close> of \<open>translation.cpp\<close>: model loading and backend selection, the prefix-cached
  prompt evaluation, the generation loop with its progress events, and the fallback to the CPU.
  The engine state is the object's fields; the environment it observes (clock readings, the
  cancellation flag with other threads' stores, the world) is threaded through it.
\<close>

section \<open>State\<close>

record ('m, 'c, 'w) hymt =
  model :: "'m option"
  ctx :: "'c option"
  path :: string
  activeBackend :: string
  threads :: int
  batch :: int
  ubatch :: int
  opencl :: bool
  lastStats :: stats
  cachedPromptTokens :: "int list"
  cachedConfiguration :: string
  cachedSession :: int
  cachedPositionMax :: int
  cacheValid :: bool
  deviceBytesAllocated :: int
  offloadedLayers :: int
  totalLayers :: int
  fallbackCount :: int
  preferOpenCL :: bool
  eflag :: flag
  reads :: nat
  world :: 'w
  published :: "progress list"

text \<open>\<open>max_output\<close> and the context size of \<open>initialize\<close>.\<close>

definition max_output :: nat where
  "max_output = 384"

definition context_size :: int where
  "context_size = 2048"

section \<open>Primitive effects\<close>

definition now :: "('m, 'd, 'c, 's, 'w) llama \<Rightarrow> (('m, 'c, 'w) hymt, int) action" where
  "now L = (\<lambda>s. (Ok (clock L (reads s)), s\<lparr>reads := Suc (reads s)\<rparr>))"

definition load_cancelled :: "('m, 'd, 'c, 's, 'w) llama \<Rightarrow> (('m, 'c, 'w) hymt, bool) action" where
  "load_cancelled L = (\<lambda>s. let (b, f) = load_flag (others L) (eflag s) in (Ok b, s\<lparr>eflag := f\<rparr>))"

definition checkCancelled :: "('m, 'd, 'c, 's, 'w) llama \<Rightarrow> (('m, 'c, 'w) hymt, unit) action" where
  "checkCancelled L =
     mbind (load_cancelled L) (\<lambda>b. mguard b (RuntimeError ''Translation cancelled''))"

definition upd_stats :: "(stats \<Rightarrow> stats) \<Rightarrow> (('m, 'c, 'w) hymt, unit) action" where
  "upd_stats f = mmodify (\<lambda>s. s\<lparr>lastStats := f (lastStats s)\<rparr>)"

text \<open>\<open>model.get()\<close> and \<open>context.get()\<close> handed to llama.cpp, which dereferences them.\<close>

definition get_model :: "(('m, 'c, 'w) hymt, 'm) action" where
  "get_model = (\<lambda>s. case model s of
       None \<Rightarrow> (Crash ''null llama_model'', s)
     | Some m \<Rightarrow> (Ok m, s))"

definition with_ctx :: "('c \<Rightarrow> 'a \<times> 'c) \<Rightarrow> (('m, 'c, 'w) hymt, 'a) action" where
  "with_ctx f = (\<lambda>s. case ctx s of
       None \<Rightarrow> (Crash ''null llama_context'', s)
     | Some c \<Rightarrow> (let (a, c') = f c in (Ok a, s\<lparr>ctx := Some c'\<rparr>)))"

definition invoke :: "(progress list \<Rightarrow> exn option) \<Rightarrow> progress \<Rightarrow> (('m, 'c, 'w) hymt, unit) action" where
  "invoke f ev = (\<lambda>s. let evs = published s @ [ev]; t = s\<lparr>published := evs\<rparr>
     in (case f evs of None \<Rightarrow> (Ok (), t) | Some e \<Rightarrow> (Throw e, t)))"

section \<open>Device selection\<close>

definition to_lower :: "char \<Rightarrow> char" where
  "to_lower c = (let n = of_char c :: nat in if 65 \<le> n \<and> n \<le> 90 then char_of (n + 32) else c)"

definition adreno830_match :: "('m, 'd, 'c, 's, 'w) llama \<Rightarrow> 'd \<Rightarrow> bool" where
  "adreno830_match L device =
     (case dev_reg_name L device of None \<Rightarrow> False
      | Some reg \<Rightarrow>
          if reg \<noteq> ''OPENCL'' then False
          else (let description = map to_lower (dev_name L device @ '' '' @ dev_description L device)
                in str_find ''adreno'' description 0 \<noteq> None \<and> str_find ''830'' description 0 \<noteq> None))"

definition adreno830 :: "('m, 'd, 'c, 's, 'w) llama \<Rightarrow> 'd option" where
  "adreno830 L = List.find (adreno830_match L) (devices L)"

section \<open>Initialisation\<close>

text \<open>The separator of the backend description, a middle dot in UTF-8 between spaces.\<close>

definition middot :: string where
  "middot = [CHR '' '', CHR 0xC2, CHR 0xB7, CHR '' '']"

definition backend_text :: "('m, 'd, 'c, 's, 'w) llama \<Rightarrow> 'd option \<Rightarrow> ('m, 'c, 'w) hymt \<Rightarrow> string" where
  "backend_text L device s = (case device of
       Some d \<Rightarrow> ''Adreno OpenCL'' @ middot @ dev_name L d @ middot @
          to_string (offloadedLayers s) @ ''/'' @ to_string (totalLayers s) @ '' layers'' @ middot @
          to_string (deviceBytesAllocated s div (1024 * 1024)) @ '' MiB free-memory delta''
     | None \<Rightarrow> if preferOpenCL s then ''CPU'' @ middot @ ''Adreno 830 OpenCL unavailable; fallback''
               else ''CPU'')"

definition clear_cache :: "(('m, 'c, 'w) hymt, unit) action" where
  "clear_cache = mmodify (\<lambda>s. s\<lparr>cacheValid := False, cachedPromptTokens := [],
     cachedConfiguration := '''', cachedPositionMax := -1\<rparr>)"

definition load_step :: "('m, 'd, 'c, 's, 'w) llama \<Rightarrow> 'd option \<Rightarrow> (('m, 'c, 'w) hymt, string) action" where
  "load_step L device = (\<lambda>s.
     case load_model L (c_str (path s)) (if device = None then 0 else -1) device (world s) of
       ((Inr m, log), w) \<Rightarrow> (Ok log, s\<lparr>model := m, world := w\<rparr>)
     | ((Inl e, log), w) \<Rightarrow> (Throw e, s\<lparr>world := w\<rparr>))"

definition context_step :: "('m, 'd, 'c, 's, 'w) llama \<Rightarrow> 'm \<Rightarrow> (('m, 'c, 'w) hymt, unit) action" where
  "context_step L m = (\<lambda>s.
     let params = \<lparr>n_ctx = context_size, n_batch = batch s, n_ubatch = ubatch s,
                   n_threads = threads s, n_threads_batch = threads s\<rparr>;
         (c, w) = new_context L m params (world s)
     in (Ok (), s\<lparr>ctx := c, world := w\<rparr>))"

definition free_memory :: "('m, 'd, 'c, 's, 'w) llama \<Rightarrow> 'd option \<Rightarrow> ('m, 'c, 'w) hymt \<Rightarrow> nat" where
  "free_memory L device s = (case device of None \<Rightarrow> 0 | Some d \<Rightarrow> dev_memory_free L d (world s))"

definition place_layers :: "('m, 'd, 'c, 's, 'w) llama \<Rightarrow> 'd option \<Rightarrow> 'm \<Rightarrow> string \<Rightarrow> nat
    \<Rightarrow> ('m, 'c, 'w) hymt \<Rightarrow> ('m, 'c, 'w) hymt" where
  "place_layers L device m loadLog free_before s =
     (let placement = parseOffloadedLayers loadLog;
          free_after = free_memory L device s;
          t = s\<lparr>opencl := (device \<noteq> None),
                totalLayers := (if snd placement > 0 then snd placement else model_n_layer L m),
                offloadedLayers := (if device = None then 0 else fst placement),
                deviceBytesAllocated :=
                  (if device \<noteq> None \<and> free_before \<ge> free_after then int free_before - int free_after else 0)\<rparr>
      in t\<lparr>activeBackend := backend_text L device t\<rparr>)"

definition initialize :: "('m, 'd, 'c, 's, 'w) llama \<Rightarrow> 'd option \<Rightarrow> (('m, 'c, 'w) hymt, unit) action" where
  "initialize L device =
     mbind (mget (\<lambda>s. batch s \<le> 0 \<or> ubatch s \<le> 0 \<or> ubatch s > batch s)) (\<lambda>bad.
     mthen (mguard bad (RuntimeError ''Invalid translation batch/ubatch configuration''))
    (mbind (mget (free_memory L device)) (\<lambda>deviceFreeBefore.
     mbind (load_step L device) (\<lambda>loadLog.
     mbind (mget model) (\<lambda>loaded.
     (case loaded of
        None \<Rightarrow> mthrow (RuntimeError ''Hy-MT2 model load failed'')
      | Some m \<Rightarrow>
          mthen (context_step L m)
         (mbind (mget (\<lambda>s. ctx s = None)) (\<lambda>failed.
          mthen (mguard failed (RuntimeError ''Hy-MT2 context creation failed''))
         (mthen (mmodify (place_layers L device m loadLog deviceFreeBefore))
          clear_cache)))))))))"

section \<open>Prompt preparation\<close>

text \<open>
  Formatting and tokenising touch no state: the chat template is applied twice (length, then
  text) and the tokeniser is called twice (count, then tokens), with the checks between.
\<close>

definition prepare :: "('m, 'd, 'c, 's, 'w) llama \<Rightarrow> 'm \<Rightarrow> string \<Rightarrow> exn + (string \<times> int list)" where
  "prepare L m prompt =
     (case chat_template L m of
        None \<Rightarrow> Inl (RuntimeError ''GGUF is missing its chat template'')
      | Some format \<Rightarrow>
         (let message = [(''user'', c_str prompt)];
              len = fst (apply_template L format message True 0)
          in if len \<le> 0 then Inl (RuntimeError ''Unsupported Hy-MT2 chat template'')
             else
              (let (written, text) = apply_template L format message True (nat (len + 1));
                   chat = take (nat len) (filled (nat (len + 1)) (CHR 0x00) text)
               in if written \<noteq> len then Inl (RuntimeError ''Chat template length mismatch'')
                  else
                   (let count = - fst (tokenize L m chat 0 True True)
                    in if count \<le> 0 \<or> count + int max_output > context_size
                       then Inl (RuntimeError ''Translation input exceeds context limit'')
                       else
                        (let (n, ts) = tokenize L m chat (nat count) True True
                         in if n \<noteq> count then Inl (RuntimeError ''Hy-MT2 tokenization failed'')
                            else Inr (format, filled (nat count) 0 ts))))))"

text \<open>\<open>appendPart\<close>: each part of the cache configuration is written with its length in front.\<close>

definition appendPart :: "string \<Rightarrow> string \<Rightarrow> string" where
  "appendPart configuration v = configuration @ nat_digits (length v) @ '':'' @ v"

definition configuration_of :: "string \<Rightarrow> string \<Rightarrow> string \<Rightarrow> string" where
  "configuration_of modelPath scope format =
     appendPart (appendPart (appendPart [] modelPath) scope) format"

section \<open>Prefix reuse and prompt evaluation\<close>

text \<open>
  The decision on the KV prefix: the number of reusable tokens (0 when the context was cleared),
  leaving the context with at most that prefix.
\<close>

definition identity_matches :: "('m, 'd, 'c, 's, 'w) llama \<Rightarrow> bool \<Rightarrow> request \<Rightarrow> string
    \<Rightarrow> 'c \<Rightarrow> ('m, 'c, 'w) hymt \<Rightarrow> bool" where
  "identity_matches L allowPrefixCache req configuration c s \<longleftrightarrow>
     allowPrefixCache \<and> cacheValid s \<and> cachedSession s = session_id req
     \<and> cachedConfiguration s = configuration \<and> seq_pos_max L c = cachedPositionMax s"

definition reuse_prefix :: "('m, 'd, 'c, 's, 'w) llama \<Rightarrow> bool \<Rightarrow> request \<Rightarrow> string \<Rightarrow> int list
    \<Rightarrow> (('m, 'c, 'w) hymt, nat) action" where
  "reuse_prefix L allowPrefixCache req configuration tokens = (\<lambda>s.
     case ctx s of
       None \<Rightarrow> (Crash ''null llama_context'', s)
     | Some c \<Rightarrow>
        (let matches = identity_matches L allowPrefixCache req configuration c s;
             reusable = (if matches then longestCommonPrefix (cachedPromptTokens s) tokens else 0);
             keepTokens = (if reusable > 0 then reusable - 1 else 0);
             (reusable', c') =
               (if \<not> matches then (reusable, memory_clear L c)
                else (let (removed, c1) = seq_rm L c (int keepTokens)
                      in if \<not> removed then (0, memory_clear L c1) else (reusable, c1)))
         in (Ok reusable', s\<lparr>ctx := Some c'\<rparr>)))"

function prefill :: "('m, 'd, 'c, 's, 'w) llama \<Rightarrow> int \<Rightarrow> int list \<Rightarrow> int \<Rightarrow> (('m, 'c, 'w) hymt, unit) action" where
  "prefill L b tokens offset =
     (if offset < int (length tokens) then
       (if b \<le> 0 then mcrash ''prefill does not advance''
        else
         mthen (checkCancelled L)
        (mbind (now L) (\<lambda>decodeCallStart.
         mbind (with_ctx (\<lambda>c. decode L c
             (take (nat (min b (int (length tokens) - offset))) (drop (nat offset) tokens)))) (\<lambda>rc.
         mthen (mguard (rc \<noteq> 0) (RuntimeError ''Hy-MT2 prompt decode failed or cancelled''))
        (mbind (now L) (\<lambda>t.
         mthen (upd_stats (\<lambda>st. st\<lparr>prefill_decode_us := prefill_decode_us st + to_us (t - decodeCallStart)\<rparr>))
           (prefill L b tokens (offset + b))))))))
      else mret ())"
  by pat_completeness auto
termination
  by (relation "measure (\<lambda>(L, b, tokens, offset). nat (int (length tokens) - offset))") auto

declare prefill.simps [simp del]

section \<open>Generation\<close>

text \<open>The sampler chain; 1.05, 0.6 and 0.7 as IEEE single-precision bit patterns.\<close>

definition hymt_sampler :: "int \<Rightarrow> sampler_stage list" where
  "hymt_sampler n = [Penalties n 64 0x3F866666 0 0, TopK 20, TopP 0x3F19999A 1, Temp 0x3F333333, Dist 42]"

definition piece_of :: "('m, 'd, 'c, 's, 'w) llama \<Rightarrow> 'm \<Rightarrow> int \<Rightarrow> string option" where
  "piece_of L m token =
     (let (size, buffer) = token_to_piece L m token 256 in
      if size < 0 then
        (let (size2, larger) = token_to_piece L m token (nat (- size)) in
         if size2 < 0 then None
         else Some (take (nat size2) (filled (nat (- size)) (CHR 0x00) larger)))
      else Some (take (nat size) buffer))"

text \<open>What stays fixed during one run of the generation loop.\<close>

record 'm run_env =
  r_model :: 'm
  r_request :: request
  r_callback :: callback
  r_allow :: bool
  r_tokens :: "int list"
  r_configuration :: string
  r_start :: int
  r_decode_start :: int

definition publishProgress :: "('m, 'd, 'c, 's, 'w) llama \<Rightarrow> 'm run_env \<Rightarrow> string \<Rightarrow> int \<Rightarrow> nat
    \<Rightarrow> (('m, 'c, 'w) hymt, int \<times> nat) action" where
  "publishProgress L R result lastProgressAt lastPublishedBytes =
     (case r_callback R of
        None \<Rightarrow> mret (lastProgressAt, lastPublishedBytes)
      | Some f \<Rightarrow>
         (let validBytes = completeUtf8Prefix result;
              boundary = lastCompleteWordBoundary result validBytes
          in if boundary \<le> lastPublishedBytes then mret (lastProgressAt, lastPublishedBytes)
             else mbind (now L) (\<lambda>t.
               if t - lastProgressAt < 80 * 1000000 then mret (lastProgressAt, lastPublishedBytes)
               else
                (let visible = trimProgress (take boundary result)
                 in if length visible \<le> lastPublishedBytes then mret (lastProgressAt, lastPublishedBytes)
                    else
                     (let ev = \<lparr>p_session_id = session_id (r_request R), p_segment_id = segment_id (r_request R),
                                p_revision = revision (r_request R), p_elapsed_ms = to_ms (t - r_start R),
                                p_text = visible, p_provisional = True\<rparr>
                      in mthen (invoke f ev)
                        (mthen (upd_stats (\<lambda>st. if first_visible_ms st = 0
                                  then st\<lparr>first_visible_ms := p_elapsed_ms ev\<rparr> else st))
                          (mret (t, length visible))))))))"

definition finish :: "('m, 'd, 'c, 's, 'w) llama \<Rightarrow> 'm run_env \<Rightarrow> string \<Rightarrow> (('m, 'c, 'w) hymt, string) action" where
  "finish L R result =
     mbind (now L) (\<lambda>t1.
     mthen (upd_stats (\<lambda>st. st\<lparr>decode_ms := to_ms (t1 - r_decode_start R)\<rparr>))
    (mbind (now L) (\<lambda>t2.
     mthen (upd_stats (\<lambda>st. st\<lparr>complete_ms := to_ms (t2 - r_start R)\<rparr>))
    (mthen (upd_stats (\<lambda>st. if r_callback R \<noteq> None \<and> first_visible_ms st = 0
              then st\<lparr>first_visible_ms := complete_ms st\<rparr> else st))
    (mthen
      (if r_allow R then
         mbind (with_ctx (\<lambda>c. (seq_pos_max L c, c))) (\<lambda>p.
         mmodify (\<lambda>s. s\<lparr>cachedPromptTokens := r_tokens R, cachedConfiguration := r_configuration R,
           cachedSession := session_id (r_request R), cachedPositionMax := p, cacheValid := (p \<ge> 0)\<rparr>))
       else mret ())
      (mret result))))))"

fun generate :: "('m, 'd, 'c, 's, 'w) llama \<Rightarrow> 'm run_env \<Rightarrow> 's \<Rightarrow> string \<Rightarrow> int \<Rightarrow> nat \<Rightarrow> nat \<Rightarrow> nat
    \<Rightarrow> (('m, 'c, 'w) hymt, string) action" where
  "generate L R smp result at pub i 0 =
     mthrow (RuntimeError ''Hy-MT2 output exceeded token limit; not committing truncated translation'')"
| "generate L R smp result at pub i (Suc n) =
     mthen (checkCancelled L)
    (mthen
      (if i > 0 then
         mbind (now L) (\<lambda>syncStart.
         mthen (with_ctx (\<lambda>c. ((), synchronize L c)))
        (mbind (now L) (\<lambda>t.
         upd_stats (\<lambda>st. st\<lparr>decode_sync_us := decode_sync_us st + to_us (t - syncStart)\<rparr>))))
       else mret ())
    (mbind (now L) (\<lambda>sampleStart.
     mbind (with_ctx (\<lambda>c. (sample L smp c, c))) (\<lambda>(token, smp').
     mbind (now L) (\<lambda>t.
     mthen (upd_stats (\<lambda>st. st\<lparr>sampling_us := sampling_us st + to_us (t - sampleStart)\<rparr>))
      (if is_eog L (r_model R) token then finish L R result
       else
        (case piece_of L (r_model R) token of
           None \<Rightarrow> mthrow (RuntimeError ''Invalid translation token'')
         | Some p \<Rightarrow>
            (let result' = result @ p in
             mbind (mget (\<lambda>s. output_tokens (lastStats s) = 0)) (\<lambda>first.
             mthen
              (if first then mbind (now L) (\<lambda>t.
                 upd_stats (\<lambda>st. st\<lparr>first_token_ms := to_ms (t - r_start R)\<rparr>)) else mret ())
            (mthen (upd_stats (\<lambda>st. st\<lparr>output_tokens := output_tokens st + 1\<rparr>))
            (mbind (publishProgress L R result' at pub) (\<lambda>(at', pub').
             mbind (now L) (\<lambda>decodeCallStart.
             mbind (with_ctx (\<lambda>c. decode L c [token])) (\<lambda>rc.
             mthen (mguard (rc \<noteq> 0) (RuntimeError ''Hy-MT2 decode failed or cancelled''))
            (mbind (now L) (\<lambda>t.
             mthen (upd_stats (\<lambda>st. st\<lparr>decode_compute_us := decode_compute_us st + to_us (t - decodeCallStart)\<rparr>))
               (generate L R smp' result' at' pub' (Suc i) n)))))))))))))))))"

section \<open>One run\<close>

definition run :: "('m, 'd, 'c, 's, 'w) llama \<Rightarrow> string \<Rightarrow> request \<Rightarrow> callback \<Rightarrow> bool
    \<Rightarrow> (('m, 'c, 'w) hymt, string) action" where
  "run L prompt req callback allowPrefixCache =
     mthen (checkCancelled L)
    (mbind (now L) (\<lambda>requestStart.
     mbind get_model (\<lambda>m.
     (case prepare L m prompt of
        Inl e \<Rightarrow> mthrow e
      | Inr (format, tokens) \<Rightarrow>
         mbind (mget (\<lambda>s. configuration_of (path s) (cache_scope req) format)) (\<lambda>configuration.
         mbind (reuse_prefix L allowPrefixCache req configuration tokens) (\<lambda>reusable.
         mthen clear_cache
        (mthen (mmodify (\<lambda>s. s\<lparr>lastStats := (lastStats s)\<lparr>
             input_tokens := int (length tokens),
             cache_reused_tokens := (if reusable > 0 then int reusable - 1 else 0),
             device_bytes_allocated := deviceBytesAllocated s,
             offloaded_layers := offloadedLayers s,
             total_layers := totalLayers s,
             fallback_count := fallbackCount s\<rparr>\<rparr>))
        (mbind (now L) (\<lambda>prefillStart.
         mbind (mget (\<lambda>s. (batch s, cache_reused_tokens (lastStats s)))) (\<lambda>(b, offset).
         mthen (prefill L b tokens offset)
        (mbind (now L) (\<lambda>t.
         mthen (upd_stats (\<lambda>st. st\<lparr>prefill_ms := to_ms (t - prefillStart)\<rparr>))
        (mbind (now L) (\<lambda>prefillSyncStart.
         mthen (with_ctx (\<lambda>c. ((), synchronize L c)))
        (mbind (now L) (\<lambda>t.
         mthen (upd_stats (\<lambda>st. st\<lparr>prefill_sync_us := to_us (t - prefillSyncStart)\<rparr>))
        (mbind (now L) (\<lambda>decodeStart.
         generate L
           \<lparr>r_model = m, r_request = req, r_callback = callback, r_allow = allowPrefixCache,
            r_tokens = tokens, r_configuration = configuration, r_start = requestStart,
            r_decode_start = decodeStart\<rparr>
           (sampler_chain L (hymt_sampler (vocab_n_tokens L m))) [] requestStart 0 0 max_output))))))))))))))))))"

section \<open>Public operations\<close>

definition fallbackToCpu :: "('m, 'd, 'c, 's, 'w) llama \<Rightarrow> (('m, 'c, 'w) hymt, unit) action" where
  "fallbackToCpu L =
     mthen (mmodify (\<lambda>s. s\<lparr>ctx := None, model := None\<rparr>))
    (mthen (initialize L None)
     (mmodify (\<lambda>s. s\<lparr>fallbackCount := fallbackCount s + 1,
        activeBackend := ''CPU'' @ middot @ ''Adreno OpenCL inference failed; fallback''\<rparr>)))"

definition clear_memory :: "('m, 'd, 'c, 's, 'w) llama \<Rightarrow> (('m, 'c, 'w) hymt, unit) action" where
  "clear_memory L = with_ctx (\<lambda>c. ((), memory_clear L c))"

definition attempt :: "('m, 'd, 'c, 's, 'w) llama \<Rightarrow> string \<Rightarrow> request \<Rightarrow> callback \<Rightarrow> bool
    \<Rightarrow> (('m, 'c, 'w) hymt, string) action" where
  "attempt L prompt req callback allow =
     mbind (run L prompt req callback allow) (\<lambda>result.
     mthen (mmodify (\<lambda>s. s\<lparr>lastStats := (lastStats s)\<lparr>fallback_count := fallbackCount s\<rparr>\<rparr>))
      (mret result))"

definition recover :: "('m, 'd, 'c, 's, 'w) llama \<Rightarrow> bool \<Rightarrow> string \<Rightarrow> request \<Rightarrow> callback \<Rightarrow> exn
    \<Rightarrow> (('m, 'c, 'w) hymt, string) action" where
  "recover L allow prompt req callback e =
     mthen clear_cache
    (mbind (mget (\<lambda>s. \<not> opencl s)) (\<lambda>on_cpu.
     mbind (if on_cpu then mret True else load_cancelled L) (\<lambda>give_up.
     if give_up then mthen (clear_memory L) (mthrow e)
     else
      mthen (fallbackToCpu L)
     (mthen (mmodify (\<lambda>s. s\<lparr>lastStats := zero_stats\<rparr>))
      (mcatch (attempt L prompt req callback allow)
        (\<lambda>e2.
          mthen (mmodify (\<lambda>s. s\<lparr>cacheValid := False\<rparr>))
         (mthen (clear_memory L) (mthrow e2))))))))"

definition translate_attempts :: "('m, 'd, 'c, 's, 'w) llama \<Rightarrow> bool \<Rightarrow> string \<Rightarrow> request \<Rightarrow> callback
    \<Rightarrow> (('m, 'c, 'w) hymt, string) action" where
  "translate_attempts L allow prompt req callback =
     mthen (mmodify (\<lambda>s. s\<lparr>lastStats := zero_stats, published := []\<rparr>))
     (mcatch (attempt L prompt req callback allow) (recover L allow prompt req callback))"

definition translateWithProgress :: "('m, 'd, 'c, 's, 'w) llama \<Rightarrow> string \<Rightarrow> request \<Rightarrow> callback
    \<Rightarrow> (('m, 'c, 'w) hymt, string) action" where
  "translateWithProgress L = translate_attempts L True"

definition translateUncachedWithProgress :: "('m, 'd, 'c, 's, 'w) llama \<Rightarrow> string \<Rightarrow> request \<Rightarrow> callback
    \<Rightarrow> (('m, 'c, 'w) hymt, string) action" where
  "translateUncachedWithProgress L = translate_attempts L False"

definition translate :: "('m, 'd, 'c, 's, 'w) llama \<Rightarrow> string \<Rightarrow> (('m, 'c, 'w) hymt, string) action" where
  "translate L prompt = translateWithProgress L prompt default_request None"

definition translateUncached :: "('m, 'd, 'c, 's, 'w) llama \<Rightarrow> string \<Rightarrow> (('m, 'c, 'w) hymt, string) action" where
  "translateUncached L prompt = translateUncachedWithProgress L prompt default_request None"

definition backend :: "('m, 'c, 'w) hymt \<Rightarrow> string" where
  "backend s = activeBackend s"

definition engine_stats :: "('m, 'c, 'w) hymt \<Rightarrow> stats" where
  "engine_stats s = lastStats s"

section \<open>Construction\<close>

definition unconstructed :: "string \<Rightarrow> int \<Rightarrow> int \<Rightarrow> int \<Rightarrow> bool \<Rightarrow> 'w \<Rightarrow> ('m, 'c, 'w) hymt" where
  "unconstructed modelPath cpuThreads contextBatch contextUbatch prefer w =
     \<lparr>model = None, ctx = None, path = modelPath, activeBackend = ''CPU'', threads = cpuThreads,
      batch = contextBatch, ubatch = contextUbatch, opencl = False, lastStats = zero_stats,
      cachedPromptTokens = [], cachedConfiguration = [], cachedSession = 0,
      cachedPositionMax = -1, cacheValid = False, deviceBytesAllocated = 0, offloadedLayers = 0,
      totalLayers = 0, fallbackCount = 0, preferOpenCL = prefer,
      eflag = \<lparr>cancelled = False, loads = 0\<rparr>, reads = 0, world = w, published = []\<rparr>"

definition probe :: "('m, 'd, 'c, 's, 'w) llama \<Rightarrow> 'd \<Rightarrow> (('m, 'c, 'w) hymt, bool) action" where
  "probe L d = (\<lambda>s. let (ok, w) = dev_probe L d (world s) in (Ok ok, s\<lparr>world := w\<rparr>))"

definition count_fallback :: "(('m, 'c, 'w) hymt, unit) action" where
  "count_fallback = mmodify (\<lambda>s. s\<lparr>fallbackCount := fallbackCount s + 1\<rparr>)"

text \<open>The OpenCL attempt of the constructor: \<open>None\<close> when the engine is ready, else why it is not.\<close>

definition try_opencl :: "('m, 'd, 'c, 's, 'w) llama \<Rightarrow> (('m, 'c, 'w) hymt, string option) action" where
  "try_opencl L =
     (case adreno830 L of
        None \<Rightarrow> mthen count_fallback (mret (Some (''CPU'' @ middot @ ''Adreno 830 OpenCL unavailable; fallback'')))
      | Some d \<Rightarrow>
         mbind (probe L d) (\<lambda>ok.
         if ok then
           mcatch (mthen (initialize L (Some d)) (mret None))
             (\<lambda>_. mthen (mmodify (\<lambda>s. s\<lparr>ctx := None, model := None, fallbackCount := fallbackCount s + 1\<rparr>))
                   (mret (Some (''CPU'' @ middot @ ''Adreno OpenCL initialization failed; fallback''))))
         else mthen count_fallback (mret (Some (''CPU'' @ middot @ ''Adreno OpenCL device probe failed; fallback'')))))"

definition construct :: "('m, 'd, 'c, 's, 'w) llama \<Rightarrow> (('m, 'c, 'w) hymt, unit) action" where
  "construct L =
     mbind (mget preferOpenCL) (\<lambda>prefer.
     mbind (if prefer then try_opencl L else mret (Some [])) (\<lambda>failure.
     (case failure of
        None \<Rightarrow> mret ()
      | Some why \<Rightarrow>
         mthen (initialize L None)
          (mmodify (\<lambda>s. if why \<noteq> [] then s\<lparr>activeBackend := why\<rparr> else s)))))"

definition load_hymt :: "('m, 'd, 'c, 's, 'w) llama \<Rightarrow> string \<Rightarrow> int \<Rightarrow> int \<Rightarrow> int \<Rightarrow> bool \<Rightarrow> 'w
    \<Rightarrow> unit outcome \<times> ('m, 'c, 'w) hymt" where
  "load_hymt L modelPath cpuThreads contextBatch contextUbatch prefer w =
     construct L (unconstructed modelPath cpuThreads contextBatch contextUbatch prefer w)"

end
