(* ===== verification/HyMt_Runs.thy ===== *)
theory HyMt_Runs imports HyMt begin

text \<open>
  Weakest-precondition facts of the pieces of one \<open>run\<close> of the engine: what each piece leaves
  untouched, what the KV memory holds after it, and which reference computation the text comes
  from. The reference is \<open>ref_translate\<close>: prepare the prompt, then draw tokens until an
  end-of-generation token, as a pure function of the model and the prompt.
\<close>

section \<open>Frames\<close>

text \<open>
  \<open>fixed_part\<close> keeps what a run may not touch and \<open>cache_part\<close> the record of the KV prefix; both are
  opaque to the simplifier, which only knows which updates leave them alone.
\<close>

definition fixed_part :: "('m, 'c, 'w) hymt \<Rightarrow> ('m, 'c, 'w) hymt" where
  "fixed_part s = s\<lparr>ctx := None, lastStats := zero_stats, cachedPromptTokens := [],
     cachedConfiguration := [], cachedSession := 0, cachedPositionMax := 0, cacheValid := False,
     eflag := \<lparr>cancelled = False, loads = 0\<rparr>, reads := 0, published := []\<rparr>"

definition cache_part :: "('m, 'c, 'w) hymt \<Rightarrow> int list \<times> string \<times> int \<times> int \<times> bool" where
  "cache_part s = (cachedPromptTokens s, cachedConfiguration s, cachedSession s,
     cachedPositionMax s, cacheValid s)"

lemma fixed_part_updates [simp]:
  "fixed_part (s\<lparr>ctx := x\<rparr>) = fixed_part s"
  "fixed_part (s\<lparr>lastStats := st\<rparr>) = fixed_part s"
  "fixed_part (s\<lparr>cachedPromptTokens := ts\<rparr>) = fixed_part s"
  "fixed_part (s\<lparr>cachedConfiguration := cfg\<rparr>) = fixed_part s"
  "fixed_part (s\<lparr>cachedSession := i\<rparr>) = fixed_part s"
  "fixed_part (s\<lparr>cachedPositionMax := i\<rparr>) = fixed_part s"
  "fixed_part (s\<lparr>cacheValid := b\<rparr>) = fixed_part s"
  "fixed_part (s\<lparr>eflag := f\<rparr>) = fixed_part s"
  "fixed_part (s\<lparr>reads := n\<rparr>) = fixed_part s"
  "fixed_part (s\<lparr>published := evs\<rparr>) = fixed_part s"
  by (simp_all add: fixed_part_def)

lemma cache_part_updates [simp]:
  "cache_part (s\<lparr>ctx := x\<rparr>) = cache_part s"
  "cache_part (s\<lparr>lastStats := st\<rparr>) = cache_part s"
  "cache_part (s\<lparr>eflag := f\<rparr>) = cache_part s"
  "cache_part (s\<lparr>reads := n\<rparr>) = cache_part s"
  "cache_part (s\<lparr>published := evs\<rparr>) = cache_part s"
  by (simp_all add: cache_part_def)

lemma fixed_part_fields:
  assumes "fixed_part t = fixed_part s"
  shows "model t = model s" "path t = path s" "activeBackend t = activeBackend s"
    "threads t = threads s" "batch t = batch s" "ubatch t = ubatch s" "opencl t = opencl s"
    "deviceBytesAllocated t = deviceBytesAllocated s" "offloadedLayers t = offloadedLayers s"
    "totalLayers t = totalLayers s" "fallbackCount t = fallbackCount s"
    "preferOpenCL t = preferOpenCL s" "world t = world s"
proof -
  have *: "f (fixed_part t) = f (fixed_part s)" for f :: "_ \<Rightarrow> 'z" using assms by simp
  show "model t = model s" using * [of model] by (simp add: fixed_part_def)
  show "path t = path s" using * [of path] by (simp add: fixed_part_def)
  show "activeBackend t = activeBackend s" using * [of activeBackend] by (simp add: fixed_part_def)
  show "threads t = threads s" using * [of threads] by (simp add: fixed_part_def)
  show "batch t = batch s" using * [of batch] by (simp add: fixed_part_def)
  show "ubatch t = ubatch s" using * [of ubatch] by (simp add: fixed_part_def)
  show "opencl t = opencl s" using * [of opencl] by (simp add: fixed_part_def)
  show "deviceBytesAllocated t = deviceBytesAllocated s"
    using * [of deviceBytesAllocated] by (simp add: fixed_part_def)
  show "offloadedLayers t = offloadedLayers s" using * [of offloadedLayers] by (simp add: fixed_part_def)
  show "totalLayers t = totalLayers s" using * [of totalLayers] by (simp add: fixed_part_def)
  show "fallbackCount t = fallbackCount s" using * [of fallbackCount] by (simp add: fixed_part_def)
  show "preferOpenCL t = preferOpenCL s" using * [of preferOpenCL] by (simp add: fixed_part_def)
  show "world t = world s" using * [of world] by (simp add: fixed_part_def)
qed

text \<open>Only the clock, the flag, the statistics and the published events have changed.\<close>

definition observed :: "('m, 'c, 'w) hymt \<Rightarrow> ('m, 'c, 'w) hymt \<Rightarrow> bool" where
  "observed s t \<longleftrightarrow> fixed_part t = fixed_part s \<and> cache_part t = cache_part s \<and> ctx t = ctx s"

section \<open>Primitives\<close>

lemma wp_now [wp_simps]:
  "wp (now L) Q E s = Q (clock L (reads s)) (s\<lparr>reads := Suc (reads s)\<rparr>)"
  by (simp add: wp_def now_def)

lemma wp_load_cancelled [wp_simps]:
  "wp (load_cancelled L) Q E s =
     Q (fst (load_flag (others L) (eflag s))) (s\<lparr>eflag := snd (load_flag (others L) (eflag s))\<rparr>)"
  by (simp add: wp_def load_cancelled_def split: prod.splits)

lemma wp_checkCancelled [wp_simps]:
  "wp (checkCancelled L) Q E s =
     (let t = s\<lparr>eflag := snd (load_flag (others L) (eflag s))\<rparr> in
      if fst (load_flag (others L) (eflag s)) then E (RuntimeError ''Translation cancelled'') t else Q () t)"
  by (simp add: checkCancelled_def wp_simps Let_def)

lemma wp_upd_stats [wp_simps]:
  "wp (upd_stats f) Q E s = Q () (s\<lparr>lastStats := f (lastStats s)\<rparr>)"
  by (simp add: upd_stats_def wp_simps)

lemma wp_get_model [wp_simps]:
  "wp get_model Q E s = (case model s of None \<Rightarrow> False | Some m \<Rightarrow> Q m s)"
  by (simp add: wp_def get_model_def split: option.splits)

lemma wp_with_ctx [wp_simps]:
  "wp (with_ctx f) Q E s = (case ctx s of None \<Rightarrow> False
     | Some c \<Rightarrow> Q (fst (f c)) (s\<lparr>ctx := Some (snd (f c))\<rparr>))"
  by (simp add: wp_def with_ctx_def split: option.splits prod.splits)

lemma wp_invoke [wp_simps]:
  "wp (invoke f ev) Q E s = (let t = s\<lparr>published := published s @ [ev]\<rparr> in
     case f (published s @ [ev]) of None \<Rightarrow> Q () t | Some e \<Rightarrow> E e t)"
  by (simp add: wp_def invoke_def Let_def split: option.splits)

lemma wp_clear_cache [wp_simps]:
  "wp clear_cache Q E s = Q () (s\<lparr>cacheValid := False, cachedPromptTokens := [],
     cachedConfiguration := [], cachedPositionMax := -1\<rparr>)"
  by (simp add: clear_cache_def wp_simps)

lemma cancelled_load [simp]:
  "quiet os \<Longrightarrow> \<not> cancelled f \<Longrightarrow> \<not> fst (load_flag os f)"
  "quiet os \<Longrightarrow> \<not> cancelled f \<Longrightarrow> \<not> cancelled (snd (load_flag os f))"
  by (simp_all add: quiet_load)

section \<open>The reference\<close>

fun ref_generate :: "('m, 'd, 'c, 's, 'w) llama \<Rightarrow> 'm \<Rightarrow> ('s \<Rightarrow> int list \<Rightarrow> int \<times> 's) \<Rightarrow> 's
    \<Rightarrow> int list \<Rightarrow> string \<Rightarrow> nat \<Rightarrow> exn + string" where
  "ref_generate L m nx smp toks acc 0 =
     Inl (RuntimeError ''Hy-MT2 output exceeded token limit; not committing truncated translation'')"
| "ref_generate L m nx smp toks acc (Suc n) =
     (case nx smp toks of (token, smp') \<Rightarrow>
        if is_eog L m token then Inr acc
        else (case piece_of L m token of
                None \<Rightarrow> Inl (RuntimeError ''Invalid translation token'')
              | Some p \<Rightarrow> ref_generate L m nx smp' (toks @ [token]) (acc @ p) n))"

lemma ref_generate_numeral:
  "ref_generate L m nx smp toks acc (numeral k) =
     (case nx smp toks of (token, smp') \<Rightarrow>
        if is_eog L m token then Inr acc
        else (case piece_of L m token of
                None \<Rightarrow> Inl (RuntimeError ''Invalid translation token'')
              | Some p \<Rightarrow> ref_generate L m nx smp' (toks @ [token]) (acc @ p) (pred_numeral k)))"
  by (simp add: numeral_eq_Suc)

definition ref_translate :: "('m, 'd, 'c, 's, 'w) llama \<Rightarrow> ('s \<Rightarrow> int list \<Rightarrow> int \<times> 's) \<Rightarrow> 'm
    \<Rightarrow> string \<Rightarrow> exn + string" where
  "ref_translate L nx m prompt = (case prepare L m prompt of
       Inl e \<Rightarrow> Inl e
     | Inr (format, tokens) \<Rightarrow>
         ref_generate L m nx (sampler_chain L (hymt_sampler (vocab_n_tokens L m))) tokens [] max_output)"

section \<open>Progress and the end of a run\<close>

lemma wp_publishProgress_frame:
  assumes Q: "\<And>x t. observed s t \<Longrightarrow> eflag t = eflag s \<Longrightarrow> Q x t"
    and E: "\<And>e t. observed s t \<Longrightarrow> eflag t = eflag s \<Longrightarrow> \<not> reliable L n kv (r_callback R) \<Longrightarrow> E e t"
  shows "wp (publishProgress L R result at pub) Q E s"
  by (auto simp: publishProgress_def wp_simps Let_def reliable_def observed_def
      intro!: Q E split: option.splits)

definition stored :: "'m run_env \<Rightarrow> int \<Rightarrow> ('m, 'c, 'w) hymt \<Rightarrow> bool" where
  "stored R p t \<longleftrightarrow> cachedPromptTokens t = r_tokens R \<and> cachedConfiguration t = r_configuration R
     \<and> cachedSession t = session_id (r_request R) \<and> cachedPositionMax t = p \<and> cacheValid t = (p \<ge> 0)"

lemma wp_finish:
  assumes "ctx s = Some c"
    and "\<And>t. fixed_part t = fixed_part s \<Longrightarrow> ctx t = Some c \<Longrightarrow> published t = published s \<Longrightarrow>
      (if r_allow R then stored R (seq_pos_max L c) t else cache_part t = cache_part s) \<Longrightarrow> Q result t"
  shows "wp (finish L R result) Q E s"
  using assms(1) by (auto simp: finish_def wp_simps Let_def stored_def cache_part_def intro!: assms(2))

section \<open>The generation loop\<close>

text \<open>
  What holds when a piece of a run that starts in \<open>s\<close> ends in \<open>t\<close>: \<open>r\<close> is the reference result. A
  throwing run leaves a context within its size, and a reliable environment only lets the
  exception of the reference through.
\<close>

definition failed_from :: "('m, 'd, 'c, 's, 'w) llama \<Rightarrow> ('c \<Rightarrow> int list) \<Rightarrow> callback
    \<Rightarrow> exn + string \<Rightarrow> ('m, 'c, 'w) hymt \<Rightarrow> exn \<Rightarrow> ('m, 'c, 'w) hymt \<Rightarrow> bool" where
  "failed_from L kv callback r s e t \<longleftrightarrow> fixed_part t = fixed_part s \<and>
     (\<exists>c. ctx t = Some c \<and> length (kv c) \<le> nat context_size) \<and>
     (reliable L (nat context_size) kv callback \<and> \<not> cancelled (eflag s) \<longrightarrow> r = Inl e)"

definition completed_from :: "('c \<Rightarrow> int list) \<Rightarrow> 'm run_env \<Rightarrow> int list
    \<Rightarrow> ('m, 'c, 'w) hymt \<Rightarrow> ('m, 'c, 'w) hymt \<Rightarrow> bool" where
  "completed_from kv R toks s t \<longleftrightarrow> fixed_part t = fixed_part s \<and>
     (\<exists>c ys. ctx t = Some c \<and> kv c = toks @ ys \<and> length (kv c) \<le> nat context_size \<and>
        (if r_allow R then stored R (int (length (kv c)) - 1) t else cache_part t = cache_part s))"

lemma context_size_nat [simp]: "nat context_size = 2048"
  by (simp add: context_size_def)

lemma decode_cases:
  assumes "kv_laws L n kv fresh nx" "fits n kv c ts"
  shows "fst (decode L c ts) = 0 \<Longrightarrow> kv (snd (decode L c ts)) = kv c @ ts"
    and "fst (decode L c ts) = 0 \<Longrightarrow> fresh (snd (decode L c ts))"
    and "length (kv (snd (decode L c ts))) \<le> length (kv c) + length ts"
  using kv_decode [OF assms(1) _ assms(2)] kv_decode_fresh [OF assms(1) _ assms(2)]
    kv_decode_length [OF assms] by (metis prod.collapse)+

lemma failed_from_trans:
  assumes "failed_from L kv cb r u e t" "fixed_part u = fixed_part s"
    "reliable L (nat context_size) kv cb \<Longrightarrow> \<not> cancelled (eflag s) \<Longrightarrow> \<not> cancelled (eflag u)"
  shows "failed_from L kv cb r s e t"
  using assms by (auto simp: failed_from_def)

lemma completed_from_trans:
  assumes "completed_from kv R (toks @ ys) u t" "fixed_part u = fixed_part s" "cache_part u = cache_part s"
  shows "completed_from kv R toks s t"
  using assms by (auto simp: completed_from_def)

text \<open>The publication and the decoding of a sampled token, before the rest of the loop \<open>k\<close>.\<close>

lemma wp_publish_decode:
  assumes laws: "kv_laws L (nat context_size) kv fresh nx" and fit: "fits (nat context_size) kv c [token]"
    and u: "ctx u = Some c" "fixed_part u = fixed_part s" "cache_part u = cache_part s"
        "reliable L (nat context_size) kv (r_callback R) \<Longrightarrow> \<not> cancelled (eflag s) \<Longrightarrow> \<not> cancelled (eflag u)"
    and k: "\<And>at' pub' c' t. ctx t = Some c' \<Longrightarrow> fresh c' \<Longrightarrow> kv c' = kv c @ [token] \<Longrightarrow>
        fixed_part t = fixed_part s \<Longrightarrow> cache_part t = cache_part s \<Longrightarrow>
        (reliable L (nat context_size) kv (r_callback R) \<Longrightarrow> \<not> cancelled (eflag s) \<Longrightarrow> \<not> cancelled (eflag t))
        \<Longrightarrow> wp (k at' pub') Q (failed_from L kv (r_callback R) r s) t"
  shows "wp (mbind (publishProgress L R result at pub) (\<lambda>(at', pub').
             mbind (now L) (\<lambda>decodeCallStart.
             mbind (with_ctx (\<lambda>c. decode L c [token])) (\<lambda>rc.
             mthen (mguard (rc \<noteq> 0) (RuntimeError ''Hy-MT2 decode failed or cancelled''))
            (mbind (now L) (\<lambda>t.
             mthen (upd_stats (\<lambda>st. st\<lparr>decode_compute_us := decode_compute_us st + to_us (t - decodeCallStart)\<rparr>))
               (k at' pub')))))))
          Q (failed_from L kv (r_callback R) r s) u"
  unfolding wp_mbind [where m = "publishProgress L R result at pub"]
proof (rule wp_publishProgress_frame [where n = "nat context_size" and kv = kv], goal_cases)
  case (1 x t)
  note dec = decode_cases [OF laws fit]
  have ctx: "ctx t = Some c" and eq: "fixed_part t = fixed_part s" "cache_part t = cache_part s"
    using 1 u by (simp_all add: observed_def)
  show ?case
  proof (cases "fst (decode L c [token]) = 0")
    case False
    moreover from False fit have "\<not> reliable L (nat context_size) kv (r_callback R)"
      by (auto simp: reliable_def)
    moreover have "length (kv (snd (decode L c [token]))) \<le> nat context_size"
      using dec(3) fit by (simp add: fits_def)
    ultimately show ?thesis
      by (cases x) (simp add: wp_simps ctx failed_from_def eq)
  next
    case True
    with dec(1,2) show ?thesis
      by (cases x) (simp add: wp_simps ctx, rule k, simp_all add: eq 1 u(4))
  qed
next
  case (2 e t)
  then show ?case using u fit by (simp add: failed_from_def observed_def fits_def)
qed

lemma wp_generate:
  assumes laws: "kv_laws L (nat context_size) kv fresh nx"
  shows "ctx s = Some c \<Longrightarrow> fresh c \<Longrightarrow> length (kv c) + n \<le> nat context_size \<Longrightarrow>
    wp (generate L R smp result at pub i n)
      (\<lambda>r t. completed_from kv R (kv c) s t \<and> ref_generate L (r_model R) nx smp (kv c) result n = Inr r)
      (failed_from L kv (r_callback R) (ref_generate L (r_model R) nx smp (kv c) result n) s) s"
proof (induction n arbitrary: s c smp result at pub i)
  case 0
  then show ?case by (auto simp: wp_simps failed_from_def)
next
  case (Suc n)
  note kv = kv_synchronize [OF laws] kv_synchronize_fresh [OF laws] kv_sample [OF laws] kv_pos_max [OF laws]
  define c1 where "c1 = (if i > 0 then synchronize L c else c)"
  have c1: "fresh c1" "kv c1 = kv c" using Suc.prems kv by (auto simp: c1_def)
  have c1_eq: "0 < i \<Longrightarrow> synchronize L c = c1" "i = 0 \<Longrightarrow> c1 = c" by (simp_all add: c1_def)
  obtain token smp' where nx: "nx smp (kv c) = (token, smp')" by fastforce
  then have smp: "sample L smp c1 = (token, smp')" using c1 kv by simp
  have fit: "fits (nat context_size) kv c1 [token]" using Suc.prems c1 by (simp add: fits_def)
  let ?r = "ref_generate L (r_model R) nx smp (kv c) result (Suc n)"
  let ?E = "failed_from L kv (r_callback R) ?r s"
  let ?Q = "\<lambda>r t. completed_from kv R (kv c) s t \<and> ?r = Inr r"
  show ?case
  proof (cases "fst (load_flag (others L) (eflag s))")
    case True
    then have "\<not> (quiet (others L) \<and> \<not> cancelled (eflag s))" using cancelled_load(1) by blast
    with True Suc.prems show ?thesis by (auto simp: wp_simps failed_from_def reliable_def)
  next
    case no_cancel: False
    define f where "f = snd (load_flag (others L) (eflag s))"
    have f: "\<not> cancelled f" if "reliable L (nat context_size) kv (r_callback R)" "\<not> cancelled (eflag s)"
      using that by (simp add: f_def reliable_def)
    consider (eog) "is_eog L (r_model R) token"
      | (bad) "\<not> is_eog L (r_model R) token" "piece_of L (r_model R) token = None"
      | (more) p where "\<not> is_eog L (r_model R) token" "piece_of L (r_model R) token = Some p"
      by fastforce
    then show ?thesis
    proof cases
      case eog
      have *: "wp (finish L R result) ?Q ?E u" if "ctx u = Some c1" "fixed_part u = fixed_part s"
        "cache_part u = cache_part s" for u
        by (rule wp_finish [OF that(1)])
          (use that c1 kv eog nx Suc.prems in \<open>auto simp: completed_from_def\<close>)
      show ?thesis
        using Suc.prems no_cancel eog smp
        by (auto simp: wp_simps Let_def f_def [symmetric] c1_eq simp del: ref_generate.simps intro!: *)
    next
      case bad
      then show ?thesis
        using Suc.prems no_cancel smp nx c1
        by (auto simp: wp_simps Let_def f_def [symmetric] failed_from_def c1_eq)
    next
      case (more p)
      have ref: "?r = ref_generate L (r_model R) nx smp' (kv c @ [token]) (result @ p) n"
        using more nx by simp
      have step: "wp (generate L R smp' (result @ p) at' pub' (Suc i) n) ?Q ?E t"
        if t: "ctx t = Some c'" "fresh c'" "kv c' = kv c1 @ [token]" "fixed_part t = fixed_part s"
          "cache_part t = cache_part s"
          "reliable L (nat context_size) kv (r_callback R) \<Longrightarrow> \<not> cancelled (eflag s) \<Longrightarrow> \<not> cancelled (eflag t)"
        for at' pub' c' t
      proof (rule wp_mono [OF Suc.IH [OF t(1,2)]], goal_cases)
        case 1
        then show ?case using Suc.prems(3) t(3) c1 by simp
      next
        case (2 x u)
        then show ?case using t c1 ref completed_from_trans [where s = s and u = t] by auto
      next
        case (3 e u)
        then have "failed_from L kv (r_callback R) ?r t e u" by (simp only: t(3) c1 ref)
        then show ?case by (rule failed_from_trans [OF _ t(4) t(6)])
      qed
      note go = wp_publish_decode [OF laws fit, where s = s and k = "\<lambda>at' pub'. generate L R smp' (result @ p) at' pub' (Suc i) n"
          and R = R, OF _ _ _ _ step]
      note f' = f [unfolded context_size_nat]
      note wps = wp_mbind [where m = "now L"] wp_mbind [where m = "with_ctx f" for f]
        wp_mbind [where m = "mget f" for f] wp_now wp_mthen wp_checkCancelled wp_with_ctx wp_upd_stats
        wp_mget wp_mret Let_def f_def [symmetric]
      show ?thesis
      proof (cases "0 < i")
        case True
        then show ?thesis using Suc.prems no_cancel smp more
          by (auto simp: wps c1_eq simp del: ref_generate.simps intro!: go dest: f')
      next
        case False
        then have i: "i = 0" "c1 = c" by (simp_all add: c1_eq)
        show ?thesis using Suc.prems no_cancel smp more unfolding i
          by (auto simp: wps simp del: ref_generate.simps intro!: go [unfolded i] dest: f')
      qed
    qed
  qed
qed


section \<open>Prompt evaluation\<close>

lemma not_cancelled_load:
  "reliable L n kv cb \<and> \<not> cancelled f \<Longrightarrow> \<not> fst (load_flag (others L) f) \<and> \<not> cancelled (snd (load_flag (others L) f))"
  by (simp add: reliable_def)

lemma wp_prefill:
  assumes laws: "kv_laws L (nat context_size) kv fresh nx" and b: "0 < b"
    and len: "length tokens \<le> nat context_size"
  shows "ctx s = Some c \<Longrightarrow> 0 \<le> offset \<Longrightarrow> kv c = take (nat offset) tokens \<Longrightarrow>
    offset < int (length tokens) \<or> fresh c \<Longrightarrow>
    wp (prefill L b tokens offset)
      (\<lambda>_ t. fixed_part t = fixed_part s \<and> cache_part t = cache_part s \<and> published t = published s \<and>
         (\<exists>c'. ctx t = Some c' \<and> kv c' = tokens \<and> fresh c') \<and>
         (reliable L (nat context_size) kv cb \<and> \<not> cancelled (eflag s) \<longrightarrow> \<not> cancelled (eflag t)))
      (failed_from L kv cb r s) s"
proof (induction "nat (int (length tokens) - offset)" arbitrary: s c offset rule: less_induct)
  case less
  show ?case
  proof (cases "offset < int (length tokens)")
    case False
    with less.prems show ?thesis
      by (subst prefill.simps) (auto simp: wp_simps)
  next
    case more: True
    define ts where "ts = take (nat (min b (int (length tokens) - offset))) (drop (nat offset) tokens)"
    have fit: "fits (nat context_size) kv c ts"
      using more len b less.prems by (auto simp: fits_def ts_def)
    note dec = decode_cases [OF laws fit]
    have app: "take (nat offset) tokens @ ts = take (nat (offset + b)) tokens"
    proof (cases "b \<le> int (length tokens) - offset")
      case True
      then show ?thesis using less.prems b
        by (simp add: ts_def take_drop_append_chunk nat_add_distrib)
    next
      case False
      then show ?thesis using less.prems b more
        by (simp add: ts_def take_drop_append_chunk nat_add_distrib)
    qed
    let ?f = "load_flag (others L) (eflag s)"
    consider (stop) "fst ?f" | (fail) "\<not> fst ?f" "fst (decode L c ts) \<noteq> 0"
      | (ok) "\<not> fst ?f" "fst (decode L c ts) = 0" by blast
    then show ?thesis
    proof cases
      case stop
      then have "\<not> (reliable L (nat context_size) kv cb \<and> \<not> cancelled (eflag s))"
        using not_cancelled_load by blast
      with stop more b less.prems len show ?thesis
        by (subst prefill.simps) (auto simp: wp_simps Let_def failed_from_def)
    next
      case fail
      then have "\<not> reliable L (nat context_size) kv cb" using fit by (auto simp: reliable_def)
      moreover have "length (kv (snd (decode L c ts))) \<le> nat context_size"
        using dec(3) fit by (simp add: fits_def)
      ultimately show ?thesis using fail more b less.prems
        by (subst prefill.simps) (simp add: wp_simps Let_def failed_from_def ts_def [symmetric])
    next
      case ok
      define u where "u = s\<lparr>ctx := Some (snd (decode L c ts)), eflag := snd ?f\<rparr>"
      have IH: "wp (prefill L b tokens (offset + b))
        (\<lambda>_ t. fixed_part t = fixed_part v \<and> cache_part t = cache_part v \<and> published t = published v \<and>
           (\<exists>c'. ctx t = Some c' \<and> kv c' = tokens \<and> fresh c') \<and>
           (reliable L (nat context_size) kv cb \<and> \<not> cancelled (eflag v) \<longrightarrow> \<not> cancelled (eflag t)))
        (failed_from L kv cb r v) v"
        if "ctx v = Some (snd (decode L c ts))" for v
        using less.hyps [OF _ that] more b less.prems dec(1,2) [OF ok(2)] app by simp
      have "wp (prefill L b tokens (offset + b))
      (\<lambda>_ t. fixed_part t = fixed_part s \<and> cache_part t = cache_part s \<and> published t = published s \<and>
         (\<exists>c'. ctx t = Some c' \<and> kv c' = tokens \<and> fresh c') \<and>
         (reliable L (nat context_size) kv cb \<and> \<not> cancelled (eflag s) \<longrightarrow> \<not> cancelled (eflag t)))
      (failed_from L kv cb r s) v"
        if v: "ctx v = Some (snd (decode L c ts))" "fixed_part v = fixed_part s" "cache_part v = cache_part s"
          "published v = published s" "eflag v = snd ?f" for v
      proof (rule wp_mono [OF IH [OF v(1)]], goal_cases)
        case (1 x t)
        then show ?case using v not_cancelled_load by (metis (no_types, lifting))
      next
        case (2 e t)
        show ?case by (rule failed_from_trans [OF 2 v(2)]) (simp add: v(5) not_cancelled_load)
      qed
      then show ?thesis using ok more b less.prems
        by (subst prefill.simps) (simp add: wp_simps Let_def ts_def [symmetric])
    qed
  qed
qed

section \<open>The prefix decision\<close>

text \<open>
  The invariant of the prefix cache: whenever the cache is marked valid, the context really holds
  the recorded prompt tokens at the front of its sequence.
\<close>

definition cache_sound :: "('c \<Rightarrow> int list) \<Rightarrow> ('m, 'c, 'w) hymt \<Rightarrow> bool" where
  "cache_sound kv s \<longleftrightarrow> (case ctx s of None \<Rightarrow> False
     | Some c \<Rightarrow> length (kv c) \<le> nat context_size \<and>
         (cacheValid s \<longrightarrow> take (length (cachedPromptTokens s)) (kv c) = cachedPromptTokens s))"

lemma wp_reuse_prefix:
  assumes laws: "kv_laws L (nat context_size) kv fresh nx" and inv: "cache_sound kv s"
  shows "wp (reuse_prefix L allow req configuration tokens)
    (\<lambda>n t. (\<exists>c. ctx t = Some c \<and> kv c = take (n - 1) tokens \<and> t = s\<lparr>ctx := Some c\<rparr>) \<and> n \<le> length tokens \<and>
       (0 < n \<longrightarrow> allow \<and> cacheValid s \<and> cachedSession s = session_id req
          \<and> cachedConfiguration s = configuration \<and> n \<le> longestCommonPrefix (cachedPromptTokens s) tokens))
    E s"
proof -
  from inv obtain c where c: "ctx s = Some c" by (auto simp: cache_sound_def split: option.splits)
  have kv0: "kv (memory_clear L c') = []" for c' using kv_clear [OF laws] .
  show ?thesis
  proof (cases "identity_matches L allow req configuration c s")
    case False
    then show ?thesis using c kv0 by (simp add: wp_def reuse_prefix_def)
  next
    case True
    let ?n = "longestCommonPrefix (cachedPromptTokens s) tokens"
    let ?k = "if 0 < ?n then ?n - 1 else 0"
    obtain removed c1 where rm: "seq_rm L c (int ?k) = (removed, c1)" by fastforce
    have valid: "cacheValid s" using True by (simp add: identity_matches_def)
    have "take ?k (kv c) = take ?k (cachedPromptTokens s)"
    proof -
      have "?k \<le> length (cachedPromptTokens s)"
        using longestCommonPrefix_le(1) [of "cachedPromptTokens s" tokens] by auto
      then have "take ?k (kv c) = take ?k (take (length (cachedPromptTokens s)) (kv c))"
        by (simp add: min_absorb1)
      also have "take (length (cachedPromptTokens s)) (kv c) = cachedPromptTokens s"
        using inv c valid by (simp add: cache_sound_def)
      finally show ?thesis .
    qed
    also have "\<dots> = take ?k tokens" by (rule longestCommonPrefix_take_le) simp
    finally have k: "take ?k (kv c) = take ?k tokens" .
    show ?thesis
    proof (cases removed)
      case False
      then show ?thesis using c kv0 rm True by (simp add: wp_def reuse_prefix_def)
    next
      case removed: True
      with kv_seq_rm [OF laws] rm have "kv c1 = take ?k tokens" using k by simp
      then have "kv c1 = take (?n - 1) tokens" by (auto split: if_splits)
      then show ?thesis using c rm True removed longestCommonPrefix_le(2) [of "cachedPromptTokens s" tokens]
        by (simp add: wp_def reuse_prefix_def identity_matches_def)
    qed
  qed
qed


section \<open>One run\<close>

lemma prepare_bounds:
  assumes "prepare L m prompt = Inr (format, tokens)"
  shows "tokens \<noteq> []" "length tokens + max_output \<le> nat context_size" "chat_template L m = Some format"
proof -
  have *: "0 < int (length tokens) \<and> int (length tokens) + int max_output \<le> context_size
      \<and> chat_template L m = Some format"
    using assms unfolding prepare_def Let_def
    by (simp split: option.split_asm if_split_asm prod.split_asm) auto
  from * show "length tokens + max_output \<le> nat context_size" by linarith
  from * show "tokens \<noteq> []" "chat_template L m = Some format" by auto
qed

definition run_done :: "('m, 'd, 'c, 's, 'w) llama \<Rightarrow> ('c \<Rightarrow> int list) \<Rightarrow> ('s \<Rightarrow> int list \<Rightarrow> int \<times> 's)
    \<Rightarrow> string \<Rightarrow> request \<Rightarrow> bool \<Rightarrow> 'm \<Rightarrow> ('m, 'c, 'w) hymt \<Rightarrow> string \<Rightarrow> ('m, 'c, 'w) hymt \<Rightarrow> bool" where
  "run_done L kv nx prompt req allow m s r t \<longleftrightarrow>
     fixed_part t = fixed_part s \<and> ref_translate L nx m prompt = Inr r \<and> cache_sound kv t \<and>
     cacheValid t = allow \<and>
     (allow \<longrightarrow> (\<exists>format tokens. prepare L m prompt = Inr (format, tokens) \<and> cachedPromptTokens t = tokens \<and>
        cachedConfiguration t = configuration_of (path s) (cache_scope req) format \<and>
        cachedSession t = session_id req))"

lemma run_done_I:
  assumes compl: "completed_from kv R tokens u t" and fx: "fixed_part u = fixed_part s" and "\<not> cacheValid u"
    and prep: "prepare L m prompt = Inr (format, tokens)"
    and ref: "ref_translate L nx m prompt = Inr r"
    and R: "r_allow R = allow" "r_tokens R = tokens" "r_request R = req"
      "r_configuration R = configuration_of (path s) (cache_scope req) format"
  shows "run_done L kv nx prompt req allow m s r t"
proof -
  from compl obtain c ys where t: "fixed_part t = fixed_part u" "ctx t = Some c" "kv c = tokens @ ys"
      "length (kv c) \<le> nat context_size"
      "if r_allow R then stored R (int (length (kv c)) - 1) t else cache_part t = cache_part u"
    by (auto simp: completed_from_def)
  have ne: "tokens \<noteq> []" by (rule prepare_bounds [OF prep])
  show ?thesis
  proof (cases allow)
    case True
    then show ?thesis using t fx ne R prep ref
      by (cases tokens) (auto simp: run_done_def stored_def cache_sound_def)
  next
    case False
    then have "cache_part t = cache_part u" using t R by simp
    then have "\<not> cacheValid t" using assms(3) by (simp add: cache_part_def)
    then show ?thesis using t fx ref False by (auto simp: run_done_def cache_sound_def)
  qed
qed

lemma wp_run:
  assumes laws: "kv_laws L (nat context_size) kv fresh nx" and inv: "cache_sound kv s"
    and m: "model s = Some m" and b: "0 < batch s"
  shows "wp (run L prompt req cb allow) (run_done L kv nx prompt req allow m s)
    (failed_from L kv cb (ref_translate L nx m prompt) s) s"
proof -
  let ?r = "ref_translate L nx m prompt"
  let ?E = "failed_from L kv cb ?r s"
  from inv obtain c where c: "ctx s = Some c" "length (kv c) \<le> nat context_size"
    by (auto simp: cache_sound_def split: option.splits)
  let ?f = "load_flag (others L) (eflag s)"
  show ?thesis
  proof (cases "fst ?f")
    case True
    then have "\<not> (reliable L (nat context_size) kv cb \<and> \<not> cancelled (eflag s))"
      using not_cancelled_load by blast
    with True c show ?thesis by (auto simp: run_def wp_simps Let_def failed_from_def)
  next
    case no_cancel: False
    show ?thesis
    proof (cases "prepare L m prompt")
      case (Inl e)
      then have "?r = Inl e" by (simp add: ref_translate_def)
      with Inl no_cancel c m show ?thesis by (simp add: run_def wp_simps Let_def failed_from_def)
    next
      case (Inr ft)
      then obtain format tokens where prep: "prepare L m prompt = Inr (format, tokens)" by (cases ft) auto
      note bounds = prepare_bounds [OF prep]
      have ref: "?r = ref_generate L m nx (sampler_chain L (hymt_sampler (vocab_n_tokens L m))) tokens [] max_output"
        by (simp add: ref_translate_def prep)
      let ?cfg = "configuration_of (path s) (cache_scope req) format"
      define u where "u = s\<lparr>eflag := snd ?f, reads := Suc (reads s)\<rparr>"
      have u: "fixed_part u = fixed_part s" "cache_sound kv u" "batch u = batch s" "path u = path s"
        "reliable L (nat context_size) kv cb \<and> \<not> cancelled (eflag s) \<longrightarrow> \<not> cancelled (eflag u)"
        using inv not_cancelled_load [of L "nat context_size" kv cb "eflag s"]
        by (auto simp: u_def cache_sound_def split: option.splits)
      have gen: "wp (generate L \<lparr>r_model = m, r_request = req, r_callback = cb, r_allow = allow,
            r_tokens = tokens, r_configuration = ?cfg, r_start = st, r_decode_start = ds\<rparr>
           (sampler_chain L (hymt_sampler (vocab_n_tokens L m))) [] at 0 0 max_output)
          (run_done L kv nx prompt req allow m s) ?E v"
        if v: "ctx v = Some c" "fresh c" "kv c = tokens" "fixed_part v = fixed_part s" "\<not> cacheValid v"
          "reliable L (nat context_size) kv cb \<and> \<not> cancelled (eflag s) \<longrightarrow> \<not> cancelled (eflag v)"
        for v c at st ds
      proof (rule wp_mono [OF wp_generate [OF laws v(1,2)]], goal_cases)
        case 1
        then show ?case using bounds(2) v(3) by simp
      next
        case (2 x t)
        then show ?case using v ref prep by (auto intro: run_done_I)
      next
        case (3 e t)
        then have "failed_from L kv cb ?r v e t" using v(3) ref by simp
        then show ?case by (rule failed_from_trans) (use v in auto)
      qed
      have pre: "wp (prefill L (batch s) tokens off) (\<lambda>_ t.
           (\<exists>c. ctx t = Some c \<and> kv c = tokens \<and> fresh c) \<and> fixed_part t = fixed_part s \<and> \<not> cacheValid t \<and>
           (reliable L (nat context_size) kv cb \<and> \<not> cancelled (eflag s) \<longrightarrow> \<not> cancelled (eflag t)))
         ?E v"
        if v: "ctx v = Some c" "kv c = take (nat off) tokens" "0 \<le> off" "off < int (length tokens)"
            "fixed_part v = fixed_part s" "\<not> cacheValid v"
            "reliable L (nat context_size) kv cb \<and> \<not> cancelled (eflag s) \<longrightarrow> \<not> cancelled (eflag v)" for v c off
      proof (rule wp_mono [OF wp_prefill [OF laws b _ v(1), where cb = cb and r = ?r]], goal_cases)
        case (5 x t)
        then show ?case using v by (auto simp: cache_part_def)
      next
        case (6 e t)
        then show ?case by (rule failed_from_trans) (use v in auto)
      qed (use v bounds in \<open>auto simp: max_output_def\<close>)
      have len: "tokens \<noteq> []" by (rule bounds)
      have kvsync: "kv (synchronize L c) = kv c" "fresh c \<Longrightarrow> fresh (synchronize L c)" for c
        using kv_synchronize [OF laws] kv_synchronize_fresh [OF laws] by auto
      have reuse: "wp (reuse_prefix L allow req ?cfg tokens)
          (\<lambda>n t. (\<exists>c. kv c = take (n - 1) tokens \<and> t = u\<lparr>ctx := Some c\<rparr>) \<and> n \<le> length tokens) ?E u"
        by (rule wp_mono [OF wp_reuse_prefix [OF laws u(2), where E = ?E]]) auto
      show ?thesis
        using no_cancel m
        apply (simp add: run_def wp_simps Let_def prep u_def [symmetric] u(4))
        apply (rule wp_mono [OF reuse])
         apply (clarsimp simp: wp_simps u Let_def)
         apply (intro conjI impI)
          apply (rule wp_mono [OF pre]; (simp add: u len nat_diff_distrib)?)
          apply (elim conjE exE, simp add: u, rule gen, simp, (simp add: kvsync)+)
         apply (rule wp_mono [OF pre]; (simp add: u len nat_diff_distrib)?)
         apply (elim conjE exE, simp add: u, rule gen, simp, (simp add: kvsync)+)
        done
    qed
  qed
qed

end
