(* ===== verification/HyMt_Engine.thy ===== *)
theory HyMt_Engine imports HyMt_Runs begin

text \<open>
  The public operations of \<open>HyMt\<close>: construction, translation with and without the prefix cache,
  the fallback to the CPU, and what each of them guarantees on every outcome.
\<close>

section \<open>Initialisation\<close>

text \<open>What initialising never touches.\<close>

definition setup_part :: "('m, 'c, 'w) hymt \<Rightarrow> string \<times> int \<times> int \<times> int \<times> int \<times> bool \<times> flag \<times> nat \<times> stats \<times> progress list" where
  "setup_part s = (path s, threads s, batch s, ubatch s, fallbackCount s, preferOpenCL s, eflag s,
     reads s, lastStats s, published s)"

definition valid_batches :: "('m, 'c, 'w) hymt \<Rightarrow> bool" where
  "valid_batches s \<longleftrightarrow> 0 < batch s \<and> 0 < ubatch s \<and> ubatch s \<le> batch s"

text \<open>An engine that is ready to translate.\<close>

definition ready :: "('c \<Rightarrow> int list) \<Rightarrow> ('m, 'c, 'w) hymt \<Rightarrow> bool" where
  "ready kv s \<longleftrightarrow> valid_batches s \<and> model s \<noteq> None \<and> cache_sound kv s"

definition cold :: "('c \<Rightarrow> int list) \<Rightarrow> ('m, 'c, 'w) hymt \<Rightarrow> bool" where
  "cold kv s \<longleftrightarrow> \<not> cacheValid s \<and> (\<exists>c. ctx s = Some c \<and> kv c = [])"

lemma setup_part_fields:
  assumes "setup_part t = setup_part s"
  shows "batch t = batch s" "ubatch t = ubatch s" "fallbackCount t = fallbackCount s" "path t = path s"
    "eflag t = eflag s" "lastStats t = lastStats s" "preferOpenCL t = preferOpenCL s" "published t = published s"
    "reads t = reads s" "threads t = threads s"
  using assms by (simp_all add: setup_part_def)

lemma wp_load_step:
  assumes "\<And>m w log. Q log (s\<lparr>model := m, world := w\<rparr>)" "\<And>e w. E e (s\<lparr>world := w\<rparr>)"
  shows "wp (load_step L device) Q E s"
  using assms by (auto simp: wp_def load_step_def split: prod.splits sum.splits)

lemma wp_context_step:
  assumes "\<And>c w. (\<forall>c'. c = Some c' \<longrightarrow> (\<exists>p w'. new_context L m p (world s) = (Some c', w') \<and> n_ctx p = context_size))
      \<Longrightarrow> Q () (s\<lparr>ctx := c, world := w\<rparr>)"
  shows "wp (context_step L m) Q E s"
  unfolding wp_def context_step_def Let_def
  by (auto split: prod.splits intro!: assms) force

lemma context_step_kv:
  assumes "kv_laws L (nat context_size) kv fresh nx"
    "\<And>c w. (\<forall>c'. c = Some c' \<longrightarrow> kv c' = []) \<Longrightarrow> Q () (s\<lparr>ctx := c, world := w\<rparr>)"
  shows "wp (context_step L m) Q E s"
  by (rule wp_context_step, rule assms(2)) (use kv_new [OF assms(1)] in \<open>auto simp: context_size_def\<close>)

lemma wp_initialize:
  assumes laws: "kv_laws L (nat context_size) kv fresh nx"
  shows "wp (initialize L device)
    (\<lambda>_ t. setup_part t = setup_part s \<and> ready kv t \<and> cold kv t \<and> opencl t = (device \<noteq> None))
    (\<lambda>e t. setup_part t = setup_part s \<and> cache_part t = cache_part s \<and> opencl t = opencl s
       \<and> activeBackend t = activeBackend s \<and> (ctx s = None \<longrightarrow> ctx t = None)
       \<and> (\<not> valid_batches s \<longrightarrow> e = RuntimeError ''Invalid translation batch/ubatch configuration''
            \<and> t = s)) s"
proof (cases "valid_batches s")
  case False
  then show ?thesis by (auto simp: initialize_def wp_simps valid_batches_def setup_part_def)
next
  case True
  then have b: "0 < batch s" "0 < ubatch s" "ubatch s \<le> batch s" by (simp_all add: valid_batches_def)
  show ?thesis
    unfolding initialize_def wp_mbind wp_mget wp_mthen wp_mguard
    using b apply simp
    apply (rule wp_load_step)
     apply (simp add: wp_simps split: option.splits)
     apply (intro conjI impI allI)
         apply (simp_all add: setup_part_def cache_part_def True)
    apply (rule context_step_kv [OF laws])
    apply (auto simp: wp_simps place_layers_def Let_def setup_part_def ready_def cold_def valid_batches_def
        cache_sound_def cache_part_def)
    done
qed


section \<open>Translation\<close>

text \<open>
  The three ways an engine can come out of a translation: unchanged, moved to the CPU by one
  fallback, or broken, when the fallback itself could not initialise.
\<close>

definition same_engine :: "('m, 'c, 'w) hymt \<Rightarrow> ('m, 'c, 'w) hymt \<Rightarrow> bool" where
  "same_engine s t \<longleftrightarrow> fallbackCount t = fallbackCount s \<and> opencl t = opencl s \<and> model t = model s"

definition fell_back :: "('m, 'c, 'w) hymt \<Rightarrow> ('m, 'c, 'w) hymt \<Rightarrow> bool" where
  "fell_back s t \<longleftrightarrow> opencl s \<and> \<not> opencl t \<and> fallbackCount t = fallbackCount s + 1"

definition broken :: "('m, 'c, 'w) hymt \<Rightarrow> ('m, 'c, 'w) hymt \<Rightarrow> bool" where
  "broken s t \<longleftrightarrow> opencl s \<and> opencl t \<and> ctx t = None \<and> \<not> cacheValid t \<and> fallbackCount t = fallbackCount s"

lemma fixed_part_ready:
  assumes "fixed_part t = fixed_part s"
  shows "valid_batches t = valid_batches s" "same_engine s t"
    "\<And>u. same_engine u t = same_engine u s" "\<And>u. fell_back u t = fell_back u s"
  using fixed_part_fields [OF assms]
  by (auto simp: valid_batches_def same_engine_def fell_back_def)

lemma wp_attempt:
  assumes laws: "kv_laws L (nat context_size) kv fresh nx" and ready: "ready kv s"
    and m: "model s = Some m"
  shows "wp (attempt L prompt req cb allow)
    (\<lambda>r t. ready kv t \<and> fixed_part t = fixed_part s \<and> cacheValid t = allow \<and> ref_translate L nx m prompt = Inr r)
    (failed_from L kv cb (ref_translate L nx m prompt) s) s"
  unfolding attempt_def wp_mbind
proof (rule wp_mono [OF wp_run [OF laws _ m]], goal_cases)
  case (3 r t)
  then have fx: "fixed_part t = fixed_part s" by (simp add: run_done_def)
  show ?case using 3 fixed_part_fields [OF fx] fixed_part_ready [OF fx] ready
    by (auto simp: wp_simps run_done_def ready_def cache_sound_def valid_batches_def split: option.splits)
qed (use ready in \<open>auto simp: ready_def valid_batches_def\<close>)

lemma clear_after_failure:
  assumes laws: "kv_laws L (nat context_size) kv fresh nx"
    and s: "ctx s = Some c" "valid_batches s" "model s \<noteq> None" "\<not> cacheValid s"
    and E: "\<And>t. ready kv t \<Longrightarrow> cold kv t \<Longrightarrow> fixed_part t = fixed_part s \<Longrightarrow> E e t"
  shows "wp (mthen (clear_memory L) (mthrow e)) Q E s"
  using s by (auto simp: clear_memory_def wp_simps ready_def cold_def cache_sound_def valid_batches_def
      kv_clear [OF laws] intro!: E)

lemma wp_fallbackToCpu:
  assumes laws: "kv_laws L (nat context_size) kv fresh nx"
    and s: "valid_batches s" "opencl s" "\<not> cacheValid s"
  shows "wp (fallbackToCpu L)
    (\<lambda>_ t. ready kv t \<and> cold kv t \<and> fell_back s t)
    (\<lambda>e t. broken s t) s"
proof -
  let ?u = "s\<lparr>ctx := None, model := None\<rparr>"
  have "wp (initialize L None) (\<lambda>_ t. wp (mmodify (\<lambda>s. s\<lparr>fallbackCount := fallbackCount s + 1,
        activeBackend := ''CPU'' @ middot @ ''Adreno OpenCL inference failed; fallback''\<rparr>))
      (\<lambda>_ t. ready kv t \<and> cold kv t \<and> fell_back s t) (\<lambda>e t. broken s t) t) (\<lambda>e t. broken s t) ?u"
  proof (rule wp_mono [OF wp_initialize [OF laws]], goal_cases)
    case (1 x t)
    then show ?case using s setup_part_fields [of t ?u]
      by (auto simp: wp_simps ready_def cold_def fell_back_def valid_batches_def cache_sound_def split: option.splits)
  next
    case (2 e t)
    then show ?case using s setup_part_fields [of t ?u]
      by (auto simp: broken_def cache_part_def)
  qed
  then show ?thesis by (simp add: fallbackToCpu_def wp_simps)
qed

text \<open>The outcome of one translation, as a relation between the states before and after it.\<close>

definition translated :: "('m, 'd, 'c, 's, 'w) llama \<Rightarrow> ('c \<Rightarrow> int list) \<Rightarrow> ('s \<Rightarrow> int list \<Rightarrow> int \<times> 's)
    \<Rightarrow> bool \<Rightarrow> string \<Rightarrow> ('m, 'c, 'w) hymt \<Rightarrow> string \<Rightarrow> ('m, 'c, 'w) hymt \<Rightarrow> bool" where
  "translated L kv nx allow prompt s r t \<longleftrightarrow> ready kv t \<and> cacheValid t = allow \<and>
     (\<exists>m. model t = Some m \<and> ref_translate L nx m prompt = Inr r) \<and> (same_engine s t \<or> fell_back s t)"

definition not_translated :: "('m, 'd, 'c, 's, 'w) llama \<Rightarrow> ('c \<Rightarrow> int list) \<Rightarrow> ('s \<Rightarrow> int list \<Rightarrow> int \<times> 's)
    \<Rightarrow> callback \<Rightarrow> string \<Rightarrow> ('m, 'c, 'w) hymt \<Rightarrow> exn \<Rightarrow> ('m, 'c, 'w) hymt \<Rightarrow> bool" where
  "not_translated L kv nx cb prompt s e t \<longleftrightarrow>
     (ready kv t \<and> cold kv t \<and> (same_engine s t \<or> fell_back s t) \<or> broken s t) \<and>
     (reliable L (nat context_size) kv cb \<and> \<not> cancelled (eflag s) \<longrightarrow>
        (\<exists>m e'. model s = Some m \<and> ref_translate L nx m prompt = Inl e' \<and> (\<not> opencl s \<longrightarrow> e' = e)))"

lemma wp_recover:
  assumes laws: "kv_laws L (nat context_size) kv fresh nx"
    and s: "valid_batches s" "model s = Some m"
    and u: "failed_from L kv cb (ref_translate L nx m prompt) s e u"
  shows "wp (recover L allow prompt req cb e) (translated L kv nx allow prompt s)
    (not_translated L kv nx cb prompt s) u"
proof -
  from u obtain c where fx: "fixed_part u = fixed_part s" and c: "ctx u = Some c"
    and rel: "reliable L (nat context_size) kv cb \<and> \<not> cancelled (eflag s) \<longrightarrow> ref_translate L nx m prompt = Inl e"
    by (auto simp: failed_from_def)
  note fields = fixed_part_fields [OF fx]
  have rel': "reliable L (nat context_size) kv cb \<and> \<not> cancelled (eflag s) \<longrightarrow>
        (\<exists>m e'. model s = Some m \<and> ref_translate L nx m prompt = Inl e' \<and> (\<not> opencl s \<longrightarrow> e' = e2))"
    if "opencl s \<or> e2 = e" for e2 using rel s that by auto
  let ?v = "u\<lparr>cacheValid := False, cachedPromptTokens := [], cachedConfiguration := [], cachedPositionMax := -1\<rparr>"
  have give_up: "wp (mthen (clear_memory L) (mthrow e)) (translated L kv nx allow prompt s)
      (not_translated L kv nx cb prompt s) v"
    if "ctx v = Some c" "fixed_part v = fixed_part s" "\<not> cacheValid v" for v
  proof (rule clear_after_failure [OF laws that(1)])
    fix t assume "ready kv t" "cold kv t" "fixed_part t = fixed_part v"
    then show "not_translated L kv nx cb prompt s e t"
      using that(2) rel' [of e] fixed_part_ready(2) [of t s] unfolding not_translated_def by metis
  qed (use that fixed_part_fields [OF that(2)] s in \<open>auto simp: valid_batches_def\<close>)
  have retry: "wp (mcatch (attempt L prompt req cb allow)
        (\<lambda>e2. mthen (mmodify (\<lambda>s. s\<lparr>cacheValid := False\<rparr>)) (mthen (clear_memory L) (mthrow e2))))
      (translated L kv nx allow prompt s) (not_translated L kv nx cb prompt s) v"
    if v: "ready kv v" "fell_back s v" for v
  proof -
    from v obtain m' where m': "model v = Some m'" by (auto simp: ready_def)
    show ?thesis unfolding wp_mcatch
    proof (rule wp_mono [OF wp_attempt [OF laws v(1) m']], goal_cases)
      case (1 r t)
      then show ?case using v m' fixed_part_fields [of t v] fixed_part_ready(4) [of t v s]
        by (auto simp: translated_def)
    next
      case (2 e2 t)
      then obtain c2 where t: "fixed_part t = fixed_part v" "ctx t = Some c2" by (auto simp: failed_from_def)
      have "wp (mthen (clear_memory L) (mthrow e2)) (translated L kv nx allow prompt s)
          (not_translated L kv nx cb prompt s) (t\<lparr>cacheValid := False\<rparr>)"
      proof (rule clear_after_failure [OF laws])
        fix w assume w: "ready kv w" "cold kv w" "fixed_part w = fixed_part (t\<lparr>cacheValid := False\<rparr>)"
        then have "fell_back s w" using t v fixed_part_ready(4) [of w v s] by simp
        then show "not_translated L kv nx cb prompt s e2 w"
          using w rel' [of e2] by (auto simp: not_translated_def fell_back_def)
      qed (use t v m' fixed_part_fields [OF t(1)] in \<open>auto simp: ready_def valid_batches_def\<close>)
      then show ?case by (simp add: wp_simps)
    qed
  qed
  have fallback: "wp (fallbackToCpu L) (\<lambda>x t. wp (mthen (mmodify (\<lambda>s. s\<lparr>lastStats := zero_stats\<rparr>))
        (mcatch (attempt L prompt req cb allow)
        (\<lambda>e2. mthen (mmodify (\<lambda>s. s\<lparr>cacheValid := False\<rparr>)) (mthen (clear_memory L) (mthrow e2)))))
      (translated L kv nx allow prompt s) (not_translated L kv nx cb prompt s) t)
      (not_translated L kv nx cb prompt s) v"
    if v: "fixed_part v = fixed_part s" "\<not> cacheValid v" "opencl s" for v
  proof (rule wp_mono [OF wp_fallbackToCpu [OF laws]], goal_cases)
    case (4 x t)
    then show ?case unfolding wp_mthen wp_mmodify
      using fixed_part_fields [OF v(1)]
      by (intro retry) (auto simp: ready_def valid_batches_def cache_sound_def fell_back_def split: option.splits)
  next
    case (5 e2 t)
    then show ?case using rel' [of e2] v fixed_part_fields [OF v(1)]
      by (auto simp: not_translated_def broken_def)
  qed (use v s fixed_part_fields [OF v(1)] in \<open>auto simp: valid_batches_def\<close>)
  show ?thesis
    using fields(7) c fx
    by (auto simp: recover_def wp_simps Let_def
        intro!: give_up [unfolded wp_simps] fallback [unfolded wp_simps])
qed

lemma wp_translate_attempts:
  assumes laws: "kv_laws L (nat context_size) kv fresh nx" and ready: "ready kv s"
  shows "wp (translate_attempts L allow prompt req cb) (translated L kv nx allow prompt s)
    (not_translated L kv nx cb prompt s) s"
proof -
  from ready obtain m where m: "model s = Some m" by (auto simp: ready_def)
  let ?s = "s\<lparr>lastStats := zero_stats, published := []\<rparr>"
  have r: "ready kv ?s" using ready
    by (auto simp: ready_def valid_batches_def cache_sound_def split: option.splits)
  have "wp (attempt L prompt req cb allow) (translated L kv nx allow prompt s)
      (\<lambda>e t. wp (recover L allow prompt req cb e) (translated L kv nx allow prompt s)
        (not_translated L kv nx cb prompt s) t) ?s"
  proof (rule wp_mono [OF wp_attempt [OF laws r, where m = m]], goal_cases)
    case (2 r t)
    then show ?case using m fixed_part_fields [of t s] fixed_part_ready(2) [of t s] by (auto simp: translated_def)
  next
    case (3 e t)
    then have "failed_from L kv cb (ref_translate L nx m prompt) s e t" by (auto simp: failed_from_def)
    then show ?case using ready m by (intro wp_recover [OF laws]) (auto simp: ready_def)
  qed (use m in simp)
  then show ?thesis by (simp add: translate_attempts_def wp_simps)
qed


section \<open>Consequences used by the properties\<close>

lemma translate_attempts_cases:
  assumes "kv_laws L (nat context_size) kv fresh nx" and "ready kv s"
  obtains (returns) r t where "translate_attempts L allow prompt req cb s = (Ok r, t)"
      "translated L kv nx allow prompt s r t"
  | (throws) e t where "translate_attempts L allow prompt req cb s = (Throw e, t)"
      "not_translated L kv nx cb prompt s e t"
  using wp_translate_attempts [OF assms, of allow prompt req cb]
  by (cases "translate_attempts L allow prompt req cb s"; cases "fst (translate_attempts L allow prompt req cb s)")
    (auto simp: wp_def)

text \<open>A reliable environment returns the reference's text; without the device, also its exception.\<close>

lemma reliable_returns:
  assumes laws: "kv_laws L (nat context_size) kv fresh nx" and ready: "ready kv s" and m: "model s = Some m"
    and rel: "reliable L (nat context_size) kv cb" "\<not> cancelled (eflag s)"
    and ref: "ref_translate L nx m prompt = Inr r"
  shows "\<exists>t. translate_attempts L allow prompt req cb s = (Ok r, t)"
proof -
  let ?s = "s\<lparr>lastStats := zero_stats, published := []\<rparr>"
  have r: "ready kv ?s" using ready
    by (auto simp: ready_def valid_batches_def cache_sound_def split: option.splits)
  have "wp (attempt L prompt req cb allow) (\<lambda>r' t. r' = r) (\<lambda>e t. False) ?s"
    by (rule wp_mono [OF wp_attempt [OF laws r, where m = m]])
      (use m rel ref in \<open>auto simp: failed_from_def\<close>)
  then have "wp (translate_attempts L allow prompt req cb) (\<lambda>r' t. r' = r) (\<lambda>e t. False) s"
    unfolding translate_attempts_def wp_mthen wp_mmodify wp_mcatch by (rule wp_mono) auto
  then show ?thesis
    by (auto simp: wp_def split: prod.splits outcome.splits)
qed

lemma reliable_run_returns:
  assumes laws: "kv_laws L (nat context_size) kv fresh nx" and ready: "ready kv s" and m: "model s = Some m"
    and rel: "reliable L (nat context_size) kv cb" "\<not> cancelled (eflag s)"
    and ref: "ref_translate L nx m prompt = Inr r"
  shows "\<exists>t. run L prompt req cb allow s = (Ok r, t)"
proof -
  have "wp (run L prompt req cb allow) (\<lambda>r' t. r' = r) (\<lambda>e t. False) s"
    by (rule wp_mono [OF wp_run [OF laws _ m]])
      (use ready rel ref in \<open>auto simp: failed_from_def run_done_def ready_def valid_batches_def\<close>)
  then show ?thesis by (auto simp: wp_def split: prod.splits outcome.splits)
qed

lemma reliable_outcome:
  assumes "kv_laws L (nat context_size) kv fresh nx" and "ready kv s" and m: "model s = Some m"
    and rel: "reliable L (nat context_size) kv cb" "\<not> cancelled (eflag s)" and cpu: "\<not> opencl s"
  shows "fst (translate_attempts L allow prompt req cb s) =
       (case ref_translate L nx m prompt of Inr r \<Rightarrow> Ok r | Inl e \<Rightarrow> Throw e)"
proof (cases rule: translate_attempts_cases [OF assms(1,2), of allow prompt req cb])
  case (1 r t)
  then show ?thesis using cpu m by (auto simp: translated_def fell_back_def same_engine_def)
next
  case (2 e t)
  then show ?thesis using cpu m rel by (auto simp: not_translated_def)
qed

text \<open>A cancelled engine gives up before it touches the context.\<close>

lemma wp_cancelled:
  assumes laws: "kv_laws L (nat context_size) kv fresh nx" and ready: "ready kv s"
    and c: "cancelled (eflag s)" "\<forall>n. others L n = []"
  shows "wp (translate_attempts L allow prompt req cb) (\<lambda>_ _. False)
    (\<lambda>e t. e = RuntimeError ''Translation cancelled'' \<and> ready kv t \<and> cold kv t \<and> same_engine s t
       \<and> published t = []) s"
proof -
  from ready obtain x where x: "ctx s = Some x" by (auto simp: ready_def cache_sound_def split: option.splits)
  have l: "load_flag (others L) f = (cancelled f, f\<lparr>loads := Suc (loads f)\<rparr>)" for f
    using c(2) by (simp add: load_flag_eq Let_def)
  show ?thesis using ready c x kv_clear [OF laws]
    by (auto simp: translate_attempts_def attempt_def run_def recover_def clear_memory_def wp_simps Let_def l
        ready_def cold_def cache_sound_def valid_batches_def same_engine_def)
qed

section \<open>Construction\<close>

definition started :: "('m, 'd, 'c, 's, 'w) llama \<Rightarrow> ('c \<Rightarrow> int list) \<Rightarrow> bool \<Rightarrow> ('m, 'c, 'w) hymt \<Rightarrow> bool" where
  "started L kv pref s \<longleftrightarrow> ready kv s \<and> cold kv s \<and>
     fallbackCount s = (if pref \<and> \<not> opencl s then 1 else 0) \<and>
     (opencl s \<longrightarrow> pref \<and> adreno830 L \<noteq> None)"

lemma wp_construct:
  assumes laws: "kv_laws L (nat context_size) kv fresh nx"
    and s: "s = unconstructed modelPath cpuThreads contextBatch contextUbatch pref w"
  shows "wp (construct L) (\<lambda>_ t. started L kv pref t)
    (\<lambda>e t. True) s"
proof -
  have init: "wp (initialize L None) (\<lambda>_ t. wp (mmodify (\<lambda>s. if why \<noteq> [] then s\<lparr>activeBackend := why\<rparr> else s))
      (\<lambda>_ t. started L kv pref t) (\<lambda>e t. True) t) (\<lambda>e t. True) u"
    if "fallbackCount u = (if pref then 1 else 0)" for why u
    by (rule wp_mono [OF wp_initialize [OF laws]])
      (use that in \<open>auto simp: wp_simps started_def setup_part_def ready_def cold_def valid_batches_def
          cache_sound_def split: option.splits\<close>)
  have probe: "wp (probe L d) Q E v" if "\<And>ok w. Q ok (v\<lparr>world := w\<rparr>)" for d Q E v
    using that by (auto simp: wp_def probe_def split: prod.splits)
  have open_cl: "wp (try_opencl L) (\<lambda>why t. (why = None \<longrightarrow> started L kv pref t) \<and>
      (\<forall>y. why = Some y \<longrightarrow> fallbackCount t = 1)) (\<lambda>e t. True) s" if "pref"
  proof (cases "adreno830 L")
    case None
    then show ?thesis by (simp add: try_opencl_def count_fallback_def wp_simps s unconstructed_def)
  next
    case (Some d)
    have "wp (initialize L (Some d)) (\<lambda>x t. started L kv pref t)
        (\<lambda>e t. fallbackCount t = 0) u" if "fallbackCount u = 0" for u
      by (rule wp_mono [OF wp_initialize [OF laws]])
        (use that \<open>pref\<close> Some in \<open>auto simp: started_def setup_part_def\<close>)
    then show ?thesis
      by (auto simp: try_opencl_def Some wp_simps count_fallback_def s unconstructed_def intro!: probe)
  qed
  show ?thesis
  proof (cases pref)
    case False
    then have "fallbackCount s = 0" "\<not> preferOpenCL s" by (simp_all add: s unconstructed_def)
    then show ?thesis using init [of s "[]"] False by (simp add: construct_def wp_simps)
  next
    case True
    have tail: "wp (initialize L None) (\<lambda>x t. (why \<noteq> [] \<longrightarrow> started L kv True (t\<lparr>activeBackend := why\<rparr>))
         \<and> (why = [] \<longrightarrow> started L kv True t)) (\<lambda>e t. True) u" if "fallbackCount u = 1" for why u
      by (rule wp_mono [OF init [of u why]]) (use that True in \<open>auto simp: wp_simps split: if_splits\<close>)
    have p: "preferOpenCL s" using True by (simp add: s unconstructed_def)
    show ?thesis
      unfolding construct_def wp_mbind wp_mget using p
      apply simp
      apply (rule wp_mono [OF open_cl [OF True]])
       apply (auto simp: wp_simps True split: option.splits intro!: tail)
      done
  qed
qed

section \<open>An engine without a model\<close>

lemma missing_model_crashes:
  assumes "model s = None" "load_flag (others L) (eflag s) = (False, f)"
  shows "fst (translate_attempts L allow prompt req cb s) = Crash ''null llama_model''"
  using assms
  by (simp add: translate_attempts_def attempt_def run_def mthen_def mbind_def mmodify_def mcatch_def
      checkCancelled_def load_cancelled_def mguard_def mret_def now_def get_model_def)

lemma wp_reuse_cold:
  "ctx s = Some c \<Longrightarrow> \<not> cacheValid s \<Longrightarrow>
     wp (reuse_prefix L allow req configuration tokens) Q E s = Q 0 (s\<lparr>ctx := Some (memory_clear L c)\<rparr>)"
  by (simp add: wp_def reuse_prefix_def identity_matches_def)

section \<open>The cache configuration\<close>

lemma length_prefixed_inj:
  assumes "nat_digits (length v) @ CHR '':'' # v @ rest = nat_digits (length w) @ CHR '':'' # w @ rest'"
  shows "v = w \<and> rest = rest'"
proof -
  have digits: "takeWhile (\<lambda>c. c \<noteq> CHR '':'') (nat_digits n @ CHR '':'' # xs) = nat_digits n" for n xs
  proof -
    have "c \<noteq> CHR '':''" if "c \<in> set (nat_digits n)" for c
      using nat_digits_is_digit [OF that] by (auto simp: is_digit_def)
    then show ?thesis by (subst takeWhile_append2) auto
  qed
  from assms digits have "nat_digits (length v) = nat_digits (length w)" by metis
  with assms have "length v = length w" "v @ rest = w @ rest'" using nat_digits_inj by auto
  then show ?thesis by simp
qed

lemma configuration_of_inj:
  "configuration_of a b c = configuration_of a' b' c' \<longleftrightarrow> a = a' \<and> b = b' \<and> c = c'"
proof
  assume "configuration_of a b c = configuration_of a' b' c'"
  then have eq: "nat_digits (length a) @ CHR '':'' # a @ nat_digits (length b) @ CHR '':'' # b
        @ nat_digits (length c) @ CHR '':'' # c @ []
      = nat_digits (length a') @ CHR '':'' # a' @ nat_digits (length b') @ CHR '':'' # b'
        @ nat_digits (length c') @ CHR '':'' # c' @ []"
    by (simp add: configuration_of_def appendPart_def)
  note 1 = length_prefixed_inj [OF eq]
  note 2 = length_prefixed_inj [OF conjunct2 [OF 1]]
  note 3 = length_prefixed_inj [OF conjunct2 [OF 2]]
  from 1 2 3 show "a = a' \<and> b = b' \<and> c = c'" by blast
qed simp

end
