(* ===== verification/HyMt_Progress.thy ===== *)
theory HyMt_Progress imports HyMt_Runs "HOL-Library.Sublist" begin

text \<open>
  The progress events of one run, as the callback sees them: their metadata, their texts (whole
  words, valid UTF-8, growing prefixes of the final text) and their spacing in time.
\<close>

section \<open>What a run may publish\<close>

text \<open>Event \<open>b\<close> may follow event \<open>a\<close>: 80 ms later and with strictly more text.\<close>

definition follows :: "progress \<Rightarrow> progress \<Rightarrow> bool" where
  "follows a b \<longleftrightarrow> p_elapsed_ms a + 80 \<le> p_elapsed_ms b \<and> strict_prefix (p_text a) (p_text b)"

definition event_ok :: "request \<Rightarrow> string \<Rightarrow> progress \<Rightarrow> bool" where
  "event_ok req full ev \<longleftrightarrow> p_session_id ev = session_id req \<and> p_segment_id ev = segment_id req
     \<and> p_revision ev = revision req \<and> p_provisional ev \<and> well_formed (p_text ev)
     \<and> p_text ev \<noteq> [] \<and> prefix (p_text ev) full"

definition emits :: "'m run_env \<Rightarrow> int \<Rightarrow> nat \<Rightarrow> string \<Rightarrow> string
    \<Rightarrow> ('m, 'c, 'w) hymt \<Rightarrow> ('m, 'c, 'w) hymt \<Rightarrow> bool" where
  "emits R at pub result full s t \<longleftrightarrow> prefix result full \<and>
     (\<exists>new. published t = published s @ new \<and> sorted_wrt follows new \<and>
        (\<forall>ev \<in> set new. event_ok (r_request R) full ev \<and> pub < length (p_text ev)
           \<and> to_ms (at - r_start R) + 80 \<le> p_elapsed_ms ev))"

lemma emits_none: "published t = published s \<Longrightarrow> prefix result full \<Longrightarrow> emits R at pub result full s t"
  by (simp add: emits_def)

lemma emits_more:
  assumes "emits R at pub (result @ p) full u t" "published u = published s"
  shows "emits R at pub result full s t"
  using assms by (auto simp: emits_def dest: append_prefixD)

lemma emits_event:
  assumes rest: "emits R at' (length (p_text ev)) (result @ p) full u t"
    and u: "published u = published s @ [ev]"
    and ev: "event_ok (r_request R) (result @ p) ev" "pub < length (p_text ev)"
    and at: "r_start R \<le> at" "at + 80000000 \<le> at'" "p_elapsed_ms ev = to_ms (at' - r_start R)"
  shows "emits R at pub result full s t"
proof -
  from rest obtain new where new: "published t = published u @ new" "sorted_wrt follows new"
    "\<forall>e \<in> set new. event_ok (r_request R) full e \<and> length (p_text ev) < length (p_text e)
       \<and> to_ms (at' - r_start R) + 80 \<le> p_elapsed_ms e" and pre: "prefix (result @ p) full"
    by (auto simp: emits_def)
  have gap: "to_ms (at - r_start R) + 80 \<le> p_elapsed_ms ev"
    using to_ms_gap [of "at - r_start R" "at' - r_start R"] at by simp
  have ev': "event_ok (r_request R) full ev"
    using ev(1) pre by (auto simp: event_ok_def intro: prefix_order.trans)
  have "follows ev e" if "e \<in> set new" for e
  proof -
    have "prefix (p_text ev) full" "prefix (p_text e) full" "length (p_text ev) < length (p_text e)"
      using new(3) that ev' by (auto simp: event_ok_def)
    then have "strict_prefix (p_text ev) (p_text e)"
      by (metis prefix_length_prefix less_imp_le_nat strict_prefix_def nat_neq_iff)
    then show ?thesis using new(3) that at(3) by (simp add: follows_def)
  qed
  moreover have "prefix result full" using pre by (rule append_prefixD)
  ultimately show ?thesis using new u gap ev' ev(2) at(3)
    by (auto simp: emits_def intro!: exI [of _ "ev # new"])
qed

section \<open>The events of the generation loop\<close>

lemma visible_prefix_result: "prefix (visible_text v) v"
  using visible_text_prefix [of v] by (auto simp: prefix_def)

lemma wp_publishProgress_events:
  assumes none: "\<And>t. ctx t = ctx s \<Longrightarrow> published t = published s \<Longrightarrow> Q (at, pub) t"
    and some: "\<And>ev at' t. ctx t = ctx s \<Longrightarrow> published t = published s @ [ev] \<Longrightarrow>
        event_ok (r_request R) result ev \<Longrightarrow> pub < length (p_text ev) \<Longrightarrow> at + 80000000 \<le> at' \<Longrightarrow>
        p_elapsed_ms ev = to_ms (at' - r_start R) \<Longrightarrow> Q (at', length (p_text ev)) t"
    and thrown: "\<And>ev at' e t. ctx t = ctx s \<Longrightarrow> published t = published s @ [ev] \<Longrightarrow>
        event_ok (r_request R) result ev \<Longrightarrow> pub < length (p_text ev) \<Longrightarrow> at + 80000000 \<le> at' \<Longrightarrow>
        p_elapsed_ms ev = to_ms (at' - r_start R) \<Longrightarrow> E e t"
  shows "wp (publishProgress L R result at pub) Q E s"
proof (cases "r_callback R")
  case None
  then show ?thesis by (simp add: publishProgress_def wp_simps none)
next
  case (Some f)
  let ?b = "lastCompleteWordBoundary result (completeUtf8Prefix result)"
  let ?t = "clock L (reads s)"
  let ?s = "s\<lparr>reads := Suc (reads s)\<rparr>"
  define ev where "ev = \<lparr>p_session_id = session_id (r_request R), p_segment_id = segment_id (r_request R),
    p_revision = revision (r_request R), p_elapsed_ms = to_ms (?t - r_start R),
    p_text = visible_text result, p_provisional = True\<rparr>"
  have vis: "trimProgress (take ?b result) = visible_text result" by (simp add: visible_text_def)
  show ?thesis
  proof (cases "?b \<le> pub \<or> ?t - at < 80 * 1000000 \<or> length (visible_text result) \<le> pub")
    case True
    then show ?thesis by (auto simp: publishProgress_def Some wp_simps Let_def vis intro!: none)
  next
    case False
    then have ok: "event_ok (r_request R) result ev" "pub < length (p_text ev)" "at + 80000000 \<le> ?t"
      "p_elapsed_ms ev = to_ms (?t - r_start R)"
      using visible_text_well_formed [of result] visible_prefix_result [of result]
      by (auto simp: ev_def event_ok_def)
    have len: "length (visible_text result) = length (p_text ev)" by (simp add: ev_def)
    show ?thesis using False
      by (simp add: publishProgress_def Some wp_simps Let_def vis ev_def [symmetric] split: option.splits)
        (auto simp: len intro!: some [OF _ _ ok] thrown [OF _ _ ok])
  qed
qed

lemma wp_finish_events:
  assumes "ctx s \<noteq> None" "\<And>t. published t = published s \<Longrightarrow> Q result t"
  shows "wp (finish L R result) Q E s"
  using assms by (auto simp: finish_def wp_simps)

lemma wp_generate_events:
  "ctx s \<noteq> None \<Longrightarrow> r_start R \<le> at \<Longrightarrow>
    wp (generate L R smp result at pub i n)
      (\<lambda>r t. emits R at pub result r s t) (\<lambda>e t. \<exists>full. emits R at pub result full s t) s"
proof (induction n arbitrary: s smp result at pub i)
  case 0
  then show ?case by (auto simp: wp_simps intro!: exI [of _ result] emits_none)
next
  case (Suc n)
  let ?Q = "\<lambda>r t. emits R at pub result r s t"
  let ?E = "\<lambda>e t. \<exists>full. emits R at pub result full s t"
  note none = emits_none [where full = result and result = result, OF _ prefix_order.refl]
  have fin: "wp (finish L R result) ?Q ?E u" if "published u = published s" "ctx u \<noteq> None" for u
    by (rule wp_finish_events [OF that(2)]) (use that(1) in \<open>auto intro: none\<close>)
  have rest: "wp (mbind (now L) (\<lambda>decodeCallStart.
             mbind (with_ctx (\<lambda>c. decode L c [token])) (\<lambda>rc.
             mthen (mguard (rc \<noteq> 0) (RuntimeError ''Hy-MT2 decode failed or cancelled''))
            (mbind (now L) (\<lambda>t.
             mthen (upd_stats (\<lambda>st. st\<lparr>decode_compute_us := decode_compute_us st + to_us (t - decodeCallStart)\<rparr>))
               (generate L R smp' (result @ p) at' pub' j n)))))) ?Q ?E u"
    if u: "ctx u \<noteq> None" "r_start R \<le> at'"
      and E: "\<And>full t. emits R at' pub' (result @ p) full u t \<Longrightarrow> emits R at pub result full s t"
    for p at' pub' u token smp' j
  proof -
    have stop: "\<exists>full. emits R at pub result full s t" if "published t = published u" for t
      using E [of "result @ p" t] emits_none [of t u "result @ p" "result @ p"] that by auto
    have go: "wp (generate L R smp' (result @ p) at' pub' j n) ?Q ?E v"
      if "ctx v \<noteq> None" "published v = published u" for v
    proof (rule wp_mono [OF Suc.IH [OF that(1) u(2)]], goal_cases)
      case (1 r t)
      then have "emits R at' pub' (result @ p) r u t" using that(2) by (simp add: emits_def)
      then show ?case by (rule E)
    next
      case (2 e t)
      then obtain full where "emits R at' pub' (result @ p) full v t" by blast
      then have "emits R at' pub' (result @ p) full u t" using that(2) by (simp add: emits_def)
      then show ?case using E by blast
    qed
    show ?thesis using u by (auto simp: wp_simps split: option.splits intro!: stop go)
  qed
  have pub: "wp (publishProgress L R (result @ p) at pub) (\<lambda>x t. wp (case x of (at', pub') \<Rightarrow>
            mbind (now L) (\<lambda>decodeCallStart.
             mbind (with_ctx (\<lambda>c. decode L c [token])) (\<lambda>rc.
             mthen (mguard (rc \<noteq> 0) (RuntimeError ''Hy-MT2 decode failed or cancelled''))
            (mbind (now L) (\<lambda>t.
             mthen (upd_stats (\<lambda>st. st\<lparr>decode_compute_us := decode_compute_us st + to_us (t - decodeCallStart)\<rparr>))
               (generate L R smp' (result @ p) at' pub' j n)))))) ?Q ?E t) ?E u"
    if u: "ctx u \<noteq> None" "published u = published s" for p u token smp' j
  proof (rule wp_publishProgress_events, goal_cases)
    case (1 t)
    then show ?case using u Suc.prems(2)
      by simp (rule rest; auto intro: emits_more)
  next
    case (2 ev at' t)
    then show ?case using u Suc.prems(2)
      by simp (rule rest; auto intro: emits_event)
  next
    case (3 ev at' e t)
    have "emits R at' (length (p_text ev)) (result @ p) (result @ p) t t" by (simp add: emits_def)
    then show ?case using 3 u Suc.prems(2) by (intro exI [of _ "result @ p"]) (rule emits_event; simp)
  qed
  show ?case using Suc.prems
    by (auto simp: wp_simps Let_def split: option.splits prod.splits intro!: fin pub none exI [of _ result])
qed


section \<open>The events of a run\<close>

definition emitted :: "request \<Rightarrow> string \<Rightarrow> ('m, 'c, 'w) hymt \<Rightarrow> ('m, 'c, 'w) hymt \<Rightarrow> bool" where
  "emitted req full s t \<longleftrightarrow> (\<exists>new. published t = published s @ new \<and> sorted_wrt follows new \<and>
     (\<forall>ev \<in> set new. event_ok req full ev \<and> 80 \<le> p_elapsed_ms ev))"

lemma emitted_none: "published t = published s \<Longrightarrow> emitted req full s t"
  by (simp add: emitted_def)

lemma wp_prefill_events:
  assumes b: "0 < b"
  shows "ctx s \<noteq> None \<Longrightarrow> wp (prefill L b tokens offset)
      (\<lambda>_ t. ctx t \<noteq> None \<and> published t = published s) (\<lambda>e t. published t = published s) s"
proof (induction "nat (int (length tokens) - offset)" arbitrary: s offset rule: less_induct)
  case less
  show ?case
  proof (cases "offset < int (length tokens)")
    case False
    with less.prems show ?thesis by (subst prefill.simps) (simp add: wp_simps)
  next
    case True
    have IH: "wp (prefill L b tokens (offset + b))
        (\<lambda>_ t. ctx t \<noteq> None \<and> published t = published s) (\<lambda>e t. published t = published s) v"
      if "ctx v \<noteq> None" "published v = published s" for v
      using less.hyps [OF _ that(1)] that(2) True b by simp
    show ?thesis using True b less.prems
      by (subst prefill.simps) (auto simp: wp_simps Let_def intro!: IH [simplified])
  qed
qed

lemma wp_reuse_prefix_events:
  assumes "ctx s \<noteq> None" "\<And>n c. Q n (s\<lparr>ctx := Some c\<rparr>)"
  shows "wp (reuse_prefix L allow req configuration tokens) Q E s"
  using assms by (auto simp: wp_def reuse_prefix_def Let_def split: prod.splits)

lemma wp_run_events:
  assumes s: "ctx s \<noteq> None" "model s = Some m" "0 < batch s"
  shows "wp (run L prompt req cb allow) (\<lambda>r t. emitted req r s t) (\<lambda>e t. \<exists>full. emitted req full s t) s"
proof -
  let ?Q = "\<lambda>r t. emitted req r s t" and ?E = "\<lambda>e t. \<exists>full. emitted req full s t"
  have gen: "wp (generate L \<lparr>r_model = m, r_request = req, r_callback = cb, r_allow = allow,
            r_tokens = tokens, r_configuration = cfg, r_start = st, r_decode_start = ds\<rparr>
           smp [] st 0 0 max_output) ?Q ?E v"
    if "ctx v \<noteq> None" "published v = published s" for v tokens cfg st ds smp
    by (rule wp_mono [OF wp_generate_events [OF that(1)]])
      (use that(2) in \<open>auto simp: emits_def emitted_def to_ms_def trunc_div_def\<close>)
  have pre: "wp (prefill L (batch s) tokens off) (\<lambda>_ t. ctx t \<noteq> None \<and> published t = published s) ?E v"
    if "ctx v \<noteq> None" "published v = published s" for v tokens off
    by (rule wp_mono [OF wp_prefill_events [OF s(3) that(1)]]) (use that(2) in \<open>auto intro: emitted_none\<close>)
  have none: "?E e t" if "published t = published s" for e t using that by (auto intro: emitted_none)
  show ?thesis
  proof (cases "prepare L m prompt")
    case (Inl e)
    then show ?thesis using s by (auto simp: run_def wp_simps Let_def intro!: none)
  next
    case (Inr ft)
    then obtain format tokens where prep: "prepare L m prompt = Inr (format, tokens)" by (cases ft) auto
    show ?thesis
      using s
      apply (simp add: run_def wp_simps Let_def prep)
      apply (intro conjI impI none)
       apply simp
      apply (rule wp_reuse_prefix_events, simp)
      apply (simp add: wp_simps Let_def del: not_None_eq)
      apply (intro conjI impI; rule wp_mono [OF pre]; (simp del: not_None_eq)?)
      apply (auto intro!: gen)
      done
  qed
qed

end
