(* ===== verification/Tiny_Llama.thy ===== *)
theory Tiny_Llama imports HyMt_Engine HyMt_Progress begin

text \<open>
  A small concrete llama.cpp that echoes the first three characters of its prompt, one token per
  byte. It shows that the laws assumed of the library can hold together, and is the environment in
  which the properties are instantiated. \<open>gpu_works\<close> tells whether decoding succeeds in a context
  of a model loaded on the device, \<open>cpu_loads\<close> whether a model can be loaded without one.
\<close>

record tiny_ctx =
  tiny_kv :: "int list"
  tiny_fresh :: bool
  tiny_gpu :: bool

definition tiny_next :: "nat \<Rightarrow> int list \<Rightarrow> int \<times> nat" where
  "tiny_next s ts = (if s < 3 then (if s < length ts then ts ! s else 0, Suc s) else (0, s))"

definition tiny :: "bool \<Rightarrow> bool \<Rightarrow> (nat, unit, tiny_ctx, nat, unit) llama" where
  "tiny gpu_works cpu_loads =
     \<lparr>devices = [()],
      dev_reg_name = (\<lambda>d. Some ''OPENCL''),
      dev_name = (\<lambda>d. ''GPUOpenCL''),
      dev_description = (\<lambda>d. ''QUALCOMM Adreno(TM) 830''),
      dev_memory_free = (\<lambda>d w. 8388608),
      dev_probe = (\<lambda>d w. (True, w)),
      load_model = (\<lambda>p n d w. ((Inr (if d = None \<and> \<not> cpu_loads then None
                                       else Some (if d = None then 0 else 1)), []), w)),
      new_context = (\<lambda>m ps w. (Some \<lparr>tiny_kv = [], tiny_fresh = False, tiny_gpu = (m = 1)\<rparr>, w)),
      model_n_layer = (\<lambda>m. 4),
      vocab_n_tokens = (\<lambda>m. 256),
      chat_template = (\<lambda>m. Some ''t''),
      apply_template = (\<lambda>f msgs b n. let t = concat (map snd msgs) in (int (length t), take n t)),
      tokenize = (\<lambda>m t n a b. let ts = map (\<lambda>c. int (of_char c)) t in
         if n < length ts then (- int (length ts), []) else (int (length ts), ts)),
      memory_clear = (\<lambda>c. c\<lparr>tiny_kv := [], tiny_fresh := False\<rparr>),
      seq_rm = (\<lambda>c p. (True, c\<lparr>tiny_kv := take (nat p) (tiny_kv c), tiny_fresh := False\<rparr>)),
      seq_pos_max = (\<lambda>c. int (length (tiny_kv c)) - 1),
      decode = (\<lambda>c ts. if tiny_gpu c \<and> \<not> gpu_works then (1, c) else (0, c\<lparr>tiny_kv := tiny_kv c @ ts, tiny_fresh := True\<rparr>)),
      synchronize = (\<lambda>c. c),
      sampler_chain = (\<lambda>st. 0),
      sample = (\<lambda>s c. tiny_next s (tiny_kv c)),
      is_eog = (\<lambda>m t. t = 0),
      token_to_piece = (\<lambda>m t n. (1, [char_of (nat t)])),
      clock = (\<lambda>n. int n * 50000000),
      others = (\<lambda>n. [])\<rparr>"

lemma tiny_laws: "kv_laws (tiny g l) n tiny_kv tiny_fresh tiny_next"
  by (auto simp: kv_laws_def tiny_def)

lemma tiny_reliable:
  "reliable (tiny True l) n tiny_kv None"
  "reliable (tiny True l) n tiny_kv (Some (\<lambda>evs. None))"
  by (auto simp: reliable_def tiny_def quiet_def)

lemma tiny_reliable_cpu: "reliable (tiny True l) n tiny_kv cb = (case cb of None \<Rightarrow> True | Some f \<Rightarrow> \<forall>evs. f evs = None)"
  by (auto simp: reliable_def tiny_def quiet_def)

lemma tiny_echo: "ref_translate (tiny g l) tiny_next m ''hey'' = Inr ''hey''"
  by (simp add: ref_translate_def prepare_def tiny_def Let_def c_str_def filled_def max_output_def
      context_size_def ref_generate_numeral tiny_next_def piece_of_def char_of_def bit_0)

lemma tiny_echo_words: "ref_translate (tiny g l) tiny_next m ''a b'' = Inr ''a b''"
  by (simp add: ref_translate_def prepare_def tiny_def Let_def c_str_def filled_def max_output_def
      context_size_def ref_generate_numeral tiny_next_def piece_of_def char_of_def bit_0)

text \<open>An engine over it, on the device or on the CPU.\<close>

definition tiny_engine :: "bool \<Rightarrow> (nat, tiny_ctx, unit) hymt" where
  "tiny_engine gpu = (unconstructed ''m'' 4 8 8 gpu ())
     \<lparr>model := Some (if gpu then 1 else 0), opencl := gpu,
      ctx := Some \<lparr>tiny_kv = [], tiny_fresh = False, tiny_gpu = gpu\<rparr>\<rparr>"

lemma tiny_engine_ready: "ready tiny_kv (tiny_engine gpu)" "\<not> cancelled (eflag (tiny_engine gpu))"
  "opencl (tiny_engine gpu) = gpu" "model (tiny_engine gpu) = Some (if gpu then 1 else 0)"
  by (auto simp: tiny_engine_def unconstructed_def ready_def valid_batches_def cache_sound_def)

lemma tiny_fields:
  "others (tiny g l) = (\<lambda>n. [])"
  "decode (tiny g l) = (\<lambda>c ts. if tiny_gpu c \<and> \<not> g then (1, c)
     else (0, c\<lparr>tiny_kv := tiny_kv c @ ts, tiny_fresh := True\<rparr>))"
  "memory_clear (tiny g l) = (\<lambda>c. c\<lparr>tiny_kv := [], tiny_fresh := False\<rparr>)"
  "load_model (tiny g l) = (\<lambda>p n d w. ((Inr (if d = None \<and> \<not> l then None
                                       else Some (if d = None then 0 else 1)), []), w))"
  by (simp_all add: tiny_def)

lemma tiny_prepare: "prepare (tiny g l) m ''hey'' = Inr (''t'', [104, 101, 121])"
  by (simp add: prepare_def tiny_def Let_def c_str_def filled_def max_output_def context_size_def)

lemma tiny_fallback_fails:
  "wp (translate_attempts (tiny False False) allow ''hey'' req cb) (\<lambda>_ _. False)
     (\<lambda>e t. e = RuntimeError ''Hy-MT2 model load failed'' \<and> model t = None
        \<and> load_flag (others (tiny False False)) (eflag t) = (False, \<lparr>cancelled = False, loads = 4\<rparr>)) (tiny_engine True)"
proof -
  have load: "wp (load_step (tiny False False) None) Q E s
     = Q [] (s\<lparr>model := None, world := ()\<rparr>)" for Q E and s :: "(nat, tiny_ctx, unit) hymt"
    by (simp add: wp_def load_step_def tiny_fields)
  show ?thesis
    by (simp add: translate_attempts_def attempt_def recover_def run_def wp_simps Let_def tiny_engine_def
        unconstructed_def tiny_fields load_flag_def tiny_prepare wp_reuse_cold prefill.simps [where offset = 0]
        fallbackToCpu_def initialize_def load)
qed

end
