(* ===== verification/Translation_Properties.thy ===== *)
theory Translation_Properties imports Tiny_Llama begin

text \<open>
  The properties of the Hy-MT2 engine: what a caller of \<open>translation.hpp\<close> may rely on, over every
  outcome of a call, with the laws of the KV memory (\<open>kv_laws\<close>) as the only assumption on llama.cpp.
\<close>

lemmas translation_entry_points = translateWithProgress_def translateUncachedWithProgress_def

section \<open>The text\<close>







section \<open>The engine's state\<close>



text \<open>C7. One call falls back to the CPU at most once, and only from the device: the fallback
  counter grows by one exactly when an engine on the device leaves it.\<close>

theorem at_most_one_fallback:
  assumes "kv_laws L (nat context_size) kv fresh nx" and "ready kv s"
  shows "let t = snd (translateWithProgress L prompt req cb s) in
     fallbackCount t = fallbackCount s + (if opencl s \<and> \<not> opencl t then 1 else 0)
     \<and> (\<not> opencl s \<longrightarrow> \<not> opencl t)"
  using wp_translate_attempts [OF assms, of True prompt req cb]
  unfolding translation_entry_points wp_def Let_def
  by (auto simp: translated_def not_translated_def same_engine_def fell_back_def broken_def
      split: prod.splits outcome.splits)

theorem at_most_one_fallback_witness:
  "let t = snd (translateWithProgress (tiny False True) ''hey'' default_request None (tiny_engine True)) in
     fallbackCount t = fallbackCount (tiny_engine True)
       + (if opencl (tiny_engine True) \<and> \<not> opencl t then 1 else 0)
     \<and> (\<not> opencl (tiny_engine True) \<longrightarrow> \<not> opencl t)"
  by (rule at_most_one_fallback [OF tiny_laws tiny_engine_ready(1)])

text \<open>C8. A cancelled engine gives up at once: with the flag set and nobody resetting it, the call
  throws \<open>Translation cancelled\<close>, publishes nothing, does not fall back, and leaves the engine
  ready with an empty, invalid cache.\<close>

theorem cancelled_translation_gives_up:
  assumes "kv_laws L (nat context_size) kv fresh nx" and "ready kv s"
    and "cancelled (eflag s)" and "\<forall>n. others L n = []"
  shows "\<exists>t. translateWithProgress L prompt req cb s = (Throw (RuntimeError ''Translation cancelled''), t)
     \<and> ready kv t \<and> cold kv t \<and> same_engine s t \<and> published t = []"
  using wp_cancelled [OF assms, of True prompt req cb]
  unfolding translation_entry_points wp_def by (auto split: prod.splits outcome.splits)

theorem cancelled_translation_gives_up_witness:
  "let s = (tiny_engine True)\<lparr>eflag := cancel (eflag (tiny_engine True))\<rparr> in
   \<exists>t. translateWithProgress (tiny True True) ''hey'' default_request None s
      = (Throw (RuntimeError ''Translation cancelled''), t)
     \<and> ready tiny_kv t \<and> cold tiny_kv t \<and> same_engine s t \<and> published t = []"
  unfolding Let_def
  by (rule cancelled_translation_gives_up [OF tiny_laws])
    (auto simp: tiny_engine_def unconstructed_def ready_def valid_batches_def cache_sound_def cancel_def tiny_def)

section \<open>The prefix cache\<close>

text \<open>C5. The prefix decision is safe and leaves work for the sampler: KV entries are kept only if
  caching is allowed, the cache is valid, and session and configuration are the cached ones; what
  is kept is always a proper prefix of the new prompt, so that at least its last token is decoded
  again and its logits are fresh.\<close>

theorem reuse_prefix_is_safe:
  assumes "kv_laws L (nat context_size) kv fresh nx" and "cache_sound kv s" and "tokens \<noteq> []"
  shows "\<exists>n c. reuse_prefix L allow req configuration tokens s = (Ok n, s\<lparr>ctx := Some c\<rparr>)
     \<and> kv c = take (n - 1) tokens \<and> n - 1 < length tokens
     \<and> (kv c \<noteq> [] \<longrightarrow> allow \<and> cacheValid s \<and> cachedSession s = session_id req
          \<and> cachedConfiguration s = configuration)"
proof -
  obtain n c where "reuse_prefix L allow req configuration tokens s = (Ok n, s\<lparr>ctx := Some c\<rparr>)"
    and *: "kv c = take (n - 1) tokens" "n \<le> length tokens" "0 < n \<longrightarrow> allow \<and> cacheValid s
       \<and> cachedSession s = session_id req \<and> cachedConfiguration s = configuration"
    using wp_reuse_prefix [OF assms(1,2), of allow req configuration tokens "\<lambda>_ _. False"]
    unfolding wp_def by (auto split: prod.splits outcome.splits)
  moreover from * assms(3) have "n - 1 < length tokens" by (cases tokens) auto
  moreover from * have "kv c \<noteq> [] \<longrightarrow> 0 < n" by auto
  ultimately show ?thesis by blast
qed

theorem reuse_prefix_is_safe_witness:
  "\<exists>n c. reuse_prefix (tiny True True) True default_request ''c'' [1, 2] (tiny_engine False)
       = (Ok n, (tiny_engine False)\<lparr>ctx := Some c\<rparr>)
     \<and> tiny_kv c = take (n - 1) [1, 2] \<and> n - 1 < length [1, 2 :: int]
     \<and> (tiny_kv c \<noteq> [] \<longrightarrow> True \<and> cacheValid (tiny_engine False)
          \<and> cachedSession (tiny_engine False) = session_id default_request
          \<and> cachedConfiguration (tiny_engine False) = ''c'')"
  by (rule reuse_prefix_is_safe [OF tiny_laws]) (simp_all add: tiny_engine_ready(1) [unfolded ready_def])

text \<open>C10. The cache configuration identifies its three parts: the length in front of each part makes
  the concatenation of model path, cache scope and chat template injective.\<close>

theorem configuration_identifies_parts:
  "configuration_of modelPath scope format = configuration_of modelPath' scope' format'
     \<longleftrightarrow> modelPath = modelPath' \<and> scope = scope' \<and> format = format'"
  by (rule configuration_of_inj)

section \<open>Progress\<close>

text \<open>C4. The progress events of one run: each carries the request's ids and is provisional, its text
  is non-empty valid UTF-8 and a prefix of the text returned; successive events come at least 80 ms
  apart, each extending the text of the one before, and the first not before 80 ms.\<close>

theorem progress_events_are_sound:
  assumes "ready kv s" and "run L prompt req cb allow s = (Ok r, t)"
  shows "\<exists>new. published t = published s @ new \<and> sorted_wrt follows new
     \<and> (\<forall>ev \<in> set new. event_ok req r ev \<and> 80 \<le> p_elapsed_ms ev)"
proof -
  from assms(1) obtain m where "ctx s \<noteq> None" "model s = Some m" "0 < batch s"
    by (auto simp: ready_def cache_sound_def valid_batches_def split: option.splits)
  from wp_Ok_D [OF wp_run_events [OF this] assms(2)] show ?thesis by (simp add: emitted_def)
qed

theorem progress_events_are_sound_witness:
  "\<exists>t new. run (tiny True True) ''a b'' default_request (Some (\<lambda>evs. None)) True (tiny_engine False) = (Ok ''a b'', t)
     \<and> published t = new \<and> sorted_wrt follows new
     \<and> (\<forall>ev \<in> set new. event_ok default_request ''a b'' ev \<and> 80 \<le> p_elapsed_ms ev)"
proof -
  obtain t where t: "run (tiny True True) ''a b'' default_request (Some (\<lambda>evs. None)) True (tiny_engine False)
      = (Ok ''a b'', t)"
    using reliable_run_returns [OF tiny_laws tiny_engine_ready(1,4) tiny_reliable(2) tiny_engine_ready(2) tiny_echo_words]
    by blast
  moreover have "published (tiny_engine False) = []" by (simp add: tiny_engine_def unconstructed_def)
  ultimately show ?thesis
    using progress_events_are_sound [OF tiny_engine_ready(1) t] by simp
qed

section \<open>Construction and the broken engine\<close>

text \<open>C9. Construction never has undefined behaviour, and an engine it returns is ready, with an empty
  cache; it runs on the device only if OpenCL was preferred and an Adreno 830 is listed, and
  otherwise its fallback counter records a preference that could not be met.\<close>

theorem constructed_engine_is_ready:
  assumes "kv_laws L (nat context_size) kv fresh nx"
  shows "case load_hymt L modelPath cpuThreads contextBatch contextUbatch pref w of
      (Ok u, s) \<Rightarrow> ready kv s \<and> cold kv s \<and> fallbackCount s = (if pref \<and> \<not> opencl s then 1 else 0)
         \<and> (opencl s \<longrightarrow> pref \<and> adreno830 L \<noteq> None)
    | (Throw e, s) \<Rightarrow> True
    | (Crash c, s) \<Rightarrow> False"
  using wp_construct [OF assms refl, where modelPath = modelPath and cpuThreads = cpuThreads
      and contextBatch = contextBatch and contextUbatch = contextUbatch and pref = pref and w = w]
  unfolding load_hymt_def wp_def by (auto simp: started_def split: prod.splits outcome.splits)

theorem constructed_engine_is_ready_witness:
  "case load_hymt (tiny True True) ''m'' 4 8 8 True () of
      (Ok u, s) \<Rightarrow> ready tiny_kv s \<and> cold tiny_kv s
         \<and> fallbackCount s = (if True \<and> \<not> opencl s then 1 else 0)
         \<and> (opencl s \<longrightarrow> True \<and> adreno830 (tiny True True) \<noteq> None)
    | (Throw e, s) \<Rightarrow> True
    | (Crash c, s) \<Rightarrow> False"
  by (rule constructed_engine_is_ready [OF tiny_laws])


end
