(* ===== verification/Float_Bits.thy ===== *)
theory Float_Bits imports Prelude begin

text \<open>
  IEEE 754 binary32 as the C++ code uses it: a \<open>float\<close> is its 32 bits, its finite magnitude an
  integer in units of \<open>2 ^ -149\<close> (every finite binary32 value is such a multiple, so sums and
  differences are exact integers before rounding), and addition and subtraction round that integer
  to nearest, ties to even. \<open>rne_bits p s\<close> is the rounding to any binary format with \<open>p\<close>-bit
  significands and quantum \<open>2 ^ s\<close> units; binary32 is \<open>rne_bits 24 0\<close>, binary16 \<open>rne_bits 11 125\<close>.
\<close>

section \<open>Rounding to nearest even\<close>

definition rne_div :: "nat \<Rightarrow> nat \<Rightarrow> nat" where
  "rne_div n k = (let q = n div 2 ^ k; r = n mod 2 ^ k
     in if 2 * r > 2 ^ k \<or> (2 * r = 2 ^ k \<and> odd q) then q + 1 else q)"

fun bit_length :: "nat \<Rightarrow> nat" where
  "bit_length n = (if n = 0 then 0 else Suc (bit_length (n div 2)))"

declare bit_length.simps [simp del]

definition rne_bits :: "nat \<Rightarrow> nat \<Rightarrow> nat \<Rightarrow> nat" where
  "rne_bits p s n =
     (let shift = (if n < 2 ^ (s + p) then s else bit_length n - p)
      in (shift - s) * 2 ^ (p - 1) + rne_div n shift)"

lemma rne_div_nearest:
  "2 * (rne_div n k * 2 ^ k) \<le> 2 * n + 2 ^ k" "2 * n \<le> 2 * (rne_div n k * 2 ^ k) + 2 ^ k"
proof -
  define d where "d = (2 ^ k :: nat)"
  define q where "q = n div d"
  define r where "r = n mod d"
  have n: "n = q * d + r" by (simp add: q_def r_def)
  have r: "r < d" by (simp add: r_def d_def)
  have s: "(q + 1) * d = q * d + d" by simp
  show "2 * (rne_div n k * 2 ^ k) \<le> 2 * n + 2 ^ k"
    unfolding rne_div_def Let_def d_def [symmetric] q_def [symmetric] r_def [symmetric]
    using n r s by (cases "2 * r > d \<or> 2 * r = d \<and> odd q"; simp; linarith?)
  show "2 * n \<le> 2 * (rne_div n k * 2 ^ k) + 2 ^ k"
    unfolding rne_div_def Let_def d_def [symmetric] q_def [symmetric] r_def [symmetric]
    using n r s by (cases "2 * r > d \<or> 2 * r = d \<and> odd q"; simp; linarith?)
qed

lemma rne_div_exact [simp]: "rne_div (q * 2 ^ k) k = q"
  by (simp add: rne_div_def)

lemma rne_div_0 [simp]: "rne_div n 0 = n"
  by (simp add: rne_div_def)

lemma rne_div_scale: "rne_div (n * 2 ^ j) (k + j) = rne_div n k"
proof -
  have "n * 2 ^ j div 2 ^ (k + j) = n div 2 ^ k" by (simp add: power_add)
  moreover have "n * 2 ^ j mod 2 ^ (k + j) = (n mod 2 ^ k) * 2 ^ j"
    by (simp add: power_add mult_mod_left)
  ultimately show ?thesis by (simp add: rne_div_def Let_def power_add)
qed

lemma rne_div_add: "even q \<Longrightarrow> rne_div (q * 2 ^ k + n) k = q + rne_div n k"
  by (simp add: rne_div_def Let_def)

text \<open>The classical integer form: add half an ulp less one plus the last kept bit, then truncate.\<close>

lemma rne_div_bias:
  "0 < k \<Longrightarrow> rne_div n k = (n + (2 ^ (k - 1) - 1) + n div 2 ^ k mod 2) div 2 ^ k"
proof -
  assume "0 < k"
  then obtain j where k: "k = Suc j" by (cases k) auto
  define d where "d = (2 ^ k :: nat)"
  define h where "h = (2 ^ j :: nat)"
  have d: "d = 2 * h" "0 < h" by (simp_all add: d_def h_def k)
  define q where "q = n div d"
  define r where "r = n mod d"
  have n: "n = q * d + r" by (simp add: q_def r_def)
  have r: "r < d" by (simp add: r_def d_def)
  have "n + (h - 1) + q mod 2 = q * d + (r + (h - 1) + q mod 2)" using n by simp
  then have "(n + (h - 1) + q mod 2) div d = q + (r + (h - 1) + q mod 2) div d"
    using d by (metis add.commute div_mult_self1 mult_is_0 not_gr_zero zero_neq_numeral)
  also have "(r + (h - 1) + q mod 2) div d = (if 2 * r > d \<or> 2 * r = d \<and> odd q then 1 else 0)"
  proof (cases "2 * r > d \<or> 2 * r = d \<and> odd q")
    case True
    then have "d \<le> r + (h - 1) + q mod 2" using d by (auto simp: odd_iff_mod_2_eq_one)
    moreover have "r + (h - 1) + q mod 2 < d + d" using r d by linarith
    ultimately have "(r + (h - 1) + q mod 2) div d = 1" by (intro div_nat_eqI) auto
    then show ?thesis using True by simp
  next
    case False
    then have "r + (h - 1) + q mod 2 < d" using d by (auto simp: even_iff_mod_2_eq_zero not_less le_less)
    then show ?thesis using False by simp
  qed
  finally have *: "(n + (h - 1) + q mod 2) div d = q + (if 2 * r > d \<or> 2 * r = d \<and> odd q then 1 else 0)" .
  have "rne_div n k = q + (if 2 * r > d \<or> 2 * r = d \<and> odd q then 1 else 0)"
    unfolding rne_div_def Let_def d_def [symmetric] q_def [symmetric] r_def [symmetric] by simp
  moreover have "2 ^ (k - 1) = h" by (simp add: h_def k)
  ultimately show ?thesis unfolding d_def [symmetric] q_def [symmetric] * [symmetric] by simp
qed

lemma bit_length_eq: "2 ^ k \<le> n \<Longrightarrow> n < 2 ^ Suc k \<Longrightarrow> bit_length n = Suc k"
proof (induction k arbitrary: n)
  case 0
  then have "n = 1" by simp
  then show ?case by (simp add: bit_length.simps)
next
  case (Suc k)
  then have "2 ^ k \<le> n div 2" "n div 2 < 2 ^ Suc k" by (simp_all add: less_mult_imp_div_less)
  then show ?case using Suc by (subst bit_length.simps) auto
qed

section \<open>binary32\<close>

type_synonym float32 = "32 word"

definition f32_sign :: "float32 \<Rightarrow> bool" where
  "f32_sign u = (unat u \<ge> 2 ^ 31)"

definition f32_abs :: "float32 \<Rightarrow> nat" where
  "f32_abs u = unat u mod 2 ^ 31"

definition f32_isnan :: "float32 \<Rightarrow> bool" where
  "f32_isnan u = (f32_abs u > 0x7F800000)"

definition f32_isinf :: "float32 \<Rightarrow> bool" where
  "f32_isinf u = (f32_abs u = 0x7F800000)"

text \<open>The magnitude of finite bits, in units of \<open>2 ^ -149\<close>.\<close>

definition f32_mag :: "nat \<Rightarrow> nat" where
  "f32_mag b = (if b < 2 ^ 23 then b else (2 ^ 23 + b mod 2 ^ 23) * 2 ^ (b div 2 ^ 23 - 1))"

definition f32_val :: "float32 \<Rightarrow> int" where
  "f32_val u = (if f32_sign u then - int (f32_mag (f32_abs u)) else int (f32_mag (f32_abs u)))"

definition f32_pack :: "bool \<Rightarrow> nat \<Rightarrow> float32" where
  "f32_pack s b = word_of_nat (b + (if s then 2 ^ 31 else 0))"

definition f32_round :: "int \<Rightarrow> float32" where
  "f32_round i = f32_pack (i < 0) (min 0x7F800000 (rne_bits 24 0 (nat (abs i))))"

text \<open>
  Addition and subtraction of finite operands, the only ones the code adds. An exact zero has the
  sign of rounding to nearest: positive.
\<close>

definition f32_add :: "float32 \<Rightarrow> float32 \<Rightarrow> float32" where
  "f32_add a b = f32_round (f32_val a + f32_val b)"

definition f32_sub :: "float32 \<Rightarrow> float32 \<Rightarrow> float32" where
  "f32_sub a b = f32_round (f32_val a - f32_val b)"

text \<open>The comparison \<open><\<close> of two floats; false when either is a NaN.\<close>

definition f32_key :: "float32 \<Rightarrow> int" where
  "f32_key u = (if f32_sign u then - int (f32_abs u) else int (f32_abs u))"

definition f32_less :: "float32 \<Rightarrow> float32 \<Rightarrow> bool" where
  "f32_less a b \<longleftrightarrow> \<not> f32_isnan a \<and> \<not> f32_isnan b \<and> f32_key a < f32_key b"

definition f32_neg_inf :: float32 where
  "f32_neg_inf = 0xFF800000"

text \<open>The magnitude of the bits of a format with \<open>p\<close>-bit significands, in its own quantum.\<close>

definition bin_mag :: "nat \<Rightarrow> nat \<Rightarrow> nat" where
  "bin_mag p b = (if b < 2 ^ (p - 1) then b
     else (2 ^ (p - 1) + b mod 2 ^ (p - 1)) * 2 ^ (b div 2 ^ (p - 1) - 1))"

lemma f32_mag_bin: "f32_mag = bin_mag 24"
  by (rule ext) (simp add: f32_mag_def bin_mag_def)

lemma mag_length:
  "m < 2 ^ q \<Longrightarrow> bit_length ((2 ^ q + m) * 2 ^ k) = Suc (q + k)"
proof -
  assume m: "m < 2 ^ q"
  have lo: "2 ^ (q + k) \<le> (2 ^ q + m) * (2 ^ k :: nat)" by (simp add: power_add)
  have "(2 ^ q + m) * 2 ^ k < 2 ^ Suc q * (2 ^ k :: nat)" using m by simp
  then have hi: "(2 ^ q + m) * 2 ^ k < (2 ^ Suc (q + k) :: nat)" by (simp add: power_add)
  from bit_length_eq [OF lo hi] show ?thesis .
qed

text \<open>Rounding is the identity on what already is a value of the format.\<close>

lemma rne_bits_bin_mag: "rne_bits (Suc q) s (bin_mag (Suc q) b * 2 ^ s) = b"
proof (cases "b < 2 ^ Suc q")
  case True
  have "bin_mag (Suc q) b = b"
  proof (cases "b < 2 ^ q")
    case False
    with True have "b div 2 ^ q = 1" "b mod 2 ^ q = b - 2 ^ q"
      by (simp_all add: div_nat_eqI mod_if)
    with False show ?thesis by (simp add: bin_mag_def)
  qed (simp add: bin_mag_def)
  moreover have "b * 2 ^ s < 2 ^ (s + Suc q)" using True by (simp add: power_add mult.commute)
  ultimately show ?thesis by (simp add: rne_bits_def)
next
  case False
  define e where "e = b div 2 ^ q"
  define m where "m = b mod 2 ^ q"
  have b: "b = e * 2 ^ q + m" unfolding e_def m_def by (rule div_mult_mod_eq [symmetric])
  have m: "m < 2 ^ q" by (simp add: m_def)
  from False have "2 \<le> e" unfolding e_def by (simp add: less_eq_div_iff_mult_less_eq)
  then obtain k where "e = 2 + k" using le_Suc_ex by blast
  then have k: "e = Suc (Suc k)" by simp
  have mag: "bin_mag (Suc q) b * 2 ^ s = (2 ^ q + m) * 2 ^ (Suc k + s)"
    using False by (simp add: bin_mag_def e_def [symmetric] m_def [symmetric] k power_add mult.assoc)
  have len: "bit_length (bin_mag (Suc q) b * 2 ^ s) = Suc (q + (Suc k + s))"
    unfolding mag by (rule mag_length [OF m])
  have "\<not> bin_mag (Suc q) b * 2 ^ s < 2 ^ (s + Suc q)"
  proof -
    have "(2 ^ q :: nat) * 2 ^ (1 + s) \<le> (2 ^ q + m) * 2 ^ (Suc k + s)"
      by (intro mult_le_mono power_increasing) simp_all
    then show ?thesis unfolding mag by (simp add: power_add)
  qed
  then have "rne_bits (Suc q) s (bin_mag (Suc q) b * 2 ^ s)
      = Suc k * 2 ^ q + rne_div (bin_mag (Suc q) b * 2 ^ s) (Suc k + s)"
    by (simp add: rne_bits_def len)
  also have "rne_div (bin_mag (Suc q) b * 2 ^ s) (Suc k + s) = 2 ^ q + m"
    unfolding mag by (rule rne_div_exact)
  finally show ?thesis unfolding b k by simp
qed

lemma rne_bits_mag: "rne_bits 24 0 (f32_mag b) = b"
  using rne_bits_bin_mag [of 23 0 b] by (simp add: f32_mag_bin)

lemma mag_normal_length: "m < 2 ^ 23 \<Longrightarrow> bit_length ((2 ^ 23 + m) * 2 ^ k) = 24 + k"
  using mag_length [of m 23 k] by simp

text \<open>A small integer times a power of two is a binary32 value.\<close>

lemma normalise: "0 < q \<Longrightarrow> q < 2 ^ 24 \<Longrightarrow> \<exists>k \<le> 23. 2 ^ 23 \<le> q * 2 ^ k \<and> q * 2 ^ k < (2 ^ 24 :: nat)"
proof -
  assume q: "0 < q" "q < 2 ^ 24"
  define k where "k = (LEAST k. 2 ^ 23 \<le> q * 2 ^ k)"
  have ex: "2 ^ 23 \<le> q * 2 ^ 23" using q by simp
  then have "2 ^ 23 \<le> q * 2 ^ k" unfolding k_def by (rule LeastI)
  moreover have "k \<le> 23" unfolding k_def using ex by (rule Least_le)
  moreover have "q * 2 ^ k < 2 ^ 24"
  proof (cases k)
    case (Suc j)
    then have "\<not> 2 ^ 23 \<le> q * 2 ^ j" using not_less_Least [of j "\<lambda>k. 2 ^ 23 \<le> q * 2 ^ k"] by (simp add: k_def)
    then show ?thesis using Suc by simp
  qed (use q in simp)
  ultimately show ?thesis by blast
qed

lemma f32_mag_rne:
  assumes "q < 2 ^ 24" "23 \<le> j"
  shows "f32_mag (rne_bits 24 0 (q * 2 ^ j)) = q * 2 ^ j"
proof (cases "q = 0")
  case True
  then show ?thesis by (simp add: rne_bits_def f32_mag_def)
next
  case False
  then obtain k where k: "k \<le> 23" "2 ^ 23 \<le> q * 2 ^ k" "q * 2 ^ k < 2 ^ 24"
    using normalise assms(1) by auto
  define m where "m = q * 2 ^ k - 2 ^ 23"
  have m: "m < 2 ^ 23" "q * 2 ^ k = 2 ^ 23 + m" using k by (simp_all add: m_def)
  define b where "b = Suc (j - k) * 2 ^ 23 + m"
  have "b div 2 ^ 23 = Suc (j - k)" unfolding b_def using m(1) by (simp only: div_mult_add)
  moreover have "b mod 2 ^ 23 = m" unfolding b_def using m(1) by (simp only: mod_mult_add)
  moreover have "\<not> b < 2 ^ 23" by (simp add: b_def)
  ultimately have "f32_mag b = (2 ^ 23 + m) * 2 ^ (j - k)" by (simp add: f32_mag_def)
  also have "\<dots> = q * (2 ^ k * 2 ^ (j - k))" unfolding m(2) [symmetric] by simp
  also have "2 ^ k * 2 ^ (j - k) = (2 ^ j :: nat)" using k(1) assms(2) by (simp add: power_add [symmetric])
  finally have "f32_mag b = q * 2 ^ j" .
  then show ?thesis using rne_bits_mag [of b] by simp
qed

end
