(* ===== verification/Half_Floats.thy ===== *)
theory Half_Floats imports Float_Bits begin

text \<open>
  \<open>onnxruntime_float16.h\<close>: the two 16-bit float formats (\<open>Float16Impl\<close>, \<open>BFloat16Impl\<close>) on their
  bits, with the header's constants, tests, comparisons and conversions; the comparison operators
  of \<open>BFloat16_t\<close> are those of \<open>onnxruntime_cxx_inline.h\<close>. The target is little-endian. The locale
  \<open>half_format\<close> states what both formats share; it is interpreted on both.
\<close>

section \<open>Float16Impl\<close>

definition f16_abs :: "16 word \<Rightarrow> 16 word" where
  "f16_abs v = v AND NOT 0x8000"

definition f16_isNegative :: "16 word \<Rightarrow> bool" where
  "f16_isNegative v = (sint v < 0)"

definition f16_isNaN :: "16 word \<Rightarrow> bool" where
  "f16_isNaN v = (f16_abs v > 0x7C00)"

definition f16_negate :: "16 word \<Rightarrow> 16 word" where
  "f16_negate v = (if f16_isNaN v then v else v XOR 0x8000)"

definition f16_isFinite :: "16 word \<Rightarrow> bool" where
  "f16_isFinite v = (f16_abs v < 0x7C00)"

definition f16_isPositiveInfinity :: "16 word \<Rightarrow> bool" where
  "f16_isPositiveInfinity v = (v = 0x7C00)"

definition f16_isNegativeInfinity :: "16 word \<Rightarrow> bool" where
  "f16_isNegativeInfinity v = (v = 0xFC00)"

definition f16_isInfinity :: "16 word \<Rightarrow> bool" where
  "f16_isInfinity v = (f16_abs v = 0x7C00)"

definition f16_isNaNOrZero :: "16 word \<Rightarrow> bool" where
  "f16_isNaNOrZero v = (let a = f16_abs v in a = 0 \<or> a > 0x7C00)"

definition f16_isNormal :: "16 word \<Rightarrow> bool" where
  "f16_isNormal v = (let a = f16_abs v in a < 0x7C00 \<and> a \<noteq> 0 \<and> a AND 0x7C00 \<noteq> 0)"

definition f16_isSubnormal :: "16 word \<Rightarrow> bool" where
  "f16_isSubnormal v = (let a = f16_abs v in a < 0x7C00 \<and> a \<noteq> 0 \<and> a AND 0x7C00 = 0)"

definition f16_areZero :: "16 word \<Rightarrow> 16 word \<Rightarrow> bool" where
  "f16_areZero l r = ((l OR r) AND NOT 0x8000 = 0)"

definition f16_eq :: "16 word \<Rightarrow> 16 word \<Rightarrow> bool" where
  "f16_eq l r = (if f16_isNaN l \<or> f16_isNaN r then False else l = r)"

definition f16_ne :: "16 word \<Rightarrow> 16 word \<Rightarrow> bool" where
  "f16_ne l r = (\<not> f16_eq l r)"

definition f16_less :: "16 word \<Rightarrow> 16 word \<Rightarrow> bool" where
  "f16_less l r =
     (if f16_isNaN l \<or> f16_isNaN r then False
      else (let left_is_negative = f16_isNegative l in
        if left_is_negative \<noteq> f16_isNegative r then left_is_negative \<and> \<not> f16_areZero l r
        else l \<noteq> r \<and> (l < r) \<noteq> left_is_negative))"

text \<open>\<open>ToUint16Impl\<close> and \<open>ToFloatImpl\<close>; \<open>f.u\<close> and \<open>f.f\<close> are the two views of the same bits.\<close>

definition f16_of_float :: "float32 \<Rightarrow> 16 word" where
  "f16_of_float f =
     (let f32infty = push_bit 23 255;
          f16max = push_bit 23 (127 + 16);
          denorm_magic = push_bit 23 ((127 - 15) + (23 - 10) + 1);
          sign = f AND 0x80000000;
          u = f XOR sign;
          v = (if u \<ge> f16max then (if u > f32infty then 0x7E00 else 0x7C00)
               else if u < push_bit 23 113 then ucast (f32_add u denorm_magic - denorm_magic)
               else (let mant_odd = drop_bit 13 u AND 1;
                         u1 = u + 0xC8000FFF;
                         u2 = u1 + mant_odd
                     in ucast (drop_bit 13 u2)))
      in v OR ucast (drop_bit 16 sign))"

definition f16_to_float :: "16 word \<Rightarrow> float32" where
  "f16_to_float v =
     (let magic = push_bit 23 113;
          shifted_exp = push_bit 13 0x7C00;
          u = push_bit 13 (ucast (v AND 0x7FFF)) :: float32;
          ex = shifted_exp AND u;
          u1 = u + push_bit 23 (127 - 15);
          u2 = (if ex = shifted_exp then u1 + push_bit 23 (128 - 16)
                else if ex = 0 then f32_sub (u1 + push_bit 23 1) magic
                else u1)
      in u2 OR push_bit 16 (ucast (v AND 0x8000)))"

section \<open>BFloat16Impl\<close>

definition bf16_abs :: "16 word \<Rightarrow> 16 word" where
  "bf16_abs v = v AND NOT 0x8000"

definition bf16_isNegative :: "16 word \<Rightarrow> bool" where
  "bf16_isNegative v = (sint v < 0)"

definition bf16_isNaN :: "16 word \<Rightarrow> bool" where
  "bf16_isNaN v = (bf16_abs v > 0x7F80)"

definition bf16_negate :: "16 word \<Rightarrow> 16 word" where
  "bf16_negate v = (if bf16_isNaN v then v else v XOR 0x8000)"

definition bf16_isFinite :: "16 word \<Rightarrow> bool" where
  "bf16_isFinite v = (bf16_abs v < 0x7F80)"

definition bf16_isPositiveInfinity :: "16 word \<Rightarrow> bool" where
  "bf16_isPositiveInfinity v = (v = 0x7F80)"

definition bf16_isNegativeInfinity :: "16 word \<Rightarrow> bool" where
  "bf16_isNegativeInfinity v = (v = 0xFF80)"

definition bf16_isInfinity :: "16 word \<Rightarrow> bool" where
  "bf16_isInfinity v = (bf16_abs v = 0x7F80)"

definition bf16_isNaNOrZero :: "16 word \<Rightarrow> bool" where
  "bf16_isNaNOrZero v = (let a = bf16_abs v in a = 0 \<or> a > 0x7F80)"

definition bf16_isNormal :: "16 word \<Rightarrow> bool" where
  "bf16_isNormal v = (let a = bf16_abs v in a < 0x7F80 \<and> a \<noteq> 0 \<and> a AND 0x7F80 \<noteq> 0)"

definition bf16_isSubnormal :: "16 word \<Rightarrow> bool" where
  "bf16_isSubnormal v = (let a = bf16_abs v in a < 0x7F80 \<and> a \<noteq> 0 \<and> a AND 0x7F80 = 0)"

definition bf16_areZero :: "16 word \<Rightarrow> 16 word \<Rightarrow> bool" where
  "bf16_areZero l r = ((l OR r) AND NOT 0x8000 = 0)"

definition bf16_eq :: "16 word \<Rightarrow> 16 word \<Rightarrow> bool" where
  "bf16_eq l r = (if bf16_isNaN l \<or> bf16_isNaN r then False else l = r)"

definition bf16_less :: "16 word \<Rightarrow> 16 word \<Rightarrow> bool" where
  "bf16_less l r =
     (if bf16_isNaN l \<or> bf16_isNaN r then False
      else (let left_is_negative = bf16_isNegative l in
        if left_is_negative \<noteq> bf16_isNegative r then left_is_negative \<and> \<not> bf16_areZero l r
        else l \<noteq> r \<and> (l < r) \<noteq> left_is_negative))"

definition get_msb_half :: "float32 \<Rightarrow> 16 word" where
  "get_msb_half f = ucast (drop_bit 16 f)"

definition bf16_of_float :: "float32 \<Rightarrow> 16 word" where
  "bf16_of_float v =
     (if f32_isnan v then 0x7FC1
      else (let upper_bits = get_msb_half v
            in get_msb_half (v + (ucast (upper_bits AND 1) + 0x7FFF))))"

definition bf16_to_float :: "16 word \<Rightarrow> float32" where
  "bf16_to_float v = (if bf16_isNaN v then 0x7FC00000 else push_bit 16 (ucast v))"

section \<open>Bits as numbers\<close>

lemma and_not_top16: "(v :: 16 word) AND NOT 0x8000 = take_bit 15 v"
proof -
  have "NOT (0x8000 :: 16 word) = mask 15" by (simp add: mask_eq_exp_minus_1)
  then show ?thesis by (simp only: take_bit_eq_mask)
qed

lemma unat_take_bit16: "unat (take_bit n (v :: 'a::len word)) = unat v mod 2 ^ n"
  unfolding unsigned_take_bit_eq by (rule take_bit_eq_mod)

lemma unat_abs16: "unat ((v :: 16 word) AND NOT 0x8000) = unat v mod 2 ^ 15"
  unfolding and_not_top16 by (rule unat_take_bit16)

lemma sint_neg_16: "(sint (v :: 16 word) < 0) = (2 ^ 15 \<le> unat v)"
proof -
  have "(sint v < 0) = bit (uint v) 15" by (simp add: sint_uint)
  also have "\<dots> = bit (unat v) 15" by (simp add: bit_unsigned_iff)
  also have "\<dots> = odd (unat v div 2 ^ 15)" by (rule bit_iff_odd)
  also have "unat v div 2 ^ 15 = (if 2 ^ 15 \<le> unat v then 1 else 0)"
    using unsigned_less [of v, where ?'a = nat] by (auto intro: div_nat_eqI)
  finally show ?thesis by simp
qed

lemma xor_and_self: "(f :: 'a::len word) XOR (f AND m) = f AND NOT m"
  by (rule bit_word_eqI) (auto simp: bit_simps)

lemma f32_clear_sign: "(f :: 32 word) XOR (f AND 0x80000000) = take_bit 31 f"
proof -
  have "NOT (0x80000000 :: 32 word) = mask 31" by (simp add: mask_eq_exp_minus_1)
  then show ?thesis unfolding xor_and_self by (simp only: take_bit_eq_mask)
qed

lemma f32_sign_and: "(f :: 32 word) AND 0x80000000 = (if 2 ^ 31 \<le> unat f then 0x80000000 else 0)"
proof -
  have "unat (f AND 0x80000000) = unat f AND push_bit 31 (mask 1)"
    by (simp add: unsigned_and_eq)
  also have "\<dots> = (unat f div 2 ^ 31 mod 2 ^ 1) * 2 ^ 31" by (rule and_shifted_mask)
  also have "unat f div 2 ^ 31 = (if 2 ^ 31 \<le> unat f then 1 else 0)"
    using unsigned_less [of f, where ?'a = nat] by (auto intro: div_nat_eqI)
  finally show ?thesis by (simp add: word_unat_eq_iff split: if_splits)
qed


section \<open>Conversion from float\<close>

text \<open>A half with a given sign and 15 bits.\<close>

definition f16_pack :: "bool \<Rightarrow> nat \<Rightarrow> 16 word" where
  "f16_pack s b = word_of_nat b OR (if s then 0x8000 else 0)"

lemma le_rne_div: "n div 2 ^ k \<le> rne_div n k"
  by (simp add: rne_div_def Let_def)

lemma rne16_normal:
  assumes e: "113 \<le> e" and m: "m < 2 ^ 23"
  shows "rne_bits 11 125 ((2 ^ 23 + m) * 2 ^ (e - 1)) = (e - 113) * 2 ^ 10 + rne_div (2 ^ 23 + m) 13"
proof (cases "e = 113")
  case True
  have "(2 ^ 23 + m) * 2 ^ 112 < 2 ^ 24 * (2 ^ 112 :: nat)" using m by simp
  then have "(2 ^ 23 + m) * 2 ^ 112 < (2 ^ (125 + 11) :: nat)" by simp
  moreover have "rne_div ((2 ^ 23 + m) * 2 ^ 112) (13 + 112) = rne_div (2 ^ 23 + m) 13"
    by (rule rne_div_scale)
  ultimately show ?thesis using True by (simp add: rne_bits_def)
next
  case False
  with e obtain k where k: "e = 114 + k" using le_Suc_ex [of 114 e] by auto
  have "\<not> (2 ^ 23 + m) * 2 ^ (e - 1) < (2 ^ (125 + 11) :: nat)"
  proof -
    have "(2 ^ 23 :: nat) * 2 ^ 113 \<le> (2 ^ 23 + m) * 2 ^ (e - 1)"
      by (intro mult_le_mono power_increasing) (simp_all add: k)
    then show ?thesis by simp
  qed
  moreover have "rne_div ((2 ^ 23 + m) * 2 ^ (e - 1)) (13 + (e - 1)) = rne_div (2 ^ 23 + m) 13"
    by (rule rne_div_scale)
  ultimately show ?thesis using mag_normal_length [OF m, of "e - 1"]
    by (simp add: rne_bits_def k)
qed

lemma f32_mag_normal:
  assumes "2 ^ 23 \<le> b"
  shows "f32_mag b = (2 ^ 23 + b mod 2 ^ 23) * 2 ^ (b div 2 ^ 23 - 1)"
  using assms by (simp add: f32_mag_def)

lemma rne16_mag:
  assumes "113 * 2 ^ 23 \<le> b"
  shows "rne_bits 11 125 (f32_mag b) = rne_div (b - 112 * 2 ^ 23) 13"
proof -
  define e where "e = b div 2 ^ 23"
  define m where "m = b mod 2 ^ 23"
  have b: "b = e * 2 ^ 23 + m" by (simp add: e_def m_def)
  have m: "m < 2 ^ 23" by (simp add: m_def)
  have e: "113 \<le> e" using assms unfolding e_def by (simp add: less_eq_div_iff_mult_less_eq)
  then obtain k where k: "e = 113 + k" using le_Suc_ex by blast
  have "f32_mag b = (2 ^ 23 + m) * 2 ^ (e - 1)"
    unfolding e_def m_def by (rule f32_mag_normal) (use assms in simp)
  then have "rne_bits 11 125 (f32_mag b) = (e - 113) * 2 ^ 10 + rne_div (2 ^ 23 + m) 13"
    using rne16_normal [OF e m] by simp
  also have "\<dots> = rne_div ((k * 2 ^ 10) * 2 ^ 13 + (2 ^ 23 + m)) 13"
    by (subst rne_div_add) (simp_all add: k)
  also have "(k * 2 ^ 10) * 2 ^ 13 + (2 ^ 23 + m) = b - 112 * 2 ^ 23"
    unfolding b k by simp
  finally show ?thesis .
qed

lemma rne16_small:
  assumes "b < 113 * 2 ^ 23"
  shows "f32_mag b < 2 ^ 135" "rne_bits 11 125 (f32_mag b) = rne_div (f32_mag b) 125"
    "rne_div (f32_mag b) 125 \<le> 2 ^ 10"
proof -
  show *: "f32_mag b < 2 ^ 135"
  proof (cases "b < 2 ^ 23")
    case True
    then have "f32_mag b < 2 ^ 23" by (simp add: f32_mag_def)
    then show ?thesis by (rule less_trans) simp
  next
    case False
    have "b div 2 ^ 23 < 113" using assms by (simp add: div_less_iff_less_mult)
    then have "b div 2 ^ 23 - 1 \<le> 111" by simp
    then have "(2 ^ 23 + b mod 2 ^ 23) * 2 ^ (b div 2 ^ 23 - 1) < (2 ^ 24 :: nat) * 2 ^ 111"
      by (intro mult_less_le_imp_less power_increasing) simp_all
    then show ?thesis using False by (simp add: f32_mag_normal)
  qed
  then show "rne_bits 11 125 (f32_mag b) = rne_div (f32_mag b) 125"
    by (simp add: rne_bits_def)
  have "2 * (rne_div (f32_mag b) 125 * 2 ^ 125) \<le> 2 * f32_mag b + 2 ^ 125" by (rule rne_div_nearest)
  also have "\<dots> < 2 * 2 ^ 135 + 2 ^ 125" using * by simp
  finally have "rne_div (f32_mag b) 125 * 2 ^ 126 < (2 ^ 10 + 1) * (2 ^ 126 :: nat)" by simp
  then have "rne_div (f32_mag b) 125 < 2 ^ 10 + 1" by (simp only: mult_less_cancel2)
  then show "rne_div (f32_mag b) 125 \<le> 2 ^ 10" by simp
qed

text \<open>Adding the magic number \<open>0.5\<close> aligns the half's last place with the float's.\<close>

lemma rne24_magic:
  assumes "n < 2 ^ 135"
  shows "rne_bits 24 0 (n + 2 ^ 148) = 126 * 2 ^ 23 + rne_div n 125"
proof -
  have "bit_length (n + 2 ^ 148) = 149"
    using bit_length_eq [of 148 "n + 2 ^ 148"] assms by simp
  then have "rne_bits 24 0 (n + 2 ^ 148) = 125 * 2 ^ 23 + rne_div (2 ^ 23 * 2 ^ 125 + n) 125"
    using assms by (simp add: rne_bits_def add.commute)
  also have "rne_div (2 ^ 23 * 2 ^ 125 + n) 125 = 2 ^ 23 + rne_div n 125"
    by (rule rne_div_add) simp
  finally show ?thesis by simp
qed


lemma f32_abs_take_bit: "unat (take_bit 31 f) = f32_abs f"
  by (simp only: unat_take_bit16 f32_abs_def)

lemma f32_abs_less: "f32_abs f < 2 ^ 31"
  by (simp add: f32_abs_def)

lemma word_le_unat: "(w \<le> (u :: 'a::len word)) = (unat w \<le> unat u)" "(w < u) = (unat w < unat u)"
  by (simp_all add: word_le_nat_alt word_less_nat_alt)

lemma unat_drop13: "unat (drop_bit 13 (u :: float32)) = unat u div 2 ^ 13"
  unfolding unat_drop_bit_eq by (rule drop_bit_eq_div)

lemma unat_word_of_nat32: "k < 2 ^ 32 \<Longrightarrow> unat (word_of_nat k :: float32) = k"
  by (simp add: unat_of_nat)

lemma unat_of_nat_self: "word_of_nat (unat (w :: 'a::len word)) = w"
  by simp

lemma ucast_small: "n < 2 ^ 16 \<Longrightarrow> (ucast (word_of_nat n :: float32) :: 16 word) = word_of_nat n"
  by (simp add: unsigned_of_nat take_bit_nat_eq_self)

lemma f16_normal_bits:
  fixes u :: float32
  assumes b: "113 * 2 ^ 23 \<le> unat u" "unat u < 143 * 2 ^ 23"
  shows "drop_bit 13 (u + 0xC8000FFF + (drop_bit 13 u AND 1)) = word_of_nat (rne_div (unat u - 112 * 2 ^ 23) 13)"
    and "rne_div (unat u - 112 * 2 ^ 23) 13 \<le> 0x7C00"
proof -
  define n where "n = unat u - 112 * 2 ^ 23"
  have u: "unat u = n + 112 * 2 ^ 23" using b by (simp add: n_def)
  have n: "2 ^ 23 \<le> n" "n < 31 * 2 ^ 23" using b by (simp_all add: n_def)
  have mod2: "unat u div 2 ^ 13 mod 2 = n div 2 ^ 13 mod 2"
  proof -
    have "unat u = n + (112 * 2 ^ 10) * 2 ^ 13" by (simp add: u)
    then have "unat u div 2 ^ 13 = n div 2 ^ 13 + 112 * 2 ^ 10" by simp
    then show ?thesis by (simp add: mod_add_eq [symmetric])
  qed
  have odd: "unat (drop_bit 13 u AND 1) = n div 2 ^ 13 mod 2"
    unfolding mod2 [symmetric] unat_drop13 [symmetric] by (simp add: and_one_eq unat_mod)
  let ?w = "u + 0xC8000FFF + (drop_bit 13 u AND 1)"
  have "?w = word_of_nat (n + 112 * 2 ^ 23) + 0xC8000FFF + word_of_nat (n div 2 ^ 13 mod 2)"
    unfolding u [symmetric] odd [symmetric] by simp
  also have "\<dots> = word_of_nat (n + 0xFFF + n div 2 ^ 13 mod 2) + (word_of_nat (112 * 2 ^ 23) + (0xC8000000 :: float32))"
    by simp
  also have "word_of_nat (112 * 2 ^ 23) + (0xC8000000 :: float32) = 0" by simp
  finally have w: "?w = word_of_nat (n + 0xFFF + n div 2 ^ 13 mod 2)" by (simp only: add_0_right)
  have "n div 2 ^ 13 mod 2 < 2" by simp
  then have small: "n + 0xFFF + n div 2 ^ 13 mod 2 < 2 ^ 32" using n by simp
  have "unat (drop_bit 13 ?w) = (n + 0xFFF + n div 2 ^ 13 mod 2) div 2 ^ 13"
    unfolding w unat_drop13 unat_word_of_nat32 [OF small] ..
  also have "\<dots> = rne_div n 13" using rne_div_bias [of 13 n] by simp
  finally have r: "unat (drop_bit 13 ?w) = rne_div n 13" .
  then show "drop_bit 13 ?w = word_of_nat (rne_div (unat u - 112 * 2 ^ 23) 13)"
    unfolding n_def [symmetric] r [symmetric] by (simp only: unat_of_nat_self)
  have "2 * (rne_div n 13 * 2 ^ 13) \<le> 2 * n + 2 ^ 13" by (rule rne_div_nearest)
  then have "rne_div n 13 * 2 ^ 14 < (31 * 2 ^ 10 + 1) * (2 ^ 14 :: nat)" using n by simp
  then have "rne_div n 13 < 31 * 2 ^ 10 + 1" by (simp only: mult_less_cancel2)
  then show "rne_div (unat u - 112 * 2 ^ 23) 13 \<le> 0x7C00" by (simp add: n_def)
qed

lemma f32_add_magic:
  fixes u :: float32
  assumes "unat u < 113 * 2 ^ 23"
  shows "f32_add u (push_bit 23 126) - push_bit 23 126 = word_of_nat (rne_div (f32_mag (unat u)) 125)"
proof -
  have s: "\<not> f32_sign u" "f32_abs u = unat u" using assms by (simp_all add: f32_sign_def f32_abs_def)
  have m: "f32_val (push_bit 23 126) = 2 ^ 148"
    by (simp add: f32_val_def f32_sign_def f32_abs_def f32_mag_def)
  note small = rne16_small [OF assms]
  have "f32_add u (push_bit 23 126) = f32_pack False (min 0x7F800000 (rne_bits 24 0 (f32_mag (unat u) + 2 ^ 148)))"
    using m s by (simp add: f32_add_def f32_round_def f32_val_def nat_add_distrib)
  also have "rne_bits 24 0 (f32_mag (unat u) + 2 ^ 148) = 126 * 2 ^ 23 + rne_div (f32_mag (unat u)) 125"
    by (rule rne24_magic [OF small(1)])
  also have "min 0x7F800000 (126 * 2 ^ 23 + rne_div (f32_mag (unat u)) 125)
      = 126 * 2 ^ 23 + rne_div (f32_mag (unat u)) 125"
    using small(3) by simp
  finally show ?thesis by (simp add: f32_pack_def)
qed

lemma f16_of_float_eq:
  "f16_of_float f = f16_pack (f32_sign f)
     (if f32_isnan f then 0x7E00 else min 0x7C00 (rne_bits 11 125 (f32_mag (f32_abs f))))"
proof -
  define u where "u = f XOR (f AND 0x80000000)"
  define b where "b = f32_abs f"
  have ub: "unat u = b" unfolding u_def f32_clear_sign b_def by (rule f32_abs_take_bit)
  have sign: "ucast (drop_bit 16 (f AND 0x80000000)) = (if f32_sign f then 0x8000 else 0 :: 16 word)"
    by (simp add: f32_sign_and f32_sign_def)
  have b31: "b < 2 ^ 31" unfolding b_def by (rule f32_abs_less)
  let ?v = "if u \<ge> push_bit 23 (127 + 16) then (if u > push_bit 23 255 then 0x7E00 else 0x7C00)
     else if u < push_bit 23 113 then ucast (f32_add u (push_bit 23 ((127 - 15) + (23 - 10) + 1)) - push_bit 23 ((127 - 15) + (23 - 10) + 1))
     else (let mant_odd = drop_bit 13 u AND 1; u1 = u + 0xC8000FFF; u2 = u1 + mant_odd in ucast (drop_bit 13 u2)) :: 16 word"
  have "?v = word_of_nat (if f32_isnan f then 0x7E00 else min 0x7C00 (rne_bits 11 125 (f32_mag b)))"
  proof -
    consider (big) "143 * 2 ^ 23 \<le> b" | (small) "b < 113 * 2 ^ 23" | (normal) "113 * 2 ^ 23 \<le> b" "b < 143 * 2 ^ 23"
      by linarith
    then show ?thesis
    proof cases
      case big
      have "2 ^ 10 * 31 \<le> (b - 112 * 2 ^ 23) div 2 ^ 13" using big by (simp add: less_eq_div_iff_mult_less_eq)
      then have "0x7C00 \<le> rne_bits 11 125 (f32_mag b)"
        using rne16_mag [of b] le_rne_div [of "b - 112 * 2 ^ 23" 13] big by simp
      then show ?thesis using big ub by (simp add: word_le_unat f32_isnan_def b_def [symmetric])
    next
      case small
      have "rne_div (f32_mag b) 125 \<le> 0x7C00" using rne16_small(3) [OF small] by simp
      moreover have "\<not> f32_isnan f" using small by (simp add: f32_isnan_def b_def [symmetric])
      ultimately show ?thesis
        using small ub f32_add_magic [of u] rne16_small(2) [OF small]
        by (simp add: word_le_unat ucast_small)
    next
      case normal
      have "\<not> f32_isnan f" using normal by (simp add: f32_isnan_def b_def [symmetric])
      then show ?thesis
        using normal ub f16_normal_bits [of u] rne16_mag [of b]
        by (simp add: word_le_unat Let_def ucast_small)
    qed
  qed
  then show ?thesis
    unfolding f16_of_float_def f16_pack_def Let_def u_def [symmetric] sign b_def [symmetric] by simp
qed

section \<open>Conversion to float\<close>

definition f16_bits :: "16 word \<Rightarrow> nat" where
  "f16_bits v = unat v mod 2 ^ 15"

definition f16_sign :: "16 word \<Rightarrow> bool" where
  "f16_sign v = (2 ^ 15 \<le> unat v)"

lemma f16_bits_less: "f16_bits v < 2 ^ 15"
  by (simp add: f16_bits_def)

lemma unat_or_sign:
  assumes "n < 2 ^ 31"
  shows "unat ((word_of_nat n :: float32) OR (if s then 0x80000000 else 0)) = n + (if s then 2 ^ 31 else 0)"
proof (cases s)
  case True
  have n: "unat (word_of_nat n :: float32) = n" using assms by (intro unat_word_of_nat32) simp
  then have "word_of_nat n AND (0x80000000 :: float32) = 0" using assms by (simp add: f32_sign_and)
  then have "(word_of_nat n :: float32) OR 0x80000000 = word_of_nat n + 0x80000000"
    by (rule disjunctive_add_eq_or [symmetric])
  also have "\<dots> = word_of_nat (n + 2 ^ 31)" by simp
  finally have eq: "(word_of_nat n :: float32) OR 0x80000000 = word_of_nat (n + 2 ^ 31)" .
  have "unat (word_of_nat (n + 2 ^ 31) :: float32) = n + 2 ^ 31"
    using assms by (intro unat_word_of_nat32) simp
  then show ?thesis using True eq by simp
next
  case False
  then show ?thesis using assms by (simp add: unat_of_nat)
qed

lemma f32_of_or_sign:
  assumes "n < 2 ^ 31" "f = word_of_nat n OR (if s then 0x80000000 else 0)"
  shows "f32_sign f = s" "f32_abs f = n"
  unfolding f32_sign_def f32_abs_def assms(2) unat_or_sign [OF assms(1)]
  using assms(1) by (cases s; simp)+

text \<open>The magnitude bits of the float that \<open>ToFloatImpl\<close> builds.\<close>

definition widened :: "nat \<Rightarrow> nat" where
  "widened b = (if 31 * 2 ^ 10 \<le> b then b * 2 ^ 13 + 224 * 2 ^ 23
     else if b < 2 ^ 10 then rne_bits 24 0 (b * 2 ^ 125)
     else b * 2 ^ 13 + 112 * 2 ^ 23)"

lemma widened_small:
  assumes "b < 2 ^ 10"
  shows "rne_bits 24 0 (b * 2 ^ 125) \<le> 126 * 2 ^ 23"
proof (rule ccontr)
  let ?r = "rne_bits 24 0 (b * 2 ^ 125)"
  assume "\<not> ?r \<le> 126 * 2 ^ 23"
  then have r: "126 * 2 ^ 23 < ?r" by simp
  then have "126 \<le> ?r div 2 ^ 23" by (simp add: less_eq_div_iff_mult_less_eq)
  then have "(2 ^ 23 :: nat) * 2 ^ 125 \<le> (2 ^ 23 + ?r mod 2 ^ 23) * 2 ^ (?r div 2 ^ 23 - 1)"
    by (intro mult_le_mono power_increasing) simp_all
  also have "\<dots> = f32_mag ?r" using r by (simp add: f32_mag_normal)
  also have "\<dots> = b * 2 ^ 125" using assms by (intro f32_mag_rne) simp_all
  finally have "2 ^ 23 * 2 ^ 125 \<le> b * (2 ^ 125 :: nat)" .
  then have "2 ^ 23 \<le> b" by simp
  with assms show False by simp
qed

lemma widened_less:
  assumes "b < 2 ^ 15" shows "widened b < 2 ^ 31"
proof (cases "b < 2 ^ 10")
  case True
  then have "rne_bits 24 0 (b * 2 ^ 125) < 2 ^ 31"
    by (intro le_less_trans [OF widened_small]) simp_all
  with True show ?thesis unfolding widened_def by simp
qed (use assms in \<open>simp add: widened_def\<close>)

lemma f32_sub_magic:
  assumes "b < 2 ^ 10"
  shows "f32_sub (word_of_nat (b * 2 ^ 13 + 113 * 2 ^ 23)) (push_bit 23 113) = word_of_nat (rne_bits 24 0 (b * 2 ^ 125))"
proof -
  let ?o = "word_of_nat (b * 2 ^ 13 + 113 * 2 ^ 23) :: float32"
  have n: "b * 2 ^ 13 < 2 ^ 23" using assms by simp
  have "unat ?o = b * 2 ^ 13 + 113 * 2 ^ 23" using n by (intro unat_word_of_nat32) simp
  then have o: "\<not> f32_sign ?o" "f32_abs ?o = 113 * 2 ^ 23 + b * 2 ^ 13" using n
    by (simp_all add: f32_sign_def f32_abs_def)
  have "f32_mag (113 * 2 ^ 23 + b * 2 ^ 13) = (2 ^ 23 + b * 2 ^ 13) * 2 ^ 112"
  proof -
    have "(113 * 2 ^ 23 + b * 2 ^ 13) div 2 ^ 23 = 113" "(113 * 2 ^ 23 + b * 2 ^ 13) mod 2 ^ 23 = b * 2 ^ 13"
      using n by (simp_all only: div_mult_add mod_mult_add)
    then show ?thesis by (subst f32_mag_normal) simp_all
  qed
  also have "\<dots> = 2 ^ 135 + b * 2 ^ 125" by simp
  finally have vo: "f32_val ?o = 2 ^ 135 + int b * 2 ^ 125" using o by (simp add: f32_val_def)
  have vm: "f32_val (push_bit 23 113) = 2 ^ 135"
    by (simp add: f32_val_def f32_sign_def f32_abs_def f32_mag_def)
  define n where "n = b * 2 ^ 125"
  have "f32_val ?o - f32_val (push_bit 23 113) = int n" unfolding vo vm n_def by simp
  then show ?thesis using widened_small [OF assms] unfolding n_def [symmetric]
    by (simp only: f32_sub_def f32_round_def) (simp add: f32_pack_def)
qed

lemma f16_to_float_bits:
  "f16_to_float v = word_of_nat (widened (f16_bits v)) OR (if f16_sign v then 0x80000000 else 0)"
proof -
  define b where "b = f16_bits v"
  have b15: "b < 2 ^ 15" unfolding b_def by (rule f16_bits_less)
  define u :: float32 where "u = push_bit 13 (ucast (v AND 0x7FFF))"
  have "v AND 0x7FFF = take_bit 15 v" by (simp add: take_bit_eq_mask mask_eq_exp_minus_1)
  then have vb: "v AND 0x7FFF = word_of_nat b"
    by (metis unat_of_nat_self unat_take_bit16 b_def f16_bits_def)
  have u: "u = word_of_nat (b * 2 ^ 13)"
    unfolding u_def vb using b15 by (simp add: unsigned_of_nat take_bit_nat_eq_self push_bit_of_nat push_bit_eq_mult)
  have unat_u: "unat u = b * 2 ^ 13" unfolding u using b15 by (intro unat_word_of_nat32) simp
  define e where "e = b div 2 ^ 10"
  have e: "e < 32" unfolding e_def using b15 by (simp add: div_less_iff_less_mult)
  have "unat u div 2 ^ 23 = e"
    unfolding unat_u e_def using div_mult2_eq [of "b * 2 ^ 13" "2 ^ 13" "2 ^ 10"] by simp
  have ex: "unat (push_bit 13 0x7C00 AND u) = e * 2 ^ 23"
  proof -
    have "unat (push_bit 13 0x7C00 AND u) = unat u AND push_bit 23 (mask 5)"
      by (simp add: unsigned_and_eq and.commute mask_eq_exp_minus_1)
    also have "\<dots> = (unat u div 2 ^ 23 mod 2 ^ 5) * 2 ^ 23" by (rule and_shifted_mask)
    finally show ?thesis using \<open>unat u div 2 ^ 23 = e\<close> e by simp
  qed
  have is31: "(push_bit 13 0x7C00 AND u = push_bit 13 0x7C00) = (31 * 2 ^ 10 \<le> b)"
  proof -
    have "(push_bit 13 0x7C00 AND u = push_bit 13 0x7C00) = (e = 31)"
      unfolding word_unat_eq_iff ex by simp
    also have "\<dots> = (31 * 2 ^ 10 \<le> b)"
      unfolding e_def using b15 by (auto simp: div_nat_eqI intro: div_nat_eqI)
    finally show ?thesis .
  qed
  have is0: "(push_bit 13 0x7C00 AND u = 0) = (b < 2 ^ 10)"
    unfolding word_unat_eq_iff ex by (simp add: e_def div_eq_0_iff)
  have sign: "push_bit 16 (ucast (v AND 0x8000)) = (if f16_sign v then 0x80000000 else 0 :: float32)"
  proof -
    have "unat (v AND 0x8000) = unat v AND push_bit 15 (mask 1)" by (simp add: unsigned_and_eq)
    also have "\<dots> = (unat v div 2 ^ 15 mod 2 ^ 1) * 2 ^ 15" by (rule and_shifted_mask)
    also have "unat v div 2 ^ 15 = (if f16_sign v then 1 else 0)"
      using unsigned_less [of v, where ?'a = nat] by (auto simp: f16_sign_def intro: div_nat_eqI)
    finally have "v AND 0x8000 = (if f16_sign v then 0x8000 else 0)"
      by (simp add: word_unat_eq_iff split: if_splits)
    then show ?thesis by simp
  qed
  have "(if push_bit 13 0x7C00 AND u = push_bit 13 0x7C00 then u + push_bit 23 (127 - 15) + push_bit 23 (128 - 16)
      else if push_bit 13 0x7C00 AND u = 0 then f32_sub (u + push_bit 23 (127 - 15) + push_bit 23 1) (push_bit 23 113)
      else u + push_bit 23 (127 - 15)) = word_of_nat (widened b)"
    unfolding is31 is0
  proof (cases "31 * 2 ^ 10 \<le> b"; cases "b < 2 ^ 10")
    assume c: "\<not> 31 * 2 ^ 10 \<le> b" "b < 2 ^ 10"
    have "u + push_bit 23 (127 - 15) + push_bit 23 1 = word_of_nat (b * 2 ^ 13 + 113 * 2 ^ 23)"
      unfolding u by simp
    then show "(if 31 * 2 ^ 10 \<le> b then u + push_bit 23 (127 - 15) + push_bit 23 (128 - 16)
      else if b < 2 ^ 10 then f32_sub (u + push_bit 23 (127 - 15) + push_bit 23 1) (push_bit 23 113)
      else u + push_bit 23 (127 - 15)) = word_of_nat (widened b)"
      using c f32_sub_magic [OF c(2)] by (simp only: widened_def if_True if_False)
  qed (simp_all add: u widened_def)
  then show ?thesis
    unfolding f16_to_float_def Let_def u_def [symmetric] sign b_def [symmetric] by simp
qed

lemma f16_to_float_parts:
  "f32_sign (f16_to_float v) = f16_sign v" "f32_abs (f16_to_float v) = widened (f16_bits v)"
  by (rule f32_of_or_sign [OF widened_less [OF f16_bits_less] f16_to_float_bits])+

section \<open>Exactness of the conversions\<close>

lemma f16_pack_parts: "f16_pack (f16_sign v) (f16_bits v) = v"
proof -
  have sign: "v AND 0x8000 = (if f16_sign v then 0x8000 else 0)"
  proof -
    have "unat (v AND 0x8000) = unat v AND push_bit 15 (mask 1)" by (simp add: unsigned_and_eq)
    also have "\<dots> = (unat v div 2 ^ 15 mod 2 ^ 1) * 2 ^ 15" by (rule and_shifted_mask)
    also have "unat v div 2 ^ 15 = (if f16_sign v then 1 else 0)"
      using unsigned_less [of v, where ?'a = nat] by (auto simp: f16_sign_def intro: div_nat_eqI)
    finally show ?thesis by (simp add: word_unat_eq_iff split: if_splits)
  qed
  have "word_of_nat (f16_bits v) = v AND NOT 0x8000"
    by (metis unat_abs16 unat_of_nat_self f16_bits_def)
  then have "f16_pack (f16_sign v) (f16_bits v) = (v AND NOT 0x8000) OR (v AND 0x8000)"
    by (simp only: f16_pack_def sign)
  also have "\<dots> = v" by (rule bit_word_eqI) (auto simp: bit_simps)
  finally show ?thesis .
qed

lemma f16_isNaN_bits: "f16_isNaN v = (0x7C00 < f16_bits v)"
  unfolding f16_isNaN_def f16_abs_def word_le_unat unat_abs16 f16_bits_def by simp

lemma widened_nan:
  assumes "b < 2 ^ 15" shows "(0x7F800000 < widened b) = (0x7C00 < b)"
proof (cases "b < 2 ^ 10")
  case True
  then have "rne_bits 24 0 (b * 2 ^ 125) \<le> 0x7F800000"
    by (intro le_trans [OF widened_small]) simp_all
  with True show ?thesis unfolding widened_def by simp
qed (auto simp: widened_def)

lemma widened_mag:
  assumes "b < 31 * 2 ^ 10"
  shows "f32_mag (widened b) = bin_mag 11 b * 2 ^ 125"
proof (cases "b < 2 ^ 10")
  case True
  then have "f32_mag (rne_bits 24 0 (b * 2 ^ 125)) = b * 2 ^ 125" by (intro f32_mag_rne) simp_all
  with True show ?thesis unfolding widened_def bin_mag_def by simp
next
  case False
  define e where "e = b div 2 ^ 10"
  define m where "m = b mod 2 ^ 10"
  have b: "b = e * 2 ^ 10 + m" unfolding e_def m_def by (rule div_mult_mod_eq [symmetric])
  have m: "m < 2 ^ 10" by (simp add: m_def)
  have "1 \<le> e" unfolding e_def using False by (simp add: less_eq_div_iff_mult_less_eq)
  then obtain k where k: "e = Suc k" by (cases e) auto
  have w: "widened b = (e + 112) * 2 ^ 23 + m * 2 ^ 13"
    using assms False unfolding widened_def b by simp
  have m13: "m * 2 ^ 13 < 2 ^ 23" using m by simp
  have "widened b div 2 ^ 23 = e + 112" "widened b mod 2 ^ 23 = m * 2 ^ 13"
    unfolding w using m13 by (simp_all only: div_mult_add mod_mult_add)
  moreover have "2 ^ 23 \<le> widened b" unfolding w by simp
  ultimately have "f32_mag (widened b) = (2 ^ 23 + m * 2 ^ 13) * 2 ^ (e + 111)"
    by (simp add: f32_mag_normal)
  also have "\<dots> = (2 ^ 10 + m) * 2 ^ k * 2 ^ 125"
    unfolding k by (simp add: power_add algebra_simps)
  also have "(2 ^ 10 + m) * 2 ^ k = bin_mag 11 b"
    using False unfolding bin_mag_def by (simp add: e_def [symmetric, simplified] m_def [symmetric, simplified] k)
  finally show ?thesis .
qed

lemma f16_roundtrip:
  "f16_of_float (f16_to_float v) = (if f16_isNaN v then f16_pack (f16_sign v) 0x7E00 else v)"
proof -
  let ?b = "f16_bits v"
  have nan: "f32_isnan (f16_to_float v) = f16_isNaN v"
    unfolding f32_isnan_def f16_to_float_parts f16_isNaN_bits by (rule widened_nan [OF f16_bits_less])
  show ?thesis
  proof (cases "f16_isNaN v")
    case True
    then show ?thesis unfolding f16_of_float_eq nan f16_to_float_parts by simp
  next
    case False
    then have b: "?b \<le> 0x7C00" by (simp add: f16_isNaN_bits)
    have "min 0x7C00 (rne_bits 11 125 (f32_mag (widened ?b))) = ?b"
    proof (cases "?b = 0x7C00")
      case True
      have "0x7C00 \<le> rne_bits 11 125 (f32_mag 0x7F800000)"
        using rne16_mag [where b = "0x7F800000"] le_rne_div [where n = "0x7F800000 - 112 * 2 ^ 23" and k = 13] by simp
      then show ?thesis unfolding True by (simp add: widened_def)
    next
      case False
      with b have "?b < 31 * 2 ^ 10" by simp
      then have "rne_bits 11 125 (f32_mag (widened ?b)) = ?b"
        using rne_bits_bin_mag [where q = 10 and s = 125 and b = ?b] by (simp only: widened_mag) simp
      with b show ?thesis by simp
    qed
    then show ?thesis using False unfolding f16_of_float_eq nan f16_to_float_parts
      by (simp add: f16_pack_parts)
  qed
qed

section \<open>bfloat16\<close>

lemma unat_msb_half: "unat (get_msb_half f) = unat f div 2 ^ 16"
proof -
  have "unat (drop_bit 16 f) = unat f div 2 ^ 16" unfolding unat_drop_bit_eq by (rule drop_bit_eq_div)
  moreover have "unat f div 2 ^ 16 < 2 ^ 16"
    using unsigned_less [of f, where ?'a = nat] by (simp add: div_less_iff_less_mult)
  ultimately show ?thesis by (simp add: get_msb_half_def unsigned_ucast_eq take_bit_nat_eq_self)
qed

lemma bf16_of_float_eq:
  assumes "\<not> f32_isnan f"
  shows "unat (bf16_of_float f) = rne_div (unat f) 16"
proof -
  have "f32_abs f \<le> 0x7F800000" using assms by (simp add: f32_isnan_def)
  moreover have "unat f \<le> 2 ^ 31 + f32_abs f"
    using unsigned_less [of f, where ?'a = nat] by (auto simp: f32_abs_def mod_if)
  ultimately have f: "unat f \<le> 0xFF800000" by simp
  have odd: "unat (ucast (get_msb_half f AND 1) :: float32) = unat f div 2 ^ 16 mod 2"
    by (simp only: and_one_eq unsigned_ucast_eq) (simp add: unat_mod unat_msb_half take_bit_nat_eq_self)
  have "f + (ucast (get_msb_half f AND 1) + 0x7FFF) = word_of_nat (unat f + 0x7FFF + unat f div 2 ^ 16 mod 2)"
    unfolding odd [symmetric] by simp
  moreover have "unat f div 2 ^ 16 mod 2 < 2" by simp
  then have "unat f + 0x7FFF + unat f div 2 ^ 16 mod 2 < 2 ^ 32" using f by simp
  ultimately have "unat (f + (ucast (get_msb_half f AND 1) + 0x7FFF)) = unat f + 0x7FFF + unat f div 2 ^ 16 mod 2"
    by (simp only: unat_word_of_nat32)
  then show ?thesis
    using assms rne_div_bias [of 16 "unat f"] by (simp add: bf16_of_float_def Let_def unat_msb_half)
qed

lemma bf16_roundtrip:
  assumes "\<not> bf16_isNaN v"
  shows "bf16_of_float (bf16_to_float v) = v"
proof -
  have u: "unat (bf16_to_float v) = unat v * 2 ^ 16"
  proof -
    have "(push_bit 16 (ucast v) :: float32) = word_of_nat (unat v * 2 ^ 16)"
      by (simp add: push_bit_eq_mult)
    moreover have "unat v * 2 ^ 16 < 2 ^ 32" using unsigned_less [of v, where ?'a = nat] by simp
    ultimately show ?thesis using assms by (simp only: bf16_to_float_def if_False unat_word_of_nat32)
  qed
  have "f32_abs (bf16_to_float v) = (unat v mod 2 ^ 15) * 2 ^ 16"
    unfolding f32_abs_def u using mult_mod_left [of "unat v" "2 ^ 15" "2 ^ 16"] by simp
  moreover have "unat v mod 2 ^ 15 \<le> 0x7F80"
    using assms unfolding bf16_isNaN_def bf16_abs_def word_le_unat unat_abs16 by simp
  ultimately have "\<not> f32_isnan (bf16_to_float v)" by (simp add: f32_isnan_def)
  then have "unat (bf16_of_float (bf16_to_float v)) = rne_div (unat v * 2 ^ 16) 16"
    using bf16_of_float_eq u by simp
  then show ?thesis unfolding rne_div_exact by (simp only: word_unat_eq_iff)
qed

section \<open>What both formats share\<close>

text \<open>
  The tests and comparisons of a 16-bit format, read on its 15 magnitude bits: \<open>inf\<close> is the bits of
  infinity, \<open>quantum\<close> those of the least normal value. The laws say what each operation of the
  header computes; the lemmas are about any format that satisfies them.
\<close>

locale half_format =
  fixes inf :: nat and quantum :: nat
    and isNegative :: "16 word \<Rightarrow> bool" and isNaN :: "16 word \<Rightarrow> bool" and isFinite :: "16 word \<Rightarrow> bool"
    and isInfinity :: "16 word \<Rightarrow> bool" and isNaNOrZero :: "16 word \<Rightarrow> bool"
    and isNormal :: "16 word \<Rightarrow> bool" and isSubnormal :: "16 word \<Rightarrow> bool"
    and negate :: "16 word \<Rightarrow> 16 word"
    and eq :: "16 word \<Rightarrow> 16 word \<Rightarrow> bool" and less :: "16 word \<Rightarrow> 16 word \<Rightarrow> bool"
  assumes range: "0 < quantum" "quantum < inf" "inf < 2 ^ 15"
    and negative: "isNegative v = f16_sign v"
    and nan: "isNaN v = (inf < f16_bits v)"
    and finite: "isFinite v = (f16_bits v < inf)"
    and infinity: "isInfinity v = (f16_bits v = inf)"
    and nan_or_zero: "isNaNOrZero v = (f16_bits v = 0 \<or> inf < f16_bits v)"
    and normal: "isNormal v = (quantum \<le> f16_bits v \<and> f16_bits v < inf)"
    and subnormal: "isSubnormal v = (0 < f16_bits v \<and> f16_bits v < quantum)"
    and negate_bits: "isNaN v \<Longrightarrow> negate v = v" "\<not> isNaN v \<Longrightarrow> f16_bits (negate v) = f16_bits v"
      "\<not> isNaN v \<Longrightarrow> f16_sign (negate v) = (\<not> f16_sign v)"
    and eq_bits: "eq l r = (\<not> isNaN l \<and> \<not> isNaN r \<and> l = r)"
    and less_bits: "less l r = (\<not> isNaN l \<and> \<not> isNaN r \<and>
      (if isNegative l \<noteq> isNegative r then isNegative l \<and> \<not> (f16_bits l = 0 \<and> f16_bits r = 0)
       else l \<noteq> r \<and> (l < r) \<noteq> isNegative l))"

text \<open>The order of the represented values: the magnitude bits with the sign applied.\<close>

definition half_key :: "16 word \<Rightarrow> int" where
  "half_key v = (if f16_sign v then - int (f16_bits v) else int (f16_bits v))"

lemma unat_half: "unat v = f16_bits v + (if f16_sign v then 2 ^ 15 else 0)"
  using unsigned_less [of v, where ?'a = nat] by (auto simp: f16_bits_def f16_sign_def mod_if)

lemma half_eqI:
  assumes "f16_bits l = f16_bits r" "f16_sign l = f16_sign r" shows "l = r"
proof -
  have "l = f16_pack (f16_sign l) (f16_bits l)" by (rule f16_pack_parts [symmetric])
  also have "\<dots> = f16_pack (f16_sign r) (f16_bits r)" by (simp only: assms)
  also have "\<dots> = r" by (rule f16_pack_parts)
  finally show ?thesis .
qed

context half_format begin

lemma less_key: "less l r = (\<not> isNaN l \<and> \<not> isNaN r \<and> half_key l < half_key r)"
proof -
  have "(l < r) = (unat l < unat r)" by (rule word_le_unat)
  then show ?thesis
    unfolding less_bits negative half_key_def
    using half_eqI [of l r] f16_bits_less [of l] f16_bits_less [of r]
    by (cases "f16_bits l = f16_bits r") (auto simp: unat_half)
qed

lemma eq_key: "eq l r = (\<not> isNaN l \<and> \<not> isNaN r \<and> half_key l = half_key r \<and> f16_sign l = f16_sign r)"
  unfolding eq_bits half_key_def using half_eqI [of l r] by auto

text \<open>Every value is in exactly one class.\<close>

lemma one_class:
  "(isNaN v, isInfinity v, isNormal v, isSubnormal v, f16_bits v = 0)
     \<in> {(True, False, False, False, False), (False, True, False, False, False),
        (False, False, True, False, False), (False, False, False, True, False),
        (False, False, False, False, True)}"
  using range by (auto simp: nan infinity normal subnormal)

lemma finite_classes: "isFinite v = (isNormal v \<or> isSubnormal v \<or> f16_bits v = 0)"
  using range by (auto simp: finite normal subnormal)

lemma negate_involution: "negate (negate v) = v"
proof (cases "isNaN v")
  case False
  then have "\<not> isNaN (negate v)" by (simp add: nan negate_bits)
  then show ?thesis using False by (intro half_eqI) (simp_all add: negate_bits)
qed (simp add: negate_bits)

lemma less_trichotomy:
  "\<not> isNaN l \<Longrightarrow> \<not> isNaN r \<Longrightarrow> \<not> less l r \<Longrightarrow> \<not> less r l \<Longrightarrow> eq l r \<or> f16_bits l = 0 \<and> f16_bits r = 0"
  by (auto simp: less_key eq_key half_key_def split: if_splits)

end

section \<open>Both formats satisfy it\<close>

lemma half_word_facts:
  "f16_abs v = word_of_nat (f16_bits v)" "bf16_abs v = word_of_nat (f16_bits v)"
  unfolding f16_abs_def bf16_abs_def f16_bits_def unat_abs16 [symmetric] by simp_all

lemma unat_of_bits: "unat (word_of_nat (f16_bits v) :: 16 word) = f16_bits v"
  using f16_bits_less [of v] by (simp add: unat_of_nat)

lemma are_zero_bits: "((l OR r) AND NOT (0x8000 :: 16 word) = 0) = (f16_bits l = 0 \<and> f16_bits r = 0)"
proof -
  have "((l OR r) AND NOT 0x8000 = 0) = ((l AND NOT 0x8000) OR (r AND NOT 0x8000) = 0)"
    by (simp only: bit.conj_disj_distrib2)
  also have "\<dots> = (l AND NOT 0x8000 = 0 \<and> r AND NOT 0x8000 = 0)" by (rule or_eq_0_iff)
  finally show ?thesis by (simp only: word_unat_eq_iff unat_abs16 f16_bits_def unat_0)
qed

lemma exponent_bits:
  assumes n: "n < 2 ^ 15"
  shows "((word_of_nat n :: 16 word) AND 0x7C00 = 0) = (n < 2 ^ 10)"
    and "((word_of_nat n :: 16 word) AND 0x7F80 = 0) = (n < 2 ^ 7)"
proof -
  have u: "unat (word_of_nat n :: 16 word) = n" using n by (simp add: unat_of_nat)
  have "unat ((word_of_nat n :: 16 word) AND 0x7C00) = n AND push_bit 10 (mask 5)"
    by (simp add: unsigned_and_eq u mask_eq_exp_minus_1)
  also have "\<dots> = (n div 2 ^ 10 mod 2 ^ 5) * 2 ^ 10" by (rule and_shifted_mask)
  also have "n div 2 ^ 10 mod 2 ^ 5 = n div 2 ^ 10" using n by (simp add: div_less_iff_less_mult)
  finally show "((word_of_nat n :: 16 word) AND 0x7C00 = 0) = (n < 2 ^ 10)"
    by (simp add: word_unat_eq_iff div_eq_0_iff)
  have "unat ((word_of_nat n :: 16 word) AND 0x7F80) = n AND push_bit 7 (mask 8)"
    by (simp add: unsigned_and_eq u mask_eq_exp_minus_1)
  also have "\<dots> = (n div 2 ^ 7 mod 2 ^ 8) * 2 ^ 7" by (rule and_shifted_mask)
  also have "n div 2 ^ 7 mod 2 ^ 8 = n div 2 ^ 7" using n by (simp add: div_less_iff_less_mult)
  finally show "((word_of_nat n :: 16 word) AND 0x7F80 = 0) = (n < 2 ^ 7)"
    by (simp add: word_unat_eq_iff div_eq_0_iff)
qed

lemma negate_xor:
  "f16_bits (v XOR 0x8000) = f16_bits v" "f16_sign (v XOR 0x8000) = (\<not> f16_sign v)"
proof -
  have top: "bit (0x8000 :: 16 word) n = (n = 15)" for n
  proof -
    have "(0x8000 :: 16 word) = push_bit 15 1" by simp
    then show ?thesis by (simp only: bit_push_bit_iff bit_1_iff) auto
  qed
  have "take_bit 15 (v XOR 0x8000) = take_bit 15 v"
    by (rule bit_word_eqI) (auto simp: bit_take_bit_iff bit_xor_iff top)
  then show "f16_bits (v XOR 0x8000) = f16_bits v"
    unfolding f16_bits_def unat_take_bit16 [symmetric] by simp
  have sign: "f16_sign w = bit w 15" for w
    using sint_neg_16 [of w] by (simp add: f16_sign_def bit_last_iff [symmetric])
  show "f16_sign (v XOR 0x8000) = (\<not> f16_sign v)" unfolding sign by (simp add: bit_xor_iff top)
qed

lemma f16_isNegative_sign: "f16_isNegative v = f16_sign v" "bf16_isNegative v = f16_sign v"
  by (simp_all add: f16_isNegative_def bf16_isNegative_def f16_sign_def sint_neg_16 [simplified])

lemma f16_exponent_tests:
  "f16_isNormal v = (2 ^ 10 \<le> f16_bits v \<and> f16_bits v < 0x7C00)"
  "f16_isSubnormal v = (0 < f16_bits v \<and> f16_bits v < 2 ^ 10)"
  unfolding f16_isNormal_def f16_isSubnormal_def Let_def half_word_facts exponent_bits [OF f16_bits_less]
  by (auto simp: word_le_unat unat_of_bits word_unat_eq_iff)

lemma bf16_exponent_tests:
  "bf16_isNormal v = (2 ^ 7 \<le> f16_bits v \<and> f16_bits v < 0x7F80)"
  "bf16_isSubnormal v = (0 < f16_bits v \<and> f16_bits v < 2 ^ 7)"
  unfolding bf16_isNormal_def bf16_isSubnormal_def Let_def half_word_facts exponent_bits [OF f16_bits_less]
  by (auto simp: word_le_unat unat_of_bits word_unat_eq_iff)

lemmas half_test_defs = f16_isNaN_def f16_isFinite_def f16_isInfinity_def f16_isNaNOrZero_def
  f16_negate_def f16_eq_def f16_less_def f16_areZero_def
  bf16_isNaN_def bf16_isFinite_def bf16_isInfinity_def bf16_isNaNOrZero_def bf16_negate_def bf16_eq_def bf16_less_def bf16_areZero_def

interpretation f16: half_format "0x7C00" "2 ^ 10" f16_isNegative f16_isNaN f16_isFinite f16_isInfinity
    f16_isNaNOrZero f16_isNormal f16_isSubnormal f16_negate f16_eq f16_less
proof unfold_locales
  fix v l r :: "16 word"
  show "f16_isNaN v = (0x7C00 < f16_bits v)" by (rule f16_isNaN_bits)
  show "\<not> f16_isNaN v \<Longrightarrow> f16_bits (f16_negate v) = f16_bits v"
    "\<not> f16_isNaN v \<Longrightarrow> f16_sign (f16_negate v) = (\<not> f16_sign v)"
    "f16_isNaN v \<Longrightarrow> f16_negate v = v"
    by (simp_all add: f16_negate_def negate_xor)
  show "f16_less l r = (\<not> f16_isNaN l \<and> \<not> f16_isNaN r \<and>
      (if f16_isNegative l \<noteq> f16_isNegative r then f16_isNegative l \<and> \<not> (f16_bits l = 0 \<and> f16_bits r = 0)
       else l \<noteq> r \<and> (l < r) \<noteq> f16_isNegative l))"
    unfolding f16_less_def f16_areZero_def are_zero_bits Let_def by auto
qed (auto simp: half_test_defs half_word_facts Let_def word_le_unat unat_of_bits word_unat_eq_iff
    f16_exponent_tests bf16_exponent_tests f16_isNegative_sign)

interpretation bf16: half_format "0x7F80" "2 ^ 7" bf16_isNegative bf16_isNaN bf16_isFinite bf16_isInfinity
    bf16_isNaNOrZero bf16_isNormal bf16_isSubnormal bf16_negate bf16_eq bf16_less
proof unfold_locales
  fix v l r :: "16 word"
  show nan: "bf16_isNaN v = (0x7F80 < f16_bits v)" for v
    by (simp add: bf16_isNaN_def half_word_facts word_le_unat unat_of_bits)
  show "\<not> bf16_isNaN v \<Longrightarrow> f16_bits (bf16_negate v) = f16_bits v"
    "\<not> bf16_isNaN v \<Longrightarrow> f16_sign (bf16_negate v) = (\<not> f16_sign v)"
    "bf16_isNaN v \<Longrightarrow> bf16_negate v = v"
    by (simp_all add: bf16_negate_def negate_xor)
  show "bf16_less l r = (\<not> bf16_isNaN l \<and> \<not> bf16_isNaN r \<and>
      (if bf16_isNegative l \<noteq> bf16_isNegative r then bf16_isNegative l \<and> \<not> (f16_bits l = 0 \<and> f16_bits r = 0)
       else l \<noteq> r \<and> (l < r) \<noteq> bf16_isNegative l))"
    unfolding bf16_less_def bf16_areZero_def are_zero_bits Let_def by auto
qed (auto simp: half_test_defs half_word_facts Let_def word_le_unat unat_of_bits word_unat_eq_iff
    f16_exponent_tests bf16_exponent_tests f16_isNegative_sign)


end
