(* ===== verification/Float_Properties.thy ===== *)
theory Float_Properties imports Half_Floats begin

text \<open>
  The properties of the 16-bit float formats of \<open>onnxruntime_float16.h\<close>: conversions round
  correctly and lose nothing on the way back, comparisons follow the numeric order, and the class
  tests partition the values.
\<close>

text \<open>C14. \<open>ToUint16Impl\<close> is correctly rounded: on every float it is the half whose magnitude bits are
  the round-to-nearest-even of the float's exact magnitude (11-bit significands, quantum
  \<open>2 ^ -24\<close>), saturating to infinity, with NaN mapped to the quiet NaN and the sign kept.\<close>

theorem half_conversion_rounds_to_nearest_even:
  "f16_of_float f = f16_pack (f32_sign f)
     (if f32_isnan f then 0x7E00 else min 0x7C00 (rne_bits 11 125 (f32_mag (f32_abs f))))"
  by (rule f16_of_float_eq)

text \<open>C15. Half to float and back is the identity on every value that is not a NaN; NaNs come back as
  the quiet NaN of the same sign.\<close>

theorem half_float_roundtrip:
  "f16_of_float (f16_to_float v) = (if f16_isNaN v then f16_pack (f16_sign v) 0x7E00 else v)"
  by (rule f16_roundtrip)

text \<open>C16. \<open>ToFloatImpl\<close> is exact on finite halves, subnormals included: the float it builds has the
  half's sign and magnitude (the half's magnitude counts units of \<open>2 ^ -24\<close>, the float's of
  \<open>2 ^ -149\<close>).\<close>

theorem half_widening_is_exact:
  assumes "f16_isFinite v"
  shows "f32_val (f16_to_float v)
     = (if f16_sign v then - 1 else 1) * int (bin_mag 11 (f16_bits v)) * 2 ^ 125"
proof -
  have "f16_bits v < 31 * 2 ^ 10" using assms by (simp add: f16.finite)
  from widened_mag [OF this] show ?thesis
    by (simp add: f32_val_def f16_to_float_parts)
qed

theorem half_widening_is_exact_witness:
  "f32_val (f16_to_float 0xC000) = - (2 ^ 11 * 2 ^ 13) * 2 ^ 126"
proof -
  have b: "f16_bits 0xC000 = 0x4000" "f16_sign 0xC000" by (simp_all add: f16_bits_def f16_sign_def)
  have "f16_isFinite 0xC000" by (simp add: f16.finite b)
  from half_widening_is_exact [OF this] show ?thesis by (simp add: b bin_mag_def)
qed

text \<open>C17. The bfloat16 conversion is correctly rounded: the result's 16 bits are the float's 32 bits
  divided by \<open>2 ^ 16\<close>, to nearest, ties to even.\<close>

theorem bfloat_conversion_rounds_to_nearest_even:
  assumes "\<not> f32_isnan f"
  shows "unat (bf16_of_float f) = rne_div (unat f) 16"
  by (rule bf16_of_float_eq [OF assms])

theorem bfloat_conversion_rounds_to_nearest_even_witness:
  "unat (bf16_of_float 0x3F808000) = 0x3F80 \<and> unat (bf16_of_float 0x3F818000) = 0x3F82"
proof -
  have "\<not> f32_isnan 0x3F808000" "\<not> f32_isnan 0x3F818000" by (simp_all add: f32_isnan_def f32_abs_def)
  from this [THEN bfloat_conversion_rounds_to_nearest_even] show ?thesis by (simp add: rne_div_def)
qed

text \<open>bfloat16 to float and back is the identity on every value that is not a NaN.\<close>

theorem bfloat_roundtrip:
  assumes "\<not> bf16_isNaN v"
  shows "bf16_of_float (bf16_to_float v) = v"
  by (rule bf16_roundtrip [OF assms])

theorem bfloat_roundtrip_witness:
  "bf16_of_float (bf16_to_float 0x4049) = 0x4049"
proof -
  have "\<not> bf16_isNaN 0x4049" by (simp add: bf16.nan f16_bits_def)
  then show ?thesis by (rule bfloat_roundtrip)
qed

text \<open>C18. The comparison operators of both formats follow the numeric order: neither operand a NaN and
  the signed magnitude of the left one smaller, so that zeros of either sign are not ordered.\<close>

theorem half_comparisons_are_numeric:
  "f16_less l r = (\<not> f16_isNaN l \<and> \<not> f16_isNaN r \<and> half_key l < half_key r)
   \<and> bf16_less l r = (\<not> bf16_isNaN l \<and> \<not> bf16_isNaN r \<and> half_key l < half_key r)"
  using f16.less_key bf16.less_key by blast

text \<open>Every half and every bfloat16 is in exactly one of the classes NaN, infinity, normal,
  subnormal, zero, as the class tests report them.\<close>

theorem half_classes_partition:
  "length (filter (\<lambda>b. b) [f16_isNaN v, f16_isInfinity v, f16_isNormal v, f16_isSubnormal v, f16_abs v = 0]) = 1
   \<and> length (filter (\<lambda>b. b) [bf16_isNaN v, bf16_isInfinity v, bf16_isNormal v, bf16_isSubnormal v, bf16_abs v = 0]) = 1"
proof -
  have "(f16_abs v = 0) = (f16_bits v = 0)" "(bf16_abs v = 0) = (f16_bits v = 0)"
    unfolding half_word_facts word_unat_eq_iff unat_of_bits by simp_all
  then show ?thesis using f16.one_class [of v] bf16.one_class [of v] by auto
qed

text \<open>A divergence from the header's own comments: they state that IEEE zeros of either sign are
  equal, and \<open>operator<\<close> treats them so, but \<open>operator==\<close> of both formats tells them apart.\<close>

theorem signed_zeros_are_not_equal:
  "f16_areZero 0 0x8000 \<and> \<not> f16_less 0 0x8000 \<and> \<not> f16_less 0x8000 0 \<and> \<not> f16_eq 0 0x8000
   \<and> bf16_areZero 0 0x8000 \<and> \<not> bf16_less 0 0x8000 \<and> \<not> bf16_less 0x8000 0 \<and> \<not> bf16_eq 0 0x8000"
  by (simp add: f16_areZero_def bf16_areZero_def f16_eq_def bf16_eq_def f16.less_key bf16.less_key
      half_key_def f16_bits_def)

end
