(* ===== verification/Ort_Enums.thy ===== *)
theory Ort_Enums imports Engine_Types begin

text \<open>
  Enumerations of the C API (\<open>onnxruntime_c_api.h\<close>, \<open>onnxruntime_error_code.h\<close>) with the integers they
  stand for, and the map from C++ element types to tensor element types (\<open>TypeToTensorType\<close> of
  \<open>onnxruntime_cxx_inline.h\<close>).
\<close>

section \<open>Error codes\<close>

datatype OrtErrorCode =
    ORT_OK
  | ORT_FAIL
  | ORT_INVALID_ARGUMENT
  | ORT_NO_SUCHFILE
  | ORT_NO_MODEL
  | ORT_ENGINE_ERROR
  | ORT_RUNTIME_EXCEPTION
  | ORT_INVALID_PROTOBUF
  | ORT_MODEL_LOADED
  | ORT_NOT_IMPLEMENTED
  | ORT_INVALID_GRAPH
  | ORT_EP_FAIL
  | ORT_MODEL_LOAD_CANCELED
  | ORT_MODEL_REQUIRES_COMPILATION
  | ORT_NOT_FOUND
  | ORT_DEVICE_RESET

primrec error_code :: "OrtErrorCode \<Rightarrow> int" where
  "error_code ORT_OK = 0"
| "error_code ORT_FAIL = 1"
| "error_code ORT_INVALID_ARGUMENT = 2"
| "error_code ORT_NO_SUCHFILE = 3"
| "error_code ORT_NO_MODEL = 4"
| "error_code ORT_ENGINE_ERROR = 5"
| "error_code ORT_RUNTIME_EXCEPTION = 6"
| "error_code ORT_INVALID_PROTOBUF = 7"
| "error_code ORT_MODEL_LOADED = 8"
| "error_code ORT_NOT_IMPLEMENTED = 9"
| "error_code ORT_INVALID_GRAPH = 10"
| "error_code ORT_EP_FAIL = 11"
| "error_code ORT_MODEL_LOAD_CANCELED = 12"
| "error_code ORT_MODEL_REQUIRES_COMPILATION = 13"
| "error_code ORT_NOT_FOUND = 14"
| "error_code ORT_DEVICE_RESET = 15"

section \<open>Tensor and value types\<close>

datatype ONNXTensorElementDataType =
    ONNX_TENSOR_ELEMENT_DATA_TYPE_UNDEFINED
  | ONNX_TENSOR_ELEMENT_DATA_TYPE_FLOAT
  | ONNX_TENSOR_ELEMENT_DATA_TYPE_UINT8
  | ONNX_TENSOR_ELEMENT_DATA_TYPE_INT8
  | ONNX_TENSOR_ELEMENT_DATA_TYPE_UINT16
  | ONNX_TENSOR_ELEMENT_DATA_TYPE_INT16
  | ONNX_TENSOR_ELEMENT_DATA_TYPE_INT32
  | ONNX_TENSOR_ELEMENT_DATA_TYPE_INT64
  | ONNX_TENSOR_ELEMENT_DATA_TYPE_STRING
  | ONNX_TENSOR_ELEMENT_DATA_TYPE_BOOL
  | ONNX_TENSOR_ELEMENT_DATA_TYPE_FLOAT16
  | ONNX_TENSOR_ELEMENT_DATA_TYPE_DOUBLE
  | ONNX_TENSOR_ELEMENT_DATA_TYPE_UINT32
  | ONNX_TENSOR_ELEMENT_DATA_TYPE_UINT64
  | ONNX_TENSOR_ELEMENT_DATA_TYPE_COMPLEX64
  | ONNX_TENSOR_ELEMENT_DATA_TYPE_COMPLEX128
  | ONNX_TENSOR_ELEMENT_DATA_TYPE_BFLOAT16
  | ONNX_TENSOR_ELEMENT_DATA_TYPE_FLOAT8E4M3FN
  | ONNX_TENSOR_ELEMENT_DATA_TYPE_FLOAT8E4M3FNUZ
  | ONNX_TENSOR_ELEMENT_DATA_TYPE_FLOAT8E5M2
  | ONNX_TENSOR_ELEMENT_DATA_TYPE_FLOAT8E5M2FNUZ
  | ONNX_TENSOR_ELEMENT_DATA_TYPE_UINT4
  | ONNX_TENSOR_ELEMENT_DATA_TYPE_INT4
  | ONNX_TENSOR_ELEMENT_DATA_TYPE_FLOAT4E2M1
  | ONNX_TENSOR_ELEMENT_DATA_TYPE_UINT2
  | ONNX_TENSOR_ELEMENT_DATA_TYPE_INT2
  | ONNX_TENSOR_ELEMENT_DATA_TYPE_FLOAT8E8M0

primrec tensor_type_code :: "ONNXTensorElementDataType \<Rightarrow> int" where
  "tensor_type_code ONNX_TENSOR_ELEMENT_DATA_TYPE_UNDEFINED = 0"
| "tensor_type_code ONNX_TENSOR_ELEMENT_DATA_TYPE_FLOAT = 1"
| "tensor_type_code ONNX_TENSOR_ELEMENT_DATA_TYPE_UINT8 = 2"
| "tensor_type_code ONNX_TENSOR_ELEMENT_DATA_TYPE_INT8 = 3"
| "tensor_type_code ONNX_TENSOR_ELEMENT_DATA_TYPE_UINT16 = 4"
| "tensor_type_code ONNX_TENSOR_ELEMENT_DATA_TYPE_INT16 = 5"
| "tensor_type_code ONNX_TENSOR_ELEMENT_DATA_TYPE_INT32 = 6"
| "tensor_type_code ONNX_TENSOR_ELEMENT_DATA_TYPE_INT64 = 7"
| "tensor_type_code ONNX_TENSOR_ELEMENT_DATA_TYPE_STRING = 8"
| "tensor_type_code ONNX_TENSOR_ELEMENT_DATA_TYPE_BOOL = 9"
| "tensor_type_code ONNX_TENSOR_ELEMENT_DATA_TYPE_FLOAT16 = 10"
| "tensor_type_code ONNX_TENSOR_ELEMENT_DATA_TYPE_DOUBLE = 11"
| "tensor_type_code ONNX_TENSOR_ELEMENT_DATA_TYPE_UINT32 = 12"
| "tensor_type_code ONNX_TENSOR_ELEMENT_DATA_TYPE_UINT64 = 13"
| "tensor_type_code ONNX_TENSOR_ELEMENT_DATA_TYPE_COMPLEX64 = 14"
| "tensor_type_code ONNX_TENSOR_ELEMENT_DATA_TYPE_COMPLEX128 = 15"
| "tensor_type_code ONNX_TENSOR_ELEMENT_DATA_TYPE_BFLOAT16 = 16"
| "tensor_type_code ONNX_TENSOR_ELEMENT_DATA_TYPE_FLOAT8E4M3FN = 17"
| "tensor_type_code ONNX_TENSOR_ELEMENT_DATA_TYPE_FLOAT8E4M3FNUZ = 18"
| "tensor_type_code ONNX_TENSOR_ELEMENT_DATA_TYPE_FLOAT8E5M2 = 19"
| "tensor_type_code ONNX_TENSOR_ELEMENT_DATA_TYPE_FLOAT8E5M2FNUZ = 20"
| "tensor_type_code ONNX_TENSOR_ELEMENT_DATA_TYPE_UINT4 = 21"
| "tensor_type_code ONNX_TENSOR_ELEMENT_DATA_TYPE_INT4 = 22"
| "tensor_type_code ONNX_TENSOR_ELEMENT_DATA_TYPE_FLOAT4E2M1 = 23"
| "tensor_type_code ONNX_TENSOR_ELEMENT_DATA_TYPE_UINT2 = 24"
| "tensor_type_code ONNX_TENSOR_ELEMENT_DATA_TYPE_INT2 = 25"
| "tensor_type_code ONNX_TENSOR_ELEMENT_DATA_TYPE_FLOAT8E8M0 = 26"

datatype ONNXType =
    ONNX_TYPE_UNKNOWN
  | ONNX_TYPE_TENSOR
  | ONNX_TYPE_SEQUENCE
  | ONNX_TYPE_MAP
  | ONNX_TYPE_OPAQUE
  | ONNX_TYPE_SPARSETENSOR
  | ONNX_TYPE_OPTIONAL

primrec onnx_type_code :: "ONNXType \<Rightarrow> int" where
  "onnx_type_code ONNX_TYPE_UNKNOWN = 0"
| "onnx_type_code ONNX_TYPE_TENSOR = 1"
| "onnx_type_code ONNX_TYPE_SEQUENCE = 2"
| "onnx_type_code ONNX_TYPE_MAP = 3"
| "onnx_type_code ONNX_TYPE_OPAQUE = 4"
| "onnx_type_code ONNX_TYPE_SPARSETENSOR = 5"
| "onnx_type_code ONNX_TYPE_OPTIONAL = 6"

datatype OrtSparseFormat =
    ORT_SPARSE_UNDEFINED
  | ORT_SPARSE_COO
  | ORT_SPARSE_CSRC
  | ORT_SPARSE_BLOCK_SPARSE

primrec sparse_format_code :: "OrtSparseFormat \<Rightarrow> int" where
  "sparse_format_code ORT_SPARSE_UNDEFINED = 0"
| "sparse_format_code ORT_SPARSE_COO = 1"
| "sparse_format_code ORT_SPARSE_CSRC = 2"
| "sparse_format_code ORT_SPARSE_BLOCK_SPARSE = 4"

datatype OrtLoggingLevel =
    ORT_LOGGING_LEVEL_VERBOSE
  | ORT_LOGGING_LEVEL_INFO
  | ORT_LOGGING_LEVEL_WARNING
  | ORT_LOGGING_LEVEL_ERROR
  | ORT_LOGGING_LEVEL_FATAL

primrec logging_level_code :: "OrtLoggingLevel \<Rightarrow> int" where
  "logging_level_code ORT_LOGGING_LEVEL_VERBOSE = 0"
| "logging_level_code ORT_LOGGING_LEVEL_INFO = 1"
| "logging_level_code ORT_LOGGING_LEVEL_WARNING = 2"
| "logging_level_code ORT_LOGGING_LEVEL_ERROR = 3"
| "logging_level_code ORT_LOGGING_LEVEL_FATAL = 4"

text \<open>The levels are ordered by severity, which is the order of their codes.\<close>

lemma logging_level_code_inj: "logging_level_code a = logging_level_code b \<longleftrightarrow> a = b"
  by (cases a; cases b) simp_all

instantiation OrtLoggingLevel :: linorder
begin

definition less_eq_OrtLoggingLevel :: "OrtLoggingLevel \<Rightarrow> OrtLoggingLevel \<Rightarrow> bool" where
  "a \<le> b \<longleftrightarrow> logging_level_code a \<le> logging_level_code b"

definition less_OrtLoggingLevel :: "OrtLoggingLevel \<Rightarrow> OrtLoggingLevel \<Rightarrow> bool" where
  "a < b \<longleftrightarrow> logging_level_code a < logging_level_code b"

instance
  by standard (auto simp: less_eq_OrtLoggingLevel_def less_OrtLoggingLevel_def logging_level_code_inj [symmetric])

end

datatype OrtOpAttrType =
    ORT_OP_ATTR_UNDEFINED
  | ORT_OP_ATTR_INT
  | ORT_OP_ATTR_INTS
  | ORT_OP_ATTR_FLOAT
  | ORT_OP_ATTR_FLOATS
  | ORT_OP_ATTR_STRING
  | ORT_OP_ATTR_STRINGS
  | ORT_OP_ATTR_GRAPH
  | ORT_OP_ATTR_TENSOR

primrec attr_type_code :: "OrtOpAttrType \<Rightarrow> int" where
  "attr_type_code ORT_OP_ATTR_UNDEFINED = 0"
| "attr_type_code ORT_OP_ATTR_INT = 1"
| "attr_type_code ORT_OP_ATTR_INTS = 2"
| "attr_type_code ORT_OP_ATTR_FLOAT = 3"
| "attr_type_code ORT_OP_ATTR_FLOATS = 4"
| "attr_type_code ORT_OP_ATTR_STRING = 5"
| "attr_type_code ORT_OP_ATTR_STRINGS = 6"
| "attr_type_code ORT_OP_ATTR_GRAPH = 7"
| "attr_type_code ORT_OP_ATTR_TENSOR = 8"

section \<open>Element types of C++\<close>

datatype cxx_type =
    Cxx_float
  | Cxx_Float16
  | Cxx_BFloat16
  | Cxx_double
  | Cxx_int8
  | Cxx_int16
  | Cxx_int32
  | Cxx_int64
  | Cxx_uint8
  | Cxx_uint16
  | Cxx_uint32
  | Cxx_uint64
  | Cxx_bool
  | Cxx_Float8E4M3FN
  | Cxx_Float8E4M3FNUZ
  | Cxx_Float8E5M2
  | Cxx_Float8E5M2FNUZ

primrec TypeToTensorType :: "cxx_type \<Rightarrow> ONNXTensorElementDataType" where
  "TypeToTensorType Cxx_float = ONNX_TENSOR_ELEMENT_DATA_TYPE_FLOAT"
| "TypeToTensorType Cxx_Float16 = ONNX_TENSOR_ELEMENT_DATA_TYPE_FLOAT16"
| "TypeToTensorType Cxx_BFloat16 = ONNX_TENSOR_ELEMENT_DATA_TYPE_BFLOAT16"
| "TypeToTensorType Cxx_double = ONNX_TENSOR_ELEMENT_DATA_TYPE_DOUBLE"
| "TypeToTensorType Cxx_int8 = ONNX_TENSOR_ELEMENT_DATA_TYPE_INT8"
| "TypeToTensorType Cxx_int16 = ONNX_TENSOR_ELEMENT_DATA_TYPE_INT16"
| "TypeToTensorType Cxx_int32 = ONNX_TENSOR_ELEMENT_DATA_TYPE_INT32"
| "TypeToTensorType Cxx_int64 = ONNX_TENSOR_ELEMENT_DATA_TYPE_INT64"
| "TypeToTensorType Cxx_uint8 = ONNX_TENSOR_ELEMENT_DATA_TYPE_UINT8"
| "TypeToTensorType Cxx_uint16 = ONNX_TENSOR_ELEMENT_DATA_TYPE_UINT16"
| "TypeToTensorType Cxx_uint32 = ONNX_TENSOR_ELEMENT_DATA_TYPE_UINT32"
| "TypeToTensorType Cxx_uint64 = ONNX_TENSOR_ELEMENT_DATA_TYPE_UINT64"
| "TypeToTensorType Cxx_bool = ONNX_TENSOR_ELEMENT_DATA_TYPE_BOOL"
| "TypeToTensorType Cxx_Float8E4M3FN = ONNX_TENSOR_ELEMENT_DATA_TYPE_FLOAT8E4M3FN"
| "TypeToTensorType Cxx_Float8E4M3FNUZ = ONNX_TENSOR_ELEMENT_DATA_TYPE_FLOAT8E4M3FNUZ"
| "TypeToTensorType Cxx_Float8E5M2 = ONNX_TENSOR_ELEMENT_DATA_TYPE_FLOAT8E5M2"
| "TypeToTensorType Cxx_Float8E5M2FNUZ = ONNX_TENSOR_ELEMENT_DATA_TYPE_FLOAT8E5M2FNUZ"

text \<open>\<open>sizeof(T)\<close>.\<close>

primrec cxx_sizeof :: "cxx_type \<Rightarrow> nat" where
  "cxx_sizeof Cxx_float = 4"
| "cxx_sizeof Cxx_Float16 = 2"
| "cxx_sizeof Cxx_BFloat16 = 2"
| "cxx_sizeof Cxx_double = 8"
| "cxx_sizeof Cxx_int8 = 1"
| "cxx_sizeof Cxx_int16 = 2"
| "cxx_sizeof Cxx_int32 = 4"
| "cxx_sizeof Cxx_int64 = 8"
| "cxx_sizeof Cxx_uint8 = 1"
| "cxx_sizeof Cxx_uint16 = 2"
| "cxx_sizeof Cxx_uint32 = 4"
| "cxx_sizeof Cxx_uint64 = 8"
| "cxx_sizeof Cxx_bool = 1"
| "cxx_sizeof Cxx_Float8E4M3FN = 1"
| "cxx_sizeof Cxx_Float8E4M3FNUZ = 1"
| "cxx_sizeof Cxx_Float8E5M2 = 1"
| "cxx_sizeof Cxx_Float8E5M2FNUZ = 1"

lemma TypeToTensorType_inj: "TypeToTensorType a = TypeToTensorType b \<Longrightarrow> a = b"
  by (cases a; cases b) simp_all

end
