(* ===== verification/Ort_Base.thy ===== *)
theory Ort_Base imports Ort_Enums begin

text \<open>
  The foundation of the ONNX Runtime C++ wrappers (\<open>onnxruntime_cxx_inline.h\<close>,
  \<open>onnxruntime_cxx_api.h\<close>): the C API as a parameter that answers calls, the events of a run, status
  handling (\<open>ThrowOnError\<close>, \<open>Status\<close>), the ownership class \<open>Base\<close> and the guards that release
  handles when a scope is left. The runtime behind the C API is not in the repository.
\<close>

section \<open>The C API\<close>

text \<open>
  Pointers are addresses, 0 is the null pointer. A call names the API table, the function and its
  input arguments (output parameters are part of the reply). A reply holds the \<open>OrtStatus*\<close> returned
  (for functions that return one) and, by position, the pointers, numbers, C strings, buffers and
  arrays written or returned; a C string may be the null pointer (\<open>None\<close>).
\<close>

type_synonym ptr = nat

datatype table = OrtApi | ModelEditorApi | CompileApi | EpApi

datatype arg =
    Ptr ptr
  | Num int
  | Str string
  | Ptrs "ptr list"
  | Nums "int list"
  | Strs "string option list"

text \<open>An array of C strings none of which is null.\<close>

abbreviation CStrs :: "string list \<Rightarrow> arg" where
  "CStrs xs \<equiv> Strs (map Some xs)"

datatype call = Call table string "arg list"

record reply =
  r_status :: ptr
  r_ptr :: "nat \<Rightarrow> ptr"
  r_num :: "nat \<Rightarrow> int"
  r_str :: "nat \<Rightarrow> string option"
  r_bytes :: "nat \<Rightarrow> string"
  r_ptrs :: "nat \<Rightarrow> ptr list"
  r_nums :: "nat \<Rightarrow> int list"
  r_strs :: "nat \<Rightarrow> string option list"

type_synonym event = "call \<times> reply"

text \<open>The runtime answers a call in its own state \<open>'w\<close>; a run records the events, oldest first.\<close>

type_synonym 'w api = "call \<Rightarrow> 'w \<Rightarrow> reply \<times> 'w"

record 'w ort =
  ort_world :: 'w
  events :: "event list"

definition transact :: "'w api \<Rightarrow> (reply \<Rightarrow> reply) \<Rightarrow> call \<Rightarrow> ('w ort, reply) action" where
  "transact A view c = (\<lambda>s. let (r, w) = A c (ort_world s); r' = view r
     in (Ok r', s\<lparr>ort_world := w, events := events s @ [(c, r')]\<rparr>))"

text \<open>A function that does not return an \<open>OrtStatus*\<close> issues no status.\<close>

definition call_status :: "'w api \<Rightarrow> table \<Rightarrow> string \<Rightarrow> arg list \<Rightarrow> ('w ort, reply) action" where
  "call_status A T n args = transact A id (Call T n args)"

definition call_plain :: "'w api \<Rightarrow> table \<Rightarrow> string \<Rightarrow> arg list \<Rightarrow> ('w ort, reply) action" where
  "call_plain A T n args = transact A (\<lambda>r. r\<lparr>r_status := 0\<rparr>) (Call T n args)"

text \<open>\<open>GetModelEditorApi\<close>, \<open>GetCompileApi\<close>, \<open>GetEpApi\<close>: the table, or an exception in a minimal build.\<close>

definition sub_table :: "'w api \<Rightarrow> string \<Rightarrow> string \<Rightarrow> ('w ort, unit) action" where
  "sub_table A getter msg =
     mbind (call_plain A OrtApi getter []) (\<lambda>r.
     if r_ptr r 0 = 0 then mthrow (OrtException msg (error_code ORT_FAIL)) else mret ())"

definition GetModelEditorApi :: "'w api \<Rightarrow> ('w ort, unit) action" where
  "GetModelEditorApi A = sub_table A ''GetModelEditorApi'' ''Model Editor API is not available in this build''"

definition GetCompileApi :: "'w api \<Rightarrow> ('w ort, unit) action" where
  "GetCompileApi A = sub_table A ''GetCompileApi'' ''Compile API is not available in this build''"

definition GetEpApi :: "'w api \<Rightarrow> ('w ort, unit) action" where
  "GetEpApi A = sub_table A ''GetEpApi'' ''EP API is not available in this build''"

definition GetInteropApi :: "'w api \<Rightarrow> ('w ort, unit) action" where
  "GetInteropApi A = sub_table A ''GetInteropApi'' ''Interop API is not available in this build''"

fun get_table :: "'w api \<Rightarrow> table \<Rightarrow> ('w ort, unit) action" where
  "get_table A OrtApi = mret ()"
| "get_table A ModelEditorApi = GetModelEditorApi A"
| "get_table A CompileApi = GetCompileApi A"
| "get_table A EpApi = GetEpApi A"

text \<open>A call of a function with or without a status result, the table fetched first.\<close>

definition api_call :: "'w api \<Rightarrow> table \<Rightarrow> string \<Rightarrow> arg list \<Rightarrow> ('w ort, reply) action" where
  "api_call A T n args = mthen (get_table A T) (call_status A T n args)"

definition plain :: "'w api \<Rightarrow> table \<Rightarrow> string \<Rightarrow> arg list \<Rightarrow> ('w ort, reply) action" where
  "plain A T n args = mthen (get_table A T) (call_plain A T n args)"

section \<open>Release\<close>

text \<open>
  \<open>ORT_DEFINE_RELEASE\<close> generates \<open>OrtRelease(OrtNAME*)\<close> for the names below, some through another
  table. It runs in destructors, which are \<open>noexcept\<close>: an exception there terminates the process.
\<close>

definition release_names :: "(string \<times> table) list" where
  "release_names =
     map (\<lambda>n. (n, OrtApi))
       [''Allocator'', ''ArenaCfg'', ''CustomOpDomain'', ''DeviceEpIncompatibilityDetails'', ''Env'',
        ''ExternalInitializerInfo'', ''Graph'', ''IoBinding'', ''KernelInfo'', ''KeyValuePairs'',
        ''LoraAdapter'', ''MemoryInfo'', ''MapTypeInfo'', ''Model'', ''ModelMetadata'', ''Node'', ''Op'',
        ''OpAttr'', ''PrepackedWeightsContainer'', ''RunOptions'', ''Session'', ''SessionOptions'',
        ''SequenceTypeInfo'', ''Status'', ''SyncStream'', ''TensorTypeAndShapeInfo'',
        ''ThreadingOptions'', ''TypeInfo'', ''Value'', ''ValueInfo'']
     @ [(''ModelCompilationOptions'', CompileApi)]
     @ map (\<lambda>n. (n, EpApi))
         [''EpDevice'', ''KernelDef'', ''KernelDefBuilder'', ''KernelRegistry'', ''OpSchema'', ''ProfilingEvent'']
     @ [(''TensorRTProviderOptions'', OrtApi), (''CUDAProviderOptions'', OrtApi)]"

definition release_table :: "string \<Rightarrow> table" where
  "release_table k = (case map_of release_names k of None \<Rightarrow> OrtApi | Some T \<Rightarrow> T)"

definition OrtRelease :: "'w api \<Rightarrow> string \<Rightarrow> ptr \<Rightarrow> ('w ort, unit) action" where
  "OrtRelease A k p =
     mcatch (mthen (plain A (release_table k) (''Release'' @ k) [Ptr p]) (mret ()))
       (\<lambda>_. mcrash ''std::terminate'')"

text \<open>
  \<open>scoped A k p body\<close>: \<open>body\<close> runs while a local object owns \<open>p\<close>; the destructor runs on both exits.
  \<open>guarded\<close> is a constructor body: the base class owns \<open>p\<close> and is destroyed only on an exception.
\<close>

definition guarded :: "'w api \<Rightarrow> string \<Rightarrow> ptr \<Rightarrow> ('w ort, 'a) action \<Rightarrow> ('w ort, 'a) action" where
  "guarded A k p body = mcatch body (\<lambda>e. mthen (OrtRelease A k p) (mthrow e))"

definition scoped :: "'w api \<Rightarrow> string \<Rightarrow> ptr \<Rightarrow> ('w ort, 'a) action \<Rightarrow> ('w ort, 'a) action" where
  "scoped A k p body = mbind (guarded A k p body) (\<lambda>x. mthen (OrtRelease A k p) (mret x))"

text \<open>
  Memory of an \<open>OrtAllocator\<close>: \<open>AllocatedFree\<close> goes through the allocator's own \<open>Free\<close> member;
  \<open>with_buffer\<close> is the scope of a \<open>unique_ptr\<close> with that deleter.
\<close>

definition AllocatedFree :: "'w api \<Rightarrow> ptr \<Rightarrow> ptr \<Rightarrow> ('w ort, unit) action" where
  "AllocatedFree A allocator p =
     (if p \<noteq> 0 then mthen (call_plain A OrtApi ''OrtAllocator::Free'' [Ptr allocator, Ptr p]) (mret ()) else mret ())"

definition with_buffer :: "'w api \<Rightarrow> ptr \<Rightarrow> ptr \<Rightarrow> ('w ort, 'a) action \<Rightarrow> ('w ort, 'a) action" where
  "with_buffer A allocator p body =
     mbind (mcatch body (\<lambda>e. mthen (AllocatedFree A allocator p) (mthrow e))) (\<lambda>x.
     mthen (AllocatedFree A allocator p) (mret x))"

text \<open>A loop that collects the results of its iterations.\<close>

fun mmap :: "('b \<Rightarrow> ('s, 'a) action) \<Rightarrow> 'b list \<Rightarrow> ('s, 'a list) action" where
  "mmap f [] = mret []"
| "mmap f (x # xs) = mbind (f x) (\<lambda>y. mbind (mmap f xs) (\<lambda>ys. mret (y # ys)))"

section \<open>Statuses and exceptions\<close>

definition c_string :: "string option \<Rightarrow> ('w ort, string) action" where
  "c_string x = (case x of None \<Rightarrow> mcrash ''std::string(nullptr)'' | Some s \<Rightarrow> mret s)"

definition Status_GetErrorMessage :: "'w api \<Rightarrow> ptr \<Rightarrow> ('w ort, string) action" where
  "Status_GetErrorMessage A p = mbind (plain A OrtApi ''GetErrorMessage'' [Ptr p]) (\<lambda>r. c_string (r_str r 0))"

definition Status_GetErrorCode :: "'w api \<Rightarrow> ptr \<Rightarrow> ('w ort, int) action" where
  "Status_GetErrorCode A p = mbind (plain A OrtApi ''GetErrorCode'' [Ptr p]) (\<lambda>r. mret (r_num r 0))"

definition Status_IsOK :: "ptr \<Rightarrow> bool" where
  "Status_IsOK p = (p = 0)"

definition ThrowStatus :: "'w api \<Rightarrow> ptr \<Rightarrow> ('w ort, 'a) action" where
  "ThrowStatus A st =
     mbind (Status_GetErrorMessage A st) (\<lambda>error_message.
     mbind (Status_GetErrorCode A st) (\<lambda>error_code.
     mthrow (OrtException error_message error_code)))"

text \<open>\<open>ThrowOnError(OrtStatus*)\<close> owns the status, \<open>ThrowOnError(const Status&)\<close> does not.\<close>

definition ThrowOnError :: "'w api \<Rightarrow> ptr \<Rightarrow> ('w ort, unit) action" where
  "ThrowOnError A ort_status =
     (if ort_status \<noteq> 0 then scoped A ''Status'' ort_status (ThrowStatus A ort_status) else mret ())"

definition ThrowOnError_ref :: "'w api \<Rightarrow> ptr \<Rightarrow> ('w ort, unit) action" where
  "ThrowOnError_ref A st = (if \<not> Status_IsOK st then ThrowStatus A st else mret ())"

text \<open>The constructors of \<open>Status\<close>; \<open>Status_of_exn\<close> covers the two that take an exception.\<close>

definition Status_make :: "'w api \<Rightarrow> string \<Rightarrow> int \<Rightarrow> ('w ort, ptr) action" where
  "Status_make A message code = mbind (api_call A OrtApi ''CreateStatus'' [Num code, Str message]) (\<lambda>r. mret (r_status r))"

fun Status_of_exn :: "'w api \<Rightarrow> exn \<Rightarrow> ('w ort, ptr) action" where
  "Status_of_exn A (OrtException m c) = Status_make A (c_str m) c"
| "Status_of_exn A (RuntimeError m) = Status_make A (c_str m) (error_code ORT_FAIL)"
| "Status_of_exn A (JsonError m) = Status_make A (c_str m) (error_code ORT_FAIL)"
| "Status_of_exn A (OutOfRange m) = Status_make A (c_str m) (error_code ORT_FAIL)"
| "Status_of_exn A (CallbackError m) = Status_make A (c_str m) (error_code ORT_FAIL)"
| "Status_of_exn A (LengthError m) = Status_make A (c_str m) (error_code ORT_FAIL)"
| "Status_of_exn A (InvalidArgument m) = Status_make A (c_str m) (error_code ORT_FAIL)"

text \<open>\<open>ThrowOnError(api.n(args))\<close> and the results read from its reply.\<close>

definition checked :: "'w api \<Rightarrow> table \<Rightarrow> string \<Rightarrow> arg list \<Rightarrow> ('w ort, reply) action" where
  "checked A T n args = mbind (api_call A T n args) (\<lambda>r. mthen (ThrowOnError A (r_status r)) (mret r))"

definition do_call :: "'w api \<Rightarrow> table \<Rightarrow> string \<Rightarrow> arg list \<Rightarrow> ('w ort, unit) action" where
  "do_call A T n args = mthen (checked A T n args) (mret ())"

definition get_ptr :: "'w api \<Rightarrow> table \<Rightarrow> string \<Rightarrow> arg list \<Rightarrow> ('w ort, ptr) action" where
  "get_ptr A T n args = mbind (checked A T n args) (\<lambda>r. mret (r_ptr r 0))"

definition get_num :: "'w api \<Rightarrow> table \<Rightarrow> string \<Rightarrow> arg list \<Rightarrow> ('w ort, int) action" where
  "get_num A T n args = mbind (checked A T n args) (\<lambda>r. mret (r_num r 0))"

definition get_bool :: "'w api \<Rightarrow> table \<Rightarrow> string \<Rightarrow> arg list \<Rightarrow> ('w ort, bool) action" where
  "get_bool A T n args = mbind (checked A T n args) (\<lambda>r. mret (r_num r 0 \<noteq> 0))"

definition get_size :: "'w api \<Rightarrow> table \<Rightarrow> string \<Rightarrow> arg list \<Rightarrow> ('w ort, nat) action" where
  "get_size A T n args = mbind (checked A T n args) (\<lambda>r. mret (nat (r_num r 0)))"

text \<open>A \<open>const char*\<close> handed on, and one copied into a \<open>std::string\<close> (undefined when null).\<close>

definition get_cstr :: "'w api \<Rightarrow> table \<Rightarrow> string \<Rightarrow> arg list \<Rightarrow> ('w ort, string option) action" where
  "get_cstr A T n args = mbind (checked A T n args) (\<lambda>r. mret (r_str r 0))"

definition get_string :: "'w api \<Rightarrow> table \<Rightarrow> string \<Rightarrow> arg list \<Rightarrow> ('w ort, string) action" where
  "get_string A T n args = mbind (get_cstr A T n args) c_string"

text \<open>An \<open>AllocatedStringPtr\<close>: the buffer the caller has to free and the string in it.\<close>

definition get_allocated :: "'w api \<Rightarrow> table \<Rightarrow> string \<Rightarrow> arg list \<Rightarrow> ('w ort, ptr \<times> string option) action" where
  "get_allocated A T n args = mbind (checked A T n args) (\<lambda>r. mret (r_ptr r 0, r_str r 0))"

text \<open>An array of handles returned with its count.\<close>

definition get_ptrs :: "'w api \<Rightarrow> table \<Rightarrow> string \<Rightarrow> arg list \<Rightarrow> ('w ort, ptr list) action" where
  "get_ptrs A T n args = mbind (checked A T n args) (\<lambda>r. mret (r_ptrs r 0))"

text \<open>An array of handles the caller allocates for a count it has asked for; no call when it is 0.\<close>

definition fill_ptrs :: "'w api \<Rightarrow> table \<Rightarrow> string \<Rightarrow> arg list \<Rightarrow> nat \<Rightarrow> ('w ort, ptr list) action" where
  "fill_ptrs A T n args num =
     (if num > 0 then mbind (checked A T n (args @ [Num (int num)])) (\<lambda>r. mret (filled num 0 (r_ptrs r 0)))
      else mret [])"

text \<open>\<open>Status{api.n(args)}\<close>: the status is handed to the caller.\<close>

definition as_status :: "'w api \<Rightarrow> table \<Rightarrow> string \<Rightarrow> arg list \<Rightarrow> ('w ort, ptr) action" where
  "as_status A T n args = mbind (api_call A T n args) (\<lambda>r. mret (r_status r))"

text \<open>
  A constructor \<open>ThrowOnError(api.n(args, &p_)); rest\<close>: the base destructor runs when either throws,
  with \<open>p_\<close> still null in the first case. \<open>create\<close> has no further steps.
\<close>

definition construct_with :: "'w api \<Rightarrow> string \<Rightarrow> table \<Rightarrow> string \<Rightarrow> arg list \<Rightarrow> (ptr \<Rightarrow> ('w ort, unit) action)
    \<Rightarrow> ('w ort, ptr) action" where
  "construct_with A k T n args rest =
     mbind (guarded A k 0 (get_ptr A T n args)) (\<lambda>p.
     mthen (guarded A k p (rest p)) (mret p))"

definition create :: "'w api \<Rightarrow> string \<Rightarrow> table \<Rightarrow> string \<Rightarrow> arg list \<Rightarrow> ('w ort, ptr) action" where
  "create A k T n args = construct_with A k T n args (\<lambda>_. mret ())"

text \<open>
  The two-phase retrieval of a string: ask for the size, allocate, fill, drop the terminator.
  \<open>resize(size - 1)\<close> wraps around for size 0 and then throws \<open>std::length_error\<close>.
\<close>

definition two_phase :: "'w api \<Rightarrow> table \<Rightarrow> string \<Rightarrow> arg list \<Rightarrow> ('w ort, string) action" where
  "two_phase A T n args =
     mbind (get_size A T n (args @ [Ptr 0, Num 0])) (\<lambda>size.
     mbind (checked A T n (args @ [Str (replicate size (CHR 0x00)), Num (int size)])) (\<lambda>r.
     if r_num r 0 \<le> 0 then mthrow (LengthError ''basic_string::_M_replace_aux'')
     else mret (filled (nat (r_num r 0) - 1) (CHR 0x00) (filled size (CHR 0x00) (r_bytes r 0)))))"

end
