(* ===== verification/Ort_Settle.thy ===== *)
theory Ort_Settle imports Ort_Base begin

text \<open>
  Accounting of resources. An account reads off a state how many units of each pointer are outstanding;
  \<open>settles w d m f t\<close> says that \<open>m\<close>, started when \<open>d\<close> further units are pending, leaves \<open>f x\<close> pending when
  it returns \<open>x\<close> and \<open>t\<close> when it throws; \<open>keeps\<close>, that it leaves nothing of its own. The rules follow the
  constructors of the monad, so a wrapper is settled by backward chaining. The ledger of a weight is
  the account of the events of a run. The locales \<open>accounting\<close> and \<open>wrapper_account\<close> give the rules for the
  calls and shapes of the wrappers; they are interpreted for \<open>OrtStatus\<close> objects, for buffers of an
  allocator and for every kind of handle.
\<close>

section \<open>Accounts\<close>

type_synonym 's account = "'s \<Rightarrow> ptr \<Rightarrow> int"

definition own :: "ptr \<Rightarrow> ptr \<Rightarrow> int" where
  "own p q = (if p = q \<and> q \<noteq> 0 then 1 else 0)"

definition owns :: "ptr list \<Rightarrow> ptr \<Rightarrow> int" where
  "owns ps q = sum_list (map (\<lambda>p. own p q) ps)"

lemma own_null [simp]: "own 0 = (\<lambda>_. 0)"
  by (rule ext) (auto simp: own_def)

lemma owns_simps [simp]:
  "owns [] q = 0" "owns (p # ps) q = own p q + owns ps q" "owns (ps @ qs) q = owns ps q + owns qs q"
  by (simp_all add: owns_def)

lemma owns_update: "j < length ps \<Longrightarrow> owns (ps[j := p]) q = owns ps q - own (ps ! j) q + own p q"
  by (induction ps arbitrary: j) (auto split: nat.split)

definition settles :: "'s account \<Rightarrow> (ptr \<Rightarrow> int) \<Rightarrow> ('s, 'a) action \<Rightarrow> ('a \<Rightarrow> ptr \<Rightarrow> int) \<Rightarrow> (ptr \<Rightarrow> int) \<Rightarrow> bool" where
  "settles w d m f t \<longleftrightarrow> (\<forall>s. case m s of
       (Ok x, s') \<Rightarrow> \<forall>p. w s' p + d p = w s p + f x p
     | (Throw e, s') \<Rightarrow> \<forall>p. w s' p + d p = w s p + t p
     | (Crash c, s') \<Rightarrow> True)"

abbreviation none :: "ptr \<Rightarrow> int" where
  "none \<equiv> (\<lambda>_. 0)"

definition keeps :: "'s account \<Rightarrow> ('s, 'a) action \<Rightarrow> bool" where
  "keeps w m \<longleftrightarrow> settles w none m (\<lambda>_. none) none"

text \<open>A function that returns a resource: it is all that is pending.\<close>

definition hands_over :: "'s account \<Rightarrow> ('s, ptr) action \<Rightarrow> bool" where
  "hands_over w m \<longleftrightarrow> settles w none m own none"

section \<open>The rules of any account\<close>

named_theorems keeps_intros "actions that leave nothing pending"

lemma settles_Ok: "settles w d m f t \<Longrightarrow> m s = (Ok x, s') \<Longrightarrow> w s' p + d p = w s p + f x p"
  unfolding settles_def by (auto dest!: spec [of _ s])

lemma settles_Throw: "settles w d m f t \<Longrightarrow> m s = (Throw e, s') \<Longrightarrow> w s' p + d p = w s p + t p"
  unfolding settles_def by (auto dest!: spec [of _ s])

lemma settlesI:
  assumes "\<And>s x s' p. m s = (Ok x, s') \<Longrightarrow> w s' p + d p = w s p + f x p"
    and "\<And>s e s' p. m s = (Throw e, s') \<Longrightarrow> w s' p + d p = w s p + t p"
  shows "settles w d m f t"
  unfolding settles_def using assms by (auto split: prod.splits outcome.splits)


lemma settles_ret: "settles w (f x) (mret x) f t"
  by (simp add: settles_def mret_def)

lemma settles_throw: "settles w t (mthrow e) f t"
  by (simp add: settles_def mthrow_def)

lemma settles_crash: "settles w d (mcrash c) f t"
  by (simp add: settles_def mcrash_def)

lemma settles_bind:
  assumes m: "settles w d m f t" and k: "\<And>x. settles w (f x) (k x) g t"
  shows "settles w d (mbind m k) g t"
proof (rule settlesI)
  fix s y s2 p
  assume "mbind m k s = (Ok y, s2)"
  then obtain x s1 where 1: "m s = (Ok x, s1)" and 2: "k x s1 = (Ok y, s2)"
    by (auto simp: mbind_def split: prod.splits outcome.splits)
  from settles_Ok [OF m 1, of p] settles_Ok [OF k 2, of p]
  show "w s2 p + d p = w s p + g y p" by simp
next
  fix s e s2 p
  assume *: "mbind m k s = (Throw e, s2)"
  show "w s2 p + d p = w s p + t p"
  proof (cases "\<exists>x s1. m s = (Ok x, s1)")
    case True
    then obtain x s1 where 1: "m s = (Ok x, s1)" by blast
    with * have 2: "k x s1 = (Throw e, s2)" by (simp add: mbind_def)
    from settles_Ok [OF m 1, of p] settles_Throw [OF k 2, of p] show ?thesis by simp
  next
    case False
    with * have "m s = (Throw e, s2)" by (auto simp: mbind_def split: prod.splits outcome.splits)
    from settles_Throw [OF m this, of p] show ?thesis .
  qed
qed

lemma settles_then: "settles w d m (\<lambda>_. e) t \<Longrightarrow> settles w e k g t \<Longrightarrow> settles w d (mthen m k) g t"
  unfolding mthen_def by (rule settles_bind)

lemma settles_catch:
  assumes m: "settles w d m f t'" and h: "\<And>e. settles w t' (h e) f t"
  shows "settles w d (mcatch m h) f t"
proof -
  have *: "w s2 p + d p = w s p + out"
    if "mcatch m h s = (v, s2)" "\<And>e s1. m s = (Throw e, s1) \<Longrightarrow> h e s1 = (v, s2) \<Longrightarrow> w s2 p + t' p = w s1 p + out"
      "m s = (v, s2) \<Longrightarrow> w s2 p + d p = w s p + out" for s v s2 p out
  proof (cases "\<exists>e s1. m s = (Throw e, s1)")
    case True
    then obtain e s1 where 1: "m s = (Throw e, s1)" by blast
    with that(1) have "h e s1 = (v, s2)" by (simp add: mcatch_def)
    from that(2) [OF 1 this] settles_Throw [OF m 1, of p] show ?thesis by simp
  next
    case False
    with that(1) have "m s = (v, s2)" by (auto simp: mcatch_def split: prod.splits outcome.splits)
    then show ?thesis by (rule that(3))
  qed
  show ?thesis
  proof (rule settlesI)
    fix s x s2 p assume "mcatch m h s = (Ok x, s2)"
    then show "w s2 p + d p = w s p + f x p"
      by (rule *) (rule settles_Ok [OF h], assumption, rule settles_Ok [OF m])
  next
    fix s e s2 p assume a: "mcatch m h s = (Throw e, s2)"
    have "m s \<noteq> (Throw e, s2) \<or> h e s2 = (Throw e, s2)"
      using a by (auto simp: mcatch_def)
    with a show "w s2 p + d p = w s p + t p"
      by (cases "m s = (Throw e, s2)")
        (use settles_Throw [OF m, of s e s2 p] settles_Throw [OF h, of e s2 e s2 p] in simp,
         use * [OF a, where out = "t p"] settles_Throw [OF h] in blast)
  qed
qed

lemma settles_if: "(b \<Longrightarrow> settles w d m f t) \<Longrightarrow> (\<not> b \<Longrightarrow> settles w d k f t) \<Longrightarrow> settles w d (if b then m else k) f t"
  by simp

lemma settles_case_option:
  "(x = None \<Longrightarrow> settles w d m f t) \<Longrightarrow> (\<And>y. x = Some y \<Longrightarrow> settles w d (k y) f t)
    \<Longrightarrow> settles w d (case x of None \<Rightarrow> m | Some y \<Rightarrow> k y) f t"
  by (cases x) auto

text \<open>More may be pending from outside.\<close>

lemma settles_frame:
  assumes "settles w d m f t"
  shows "settles w (\<lambda>p. d p + a p) m (\<lambda>x p. f x p + a p) (\<lambda>p. t p + a p)"
  by (rule settlesI) (auto dest: settles_Ok [OF assms] settles_Throw [OF assms] simp: add.assoc [symmetric])

lemma keeps_settles: "keeps w m \<Longrightarrow> settles w d m (\<lambda>_. d) d"
  using settles_frame [of w none m "\<lambda>_. none" none d] by (simp add: keeps_def)

lemma keeps_ret [keeps_intros]: "keeps w (mret x)"
  by (simp add: keeps_def settles_def mret_def)

lemma keeps_throw [keeps_intros]: "keeps w (mthrow e)"
  by (simp add: keeps_def settles_def mthrow_def)

lemma keeps_crash [keeps_intros]: "keeps w (mcrash c)"
  by (simp add: keeps_def settles_def mcrash_def)

lemma keeps_bind [keeps_intros]: "keeps w m \<Longrightarrow> (\<And>x. keeps w (k x)) \<Longrightarrow> keeps w (mbind m k)"
  unfolding keeps_def by (rule settles_bind)

lemma keeps_then [keeps_intros]: "keeps w m \<Longrightarrow> keeps w k \<Longrightarrow> keeps w (mthen m k)"
  unfolding keeps_def by (rule settles_then)

lemma keeps_catch [keeps_intros]: "keeps w m \<Longrightarrow> (\<And>e. keeps w (h e)) \<Longrightarrow> keeps w (mcatch m h)"
  unfolding keeps_def by (rule settles_catch)

lemma keeps_if [keeps_intros]: "(b \<Longrightarrow> keeps w m) \<Longrightarrow> (\<not> b \<Longrightarrow> keeps w k) \<Longrightarrow> keeps w (if b then m else k)"
  by simp

lemma keeps_case_option [keeps_intros]:
  "keeps w m \<Longrightarrow> (\<And>y. keeps w (k y)) \<Longrightarrow> keeps w (case x of None \<Rightarrow> m | Some y \<Rightarrow> k y)"
  by (cases x) auto

lemma keeps_case_prod [keeps_intros]: "(\<And>a b. keeps w (k a b)) \<Longrightarrow> keeps w (case x of (a, b) \<Rightarrow> k a b)"
  by (cases x) auto

lemma keeps_let [keeps_intros]: "keeps w (k x) \<Longrightarrow> keeps w (let y = x in k y)"
  by simp

lemma keeps_mmap [keeps_intros]: "(\<And>x. keeps w (f x)) \<Longrightarrow> keeps w (mmap f xs)"
  by (induction xs) (auto intro!: keeps_ret keeps_bind)

lemma hands_over_null: "hands_over w (mret 0)"
  by (simp add: hands_over_def settles_def mret_def)

lemma hands_over_bind: "keeps w m \<Longrightarrow> (\<And>x. hands_over w (k x)) \<Longrightarrow> hands_over w (mbind m k)"
  unfolding hands_over_def keeps_def by (rule settles_bind)

lemma hands_over_throw: "hands_over w (mthrow e)"
  by (simp add: hands_over_def settles_def mthrow_def)


section \<open>Ledgers\<close>

type_synonym weight = "event \<Rightarrow> ptr \<Rightarrow> int"

definition balance :: "weight \<Rightarrow> event list \<Rightarrow> ptr \<Rightarrow> int" where
  "balance w es p = sum_list (map (\<lambda>e. w e p) es)"

definition ledger :: "weight \<Rightarrow> 'w ort account" where
  "ledger w s p = balance w (events s) p"

locale accounting =
  fixes w :: weight
  assumes weight_null: "w e 0 = 0"
begin

lemma balance_null [simp]: "balance w es 0 = 0"
  by (induction es) (simp_all add: balance_def weight_null)

lemma balance_snoc: "balance w (es @ [e]) p = balance w es p + w e p"
  by (simp add: balance_def)

text \<open>The reply recorded is the one returned, so a fact of every reply may be used.\<close>

lemma settles_transact_view:
  assumes "\<And>r p. w (c, v r) p + d p = f (v r) p"
  shows "settles (ledger w) d (transact A v c) f t"
  using assms
  by (auto simp: settles_def ledger_def transact_def balance_snoc Let_def add.assoc split: prod.splits)

lemma keeps_transact:
  assumes "\<And>r p. w (c, v r) p = 0" shows "keeps (ledger w) (transact A v c)"
  unfolding keeps_def by (rule settles_transact_view) (simp add: assms)

end

section \<open>The account of statuses\<close>

text \<open>Statuses: issued by the calls that return one, given back by \<open>ReleaseStatus\<close>.\<close>

definition status_weight :: weight where
  "status_weight e p = (if p = 0 then 0 else (if r_status (snd e) = p then 1 else 0)
     - (if fst e = Call OrtApi ''ReleaseStatus'' [Ptr p] then 1 else 0))"

abbreviation statuses :: "'w ort account" where
  "statuses \<equiv> ledger status_weight"

interpretation status: accounting status_weight
  by unfold_locales (simp add: status_weight_def)

lemma settles_call_status:
  assumes "n \<noteq> ''ReleaseStatus''"
  shows "settles statuses none (call_status A T n args) (\<lambda>r. own (r_status r)) t"
  unfolding call_status_def
  by (rule status.settles_transact_view) (use assms in \<open>simp add: status_weight_def own_def\<close>)

lemma keeps_call_plain:
  assumes "n \<noteq> ''ReleaseStatus''"
  shows "keeps statuses (call_plain A T n args)"
  unfolding call_plain_def
  by (rule status.keeps_transact) (use assms in \<open>simp add: status_weight_def\<close>)

lemma settles_release_status:
  "settles statuses (own p) (call_plain A OrtApi ''ReleaseStatus'' [Ptr p]) (\<lambda>_. none) t"
  unfolding call_plain_def
  by (rule status.settles_transact_view) (auto simp: status_weight_def own_def)

lemma keeps_sub_table: "g \<noteq> ''ReleaseStatus'' \<Longrightarrow> keeps statuses (sub_table A g msg)"
  unfolding sub_table_def by (intro keeps_intros keeps_call_plain)

lemma keeps_get_table [keeps_intros]: "keeps statuses (get_table A T)"
  by (cases T) (auto simp: GetModelEditorApi_def GetCompileApi_def GetEpApi_def
      intro!: keeps_ret keeps_sub_table)

lemma keeps_status_plain: "n \<noteq> ''ReleaseStatus'' \<Longrightarrow> keeps statuses (plain A T n args)"
  unfolding plain_def by (intro keeps_intros keeps_call_plain)

lemma settles_api_call:
  assumes "n \<noteq> ''ReleaseStatus''"
  shows "settles statuses none (api_call A T n args) (\<lambda>r. own (r_status r)) none"
  unfolding api_call_def
  by (intro settles_then [OF keeps_get_table [unfolded keeps_def]] settles_call_status assms)

text \<open>Destructors.\<close>

lemma keeps_OrtRelease:
  assumes "k \<noteq> ''Status''" shows "keeps statuses (OrtRelease A k p)"
  unfolding OrtRelease_def using assms by (intro keeps_intros keeps_status_plain) simp

lemma settles_OrtRelease_Status: "settles statuses (own p) (OrtRelease A ''Status'' p) (\<lambda>_. none) none"
proof -
  have T: "release_table ''Status'' = OrtApi" by code_simp
  have "settles statuses (own p) (mthen (plain A OrtApi ''ReleaseStatus'' [Ptr p]) (mret ())) (\<lambda>_. none) none"
    unfolding plain_def get_table.simps
    by (intro settles_then [where e = none] settles_then [where e = "own p"] settles_release_status settles_ret)
  then show ?thesis
    unfolding OrtRelease_def T by (auto intro: settles_catch settles_crash)
qed

lemma keeps_scoped:
  assumes "k \<noteq> ''Status''" "keeps statuses m" shows "keeps statuses (scoped A k p m)"
  unfolding scoped_def guarded_def by (intro keeps_intros keeps_OrtRelease assms)

lemma keeps_guarded:
  assumes "k \<noteq> ''Status''" "keeps statuses m" shows "keeps statuses (guarded A k p m)"
  unfolding guarded_def by (intro keeps_intros keeps_OrtRelease assms)

text \<open>A status object of a scope: what the body does with it is settled by the destructor.\<close>

lemma settles_scoped_Status:
  assumes "keeps statuses m"
  shows "settles statuses (own p) (scoped A ''Status'' p m) (\<lambda>_. none) none"
proof -
  have "settles statuses (own p) (guarded A ''Status'' p m) (\<lambda>_. own p) none"
    unfolding guarded_def
    by (rule settles_catch [OF keeps_settles [OF assms]])
      (intro settles_then [OF settles_OrtRelease_Status] settles_throw)
  then show ?thesis
    unfolding scoped_def
    by (intro settles_bind) (auto intro: settles_then [OF settles_OrtRelease_Status] settles_ret)
qed

lemma keeps_status_c_string [keeps_intros]: "keeps statuses (c_string x)"
  unfolding c_string_def by (intro keeps_intros)

lemma keeps_GetErrorMessage [keeps_intros]: "keeps statuses (Status_GetErrorMessage A p)"
  unfolding Status_GetErrorMessage_def by (intro keeps_intros keeps_status_plain) simp

lemma keeps_GetErrorCode [keeps_intros]: "keeps statuses (Status_GetErrorCode A p)"
  unfolding Status_GetErrorCode_def by (intro keeps_intros keeps_status_plain) simp

lemma keeps_ThrowStatus [keeps_intros]: "keeps statuses (ThrowStatus A p)"
  unfolding ThrowStatus_def by (intro keeps_intros)

lemma settles_ThrowOnError: "settles statuses (own p) (ThrowOnError A p) (\<lambda>_. none) none"
  unfolding ThrowOnError_def
  by (cases "p = 0") (auto intro: settles_scoped_Status keeps_ThrowStatus settles_ret)

lemma keeps_ThrowOnError_ref [keeps_intros]: "keeps statuses (ThrowOnError_ref A p)"
  unfolding ThrowOnError_ref_def by (intro keeps_intros)

lemma keeps_status_checked:
  assumes "n \<noteq> ''ReleaseStatus''" shows "keeps statuses (checked A T n args)"
  unfolding checked_def keeps_def
  by (rule settles_bind [OF settles_api_call [OF assms]], rule settles_then [OF settles_ThrowOnError], rule settles_ret)

lemma hands_over_as_status: "n \<noteq> ''ReleaseStatus'' \<Longrightarrow> hands_over statuses (as_status A T n args)"
  unfolding as_status_def hands_over_def by (rule settles_bind [OF settles_api_call]) (auto intro: settles_ret)

lemma hands_over_make: "hands_over statuses (Status_make A msg code)"
  unfolding Status_make_def hands_over_def by (rule settles_bind [OF settles_api_call]) (auto intro: settles_ret)

section \<open>The shapes of wrappers\<close>

lemma keeps_do_call: "n \<noteq> ''ReleaseStatus'' \<Longrightarrow> keeps statuses (do_call A T n args)"
  unfolding do_call_def by (intro keeps_intros keeps_status_checked)

lemma keeps_get:
  assumes "n \<noteq> ''ReleaseStatus''"
  shows "keeps statuses (get_ptr A T n args)" "keeps statuses (get_num A T n args)" "keeps statuses (get_bool A T n args)"
    "keeps statuses (get_size A T n args)" "keeps statuses (get_cstr A T n args)" "keeps statuses (get_string A T n args)"
    "keeps statuses (get_ptrs A T n args)" "keeps statuses (get_allocated A T n args)" "keeps statuses (fill_ptrs A T n args num)" "keeps statuses (two_phase A T n args)"
  unfolding get_ptr_def get_num_def get_bool_def get_size_def get_cstr_def get_string_def get_ptrs_def get_allocated_def
    fill_ptrs_def two_phase_def
  by (intro keeps_intros keeps_status_checked assms)+

lemma keeps_construct_with:
  assumes "n \<noteq> ''ReleaseStatus''" "k \<noteq> ''Status''" "\<And>p. keeps statuses (rest p)"
  shows "keeps statuses (construct_with A k T n args rest)"
  unfolding construct_with_def by (intro keeps_intros keeps_guarded keeps_get assms)

lemma keeps_create: "n \<noteq> ''ReleaseStatus'' \<Longrightarrow> k \<noteq> ''Status'' \<Longrightarrow> keeps statuses (create A k T n args)"
  unfolding create_def by (intro keeps_construct_with keeps_ret)

lemmas keeps_shapes = keeps_do_call keeps_get keeps_create keeps_construct_with keeps_status_plain
  keeps_status_checked keeps_scoped keeps_guarded keeps_OrtRelease

section \<open>Other resources\<close>

definition neutral :: "weight \<Rightarrow> string \<Rightarrow> bool" where
  "neutral w n \<longleftrightarrow> (\<forall>T args r p. w (Call T n args, r) p = 0)"

text \<open>A call that hands out its first pointer when it succeeds; a release function that takes it back.\<close>

definition grants :: "weight \<Rightarrow> string \<Rightarrow> bool" where
  "grants w n \<longleftrightarrow> (\<forall>T args r p. w (Call T n args, r) p = (if r_status r = 0 then own (r_ptr r 0) p else 0))"

definition redeems :: "weight \<Rightarrow> string \<Rightarrow> bool" where
  "redeems w k \<longleftrightarrow> (\<forall>T p r q. w (Call T (''Release'' @ k) [Ptr p], r) q = - own p q)"

lemma mbind_OkE:
  assumes "mbind m k s = (Ok x, t)" obtains y u where "m s = (Ok y, u)" "k y u = (Ok x, t)"
  using assms by (auto simp: mbind_def split: prod.splits outcome.splits)

lemma mthen_OkE:
  assumes "mthen m k s = (Ok x, t)" obtains y u where "m s = (Ok y, u)" "k u = (Ok x, t)"
  using assms unfolding mthen_def by (rule mbind_OkE)

lemma mcatch_OkE:
  assumes "mcatch m h s = (Ok x, t)"
  obtains "m s = (Ok x, t)" | e u where "m s = (Throw e, u)" "h e u = (Ok x, t)"
  using assms by (auto simp: mcatch_def split: prod.splits outcome.splits)

lemma mthrow_Ok [simp]: "mthrow e s \<noteq> (Ok x, t)"
  by (simp add: mthrow_def)

lemma ThrowStatus_throws: "ThrowStatus A p s \<noteq> (Ok x, t)"
  by (auto simp: ThrowStatus_def elim!: mbind_OkE)

lemma ThrowOnError_returns:
  assumes "ThrowOnError A p s = (Ok x, t)" shows "p = 0 \<and> t = s"
proof (cases "p = 0")
  case True
  with assms show ?thesis by (simp add: ThrowOnError_def mret_def)
next
  case False
  with assms have False
    unfolding ThrowOnError_def scoped_def guarded_def
    by (auto elim!: mbind_OkE mcatch_OkE mthen_OkE simp: ThrowStatus_throws)
  then show ?thesis ..
qed

text \<open>
  The shapes of wrappers under any account that the calls of the error handling and of the table lookup
  leave alone: a wrapper of a call that leaves it alone does so, too.
\<close>

definition calls_keep :: "'w ort account \<Rightarrow> string \<Rightarrow> bool" where
  "calls_keep a n \<longleftrightarrow> (\<forall>A T args. keeps a (call_plain A T n args) \<and> keeps a (call_status A T n args))"

definition base_calls :: "string list" where
  "base_calls = [''GetModelEditorApi'', ''GetCompileApi'', ''GetEpApi'', ''GetErrorMessage'', ''GetErrorCode'',
     ''ReleaseStatus'', ''CreateStatus'']"

locale call_account =
  fixes a :: "'w ort account"
  assumes base: "n \<in> set base_calls \<Longrightarrow> calls_keep a n"
begin

lemma keeps_call: "calls_keep a n \<Longrightarrow> keeps a (call_plain A T n args)" "calls_keep a n \<Longrightarrow> keeps a (call_status A T n args)"
  by (simp_all add: calls_keep_def)

lemma keeps_table: "keeps a (get_table A T)"
  by (cases T) (auto simp: GetModelEditorApi_def GetCompileApi_def GetEpApi_def sub_table_def base_calls_def
      intro!: keeps_intros keeps_call base)

lemma keeps_plain: "calls_keep a n \<Longrightarrow> keeps a (plain A T n args)"
  unfolding plain_def by (intro keeps_intros keeps_call keeps_table)

lemma keeps_api_call: "calls_keep a n \<Longrightarrow> keeps a (api_call A T n args)"
  unfolding api_call_def by (intro keeps_intros keeps_call keeps_table)

lemma keeps_c_string: "keeps a (c_string x)"
  unfolding c_string_def by (intro keeps_intros)

lemma keeps_release: "calls_keep a (''Release'' @ k) \<Longrightarrow> keeps a (OrtRelease A k p)"
  unfolding OrtRelease_def by (intro keeps_intros keeps_plain)

lemma keeps_error_access:
  "keeps a (Status_GetErrorMessage A p)" "keeps a (Status_GetErrorCode A p)"
  "keeps a (OrtRelease A ''Status'' p)" "keeps a (Status_make A msg code)"
  unfolding Status_GetErrorMessage_def Status_GetErrorCode_def Status_make_def
  by (intro keeps_intros keeps_plain keeps_api_call keeps_release keeps_c_string base; simp add: base_calls_def)+

lemma keeps_ThrowOnError: "keeps a (ThrowOnError A p)"
  unfolding ThrowOnError_def scoped_def guarded_def ThrowStatus_def
  by (intro keeps_intros keeps_error_access)

lemma keeps_checked: "calls_keep a n \<Longrightarrow> keeps a (checked A T n args)"
  unfolding checked_def by (intro keeps_intros keeps_ThrowOnError keeps_api_call)

lemma keeps_neutral:
  assumes "calls_keep a n"
  shows "keeps a (do_call A T n args)" "keeps a (get_ptr A T n args)"
    "keeps a (get_num A T n args)" "keeps a (get_bool A T n args)"
    "keeps a (get_size A T n args)" "keeps a (get_cstr A T n args)"
    "keeps a (get_string A T n args)" "keeps a (get_allocated A T n args)"
    "keeps a (get_ptrs A T n args)" "keeps a (fill_ptrs A T n args num)"
    "keeps a (two_phase A T n args)" "keeps a (as_status A T n args)"
  unfolding do_call_def get_ptr_def get_num_def get_bool_def get_size_def get_cstr_def get_string_def
    get_allocated_def get_ptrs_def fill_ptrs_def two_phase_def as_status_def
  by (intro keeps_intros keeps_checked keeps_api_call keeps_c_string assms)+

lemma keeps_scope:
  assumes "calls_keep a (''Release'' @ k)" "keeps a m"
  shows "keeps a (guarded A k p m)" "keeps a (scoped A k p m)"
  unfolding scoped_def guarded_def by (intro keeps_intros keeps_release assms)+

lemma keeps_construct:
  assumes "calls_keep a (''Release'' @ k)" "calls_keep a n" "\<And>p. keeps a (rest p)"
  shows "keeps a (construct_with A k T n args rest)" "keeps a (create A k T n args)"
  unfolding create_def construct_with_def
  by (intro keeps_intros keeps_scope keeps_neutral assms)+

end

text \<open>Ledgers: a weight that is zero on the base calls.\<close>

locale wrapper_account = accounting +
  assumes base: "n \<in> set base_calls \<Longrightarrow> neutral w n"
begin

lemma neutral_keeps: "neutral w n \<Longrightarrow> calls_keep (ledger w) n"
  unfolding calls_keep_def call_plain_def call_status_def
  by (intro allI conjI keeps_transact) (simp_all add: neutral_def)

lemma books: "call_account (ledger w)"
  by unfold_locales (intro neutral_keeps base)

lemmas keeps_table = call_account.keeps_table [OF books]
lemmas keeps_call = call_account.keeps_call [OF books neutral_keeps]
lemmas keeps_plain = call_account.keeps_plain [OF books neutral_keeps]
lemmas keeps_api_call = call_account.keeps_api_call [OF books neutral_keeps]
lemmas keeps_release = call_account.keeps_release [OF books neutral_keeps]
lemmas keeps_ThrowOnError = call_account.keeps_ThrowOnError [OF books]
lemmas keeps_checked = call_account.keeps_checked [OF books neutral_keeps]
lemmas keeps_neutral = call_account.keeps_neutral [OF books neutral_keeps]
lemmas keeps_construct = call_account.keeps_construct [OF books neutral_keeps neutral_keeps]

text \<open>A granting call leaves its handle pending when it succeeds, nothing when it fails.\<close>

lemma settles_checked_grant:
  assumes "grants w n"
  shows "settles (ledger w) none (checked A T n args) (\<lambda>r. own (r_ptr r 0)) none"
proof -
  have call: "settles (ledger w) none (api_call A T n args)
      (\<lambda>r. if r_status r = 0 then own (r_ptr r 0) else none) none"
    unfolding api_call_def call_status_def
    by (intro settles_then [OF keeps_table [unfolded keeps_def]] settles_transact_view)
      (use assms in \<open>auto simp: grants_def\<close>)
  have failed: "settles (ledger w) none (mthen (ThrowOnError A p) (mret r)) (\<lambda>r. own (r_ptr r 0)) none"
    if "p \<noteq> 0" for p and r :: reply
  proof (rule settlesI)
    fix s x s' q
    assume "mthen (ThrowOnError A p) (mret r) s = (Ok x, s')"
    with that show "ledger w s' q + none q = ledger w s q + own (r_ptr x 0) q"
      by (auto elim!: mthen_OkE dest: ThrowOnError_returns)
  next
    fix s e s' q
    assume "mthen (ThrowOnError A p) (mret r) s = (Throw e, s')"
    moreover have "keeps (ledger w) (mthen (ThrowOnError A p) (mret r))"
      by (intro keeps_intros keeps_ThrowOnError)
    ultimately show "ledger w s' q + none q = ledger w s q + none q"
      unfolding keeps_def by (rule settles_Throw [rotated])
  qed
  show ?thesis
    unfolding checked_def
  proof (rule settles_bind [OF call])
    fix r :: reply
    show "settles (ledger w) (if r_status r = 0 then own (r_ptr r 0) else none)
        (mthen (ThrowOnError A (r_status r)) (mret r)) (\<lambda>r. own (r_ptr r 0)) none"
      using failed [of "r_status r" r]
      by (cases "r_status r = 0") (auto simp: ThrowOnError_def mthen_def
          intro!: settles_bind [where f = "\<lambda>_. own (r_ptr r 0)"] settles_ret)
  qed
qed

lemma hands_over_grant: "grants w n \<Longrightarrow> hands_over (ledger w) (get_ptr A T n args)"
  unfolding hands_over_def get_ptr_def
  by (rule settles_bind [OF settles_checked_grant]) (assumption, rule settles_ret [where f = own])

lemma settles_allocated:
  "grants w n \<Longrightarrow> settles (ledger w) none (get_allocated A T n args) (\<lambda>x. own (fst x)) none"
  unfolding get_allocated_def
  by (rule settles_bind [OF settles_checked_grant], assumption) (auto intro: settles_ret simp: settles_def mret_def)

lemma settles_release:
  assumes "redeems w k" shows "settles (ledger w) (own p) (OrtRelease A k p) (\<lambda>_. none) none"
proof -
  have "settles (ledger w) (own p) (plain A T (''Release'' @ k) [Ptr p]) (\<lambda>_. none) (own p)" for T
    unfolding plain_def call_plain_def
    by (rule settles_then [OF keeps_settles [OF keeps_table]], rule settles_transact_view)
      (use assms in \<open>simp add: redeems_def\<close>)
  then show ?thesis
    unfolding OrtRelease_def
    by (intro settles_catch [where t' = "own p"] settles_then [where e = none] settles_crash)
      (simp_all add: settles_def mret_def)
qed

lemma settles_guarded:
  assumes "redeems w k" "settles (ledger w) (own p) m f (own p)"
  shows "settles (ledger w) (own p) (guarded A k p m) f none"
  unfolding guarded_def
  by (intro settles_catch [OF assms(2)] settles_then [OF settles_release [OF assms(1)]] settles_throw)

lemma settles_scoped:
  assumes "redeems w k" "keeps (ledger w) m"
  shows "settles (ledger w) (own p) (scoped A k p m) (\<lambda>_. none) none"
  unfolding scoped_def
  by (rule settles_bind [OF settles_guarded [OF assms(1) keeps_settles [OF assms(2)]]])
    (intro settles_then [OF settles_release [OF assms(1)]] settles_ret)

lemma hands_over_construct:
  assumes "grants w n" "redeems w k" "\<And>p. keeps (ledger w) (rest p)"
  shows "hands_over (ledger w) (construct_with A k T n args rest)"
proof -
  have "settles (ledger w) none (guarded A k 0 (get_ptr A T n args)) own none"
    using settles_guarded [OF assms(2), of 0 "get_ptr A T n args" own A]
      hands_over_grant [OF assms(1), of A T args]
    by (simp add: hands_over_def)
  moreover have "settles (ledger w) (own p) (mthen (guarded A k p (rest p)) (mret p)) own none" for p
    by (intro settles_then [OF settles_guarded [OF assms(2) keeps_settles [OF assms(3)]]] settles_ret)
  ultimately show ?thesis
    unfolding hands_over_def construct_with_def by (rule settles_bind)
qed

lemma hands_over_create:
  "grants w n \<Longrightarrow> redeems w k \<Longrightarrow> hands_over (ledger w) (create A k T n args)"
  unfolding create_def by (intro hands_over_construct keeps_ret)

end

section \<open>The account of buffers\<close>

text \<open>Buffers: handed out by these calls when they succeed, given back through either way of freeing.\<close>

definition buffer_calls :: "string list" where
  "buffer_calls = [''SessionGetInputName'', ''SessionGetOutputName'', ''SessionGetOverridableInitializerName'',
     ''SessionEndProfiling'', ''ModelMetadataGetProducerName'', ''GetTensorRTProviderOptionsAsString'',
     ''GetCUDAProviderOptionsAsString'']"

fun buffer_weight :: weight where
  "buffer_weight (Call T n args, r) p =
     (if n \<in> set buffer_calls \<and> r_status r = 0 then own (r_ptr r 0) p else 0)
     - (if n = ''AllocatorFree'' \<or> n = ''OrtAllocator::Free''
        then (case args of [a, Ptr q] \<Rightarrow> own q p | _ \<Rightarrow> 0) else 0)"

abbreviation buffers :: "'w ort account" where
  "buffers \<equiv> ledger buffer_weight"

lemma own_at_null [simp]: "own p 0 = 0"
  by (simp add: own_def)

lemma buffer_neutral:
  "n \<notin> set buffer_calls \<Longrightarrow> n \<noteq> ''AllocatorFree'' \<Longrightarrow> n \<noteq> ''OrtAllocator::Free'' \<Longrightarrow> neutral buffer_weight n"
  by (simp add: neutral_def)

lemma buffer_grants: "n \<in> set buffer_calls \<Longrightarrow> grants buffer_weight n"
  by (auto simp: grants_def buffer_calls_def)

interpretation buffer: wrapper_account buffer_weight
proof unfold_locales
  show "buffer_weight e 0 = 0" for e
    by (cases "(e, 0 :: nat)" rule: buffer_weight.cases) (auto split: list.splits arg.splits)
  show "neutral buffer_weight n" if "n \<in> set base_calls" for n
    using that by (intro buffer_neutral) (auto simp: base_calls_def buffer_calls_def)
qed

lemma settles_AllocatedFree: "settles buffers (own p) (AllocatedFree A allocator p) (\<lambda>_. none) t"
proof (cases "p = 0")
  case True
  then show ?thesis by (simp add: AllocatedFree_def settles_def mret_def)
next
  case False
  have "settles buffers (own p) (call_plain A OrtApi ''OrtAllocator::Free'' [Ptr allocator, Ptr p]) (\<lambda>_. none) t"
    unfolding call_plain_def by (rule buffer.settles_transact_view) (simp add: buffer_calls_def)
  then show ?thesis
    using False by (auto simp: AllocatedFree_def intro!: settles_then settles_ret)
qed

lemma settles_with_buffer:
  assumes "keeps buffers m"
  shows "settles buffers (own p) (with_buffer A allocator p m) (\<lambda>_. none) none"
  unfolding with_buffer_def
  by (rule settles_bind [where f = "\<lambda>_. own p"])
    (auto intro: settles_catch [OF keeps_settles [OF assms]] settles_then [OF settles_AllocatedFree]
      settles_throw settles_ret)

lemma settles_AllocatorFree:
  "settles buffers (own p) (do_call A OrtApi ''AllocatorFree'' [Ptr allocator, Ptr p]) (\<lambda>_. none) none"
proof -
  have "settles buffers (own p) (api_call A OrtApi ''AllocatorFree'' [Ptr allocator, Ptr p]) (\<lambda>_. none) none"
    unfolding api_call_def call_status_def get_table.simps
    by (intro settles_then [where e = "own p"] settles_ret buffer.settles_transact_view)
      (simp add: buffer_calls_def)
  then show ?thesis
    unfolding do_call_def checked_def
    by (intro settles_then [where e = none] settles_bind [where f = "\<lambda>_. none"]
        buffer.keeps_ThrowOnError [unfolded keeps_def] settles_ret)
qed

lemma keeps_status_AllocatedFree [keeps_intros]: "keeps statuses (AllocatedFree A allocator p)"
  unfolding AllocatedFree_def by (intro keeps_intros keeps_call_plain) simp

lemma keeps_status_with_buffer [keeps_intros]:
  "keeps statuses m \<Longrightarrow> keeps statuses (with_buffer A allocator p m)"
  unfolding with_buffer_def by (intro keeps_intros)

section \<open>The accounts of handles\<close>

text \<open>
  A kind of handle: the calls that hand one out as their first output, and its release function. \<open>Run\<close>
  hands out the values it writes into the output array.
\<close>

datatype kind = KValue | KSession | KSessionOptions | KRunOptions | KTensorInfo | KTypeInfo | KValueInfo
  | KMemoryInfo | KEnv

primrec kind_name :: "kind \<Rightarrow> string" where
  "kind_name KValue = ''Value''"
| "kind_name KSession = ''Session''"
| "kind_name KSessionOptions = ''SessionOptions''"
| "kind_name KRunOptions = ''RunOptions''"
| "kind_name KTensorInfo = ''TensorTypeAndShapeInfo''"
| "kind_name KTypeInfo = ''TypeInfo''"
| "kind_name KValueInfo = ''ValueInfo''"
| "kind_name KMemoryInfo = ''MemoryInfo''"
| "kind_name KEnv = ''Env''"

primrec creators :: "kind \<Rightarrow> string list" where
  "creators KValue = [''CreateTensorWithDataAsOrtValue'', ''CreateTensorWithDataAndDeleterAsOrtValue'',
     ''CreateTensorAsOrtValue'', ''CreateSparseTensorWithValuesAsOrtValue'', ''CreateSparseTensorAsOrtValue'',
     ''CreateValue'', ''CreateOpaqueValue'', ''GetValue'']"
| "creators KSession = [''CreateSession'', ''CreateSessionWithPrepackedWeightsContainer'', ''CreateSessionFromArray'',
     ''CreateSessionFromArrayWithPrepackedWeightsContainer'', ''CreateSessionFromModel'',
     ''CreateModelEditorSession'', ''CreateModelEditorSessionFromArray'']"
| "creators KSessionOptions = [''CreateSessionOptions'', ''CloneSessionOptions'']"
| "creators KRunOptions = [''CreateRunOptions'']"
| "creators KTensorInfo = [''CreateTensorTypeAndShapeInfo'', ''GetTensorTypeAndShape'',
     ''GetSparseTensorValuesTypeAndShape'', ''GetSparseTensorIndicesTypeShape'']"
| "creators KTypeInfo = [''SessionGetInputTypeInfo'', ''SessionGetOutputTypeInfo'',
     ''SessionGetOverridableInitializerTypeInfo'', ''CreateTensorTypeInfo'', ''CreateSparseTensorTypeInfo'',
     ''CreateSequenceTypeInfo'', ''CreateMapTypeInfo'', ''CreateOptionalTypeInfo'', ''GetTypeInfo'']"
| "creators KValueInfo = [''CreateValueInfo'']"
| "creators KMemoryInfo = [''CreateMemoryInfo'', ''CreateMemoryInfo_V2'', ''CreateCpuMemoryInfo'']"
| "creators KEnv = [''CreateEnv'', ''CreateEnvWithCustomLogger'', ''CreateEnvWithGlobalThreadPools'',
     ''CreateEnvWithCustomLoggerAndGlobalThreadPools'', ''CreateEnvWithOptions'']"

definition run_outputs :: "kind \<Rightarrow> string \<Rightarrow> arg list \<Rightarrow> reply \<Rightarrow> ptr list" where
  "run_outputs K n args r =
     (if K = KValue \<and> n = ''Run'' \<and> length args = 8
      then (case args ! 6 of Num k \<Rightarrow> filled (nat k) 0 (r_ptrs r 0) | _ \<Rightarrow> []) else [])"

fun handle_weight :: "kind \<Rightarrow> weight" where
  "handle_weight K (Call T n args, r) p =
     (if n \<in> set (creators K) \<and> r_status r = 0 then own (r_ptr r 0) p else 0)
     + owns (run_outputs K n args r) p
     - (if n = ''Release'' @ kind_name K then (case args of [Ptr q] \<Rightarrow> own q p | _ \<Rightarrow> 0) else 0)"

abbreviation handles :: "kind \<Rightarrow> 'w ort account" where
  "handles K \<equiv> ledger (handle_weight K)"

lemma owns_at_null [simp]: "owns ps 0 = 0"
  by (induction ps) simp_all

lemma handle_neutral:
  "n \<notin> set (creators K) \<Longrightarrow> n \<noteq> ''Release'' @ kind_name K \<Longrightarrow> n \<noteq> ''Run'' \<or> K \<noteq> KValue
    \<Longrightarrow> neutral (handle_weight K) n"
  by (auto simp: neutral_def run_outputs_def)

lemma handle_grants: "n \<in> set (creators K) \<Longrightarrow> grants (handle_weight K) n"
  by (cases K) (auto simp: grants_def run_outputs_def)

lemma handle_redeems: "k = kind_name K \<Longrightarrow> redeems (handle_weight K) k"
  by (cases K) (auto simp: redeems_def run_outputs_def)

interpretation handle: wrapper_account "handle_weight K" for K
proof unfold_locales
  show "handle_weight K e 0 = 0" for e
    by (cases "(K, e, 0 :: nat)" rule: handle_weight.cases) (auto split: list.splits arg.splits)
  show "neutral (handle_weight K) n" if "n \<in> set base_calls" for n
    using that by (intro handle_neutral; cases K) (auto simp: base_calls_def)
qed

lemma keeps_handle_AllocatedFree [keeps_intros]: "keeps (handles K) (AllocatedFree A allocator p)"
  unfolding AllocatedFree_def by (intro keeps_intros handle.keeps_call handle_neutral; cases K; simp)

lemma keeps_handle_with_buffer [keeps_intros]:
  "keeps (handles K) m \<Longrightarrow> keeps (handles K) (with_buffer A allocator p m)"
  unfolding with_buffer_def by (intro keeps_intros)

end
