(* ===== verification/Ort_Memory.thy ===== *)
theory Ort_Memory imports Ort_Settle begin

text \<open>
  Memory and option objects (\<open>onnxruntime_cxx_inline.h\<close>, lines 182 to 700): \<open>MemoryAllocation\<close>, the allocators,
  \<open>MemoryInfo\<close>, \<open>IoBinding\<close>, \<open>ArenaCfg\<close>, \<open>ThreadingOptions\<close>, the TensorRT and CUDA options,
  \<open>ExternalInitializerInfo\<close> and \<open>KeyValuePairs\<close>. An \<open>unordered_map\<close> is an association list in its
  iteration order. A wrapper is its handle \<open>p\<close>; const and owning variants share their methods.
\<close>

definition kv_args :: "(string \<times> string) list \<Rightarrow> arg list" where
  "kv_args kvs = [CStrs (map (\<lambda>kv. c_str (fst kv)) kvs), CStrs (map (\<lambda>kv. c_str (snd kv)) kvs), Num (int (length kvs))]"

text \<open>The names in one buffer, cut at the lengths the runtime reports.\<close>

fun cut :: "nat list \<Rightarrow> string \<Rightarrow> string list" where
  "cut [] buf = []"
| "cut (n # ns) buf = take n buf # cut ns (drop n buf)"

section \<open>MemoryAllocation\<close>

record memory_allocation =
  ma_allocator :: ptr
  ma_p :: ptr
  ma_size :: nat

definition MemoryAllocation_new :: "ptr \<Rightarrow> ptr \<Rightarrow> nat \<Rightarrow> memory_allocation" where
  "MemoryAllocation_new alloc p sz = \<lparr>ma_allocator = alloc, ma_p = p, ma_size = sz\<rparr>"

text \<open>The destructor does not throw: it drops the status of \<open>AllocatorFree\<close>.\<close>

definition MemoryAllocation_destroy :: "'w api \<Rightarrow> memory_allocation \<Rightarrow> ('w ort, unit) action" where
  "MemoryAllocation_destroy A m =
     (if ma_p m \<noteq> 0 then mthen (api_call A OrtApi ''AllocatorFree'' [Ptr (ma_allocator m), Ptr (ma_p m)]) (mret ())
      else mret ())"

text \<open>Move assignment and construction: both objects as they are left, the old allocation destroyed (distinct objects).\<close>

definition MemoryAllocation_assign :: "'w api \<Rightarrow> memory_allocation \<Rightarrow> memory_allocation
    \<Rightarrow> ('w ort, memory_allocation \<times> memory_allocation) action" where
  "MemoryAllocation_assign A this other =
     (let this_alloc = MemoryAllocation_new (ma_allocator this) (ma_p this) (ma_size this)
      in mthen (MemoryAllocation_destroy A this_alloc) (mret (other, MemoryAllocation_new 0 0 0)))"

definition MemoryAllocation_move :: "'w api \<Rightarrow> memory_allocation
    \<Rightarrow> ('w ort, memory_allocation \<times> memory_allocation) action" where
  "MemoryAllocation_move A other = MemoryAllocation_assign A (MemoryAllocation_new 0 0 0) other"

section \<open>Allocator\<close>

definition Allocator_Alloc ::
  "'w api \<Rightarrow> ptr \<Rightarrow> nat \<Rightarrow> ('w ort, ptr) action" where
  "Allocator_Alloc A p sz = get_ptr A OrtApi ''AllocatorAlloc'' [Ptr p, Num (int sz)]"

text \<open>
  The fields of the \<open>OrtAllocator\<close> structure the wrappers read: its version and whether the later
  function members are set.
\<close>

record ort_allocator =
  a_version :: nat
  a_Reserve :: bool
  a_Shrink :: bool

definition Allocator_Reserve :: "'w api \<Rightarrow> (ptr \<Rightarrow> ort_allocator) \<Rightarrow> ptr \<Rightarrow> nat \<Rightarrow> ('w ort, ptr) action" where
  "Allocator_Reserve A mem p sz =
     (if 18 \<le> a_version (mem p) \<and> a_Reserve (mem p)
      then mbind (call_plain A OrtApi ''OrtAllocator::Reserve'' [Ptr p, Num (int sz)]) (\<lambda>r. mret (r_ptr r 0))
      else mbind (call_plain A OrtApi ''OrtAllocator::Alloc'' [Ptr p, Num (int sz)]) (\<lambda>r. mret (r_ptr r 0)))"

definition Allocator_GetAllocation :: "'w api \<Rightarrow> ptr \<Rightarrow> nat \<Rightarrow> ('w ort, memory_allocation) action" where
  "Allocator_GetAllocation A p sz =
     mbind (get_ptr A OrtApi ''AllocatorAlloc'' [Ptr p, Num (int sz)]) (\<lambda>out. mret (MemoryAllocation_new p out sz))"

definition Allocator_Free ::
  "'w api \<Rightarrow> ptr \<Rightarrow> ptr \<Rightarrow> ('w ort, unit) action" where
  "Allocator_Free A p q = do_call A OrtApi ''AllocatorFree'' [Ptr p, Ptr q]"

definition Allocator_GetInfo :: "'w api \<Rightarrow> ptr \<Rightarrow> ('w ort, ptr) action" where
  "Allocator_GetInfo A p = get_ptr A OrtApi ''AllocatorGetInfo'' [Ptr p]"

definition Allocator_GetStats :: "'w api \<Rightarrow> ptr \<Rightarrow> ('w ort, ptr) action" where
  "Allocator_GetStats A p = get_ptr A OrtApi ''AllocatorGetStats'' [Ptr p]"

definition Allocator_Shrink :: "'w api \<Rightarrow> (ptr \<Rightarrow> ort_allocator) \<Rightarrow> ptr \<Rightarrow> ('w ort, unit) action" where
  "Allocator_Shrink A mem p =
     (if 25 \<le> a_version (mem p) \<and> a_Shrink (mem p) then do_call A OrtApi ''OrtAllocator::Shrink'' [Ptr p]
      else mret ())"

section \<open>AllocatorWithDefaultOptions\<close>

text \<open>The default allocator belongs to the runtime and is never released.\<close>

definition AllocatorWithDefaultOptions_new :: "'w api \<Rightarrow> ('w ort, ptr) action" where
  "AllocatorWithDefaultOptions_new A = get_ptr A OrtApi ''GetAllocatorWithDefaultOptions'' []"

section \<open>Allocator\<close>

definition Allocator_new ::
  "'w api \<Rightarrow> ptr \<Rightarrow> ptr \<Rightarrow> ('w ort, ptr) action" where
  "Allocator_new A sess mem_info = create A ''Allocator'' OrtApi ''CreateAllocator'' [Ptr sess, Ptr mem_info]"

section \<open>MemoryInfo\<close>

definition MemoryInfo_GetAllocatorName ::
  "'w api \<Rightarrow> ptr \<Rightarrow> ('w ort, string) action" where
  "MemoryInfo_GetAllocatorName A p = get_string A OrtApi ''MemoryInfoGetName'' [Ptr p]"

definition MemoryInfo_GetAllocatorType :: "'w api \<Rightarrow> ptr \<Rightarrow> ('w ort, int) action" where
  "MemoryInfo_GetAllocatorType A p = get_num A OrtApi ''MemoryInfoGetType'' [Ptr p]"

definition MemoryInfo_GetDeviceId :: "'w api \<Rightarrow> ptr \<Rightarrow> ('w ort, int) action" where
  "MemoryInfo_GetDeviceId A p = get_num A OrtApi ''MemoryInfoGetId'' [Ptr p]"

definition MemoryInfo_GetDeviceType :: "'w api \<Rightarrow> ptr \<Rightarrow> ('w ort, int) action" where
  "MemoryInfo_GetDeviceType A p =
     mbind (plain A OrtApi ''MemoryInfoGetDeviceType'' [Ptr p]) (\<lambda>r. mret (r_num r 0))"

definition MemoryInfo_GetMemoryType :: "'w api \<Rightarrow> ptr \<Rightarrow> ('w ort, int) action" where
  "MemoryInfo_GetMemoryType A p = get_num A OrtApi ''MemoryInfoGetMemType'' [Ptr p]"

definition MemoryInfo_GetDeviceMemoryType ::
  "'w api \<Rightarrow> ptr \<Rightarrow> ('w ort, int) action" where
  "MemoryInfo_GetDeviceMemoryType A p =
     mbind (plain A OrtApi ''MemoryInfoGetDeviceMemType'' [Ptr p]) (\<lambda>r. mret (r_num r 0))"

definition MemoryInfo_GetVendorId :: "'w api \<Rightarrow> ptr \<Rightarrow> ('w ort, int) action" where
  "MemoryInfo_GetVendorId A p =
     mbind (plain A OrtApi ''MemoryInfoGetVendorId'' [Ptr p]) (\<lambda>r. mret (r_num r 0))"

definition MemoryInfo_eq :: "'w api \<Rightarrow> ptr \<Rightarrow> ptr \<Rightarrow> ('w ort, bool) action" where
  "MemoryInfo_eq A p q =
     mbind (get_num A OrtApi ''CompareMemoryInfo'' [Ptr p, Ptr q]) (\<lambda>comp_result. mret (comp_result = 0))"

definition MemoryInfo_CreateCpu ::
  "'w api \<Rightarrow> int \<Rightarrow> int \<Rightarrow> ('w ort, ptr) action" where
  "MemoryInfo_CreateCpu A ty mem_type = get_ptr A OrtApi ''CreateCpuMemoryInfo'' [Num ty, Num mem_type]"

definition MemoryInfo_new ::
  "'w api \<Rightarrow> string \<Rightarrow> int \<Rightarrow> int \<Rightarrow> int
     \<Rightarrow> ('w ort, ptr) action" where
  "MemoryInfo_new A nm ty ident mem_type =
     create A ''MemoryInfo'' OrtApi ''CreateMemoryInfo'' [Str nm, Num ty, Num ident, Num mem_type]"

definition MemoryInfo_new_2 ::
  "'w api \<Rightarrow> string \<Rightarrow> int \<Rightarrow> int \<Rightarrow> int
     \<Rightarrow> int \<Rightarrow> nat \<Rightarrow> int \<Rightarrow> ('w ort, ptr) action" where
  "MemoryInfo_new_2 A nm device_type vendor_id device_id mem_type alignment allocator_type =
     create A ''MemoryInfo'' OrtApi ''CreateMemoryInfo_V2'' [Str nm, Num device_type, Num vendor_id,
       Num device_id, Num mem_type, Num (int alignment), Num allocator_type]"

section \<open>IoBinding\<close>

definition GetOutputNamesHelper :: "'w api \<Rightarrow> ptr \<Rightarrow> ptr \<Rightarrow> ('w ort, string list) action" where
  "GetOutputNamesHelper A binding allocator =
     mbind (checked A OrtApi ''GetBoundOutputNames'' [Ptr binding, Ptr allocator]) (\<lambda>r.
     let buffer = r_ptr r 0; lengths = r_ptr r 1; sizes = map nat (r_nums r 0) in
     if sizes = [] then mret []
     else with_buffer A allocator buffer (with_buffer A allocator lengths (mret (cut sizes (r_bytes r 0)))))"

definition GetOutputValuesHelper :: "'w api \<Rightarrow> ptr \<Rightarrow> ptr \<Rightarrow> ('w ort, ptr list) action" where
  "GetOutputValuesHelper A binding allocator =
     mbind (checked A OrtApi ''GetBoundOutputValues'' [Ptr binding, Ptr allocator]) (\<lambda>r.
     if r_ptrs r 0 = [] then mret [] else with_buffer A allocator (r_ptr r 0) (mret (r_ptrs r 0)))"

definition IoBinding_GetOutputNames :: "'w api \<Rightarrow> ptr \<Rightarrow> ('w ort, string list) action" where
  "IoBinding_GetOutputNames A p = mbind (AllocatorWithDefaultOptions_new A) (GetOutputNamesHelper A p)"

definition IoBinding_GetOutputNames_2 :: "'w api \<Rightarrow> ptr \<Rightarrow> ptr \<Rightarrow> ('w ort, string list) action" where
  "IoBinding_GetOutputNames_2 A p allocator = GetOutputNamesHelper A p allocator"

definition IoBinding_GetOutputValues :: "'w api \<Rightarrow> ptr \<Rightarrow> ('w ort, ptr list) action" where
  "IoBinding_GetOutputValues A p = mbind (AllocatorWithDefaultOptions_new A) (GetOutputValuesHelper A p)"

definition IoBinding_GetOutputValues_2 :: "'w api \<Rightarrow> ptr \<Rightarrow> ptr \<Rightarrow> ('w ort, ptr list) action" where
  "IoBinding_GetOutputValues_2 A p allocator = GetOutputValuesHelper A p allocator"

definition IoBinding_BindInput ::
  "'w api \<Rightarrow> ptr \<Rightarrow> string \<Rightarrow> ptr \<Rightarrow> ('w ort, unit) action" where
  "IoBinding_BindInput A p nm val = do_call A OrtApi ''BindInput'' [Ptr p, Str nm, Ptr val]"

definition IoBinding_BindOutput ::
  "'w api \<Rightarrow> ptr \<Rightarrow> string \<Rightarrow> ptr \<Rightarrow> ('w ort, unit) action" where
  "IoBinding_BindOutput A p nm val = do_call A OrtApi ''BindOutput'' [Ptr p, Str nm, Ptr val]"

definition IoBinding_BindOutput_2 ::
  "'w api \<Rightarrow> ptr \<Rightarrow> string \<Rightarrow> ptr \<Rightarrow> ('w ort, unit) action" where
  "IoBinding_BindOutput_2 A p nm mem_info =
     do_call A OrtApi ''BindOutputToDevice'' [Ptr p, Str nm, Ptr mem_info]"

definition IoBinding_ClearBoundInputs :: "'w api \<Rightarrow> ptr \<Rightarrow> ('w ort, unit) action" where
  "IoBinding_ClearBoundInputs A p = mbind (plain A OrtApi ''ClearBoundInputs'' [Ptr p]) (\<lambda>_. mret ())"

definition IoBinding_ClearBoundOutputs :: "'w api \<Rightarrow> ptr \<Rightarrow> ('w ort, unit) action" where
  "IoBinding_ClearBoundOutputs A p = mbind (plain A OrtApi ''ClearBoundOutputs'' [Ptr p]) (\<lambda>_. mret ())"

definition IoBinding_SynchronizeInputs :: "'w api \<Rightarrow> ptr \<Rightarrow> ('w ort, unit) action" where
  "IoBinding_SynchronizeInputs A p = do_call A OrtApi ''SynchronizeBoundInputs'' [Ptr p]"

definition IoBinding_SynchronizeOutputs ::
  "'w api \<Rightarrow> ptr \<Rightarrow> ('w ort, unit) action" where
  "IoBinding_SynchronizeOutputs A p = do_call A OrtApi ''SynchronizeBoundOutputs'' [Ptr p]"

definition IoBinding_new :: "'w api \<Rightarrow> ptr \<Rightarrow> ('w ort, ptr) action" where
  "IoBinding_new A sess = create A ''IoBinding'' OrtApi ''CreateIoBinding'' [Ptr sess]"

section \<open>ArenaCfg\<close>

definition ArenaCfg_new ::
  "'w api \<Rightarrow> nat \<Rightarrow> int \<Rightarrow> int \<Rightarrow> int
     \<Rightarrow> ('w ort, ptr) action" where
  "ArenaCfg_new A max_mem arena_extend_strategy initial_chunk_size_bytes max_dead_bytes_per_chunk =
     create A ''ArenaCfg'' OrtApi ''CreateArenaCfg'' [Num (int max_mem), Num arena_extend_strategy,
       Num initial_chunk_size_bytes, Num max_dead_bytes_per_chunk]"

definition ArenaCfg_new_2 :: "'w api \<Rightarrow> (string \<times> nat) list \<Rightarrow> ('w ort, ptr) action" where
  "ArenaCfg_new_2 A arena_config =
     create A ''ArenaCfg'' OrtApi ''CreateArenaCfgV2''
       [CStrs (map (\<lambda>kv. c_str (fst kv)) arena_config), Nums (map (\<lambda>kv. int (snd kv)) arena_config),
        Num (int (length arena_config))]"

section \<open>ThreadingOptions\<close>

definition ThreadingOptions_new :: "'w api \<Rightarrow> ('w ort, ptr) action" where
  "ThreadingOptions_new A = create A ''ThreadingOptions'' OrtApi ''CreateThreadingOptions'' []"

definition ThreadingOptions_SetGlobalIntraOpNumThreads ::
  "'w api \<Rightarrow> ptr \<Rightarrow> int \<Rightarrow> ('w ort, unit) action" where
  "ThreadingOptions_SetGlobalIntraOpNumThreads A p intra_op_num_threads =
     do_call A OrtApi ''SetGlobalIntraOpNumThreads'' [Ptr p, Num intra_op_num_threads]"

definition ThreadingOptions_SetGlobalInterOpNumThreads ::
  "'w api \<Rightarrow> ptr \<Rightarrow> int \<Rightarrow> ('w ort, unit) action" where
  "ThreadingOptions_SetGlobalInterOpNumThreads A p inter_op_num_threads =
     do_call A OrtApi ''SetGlobalInterOpNumThreads'' [Ptr p, Num inter_op_num_threads]"

definition ThreadingOptions_SetGlobalSpinControl ::
  "'w api \<Rightarrow> ptr \<Rightarrow> int \<Rightarrow> ('w ort, unit) action" where
  "ThreadingOptions_SetGlobalSpinControl A p allow_spinning =
     do_call A OrtApi ''SetGlobalSpinControl'' [Ptr p, Num allow_spinning]"

definition ThreadingOptions_SetGlobalDenormalAsZero ::
  "'w api \<Rightarrow> ptr \<Rightarrow> ('w ort, unit) action" where
  "ThreadingOptions_SetGlobalDenormalAsZero A p = do_call A OrtApi ''SetGlobalDenormalAsZero'' [Ptr p]"

definition ThreadingOptions_SetGlobalCustomCreateThreadFn ::
  "'w api \<Rightarrow> ptr \<Rightarrow> ptr \<Rightarrow> ('w ort, unit) action" where
  "ThreadingOptions_SetGlobalCustomCreateThreadFn A p ort_custom_create_thread_fn =
     do_call A OrtApi ''SetGlobalCustomCreateThreadFn'' [Ptr p, Ptr ort_custom_create_thread_fn]"

definition ThreadingOptions_SetGlobalCustomThreadCreationOptions ::
  "'w api \<Rightarrow> ptr \<Rightarrow> ptr \<Rightarrow> ('w ort, unit) action" where
  "ThreadingOptions_SetGlobalCustomThreadCreationOptions A p ort_custom_thread_creation_options =
     do_call A OrtApi ''SetGlobalCustomThreadCreationOptions'' [Ptr p, Ptr ort_custom_thread_creation_options]"

definition ThreadingOptions_SetGlobalCustomJoinThreadFn ::
  "'w api \<Rightarrow> ptr \<Rightarrow> ptr \<Rightarrow> ('w ort, unit) action" where
  "ThreadingOptions_SetGlobalCustomJoinThreadFn A p ort_custom_join_thread_fn =
     do_call A OrtApi ''SetGlobalCustomJoinThreadFn'' [Ptr p, Ptr ort_custom_join_thread_fn]"

section \<open>TensorRTProviderOptions\<close>

definition TensorRTProviderOptions_new :: "'w api \<Rightarrow> ('w ort, ptr) action" where
  "TensorRTProviderOptions_new A =
     create A ''TensorRTProviderOptions'' OrtApi ''CreateTensorRTProviderOptions'' []"

definition TensorRTProviderOptions_Update :: "'w api \<Rightarrow> ptr \<Rightarrow> (string \<times> string) list \<Rightarrow> ('w ort, unit) action" where
  "TensorRTProviderOptions_Update A p opts =
     do_call A OrtApi ''UpdateTensorRTProviderOptions''
       (Ptr p # kv_args opts)"

definition TensorRTProviderOptions_UpdateWithValue ::
  "'w api \<Rightarrow> ptr \<Rightarrow> string \<Rightarrow> ptr \<Rightarrow> ('w ort, unit) action" where
  "TensorRTProviderOptions_UpdateWithValue A p key val =
     do_call A OrtApi ''UpdateTensorRTProviderOptionsWithValue'' [Ptr p, Str key, Ptr val]"

definition TensorRTProviderOptions_GetOptionByName ::
  "'w api \<Rightarrow> ptr \<Rightarrow> string \<Rightarrow> ('w ort, ptr) action" where
  "TensorRTProviderOptions_GetOptionByName A p nm =
     get_ptr A OrtApi ''GetTensorRTProviderOptionsByName'' [Ptr p, Str nm]"

definition options_as_string :: "'w api \<Rightarrow> string \<Rightarrow> ptr \<Rightarrow> ('w ort, string) action" where
  "options_as_string A n p =
     mbind (AllocatorWithDefaultOptions_new A) (\<lambda>allocator.
     mbind (checked A OrtApi n [Ptr p, Ptr allocator]) (\<lambda>r.
     with_buffer A allocator (r_ptr r 0) (c_string (r_str r 0))))"

definition TensorRTProviderOptions_GetAsString :: "'w api \<Rightarrow> ptr \<Rightarrow> ('w ort, string) action" where
  "TensorRTProviderOptions_GetAsString A p = options_as_string A ''GetTensorRTProviderOptionsAsString'' p"

section \<open>CUDAProviderOptions\<close>

definition CUDAProviderOptions_new :: "'w api \<Rightarrow> ('w ort, ptr) action" where
  "CUDAProviderOptions_new A = create A ''CUDAProviderOptions'' OrtApi ''CreateCUDAProviderOptions'' []"

definition CUDAProviderOptions_Update :: "'w api \<Rightarrow> ptr \<Rightarrow> (string \<times> string) list \<Rightarrow> ('w ort, unit) action" where
  "CUDAProviderOptions_Update A p opts =
     do_call A OrtApi ''UpdateCUDAProviderOptions''
       (Ptr p # kv_args opts)"

definition CUDAProviderOptions_GetAsString :: "'w api \<Rightarrow> ptr \<Rightarrow> ('w ort, string) action" where
  "CUDAProviderOptions_GetAsString A p = options_as_string A ''GetCUDAProviderOptionsAsString'' p"

definition CUDAProviderOptions_UpdateWithValue ::
  "'w api \<Rightarrow> ptr \<Rightarrow> string \<Rightarrow> ptr \<Rightarrow> ('w ort, unit) action" where
  "CUDAProviderOptions_UpdateWithValue A p key val =
     do_call A OrtApi ''UpdateCUDAProviderOptionsWithValue'' [Ptr p, Str key, Ptr val]"

definition CUDAProviderOptions_GetOptionByName ::
  "'w api \<Rightarrow> ptr \<Rightarrow> string \<Rightarrow> ('w ort, ptr) action" where
  "CUDAProviderOptions_GetOptionByName A p nm =
     get_ptr A OrtApi ''GetCUDAProviderOptionsByName'' [Ptr p, Str nm]"

section \<open>PrepackedWeightsContainer\<close>

definition PrepackedWeightsContainer_new :: "'w api \<Rightarrow> ('w ort, ptr) action" where
  "PrepackedWeightsContainer_new A =
     create A ''PrepackedWeightsContainer'' OrtApi ''CreatePrepackedWeightsContainer'' []"

section \<open>ExternalInitializerInfo\<close>

definition ExternalInitializerInfo_GetFilePath :: "'w api \<Rightarrow> ptr \<Rightarrow> ('w ort, string) action" where
  "ExternalInitializerInfo_GetFilePath A p =
     mbind (plain A OrtApi ''ExternalInitializerInfo_GetFilePath'' [Ptr p]) (\<lambda>r. c_string (r_str r 0))"

definition ExternalInitializerInfo_GetFileOffset ::
  "'w api \<Rightarrow> ptr \<Rightarrow> ('w ort, int) action" where
  "ExternalInitializerInfo_GetFileOffset A p =
     mbind (plain A OrtApi ''ExternalInitializerInfo_GetFileOffset'' [Ptr p]) (\<lambda>r. mret (r_num r 0))"

definition ExternalInitializerInfo_GetByteSize ::
  "'w api \<Rightarrow> ptr \<Rightarrow> ('w ort, int) action" where
  "ExternalInitializerInfo_GetByteSize A p =
     mbind (plain A OrtApi ''ExternalInitializerInfo_GetByteSize'' [Ptr p]) (\<lambda>r. mret (r_num r 0))"

definition ExternalInitializerInfo_new ::
  "'w api \<Rightarrow> string \<Rightarrow> int \<Rightarrow> nat \<Rightarrow> ('w ort, ptr) action" where
  "ExternalInitializerInfo_new A filepath file_offset byte_size =
     create A ''ExternalInitializerInfo'' OrtApi ''CreateExternalInitializerInfo'' [Str filepath,
       Num file_offset, Num (int byte_size)]"

text \<open>
  The status result and the new value of \<open>out\<close>: on success the old value is released by the move
  assignment and the new handle stored.
\<close>

definition ExternalInitializerInfo_Create :: "'w api \<Rightarrow> string \<Rightarrow> int \<Rightarrow> nat \<Rightarrow> ptr \<Rightarrow> ('w ort, ptr \<times> ptr) action" where
  "ExternalInitializerInfo_Create A filepath file_offset byte_size out =
     mbind (api_call A OrtApi ''CreateExternalInitializerInfo''
       [Str filepath, Num file_offset, Num (int byte_size)]) (\<lambda>r.
     if r_status r \<noteq> 0 then mret (r_status r, out)
     else mthen (OrtRelease A ''ExternalInitializerInfo'' out) (mret (0, r_ptr r 0)))"

section \<open>KeyValuePairs\<close>

definition KeyValuePairs_GetValue ::
  "'w api \<Rightarrow> ptr \<Rightarrow> string \<Rightarrow> ('w ort, string option) action" where
  "KeyValuePairs_GetValue A p key =
     mbind (plain A OrtApi ''GetKeyValue'' [Ptr p, Str key]) (\<lambda>r. mret (r_str r 0))"

text \<open>
  \<open>emplace\<close> keeps the first of equal keys. The result is the map as an association list in the order
  of insertion. The pointers of the second form are null when the stored string is.
\<close>

fun emplace_all :: "(string \<times> string) list \<Rightarrow> (string \<times> string) list \<Rightarrow> (string \<times> string) list" where
  "emplace_all out [] = out"
| "emplace_all out ((k, v) # kvs) = emplace_all (if k \<in> fst ` set out then out else out @ [(k, v)]) kvs"

definition KeyValuePairs_GetKeyValuePairs :: "'w api \<Rightarrow> ptr \<Rightarrow> ('w ort, (string \<times> string) list) action" where
  "KeyValuePairs_GetKeyValuePairs A p =
     mbind (plain A OrtApi ''GetKeyValuePairs'' [Ptr p]) (\<lambda>r.
     mbind (mmap (\<lambda>(k, v). mbind (c_string k) (\<lambda>ks. mbind (c_string v) (\<lambda>vs. mret (ks, vs))))
       (zip (r_strs r 0) (r_strs r 1))) (\<lambda>pairs.
     mret (emplace_all [] pairs)))"

definition KeyValuePairs_GetKeyValuePairs_2 :: "'w api \<Rightarrow> ptr \<Rightarrow> ('w ort, string option list \<times> string option list) action" where
  "KeyValuePairs_GetKeyValuePairs_2 A p =
     mbind (plain A OrtApi ''GetKeyValuePairs'' [Ptr p]) (\<lambda>r. mret (r_strs r 0, r_strs r 1))"

definition KeyValuePairs_new :: "'w api \<Rightarrow> ('w ort, ptr) action" where
  "KeyValuePairs_new A = mbind (plain A OrtApi ''CreateKeyValuePairs'' []) (\<lambda>r. mret (r_ptr r 0))"

definition KeyValuePairs_Add :: "'w api \<Rightarrow> ptr \<Rightarrow> string \<Rightarrow> string \<Rightarrow> ('w ort, unit) action" where
  "KeyValuePairs_Add A p key val =
     mbind (plain A OrtApi ''AddKeyValuePair'' [Ptr p, Str key, Str val]) (\<lambda>_. mret ())"

definition KeyValuePairs_new_2 :: "'w api \<Rightarrow> (string \<times> string) list \<Rightarrow> ('w ort, ptr) action" where
  "KeyValuePairs_new_2 A kv_pairs =
     mbind (KeyValuePairs_new A) (\<lambda>p.
     mthen (mmap (\<lambda>(k, v). KeyValuePairs_Add A p (c_str k) (c_str v)) kv_pairs) (mret p))"

definition KeyValuePairs_Remove ::
  "'w api \<Rightarrow> ptr \<Rightarrow> string \<Rightarrow> ('w ort, unit) action" where
  "KeyValuePairs_Remove A p key =
     mbind (plain A OrtApi ''RemoveKeyValuePair'' [Ptr p, Str key]) (\<lambda>_. mret ())"

section \<open>SyncStream\<close>

definition SyncStream_GetHandle :: "'w api \<Rightarrow> ptr \<Rightarrow> ('w ort, ptr) action" where
  "SyncStream_GetHandle A p =
     mbind (plain A OrtApi ''SyncStream_GetHandle'' [Ptr p]) (\<lambda>r. mret (r_ptr r 0))"


end
