(* ===== verification/Ort_Env.thy ===== *)
theory Ort_Env imports Ort_Memory begin

text \<open>
  Devices, profiling events, the environment, custom operator domains, model compatibility queries
  and LoRA adapters (\<open>onnxruntime_cxx_inline.h\<close>, lines 701 to 1188).
\<close>

section \<open>HardwareDevice\<close>

definition HardwareDevice_Type :: "'w api \<Rightarrow> ptr \<Rightarrow> ('w ort, int) action" where
  "HardwareDevice_Type A p =
     mbind (plain A OrtApi ''HardwareDevice_Type'' [Ptr p]) (\<lambda>r. mret (r_num r 0))"

definition HardwareDevice_VendorId :: "'w api \<Rightarrow> ptr \<Rightarrow> ('w ort, int) action" where
  "HardwareDevice_VendorId A p =
     mbind (plain A OrtApi ''HardwareDevice_VendorId'' [Ptr p]) (\<lambda>r. mret (r_num r 0))"

definition HardwareDevice_DeviceId :: "'w api \<Rightarrow> ptr \<Rightarrow> ('w ort, int) action" where
  "HardwareDevice_DeviceId A p =
     mbind (plain A OrtApi ''HardwareDevice_DeviceId'' [Ptr p]) (\<lambda>r. mret (r_num r 0))"

definition HardwareDevice_Vendor ::
  "'w api \<Rightarrow> ptr \<Rightarrow> ('w ort, string option) action" where
  "HardwareDevice_Vendor A p =
     mbind (plain A OrtApi ''HardwareDevice_Vendor'' [Ptr p]) (\<lambda>r. mret (r_str r 0))"

definition HardwareDevice_Metadata :: "'w api \<Rightarrow> ptr \<Rightarrow> ('w ort, ptr) action" where
  "HardwareDevice_Metadata A p =
     mbind (plain A OrtApi ''HardwareDevice_Metadata'' [Ptr p]) (\<lambda>r. mret (r_ptr r 0))"

section \<open>EpDevice\<close>

definition EpDevice_EpName :: "'w api \<Rightarrow> ptr \<Rightarrow> ('w ort, string option) action" where
  "EpDevice_EpName A p = mbind (plain A OrtApi ''EpDevice_EpName'' [Ptr p]) (\<lambda>r. mret (r_str r 0))"

definition EpDevice_EpVendor :: "'w api \<Rightarrow> ptr \<Rightarrow> ('w ort, string option) action" where
  "EpDevice_EpVendor A p = mbind (plain A OrtApi ''EpDevice_EpVendor'' [Ptr p]) (\<lambda>r. mret (r_str r 0))"

definition EpDevice_EpMetadata :: "'w api \<Rightarrow> ptr \<Rightarrow> ('w ort, ptr) action" where
  "EpDevice_EpMetadata A p =
     mbind (plain A OrtApi ''EpDevice_EpMetadata'' [Ptr p]) (\<lambda>r. mret (r_ptr r 0))"

definition EpDevice_EpOptions :: "'w api \<Rightarrow> ptr \<Rightarrow> ('w ort, ptr) action" where
  "EpDevice_EpOptions A p =
     mbind (plain A OrtApi ''EpDevice_EpOptions'' [Ptr p]) (\<lambda>r. mret (r_ptr r 0))"

definition EpDevice_Device :: "'w api \<Rightarrow> ptr \<Rightarrow> ('w ort, ptr) action" where
  "EpDevice_Device A p = mbind (plain A OrtApi ''EpDevice_Device'' [Ptr p]) (\<lambda>r. mret (r_ptr r 0))"

definition EpDevice_GetMemoryInfo :: "'w api \<Rightarrow> ptr \<Rightarrow> int \<Rightarrow> ('w ort, ptr) action" where
  "EpDevice_GetMemoryInfo A p memory_type =
     mbind (plain A OrtApi ''EpDevice_MemoryInfo'' [Ptr p, Num memory_type]) (\<lambda>r. mret (r_ptr r 0))"

definition EpDevice_CreateSyncStream ::
  "'w api \<Rightarrow> ptr \<Rightarrow> ptr \<Rightarrow> ('w ort, ptr) action" where
  "EpDevice_CreateSyncStream A p stream_options =
     get_ptr A OrtApi ''CreateSyncStreamForEpDevice'' [Ptr p, Ptr stream_options]"

definition EpDevice_new ::
  "'w api \<Rightarrow> ptr \<Rightarrow> ptr \<Rightarrow> ptr \<Rightarrow> ptr
     \<Rightarrow> ('w ort, ptr) action" where
  "EpDevice_new A ep_factory hardware_device ep_metadata ep_options =
     create A ''EpDevice'' EpApi ''CreateEpDevice'' [Ptr ep_factory, Ptr hardware_device, Ptr ep_metadata,
       Ptr ep_options]"

section \<open>EpAssignedSubgraph\<close>

definition EpAssignedSubgraph_GetEpName ::
  "'w api \<Rightarrow> ptr \<Rightarrow> ('w ort, string) action" where
  "EpAssignedSubgraph_GetEpName A p = get_string A OrtApi ''EpAssignedSubgraph_GetEpName'' [Ptr p]"

definition EpAssignedSubgraph_GetNodes :: "'w api \<Rightarrow> ptr \<Rightarrow> ('w ort, ptr list) action" where
  "EpAssignedSubgraph_GetNodes A p = get_ptrs A OrtApi ''EpAssignedSubgraph_GetNodes'' [Ptr p]"

section \<open>EpAssignedNode\<close>

definition EpAssignedNode_GetName :: "'w api \<Rightarrow> ptr \<Rightarrow> ('w ort, string) action" where
  "EpAssignedNode_GetName A p = get_string A OrtApi ''EpAssignedNode_GetName'' [Ptr p]"

definition EpAssignedNode_GetDomain :: "'w api \<Rightarrow> ptr \<Rightarrow> ('w ort, string) action" where
  "EpAssignedNode_GetDomain A p = get_string A OrtApi ''EpAssignedNode_GetDomain'' [Ptr p]"

definition EpAssignedNode_GetOperatorType ::
  "'w api \<Rightarrow> ptr \<Rightarrow> ('w ort, string) action" where
  "EpAssignedNode_GetOperatorType A p = get_string A OrtApi ''EpAssignedNode_GetOperatorType'' [Ptr p]"

section \<open>ProfilingEvent\<close>

definition ProfilingEvent_GetCategory :: "'w api \<Rightarrow> ptr \<Rightarrow> ('w ort, int) action" where
  "ProfilingEvent_GetCategory A p = get_num A EpApi ''ProfilingEvent_GetCategory'' [Ptr p]"

definition ProfilingEvent_GetName ::
  "'w api \<Rightarrow> ptr \<Rightarrow> ('w ort, string option) action" where
  "ProfilingEvent_GetName A p = get_cstr A EpApi ''ProfilingEvent_GetName'' [Ptr p]"

definition ProfilingEvent_GetTimestampUs ::
  "'w api \<Rightarrow> ptr \<Rightarrow> ('w ort, int) action" where
  "ProfilingEvent_GetTimestampUs A p = get_num A EpApi ''ProfilingEvent_GetTimestampUs'' [Ptr p]"

definition ProfilingEvent_GetDurationUs :: "'w api \<Rightarrow> ptr \<Rightarrow> ('w ort, int) action" where
  "ProfilingEvent_GetDurationUs A p = get_num A EpApi ''ProfilingEvent_GetDurationUs'' [Ptr p]"

definition ProfilingEvent_GetArgValue ::
  "'w api \<Rightarrow> ptr \<Rightarrow> string \<Rightarrow> ('w ort, string option) action" where
  "ProfilingEvent_GetArgValue A p key = get_cstr A EpApi ''ProfilingEvent_GetArgValue'' [Ptr p, Str key]"

definition ProfilingEvent_new :: "'w api \<Rightarrow> int \<Rightarrow> int \<Rightarrow> int \<Rightarrow> string \<Rightarrow> int \<Rightarrow> int \<Rightarrow> (string \<times> string) list
    \<Rightarrow> ('w ort, ptr) action" where
  "ProfilingEvent_new A category process_id thread_id event_name timestamp_us duration_us kvs =
     create A ''ProfilingEvent'' EpApi ''CreateProfilingEvent''
       ([Num category, Num process_id, Num thread_id, Str event_name, Num timestamp_us, Num duration_us] @ kv_args kvs)"

definition ProfilingEvent_new_2 :: "'w api \<Rightarrow> int \<Rightarrow> int \<Rightarrow> int \<Rightarrow> string \<Rightarrow> int \<Rightarrow> int \<Rightarrow> ptr \<Rightarrow> ptr \<Rightarrow> nat
    \<Rightarrow> ('w ort, ptr) action" where
  "ProfilingEvent_new_2 A category process_id thread_id event_name timestamp_us duration_us arg_keys arg_values num_args =
     create A ''ProfilingEvent'' EpApi ''CreateProfilingEvent''
       [Num category, Num process_id, Num thread_id, Str event_name, Num timestamp_us, Num duration_us,
        Ptr arg_keys, Ptr arg_values, Num (int num_args)]"

section \<open>ProfilingEventsContainer\<close>

definition ProfilingEventsContainer_AddEvents :: "'w api \<Rightarrow> ptr \<Rightarrow> ptr \<Rightarrow> nat \<Rightarrow> ('w ort, ptr) action" where
  "ProfilingEventsContainer_AddEvents A p evs num_events =
     as_status A EpApi ''ProfilingEventsContainer_AddEvents'' [Ptr p, Ptr evs, Num (int num_events)]"

definition ProfilingEventsContainer_AddEvents_2 :: "'w api \<Rightarrow> ptr \<Rightarrow> ptr list \<Rightarrow> ('w ort, ptr) action" where
  "ProfilingEventsContainer_AddEvents_2 A p evs =
     as_status A EpApi ''ProfilingEventsContainer_AddEvents'' [Ptr p, Ptrs evs, Num (int (length evs))]"

section \<open>Env\<close>

text \<open>
  Every constructor sets the language projection from the log id; when that fails, the environment
  just created is released.
\<close>

definition ORT_PROJECTION_CPLUSPLUS :: int where
  "ORT_PROJECTION_CPLUSPLUS = 1"

definition ORT_PROJECTION_NODEJS :: int where
  "ORT_PROJECTION_NODEJS = 6"

definition set_projection :: "'w api \<Rightarrow> string \<Rightarrow> ptr \<Rightarrow> ('w ort, unit) action" where
  "set_projection A logid p =
     (if c_str logid = ''onnxruntime-node''
      then do_call A OrtApi ''SetLanguageProjection'' [Ptr p, Num ORT_PROJECTION_NODEJS]
      else do_call A OrtApi ''SetLanguageProjection'' [Ptr p, Num ORT_PROJECTION_CPLUSPLUS])"

definition Env_new :: "'w api \<Rightarrow> int \<Rightarrow> string \<Rightarrow> ('w ort, ptr) action" where
  "Env_new A logging_level logid =
     construct_with A ''Env'' OrtApi ''CreateEnv'' [Num logging_level, Str logid] (set_projection A logid)"

definition Env_new_2 :: "'w api \<Rightarrow> int \<Rightarrow> string \<Rightarrow> ptr \<Rightarrow> ptr \<Rightarrow> ('w ort, ptr) action" where
  "Env_new_2 A logging_level logid logging_function logger_param =
     construct_with A ''Env'' OrtApi ''CreateEnvWithCustomLogger''
       [Ptr logging_function, Ptr logger_param, Num logging_level, Str logid] (set_projection A logid)"

definition Env_new_3 :: "'w api \<Rightarrow> ptr \<Rightarrow> int \<Rightarrow> string \<Rightarrow> ('w ort, ptr) action" where
  "Env_new_3 A tp_options logging_level logid =
     construct_with A ''Env'' OrtApi ''CreateEnvWithGlobalThreadPools''
       [Num logging_level, Str logid, Ptr tp_options] (set_projection A logid)"

definition Env_new_4 :: "'w api \<Rightarrow> ptr \<Rightarrow> ptr \<Rightarrow> ptr \<Rightarrow> int \<Rightarrow> string \<Rightarrow> ('w ort, ptr) action" where
  "Env_new_4 A tp_options logging_function logger_param logging_level logid =
     construct_with A ''Env'' OrtApi ''CreateEnvWithCustomLoggerAndGlobalThreadPools''
       [Ptr logging_function, Ptr logger_param, Num logging_level, Str logid, Ptr tp_options] (set_projection A logid)"

text \<open>\<open>log_id\<close> is the member of the \<open>OrtEnvCreationOptions\<close> the pointer designates.\<close>

definition Env_new_5 :: "'w api \<Rightarrow> (ptr \<Rightarrow> string option) \<Rightarrow> ptr \<Rightarrow> ('w ort, ptr) action" where
  "Env_new_5 A log_id opts =
     construct_with A ''Env'' OrtApi ''CreateEnvWithOptions'' [Ptr opts]
       (\<lambda>p. case log_id opts of None \<Rightarrow> mcrash ''strcmp(nullptr)'' | Some logid \<Rightarrow> set_projection A logid p)"

definition Env_EnableTelemetryEvents :: "'w api \<Rightarrow> ptr \<Rightarrow> ('w ort, unit) action" where
  "Env_EnableTelemetryEvents A p = do_call A OrtApi ''EnableTelemetryEvents'' [Ptr p]"

definition Env_DisableTelemetryEvents :: "'w api \<Rightarrow> ptr \<Rightarrow> ('w ort, unit) action" where
  "Env_DisableTelemetryEvents A p = do_call A OrtApi ''DisableTelemetryEvents'' [Ptr p]"

definition Env_UpdateEnvWithCustomLogLevel ::
  "'w api \<Rightarrow> ptr \<Rightarrow> int \<Rightarrow> ('w ort, unit) action" where
  "Env_UpdateEnvWithCustomLogLevel A p log_severity_level =
     do_call A OrtApi ''UpdateEnvWithCustomLogLevel'' [Ptr p, Num log_severity_level]"

definition Env_CreateAndRegisterAllocator ::
  "'w api \<Rightarrow> ptr \<Rightarrow> ptr \<Rightarrow> ptr \<Rightarrow> ('w ort, unit) action" where
  "Env_CreateAndRegisterAllocator A p mem_info arena_cfg =
     do_call A OrtApi ''CreateAndRegisterAllocator'' [Ptr p, Ptr mem_info, Ptr arena_cfg]"

definition Env_CreateAndRegisterAllocatorV2 :: "'w api \<Rightarrow> ptr \<Rightarrow> string \<Rightarrow> ptr \<Rightarrow> (string \<times> string) list \<Rightarrow> ptr
    \<Rightarrow> ('w ort, unit) action" where
  "Env_CreateAndRegisterAllocatorV2 A p provider_type mem_info opts arena_cfg =
     do_call A OrtApi ''CreateAndRegisterAllocatorV2''
       ([Ptr p, Str (c_str provider_type), Ptr mem_info, Ptr arena_cfg] @ kv_args opts)"

definition Env_RegisterAllocator ::
  "'w api \<Rightarrow> ptr \<Rightarrow> ptr \<Rightarrow> ('w ort, unit) action" where
  "Env_RegisterAllocator A p allocator = do_call A OrtApi ''RegisterAllocator'' [Ptr p, Ptr allocator]"

definition Env_UnregisterAllocator ::
  "'w api \<Rightarrow> ptr \<Rightarrow> ptr \<Rightarrow> ('w ort, unit) action" where
  "Env_UnregisterAllocator A p mem_info = do_call A OrtApi ''UnregisterAllocator'' [Ptr p, Ptr mem_info]"

definition Env_RegisterExecutionProviderLibrary ::
  "'w api \<Rightarrow> ptr \<Rightarrow> string \<Rightarrow> string \<Rightarrow> ('w ort, unit) action" where
  "Env_RegisterExecutionProviderLibrary A p registration_name path =
     do_call A OrtApi ''RegisterExecutionProviderLibrary'' [Ptr p, Str registration_name, Str (c_str path)]"

definition Env_UnregisterExecutionProviderLibrary ::
  "'w api \<Rightarrow> ptr \<Rightarrow> string \<Rightarrow> ('w ort, unit) action" where
  "Env_UnregisterExecutionProviderLibrary A p registration_name =
     do_call A OrtApi ''UnregisterExecutionProviderLibrary'' [Ptr p, Str registration_name]"

definition Env_SetPerSessionThreadPoolCallbacks ::
  "'w api \<Rightarrow> ptr \<Rightarrow> ptr \<Rightarrow> ('w ort, unit) action" where
  "Env_SetPerSessionThreadPoolCallbacks A p config =
     do_call A OrtApi ''SetPerSessionThreadPoolCallbacks'' [Ptr p, Ptr config]"

definition Env_GetEpDevices :: "'w api \<Rightarrow> ptr \<Rightarrow> ('w ort, ptr list) action" where
  "Env_GetEpDevices A p = get_ptrs A OrtApi ''GetEpDevices'' [Ptr p]"

definition Env_GetNumHardwareDevices :: "'w api \<Rightarrow> ptr \<Rightarrow> ('w ort, nat) action" where
  "Env_GetNumHardwareDevices A p = get_size A OrtApi ''GetNumHardwareDevices'' [Ptr p]"

definition Env_GetHardwareDevices :: "'w api \<Rightarrow> ptr \<Rightarrow> ('w ort, ptr list) action" where
  "Env_GetHardwareDevices A p =
     mbind (get_size A OrtApi ''GetNumHardwareDevices'' [Ptr p]) (fill_ptrs A OrtApi ''GetHardwareDevices'' [Ptr p])"

definition Env_GetHardwareDeviceEpIncompatibilityDetails ::
  "'w api \<Rightarrow> ptr \<Rightarrow> string \<Rightarrow> ptr \<Rightarrow> ('w ort, ptr) action" where
  "Env_GetHardwareDeviceEpIncompatibilityDetails A p ep_name hw =
     get_ptr A OrtApi ''GetHardwareDeviceEpIncompatibilityDetails'' [Ptr p, Str ep_name, Ptr hw]"

section \<open>DeviceEpIncompatibilityDetails\<close>

definition DeviceEpIncompatibilityDetails_GetReasonsBitmask ::
  "'w api \<Rightarrow> ptr \<Rightarrow> ('w ort, int) action" where
  "DeviceEpIncompatibilityDetails_GetReasonsBitmask A p =
     get_num A OrtApi ''DeviceEpIncompatibilityDetails_GetReasonsBitmask'' [Ptr p]"

definition DeviceEpIncompatibilityDetails_GetNotes ::
  "'w api \<Rightarrow> ptr \<Rightarrow> ('w ort, string option) action" where
  "DeviceEpIncompatibilityDetails_GetNotes A p =
     get_cstr A OrtApi ''DeviceEpIncompatibilityDetails_GetNotes'' [Ptr p]"

definition DeviceEpIncompatibilityDetails_GetErrorCode ::
  "'w api \<Rightarrow> ptr \<Rightarrow> ('w ort, int) action" where
  "DeviceEpIncompatibilityDetails_GetErrorCode A p =
     get_num A OrtApi ''DeviceEpIncompatibilityDetails_GetErrorCode'' [Ptr p]"

section \<open>Env\<close>

definition Env_CopyTensors :: "'w api \<Rightarrow> ptr \<Rightarrow> ptr list \<Rightarrow> ptr list \<Rightarrow> ptr \<Rightarrow> ('w ort, ptr) action" where
  "Env_CopyTensors A p src_tensors dst_tensors stream =
     (if length src_tensors \<noteq> length dst_tensors
      then Status_make A ''Source and destination tensor vectors must have the same size'' (error_code ORT_INVALID_ARGUMENT)
      else if src_tensors = [] then mret 0
      else as_status A OrtApi ''CopyTensors''
        [Ptr p, Ptrs src_tensors, Ptrs dst_tensors, Ptr stream, Num (int (length src_tensors))])"

definition Env_CopyTensor :: "'w api \<Rightarrow> ptr \<Rightarrow> ptr \<Rightarrow> ptr \<Rightarrow> ptr \<Rightarrow> ('w ort, ptr) action" where
  "Env_CopyTensor A p src_tensor dst_tensor stream =
     as_status A OrtApi ''CopyTensors'' [Ptr p, Ptrs [src_tensor], Ptrs [dst_tensor], Ptr stream, Num 1]"

definition Env_CreateSharedAllocator ::
  "'w api \<Rightarrow> ptr \<Rightarrow> ptr \<Rightarrow> int \<Rightarrow> int
     \<Rightarrow> ptr \<Rightarrow> ('w ort, ptr) action" where
  "Env_CreateSharedAllocator A p ep_device mem_type allocator_type allocator_options =
     get_ptr A OrtApi ''CreateSharedAllocator'' [Ptr p, Ptr ep_device, Num mem_type, Num allocator_type,
       Ptr allocator_options]"

definition Env_GetSharedAllocator ::
  "'w api \<Rightarrow> ptr \<Rightarrow> ptr \<Rightarrow> ('w ort, ptr) action" where
  "Env_GetSharedAllocator A p mem_info = get_ptr A OrtApi ''GetSharedAllocator'' [Ptr p, Ptr mem_info]"

definition Env_ReleaseSharedAllocator ::
  "'w api \<Rightarrow> ptr \<Rightarrow> ptr \<Rightarrow> int \<Rightarrow> ('w ort, unit) action" where
  "Env_ReleaseSharedAllocator A p ep_device mem_type =
     do_call A OrtApi ''ReleaseSharedAllocator'' [Ptr p, Ptr ep_device, Num mem_type]"

section \<open>CustomOpDomain\<close>

definition CustomOpDomain_new :: "'w api \<Rightarrow> string \<Rightarrow> ('w ort, ptr) action" where
  "CustomOpDomain_new A dom_name = create A ''CustomOpDomain'' OrtApi ''CreateCustomOpDomain'' [Str dom_name]"

definition CustomOpDomain_Add ::
  "'w api \<Rightarrow> ptr \<Rightarrow> ptr \<Rightarrow> ('w ort, unit) action" where
  "CustomOpDomain_Add A p op = do_call A OrtApi ''CustomOpDomain_Add'' [Ptr p, Ptr op]"

definition GetModelCompatibilityForEpDevices :: "'w api \<Rightarrow> ptr list \<Rightarrow> string \<Rightarrow> ('w ort, int) action" where
  "GetModelCompatibilityForEpDevices A ep_devices compatibility_info =
     mthen (mguard (ep_devices = []) (OrtException ''ep_devices is empty'' (error_code ORT_INVALID_ARGUMENT)))
      (get_num A OrtApi ''GetModelCompatibilityForEpDevices''
        [Ptrs ep_devices, Num (int (length ep_devices)), Str compatibility_info])"

definition GetCompatibilityInfoFromModelAllocated ::
  "'w api \<Rightarrow> string \<Rightarrow> string \<Rightarrow> ptr
     \<Rightarrow> ('w ort, ptr \<times> string option) action" where
  "GetCompatibilityInfoFromModelAllocated A model_path ep_type allocator =
     get_allocated A OrtApi ''GetCompatibilityInfoFromModel'' [Str model_path, Str ep_type, Ptr allocator]"

definition GetCompatibilityInfoFromModelBytesAllocated ::
  "'w api \<Rightarrow> ptr \<Rightarrow> nat \<Rightarrow> string \<Rightarrow> ptr
     \<Rightarrow> ('w ort, ptr \<times> string option) action" where
  "GetCompatibilityInfoFromModelBytesAllocated A model_data model_data_length ep_type allocator =
     get_allocated A OrtApi ''GetCompatibilityInfoFromModelBytes'' [Ptr model_data,
       Num (int model_data_length), Str ep_type, Ptr allocator]"

section \<open>LoraAdapter\<close>

definition LoraAdapter_CreateLoraAdapter ::
  "'w api \<Rightarrow> string \<Rightarrow> ptr \<Rightarrow> ('w ort, ptr) action" where
  "LoraAdapter_CreateLoraAdapter A adapter_path allocator =
     get_ptr A OrtApi ''CreateLoraAdapter'' [Str (c_str adapter_path), Ptr allocator]"

definition LoraAdapter_CreateLoraAdapterFromArray ::
  "'w api \<Rightarrow> ptr \<Rightarrow> nat \<Rightarrow> ptr \<Rightarrow> ('w ort, ptr) action" where
  "LoraAdapter_CreateLoraAdapterFromArray A bytes num_bytes allocator =
     get_ptr A OrtApi ''CreateLoraAdapterFromArray'' [Ptr bytes, Num (int num_bytes), Ptr allocator]"


end
