(* ===== verification/Ort_Options.thy ===== *)
theory Ort_Options imports Ort_Env begin

text \<open>
  Run options, model compilation options and session options (\<open>onnxruntime_cxx_inline.h\<close>, lines 1189 to
  1804 and 2117 to 2140), with the configuration entries of custom operators.
\<close>

section \<open>RunOptions\<close>

definition RunOptions_new :: "'w api \<Rightarrow> ('w ort, ptr) action" where
  "RunOptions_new A = create A ''RunOptions'' OrtApi ''CreateRunOptions'' []"

definition RunOptions_SetRunLogVerbosityLevel ::
  "'w api \<Rightarrow> ptr \<Rightarrow> int \<Rightarrow> ('w ort, unit) action" where
  "RunOptions_SetRunLogVerbosityLevel A p lvl =
     do_call A OrtApi ''RunOptionsSetRunLogVerbosityLevel'' [Ptr p, Num lvl]"

definition RunOptions_SetRunLogSeverityLevel ::
  "'w api \<Rightarrow> ptr \<Rightarrow> int \<Rightarrow> ('w ort, unit) action" where
  "RunOptions_SetRunLogSeverityLevel A p lvl =
     do_call A OrtApi ''RunOptionsSetRunLogSeverityLevel'' [Ptr p, Num lvl]"

definition RunOptions_GetRunLogVerbosityLevel ::
  "'w api \<Rightarrow> ptr \<Rightarrow> ('w ort, int) action" where
  "RunOptions_GetRunLogVerbosityLevel A p = get_num A OrtApi ''RunOptionsGetRunLogVerbosityLevel'' [Ptr p]"

definition RunOptions_GetRunLogSeverityLevel ::
  "'w api \<Rightarrow> ptr \<Rightarrow> ('w ort, int) action" where
  "RunOptions_GetRunLogSeverityLevel A p = get_num A OrtApi ''RunOptionsGetRunLogSeverityLevel'' [Ptr p]"

definition RunOptions_SetRunTag ::
  "'w api \<Rightarrow> ptr \<Rightarrow> string \<Rightarrow> ('w ort, unit) action" where
  "RunOptions_SetRunTag A p run_tag = do_call A OrtApi ''RunOptionsSetRunTag'' [Ptr p, Str run_tag]"

definition RunOptions_GetRunTag ::
  "'w api \<Rightarrow> ptr \<Rightarrow> ('w ort, string option) action" where
  "RunOptions_GetRunTag A p = get_cstr A OrtApi ''RunOptionsGetRunTag'' [Ptr p]"

definition RunOptions_AddConfigEntry ::
  "'w api \<Rightarrow> ptr \<Rightarrow> string \<Rightarrow> string \<Rightarrow> ('w ort, unit) action" where
  "RunOptions_AddConfigEntry A p config_key config_value =
     do_call A OrtApi ''AddRunConfigEntry'' [Ptr p, Str config_key, Str config_value]"

definition RunOptions_GetConfigEntry ::
  "'w api \<Rightarrow> ptr \<Rightarrow> string \<Rightarrow> ('w ort, string option) action" where
  "RunOptions_GetConfigEntry A p config_key =
     mbind (plain A OrtApi ''GetRunConfigEntry'' [Ptr p, Str config_key]) (\<lambda>r. mret (r_str r 0))"

definition RunOptions_SetTerminate :: "'w api \<Rightarrow> ptr \<Rightarrow> ('w ort, unit) action" where
  "RunOptions_SetTerminate A p = do_call A OrtApi ''RunOptionsSetTerminate'' [Ptr p]"

definition RunOptions_UnsetTerminate :: "'w api \<Rightarrow> ptr \<Rightarrow> ('w ort, unit) action" where
  "RunOptions_UnsetTerminate A p = do_call A OrtApi ''RunOptionsUnsetTerminate'' [Ptr p]"

definition RunOptions_AddActiveLoraAdapter ::
  "'w api \<Rightarrow> ptr \<Rightarrow> ptr \<Rightarrow> ('w ort, unit) action" where
  "RunOptions_AddActiveLoraAdapter A p adapter =
     do_call A OrtApi ''RunOptionsAddActiveLoraAdapter'' [Ptr p, Ptr adapter]"

definition RunOptions_SetSyncStream ::
  "'w api \<Rightarrow> ptr \<Rightarrow> ptr \<Rightarrow> ('w ort, unit) action" where
  "RunOptions_SetSyncStream A p stream =
     mbind (plain A OrtApi ''RunOptionsSetSyncStream'' [Ptr p, Ptr stream]) (\<lambda>_. mret ())"

definition RunOptions_EnableProfiling ::
  "'w api \<Rightarrow> ptr \<Rightarrow> string \<Rightarrow> ('w ort, unit) action" where
  "RunOptions_EnableProfiling A p profile_file_prefix =
     do_call A OrtApi ''RunOptionsEnableProfiling'' [Ptr p, Str profile_file_prefix]"

definition RunOptions_DisableProfiling :: "'w api \<Rightarrow> ptr \<Rightarrow> ('w ort, unit) action" where
  "RunOptions_DisableProfiling A p = do_call A OrtApi ''RunOptionsDisableProfiling'' [Ptr p]"

section \<open>ModelCompilationOptions\<close>

definition ModelCompilationOptions_new ::
  "'w api \<Rightarrow> ptr \<Rightarrow> ptr \<Rightarrow> ('w ort, ptr) action" where
  "ModelCompilationOptions_new A env session_options =
     create A ''ModelCompilationOptions'' CompileApi ''CreateModelCompilationOptionsFromSessionOptions'' [Ptr env, Ptr session_options]"

definition ModelCompilationOptions_new_2 ::
  "'w api \<Rightarrow> ptr \<Rightarrow> ptr \<Rightarrow> ('w ort, ptr) action" where
  "ModelCompilationOptions_new_2 A env session_options =
     create A ''ModelCompilationOptions'' CompileApi ''CreateModelCompilationOptionsFromSessionOptions'' [Ptr env, Ptr session_options]"

definition CompileModel ::
  "'w api \<Rightarrow> ptr \<Rightarrow> ptr \<Rightarrow> ('w ort, ptr) action" where
  "CompileModel A env model_compilation_options =
     as_status A CompileApi ''CompileModel'' [Ptr env, Ptr model_compilation_options]"

definition ModelCompilationOptions_SetInputModelPath ::
  "'w api \<Rightarrow> ptr \<Rightarrow> string \<Rightarrow> ('w ort, unit) action" where
  "ModelCompilationOptions_SetInputModelPath A p input_model_path =
     do_call A CompileApi ''ModelCompilationOptions_SetInputModelPath'' [Ptr p, Str input_model_path]"

definition ModelCompilationOptions_SetInputModelFromBuffer ::
  "'w api \<Rightarrow> ptr \<Rightarrow> ptr \<Rightarrow> nat \<Rightarrow> ('w ort, unit) action" where
  "ModelCompilationOptions_SetInputModelFromBuffer A p input_model_data input_model_data_size =
     do_call A CompileApi ''ModelCompilationOptions_SetInputModelFromBuffer'' [Ptr p, Ptr input_model_data,
       Num (int input_model_data_size)]"

definition ModelCompilationOptions_SetOutputModelPath ::
  "'w api \<Rightarrow> ptr \<Rightarrow> string \<Rightarrow> ('w ort, unit) action" where
  "ModelCompilationOptions_SetOutputModelPath A p output_model_path =
     do_call A CompileApi ''ModelCompilationOptions_SetOutputModelPath'' [Ptr p, Str output_model_path]"

definition ModelCompilationOptions_SetEpContextBinaryInformation ::
  "'w api \<Rightarrow> ptr \<Rightarrow> string \<Rightarrow> string \<Rightarrow> ('w ort, unit) action" where
  "ModelCompilationOptions_SetEpContextBinaryInformation A p output_directory model_name =
     do_call A CompileApi ''ModelCompilationOptions_SetEpContextBinaryInformation'' [Ptr p,
       Str output_directory, Str model_name]"

definition ModelCompilationOptions_SetOutputModelExternalInitializersFile ::
  "'w api \<Rightarrow> ptr \<Rightarrow> string \<Rightarrow> nat \<Rightarrow> ('w ort, unit) action" where
  "ModelCompilationOptions_SetOutputModelExternalInitializersFile A p file_path initializer_size_threshold =
     do_call A CompileApi ''ModelCompilationOptions_SetOutputModelExternalInitializersFile'' [Ptr p,
       Str file_path, Num (int initializer_size_threshold)]"

definition ModelCompilationOptions_SetOutputModelGetInitializerLocationFunc ::
  "'w api \<Rightarrow> ptr \<Rightarrow> ptr \<Rightarrow> ptr \<Rightarrow> ('w ort, unit) action" where
  "ModelCompilationOptions_SetOutputModelGetInitializerLocationFunc A p get_initializer_location_func st =
     do_call A CompileApi ''ModelCompilationOptions_SetOutputModelGetInitializerLocationFunc'' [Ptr p,
       Ptr get_initializer_location_func, Ptr st]"

definition ModelCompilationOptions_SetOutputModelBuffer ::
  "'w api \<Rightarrow> ptr \<Rightarrow> ptr \<Rightarrow> ptr \<Rightarrow> ptr \<Rightarrow> ('w ort, unit) action" where
  "ModelCompilationOptions_SetOutputModelBuffer A p allocator output_model_buffer_ptr output_model_buffer_size_ptr =
     do_call A CompileApi ''ModelCompilationOptions_SetOutputModelBuffer''
       [Ptr p, Ptr allocator, Ptr output_model_buffer_ptr, Ptr output_model_buffer_size_ptr]"

definition ModelCompilationOptions_SetOutputModelWriteFunc ::
  "'w api \<Rightarrow> ptr \<Rightarrow> ptr \<Rightarrow> ptr \<Rightarrow> ('w ort, unit) action" where
  "ModelCompilationOptions_SetOutputModelWriteFunc A p write_func st =
     do_call A CompileApi ''ModelCompilationOptions_SetOutputModelWriteFunc'' [Ptr p, Ptr write_func, Ptr st]"

definition ModelCompilationOptions_SetEpContextEmbedMode ::
  "'w api \<Rightarrow> ptr \<Rightarrow> bool \<Rightarrow> ('w ort, unit) action" where
  "ModelCompilationOptions_SetEpContextEmbedMode A p embed_ep_context_in_model =
     do_call A CompileApi ''ModelCompilationOptions_SetEpContextEmbedMode'' [Ptr p,
       Num (of_bool embed_ep_context_in_model)]"

definition ModelCompilationOptions_SetFlags ::
  "'w api \<Rightarrow> ptr \<Rightarrow> int \<Rightarrow> ('w ort, unit) action" where
  "ModelCompilationOptions_SetFlags A p flags =
     do_call A CompileApi ''ModelCompilationOptions_SetFlags'' [Ptr p, Num flags]"

definition ModelCompilationOptions_SetGraphOptimizationLevel ::
  "'w api \<Rightarrow> ptr \<Rightarrow> int \<Rightarrow> ('w ort, unit) action" where
  "ModelCompilationOptions_SetGraphOptimizationLevel A p graph_optimization_level =
     do_call A CompileApi ''ModelCompilationOptions_SetGraphOptimizationLevel'' [Ptr p,
       Num graph_optimization_level]"

definition ModelCompilationOptions_SetInputModel ::
  "'w api \<Rightarrow> ptr \<Rightarrow> ptr \<Rightarrow> ('w ort, unit) action" where
  "ModelCompilationOptions_SetInputModel A p model =
     do_call A CompileApi ''ModelCompilationOptions_SetInputModel'' [Ptr p, Ptr model]"

section \<open>SessionOptions\<close>

definition SessionOptions_Clone :: "'w api \<Rightarrow> ptr \<Rightarrow> ('w ort, ptr) action" where
  "SessionOptions_Clone A p = get_ptr A OrtApi ''CloneSessionOptions'' [Ptr p]"

definition SessionOptions_GetConfigEntry :: "'w api \<Rightarrow> ptr \<Rightarrow> string \<Rightarrow> ('w ort, string) action" where
  "SessionOptions_GetConfigEntry A p config_key = two_phase A OrtApi ''GetSessionConfigEntry'' [Ptr p, Str config_key]"

definition SessionOptions_HasConfigEntry ::
  "'w api \<Rightarrow> ptr \<Rightarrow> string \<Rightarrow> ('w ort, bool) action" where
  "SessionOptions_HasConfigEntry A p config_key =
     get_bool A OrtApi ''HasSessionConfigEntry'' [Ptr p, Str config_key]"

definition SessionOptions_GetConfigEntryOrDefault ::
  "'w api \<Rightarrow> ptr \<Rightarrow> string \<Rightarrow> string \<Rightarrow> ('w ort, string) action" where
  "SessionOptions_GetConfigEntryOrDefault A p config_key def =
     mbind (SessionOptions_HasConfigEntry A p config_key) (\<lambda>has.
     if \<not> has then mret def else SessionOptions_GetConfigEntry A p config_key)"

definition SessionOptions_GetMemPatternEnabled ::
  "'w api \<Rightarrow> ptr \<Rightarrow> ('w ort, bool) action" where
  "SessionOptions_GetMemPatternEnabled A p = get_bool A OrtApi ''GetMemPatternEnabled'' [Ptr p]"

definition SessionOptions_GetExecutionMode ::
  "'w api \<Rightarrow> ptr \<Rightarrow> ('w ort, int) action" where
  "SessionOptions_GetExecutionMode A p = get_num A OrtApi ''GetSessionExecutionMode'' [Ptr p]"

definition SessionOptions_SetIntraOpNumThreads ::
  "'w api \<Rightarrow> ptr \<Rightarrow> int \<Rightarrow> ('w ort, unit) action" where
  "SessionOptions_SetIntraOpNumThreads A p intra_op_num_threads =
     do_call A OrtApi ''SetIntraOpNumThreads'' [Ptr p, Num intra_op_num_threads]"

definition SessionOptions_SetInterOpNumThreads ::
  "'w api \<Rightarrow> ptr \<Rightarrow> int \<Rightarrow> ('w ort, unit) action" where
  "SessionOptions_SetInterOpNumThreads A p inter_op_num_threads =
     do_call A OrtApi ''SetInterOpNumThreads'' [Ptr p, Num inter_op_num_threads]"

definition SessionOptions_SetGraphOptimizationLevel ::
  "'w api \<Rightarrow> ptr \<Rightarrow> int \<Rightarrow> ('w ort, unit) action" where
  "SessionOptions_SetGraphOptimizationLevel A p graph_optimization_level =
     do_call A OrtApi ''SetSessionGraphOptimizationLevel'' [Ptr p, Num graph_optimization_level]"

definition SessionOptions_SetDeterministicCompute ::
  "'w api \<Rightarrow> ptr \<Rightarrow> bool \<Rightarrow> ('w ort, unit) action" where
  "SessionOptions_SetDeterministicCompute A p val =
     do_call A OrtApi ''SetDeterministicCompute'' [Ptr p, Num (of_bool val)]"

definition SessionOptions_SetOptimizedModelFilePath ::
  "'w api \<Rightarrow> ptr \<Rightarrow> string \<Rightarrow> ('w ort, unit) action" where
  "SessionOptions_SetOptimizedModelFilePath A p optimized_model_filepath =
     do_call A OrtApi ''SetOptimizedModelFilePath'' [Ptr p, Str optimized_model_filepath]"

definition SessionOptions_EnableProfiling ::
  "'w api \<Rightarrow> ptr \<Rightarrow> string \<Rightarrow> ('w ort, unit) action" where
  "SessionOptions_EnableProfiling A p profile_file_prefix =
     do_call A OrtApi ''EnableProfiling'' [Ptr p, Str profile_file_prefix]"

definition SessionOptions_DisableProfiling ::
  "'w api \<Rightarrow> ptr \<Rightarrow> ('w ort, unit) action" where
  "SessionOptions_DisableProfiling A p = do_call A OrtApi ''DisableProfiling'' [Ptr p]"

definition SessionOptions_EnableOrtCustomOps ::
  "'w api \<Rightarrow> ptr \<Rightarrow> ('w ort, unit) action" where
  "SessionOptions_EnableOrtCustomOps A p = do_call A OrtApi ''EnableOrtCustomOps'' [Ptr p]"

definition SessionOptions_EnableMemPattern ::
  "'w api \<Rightarrow> ptr \<Rightarrow> ('w ort, unit) action" where
  "SessionOptions_EnableMemPattern A p = do_call A OrtApi ''EnableMemPattern'' [Ptr p]"

definition SessionOptions_DisableMemPattern ::
  "'w api \<Rightarrow> ptr \<Rightarrow> ('w ort, unit) action" where
  "SessionOptions_DisableMemPattern A p = do_call A OrtApi ''DisableMemPattern'' [Ptr p]"

definition SessionOptions_EnableCpuMemArena ::
  "'w api \<Rightarrow> ptr \<Rightarrow> ('w ort, unit) action" where
  "SessionOptions_EnableCpuMemArena A p = do_call A OrtApi ''EnableCpuMemArena'' [Ptr p]"

definition SessionOptions_DisableCpuMemArena ::
  "'w api \<Rightarrow> ptr \<Rightarrow> ('w ort, unit) action" where
  "SessionOptions_DisableCpuMemArena A p = do_call A OrtApi ''DisableCpuMemArena'' [Ptr p]"

definition SessionOptions_SetExecutionMode ::
  "'w api \<Rightarrow> ptr \<Rightarrow> int \<Rightarrow> ('w ort, unit) action" where
  "SessionOptions_SetExecutionMode A p execution_mode =
     do_call A OrtApi ''SetSessionExecutionMode'' [Ptr p, Num execution_mode]"

definition SessionOptions_SetLoadCancellationFlag ::
  "'w api \<Rightarrow> ptr \<Rightarrow> bool \<Rightarrow> ('w ort, unit) action" where
  "SessionOptions_SetLoadCancellationFlag A p val =
     do_call A OrtApi ''SessionOptionsSetLoadCancellationFlag'' [Ptr p, Num (of_bool val)]"

definition SessionOptions_SetLogId ::
  "'w api \<Rightarrow> ptr \<Rightarrow> string \<Rightarrow> ('w ort, unit) action" where
  "SessionOptions_SetLogId A p logid = do_call A OrtApi ''SetSessionLogId'' [Ptr p, Str logid]"

definition SessionOptions_SetLogSeverityLevel ::
  "'w api \<Rightarrow> ptr \<Rightarrow> int \<Rightarrow> ('w ort, unit) action" where
  "SessionOptions_SetLogSeverityLevel A p lvl =
     do_call A OrtApi ''SetSessionLogSeverityLevel'' [Ptr p, Num lvl]"

definition SessionOptions_Add ::
  "'w api \<Rightarrow> ptr \<Rightarrow> ptr \<Rightarrow> ('w ort, unit) action" where
  "SessionOptions_Add A p custom_op_domain =
     do_call A OrtApi ''AddCustomOpDomain'' [Ptr p, Ptr custom_op_domain]"

definition SessionOptions_AddConfigEntry ::
  "'w api \<Rightarrow> ptr \<Rightarrow> string \<Rightarrow> string \<Rightarrow> ('w ort, unit) action" where
  "SessionOptions_AddConfigEntry A p config_key config_value =
     do_call A OrtApi ''AddSessionConfigEntry'' [Ptr p, Str config_key, Str config_value]"

definition SessionOptions_AddInitializer ::
  "'w api \<Rightarrow> ptr \<Rightarrow> string \<Rightarrow> ptr \<Rightarrow> ('w ort, unit) action" where
  "SessionOptions_AddInitializer A p nm ort_val =
     do_call A OrtApi ''AddInitializer'' [Ptr p, Str nm, Ptr ort_val]"

definition SessionOptions_DisablePerSessionThreads ::
  "'w api \<Rightarrow> ptr \<Rightarrow> ('w ort, unit) action" where
  "SessionOptions_DisablePerSessionThreads A p = do_call A OrtApi ''DisablePerSessionThreads'' [Ptr p]"

definition SessionOptions_AddExternalInitializers ::
  "'w api \<Rightarrow> ptr \<Rightarrow> string list \<Rightarrow> ptr list \<Rightarrow> ('w ort, unit) action" where
  "SessionOptions_AddExternalInitializers A p names ort_values =
     mthen (mguard (length names \<noteq> length ort_values)
       (OrtException ''Expecting names and ort_values to have the same length'' (error_code ORT_INVALID_ARGUMENT)))
      (do_call A OrtApi ''AddExternalInitializers''
        [Ptr p, CStrs (map c_str names), Ptrs ort_values, Num (int (length names))])"

definition SessionOptions_AddExternalInitializersFromFilesInMemory ::
  "'w api \<Rightarrow> ptr \<Rightarrow> string list \<Rightarrow> ptr list \<Rightarrow> nat list \<Rightarrow> ('w ort, unit) action" where
  "SessionOptions_AddExternalInitializersFromFilesInMemory A p file_names buffer_array file_lengths =
     mthen (mguard (length file_names \<noteq> length buffer_array)
       (OrtException ''Expecting names and buffer_array to have the same length'' (error_code ORT_INVALID_ARGUMENT)))
    (mthen (mguard (length file_names \<noteq> length file_lengths)
       (OrtException ''Expecting names and file_lengths to have the same length'' (error_code ORT_INVALID_ARGUMENT)))
      (do_call A OrtApi ''AddExternalInitializersFromFilesInMemory''
        [Ptr p, CStrs (map c_str file_names), Ptrs buffer_array, Nums (map int file_lengths),
         Num (int (length file_names))]))"

definition SessionOptions_AppendExecutionProvider_CPU :: "'w api \<Rightarrow> ptr \<Rightarrow> int \<Rightarrow> ('w ort, unit) action" where
  "SessionOptions_AppendExecutionProvider_CPU A p use_arena =
     do_call A OrtApi ''OrtSessionOptionsAppendExecutionProvider_CPU'' [Ptr p, Num use_arena]"

definition SessionOptions_AppendExecutionProvider_CUDA ::
  "'w api \<Rightarrow> ptr \<Rightarrow> ptr \<Rightarrow> ('w ort, unit) action" where
  "SessionOptions_AppendExecutionProvider_CUDA A p provider_options =
     do_call A OrtApi ''SessionOptionsAppendExecutionProvider_CUDA'' [Ptr p, Ptr provider_options]"

definition SessionOptions_AppendExecutionProvider_CUDA_V2 ::
  "'w api \<Rightarrow> ptr \<Rightarrow> ptr \<Rightarrow> ('w ort, unit) action" where
  "SessionOptions_AppendExecutionProvider_CUDA_V2 A p provider_options =
     do_call A OrtApi ''SessionOptionsAppendExecutionProvider_CUDA_V2'' [Ptr p, Ptr provider_options]"

definition SessionOptions_AppendExecutionProvider_ROCM ::
  "'w api \<Rightarrow> ptr \<Rightarrow> ptr \<Rightarrow> ('w ort, unit) action" where
  "SessionOptions_AppendExecutionProvider_ROCM A p provider_options =
     do_call A OrtApi ''SessionOptionsAppendExecutionProvider_ROCM'' [Ptr p, Ptr provider_options]"

definition SessionOptions_AppendExecutionProvider_TensorRT ::
  "'w api \<Rightarrow> ptr \<Rightarrow> ptr \<Rightarrow> ('w ort, unit) action" where
  "SessionOptions_AppendExecutionProvider_TensorRT A p provider_options =
     do_call A OrtApi ''SessionOptionsAppendExecutionProvider_TensorRT'' [Ptr p, Ptr provider_options]"

definition SessionOptions_AppendExecutionProvider_TensorRT_V2 ::
  "'w api \<Rightarrow> ptr \<Rightarrow> ptr \<Rightarrow> ('w ort, unit) action" where
  "SessionOptions_AppendExecutionProvider_TensorRT_V2 A p provider_options =
     do_call A OrtApi ''SessionOptionsAppendExecutionProvider_TensorRT_V2'' [Ptr p, Ptr provider_options]"

definition SessionOptions_AppendExecutionProvider_MIGraphX ::
  "'w api \<Rightarrow> ptr \<Rightarrow> ptr \<Rightarrow> ('w ort, unit) action" where
  "SessionOptions_AppendExecutionProvider_MIGraphX A p provider_options =
     do_call A OrtApi ''SessionOptionsAppendExecutionProvider_MIGraphX'' [Ptr p, Ptr provider_options]"

definition SessionOptions_AppendExecutionProvider_CANN ::
  "'w api \<Rightarrow> ptr \<Rightarrow> ptr \<Rightarrow> ('w ort, unit) action" where
  "SessionOptions_AppendExecutionProvider_CANN A p provider_options =
     do_call A OrtApi ''SessionOptionsAppendExecutionProvider_CANN'' [Ptr p, Ptr provider_options]"

definition SessionOptions_AppendExecutionProvider_Dnnl ::
  "'w api \<Rightarrow> ptr \<Rightarrow> ptr \<Rightarrow> ('w ort, unit) action" where
  "SessionOptions_AppendExecutionProvider_Dnnl A p provider_options =
     do_call A OrtApi ''SessionOptionsAppendExecutionProvider_Dnnl'' [Ptr p, Ptr provider_options]"

definition SessionOptions_AppendExecutionProvider ::
  "'w api \<Rightarrow> ptr \<Rightarrow> string \<Rightarrow> (string \<times> string) list \<Rightarrow> ('w ort, unit) action" where
  "SessionOptions_AppendExecutionProvider A p provider_name provider_options =
     do_call A OrtApi ''SessionOptionsAppendExecutionProvider''
       ([Ptr p, Str (c_str provider_name)] @ kv_args provider_options)"

definition SessionOptionsAppendEP :: "'w api \<Rightarrow> ptr \<Rightarrow> ptr \<Rightarrow> ptr list \<Rightarrow> string option list \<Rightarrow> string option list
    \<Rightarrow> ('w ort, unit) action" where
  "SessionOptionsAppendEP A session_options env ep_devices ep_options_keys ep_options_values =
     do_call A OrtApi ''SessionOptionsAppendExecutionProvider_V2''
       [Ptr session_options, Ptr env, Ptrs ep_devices, Num (int (length ep_devices)),
        Strs ep_options_keys, Strs ep_options_values, Num (int (length ep_options_keys))]"

definition SessionOptions_AppendExecutionProvider_V2 ::
  "'w api \<Rightarrow> ptr \<Rightarrow> ptr \<Rightarrow> ptr list \<Rightarrow> ptr \<Rightarrow> ('w ort, unit) action" where
  "SessionOptions_AppendExecutionProvider_V2 A p env ep_devices ep_options =
     mbind (KeyValuePairs_GetKeyValuePairs_2 A ep_options) (\<lambda>(keys, vals).
     SessionOptionsAppendEP A p env ep_devices keys vals)"

definition SessionOptions_AppendExecutionProvider_V2_2 ::
  "'w api \<Rightarrow> ptr \<Rightarrow> ptr \<Rightarrow> ptr list \<Rightarrow> (string \<times> string) list \<Rightarrow> ('w ort, unit) action" where
  "SessionOptions_AppendExecutionProvider_V2_2 A p env ep_devices ep_options =
     SessionOptionsAppendEP A p env ep_devices
       (map (\<lambda>kv. Some (c_str (fst kv))) ep_options) (map (\<lambda>kv. Some (c_str (snd kv))) ep_options)"

definition SessionOptions_SetEpSelectionPolicy ::
  "'w api \<Rightarrow> ptr \<Rightarrow> int \<Rightarrow> ('w ort, unit) action" where
  "SessionOptions_SetEpSelectionPolicy A p policy =
     do_call A OrtApi ''SessionOptionsSetEpSelectionPolicy'' [Ptr p, Num policy]"

definition SessionOptions_SetEpSelectionPolicy_2 ::
  "'w api \<Rightarrow> ptr \<Rightarrow> ptr \<Rightarrow> ptr \<Rightarrow> ('w ort, unit) action" where
  "SessionOptions_SetEpSelectionPolicy_2 A p delegate st =
     do_call A OrtApi ''SessionOptionsSetEpSelectionPolicyDelegate'' [Ptr p, Ptr delegate, Ptr st]"

definition SessionOptions_SetCustomCreateThreadFn ::
  "'w api \<Rightarrow> ptr \<Rightarrow> ptr \<Rightarrow> ('w ort, unit) action" where
  "SessionOptions_SetCustomCreateThreadFn A p ort_custom_create_thread_fn =
     do_call A OrtApi ''SessionOptionsSetCustomCreateThreadFn'' [Ptr p, Ptr ort_custom_create_thread_fn]"

definition SessionOptions_SetCustomThreadCreationOptions ::
  "'w api \<Rightarrow> ptr \<Rightarrow> ptr \<Rightarrow> ('w ort, unit) action" where
  "SessionOptions_SetCustomThreadCreationOptions A p ort_custom_thread_creation_options =
     do_call A OrtApi ''SessionOptionsSetCustomThreadCreationOptions'' [Ptr p,
       Ptr ort_custom_thread_creation_options]"

definition SessionOptions_SetCustomJoinThreadFn ::
  "'w api \<Rightarrow> ptr \<Rightarrow> ptr \<Rightarrow> ('w ort, unit) action" where
  "SessionOptions_SetCustomJoinThreadFn A p ort_custom_join_thread_fn =
     do_call A OrtApi ''SessionOptionsSetCustomJoinThreadFn'' [Ptr p, Ptr ort_custom_join_thread_fn]"

definition SessionOptions_AppendExecutionProvider_OpenVINO ::
  "'w api \<Rightarrow> ptr \<Rightarrow> ptr \<Rightarrow> ('w ort, unit) action" where
  "SessionOptions_AppendExecutionProvider_OpenVINO A p provider_options =
     do_call A OrtApi ''SessionOptionsAppendExecutionProvider_OpenVINO'' [Ptr p, Ptr provider_options]"

definition SessionOptions_AppendExecutionProvider_OpenVINO_V2 ::
  "'w api \<Rightarrow> ptr \<Rightarrow> (string \<times> string) list \<Rightarrow> ('w ort, unit) action" where
  "SessionOptions_AppendExecutionProvider_OpenVINO_V2 A p provider_options =
     do_call A OrtApi ''SessionOptionsAppendExecutionProvider_OpenVINO_V2'' (Ptr p # kv_args provider_options)"

definition SessionOptions_AppendExecutionProvider_VitisAI ::
  "'w api \<Rightarrow> ptr \<Rightarrow> (string \<times> string) list \<Rightarrow> ('w ort, unit) action" where
  "SessionOptions_AppendExecutionProvider_VitisAI A p provider_options =
     do_call A OrtApi ''SessionOptionsAppendExecutionProvider_VitisAI'' (Ptr p # kv_args provider_options)"

definition MakeCustomOpConfigEntryKey :: "string \<Rightarrow> string \<Rightarrow> string" where
  "MakeCustomOpConfigEntryKey custom_op_name config = ''custom_op.'' @ custom_op_name @ ''.'' @ config"

text \<open>\<open>flat_configs_[key] = value\<close> on the flattened configuration entries.\<close>

fun put :: "string \<Rightarrow> string \<Rightarrow> (string \<times> string) list \<Rightarrow> (string \<times> string) list" where
  "put k v [] = [(k, v)]"
| "put k v ((k', v') # kvs) = (if k' = k then (k, v) # kvs else (k', v') # put k v kvs)"

definition CustomOpConfigs_AddConfig ::
  "(string \<times> string) list \<Rightarrow> string \<Rightarrow> string \<Rightarrow> string \<Rightarrow> (string \<times> string) list" where
  "CustomOpConfigs_AddConfig flat_configs custom_op_name config_key config_value =
     put (MakeCustomOpConfigEntryKey custom_op_name config_key) config_value flat_configs"

definition CustomOpConfigs_GetFlattenedConfigs :: "(string \<times> string) list \<Rightarrow> (string \<times> string) list" where
  "CustomOpConfigs_GetFlattenedConfigs flat_configs = flat_configs"

definition SessionOptions_RegisterCustomOpsLibrary ::
  "'w api \<Rightarrow> ptr \<Rightarrow> string \<Rightarrow> (string \<times> string) list \<Rightarrow> ('w ort, unit) action" where
  "SessionOptions_RegisterCustomOpsLibrary A p library_name custom_op_configs =
     mthen (mmap (\<lambda>(k, v). SessionOptions_AddConfigEntry A p (c_str k) (c_str v))
         (CustomOpConfigs_GetFlattenedConfigs custom_op_configs))
      (do_call A OrtApi ''RegisterCustomOpsLibrary_V2'' [Ptr p, Str library_name])"

definition SessionOptions_RegisterCustomOpsUsingFunction ::
  "'w api \<Rightarrow> ptr \<Rightarrow> string \<Rightarrow> ('w ort, unit) action" where
  "SessionOptions_RegisterCustomOpsUsingFunction A p registration_function_name =
     do_call A OrtApi ''RegisterCustomOpsUsingFunction'' [Ptr p, Str registration_function_name]"

definition SessionOptions_AddFreeDimensionOverride ::
  "'w api \<Rightarrow> ptr \<Rightarrow> string \<Rightarrow> int \<Rightarrow> ('w ort, unit) action" where
  "SessionOptions_AddFreeDimensionOverride A p dim_denotation dim_value =
     do_call A OrtApi ''AddFreeDimensionOverrideByName'' [Ptr p, Str dim_denotation, Num dim_value]"

definition SessionOptions_AddFreeDimensionOverrideByName ::
  "'w api \<Rightarrow> ptr \<Rightarrow> string \<Rightarrow> int \<Rightarrow> ('w ort, unit) action" where
  "SessionOptions_AddFreeDimensionOverrideByName A p dim_name dim_value =
     do_call A OrtApi ''AddFreeDimensionOverrideByName'' [Ptr p, Str dim_name, Num dim_value]"

definition SessionOptions_new :: "'w api \<Rightarrow> ('w ort, ptr) action" where
  "SessionOptions_new A = create A ''SessionOptions'' OrtApi ''CreateSessionOptions'' []"


end
