(* ===== verification/Ort_Session.thy ===== *)
theory Ort_Session imports Ort_Options begin

text \<open>
  Sessions and model metadata (\<open>onnxruntime_cxx_inline.h\<close>, lines 1806 to 2113 and 2142 to 2252): signature
  queries, names, runs, profiling and the constructors of \<open>Session\<close>.
\<close>

section \<open>Session\<close>

definition Session_GetInputCount :: "'w api \<Rightarrow> ptr \<Rightarrow> ('w ort, nat) action" where
  "Session_GetInputCount A p = get_size A OrtApi ''SessionGetInputCount'' [Ptr p]"

definition Session_GetOutputCount :: "'w api \<Rightarrow> ptr \<Rightarrow> ('w ort, nat) action" where
  "Session_GetOutputCount A p = get_size A OrtApi ''SessionGetOutputCount'' [Ptr p]"

definition Session_GetOverridableInitializerCount ::
  "'w api \<Rightarrow> ptr \<Rightarrow> ('w ort, nat) action" where
  "Session_GetOverridableInitializerCount A p =
     get_size A OrtApi ''SessionGetOverridableInitializerCount'' [Ptr p]"

text \<open>
  A name the runtime allocates: copied, then freed through the allocator. The overridable initializers
  are only copied.
\<close>

definition session_name :: "'w api \<Rightarrow> string \<Rightarrow> ptr \<Rightarrow> ptr \<Rightarrow> nat \<Rightarrow> ('w ort, string) action" where
  "session_name A fn p allocator i =
     mbind (checked A OrtApi fn [Ptr p, Num (int i), Ptr allocator]) (\<lambda>r.
     mbind (c_string (r_str r 0)) (\<lambda>nm.
     mthen (Allocator_Free A allocator (r_ptr r 0)) (mret nm)))"

definition Session_GetInputNames :: "'w api \<Rightarrow> ptr \<Rightarrow> ('w ort, string list) action" where
  "Session_GetInputNames A p =
     mbind (AllocatorWithDefaultOptions_new A) (\<lambda>allocator.
     mbind (Session_GetInputCount A p) (\<lambda>num_inputs.
     mmap (session_name A ''SessionGetInputName'' p allocator) [0..<num_inputs]))"

definition Session_GetOutputNames :: "'w api \<Rightarrow> ptr \<Rightarrow> ('w ort, string list) action" where
  "Session_GetOutputNames A p =
     mbind (AllocatorWithDefaultOptions_new A) (\<lambda>allocator.
     mbind (Session_GetOutputCount A p) (\<lambda>num_inputs.
     mmap (session_name A ''SessionGetOutputName'' p allocator) [0..<num_inputs]))"

definition Session_GetOverridableInitializerNames :: "'w api \<Rightarrow> ptr \<Rightarrow> ('w ort, string list) action" where
  "Session_GetOverridableInitializerNames A p =
     mbind (AllocatorWithDefaultOptions_new A) (\<lambda>allocator.
     mbind (Session_GetOverridableInitializerCount A p) (\<lambda>num_initializers.
     mmap (\<lambda>i. get_string A OrtApi ''SessionGetOverridableInitializerName'' [Ptr p, Num (int i), Ptr allocator])
       [0..<num_initializers]))"

definition Session_GetMemoryInfoForInputs :: "'w api \<Rightarrow> ptr \<Rightarrow> ('w ort, ptr list) action" where
  "Session_GetMemoryInfoForInputs A p =
     mbind (Session_GetInputCount A p) (fill_ptrs A OrtApi ''SessionGetMemoryInfoForInputs'' [Ptr p])"

definition Session_GetMemoryInfoForOutputs :: "'w api \<Rightarrow> ptr \<Rightarrow> ('w ort, ptr list) action" where
  "Session_GetMemoryInfoForOutputs A p =
     mbind (Session_GetOutputCount A p) (fill_ptrs A OrtApi ''SessionGetMemoryInfoForOutputs'' [Ptr p])"

definition Session_GetInputNameAllocated ::
  "'w api \<Rightarrow> ptr \<Rightarrow> nat \<Rightarrow> ptr
     \<Rightarrow> ('w ort, ptr \<times> string option) action" where
  "Session_GetInputNameAllocated A p index allocator =
     get_allocated A OrtApi ''SessionGetInputName'' [Ptr p, Num (int index), Ptr allocator]"

definition Session_GetOutputNameAllocated ::
  "'w api \<Rightarrow> ptr \<Rightarrow> nat \<Rightarrow> ptr
     \<Rightarrow> ('w ort, ptr \<times> string option) action" where
  "Session_GetOutputNameAllocated A p index allocator =
     get_allocated A OrtApi ''SessionGetOutputName'' [Ptr p, Num (int index), Ptr allocator]"

definition Session_GetOverridableInitializerNameAllocated ::
  "'w api \<Rightarrow> ptr \<Rightarrow> nat \<Rightarrow> ptr
     \<Rightarrow> ('w ort, ptr \<times> string option) action" where
  "Session_GetOverridableInitializerNameAllocated A p index allocator =
     get_allocated A OrtApi ''SessionGetOverridableInitializerName'' [Ptr p, Num (int index), Ptr allocator]"

definition Session_GetEpDeviceForInputs :: "'w api \<Rightarrow> ptr \<Rightarrow> ('w ort, ptr list) action" where
  "Session_GetEpDeviceForInputs A p =
     mbind (Session_GetInputCount A p) (fill_ptrs A OrtApi ''SessionGetEpDeviceForInputs'' [Ptr p])"

definition Session_GetEpDeviceForOutputs :: "'w api \<Rightarrow> ptr \<Rightarrow> ('w ort, ptr list) action" where
  "Session_GetEpDeviceForOutputs A p =
     mbind (Session_GetOutputCount A p) (fill_ptrs A OrtApi ''SessionGetEpDeviceForOutputs'' [Ptr p])"

definition Session_GetProfilingStartTimeNs ::
  "'w api \<Rightarrow> ptr \<Rightarrow> ('w ort, int) action" where
  "Session_GetProfilingStartTimeNs A p = get_num A OrtApi ''SessionGetProfilingStartTimeNs'' [Ptr p]"

definition Session_GetModelMetadata :: "'w api \<Rightarrow> ptr \<Rightarrow> ('w ort, ptr) action" where
  "Session_GetModelMetadata A p = get_ptr A OrtApi ''SessionGetModelMetadata'' [Ptr p]"

definition Session_GetInputTypeInfo ::
  "'w api \<Rightarrow> ptr \<Rightarrow> nat \<Rightarrow> ('w ort, ptr) action" where
  "Session_GetInputTypeInfo A p index = get_ptr A OrtApi ''SessionGetInputTypeInfo'' [Ptr p, Num (int index)]"

definition Session_GetOutputTypeInfo ::
  "'w api \<Rightarrow> ptr \<Rightarrow> nat \<Rightarrow> ('w ort, ptr) action" where
  "Session_GetOutputTypeInfo A p index = get_ptr A OrtApi ''SessionGetOutputTypeInfo'' [Ptr p, Num (int index)]"

definition Session_GetOverridableInitializerTypeInfo ::
  "'w api \<Rightarrow> ptr \<Rightarrow> nat \<Rightarrow> ('w ort, ptr) action" where
  "Session_GetOverridableInitializerTypeInfo A p index =
     get_ptr A OrtApi ''SessionGetOverridableInitializerTypeInfo'' [Ptr p, Num (int index)]"

definition Session_GetOpset ::
  "'w api \<Rightarrow> ptr \<Rightarrow> string \<Rightarrow> ('w ort, int) action" where
  "Session_GetOpset A p dom_name =
     get_num A ModelEditorApi ''SessionGetOpsetForDomain'' [Ptr p, Str (c_str dom_name)]"

text \<open>
  A \<open>std::vector\<close> of owning wrappers under construction: an exception destroys the elements it holds.
  The type information of each value is a temporary of its iteration.
\<close>

fun collect_owned :: "'w api \<Rightarrow> string \<Rightarrow> ('b \<Rightarrow> ('w ort, ptr) action) \<Rightarrow> 'b list \<Rightarrow> ('w ort, ptr list) action" where
  "collect_owned A k f [] = mret []"
| "collect_owned A k f (x # xs) =
     mbind (f x) (\<lambda>p. mbind (guarded A k p (collect_owned A k f xs)) (\<lambda>ps. mret (p # ps)))"

definition ValueInfo_new :: "'w api \<Rightarrow> string \<Rightarrow> ptr \<Rightarrow> ('w ort, ptr) action" where
  "ValueInfo_new A nm type_info =
     create A ''ValueInfo'' ModelEditorApi ''CreateValueInfo'' [Str (c_str nm), Ptr type_info]"

definition Session_GetInputs :: "'w api \<Rightarrow> ptr \<Rightarrow> ('w ort, ptr list) action" where
  "Session_GetInputs A p =
     mbind (Session_GetInputNames A p) (\<lambda>input_names.
     collect_owned A ''ValueInfo''
       (\<lambda>(i, nm). mbind (Session_GetInputTypeInfo A p i) (\<lambda>type_info.
          scoped A ''TypeInfo'' type_info (ValueInfo_new A nm type_info)))
       (zip [0..<length input_names] input_names))"

definition Session_GetOutputs :: "'w api \<Rightarrow> ptr \<Rightarrow> ('w ort, ptr list) action" where
  "Session_GetOutputs A p =
     mbind (Session_GetOutputNames A p) (\<lambda>output_names.
     collect_owned A ''ValueInfo''
       (\<lambda>(i, nm). mbind (Session_GetOutputTypeInfo A p i) (\<lambda>type_info.
          scoped A ''TypeInfo'' type_info (ValueInfo_new A nm type_info)))
       (zip [0..<length output_names] output_names))"

definition Session_GetEpGraphAssignmentInfo :: "'w api \<Rightarrow> ptr \<Rightarrow> ('w ort, ptr list) action" where
  "Session_GetEpGraphAssignmentInfo A p = get_ptrs A OrtApi ''Session_GetEpGraphAssignmentInfo'' [Ptr p]"

text \<open>
  \<open>Run\<close> into an array of values, and the form that returns a vector: its elements are null before the
  call, and when the call fails the vector is destroyed with whatever the runtime wrote into it.
\<close>

definition session_run :: "'w api \<Rightarrow> ptr \<Rightarrow> ptr \<Rightarrow> string list \<Rightarrow> ptr list \<Rightarrow> nat \<Rightarrow> string list \<Rightarrow> ptr list \<Rightarrow> nat
    \<Rightarrow> ('w ort, ptr list \<times> ptr) action" where
  "session_run A p run_options input_names input_values input_count output_names output_values output_count =
     mbind (api_call A OrtApi ''Run''
       [Ptr p, Ptr run_options, CStrs input_names, Ptrs input_values, Num (int input_count),
        CStrs output_names, Num (int output_count), Ptrs output_values]) (\<lambda>r.
     mret (filled output_count 0 (r_ptrs r 0), r_status r))"

definition Session_Run_2 :: "'w api \<Rightarrow> ptr \<Rightarrow> ptr \<Rightarrow> string list \<Rightarrow> ptr list \<Rightarrow> nat \<Rightarrow> string list \<Rightarrow> ptr list \<Rightarrow> nat
    \<Rightarrow> ('w ort, ptr list) action" where
  "Session_Run_2 A p run_options input_names input_values input_count output_names output_values output_count =
     mbind (session_run A p run_options input_names input_values input_count output_names output_values output_count)
       (\<lambda>(outs, st). mthen (ThrowOnError A st) (mret outs))"

definition Session_Run :: "'w api \<Rightarrow> ptr \<Rightarrow> ptr \<Rightarrow> string list \<Rightarrow> ptr list \<Rightarrow> nat \<Rightarrow> string list \<Rightarrow> nat
    \<Rightarrow> ('w ort, ptr list) action" where
  "Session_Run A p run_options input_names input_values input_count output_names output_count =
     mbind (session_run A p run_options input_names input_values input_count output_names
         (replicate output_count 0) output_count)
       (\<lambda>(outs, st). mthen (mcatch (ThrowOnError A st)
          (\<lambda>e. mthen (mmap (OrtRelease A ''Value'') outs) (mthrow e))) (mret outs))"

definition Session_Run_3 ::
  "'w api \<Rightarrow> ptr \<Rightarrow> ptr \<Rightarrow> ptr \<Rightarrow> ('w ort, unit) action" where
  "Session_Run_3 A p run_options io_binding =
     do_call A OrtApi ''RunWithBinding'' [Ptr p, Ptr run_options, Ptr io_binding]"

definition Session_RunAsync :: "'w api \<Rightarrow> ptr \<Rightarrow> ptr \<Rightarrow> string list \<Rightarrow> ptr list \<Rightarrow> nat \<Rightarrow> string list \<Rightarrow> ptr list \<Rightarrow> nat
    \<Rightarrow> ptr \<Rightarrow> ptr \<Rightarrow> ('w ort, unit) action" where
  "Session_RunAsync A p run_options input_names input_values input_count output_names output_values output_count
     callback_fn user_data =
     do_call A OrtApi ''RunAsync''
       [Ptr p, Ptr run_options, CStrs input_names, Ptrs input_values, Num (int input_count),
        CStrs output_names, Num (int output_count), Ptrs output_values, Ptr callback_fn, Ptr user_data]"

definition Session_EndProfilingAllocated ::
  "'w api \<Rightarrow> ptr \<Rightarrow> ptr \<Rightarrow> ('w ort, ptr \<times> string option) action" where
  "Session_EndProfilingAllocated A p allocator =
     get_allocated A OrtApi ''SessionEndProfiling'' [Ptr p, Ptr allocator]"

definition Session_SetEpDynamicOptions :: "'w api \<Rightarrow> ptr \<Rightarrow> ptr \<Rightarrow> ptr \<Rightarrow> nat \<Rightarrow> ('w ort, unit) action" where
  "Session_SetEpDynamicOptions A p keys vals kv_len =
     do_call A OrtApi ''SetEpDynamicOptions'' [Ptr p, Ptr keys, Ptr vals, Num (int kv_len)]"

definition Session_FinalizeModelEditorSession :: "'w api \<Rightarrow> ptr \<Rightarrow> ptr \<Rightarrow> ptr \<Rightarrow> ptr \<Rightarrow> ('w ort, unit) action" where
  "Session_FinalizeModelEditorSession A p model_handle opts prepacked_weights_container =
     mthen (do_call A ModelEditorApi ''ApplyModelToModelEditorSession'' [Ptr p, Ptr model_handle])
      (do_call A ModelEditorApi ''FinalizeModelEditorSession'' [Ptr p, Ptr opts, Ptr prepacked_weights_container])"

definition Session_ReleaseCapturedGraph ::
  "'w api \<Rightarrow> ptr \<Rightarrow> int \<Rightarrow> ('w ort, unit) action" where
  "Session_ReleaseCapturedGraph A p graph_annotation_id =
     do_call A OrtApi ''SessionReleaseCapturedGraph'' [Ptr p, Num graph_annotation_id]"

definition Session_new ::
  "'w api \<Rightarrow> ptr \<Rightarrow> string \<Rightarrow> ptr \<Rightarrow> ('w ort, ptr) action" where
  "Session_new A env model_path opts =
     create A ''Session'' OrtApi ''CreateSession'' [Ptr env, Str model_path, Ptr opts]"

definition Session_new_2 ::
  "'w api \<Rightarrow> ptr \<Rightarrow> string \<Rightarrow> ptr \<Rightarrow> ptr
     \<Rightarrow> ('w ort, ptr) action" where
  "Session_new_2 A env model_path opts prepacked_weights_container =
     create A ''Session'' OrtApi ''CreateSessionWithPrepackedWeightsContainer'' [Ptr env, Str model_path,
       Ptr opts, Ptr prepacked_weights_container]"

definition Session_new_3 ::
  "'w api \<Rightarrow> ptr \<Rightarrow> ptr \<Rightarrow> nat \<Rightarrow> ptr
     \<Rightarrow> ('w ort, ptr) action" where
  "Session_new_3 A env model_data model_data_length opts =
     create A ''Session'' OrtApi ''CreateSessionFromArray'' [Ptr env, Ptr model_data,
       Num (int model_data_length), Ptr opts]"

definition Session_new_4 ::
  "'w api \<Rightarrow> ptr \<Rightarrow> ptr \<Rightarrow> nat \<Rightarrow> ptr
     \<Rightarrow> ptr \<Rightarrow> ('w ort, ptr) action" where
  "Session_new_4 A env model_data model_data_length opts prepacked_weights_container =
     create A ''Session'' OrtApi ''CreateSessionFromArrayWithPrepackedWeightsContainer'' [Ptr env,
       Ptr model_data, Num (int model_data_length), Ptr opts, Ptr prepacked_weights_container]"

definition Session_new_5 ::
  "'w api \<Rightarrow> ptr \<Rightarrow> ptr \<Rightarrow> ptr \<Rightarrow> ('w ort, ptr) action" where
  "Session_new_5 A env model opts =
     create A ''Session'' ModelEditorApi ''CreateSessionFromModel'' [Ptr env, Ptr model, Ptr opts]"

definition Session_CreateModelEditorSession ::
  "'w api \<Rightarrow> ptr \<Rightarrow> string \<Rightarrow> ptr \<Rightarrow> ('w ort, ptr) action" where
  "Session_CreateModelEditorSession A env model_path opts =
     get_ptr A ModelEditorApi ''CreateModelEditorSession'' [Ptr env, Str model_path, Ptr opts]"

definition Session_CreateModelEditorSession_2 ::
  "'w api \<Rightarrow> ptr \<Rightarrow> ptr \<Rightarrow> nat \<Rightarrow> ptr
     \<Rightarrow> ('w ort, ptr) action" where
  "Session_CreateModelEditorSession_2 A env model_data model_data_length opts =
     get_ptr A ModelEditorApi ''CreateModelEditorSessionFromArray'' [Ptr env, Ptr model_data,
       Num (int model_data_length), Ptr opts]"

section \<open>ModelMetadata\<close>

definition ModelMetadata_GetProducerNameAllocated ::
  "'w api \<Rightarrow> ptr \<Rightarrow> ptr \<Rightarrow> ('w ort, ptr \<times> string option) action" where
  "ModelMetadata_GetProducerNameAllocated A p allocator =
     get_allocated A OrtApi ''ModelMetadataGetProducerName'' [Ptr p, Ptr allocator]"

definition ModelMetadata_GetGraphNameAllocated ::
  "'w api \<Rightarrow> ptr \<Rightarrow> ptr \<Rightarrow> ('w ort, ptr \<times> string option) action" where
  "ModelMetadata_GetGraphNameAllocated A p allocator =
     get_allocated A OrtApi ''ModelMetadataGetGraphName'' [Ptr p, Ptr allocator]"

definition ModelMetadata_GetDomainAllocated ::
  "'w api \<Rightarrow> ptr \<Rightarrow> ptr \<Rightarrow> ('w ort, ptr \<times> string option) action" where
  "ModelMetadata_GetDomainAllocated A p allocator =
     get_allocated A OrtApi ''ModelMetadataGetDomain'' [Ptr p, Ptr allocator]"

definition ModelMetadata_GetDescriptionAllocated ::
  "'w api \<Rightarrow> ptr \<Rightarrow> ptr \<Rightarrow> ('w ort, ptr \<times> string option) action" where
  "ModelMetadata_GetDescriptionAllocated A p allocator =
     get_allocated A OrtApi ''ModelMetadataGetDescription'' [Ptr p, Ptr allocator]"

definition ModelMetadata_GetGraphDescriptionAllocated ::
  "'w api \<Rightarrow> ptr \<Rightarrow> ptr \<Rightarrow> ('w ort, ptr \<times> string option) action" where
  "ModelMetadata_GetGraphDescriptionAllocated A p allocator =
     get_allocated A OrtApi ''ModelMetadataGetGraphDescription'' [Ptr p, Ptr allocator]"

definition ModelMetadata_LookupCustomMetadataMapAllocated ::
  "'w api \<Rightarrow> ptr \<Rightarrow> string \<Rightarrow> ptr
     \<Rightarrow> ('w ort, ptr \<times> string option) action" where
  "ModelMetadata_LookupCustomMetadataMapAllocated A p key allocator =
     get_allocated A OrtApi ''ModelMetadataLookupCustomMetadataMap'' [Ptr p, Ptr allocator, Str key]"

text \<open>The array of keys is freed here, the keys themselves belong to the caller.\<close>

definition ModelMetadata_GetCustomMetadataMapKeysAllocated :: "'w api \<Rightarrow> ptr \<Rightarrow> ptr \<Rightarrow> ('w ort, ptr list) action" where
  "ModelMetadata_GetCustomMetadataMapKeysAllocated A p allocator =
     mbind (checked A OrtApi ''ModelMetadataGetCustomMetadataMapKeys'' [Ptr p, Ptr allocator]) (\<lambda>r.
     if r_num r 0 \<le> 0 then mret []
     else with_buffer A allocator (r_ptr r 0) (mret (filled (nat (r_num r 0)) 0 (r_ptrs r 0))))"

definition ModelMetadata_GetVersion :: "'w api \<Rightarrow> ptr \<Rightarrow> ('w ort, int) action" where
  "ModelMetadata_GetVersion A p = get_num A OrtApi ''ModelMetadataGetVersion'' [Ptr p]"


end
