(* ===== verification/Ort_Values.thy ===== *)
theory Ort_Values imports Ort_Session begin

text \<open>
  Type descriptions and values (\<open>onnxruntime_cxx_inline.h\<close>, lines 2254 to 2769): tensor shapes, type
  information, reading and creating tensors, sparse tensors, maps and sequences. A C++ shape (pointer
  and length) is the list of its dimensions; element types of templates are \<open>cxx_type\<close> arguments.
\<close>

section \<open>TensorTypeAndShapeInfo\<close>

text \<open>The object is released when one of the later steps of the constructor fails.\<close>

definition TensorTypeAndShapeInfo_new :: "'w api \<Rightarrow> int \<Rightarrow> int list \<Rightarrow> string list option \<Rightarrow> ('w ort, ptr) action" where
  "TensorTypeAndShapeInfo_new A element_type dims symbolic_dims =
     construct_with A ''TensorTypeAndShapeInfo'' OrtApi ''CreateTensorTypeAndShapeInfo'' [] (\<lambda>p.
     mthen (do_call A OrtApi ''SetTensorElementType'' [Ptr p, Num element_type])
    (mthen (do_call A OrtApi ''SetDimensions'' [Ptr p, Nums dims, Num (int (length dims))])
     (case symbolic_dims of
        None \<Rightarrow> mret ()
      | Some ss \<Rightarrow> do_call A OrtApi ''SetSymbolicDimensions'' [Ptr p, CStrs (map c_str ss), Num (int (length ss))])))"

section \<open>TypeInfo\<close>

definition TypeInfo_CreateTensorInfo :: "'w api \<Rightarrow> ptr \<Rightarrow> ('w ort, ptr) action" where
  "TypeInfo_CreateTensorInfo A tensor_type_and_shape_info =
     get_ptr A ModelEditorApi ''CreateTensorTypeInfo'' [Ptr tensor_type_and_shape_info]"

definition TypeInfo_CreateSparseTensorInfo ::
  "'w api \<Rightarrow> ptr \<Rightarrow> ('w ort, ptr) action" where
  "TypeInfo_CreateSparseTensorInfo A sparse_tensor_type_and_shape_info =
     get_ptr A ModelEditorApi ''CreateSparseTensorTypeInfo'' [Ptr sparse_tensor_type_and_shape_info]"

definition TypeInfo_CreateSequenceTypeInfo ::
  "'w api \<Rightarrow> ptr \<Rightarrow> ('w ort, ptr) action" where
  "TypeInfo_CreateSequenceTypeInfo A sequence_type =
     get_ptr A ModelEditorApi ''CreateSequenceTypeInfo'' [Ptr sequence_type]"

definition TypeInfo_CreateMapTypeInfo ::
  "'w api \<Rightarrow> int \<Rightarrow> ptr \<Rightarrow> ('w ort, ptr) action" where
  "TypeInfo_CreateMapTypeInfo A key_type value_type =
     get_ptr A ModelEditorApi ''CreateMapTypeInfo'' [Num key_type, Ptr value_type]"

definition TypeInfo_CreateOptionalTypeInfo ::
  "'w api \<Rightarrow> ptr \<Rightarrow> ('w ort, ptr) action" where
  "TypeInfo_CreateOptionalTypeInfo A contained_type =
     get_ptr A ModelEditorApi ''CreateOptionalTypeInfo'' [Ptr contained_type]"

section \<open>TensorTypeAndShapeInfo\<close>

definition TensorTypeAndShapeInfo_GetElementType ::
  "'w api \<Rightarrow> ptr \<Rightarrow> ('w ort, int) action" where
  "TensorTypeAndShapeInfo_GetElementType A p = get_num A OrtApi ''GetTensorElementType'' [Ptr p]"

definition TensorTypeAndShapeInfo_GetElementCount ::
  "'w api \<Rightarrow> ptr \<Rightarrow> ('w ort, nat) action" where
  "TensorTypeAndShapeInfo_GetElementCount A p = get_size A OrtApi ''GetTensorShapeElementCount'' [Ptr p]"

definition TensorTypeAndShapeInfo_HasShape ::
  "'w api \<Rightarrow> ptr \<Rightarrow> ('w ort, bool) action" where
  "TensorTypeAndShapeInfo_HasShape A p =
     mbind (plain A OrtApi ''TensorTypeAndShape_HasShape'' [Ptr p]) (\<lambda>r. mret (r_num r 0 \<noteq> 0))"

definition TensorTypeAndShapeInfo_GetDimensionsCount ::
  "'w api \<Rightarrow> ptr \<Rightarrow> ('w ort, nat) action" where
  "TensorTypeAndShapeInfo_GetDimensionsCount A p = get_size A OrtApi ''GetDimensionsCount'' [Ptr p]"

definition TensorTypeAndShapeInfo_GetDimensions ::
  "'w api \<Rightarrow> ptr \<Rightarrow> ptr \<Rightarrow> nat \<Rightarrow> ('w ort, unit) action" where
  "TensorTypeAndShapeInfo_GetDimensions A p values values_count =
     do_call A OrtApi ''GetDimensions'' [Ptr p, Ptr values, Num (int values_count)]"

definition TensorTypeAndShapeInfo_GetSymbolicDimensions :: "'w api \<Rightarrow> ptr \<Rightarrow> nat \<Rightarrow> ('w ort, string option list) action" where
  "TensorTypeAndShapeInfo_GetSymbolicDimensions A p values_count =
     mbind (checked A OrtApi ''GetSymbolicDimensions''
       [Ptr p, Strs (replicate values_count None), Num (int values_count)]) (\<lambda>r.
     mret (filled values_count None (r_strs r 0)))"

definition TensorTypeAndShapeInfo_GetSymbolicDimensions_2 :: "'w api \<Rightarrow> ptr \<Rightarrow> ('w ort, string option list) action" where
  "TensorTypeAndShapeInfo_GetSymbolicDimensions_2 A p =
     mbind (TensorTypeAndShapeInfo_GetDimensionsCount A p) (\<lambda>dim_count.
     if dim_count > 0 then TensorTypeAndShapeInfo_GetSymbolicDimensions A p dim_count else mret [])"

definition TensorTypeAndShapeInfo_GetShape :: "'w api \<Rightarrow> ptr \<Rightarrow> ('w ort, int list) action" where
  "TensorTypeAndShapeInfo_GetShape A p =
     mbind (TensorTypeAndShapeInfo_GetDimensionsCount A p) (\<lambda>n.
     mbind (checked A OrtApi ''GetDimensions'' [Ptr p, Nums (replicate n (- 1)), Num (int n)]) (\<lambda>r.
     mret (filled n (- 1) (r_nums r 0))))"

section \<open>TypeInfo\<close>

definition TypeInfo_GetTensorTypeAndShapeInfo ::
  "'w api \<Rightarrow> ptr \<Rightarrow> ('w ort, ptr) action" where
  "TypeInfo_GetTensorTypeAndShapeInfo A p = get_ptr A OrtApi ''CastTypeInfoToTensorInfo'' [Ptr p]"

definition TypeInfo_GetSequenceTypeInfo :: "'w api \<Rightarrow> ptr \<Rightarrow> ('w ort, ptr) action" where
  "TypeInfo_GetSequenceTypeInfo A p = get_ptr A OrtApi ''CastTypeInfoToSequenceTypeInfo'' [Ptr p]"

definition TypeInfo_GetMapTypeInfo :: "'w api \<Rightarrow> ptr \<Rightarrow> ('w ort, ptr) action" where
  "TypeInfo_GetMapTypeInfo A p = get_ptr A OrtApi ''CastTypeInfoToMapTypeInfo'' [Ptr p]"

definition TypeInfo_GetONNXType :: "'w api \<Rightarrow> ptr \<Rightarrow> ('w ort, int) action" where
  "TypeInfo_GetONNXType A p = get_num A OrtApi ''GetOnnxTypeFromTypeInfo'' [Ptr p]"

section \<open>SequenceTypeInfo\<close>

definition SequenceTypeInfo_GetSequenceElementType ::
  "'w api \<Rightarrow> ptr \<Rightarrow> ('w ort, ptr) action" where
  "SequenceTypeInfo_GetSequenceElementType A p = get_ptr A OrtApi ''GetSequenceElementType'' [Ptr p]"

section \<open>OptionalTypeInfo\<close>

definition OptionalTypeInfo_GetOptionalElementType ::
  "'w api \<Rightarrow> ptr \<Rightarrow> ('w ort, ptr) action" where
  "OptionalTypeInfo_GetOptionalElementType A p = get_ptr A OrtApi ''GetOptionalContainedTypeInfo'' [Ptr p]"

section \<open>MapTypeInfo\<close>

definition MapTypeInfo_GetMapKeyType :: "'w api \<Rightarrow> ptr \<Rightarrow> ('w ort, int) action" where
  "MapTypeInfo_GetMapKeyType A p = get_num A OrtApi ''GetMapKeyType'' [Ptr p]"

definition MapTypeInfo_GetMapValueType :: "'w api \<Rightarrow> ptr \<Rightarrow> ('w ort, ptr) action" where
  "MapTypeInfo_GetMapValueType A p = get_ptr A OrtApi ''GetMapValueType'' [Ptr p]"

section \<open>TypeInfo\<close>

definition TypeInfo_GetOptionalTypeInfo :: "'w api \<Rightarrow> ptr \<Rightarrow> ('w ort, ptr) action" where
  "TypeInfo_GetOptionalTypeInfo A p = get_ptr A OrtApi ''CastTypeInfoToOptionalTypeInfo'' [Ptr p]"

section \<open>Value\<close>

text \<open>\<open>sizeof_R\<close> is the size of the C++ type of \<open>out\<close>.\<close>

definition Value_GetOpaqueData :: "'w api \<Rightarrow> ptr \<Rightarrow> string \<Rightarrow> string \<Rightarrow> ptr \<Rightarrow> nat \<Rightarrow> ('w ort, unit) action" where
  "Value_GetOpaqueData A p dom_name type_name out sizeof_R =
     do_call A OrtApi ''GetOpaqueValue'' [Str dom_name, Str type_name, Ptr p, Ptr out, Num (int sizeof_R)]"

definition Value_IsTensor :: "'w api \<Rightarrow> ptr \<Rightarrow> ('w ort, bool) action" where
  "Value_IsTensor A p = get_bool A OrtApi ''IsTensor'' [Ptr p]"

definition Value_HasValue :: "'w api \<Rightarrow> ptr \<Rightarrow> ('w ort, bool) action" where
  "Value_HasValue A p = get_bool A OrtApi ''HasValue'' [Ptr p]"

definition Value_GetCount :: "'w api \<Rightarrow> ptr \<Rightarrow> ('w ort, nat) action" where
  "Value_GetCount A p = get_size A OrtApi ''GetValueCount'' [Ptr p]"

definition Value_GetValue ::
  "'w api \<Rightarrow> ptr \<Rightarrow> int \<Rightarrow> ptr \<Rightarrow> ('w ort, ptr) action" where
  "Value_GetValue A p index allocator = get_ptr A OrtApi ''GetValue'' [Ptr p, Num index, Ptr allocator]"

definition Value_GetStringTensorDataLength ::
  "'w api \<Rightarrow> ptr \<Rightarrow> ('w ort, nat) action" where
  "Value_GetStringTensorDataLength A p = get_size A OrtApi ''GetStringTensorDataLength'' [Ptr p]"

definition Value_GetStringTensorElementLength ::
  "'w api \<Rightarrow> ptr \<Rightarrow> nat \<Rightarrow> ('w ort, nat) action" where
  "Value_GetStringTensorElementLength A p element_index =
     get_size A OrtApi ''GetStringTensorElementLength'' [Ptr p, Num (int element_index)]"

definition Value_GetTensorSizeInBytes :: "'w api \<Rightarrow> ptr \<Rightarrow> ('w ort, nat) action" where
  "Value_GetTensorSizeInBytes A p = get_size A OrtApi ''GetTensorSizeInBytes'' [Ptr p]"

definition Value_GetTensorData :: "'w api \<Rightarrow> ptr \<Rightarrow> ('w ort, ptr) action" where
  "Value_GetTensorData A p = get_ptr A OrtApi ''GetTensorData'' [Ptr p]"

definition Value_GetTensorRawData :: "'w api \<Rightarrow> ptr \<Rightarrow> ('w ort, ptr) action" where
  "Value_GetTensorRawData A p = get_ptr A OrtApi ''GetTensorData'' [Ptr p]"

definition Value_GetTypeInfo :: "'w api \<Rightarrow> ptr \<Rightarrow> ('w ort, ptr) action" where
  "Value_GetTypeInfo A p = get_ptr A OrtApi ''GetTypeInfo'' [Ptr p]"

definition Value_GetTensorTypeAndShapeInfo ::
  "'w api \<Rightarrow> ptr \<Rightarrow> ('w ort, ptr) action" where
  "Value_GetTensorTypeAndShapeInfo A p = get_ptr A OrtApi ''GetTensorTypeAndShape'' [Ptr p]"

definition Value_GetTensorMemoryInfo :: "'w api \<Rightarrow> ptr \<Rightarrow> ('w ort, ptr) action" where
  "Value_GetTensorMemoryInfo A p = get_ptr A OrtApi ''GetTensorMemoryInfo'' [Ptr p]"

definition Value_GetStringTensorElement ::
  "'w api \<Rightarrow> ptr \<Rightarrow> nat \<Rightarrow> nat \<Rightarrow> ptr
     \<Rightarrow> ('w ort, unit) action" where
  "Value_GetStringTensorElement A p buffer_length element_index buffer =
     do_call A OrtApi ''GetStringTensorElement'' [Ptr p, Num (int buffer_length), Num (int element_index),
       Ptr buffer]"

definition Value_GetStringTensorElement_2 :: "'w api \<Rightarrow> ptr \<Rightarrow> nat \<Rightarrow> ('w ort, string) action" where
  "Value_GetStringTensorElement_2 A p element_index =
     mbind (get_size A OrtApi ''GetStringTensorElementLength'' [Ptr p, Num (int element_index)]) (\<lambda>buffer_length.
     mbind (checked A OrtApi ''GetStringTensorElement''
       [Ptr p, Num (int buffer_length), Num (int element_index), Str (replicate buffer_length (CHR 0x00))]) (\<lambda>r.
     mret (filled buffer_length (CHR 0x00) (r_bytes r 0))))"

definition Value_GetStringTensorContent ::
  "'w api \<Rightarrow> ptr \<Rightarrow> ptr \<Rightarrow> nat \<Rightarrow> ptr
     \<Rightarrow> nat \<Rightarrow> ('w ort, unit) action" where
  "Value_GetStringTensorContent A p buffer buffer_length offsets offsets_count =
     do_call A OrtApi ''GetStringTensorContent'' [Ptr p, Ptr buffer, Num (int buffer_length), Ptr offsets,
       Num (int offsets_count)]"

definition Value_GetSparseFormat :: "'w api \<Rightarrow> ptr \<Rightarrow> ('w ort, int) action" where
  "Value_GetSparseFormat A p = get_num A OrtApi ''GetSparseTensorFormat'' [Ptr p]"

definition Value_GetSparseTensorValuesTypeAndShapeInfo ::
  "'w api \<Rightarrow> ptr \<Rightarrow> ('w ort, ptr) action" where
  "Value_GetSparseTensorValuesTypeAndShapeInfo A p =
     get_ptr A OrtApi ''GetSparseTensorValuesTypeAndShape'' [Ptr p]"

definition Value_GetSparseTensorIndicesTypeShapeInfo ::
  "'w api \<Rightarrow> ptr \<Rightarrow> int \<Rightarrow> ('w ort, ptr) action" where
  "Value_GetSparseTensorIndicesTypeShapeInfo A p indices_format =
     get_ptr A OrtApi ''GetSparseTensorIndicesTypeShape'' [Ptr p, Num indices_format]"

definition Value_GetSparseTensorIndicesData :: "'w api \<Rightarrow> ptr \<Rightarrow> int \<Rightarrow> ('w ort, ptr \<times> nat) action" where
  "Value_GetSparseTensorIndicesData A p indices_format =
     mbind (checked A OrtApi ''GetSparseTensorIndices'' [Ptr p, Num indices_format]) (\<lambda>r.
     mret (r_ptr r 0, nat (r_num r 0)))"

definition Value_IsSparseTensor :: "'w api \<Rightarrow> ptr \<Rightarrow> ('w ort, bool) action" where
  "Value_IsSparseTensor A p = get_bool A OrtApi ''IsSparseTensor'' [Ptr p]"

definition Value_GetSparseTensorValues :: "'w api \<Rightarrow> ptr \<Rightarrow> ('w ort, ptr) action" where
  "Value_GetSparseTensorValues A p = get_ptr A OrtApi ''GetSparseTensorValues'' [Ptr p]"

definition Value_GetTensorElementTypeAndShapeDataReference :: "'w api \<Rightarrow> ptr \<Rightarrow> ('w ort, int \<times> int list) action" where
  "Value_GetTensorElementTypeAndShapeDataReference A p =
     mbind (checked A OrtApi ''GetTensorElementTypeAndShapeDataReference'' [Ptr p]) (\<lambda>r.
     mret (r_num r 0, r_nums r 0))"

definition Value_FillStringTensor :: "'w api \<Rightarrow> ptr \<Rightarrow> string option list \<Rightarrow> nat \<Rightarrow> ('w ort, unit) action" where
  "Value_FillStringTensor A p s s_len = do_call A OrtApi ''FillStringTensor'' [Ptr p, Strs s, Num (int s_len)]"

definition Value_FillStringTensorElement ::
  "'w api \<Rightarrow> ptr \<Rightarrow> string \<Rightarrow> nat \<Rightarrow> ('w ort, unit) action" where
  "Value_FillStringTensorElement A p s index =
     do_call A OrtApi ''FillStringTensorElement'' [Ptr p, Str s, Num (int index)]"

definition Value_GetResizedStringTensorElementBuffer ::
  "'w api \<Rightarrow> ptr \<Rightarrow> nat \<Rightarrow> nat \<Rightarrow> ('w ort, ptr) action" where
  "Value_GetResizedStringTensorElementBuffer A p index buffer_length =
     get_ptr A OrtApi ''GetResizedStringTensorElementBuffer'' [Ptr p, Num (int index), Num (int buffer_length)]"

definition Value_GetTensorMutableRawData ::
  "'w api \<Rightarrow> ptr \<Rightarrow> ('w ort, ptr) action" where
  "Value_GetTensorMutableRawData A p = get_ptr A OrtApi ''GetTensorMutableData'' [Ptr p]"

definition Value_GetTensorMutableData :: "'w api \<Rightarrow> ptr \<Rightarrow> ('w ort, ptr) action" where
  "Value_GetTensorMutableData A p = get_ptr A OrtApi ''GetTensorMutableData'' [Ptr p]"

definition Value_At :: "'w api \<Rightarrow> ptr \<Rightarrow> int list \<Rightarrow> ('w ort, ptr) action" where
  "Value_At A p location =
     get_ptr A OrtApi ''TensorAt'' [Ptr p, Nums location, Num (int (length location))]"

definition Value_UseCooIndices ::
  "'w api \<Rightarrow> ptr \<Rightarrow> ptr \<Rightarrow> nat \<Rightarrow> ('w ort, unit) action" where
  "Value_UseCooIndices A p indices_data indices_num =
     do_call A OrtApi ''UseCooIndices'' [Ptr p, Ptr indices_data, Num (int indices_num)]"

definition Value_UseCsrIndices ::
  "'w api \<Rightarrow> ptr \<Rightarrow> ptr \<Rightarrow> nat \<Rightarrow> ptr
     \<Rightarrow> nat \<Rightarrow> ('w ort, unit) action" where
  "Value_UseCsrIndices A p inner_data inner_num outer_data outer_num =
     do_call A OrtApi ''UseCsrIndices'' [Ptr p, Ptr inner_data, Num (int inner_num), Ptr outer_data,
       Num (int outer_num)]"

text \<open>A \<open>Shape\<close> is the list of its dimensions; \<open>OrtSparseValuesParam\<close> a shape and the data it describes.\<close>

record sparse_values =
  values_shape :: "int list"
  values_data :: ptr

definition Value_UseBlockSparseIndices :: "'w api \<Rightarrow> ptr \<Rightarrow> int list \<Rightarrow> ptr \<Rightarrow> ('w ort, unit) action" where
  "Value_UseBlockSparseIndices A p indices_shape indices_data =
     do_call A OrtApi ''UseBlockSparseIndices''
       [Ptr p, Nums indices_shape, Num (int (length indices_shape)), Ptr indices_data]"

definition Value_FillSparseTensorCoo :: "'w api \<Rightarrow> ptr \<Rightarrow> ptr \<Rightarrow> sparse_values \<Rightarrow> ptr \<Rightarrow> nat \<Rightarrow> ('w ort, unit) action" where
  "Value_FillSparseTensorCoo A p mem_info values_param indices_data indices_num =
     do_call A OrtApi ''FillSparseTensorCoo''
       [Ptr p, Ptr mem_info, Nums (values_shape values_param), Num (int (length (values_shape values_param))),
        Ptr (values_data values_param), Ptr indices_data, Num (int indices_num)]"

definition Value_FillSparseTensorCsr :: "'w api \<Rightarrow> ptr \<Rightarrow> ptr \<Rightarrow> sparse_values \<Rightarrow> ptr \<Rightarrow> nat \<Rightarrow> ptr \<Rightarrow> nat
    \<Rightarrow> ('w ort, unit) action" where
  "Value_FillSparseTensorCsr A p data_mem_info vs inner_indices_data inner_indices_num outer_indices_data outer_indices_num =
     do_call A OrtApi ''FillSparseTensorCsr''
       [Ptr p, Ptr data_mem_info, Nums (values_shape vs), Num (int (length (values_shape vs))),
        Ptr (values_data vs), Ptr inner_indices_data, Num (int inner_indices_num),
        Ptr outer_indices_data, Num (int outer_indices_num)]"

definition Value_FillSparseTensorBlockSparse :: "'w api \<Rightarrow> ptr \<Rightarrow> ptr \<Rightarrow> sparse_values \<Rightarrow> int list \<Rightarrow> ptr
    \<Rightarrow> ('w ort, unit) action" where
  "Value_FillSparseTensorBlockSparse A p data_mem_info vs indices_shape indices_data =
     do_call A OrtApi ''FillSparseTensorBlockSparse''
       [Ptr p, Ptr data_mem_info, Nums (values_shape vs), Num (int (length (values_shape vs))),
        Ptr (values_data vs), Nums indices_shape, Num (int (length indices_shape)), Ptr indices_data]"

definition Value_CreateTensor_2 :: "'w api \<Rightarrow> ptr \<Rightarrow> ptr \<Rightarrow> nat \<Rightarrow> int list \<Rightarrow> int \<Rightarrow> ('w ort, ptr) action" where
  "Value_CreateTensor_2 A info p_data p_data_byte_count shape ty =
     get_ptr A OrtApi ''CreateTensorWithDataAsOrtValue''
       [Ptr info, Ptr p_data, Num (int p_data_byte_count), Nums shape, Num (int (length shape)), Num ty]"

text \<open>\<open>p_data_element_count * sizeof(T)\<close> is computed in \<open>size_t\<close>.\<close>

definition Value_CreateTensor :: "'w api \<Rightarrow> cxx_type \<Rightarrow> ptr \<Rightarrow> ptr \<Rightarrow> nat \<Rightarrow> int list \<Rightarrow> ('w ort, ptr) action" where
  "Value_CreateTensor A T info p_data p_data_element_count shape =
     Value_CreateTensor_2 A info p_data (p_data_element_count * cxx_sizeof T mod 2 ^ 64) shape
       (tensor_type_code (TypeToTensorType T))"

definition Value_CreateTensor_3 :: "'w api \<Rightarrow> ptr \<Rightarrow> ptr \<Rightarrow> nat \<Rightarrow> int list \<Rightarrow> int \<Rightarrow> ('w ort, ptr) action" where
  "Value_CreateTensor_3 A deleter p_data p_data_byte_count shape ty =
     get_ptr A OrtApi ''CreateTensorWithDataAndDeleterAsOrtValue''
       [Ptr deleter, Ptr p_data, Num (int p_data_byte_count), Nums shape, Num (int (length shape)), Num ty]"

definition Value_CreateTensor_5 :: "'w api \<Rightarrow> ptr \<Rightarrow> int list \<Rightarrow> int \<Rightarrow> ('w ort, ptr) action" where
  "Value_CreateTensor_5 A allocator shape ty =
     get_ptr A OrtApi ''CreateTensorAsOrtValue'' [Ptr allocator, Nums shape, Num (int (length shape)), Num ty]"

definition Value_CreateTensor_4 :: "'w api \<Rightarrow> cxx_type \<Rightarrow> ptr \<Rightarrow> int list \<Rightarrow> ('w ort, ptr) action" where
  "Value_CreateTensor_4 A T allocator shape =
     Value_CreateTensor_5 A allocator shape (tensor_type_code (TypeToTensorType T))"

definition Value_CreateSparseTensor_2 :: "'w api \<Rightarrow> ptr \<Rightarrow> ptr \<Rightarrow> int list \<Rightarrow> int list \<Rightarrow> int \<Rightarrow> ('w ort, ptr) action" where
  "Value_CreateSparseTensor_2 A info p_data dense_shape vals_shape ty =
     get_ptr A OrtApi ''CreateSparseTensorWithValuesAsOrtValue''
       [Ptr info, Ptr p_data, Nums dense_shape, Num (int (length dense_shape)),
        Nums vals_shape, Num (int (length vals_shape)), Num ty]"

definition Value_CreateSparseTensor :: "'w api \<Rightarrow> cxx_type \<Rightarrow> ptr \<Rightarrow> ptr \<Rightarrow> int list \<Rightarrow> int list \<Rightarrow> ('w ort, ptr) action" where
  "Value_CreateSparseTensor A T info p_data dense_shape vals_shape =
     Value_CreateSparseTensor_2 A info p_data dense_shape vals_shape (tensor_type_code (TypeToTensorType T))"

definition Value_CreateSparseTensor_4 :: "'w api \<Rightarrow> ptr \<Rightarrow> int list \<Rightarrow> int \<Rightarrow> ('w ort, ptr) action" where
  "Value_CreateSparseTensor_4 A allocator dense_shape ty =
     get_ptr A OrtApi ''CreateSparseTensorAsOrtValue''
       [Ptr allocator, Nums dense_shape, Num (int (length dense_shape)), Num ty]"

definition Value_CreateSparseTensor_3 :: "'w api \<Rightarrow> cxx_type \<Rightarrow> ptr \<Rightarrow> int list \<Rightarrow> ('w ort, ptr) action" where
  "Value_CreateSparseTensor_3 A T allocator dense_shape =
     Value_CreateSparseTensor_4 A allocator dense_shape (tensor_type_code (TypeToTensorType T))"

definition Value_CreateMap :: "'w api \<Rightarrow> ptr \<Rightarrow> ptr \<Rightarrow> ('w ort, ptr) action" where
  "Value_CreateMap A keys vals =
     get_ptr A OrtApi ''CreateValue'' [Ptrs [keys, vals], Num 2, Num (onnx_type_code ONNX_TYPE_MAP)]"

definition Value_CreateSequence :: "'w api \<Rightarrow> ptr list \<Rightarrow> ('w ort, ptr) action" where
  "Value_CreateSequence A vals =
     get_ptr A OrtApi ''CreateValue''
       [Ptrs vals, Num (int (length vals)), Num (onnx_type_code ONNX_TYPE_SEQUENCE)]"

definition Value_CreateOpaque :: "'w api \<Rightarrow> string \<Rightarrow> string \<Rightarrow> ptr \<Rightarrow> nat \<Rightarrow> ('w ort, ptr) action" where
  "Value_CreateOpaque A dom_name type_name data_container sizeof_T =
     get_ptr A OrtApi ''CreateOpaqueValue'' [Str dom_name, Str type_name, Ptr data_container, Num (int sizeof_T)]"


end
