(* ===== verification/Ort_Kernels.thy ===== *)
theory Ort_Kernels imports Ort_Values begin

text \<open>
  Loggers, kernel contexts, operator attributes, kernel information, operators and the library queries
  (\<open>onnxruntime_cxx_inline.h\<close>, lines 2774 to 3371).
\<close>

section \<open>Logger\<close>

text \<open>A logger caches its severity level when it is created.\<close>

record logger =
  logger_handle :: ptr
  cached_severity_level :: int

definition Logger_new :: "'w api \<Rightarrow> ptr \<Rightarrow> ('w ort, logger) action" where
  "Logger_new A handle =
     mbind (get_num A OrtApi ''Logger_GetLoggingSeverityLevel'' [Ptr handle]) (\<lambda>lvl.
     mret \<lparr>logger_handle = handle, cached_severity_level = lvl\<rparr>)"

definition Logger_GetLoggingSeverityLevel :: "logger \<Rightarrow> int" where
  "Logger_GetLoggingSeverityLevel l = cached_severity_level l"

definition Logger_LogMessage ::
  "'w api \<Rightarrow> ptr \<Rightarrow> int \<Rightarrow> string \<Rightarrow> int
     \<Rightarrow> string \<Rightarrow> string \<Rightarrow> ('w ort, ptr) action" where
  "Logger_LogMessage A p log_severity_level file_path line_number func_name message =
     as_status A OrtApi ''Logger_LogMessage'' [Ptr p, Num log_severity_level, Str message, Str file_path,
       Num line_number, Str func_name]"

text \<open>
  \<open>formatted\<close> is what the format and its arguments expand to, \<open>None\<close> when \<open>snprintf\<close> reports an error;
  writing it to a buffer of \<open>n\<close> bytes keeps \<open>n - 1\<close> of them.
\<close>

definition snprintf :: "nat \<Rightarrow> string \<Rightarrow> string" where
  "snprintf n formatted = take (n - 1) formatted"

definition Logger_LogFormattedMessage :: "'w api \<Rightarrow> ptr \<Rightarrow> int \<Rightarrow> string \<Rightarrow> int \<Rightarrow> string \<Rightarrow> string option
    \<Rightarrow> ('w ort, ptr) action" where
  "Logger_LogFormattedMessage A p log_severity_level file_path line_number func_name formatted =
     (case formatted of
        None \<Rightarrow> Status_make A ''Failed to log message due to formatting error'' (error_code ORT_FAIL)
      | Some txt \<Rightarrow>
         (let buffer_size = length txt + 1;
              kStackBufferSize = 1024;
              buffer = (if buffer_size < kStackBufferSize then snprintf kStackBufferSize txt else snprintf buffer_size txt)
          in as_status A OrtApi ''Logger_LogMessage''
            [Ptr p, Num log_severity_level, Str (c_str buffer), Str file_path, Num line_number, Str func_name]))"

section \<open>KernelContext\<close>

definition KernelContext_GetInputCount :: "'w api \<Rightarrow> ptr \<Rightarrow> ('w ort, nat) action" where
  "KernelContext_GetInputCount A p = get_size A OrtApi ''KernelContext_GetInputCount'' [Ptr p]"

definition KernelContext_GetOutputCount :: "'w api \<Rightarrow> ptr \<Rightarrow> ('w ort, nat) action" where
  "KernelContext_GetOutputCount A p = get_size A OrtApi ''KernelContext_GetOutputCount'' [Ptr p]"

definition KernelContext_GetInput ::
  "'w api \<Rightarrow> ptr \<Rightarrow> nat \<Rightarrow> ('w ort, ptr) action" where
  "KernelContext_GetInput A p index = get_ptr A OrtApi ''KernelContext_GetInput'' [Ptr p, Num (int index)]"

definition KernelContext_GetOutput ::
  "'w api \<Rightarrow> ptr \<Rightarrow> nat \<Rightarrow> ptr \<Rightarrow> nat
     \<Rightarrow> ('w ort, ptr) action" where
  "KernelContext_GetOutput A p index dim_values dim_count =
     get_ptr A OrtApi ''KernelContext_GetOutput'' [Ptr p, Num (int index), Ptr dim_values, Num (int dim_count)]"

definition KernelContext_GetOutput_2 :: "'w api \<Rightarrow> ptr \<Rightarrow> nat \<Rightarrow> int list \<Rightarrow> ('w ort, ptr) action" where
  "KernelContext_GetOutput_2 A p index dims =
     get_ptr A OrtApi ''KernelContext_GetOutput'' [Ptr p, Num (int index), Nums dims, Num (int (length dims))]"

definition KernelContext_GetGPUComputeStream ::
  "'w api \<Rightarrow> ptr \<Rightarrow> ('w ort, ptr) action" where
  "KernelContext_GetGPUComputeStream A p = get_ptr A OrtApi ''KernelContext_GetGPUComputeStream'' [Ptr p]"

definition KernelContext_GetSyncStream :: "'w api \<Rightarrow> ptr \<Rightarrow> ('w ort, ptr) action" where
  "KernelContext_GetSyncStream A p = get_ptr A OrtApi ''KernelContext_GetSyncStream'' [Ptr p]"

definition KernelContext_GetAllocator ::
  "'w api \<Rightarrow> ptr \<Rightarrow> ptr \<Rightarrow> ('w ort, ptr) action" where
  "KernelContext_GetAllocator A p memory_info =
     get_ptr A OrtApi ''KernelContext_GetAllocator'' [Ptr p, Ptr memory_info]"

definition KernelContext_GetLogger :: "'w api \<Rightarrow> ptr \<Rightarrow> ('w ort, logger) action" where
  "KernelContext_GetLogger A p = mbind (get_ptr A OrtApi ''KernelContext_GetLogger'' [Ptr p]) (Logger_new A)"

definition KernelContext_ParallelFor :: "'w api \<Rightarrow> ptr \<Rightarrow> ptr \<Rightarrow> nat \<Rightarrow> nat \<Rightarrow> ptr \<Rightarrow> ('w ort, unit) action" where
  "KernelContext_ParallelFor A p func tot num_batch usr_data =
     do_call A OrtApi ''KernelContext_ParallelFor''
       [Ptr p, Ptr func, Num (int tot), Num (int num_batch), Ptr usr_data]"

section \<open>Operator attributes\<close>

text \<open>The element types with numeric attributes, \<open>int64_t\<close> and \<open>float\<close> (floats by their bits).\<close>

datatype attr_elem = AttrInt64 | AttrFloat

primrec attr_sizeof :: "attr_elem \<Rightarrow> nat" where
  "attr_sizeof AttrInt64 = 8"
| "attr_sizeof AttrFloat = 4"

fun TypeToAttrType :: "attr_elem \<Rightarrow> OrtOpAttrType" where
  "TypeToAttrType AttrInt64 = ORT_OP_ATTR_INT"
| "TypeToAttrType AttrFloat = ORT_OP_ATTR_FLOAT"

fun TypeToAttrsType :: "attr_elem \<Rightarrow> OrtOpAttrType" where
  "TypeToAttrsType AttrInt64 = ORT_OP_ATTR_INTS"
| "TypeToAttrsType AttrFloat = ORT_OP_ATTR_FLOATS"

definition CheckAttrType :: "'w api \<Rightarrow> ptr \<Rightarrow> OrtOpAttrType \<Rightarrow> ('w ort, ptr) action" where
  "CheckAttrType A attr requested_type =
     mbind (api_call A OrtApi ''OpAttr_GetType'' [Ptr attr]) (\<lambda>r.
     if \<not> Status_IsOK (r_status r) then mret (r_status r)
     else if attr_type_code requested_type \<noteq> r_num r 0
     then Status_make A (''Attribute type mismatch: expected '' @ to_string (attr_type_code requested_type)
         @ '', but got '' @ to_string (r_num r 0)) (error_code ORT_INVALID_ARGUMENT)
     else mret 0)"

text \<open>The status of the size query is destroyed unread.\<close>

definition GetDataSize :: "'w api \<Rightarrow> ptr \<Rightarrow> OrtOpAttrType \<Rightarrow> ('w ort, nat) action" where
  "GetDataSize A attr attr_type =
     mbind (api_call A OrtApi ''ReadOpAttr'' [Ptr attr, Num (attr_type_code attr_type), Ptr 0, Num 0]) (\<lambda>r.
     scoped A ''Status'' (r_status r) (mret (nat (r_num r 0))))"

text \<open>
  The reads return the status and the value they leave in the output argument \<open>out\<close>, which is
  unchanged when the status is an error.
\<close>

definition GetNumericValue :: "'w api \<Rightarrow> attr_elem \<Rightarrow> ptr \<Rightarrow> int \<Rightarrow> ('w ort, ptr \<times> int) action" where
  "GetNumericValue A T attr out =
     mbind (api_call A OrtApi ''ReadOpAttr''
       [Ptr attr, Num (attr_type_code (TypeToAttrType T)), Nums [out], Num (int (attr_sizeof T))]) (\<lambda>r.
     mret (r_status r, if Status_IsOK (r_status r) then hd (filled 1 out (r_nums r 0)) else out))"

definition GetValueImpl_GetValues :: "'w api \<Rightarrow> attr_elem \<Rightarrow> ptr \<Rightarrow> int list \<Rightarrow> ('w ort, ptr \<times> int list) action" where
  "GetValueImpl_GetValues A T attr out =
     mbind (CheckAttrType A attr (TypeToAttrsType T)) (\<lambda>status.
     if \<not> Status_IsOK status then mret (status, out)
     else mbind (GetDataSize A attr (TypeToAttrsType T)) (\<lambda>sz.
       if sz > 0 then
         (let n = sz div attr_sizeof T
          in mbind (api_call A OrtApi ''ReadOpAttr''
               [Ptr attr, Num (attr_type_code (TypeToAttrsType T)), Nums (replicate n 0), Num (int sz)]) (\<lambda>r.
             mret (r_status r, if Status_IsOK (r_status r) then filled n 0 (r_nums r 0) else out)))
       else mret (0, [])))"

definition GetValueImpl_string_GetValue :: "'w api \<Rightarrow> ptr \<Rightarrow> string \<Rightarrow> ('w ort, ptr \<times> string) action" where
  "GetValueImpl_string_GetValue A attr out =
     mbind (CheckAttrType A attr ORT_OP_ATTR_STRING) (\<lambda>status.
     if \<not> Status_IsOK status then mret (status, out)
     else mbind (GetDataSize A attr ORT_OP_ATTR_STRING) (\<lambda>sz.
       if sz > 0 then
         mbind (api_call A OrtApi ''ReadOpAttr''
             [Ptr attr, Num (attr_type_code ORT_OP_ATTR_STRING), Str (replicate sz (CHR 0x00)), Num (int sz)]) (\<lambda>r.
           mret (r_status r, if Status_IsOK (r_status r) then filled sz (CHR 0x00) (r_bytes r 0) else out))
       else mret (0, [])))"

text \<open>
  The loop \<open>while (data < end)\<close> over NUL-terminated strings: \<open>n\<close> bytes are left up to \<open>end\<close>, \<open>buf\<close> is the
  rest of the buffer. Without a terminator \<open>emplace_back\<close> reads past the buffer (\<open>None\<close>).
\<close>

fun parse_cstrings :: "nat \<Rightarrow> string \<Rightarrow> string list option" where
  "parse_cstrings n buf =
     (if n = 0 then Some []
      else if CHR 0x00 \<notin> set buf then None
      else (let s = takeWhile (\<lambda>c. c \<noteq> CHR 0x00) buf; k = length s + 1
            in map_option (\<lambda>ss. s # ss) (parse_cstrings (n - k) (drop k buf))))"

declare parse_cstrings.simps [simp del]

definition GetValueImpl_string_GetValues :: "'w api \<Rightarrow> ptr \<Rightarrow> string list \<Rightarrow> ('w ort, ptr \<times> string list) action" where
  "GetValueImpl_string_GetValues A attr out =
     mbind (CheckAttrType A attr ORT_OP_ATTR_STRINGS) (\<lambda>status.
     if \<not> Status_IsOK status then mret (status, out)
     else mbind (GetDataSize A attr ORT_OP_ATTR_STRINGS) (\<lambda>sz.
       if sz > 0 then
         mbind (api_call A OrtApi ''ReadOpAttr''
             [Ptr attr, Num (attr_type_code ORT_OP_ATTR_STRINGS), Str (replicate sz (CHR 0x00)), Num (int sz)]) (\<lambda>r.
           if \<not> Status_IsOK (r_status r) then mret (r_status r, out)
           else (case parse_cstrings (nat (r_num r 0)) (filled sz (CHR 0x00) (r_bytes r 0)) of
               None \<Rightarrow> mcrash ''read past the buffer''
             | Some strings \<Rightarrow> mret (0, strings)))
       else mret (0, [])))"

section \<open>OpAttr\<close>

definition OpAttr_GetValue :: "'w api \<Rightarrow> attr_elem \<Rightarrow> ptr \<Rightarrow> int \<Rightarrow> ('w ort, ptr \<times> int) action" where
  "OpAttr_GetValue A T p out = GetNumericValue A T p out"

definition OpAttr_GetValueArray :: "'w api \<Rightarrow> attr_elem \<Rightarrow> ptr \<Rightarrow> int list \<Rightarrow> ('w ort, ptr \<times> int list) action" where
  "OpAttr_GetValueArray A T p out = GetValueImpl_GetValues A T p out"

definition OpAttr_GetTensorAttributeAsOrtValue :: "'w api \<Rightarrow> ptr \<Rightarrow> ptr \<Rightarrow> ('w ort, ptr \<times> ptr) action" where
  "OpAttr_GetTensorAttributeAsOrtValue A p out =
     mbind (api_call A OrtApi ''OpAttr_GetTensorAttributeAsOrtValue'' [Ptr p]) (\<lambda>r.
     if \<not> Status_IsOK (r_status r) then mret (r_status r, out)
     else mthen (OrtRelease A ''Value'' out) (mret (0, r_ptr r 0)))"

definition OpAttr_GetName :: "'w api \<Rightarrow> ptr \<Rightarrow> ('w ort, string) action" where
  "OpAttr_GetName A p =
     mbind (get_cstr A OrtApi ''OpAttr_GetName'' [Ptr p]) (\<lambda>nm.
     mret (case nm of None \<Rightarrow> [] | Some s \<Rightarrow> s))"

definition OpAttr_GetType :: "'w api \<Rightarrow> ptr \<Rightarrow> ('w ort, int) action" where
  "OpAttr_GetType A p = get_num A OrtApi ''OpAttr_GetType'' [Ptr p]"

definition OpAttr_new ::
  "'w api \<Rightarrow> string \<Rightarrow> ptr \<Rightarrow> int \<Rightarrow> int
     \<Rightarrow> ('w ort, ptr) action" where
  "OpAttr_new A nm data len ty =
     create A ''OpAttr'' OrtApi ''CreateOpAttr'' [Str nm, Ptr data, Num len, Num ty]"

section \<open>KernelInfo\<close>

definition KernelInfo_Copy :: "'w api \<Rightarrow> ptr \<Rightarrow> ('w ort, ptr) action" where
  "KernelInfo_Copy A p = get_ptr A OrtApi ''CopyKernelInfo'' [Ptr p]"

definition KernelInfo_GetInputCount :: "'w api \<Rightarrow> ptr \<Rightarrow> ('w ort, nat) action" where
  "KernelInfo_GetInputCount A p = get_size A OrtApi ''KernelInfo_GetInputCount'' [Ptr p]"

definition KernelInfo_GetOutputCount :: "'w api \<Rightarrow> ptr \<Rightarrow> ('w ort, nat) action" where
  "KernelInfo_GetOutputCount A p = get_size A OrtApi ''KernelInfo_GetOutputCount'' [Ptr p]"

definition KernelInfo_GetInputName :: "'w api \<Rightarrow> ptr \<Rightarrow> nat \<Rightarrow> ('w ort, string) action" where
  "KernelInfo_GetInputName A p index = two_phase A OrtApi ''KernelInfo_GetInputName'' [Ptr p, Num (int index)]"

definition KernelInfo_GetOutputName :: "'w api \<Rightarrow> ptr \<Rightarrow> nat \<Rightarrow> ('w ort, string) action" where
  "KernelInfo_GetOutputName A p index = two_phase A OrtApi ''KernelInfo_GetOutputName'' [Ptr p, Num (int index)]"

definition KernelInfo_GetInputTypeInfo ::
  "'w api \<Rightarrow> ptr \<Rightarrow> nat \<Rightarrow> ('w ort, ptr) action" where
  "KernelInfo_GetInputTypeInfo A p index =
     get_ptr A OrtApi ''KernelInfo_GetInputTypeInfo'' [Ptr p, Num (int index)]"

definition KernelInfo_GetOutputTypeInfo ::
  "'w api \<Rightarrow> ptr \<Rightarrow> nat \<Rightarrow> ('w ort, ptr) action" where
  "KernelInfo_GetOutputTypeInfo A p index =
     get_ptr A OrtApi ''KernelInfo_GetOutputTypeInfo'' [Ptr p, Num (int index)]"

definition KernelInfo_GetTensorAttribute ::
  "'w api \<Rightarrow> ptr \<Rightarrow> string \<Rightarrow> ptr \<Rightarrow> ('w ort, ptr) action" where
  "KernelInfo_GetTensorAttribute A p nm allocator =
     get_ptr A OrtApi ''KernelInfoGetAttribute_tensor'' [Ptr p, Str nm, Ptr allocator]"

definition KernelInfo_GetTensorConstantInput ::
  "'w api \<Rightarrow> ptr \<Rightarrow> nat \<Rightarrow> ptr \<Rightarrow> ('w ort, ptr) action" where
  "KernelInfo_GetTensorConstantInput A p index is_constant =
     get_ptr A OrtApi ''KernelInfoGetConstantInput_tensor'' [Ptr p, Num (int index), Ptr is_constant]"

definition KernelInfo_GetNodeName :: "'w api \<Rightarrow> ptr \<Rightarrow> ('w ort, string) action" where
  "KernelInfo_GetNodeName A p = two_phase A OrtApi ''KernelInfo_GetNodeName'' [Ptr p]"

definition KernelInfo_GetLogger :: "'w api \<Rightarrow> ptr \<Rightarrow> ('w ort, logger) action" where
  "KernelInfo_GetLogger A p = mbind (get_ptr A OrtApi ''KernelInfo_GetLogger'' [Ptr p]) (Logger_new A)"

definition KernelInfo_GetConfigEntries :: "'w api \<Rightarrow> ptr \<Rightarrow> ('w ort, ptr) action" where
  "KernelInfo_GetConfigEntries A p = get_ptr A OrtApi ''KernelInfo_GetConfigEntries'' [Ptr p]"

definition KernelInfo_GetOperatorDomain :: "'w api \<Rightarrow> ptr \<Rightarrow> ('w ort, string) action" where
  "KernelInfo_GetOperatorDomain A p = two_phase A OrtApi ''KernelInfo_GetOperatorDomain'' [Ptr p]"

definition KernelInfo_GetOperatorType :: "'w api \<Rightarrow> ptr \<Rightarrow> ('w ort, string) action" where
  "KernelInfo_GetOperatorType A p = two_phase A OrtApi ''KernelInfo_GetOperatorType'' [Ptr p]"

definition KernelInfo_GetOperatorSinceVersion ::
  "'w api \<Rightarrow> ptr \<Rightarrow> ('w ort, int) action" where
  "KernelInfo_GetOperatorSinceVersion A p = get_num A OrtApi ''KernelInfo_GetOperatorSinceVersion'' [Ptr p]"

definition KernelInfo_GetEp :: "'w api \<Rightarrow> ptr \<Rightarrow> ('w ort, ptr) action" where
  "KernelInfo_GetEp A p = get_ptr A EpApi ''KernelInfo_GetEp'' [Ptr p]"

section \<open>AttrUtils\<close>

definition AttrUtils_GetAttr :: "'w api \<Rightarrow> ptr \<Rightarrow> string \<Rightarrow> ('w ort, 32 word) action" where
  "AttrUtils_GetAttr A p nm =
     mbind (get_num A OrtApi ''KernelInfoGetAttribute_float'' [Ptr p, Str nm]) (\<lambda>v. mret (word_of_int v))"

definition AttrUtils_GetAttr_2 :: "'w api \<Rightarrow> ptr \<Rightarrow> string \<Rightarrow> ('w ort, int) action" where
  "AttrUtils_GetAttr_2 A p nm = get_num A OrtApi ''KernelInfoGetAttribute_int64'' [Ptr p, Str nm]"

definition AttrUtils_GetAttr_3 :: "'w api \<Rightarrow> ptr \<Rightarrow> string \<Rightarrow> ('w ort, string) action" where
  "AttrUtils_GetAttr_3 A p nm = two_phase A OrtApi ''KernelInfoGetAttribute_string'' [Ptr p, Str nm]"

definition get_attr_array :: "'w api \<Rightarrow> string \<Rightarrow> ptr \<Rightarrow> string \<Rightarrow> ('w ort, int list) action" where
  "get_attr_array A fn p nm =
     mbind (get_size A OrtApi fn [Ptr p, Str nm, Ptr 0, Num 0]) (\<lambda>sz.
     mbind (checked A OrtApi fn [Ptr p, Str nm, Nums (replicate sz 0), Num (int sz)]) (\<lambda>r.
     mret (filled sz 0 (r_nums r 0))))"

definition AttrUtils_GetAttrs :: "'w api \<Rightarrow> ptr \<Rightarrow> string \<Rightarrow> ('w ort, 32 word list) action" where
  "AttrUtils_GetAttrs A p nm =
     mbind (get_attr_array A ''KernelInfoGetAttributeArray_float'' p nm) (\<lambda>vs. mret (map word_of_int vs))"

definition AttrUtils_GetAttrs_2 :: "'w api \<Rightarrow> ptr \<Rightarrow> string \<Rightarrow> ('w ort, int list) action" where
  "AttrUtils_GetAttrs_2 A p nm = get_attr_array A ''KernelInfoGetAttributeArray_int64'' p nm"

definition AttrUtils_GetAttrs_3 :: "'w api \<Rightarrow> ptr \<Rightarrow> string \<Rightarrow> ('w ort, string list) action" where
  "AttrUtils_GetAttrs_3 A p nm =
     mbind (AllocatorWithDefaultOptions_new A) (\<lambda>allocator.
     mbind (get_size A OrtApi ''KernelInfoGetAttributeArray_string'' [Ptr p, Str nm, Ptr allocator, Ptr 0]) (\<lambda>sz.
     if sz = 0 then mret []
     else mbind (checked A OrtApi ''KernelInfoGetAttributeArray_string''
           [Ptr p, Str nm, Ptr allocator, Num (int sz)]) (\<lambda>r.
       let n = nat (r_num r 0) in
       with_buffer A allocator (r_ptr r 0)
         (mbind (mmap c_string (filled n None (r_strs r 0))) (\<lambda>strings.
          mthen (mmap (AllocatedFree A allocator) (filled n 0 (r_ptrs r 0))) (mret strings))))))"

section \<open>Op\<close>

text \<open>\<open>static_cast<int>\<close> of a \<open>size_t\<close> keeps the low 32 bits.\<close>

definition to_int32 :: "nat \<Rightarrow> int" where
  "to_int32 n = sint (word_of_nat n :: 32 word)"

definition Op_Create :: "'w api \<Rightarrow> ptr \<Rightarrow> string \<Rightarrow> string \<Rightarrow> int \<Rightarrow> string list \<Rightarrow> int list \<Rightarrow> nat \<Rightarrow> ptr list \<Rightarrow> nat
    \<Rightarrow> nat \<Rightarrow> nat \<Rightarrow> ('w ort, ptr) action" where
  "Op_Create A info op_name dom_name version type_constraint_names type_constraint_values type_constraint_count
     attr_values attr_count input_count output_count =
     get_ptr A OrtApi ''CreateOp''
       [Ptr info, Str op_name, Str dom_name, Num version, CStrs type_constraint_names,
        Nums type_constraint_values, Num (to_int32 type_constraint_count), Ptrs attr_values,
        Num (to_int32 attr_count), Num (to_int32 input_count), Num (to_int32 output_count)]"

definition Op_Invoke :: "'w api \<Rightarrow> ptr \<Rightarrow> ptr \<Rightarrow> ptr list \<Rightarrow> nat \<Rightarrow> ptr list \<Rightarrow> nat \<Rightarrow> ('w ort, unit) action" where
  "Op_Invoke A p ctxt input_values input_count output_values output_count =
     do_call A OrtApi ''InvokeOp''
       [Ptr ctxt, Ptr p, Ptrs input_values, Num (to_int32 input_count), Ptrs output_values, Num (to_int32 output_count)]"

section \<open>Library queries\<close>

definition GetVersionString :: "'w api \<Rightarrow> ('w ort, string) action" where
  "GetVersionString A = mbind (plain A OrtApi ''GetVersionString'' []) (\<lambda>r. c_string (r_str r 0))"

definition GetBuildInfoString :: "'w api \<Rightarrow> ('w ort, string) action" where
  "GetBuildInfoString A = mbind (plain A OrtApi ''GetBuildInfoString'' []) (\<lambda>r. c_string (r_str r 0))"

text \<open>
  The guard releases the array on both exits; a failing release throws inside a destructor. A negative
  length becomes a huge \<open>size_t\<close> for \<open>reserve\<close>.
\<close>

definition release_providers :: "'w api \<Rightarrow> ptr \<Rightarrow> int \<Rightarrow> ('w ort, unit) action" where
  "release_providers A providers len =
     mcatch (do_call A OrtApi ''ReleaseAvailableProviders'' [Ptr providers, Num len]) (\<lambda>_. mcrash ''std::terminate'')"

definition GetAvailableProviders :: "'w api \<Rightarrow> ('w ort, string list) action" where
  "GetAvailableProviders A =
     mbind (checked A OrtApi ''GetAvailableProviders'' []) (\<lambda>r.
     let providers = r_ptr r 0; len = r_num r 0 in
     mbind (mcatch
         (mthen (mguard (len < 0) (LengthError ''vector::reserve''))
           (mmap c_string (filled (nat len) None (r_strs r 0))))
         (\<lambda>e. mthen (release_providers A providers len) (mthrow e))) (\<lambda>available_providers.
     mthen (release_providers A providers len) (mret available_providers)))"


end
