(* ===== verification/Ort_Custom_Ops.thy ===== *)
theory Ort_Custom_Ops imports Ort_Kernels begin

text \<open>
  Custom operators (\<open>onnxruntime_cxx_inline.h\<close>, lines 3373 to 3514): session configuration entries of an
  operator and the shape inference context with its attribute readers. \<open>SymbolicInteger\<close> is of
  \<open>onnxruntime_cxx_api.h\<close>.
\<close>

section \<open>CustomOpBase\<close>

text \<open>
  The operator's name and configuration keys are its own (\<open>TOp\<close>). One string is reused for the entry
  keys: cut back to the prefix, then extended.
\<close>

fun session_configs :: "'w api \<Rightarrow> ptr \<Rightarrow> string \<Rightarrow> nat \<Rightarrow> string list \<Rightarrow> (string \<times> string) list
    \<Rightarrow> ('w ort, (string \<times> string) list) action" where
  "session_configs A opts config_entry_key prefix_size [] out = mret out"
| "session_configs A opts config_entry_key prefix_size (key # keys) out =
     (let entry = take prefix_size config_entry_key @ key
      in mbind (SessionOptions_GetConfigEntryOrDefault A opts (c_str entry) []) (\<lambda>v.
         session_configs A opts entry prefix_size keys (put key v out)))"

definition CustomOpBase_GetSessionConfigs :: "'w api \<Rightarrow> string \<Rightarrow> string list \<Rightarrow> (string \<times> string) list \<Rightarrow> ptr
    \<Rightarrow> ('w ort, (string \<times> string) list) action" where
  "CustomOpBase_GetSessionConfigs A op_name keys out opts =
     (let config_entry_key = MakeCustomOpConfigEntryKey op_name []
      in session_configs A opts config_entry_key (length config_entry_key) keys out)"

section \<open>ShapeInferContext\<close>

text \<open>A dimension is an integer or a symbol (a C string that may be null).\<close>

datatype SymbolicInteger = IntDim int | SymDim "string option"

definition INVALID_INT_DIM :: int where
  "INVALID_INT_DIM = - 2"

text \<open>\<open>operator==\<close> copies both symbols into strings (undefined when one is null).\<close>

fun SymbolicInteger_eq :: "SymbolicInteger \<Rightarrow> SymbolicInteger \<Rightarrow> bool option" where
  "SymbolicInteger_eq (IntDim a) (IntDim b) = Some (a = b)"
| "SymbolicInteger_eq (SymDim (Some a)) (SymDim (Some b)) = Some (a = b)"
| "SymbolicInteger_eq (SymDim a) (SymDim b) = None"
| "SymbolicInteger_eq (IntDim a) (SymDim b) = Some False"
| "SymbolicInteger_eq (SymDim a) (IntDim b) = Some False"

record shape_infer_context =
  ctx_handle :: ptr
  input_shapes :: "SymbolicInteger list list"

definition infer_dim :: "string option \<Rightarrow> int \<Rightarrow> SymbolicInteger" where
  "infer_dim symb i = (case symb of None \<Rightarrow> IntDim i | Some s \<Rightarrow> if s \<noteq> [] then SymDim (Some s) else IntDim i)"

text \<open>
  The shape of one input. The type information is released only when reading it throws; on success the
  wrapper lets go of it.
\<close>

definition input_shape :: "'w api \<Rightarrow> ptr \<Rightarrow> nat \<Rightarrow> ('w ort, SymbolicInteger list) action" where
  "input_shape A ctx ith_input =
     mbind (get_ptr A OrtApi ''ShapeInferContext_GetInputTypeShape'' [Ptr ctx, Num (int ith_input)]) (\<lambda>info.
     guarded A ''TensorTypeAndShapeInfo'' info
       (mbind (TensorTypeAndShapeInfo_GetShape A info) (\<lambda>integer_shape.
        mbind (if integer_shape \<noteq> [] then TensorTypeAndShapeInfo_GetSymbolicDimensions A info (length integer_shape)
               else mret []) (\<lambda>symbolic_shape.
        mret (map2 infer_dim symbolic_shape integer_shape)))))"

definition ShapeInferContext_new :: "'w api \<Rightarrow> ptr \<Rightarrow> ('w ort, shape_infer_context) action" where
  "ShapeInferContext_new A ctx =
     mbind (get_size A OrtApi ''ShapeInferContext_GetInputCount'' [Ptr ctx]) (\<lambda>input_count.
     mbind (mmap (input_shape A ctx) [0..<input_count]) (\<lambda>shapes.
     mret \<lparr>ctx_handle = ctx, input_shapes = shapes\<rparr>))"

definition ShapeInferContext_GetInputShape :: "shape_infer_context \<Rightarrow> nat \<Rightarrow> ('w ort, SymbolicInteger list) action" where
  "ShapeInferContext_GetInputShape c indice =
     (if indice < length (input_shapes c) then mret (input_shapes c ! indice) else mthrow (OutOfRange ''vector''))"

text \<open>The two dimension arrays: symbols are empty for integers, integers invalid for symbols.\<close>

fun split_dims :: "SymbolicInteger list \<Rightarrow> (int list \<times> string list) option" where
  "split_dims [] = Some ([], [])"
| "split_dims (IntDim i # ds) = map_option (\<lambda>(is, ss). (i # is, [] # ss)) (split_dims ds)"
| "split_dims (SymDim None # ds) = None"
| "split_dims (SymDim (Some s) # ds) =
     (if s = [] then None else map_option (\<lambda>(is, ss). (INVALID_INT_DIM # is, s # ss)) (split_dims ds))"

text \<open>\<open>ORT_CXX_RETURN_ON_API_FAIL\<close>: an error status is returned at once.\<close>

definition return_on_fail :: "'w api \<Rightarrow> string \<Rightarrow> arg list \<Rightarrow> (reply \<Rightarrow> ('w ort, ptr) action) \<Rightarrow> ('w ort, ptr) action" where
  "return_on_fail A n args rest =
     mbind (api_call A OrtApi n args) (\<lambda>r. if r_status r \<noteq> 0 then mret (r_status r) else rest r)"

definition ShapeInferContext_SetOutputShape :: "'w api \<Rightarrow> shape_infer_context \<Rightarrow> nat \<Rightarrow> SymbolicInteger list \<Rightarrow> int
    \<Rightarrow> ('w ort, ptr) action" where
  "ShapeInferContext_SetOutputShape A c indice shape ty =
     return_on_fail A ''CreateTensorTypeAndShapeInfo'' [] (\<lambda>r.
     let info = r_ptr r 0 in
     return_on_fail A ''SetTensorElementType'' [Ptr info, Num ty] (\<lambda>_.
     scoped A ''TensorTypeAndShapeInfo'' info
       (case split_dims shape of
          None \<Rightarrow> mthrow (OrtException ''Symbolic dim must not be an empty string'' (error_code ORT_INVALID_ARGUMENT))
        | Some (integer_dims, symbolic_dims) \<Rightarrow>
            return_on_fail A ''SetDimensions'' [Ptr info, Nums integer_dims, Num (int (length integer_dims))] (\<lambda>_.
            return_on_fail A ''SetSymbolicDimensions''
              [Ptr info, CStrs symbolic_dims, Num (int (length symbolic_dims))] (\<lambda>_.
            return_on_fail A ''ShapeInferContext_SetOutputTypeShape''
              [Ptr (ctx_handle c), Num (int indice), Ptr info] (\<lambda>_. mret 0))))))"

definition ShapeInferContext_GetAttrHdl :: "'w api \<Rightarrow> shape_infer_context \<Rightarrow> string \<Rightarrow> ('w ort, ptr) action" where
  "ShapeInferContext_GetAttrHdl A c attr_name =
     get_ptr A OrtApi ''ShapeInferContext_GetAttribute'' [Ptr (ctx_handle c), Str attr_name]"

text \<open>An attribute read: an error status becomes an exception with its message and code, and is released.\<close>

definition attr_result :: "'w api \<Rightarrow> string \<Rightarrow> ptr \<times> 'a \<Rightarrow> ('w ort, 'a) action" where
  "attr_result A what result =
     (case result of (status, v) \<Rightarrow>
        scoped A ''Status'' status
          (if \<not> Status_IsOK status then
             mbind (Status_GetErrorMessage A status) (\<lambda>msg.
             mbind (Status_GetErrorCode A status) (\<lambda>code.
             mthrow (OrtException (''Getting '' @ what @ '' attribute failed: '' @ msg) code)))
           else mret v))"

definition ShapeInferContext_GetAttrInt :: "'w api \<Rightarrow> shape_infer_context \<Rightarrow> string \<Rightarrow> ('w ort, int) action" where
  "ShapeInferContext_GetAttrInt A c attr_name =
     mbind (ShapeInferContext_GetAttrHdl A c attr_name) (\<lambda>attr.
     mbind (OpAttr_GetValue A AttrInt64 attr 0) (attr_result A ''int''))"

definition ShapeInferContext_GetAttrInts :: "'w api \<Rightarrow> shape_infer_context \<Rightarrow> string \<Rightarrow> ('w ort, int list) action" where
  "ShapeInferContext_GetAttrInts A c attr_name =
     mbind (ShapeInferContext_GetAttrHdl A c attr_name) (\<lambda>attr.
     mbind (OpAttr_GetValueArray A AttrInt64 attr []) (attr_result A ''ints''))"

definition ShapeInferContext_GetAttrFloat :: "'w api \<Rightarrow> shape_infer_context \<Rightarrow> string \<Rightarrow> ('w ort, 32 word) action" where
  "ShapeInferContext_GetAttrFloat A c attr_name =
     mbind (ShapeInferContext_GetAttrHdl A c attr_name) (\<lambda>attr.
     mbind (OpAttr_GetValue A AttrFloat attr 0) (\<lambda>result.
     mbind (attr_result A ''float'' result) (\<lambda>v. mret (word_of_int v))))"

definition ShapeInferContext_GetAttrFloats :: "'w api \<Rightarrow> shape_infer_context \<Rightarrow> string \<Rightarrow> ('w ort, 32 word list) action" where
  "ShapeInferContext_GetAttrFloats A c attr_name =
     mbind (ShapeInferContext_GetAttrHdl A c attr_name) (\<lambda>attr.
     mbind (OpAttr_GetValueArray A AttrFloat attr []) (\<lambda>result.
     mbind (attr_result A ''floats'' result) (\<lambda>vs. mret (map word_of_int vs))))"

definition ShapeInferContext_GetAttrString :: "'w api \<Rightarrow> shape_infer_context \<Rightarrow> string \<Rightarrow> ('w ort, string) action" where
  "ShapeInferContext_GetAttrString A c attr_name =
     mbind (ShapeInferContext_GetAttrHdl A c attr_name) (\<lambda>attr.
     mbind (GetValueImpl_string_GetValue A attr []) (attr_result A ''string''))"

definition ShapeInferContext_GetAttrStrings :: "'w api \<Rightarrow> shape_infer_context \<Rightarrow> string \<Rightarrow> ('w ort, string list) action" where
  "ShapeInferContext_GetAttrStrings A c attr_name =
     mbind (ShapeInferContext_GetAttrHdl A c attr_name) (\<lambda>attr.
     mbind (GetValueImpl_string_GetValues A attr []) (attr_result A ''strings''))"

end
