(* ===== verification/Ort_Graph.thy ===== *)
theory Ort_Graph imports Ort_Custom_Ops begin

text \<open>
  Graphs and the model editor: nodes, value infos, graphs, models
  (\<open>onnxruntime_cxx_inline.h\<close>, lines 3517 to 3989).
\<close>

definition StringsToCharPtrs :: "string list \<Rightarrow> string list" where
  "StringsToCharPtrs strings = map c_str strings"

section \<open>Node\<close>

definition Node_GetId :: "'w api \<Rightarrow> ptr \<Rightarrow> ('w ort, nat) action" where
  "Node_GetId A p = get_size A OrtApi ''Node_GetId'' [Ptr p]"

definition Node_GetName :: "'w api \<Rightarrow> ptr \<Rightarrow> ('w ort, string) action" where
  "Node_GetName A p = get_string A OrtApi ''Node_GetName'' [Ptr p]"

definition Node_GetOperatorType :: "'w api \<Rightarrow> ptr \<Rightarrow> ('w ort, string) action" where
  "Node_GetOperatorType A p = get_string A OrtApi ''Node_GetOperatorType'' [Ptr p]"

definition Node_GetDomain :: "'w api \<Rightarrow> ptr \<Rightarrow> ('w ort, string) action" where
  "Node_GetDomain A p = get_string A OrtApi ''Node_GetDomain'' [Ptr p]"

definition Node_GetSinceVersion :: "'w api \<Rightarrow> ptr \<Rightarrow> ('w ort, int) action" where
  "Node_GetSinceVersion A p = get_num A OrtApi ''Node_GetSinceVersion'' [Ptr p]"

definition Node_GetInputs :: "'w api \<Rightarrow> ptr \<Rightarrow> ('w ort, ptr list) action" where
  "Node_GetInputs A p =
     mbind (get_size A OrtApi ''Node_GetNumInputs'' [Ptr p]) (fill_ptrs A OrtApi ''Node_GetInputs'' [Ptr p])"

definition Node_GetOutputs :: "'w api \<Rightarrow> ptr \<Rightarrow> ('w ort, ptr list) action" where
  "Node_GetOutputs A p =
     mbind (get_size A OrtApi ''Node_GetNumOutputs'' [Ptr p]) (fill_ptrs A OrtApi ''Node_GetOutputs'' [Ptr p])"

definition Node_GetImplicitInputs :: "'w api \<Rightarrow> ptr \<Rightarrow> ('w ort, ptr list) action" where
  "Node_GetImplicitInputs A p =
     mbind (get_size A OrtApi ''Node_GetNumImplicitInputs'' [Ptr p])
       (fill_ptrs A OrtApi ''Node_GetImplicitInputs'' [Ptr p])"

definition Node_GetAttributes :: "'w api \<Rightarrow> ptr \<Rightarrow> ('w ort, ptr list) action" where
  "Node_GetAttributes A p =
     mbind (get_size A OrtApi ''Node_GetNumAttributes'' [Ptr p]) (fill_ptrs A OrtApi ''Node_GetAttributes'' [Ptr p])"

text \<open>The output argument is overwritten whatever the status; it starts as the null pointer.\<close>

definition Node_GetAttributeByName :: "'w api \<Rightarrow> ptr \<Rightarrow> string \<Rightarrow> ('w ort, ptr \<times> ptr) action" where
  "Node_GetAttributeByName A p nm =
     mbind (api_call A OrtApi ''Node_GetAttributeByName'' [Ptr p, Str (c_str nm)]) (\<lambda>r.
     mret (r_status r, if r_status r = 0 then r_ptr r 0 else 0))"

definition Node_GetSubgraphs :: "'w api \<Rightarrow> ptr \<Rightarrow> ('w ort, (string \<times> ptr) list) action" where
  "Node_GetSubgraphs A p =
     mbind (get_size A OrtApi ''Node_GetNumSubgraphs'' [Ptr p]) (\<lambda>num_graphs.
     if num_graphs > 0 then
       mbind (checked A OrtApi ''Node_GetSubgraphs'' [Ptr p, Num (int num_graphs)]) (\<lambda>r.
       mmap (\<lambda>(nm, g). mbind (c_string nm) (\<lambda>s. mret (s, g)))
         (zip (filled num_graphs None (r_strs r 0)) (filled num_graphs 0 (r_ptrs r 0))))
     else mret [])"

definition Node_GetGraph :: "'w api \<Rightarrow> ptr \<Rightarrow> ('w ort, ptr) action" where
  "Node_GetGraph A p = get_ptr A OrtApi ''Node_GetGraph'' [Ptr p]"

definition Node_GetEpName :: "'w api \<Rightarrow> ptr \<Rightarrow> ('w ort, string) action" where
  "Node_GetEpName A p = get_string A OrtApi ''Node_GetEpName'' [Ptr p]"

text \<open>
  The attributes become the node's when the call succeeds: the result is the node and the attribute
  wrappers, emptied by \<open>release()\<close>. On an exception they keep their handles.
\<close>

definition Node_Init :: "'w api \<Rightarrow> string \<Rightarrow> string \<Rightarrow> string \<Rightarrow> string list \<Rightarrow> string list \<Rightarrow> ptr list
    \<Rightarrow> ('w ort, ptr \<times> ptr list) action" where
  "Node_Init A operator_name operator_domain node_name input_names output_names attributes =
     (let inputs = StringsToCharPtrs input_names; outputs = StringsToCharPtrs output_names
      in mbind (get_ptr A ModelEditorApi ''CreateNode''
           [Str (c_str operator_name), Str (c_str operator_domain), Str (c_str node_name),
            CStrs inputs, Num (int (length inputs)), CStrs outputs, Num (int (length outputs)),
            Ptrs attributes, Num (int (length attributes))]) (\<lambda>node.
         mret (node, map (\<lambda>_. 0) attributes)))"

definition Node_new :: "'w api \<Rightarrow> string \<Rightarrow> string \<Rightarrow> string \<Rightarrow> string list \<Rightarrow> string list \<Rightarrow> ptr list
    \<Rightarrow> ('w ort, ptr \<times> ptr list) action" where
  "Node_new A operator_name operator_domain node_name input_names output_names attributes =
     guarded A ''Node'' 0 (Node_Init A operator_name operator_domain node_name input_names output_names attributes)"

definition Node_new_2 :: "'w api \<Rightarrow> string \<Rightarrow> string \<Rightarrow> string \<Rightarrow> string list \<Rightarrow> string list \<Rightarrow> ('w ort, ptr) action" where
  "Node_new_2 A operator_name operator_domain node_name input_names output_names =
     mbind (guarded A ''Node'' 0 (Node_Init A operator_name operator_domain node_name input_names output_names []))
       (\<lambda>(node, _). mret node)"

section \<open>ValueInfo\<close>

definition ValueInfo_GetName :: "'w api \<Rightarrow> ptr \<Rightarrow> ('w ort, string) action" where
  "ValueInfo_GetName A p = get_string A OrtApi ''GetValueInfoName'' [Ptr p]"

definition ValueInfo_TypeInfo :: "'w api \<Rightarrow> ptr \<Rightarrow> ('w ort, ptr) action" where
  "ValueInfo_TypeInfo A p = get_ptr A OrtApi ''GetValueInfoTypeInfo'' [Ptr p]"

definition ValueInfo_GetProducerNode :: "'w api \<Rightarrow> ptr \<Rightarrow> ('w ort, ptr \<times> int) action" where
  "ValueInfo_GetProducerNode A p =
     mbind (checked A OrtApi ''ValueInfo_GetValueProducer'' [Ptr p]) (\<lambda>r. mret (r_ptr r 0, r_num r 0))"

definition ValueInfo_GetConsumers :: "'w api \<Rightarrow> ptr \<Rightarrow> ('w ort, (ptr \<times> int) list) action" where
  "ValueInfo_GetConsumers A p =
     mbind (get_size A OrtApi ''ValueInfo_GetValueNumConsumers'' [Ptr p]) (\<lambda>num.
     if num > 0 then
       mbind (checked A OrtApi ''ValueInfo_GetValueConsumers'' [Ptr p, Num (int num)]) (\<lambda>r.
       mret (zip (filled num 0 (r_ptrs r 0)) (filled num 0 (r_nums r 0))))
     else mret [])"

definition ValueInfo_GetInitializer :: "'w api \<Rightarrow> ptr \<Rightarrow> ptr \<Rightarrow> ('w ort, ptr \<times> ptr) action" where
  "ValueInfo_GetInitializer A p val =
     mbind (api_call A OrtApi ''ValueInfo_GetInitializerValue'' [Ptr p]) (\<lambda>r.
     mret (r_status r, if Status_IsOK (r_status r) then r_ptr r 0 else val))"

definition ValueInfo_GetExternalInitializerInfo :: "'w api \<Rightarrow> ptr \<Rightarrow> ptr \<Rightarrow> ('w ort, ptr \<times> ptr) action" where
  "ValueInfo_GetExternalInitializerInfo A p info =
     mbind (api_call A OrtApi ''ValueInfo_GetExternalInitializerInfo'' [Ptr p]) (\<lambda>r.
     if \<not> Status_IsOK (r_status r) then mret (r_status r, info)
     else mthen (OrtRelease A ''ExternalInitializerInfo'' info) (mret (0, r_ptr r 0)))"

definition ValueInfo_IsRequiredGraphInput ::
  "'w api \<Rightarrow> ptr \<Rightarrow> ('w ort, bool) action" where
  "ValueInfo_IsRequiredGraphInput A p = get_bool A OrtApi ''ValueInfo_IsRequiredGraphInput'' [Ptr p]"

definition ValueInfo_IsOptionalGraphInput ::
  "'w api \<Rightarrow> ptr \<Rightarrow> ('w ort, bool) action" where
  "ValueInfo_IsOptionalGraphInput A p = get_bool A OrtApi ''ValueInfo_IsOptionalGraphInput'' [Ptr p]"

definition ValueInfo_IsGraphOutput :: "'w api \<Rightarrow> ptr \<Rightarrow> ('w ort, bool) action" where
  "ValueInfo_IsGraphOutput A p = get_bool A OrtApi ''ValueInfo_IsGraphOutput'' [Ptr p]"

definition ValueInfo_IsConstantInitializer ::
  "'w api \<Rightarrow> ptr \<Rightarrow> ('w ort, bool) action" where
  "ValueInfo_IsConstantInitializer A p = get_bool A OrtApi ''ValueInfo_IsConstantInitializer'' [Ptr p]"

definition ValueInfo_IsFromOuterScope :: "'w api \<Rightarrow> ptr \<Rightarrow> ('w ort, bool) action" where
  "ValueInfo_IsFromOuterScope A p = get_bool A OrtApi ''ValueInfo_IsFromOuterScope'' [Ptr p]"

section \<open>Graph\<close>

definition Graph_GetModelMetadata :: "'w api \<Rightarrow> ptr \<Rightarrow> ('w ort, ptr) action" where
  "Graph_GetModelMetadata A p = get_ptr A OrtApi ''Graph_GetModelMetadata'' [Ptr p]"

definition Graph_GetName :: "'w api \<Rightarrow> ptr \<Rightarrow> ('w ort, string) action" where
  "Graph_GetName A p = get_string A OrtApi ''Graph_GetName'' [Ptr p]"

definition Graph_GetModelPath :: "'w api \<Rightarrow> ptr \<Rightarrow> ('w ort, string) action" where
  "Graph_GetModelPath A p = get_string A OrtApi ''Graph_GetModelPath'' [Ptr p]"

definition Graph_GetOnnxIRVersion :: "'w api \<Rightarrow> ptr \<Rightarrow> ('w ort, int) action" where
  "Graph_GetOnnxIRVersion A p = get_num A OrtApi ''Graph_GetOnnxIRVersion'' [Ptr p]"

definition Graph_GetOperatorSets :: "'w api \<Rightarrow> ptr \<Rightarrow> ('w ort, (string \<times> int) list) action" where
  "Graph_GetOperatorSets A p =
     mbind (get_size A OrtApi ''Graph_GetNumOperatorSets'' [Ptr p]) (\<lambda>num_opsets.
     if num_opsets > 0 then
       mbind (checked A OrtApi ''Graph_GetOperatorSets'' [Ptr p, Num (int num_opsets)]) (\<lambda>r.
       mmap (\<lambda>(d, v). mbind (c_string d) (\<lambda>s. mret (s, v)))
         (zip (filled num_opsets None (r_strs r 0)) (filled num_opsets 0 (r_nums r 0))))
     else mret [])"

definition Graph_GetInputs :: "'w api \<Rightarrow> ptr \<Rightarrow> ('w ort, ptr list) action" where
  "Graph_GetInputs A p =
     mbind (get_size A OrtApi ''Graph_GetNumInputs'' [Ptr p]) (fill_ptrs A OrtApi ''Graph_GetInputs'' [Ptr p])"

definition Graph_GetOutputs :: "'w api \<Rightarrow> ptr \<Rightarrow> ('w ort, ptr list) action" where
  "Graph_GetOutputs A p =
     mbind (get_size A OrtApi ''Graph_GetNumOutputs'' [Ptr p]) (fill_ptrs A OrtApi ''Graph_GetOutputs'' [Ptr p])"

definition Graph_GetInitializers :: "'w api \<Rightarrow> ptr \<Rightarrow> ('w ort, ptr list) action" where
  "Graph_GetInitializers A p =
     mbind (get_size A OrtApi ''Graph_GetNumInitializers'' [Ptr p])
       (fill_ptrs A OrtApi ''Graph_GetInitializers'' [Ptr p])"

definition Graph_GetNodes :: "'w api \<Rightarrow> ptr \<Rightarrow> ('w ort, ptr list) action" where
  "Graph_GetNodes A p =
     mbind (get_size A OrtApi ''Graph_GetNumNodes'' [Ptr p]) (fill_ptrs A OrtApi ''Graph_GetNodes'' [Ptr p])"

definition Graph_GetParentNode :: "'w api \<Rightarrow> ptr \<Rightarrow> ('w ort, ptr) action" where
  "Graph_GetParentNode A p = get_ptr A OrtApi ''Graph_GetParentNode'' [Ptr p]"

definition Graph_GetGraphView :: "'w api \<Rightarrow> ptr \<Rightarrow> ptr list \<Rightarrow> ('w ort, ptr) action" where
  "Graph_GetGraphView A p nodes =
     get_ptr A OrtApi ''Graph_GetGraphView'' [Ptr p, Ptrs nodes, Num (int (length nodes))]"

text \<open>
  Ownership passes to the graph when the call succeeds: the results are the argument wrappers, emptied
  by \<open>release()\<close>.
\<close>

definition Graph_SetInputs :: "'w api \<Rightarrow> ptr \<Rightarrow> ptr list \<Rightarrow> ('w ort, ptr list) action" where
  "Graph_SetInputs A p inputs =
     mthen (do_call A ModelEditorApi ''SetGraphInputs'' [Ptr p, Ptrs inputs, Num (int (length inputs))])
      (mret (map (\<lambda>_. 0) inputs))"

definition Graph_SetOutputs :: "'w api \<Rightarrow> ptr \<Rightarrow> ptr list \<Rightarrow> ('w ort, ptr list) action" where
  "Graph_SetOutputs A p outputs =
     mthen (do_call A ModelEditorApi ''SetGraphOutputs'' [Ptr p, Ptrs outputs, Num (int (length outputs))])
      (mret (map (\<lambda>_. 0) outputs))"

definition Graph_AddInitializer :: "'w api \<Rightarrow> ptr \<Rightarrow> string \<Rightarrow> ptr \<Rightarrow> bool \<Rightarrow> ('w ort, ptr) action" where
  "Graph_AddInitializer A p nm initializer data_is_external =
     mthen (do_call A ModelEditorApi ''AddInitializerToGraph''
        [Ptr p, Str (c_str nm), Ptr initializer, Num (of_bool data_is_external)])
      (mret 0)"

definition Graph_AddNode :: "'w api \<Rightarrow> ptr \<Rightarrow> ptr \<Rightarrow> ('w ort, ptr) action" where
  "Graph_AddNode A p node = mthen (do_call A ModelEditorApi ''AddNodeToGraph'' [Ptr p, Ptr node]) (mret 0)"

section \<open>Model\<close>

definition Model_AddGraph :: "'w api \<Rightarrow> ptr \<Rightarrow> ptr \<Rightarrow> ('w ort, ptr) action" where
  "Model_AddGraph A p graph = mthen (do_call A ModelEditorApi ''AddGraphToModel'' [Ptr p, Ptr graph]) (mret 0)"

section \<open>Graph\<close>

definition Graph_new :: "'w api \<Rightarrow> ('w ort, ptr) action" where
  "Graph_new A = create A ''Graph'' ModelEditorApi ''CreateGraph'' []"

section \<open>Model\<close>

definition Model_new :: "'w api \<Rightarrow> (string \<times> int) list \<Rightarrow> ('w ort, ptr) action" where
  "Model_new A opsets =
     create A ''Model'' ModelEditorApi ''CreateModel''
       [CStrs (map (\<lambda>o'. c_str (fst o')) opsets), Nums (map snd opsets), Num (int (length opsets))]"


end
