(* ===== verification/Ort_Ep.thy ===== *)
theory Ort_Ep imports Ort_Graph begin

text \<open>
  Kernel definitions, registries and operator schemas of execution providers
  (\<open>onnxruntime_cxx_inline.h\<close>, lines 3992 to 4256).
\<close>

section \<open>KernelDef\<close>

definition KernelDef_GetOperatorType ::
  "'w api \<Rightarrow> ptr \<Rightarrow> ('w ort, string option) action" where
  "KernelDef_GetOperatorType A p =
     mbind (plain A EpApi ''KernelDef_GetOperatorType'' [Ptr p]) (\<lambda>r. mret (r_str r 0))"

definition KernelDef_GetDomain ::
  "'w api \<Rightarrow> ptr \<Rightarrow> ('w ort, string option) action" where
  "KernelDef_GetDomain A p =
     mbind (plain A EpApi ''KernelDef_GetDomain'' [Ptr p]) (\<lambda>r. mret (r_str r 0))"

definition KernelDef_GetSinceVersion :: "'w api \<Rightarrow> ptr \<Rightarrow> ('w ort, int \<times> int) action" where
  "KernelDef_GetSinceVersion A p =
     mbind (checked A EpApi ''KernelDef_GetSinceVersion'' [Ptr p]) (\<lambda>r. mret (r_num r 0, r_num r 1))"

definition KernelDef_GetExecutionProvider ::
  "'w api \<Rightarrow> ptr \<Rightarrow> ('w ort, string option) action" where
  "KernelDef_GetExecutionProvider A p =
     mbind (plain A EpApi ''KernelDef_GetExecutionProvider'' [Ptr p]) (\<lambda>r. mret (r_str r 0))"

definition KernelDef_GetInputMemType ::
  "'w api \<Rightarrow> ptr \<Rightarrow> nat \<Rightarrow> ('w ort, int) action" where
  "KernelDef_GetInputMemType A p input_index =
     get_num A EpApi ''KernelDef_GetInputMemType'' [Ptr p, Num (int input_index)]"

definition KernelDef_GetOutputMemType ::
  "'w api \<Rightarrow> ptr \<Rightarrow> nat \<Rightarrow> ('w ort, int) action" where
  "KernelDef_GetOutputMemType A p output_index =
     get_num A EpApi ''KernelDef_GetOutputMemType'' [Ptr p, Num (int output_index)]"

section \<open>KernelDefBuilder\<close>

definition KernelDefBuilder_new :: "'w api \<Rightarrow> ('w ort, ptr) action" where
  "KernelDefBuilder_new A = create A ''KernelDefBuilder'' EpApi ''CreateKernelDefBuilder'' []"

definition KernelDefBuilder_SetOperatorType ::
  "'w api \<Rightarrow> ptr \<Rightarrow> string \<Rightarrow> ('w ort, unit) action" where
  "KernelDefBuilder_SetOperatorType A p op_type =
     do_call A EpApi ''KernelDefBuilder_SetOperatorType'' [Ptr p, Str op_type]"

definition KernelDefBuilder_SetDomain ::
  "'w api \<Rightarrow> ptr \<Rightarrow> string \<Rightarrow> ('w ort, unit) action" where
  "KernelDefBuilder_SetDomain A p dom_name =
     do_call A EpApi ''KernelDefBuilder_SetDomain'' [Ptr p, Str dom_name]"

definition KernelDefBuilder_SetSinceVersion ::
  "'w api \<Rightarrow> ptr \<Rightarrow> int \<Rightarrow> int \<Rightarrow> ('w ort, unit) action" where
  "KernelDefBuilder_SetSinceVersion A p since_version_start since_version_end =
     do_call A EpApi ''KernelDefBuilder_SetSinceVersion'' [Ptr p, Num since_version_start,
       Num since_version_end]"

definition KernelDefBuilder_SetExecutionProvider ::
  "'w api \<Rightarrow> ptr \<Rightarrow> string \<Rightarrow> ('w ort, unit) action" where
  "KernelDefBuilder_SetExecutionProvider A p ep_name =
     do_call A EpApi ''KernelDefBuilder_SetExecutionProvider'' [Ptr p, Str ep_name]"

definition KernelDefBuilder_SetInputMemType ::
  "'w api \<Rightarrow> ptr \<Rightarrow> nat \<Rightarrow> int \<Rightarrow> ('w ort, unit) action" where
  "KernelDefBuilder_SetInputMemType A p input_index mem_type =
     do_call A EpApi ''KernelDefBuilder_SetInputMemType'' [Ptr p, Num (int input_index), Num mem_type]"

definition KernelDefBuilder_SetOutputMemType ::
  "'w api \<Rightarrow> ptr \<Rightarrow> nat \<Rightarrow> int \<Rightarrow> ('w ort, unit) action" where
  "KernelDefBuilder_SetOutputMemType A p output_index mem_type =
     do_call A EpApi ''KernelDefBuilder_SetOutputMemType'' [Ptr p, Num (int output_index), Num mem_type]"

text \<open>A single value is passed as an array of one element.\<close>

definition KernelDefBuilder_AddTypeConstraint :: "'w api \<Rightarrow> ptr \<Rightarrow> string \<Rightarrow> ptr \<Rightarrow> ('w ort, unit) action" where
  "KernelDefBuilder_AddTypeConstraint A p arg_name data_type =
     do_call A EpApi ''KernelDefBuilder_AddTypeConstraint'' [Ptr p, Str arg_name, Ptrs [data_type], Num 1]"

definition KernelDefBuilder_AddTypeConstraint_2 :: "'w api \<Rightarrow> ptr \<Rightarrow> string \<Rightarrow> ptr list \<Rightarrow> ('w ort, unit) action" where
  "KernelDefBuilder_AddTypeConstraint_2 A p arg_name data_types =
     do_call A EpApi ''KernelDefBuilder_AddTypeConstraint''
       [Ptr p, Str arg_name, Ptrs data_types, Num (int (length data_types))]"

definition KernelDefBuilder_AddInputOutputAlias :: "'w api \<Rightarrow> ptr \<Rightarrow> int \<Rightarrow> int \<Rightarrow> ('w ort, unit) action" where
  "KernelDefBuilder_AddInputOutputAlias A p input_index output_index =
     do_call A EpApi ''KernelDefBuilder_AddInputOutputAliases'' [Ptr p, Nums [input_index], Nums [output_index], Num 1]"

definition KernelDefBuilder_AddInputOutputAliases :: "'w api \<Rightarrow> ptr \<Rightarrow> int list \<Rightarrow> int list \<Rightarrow> ('w ort, unit) action" where
  "KernelDefBuilder_AddInputOutputAliases A p input_indices output_indices =
     mthen (mguard (length input_indices \<noteq> length output_indices)
       (OrtException ''Expecting input and output indices to have the same element count'' (error_code ORT_INVALID_ARGUMENT)))
      (do_call A EpApi ''KernelDefBuilder_AddInputOutputAliases''
        [Ptr p, Nums input_indices, Nums output_indices, Num (int (length input_indices))])"

definition KernelDefBuilder_AddInputOutputMutableAlias :: "'w api \<Rightarrow> ptr \<Rightarrow> int \<Rightarrow> int \<Rightarrow> ('w ort, unit) action" where
  "KernelDefBuilder_AddInputOutputMutableAlias A p input_index output_index =
     do_call A EpApi ''KernelDefBuilder_AddInputOutputMutableAliases''
       [Ptr p, Nums [input_index], Nums [output_index], Num 1]"

definition KernelDefBuilder_AddInputOutputMutableAliases ::
  "'w api \<Rightarrow> ptr \<Rightarrow> int list \<Rightarrow> int list \<Rightarrow> ('w ort, unit) action" where
  "KernelDefBuilder_AddInputOutputMutableAliases A p input_indices output_indices =
     mthen (mguard (length input_indices \<noteq> length output_indices)
       (OrtException ''Expecting input and output indices to have the same element count'' (error_code ORT_INVALID_ARGUMENT)))
      (do_call A EpApi ''KernelDefBuilder_AddInputOutputMutableAliases''
        [Ptr p, Nums input_indices, Nums output_indices, Num (int (length input_indices))])"

definition KernelDefBuilder_Build :: "'w api \<Rightarrow> ptr \<Rightarrow> ('w ort, ptr) action" where
  "KernelDefBuilder_Build A p = get_ptr A EpApi ''KernelDefBuilder_Build'' [Ptr p]"

section \<open>KernelRegistry\<close>

definition KernelRegistry_new :: "'w api \<Rightarrow> ('w ort, ptr) action" where
  "KernelRegistry_new A = create A ''KernelRegistry'' EpApi ''CreateKernelRegistry'' []"

definition KernelRegistry_AddKernel ::
  "'w api \<Rightarrow> ptr \<Rightarrow> ptr \<Rightarrow> ptr \<Rightarrow> ptr
     \<Rightarrow> ('w ort, ptr) action" where
  "KernelRegistry_AddKernel A p kernel_def kernel_create_func kernel_create_func_state =
     as_status A EpApi ''KernelRegistry_AddKernel'' [Ptr p, Ptr kernel_def, Ptr kernel_create_func,
       Ptr kernel_create_func_state]"

section \<open>SharedPrePackedWeightCache\<close>

definition SharedPrePackedWeightCache_StoreWeightData :: "'w api \<Rightarrow> ptr \<Rightarrow> ptr \<Rightarrow> ptr \<Rightarrow> nat \<Rightarrow> ('w ort, ptr) action" where
  "SharedPrePackedWeightCache_StoreWeightData A p buffer_data_ptrs buffer_sizes num_buffers =
     as_status A EpApi ''SharedPrePackedWeightCache_StoreWeightData''
       [Ptr p, Ptr buffer_data_ptrs, Ptr buffer_sizes, Num (int num_buffers)]"

definition GetEnvConfigEntries :: "'w api \<Rightarrow> ('w ort, ptr) action" where
  "GetEnvConfigEntries A = get_ptr A EpApi ''GetEnvConfigEntries'' []"

section \<open>OpSchema\<close>

definition OpSchema_GetSinceVersion :: "'w api \<Rightarrow> ptr \<Rightarrow> ('w ort, int) action" where
  "OpSchema_GetSinceVersion A p = get_num A EpApi ''OpSchema_GetSinceVersion'' [Ptr p]"

definition OpSchema_GetNumInputs :: "'w api \<Rightarrow> ptr \<Rightarrow> ('w ort, nat) action" where
  "OpSchema_GetNumInputs A p = get_size A EpApi ''OpSchema_GetNumInputs'' [Ptr p]"

definition OpSchema_GetInputName ::
  "'w api \<Rightarrow> ptr \<Rightarrow> nat \<Rightarrow> ('w ort, string) action" where
  "OpSchema_GetInputName A p index = get_string A EpApi ''OpSchema_GetInputName'' [Ptr p, Num (int index)]"

definition OpSchema_GetInputTypeConstraint ::
  "'w api \<Rightarrow> ptr \<Rightarrow> nat \<Rightarrow> ('w ort, ptr) action" where
  "OpSchema_GetInputTypeConstraint A p index =
     get_ptr A EpApi ''OpSchema_GetInputTypeConstraint'' [Ptr p, Num (int index)]"

definition OpSchema_GetNumOutputs :: "'w api \<Rightarrow> ptr \<Rightarrow> ('w ort, nat) action" where
  "OpSchema_GetNumOutputs A p = get_size A EpApi ''OpSchema_GetNumOutputs'' [Ptr p]"

definition OpSchema_GetOutputName ::
  "'w api \<Rightarrow> ptr \<Rightarrow> nat \<Rightarrow> ('w ort, string) action" where
  "OpSchema_GetOutputName A p index = get_string A EpApi ''OpSchema_GetOutputName'' [Ptr p, Num (int index)]"

definition OpSchema_GetOutputTypeConstraint ::
  "'w api \<Rightarrow> ptr \<Rightarrow> nat \<Rightarrow> ('w ort, ptr) action" where
  "OpSchema_GetOutputTypeConstraint A p index =
     get_ptr A EpApi ''OpSchema_GetOutputTypeConstraint'' [Ptr p, Num (int index)]"

definition OpSchema_GetTypeConstraintCount ::
  "'w api \<Rightarrow> ptr \<Rightarrow> ('w ort, nat) action" where
  "OpSchema_GetTypeConstraintCount A p = get_size A EpApi ''OpSchema_GetTypeConstraintCount'' [Ptr p]"

definition OpSchema_GetTypeConstraint ::
  "'w api \<Rightarrow> ptr \<Rightarrow> nat \<Rightarrow> ('w ort, ptr) action" where
  "OpSchema_GetTypeConstraint A p index =
     get_ptr A EpApi ''OpSchema_GetTypeConstraint'' [Ptr p, Num (int index)]"

section \<open>OpSchemaTypeConstraint\<close>

definition OpSchemaTypeConstraint_GetTypeParamName ::
  "'w api \<Rightarrow> ptr \<Rightarrow> ('w ort, string) action" where
  "OpSchemaTypeConstraint_GetTypeParamName A p =
     get_string A EpApi ''OpSchemaTypeConstraint_GetTypeParamName'' [Ptr p]"

definition OpSchemaTypeConstraint_GetAllowedTypes :: "'w api \<Rightarrow> ptr \<Rightarrow> ('w ort, string list) action" where
  "OpSchemaTypeConstraint_GetAllowedTypes A p =
     mbind (checked A EpApi ''OpSchemaTypeConstraint_GetAllowedTypes'' [Ptr p]) (\<lambda>r. mmap c_string (r_strs r 0))"

definition OpSchemaTypeConstraint_GetInputIndices :: "'w api \<Rightarrow> ptr \<Rightarrow> ('w ort, nat list) action" where
  "OpSchemaTypeConstraint_GetInputIndices A p =
     mbind (checked A EpApi ''OpSchemaTypeConstraint_GetInputIndices'' [Ptr p]) (\<lambda>r. mret (map nat (r_nums r 0)))"

definition OpSchemaTypeConstraint_GetOutputIndices :: "'w api \<Rightarrow> ptr \<Rightarrow> ('w ort, nat list) action" where
  "OpSchemaTypeConstraint_GetOutputIndices A p =
     mbind (checked A EpApi ''OpSchemaTypeConstraint_GetOutputIndices'' [Ptr p]) (\<lambda>r. mret (map nat (r_nums r 0)))"

definition GetOpSchema ::
  "'w api \<Rightarrow> string \<Rightarrow> int \<Rightarrow> string \<Rightarrow> ('w ort, ptr) action" where
  "GetOpSchema A nm max_inclusive_version dom_name =
     get_ptr A EpApi ''GetOpSchema'' [Str nm, Num max_inclusive_version, Str dom_name]"


end
