(* ===== verification/Opus.thy ===== *)
theory Opus imports Engine_Types Float_Bits Ort_Ep begin

text \<open>
  The class \<open>Opus\<close> of \<open>translation.cpp\<close>: loading of the metadata and the two sessions, the check of the
  decoder's signature, and the greedy translation loop with its key/value cache. It is written over the
  wrappers of the ONNX Runtime theories, so every call of the C API is an event of the run; the JSON
  and SentencePiece libraries, which are not in the repository, are parameters.
\<close>

section \<open>Parameters and state\<close>

text \<open>
  A converted or looked-up JSON value may throw. \<open>sp_load\<close> yields a processor, \<open>None\<close> when its status is
  not ok. The \<open>at_\<close> fields are the addresses of the buffers and locals that tensors alias.
\<close>

record ('j, 'p) opus_env =
  read_file :: "string \<Rightarrow> string option"
  json_parse :: "string \<Rightarrow> exn + 'j"
  json_at :: "'j \<Rightarrow> string \<Rightarrow> exn + 'j"
  json_int :: "'j \<Rightarrow> exn + int"
  json_size :: "'j \<Rightarrow> exn + nat"
  json_items :: "'j \<Rightarrow> (string \<times> 'j) list"
  json_value :: "'j \<Rightarrow> string \<Rightarrow> int \<Rightarrow> exn + int"
  sp_load :: "string \<Rightarrow> 'p option"
  sp_encode :: "'p \<Rightarrow> string \<Rightarrow> string list option"
  sp_decode :: "'p \<Rightarrow> string list \<Rightarrow> string option"
  flag_others :: "nat \<Rightarrow> bool list"
  at_ids :: ptr
  at_mask :: ptr
  at_token :: ptr
  at_cached :: ptr

text \<open>The members of the object; the 32-bit integers keep their values.\<close>

record ('j, 'p) opus =
  encoder :: ptr
  decoder :: ptr
  memory :: ptr
  source :: 'p
  target :: 'p
  vocab :: 'j
  pieces :: "string list"
  in_names :: "string list"
  out_names :: "string list"
  layers :: int
  heads :: int
  head_dim :: int
  start_id :: int
  eos_id :: int
  pad_id :: int
  unk_id :: int

text \<open>
  The state: the runtime, the cancellation flag, the static environment, the two sessions under
  construction and the vectors of values of the running call.
\<close>

datatype vec = Input | Hidden | Feed | Result

record 'w opus_state =
  ort :: "'w ort"
  oflag :: flag
  env_handle :: "ptr option"
  m_encoder :: ptr
  m_decoder :: ptr
  vecs :: "vec \<Rightarrow> ptr list list"

definition in_ort :: "('w ort, 'a) action \<Rightarrow> ('w opus_state, 'a) action" where
  "in_ort m = (\<lambda>s. let (x, t) = m (ort s) in (x, s\<lparr>ort := t\<rparr>))"

definition msum :: "exn + 'a \<Rightarrow> ('s, 'a) action" where
  "msum x = (case x of Inl e \<Rightarrow> mthrow e | Inr v \<Rightarrow> mret v)"

text \<open>A local object that owns a handle: released when its scope is left, normally or by an exception.\<close>

definition owning :: "'w api \<Rightarrow> string \<Rightarrow> ptr \<Rightarrow> ('w opus_state, 'a) action \<Rightarrow> ('w opus_state, 'a) action" where
  "owning A k p body =
     mbind (mcatch body (\<lambda>e. mthen (in_ort (OrtRelease A k p)) (mthrow e))) (\<lambda>x.
     mthen (in_ort (OrtRelease A k p)) (mret x))"

text \<open>
  A local vector of values is a frame of its name: pushed with its first contents when the scope is
  entered; when it is left, the frame is popped and its elements are released.
\<close>

definition push_frame :: "vec \<Rightarrow> ptr list \<Rightarrow> ('w opus_state, unit) action" where
  "push_frame v ps = mmodify (\<lambda>s. s\<lparr>vecs := (vecs s)(v := ps # vecs s v)\<rparr>)"

definition contents :: "'w opus_state \<Rightarrow> vec \<Rightarrow> ptr list" where
  "contents s v = (case vecs s v of [] \<Rightarrow> [] | ps # _ \<Rightarrow> ps)"

definition put_vec :: "vec \<Rightarrow> ptr list \<Rightarrow> 'w opus_state \<Rightarrow> 'w opus_state" where
  "put_vec v ps s = s\<lparr>vecs := (vecs s)(v := ps # tl (vecs s v))\<rparr>"

definition pop_frame :: "vec \<Rightarrow> ('w opus_state, ptr list) action" where
  "pop_frame v = (\<lambda>s. (Ok (contents s v), s\<lparr>vecs := (vecs s)(v := tl (vecs s v))\<rparr>))"

definition get_vec :: "vec \<Rightarrow> ('w opus_state, ptr list) action" where
  "get_vec v = mget (\<lambda>s. contents s v)"

definition push_vec :: "vec \<Rightarrow> ptr \<Rightarrow> ('w opus_state, unit) action" where
  "push_vec v p = mmodify (\<lambda>s. put_vec v (contents s v @ [p]) s)"

definition release_frame :: "'w api \<Rightarrow> vec \<Rightarrow> ('w opus_state, unit) action" where
  "release_frame A v = mbind (pop_frame v) (\<lambda>ps. mthen (in_ort (mmap (OrtRelease A ''Value'') ps)) (mret ()))"

definition vec_scope :: "'w api \<Rightarrow> vec \<Rightarrow> ptr list \<Rightarrow> ('w opus_state, 'a) action \<Rightarrow> ('w opus_state, 'a) action" where
  "vec_scope A v ps body =
     mthen (push_frame v ps)
      (mbind (mcatch body (\<lambda>e. mthen (release_frame A v) (mthrow e))) (\<lambda>x.
       mthen (release_frame A v) (mret x)))"

text \<open>\<open>d[j] = std::move(v[k])\<close>: the old handle of \<open>d[j]\<close> is the result; out of range is undefined.\<close>

definition take_over :: "vec \<Rightarrow> nat \<Rightarrow> vec \<Rightarrow> nat \<Rightarrow> ('w opus_state, ptr) action" where
  "take_over d j v k = (\<lambda>s.
     if j < length (contents s d) \<and> k < length (contents s v)
     then (Ok (contents s d ! j),
           put_vec v ((contents s v)[k := 0]) (put_vec d ((contents s d)[j := contents s v ! k]) s))
     else (Crash ''vector index'', s))"

definition move_value :: "'w api \<Rightarrow> vec \<Rightarrow> nat \<Rightarrow> vec \<Rightarrow> nat \<Rightarrow> ('w opus_state, unit) action" where
  "move_value A d j v k = mbind (take_over d j v k) (\<lambda>old. in_ort (OrtRelease A ''Value'' old))"

text \<open>\<open>d.push_back(std::move(v[k]))\<close>.\<close>

definition push_moved :: "vec \<Rightarrow> vec \<Rightarrow> nat \<Rightarrow> ('w opus_state, unit) action" where
  "push_moved d v k = (\<lambda>s.
     if k < length (contents s v)
     then (Ok (), put_vec v ((contents s v)[k := 0]) (put_vec d (contents s d @ [contents s v ! k]) s))
     else (Crash ''vector index'', s))"

definition element :: "vec \<Rightarrow> nat \<Rightarrow> ('w opus_state, ptr) action" where
  "element v k = (\<lambda>s. if k < length (contents s v) then (Ok (contents s v ! k), s) else (Crash ''vector index'', s))"

text \<open>
  Memory of the process that tensors alias is shared with the runtime: a write to it is an event the
  runtime observes, a read returns the runtime's view.
\<close>

definition store :: "'w api \<Rightarrow> ptr \<Rightarrow> int list \<Rightarrow> ('w opus_state, unit) action" where
  "store A p xs = in_ort (mthen (call_plain A OrtApi ''<store>'' [Ptr p, Nums xs]) (mret ()))"

definition load_floats :: "'w api \<Rightarrow> ptr \<Rightarrow> nat \<Rightarrow> ('w opus_state, float32 list) action" where
  "load_floats A p n =
     in_ort (mbind (call_plain A OrtApi ''<load>'' [Ptr p, Num (int n)]) (\<lambda>r.
       mret (map word_of_int (filled n 0 (r_nums r 0)))))"

section \<open>Construction\<close>

definition read_json :: "('j, 'p) opus_env \<Rightarrow> string \<Rightarrow> ('w opus_state, 'j) action" where
  "read_json E path = (case read_file E path of
       None \<Rightarrow> mthrow (RuntimeError (''Missing model metadata: '' @ path))
     | Some content \<Rightarrow> msum (json_parse E content))"

text \<open>The static environment of the process: created by the first call that succeeds.\<close>

definition environment :: "'w api \<Rightarrow> ('w opus_state, ptr) action" where
  "environment A =
     mbind (mget env_handle) (\<lambda>e. case e of
       Some p \<Rightarrow> mret p
     | None \<Rightarrow>
         mbind (in_ort (Env_new A (logging_level_code ORT_LOGGING_LEVEL_WARNING) ''live-captions'')) (\<lambda>p.
         mthen (mmodify (\<lambda>s. s\<lparr>env_handle := Some p\<rparr>)) (mret p)))"

definition at_int :: "('j, 'p) opus_env \<Rightarrow> 'j \<Rightarrow> string \<Rightarrow> ('w opus_state, int) action" where
  "at_int E j key = mbind (msum (json_at E j key)) (\<lambda>v. msum (json_int E v))"

text \<open>Division of C++ integers truncates; a zero divisor and \<open>INT_MIN / -1\<close> are undefined.\<close>

definition int_div :: "int \<Rightarrow> int \<Rightarrow> ('s, int) action" where
  "int_div a b =
     (if b = 0 \<or> a = - (2 ^ 31) \<and> b = - 1 then mcrash ''integer division''
      else mret (sgn a * sgn b * (\<bar>a\<bar> div \<bar>b\<bar>)))"

fun fill_pieces :: "('j, 'p) opus_env \<Rightarrow> string list \<Rightarrow> (string \<times> 'j) list \<Rightarrow> ('w opus_state, string list) action" where
  "fill_pieces E ps [] = mret ps"
| "fill_pieces E ps ((key, v) # entries) =
     mbind (msum (json_size E v)) (\<lambda>i.
     mthen (mguard (length ps \<le> i) (RuntimeError ''OPUS vocabulary ID out of range''))
      (fill_pieces E (ps[i := key]) entries))"

text \<open>The suffixes of the cache tensors of one layer, in the order of the nested loops.\<close>

definition layer_suffixes :: "nat \<Rightarrow> string list" where
  "layer_suffixes i =
     concat (map (\<lambda>attention. map (\<lambda>kind. to_string (int i) @ ''.'' @ attention @ ''.'' @ kind) [''key'', ''value''])
       [''decoder'', ''encoder''])"

definition cache_suffixes :: "int \<Rightarrow> string list" where
  "cache_suffixes n = concat (map layer_suffixes [0..<nat n])"

definition input_names_of :: "int \<Rightarrow> string list" where
  "input_names_of n =
     [''encoder_attention_mask'', ''input_ids'', ''encoder_hidden_states'']
     @ map (\<lambda>s. ''past_key_values.'' @ s) (cache_suffixes n) @ [''use_cache_branch'']"

definition output_names_of :: "int \<Rightarrow> string list" where
  "output_names_of n = ''logits'' # map (\<lambda>s. ''present.'' @ s) (cache_suffixes n)"

text \<open>One comparison of an expected name; the allocated name is freed before a mismatch throws.\<close>

definition check_name :: "'w api \<Rightarrow> (nat \<Rightarrow> ptr \<Rightarrow> ('w ort, ptr \<times> string option) action) \<Rightarrow> ptr \<Rightarrow> string \<Rightarrow> nat \<times> string
    \<Rightarrow> ('w ort, unit) action" where
  "check_name A get allocator msg = (\<lambda>(i, expected).
     mbind (get i allocator) (\<lambda>(p, nm).
     mbind (with_buffer A allocator p (case nm of None \<Rightarrow> mcrash ''null string'' | Some s \<Rightarrow> mret (expected \<noteq> s))) (\<lambda>differs.
     mguard differs (RuntimeError msg))))"

definition check_signature :: "'w api \<Rightarrow> ptr \<Rightarrow> string list \<Rightarrow> string list \<Rightarrow> ('w ort, unit) action" where
  "check_signature A dec ins outs =
     mbind (Session_GetInputCount A dec) (\<lambda>n_in.
     mbind (if n_in \<noteq> length ins then mret True
            else mbind (Session_GetOutputCount A dec) (\<lambda>n_out. mret (n_out \<noteq> length outs))) (\<lambda>unsupported.
     mthen (mguard unsupported (RuntimeError ''Unsupported OPUS decoder signature''))
    (mbind (AllocatorWithDefaultOptions_new A) (\<lambda>allocator.
     mthen (mmap (check_name A (Session_GetInputNameAllocated A dec) allocator ''Unexpected decoder input name'')
         (zip [0..<length ins] ins))
    (mthen (mmap (check_name A (Session_GetOutputNameAllocated A dec) allocator ''Unexpected decoder output name'')
         (zip [0..<length outs] outs)) (mret ()))))))"

text \<open>\<open>encoder = Ort::Session(...)\<close>: the temporary is moved into the member, which drops its old handle.\<close>

definition swap_encoder :: "ptr \<Rightarrow> ('w opus_state, ptr) action" where
  "swap_encoder p = (\<lambda>s. (Ok (m_encoder s), s\<lparr>m_encoder := p\<rparr>))"

definition swap_decoder :: "ptr \<Rightarrow> ('w opus_state, ptr) action" where
  "swap_decoder p = (\<lambda>s. (Ok (m_decoder s), s\<lparr>m_decoder := p\<rparr>))"

definition assign_encoder :: "'w api \<Rightarrow> ptr \<Rightarrow> ('w opus_state, unit) action" where
  "assign_encoder A p = mbind (swap_encoder p) (\<lambda>old. in_ort (OrtRelease A ''Session'' old))"

definition assign_decoder :: "'w api \<Rightarrow> ptr \<Rightarrow> ('w opus_state, unit) action" where
  "assign_decoder A p = mbind (swap_decoder p) (\<lambda>old. in_ort (OrtRelease A ''Session'' old))"

definition load_sessions :: "'w api \<Rightarrow> string \<Rightarrow> int \<Rightarrow> string list \<Rightarrow> string list \<Rightarrow> ('w opus_state, unit) action" where
  "load_sessions A dir threads ins outs =
     mbind (in_ort (SessionOptions_new A)) (\<lambda>options.
     owning A ''SessionOptions'' options
      (mthen (in_ort (SessionOptions_SetIntraOpNumThreads A options threads))
      (mthen (in_ort (SessionOptions_SetInterOpNumThreads A options 1))
      (mthen (in_ort (SessionOptions_SetGraphOptimizationLevel A options 99))
      (mbind (environment A) (\<lambda>env.
       mbind (in_ort (Session_new A env (c_str (dir @ ''/encoder.onnx'')) options)) (\<lambda>enc.
       mthen (assign_encoder A enc)
      (mbind (environment A) (\<lambda>env.
       mbind (in_ort (Session_new A env (c_str (dir @ ''/decoder.onnx'')) options)) (\<lambda>dec.
       mthen (assign_decoder A dec)
        (in_ort (check_signature A dec ins outs))))))))))))"

definition Opus_body :: "'w api \<Rightarrow> ('j, 'p) opus_env \<Rightarrow> ptr \<Rightarrow> string \<Rightarrow> int \<Rightarrow> ('w opus_state, ('j, 'p) opus) action" where
  "Opus_body A E mem dir threads =
     mbind (read_json E (dir @ ''/config.json'')) (\<lambda>config.
     mbind (read_json E (dir @ ''/vocab.json'')) (\<lambda>voc.
     mbind (at_int E config ''decoder_layers'') (\<lambda>lay.
     mbind (at_int E config ''decoder_attention_heads'') (\<lambda>hd.
     mbind (at_int E config ''d_model'') (\<lambda>d_model.
     mbind (int_div d_model hd) (\<lambda>hdim.
     mbind (at_int E config ''decoder_start_token_id'') (\<lambda>start.
     mbind (at_int E config ''eos_token_id'') (\<lambda>eos.
     mbind (at_int E config ''pad_token_id'') (\<lambda>pad.
     mbind (at_int E voc ''<unk>'') (\<lambda>unk.
     mbind (mbind (msum (json_at E config ''vocab_size'')) (\<lambda>v. msum (json_size E v))) (\<lambda>size.
     mbind (fill_pieces E (replicate size []) (json_items E voc)) (\<lambda>ps.
     (case (sp_load E (dir @ ''/source.spm''), sp_load E (dir @ ''/target.spm'')) of
        (Some src, Some tgt) \<Rightarrow>
          mthen (load_sessions A dir threads (input_names_of lay) (output_names_of lay))
           (mget (\<lambda>s. \<lparr>encoder = m_encoder s, decoder = m_decoder s, memory = mem, source = src, target = tgt,
              vocab = voc, pieces = ps, in_names = input_names_of lay, out_names = output_names_of lay,
              layers = lay, heads = hd, head_dim = hdim, start_id = start, eos_id = eos, pad_id = pad, unk_id = unk\<rparr>))
      | _ \<Rightarrow> mthrow (RuntimeError ''SentencePiece model load failed''))))))))))))))"

text \<open>
  The constructor, \<open>load_opus\<close>: \<open>memory\<close> is initialised first; an exception destroys the members in reverse
  order, memory, decoder, encoder.
\<close>

definition Opus_new :: "'w api \<Rightarrow> ('j, 'p) opus_env \<Rightarrow> string \<Rightarrow> int \<Rightarrow> ('w opus_state, ('j, 'p) opus) action" where
  "Opus_new A E dir threads =
     mthen (mmodify (\<lambda>s. s\<lparr>m_encoder := 0, m_decoder := 0\<rparr>))
      (mcatch
        (mbind (in_ort (MemoryInfo_CreateCpu A 1 0)) (\<lambda>mem.
         mcatch (Opus_body A E mem dir threads)
           (\<lambda>e. mthen (in_ort (OrtRelease A ''MemoryInfo'' mem)) (mthrow e))))
        (\<lambda>e. mthen (assign_decoder A 0) (mthen (assign_encoder A 0) (mthrow e))))"

section \<open>Translation\<close>

definition opus_checkCancelled :: "('j, 'p) opus_env \<Rightarrow> ('w opus_state, unit) action" where
  "opus_checkCancelled E =
     mbind (\<lambda>s. let (b, f) = load_flag (flag_others E) (oflag s) in (Ok b, s\<lparr>oflag := f\<rparr>))
       (\<lambda>b. mguard b (RuntimeError ''Translation cancelled''))"

fun piece_ids :: "('j, 'p) opus_env \<Rightarrow> ('j, 'p) opus \<Rightarrow> string list \<Rightarrow> exn + int list" where
  "piece_ids E m [] = Inr []"
| "piece_ids E m (piece # rest) =
     (case json_value E (vocab m) piece (unk_id m) of
        Inl e \<Rightarrow> Inl e
      | Inr i \<Rightarrow> (case piece_ids E m rest of Inl e \<Rightarrow> Inl e | Inr is \<Rightarrow> Inr (i # is)))"

text \<open>\<open>std::max_element\<close>: the position of the first element that no later one exceeds.\<close>

fun max_from :: "nat \<Rightarrow> float32 \<Rightarrow> nat \<Rightarrow> float32 list \<Rightarrow> nat" where
  "max_from best v i [] = best"
| "max_from best v i (x # xs) = (if f32_less v x then max_from i x (Suc i) xs else max_from best v (Suc i) xs)"

definition max_element :: "float32 list \<Rightarrow> nat" where
  "max_element xs = (case xs of [] \<Rightarrow> 0 | x # ys \<Rightarrow> max_from 0 x 1 ys)"

text \<open>The choice of a token: the pad token is ruled out, then the first greatest logit.\<close>

definition pick_token :: "nat \<Rightarrow> float32 list \<Rightarrow> nat" where
  "pick_token pad logits = max_element (logits[pad := f32_neg_inf])"

text \<open>
  Which cache slots a step takes over: all four kinds after the first step, only the decoder's
  (\<open>i mod 4 < 2\<close>) later, because the cached branch returns empty cross-attention tensors.
\<close>

definition moved_slots :: "nat \<Rightarrow> nat \<Rightarrow> nat list" where
  "moved_slots step n = filter (\<lambda>i. \<not> (0 < step \<and> 2 \<le> i mod 4)) [0..<n]"

definition cache_count :: "('j, 'p) opus \<Rightarrow> nat" where
  "cache_count m = nat (layers m * 4)"

text \<open>
  The choice made on the logits the runtime returned: the pad logit is overwritten, the position of the
  greatest goes to the variable \<open>token\<close>. A pad token outside the vocabulary is an invalid write.
\<close>

definition choose_token :: "'w api \<Rightarrow> ('j, 'p) opus_env \<Rightarrow> ('j, 'p) opus \<Rightarrow> ptr \<Rightarrow> ('w opus_state, nat) action" where
  "choose_token A E m logits =
     (if pad_id m < 0 \<or> int (length (pieces m)) \<le> pad_id m then mcrash ''logits[pad_id]''
      else
      mthen (store A (logits + 4 * nat (pad_id m)) [uint f32_neg_inf])
     (mbind (load_floats A logits (length (pieces m))) (\<lambda>values.
      let token = pick_token (nat (pad_id m)) values in
      mthen (store A (at_token E) [int token]) (mret token))))"

text \<open>The logits of the result in hand: its first value, whose size has to be that of the vocabulary.\<close>

definition read_logits :: "'w api \<Rightarrow> ('j, 'p) opus \<Rightarrow> ('w opus_state, ptr) action" where
  "read_logits A m =
     mbind (element Result 0) (\<lambda>first.
     mbind (in_ort (Value_GetTensorMutableData A first)) (\<lambda>logits.
     mbind (in_ort (Value_GetTensorTypeAndShapeInfo A first)) (\<lambda>info.
     mbind (owning A ''TensorTypeAndShapeInfo'' info
         (in_ort (TensorTypeAndShapeInfo_GetElementCount A info))) (\<lambda>count.
     mthen (mguard (count \<noteq> length (pieces m)) (RuntimeError ''Unexpected OPUS logits shape''))
      (mret logits)))))"

text \<open>One step: the decoded text when the end token is chosen, the pieces so far otherwise.\<close>

definition take_token :: "'w api \<Rightarrow> ('j, 'p) opus_env \<Rightarrow> ('j, 'p) opus \<Rightarrow> nat \<Rightarrow> string list \<Rightarrow> nat
    \<Rightarrow> ('w opus_state, string + string list) action" where
  "take_token A E m step translated token =
     (if int token = eos_id m then
        (case sp_decode E (target m) translated of
           None \<Rightarrow> mthrow (RuntimeError ''SentencePiece decoding failed'')
         | Some decoded \<Rightarrow> mret (Inl decoded))
      else if length (pieces m) \<le> token then mthrow (OutOfRange ''vector'')
      else
      mthen (mmap (\<lambda>i. move_value A Feed (3 + i) Result (1 + i)) (moved_slots step (cache_count m)))
     (mthen (store A (at_cached E) [1])
       (mret (Inr (translated @ [pieces m ! token])))))"

definition decode_step :: "'w api \<Rightarrow> ('j, 'p) opus_env \<Rightarrow> ('j, 'p) opus \<Rightarrow> ptr \<Rightarrow> nat \<Rightarrow> string list
    \<Rightarrow> ('w opus_state, string + string list) action" where
  "decode_step A E m run step translated =
     mthen (opus_checkCancelled E)
    (mbind (get_vec Feed) (\<lambda>feed.
     mbind (in_ort (Session_Run A (decoder m) run (map c_str (in_names m)) feed (length feed)
         (map c_str (out_names m)) (length (out_names m)))) (\<lambda>result.
     vec_scope A Result result
      (mbind (read_logits A m) (\<lambda>logits.
       mbind (choose_token A E m logits) (take_token A E m step translated))))))"

fun decode_loop :: "'w api \<Rightarrow> ('j, 'p) opus_env \<Rightarrow> ('j, 'p) opus \<Rightarrow> ptr \<Rightarrow> nat list \<Rightarrow> string list
    \<Rightarrow> ('w opus_state, string) action" where
  "decode_loop A E m run [] translated = mthrow (RuntimeError ''OPUS output exceeded token limit'')"
| "decode_loop A E m run (step # steps) translated =
     mbind (decode_step A E m run step translated) (\<lambda>r. case r of
       Inl decoded \<Rightarrow> mret decoded
     | Inr so_far \<Rightarrow> decode_loop A E m run steps so_far)"

text \<open>The inputs of the decoder: mask, token, hidden states, empty caches, cache flag.\<close>

definition fill_feed :: "'w api \<Rightarrow> ('j, 'p) opus_env \<Rightarrow> ('j, 'p) opus \<Rightarrow> nat \<Rightarrow> ('w opus_state, unit) action" where
  "fill_feed A E m n =
     mthen (store A (at_token E) [start_id m])
    (mthen (store A (at_cached E) [0])
    (mthen (mbind (in_ort (Value_CreateTensor A Cxx_int64 (memory m) (at_mask E) n [1, int n])) (push_vec Feed))
    (mthen (mbind (in_ort (Value_CreateTensor A Cxx_int64 (memory m) (at_token E) 1 [1, 1])) (push_vec Feed))
    (mthen (push_moved Feed Hidden 0)
    (mbind (in_ort (AllocatorWithDefaultOptions_new A)) (\<lambda>allocator.
     mthen (mmap (\<lambda>_. mbind (in_ort (Value_CreateTensor_4 A Cxx_float allocator [1, heads m, 0, head_dim m]))
          (push_vec Feed)) [0..<cache_count m])
      (mbind (in_ort (Value_CreateTensor A Cxx_bool (memory m) (at_cached E) 1 [1])) (push_vec Feed))))))))"

definition decode_from :: "'w api \<Rightarrow> ('j, 'p) opus_env \<Rightarrow> ('j, 'p) opus \<Rightarrow> ptr \<Rightarrow> nat \<Rightarrow> ('w opus_state, string) action" where
  "decode_from A E m run n =
     vec_scope A Feed [] (mthen (fill_feed A E m n) (decode_loop A E m run [0..<256] []))"

text \<open>The inputs of the encoder; its run, whose output the decoder starts from.\<close>

definition fill_input :: "'w api \<Rightarrow> ('j, 'p) opus_env \<Rightarrow> ('j, 'p) opus \<Rightarrow> nat \<Rightarrow> ('w opus_state, unit) action" where
  "fill_input A E m n =
     mthen (mbind (in_ort (Value_CreateTensor A Cxx_int64 (memory m) (at_ids E) n [1, int n])) (push_vec Input))
      (mbind (in_ort (Value_CreateTensor A Cxx_int64 (memory m) (at_mask E) n [1, int n])) (push_vec Input))"

definition run_models :: "'w api \<Rightarrow> ('j, 'p) opus_env \<Rightarrow> ('j, 'p) opus \<Rightarrow> ptr \<Rightarrow> nat \<Rightarrow> ('w opus_state, string) action" where
  "run_models A E m run n =
     mbind (get_vec Input) (\<lambda>input.
     mbind (in_ort (Session_Run A (encoder m) run [''input_ids'', ''attention_mask''] input (length input)
         [''last_hidden_state''] 1)) (\<lambda>hidden.
     vec_scope A Hidden hidden (decode_from A E m run n)))"

definition opus_run :: "'w api \<Rightarrow> ('j, 'p) opus_env \<Rightarrow> ('j, 'p) opus \<Rightarrow> int list \<Rightarrow> ('w opus_state, string) action" where
  "opus_run A E m ids =
     mthen (store A (at_ids E) ids)
    (mthen (store A (at_mask E) (replicate (length ids) 1))
    (vec_scope A Input []
      (mthen (fill_input A E m (length ids))
      (mbind (in_ort (RunOptions_new A)) (\<lambda>run.
       owning A ''RunOptions'' run (run_models A E m run (length ids)))))))"

definition opus_translate :: "'w api \<Rightarrow> ('j, 'p) opus_env \<Rightarrow> ('j, 'p) opus \<Rightarrow> string \<Rightarrow> ('w opus_state, string) action" where
  "opus_translate A E m txt =
     mthen (opus_checkCancelled E)
      (case sp_encode E (source m) txt of
         None \<Rightarrow> mthrow (RuntimeError ''SentencePiece encoding failed'')
       | Some input_pieces \<Rightarrow>
           mthen (mguard (383 < length input_pieces) (RuntimeError ''OPUS input too long''))
          (mbind (msum (piece_ids E m input_pieces)) (\<lambda>ids. opus_run A E m (ids @ [eos_id m]))))"

section \<open>The virtual functions \<open>Opus\<close> inherits\<close>

text \<open>The defaults of \<open>TranslationEngine\<close>: progress is ignored, nothing is cached.\<close>

definition opus_translateWithProgress ::
  "'w api \<Rightarrow> ('j, 'p) opus_env \<Rightarrow> ('j, 'p) opus \<Rightarrow> string \<Rightarrow> request \<Rightarrow> callback \<Rightarrow> ('w opus_state, string) action" where
  "opus_translateWithProgress A E m txt req cb = opus_translate A E m txt"

definition opus_translateUncachedWithProgress ::
  "'w api \<Rightarrow> ('j, 'p) opus_env \<Rightarrow> ('j, 'p) opus \<Rightarrow> string \<Rightarrow> request \<Rightarrow> callback \<Rightarrow> ('w opus_state, string) action" where
  "opus_translateUncachedWithProgress A E m txt req cb = opus_translateWithProgress A E m txt req cb"

definition opus_translateUncached :: "'w api \<Rightarrow> ('j, 'p) opus_env \<Rightarrow> ('j, 'p) opus \<Rightarrow> string \<Rightarrow> ('w opus_state, string) action" where
  "opus_translateUncached A E m txt = opus_translateUncachedWithProgress A E m txt default_request None"

definition opus_backend :: string where
  "opus_backend = ''CPU''"

definition opus_stats :: stats where
  "opus_stats = zero_stats"

end
