(* ===== verification/Ort_Resources.thy ===== *)
theory Ort_Resources imports Ort_Ep begin

text \<open>
  The three accounts of \<open>Ort_Settle\<close> as one family, and the books of the wrappers' shapes for all of
  them at once: a call that is no creator and no release keeps every account, a creator hands out one
  handle of its kind, a release takes one back.
\<close>

section \<open>Resources\<close>

datatype resource = Handle kind | StatusObject | Buffer

primrec res_weight :: "resource \<Rightarrow> weight" where
  "res_weight (Handle K) = handle_weight K"
| "res_weight StatusObject = status_weight"
| "res_weight Buffer = buffer_weight"

abbreviation account :: "resource \<Rightarrow> 'w ort account" where
  "account R \<equiv> ledger (res_weight R)"

definition kinds :: "kind list" where
  "kinds = [KValue, KSession, KSessionOptions, KRunOptions, KTensorInfo, KTypeInfo, KValueInfo, KMemoryInfo, KEnv]"

definition other_call :: "string \<Rightarrow> bool" where
  "other_call n \<longleftrightarrow> n \<notin> set (concat (map creators kinds)) \<and> n \<notin> set (map (\<lambda>K. ''Release'' @ kind_name K) kinds)
     \<and> n \<notin> set buffer_calls \<and> n \<notin> set [''Run'', ''AllocatorFree'', ''OrtAllocator::Free'', ''ReleaseStatus'']"

lemma all_kinds: "K \<in> set kinds"
  by (cases K) (simp_all add: kinds_def)

lemma other_neutral:
  assumes "other_call n"
  shows "neutral (handle_weight K) n" "neutral buffer_weight n" "n \<noteq> ''ReleaseStatus''"
  using assms all_kinds [of K] by (auto simp: other_call_def intro!: handle_neutral buffer_neutral)

text \<open>The amount a creator of kind \<open>C\<close> adds to the account of \<open>R\<close>.\<close>

definition granted :: "kind \<Rightarrow> resource \<Rightarrow> ptr \<Rightarrow> ptr \<Rightarrow> int" where
  "granted C R p = (if R = Handle C then own p else none)"

lemma granted_same [simp]: "granted C (Handle C) = own"
  by (rule ext) (simp add: granted_def)

lemma granted_other [simp]: "R \<noteq> Handle C \<Longrightarrow> granted C R = (\<lambda>_. none)"
  by (rule ext) (simp add: granted_def)

lemma granted_null [simp]: "granted C R 0 = none"
  by (simp add: granted_def)

text \<open>No name serves two purposes, by computation over the tables.\<close>

definition clash_free :: "kind \<Rightarrow> string \<Rightarrow> bool" where
  "clash_free C n \<longleftrightarrow> list_all (\<lambda>K. K = C \<or> n \<notin> set (creators K) \<and> n \<noteq> ''Release'' @ kind_name K \<and> n \<noteq> ''Run'') kinds
     \<and> n \<notin> set buffer_calls \<and> n \<noteq> ''AllocatorFree'' \<and> n \<noteq> ''OrtAllocator::Free'' \<and> n \<noteq> ''ReleaseStatus''"

lemma tables_clash_free:
  "list_all (\<lambda>C. list_all (clash_free C) (creators C) \<and> clash_free C (''Release'' @ kind_name C)) kinds"
  by code_simp

lemma clash_freeD:
  assumes "clash_free C n"
  shows "K \<noteq> C \<Longrightarrow> neutral (handle_weight K) n" "neutral buffer_weight n" "n \<noteq> ''ReleaseStatus''"
  using assms all_kinds [of K] by (auto simp: clash_free_def list_all_iff intro!: handle_neutral buffer_neutral)

lemma creator_other:
  assumes "n \<in> set (creators C)"
  shows "K \<noteq> C \<Longrightarrow> neutral (handle_weight K) n" "neutral buffer_weight n" "n \<noteq> ''ReleaseStatus''"
proof -
  have "clash_free C n"
    using assms tables_clash_free all_kinds [of C] by (auto simp: list_all_iff)
  from clash_freeD [OF this]
  show "K \<noteq> C \<Longrightarrow> neutral (handle_weight K) n" "neutral buffer_weight n" "n \<noteq> ''ReleaseStatus''"
    by blast+
qed

lemma release_other:
  shows "K \<noteq> C \<Longrightarrow> neutral (handle_weight K) (''Release'' @ kind_name C)"
    "neutral buffer_weight (''Release'' @ kind_name C)" "kind_name C \<noteq> ''Status''"
proof -
  have "clash_free C (''Release'' @ kind_name C)"
    using tables_clash_free all_kinds [of C] by (auto simp: list_all_iff)
  from clash_freeD [OF this]
  show "K \<noteq> C \<Longrightarrow> neutral (handle_weight K) (''Release'' @ kind_name C)"
    "neutral buffer_weight (''Release'' @ kind_name C)"
    by blast+
  show "kind_name C \<noteq> ''Status''" by (cases C) simp_all
qed

section \<open>The books of the shapes\<close>

lemma keeps_account_call:
  assumes "other_call n"
  shows "keeps (account R) (do_call A T n args)" "keeps (account R) (get_ptr A T n args)"
    "keeps (account R) (get_num A T n args)" "keeps (account R) (get_bool A T n args)"
    "keeps (account R) (get_size A T n args)" "keeps (account R) (get_cstr A T n args)"
    "keeps (account R) (get_string A T n args)" "keeps (account R) (get_ptrs A T n args)"
    "keeps (account R) (fill_ptrs A T n args num)" "keeps (account R) (two_phase A T n args)"
    "keeps (account R) (plain A T n args)" "keeps (account R) (call_plain A T n args)"
    "keeps (account R) (checked A T n args)" "keeps (account R) (get_allocated A T n args)"
  by (cases R; simp add: handle.keeps_neutral buffer.keeps_neutral handle.keeps_plain buffer.keeps_plain
      handle.keeps_call buffer.keeps_call handle.keeps_checked buffer.keeps_checked
      keeps_do_call keeps_get keeps_status_plain keeps_call_plain keeps_status_checked other_neutral [OF assms])+

lemma keeps_account_c_string [keeps_intros]: "keeps (account R) (c_string x)"
  unfolding c_string_def by (intro keeps_intros)

lemma settles_grant:
  assumes "n \<in> set (creators C)"
  shows "settles (account R) none (get_ptr A T n args) (granted C R) none"
proof (cases R)
  case (Handle K)
  then show ?thesis
    using handle.hands_over_grant [OF handle_grants [OF assms], of A T args]
      handle.keeps_neutral(2) [OF creator_other(1) [OF assms], of K A T args]
    by (cases "K = C") (auto simp: hands_over_def keeps_def granted_def)
next
  case StatusObject
  then show ?thesis using keeps_get(1) [OF creator_other(3) [OF assms], of A T args]
    by (simp add: keeps_def granted_def)
next
  case Buffer
  then show ?thesis using buffer.keeps_neutral(2) [OF creator_other(2) [OF assms], of A T args]
    by (simp add: keeps_def granted_def)
qed

lemma settles_release_kind:
  "settles (account R) (granted C R p) (OrtRelease A (kind_name C) p) (\<lambda>_. none) none"
proof (cases R)
  case (Handle K)
  then show ?thesis
    using handle.settles_release [OF handle_redeems [OF refl], where p = p and A = A]
      handle.keeps_release [OF release_other(1) [of K C], where A = A and p = p]
    by (cases "K = C") (auto simp: keeps_def granted_def)
next
  case StatusObject
  then show ?thesis using keeps_OrtRelease [OF release_other(3) [of C], where A = A and p = p]
    by (simp add: keeps_def granted_def)
next
  case Buffer
  then show ?thesis using buffer.keeps_release [OF release_other(2) [of C], where A = A and p = p]
    by (simp add: keeps_def granted_def)
qed

text \<open>A release does not throw; other amounts stay pending.\<close>

lemma OrtRelease_no_throw: "OrtRelease A k p s \<noteq> (Throw e, t)"
  by (auto simp: OrtRelease_def mcatch_def mcrash_def split: prod.splits outcome.splits)

lemma settles_release_more:
  assumes "\<And>q. d q = granted C R p q + a q" "k = kind_name C"
  shows "settles (account R) d (OrtRelease A k p) (\<lambda>_. a) t"
proof (rule settlesI)
  fix s x s' q
  assume "OrtRelease A k p s = (Ok x, s')"
  from settles_Ok [OF settles_release_kind [of R C p A] this [unfolded assms(2)], of q]
  show "account R s' q + d q = account R s q + a q" by (simp add: assms(1))
qed (simp add: OrtRelease_no_throw)

text \<open>Scopes: the body may return something that is pending, the owned handle is settled.\<close>

lemma settles_guarded_kind:
  assumes "settles (account R) (granted C R p) m f (granted C R p)" "k = kind_name C"
  shows "settles (account R) (granted C R p) (guarded A k p m) f none"
  unfolding guarded_def assms(2)
  by (intro settles_catch [OF assms(1)] settles_then [OF settles_release_kind] settles_throw)

lemma settles_add:
  assumes "settles w none m f none"
  shows "settles w d m (\<lambda>x p. f x p + d p) d"
  using settles_frame [OF assms, of d] by simp

lemma settles_scoped_kind:
  assumes "settles (account R) none m f none" "k = kind_name C"
  shows "settles (account R) (granted C R p) (scoped A k p m) f none"
  unfolding scoped_def
  by (rule settles_bind [OF settles_guarded_kind [OF settles_add [OF assms(1)] assms(2)]])
    (rule settles_then [OF settles_release_more [OF _ assms(2)]], simp add: add.commute, rule settles_ret [where f = f])

lemma settles_construct_kind:
  assumes "n \<in> set (creators C)" "k = kind_name C" "\<And>p. keeps (account R) (rest p)"
  shows "settles (account R) none (construct_with A k T n args rest) (granted C R) none"
proof -
  have "settles (account R) none (guarded A k 0 (get_ptr A T n args)) (granted C R) none"
    using settles_guarded_kind [of R C 0 "get_ptr A T n args" "granted C R" k A] settles_grant [OF assms(1), of R A T args] assms(2)
    by simp
  moreover have "settles (account R) (granted C R p) (mthen (guarded A k p (rest p)) (mret p)) (granted C R) none" for p
    by (intro settles_then [OF settles_guarded_kind [OF keeps_settles [OF assms(3)] assms(2)]] settles_ret)
  ultimately show ?thesis
    unfolding construct_with_def by (rule settles_bind)
qed

lemma settles_create_kind:
  "n \<in> set (creators C) \<Longrightarrow> k = kind_name C \<Longrightarrow> settles (account R) none (create A k T n args) (granted C R) none"
  unfolding create_def by (intro settles_construct_kind keeps_ret)

lemma keeps_account_ThrowOnError: "settles (account R) (if R = StatusObject then own p else none) (ThrowOnError A p) (\<lambda>_. none) none"
proof (cases R)
  case StatusObject
  then show ?thesis using settles_ThrowOnError [of p A] by simp
qed (use handle.keeps_ThrowOnError buffer.keeps_ThrowOnError in \<open>auto simp: keeps_def\<close>)

section \<open>Runs of a session\<close>

lemma run_not_created: "''Run'' \<notin> set (creators K)" "''Run'' \<noteq> ''Release'' @ kind_name K"
  by (cases K; simp)+

lemma handle_run:
  "settles (handles KValue) none (api_call A OrtApi ''Run'' [a, b, c, d, e, f, Num (int k), g])
     (\<lambda>r. owns (filled k 0 (r_ptrs r 0))) none"
proof -
  have "handle_weight KValue (Call OrtApi ''Run'' [a, b, c, d, e, f, Num (int k), g], r) p
      = owns (filled k 0 (r_ptrs r 0)) p" for r p
    using run_not_created [of KValue] by (simp add: run_outputs_def del: creators.simps kind_name.simps)
  then show ?thesis
    unfolding api_call_def call_status_def get_table.simps
    by (intro settles_then [where e = none] settles_ret handle.settles_transact_view) simp
qed

lemma settles_session_run:
  "settles (account R) none (session_run A p ro ins vals n outs ovals k)
     (\<lambda>(xs, st). case R of Handle K \<Rightarrow> (if K = KValue then owns xs else none) | StatusObject \<Rightarrow> own st | Buffer \<Rightarrow> none) none"
proof -
  have "settles (account R) none (api_call A OrtApi ''Run''
       [Ptr p, Ptr ro, CStrs ins, Ptrs vals, Num (int n), CStrs outs, Num (int k), Ptrs ovals])
     (\<lambda>r. case R of Handle K \<Rightarrow> (if K = KValue then owns (filled k 0 (r_ptrs r 0)) else none)
        | StatusObject \<Rightarrow> own (r_status r) | Buffer \<Rightarrow> none) none"
  proof (cases R)
    case (Handle K)
    then show ?thesis
      using handle.keeps_api_call [OF handle_neutral [of "''Run''" K], of A OrtApi] handle_run [of A]
      by (cases "K = KValue") (auto simp: keeps_def run_not_created)
  next
    case StatusObject
    then show ?thesis using settles_api_call [of "''Run''" A OrtApi] by simp
  next
    case Buffer
    then show ?thesis
      using buffer.keeps_api_call [of "''Run''" A OrtApi] buffer_neutral [of "''Run''"]
      by (simp add: keeps_def buffer_calls_def)
  qed
  then show ?thesis
    unfolding session_run_def
    by (rule settles_bind) (cases R; auto simp: settles_def mret_def)
qed

lemma settles_release_values:
  "settles (account R) (if R = Handle KValue then owns ps else none) (mmap (OrtRelease A ''Value'') ps) (\<lambda>_. none) none"
proof (induction ps)
  case Nil
  show ?case by (simp add: settles_def mret_def)
next
  case (Cons p ps)
  have "settles (account R) (if R = Handle KValue then owns (p # ps) else none) (OrtRelease A ''Value'' p)
      (\<lambda>_. if R = Handle KValue then owns ps else none) none"
    by (rule settles_release_more [where C = KValue]) (simp_all add: granted_def)
  then show ?case
    unfolding mmap.simps
    by (rule settles_bind) (rule settles_bind [OF Cons.IH], rule settles_ret [where f = "\<lambda>_. none"])
qed

text \<open>The vector form of \<open>Run\<close>: the values are pending when it returns, released when it throws.\<close>

lemma settles_Session_Run:
  "settles (account R) none (Session_Run A p ro ins vals n outs k)
     (\<lambda>xs. if R = Handle KValue then owns xs else none) none"
  unfolding Session_Run_def
proof (rule settles_bind [OF settles_session_run])
  fix x :: "ptr list \<times> ptr"
  obtain xs st where x: "x = (xs, st)" by (cases x)
  let ?v = "if R = Handle KValue then owns xs else none"
  let ?s = "if R = StatusObject then own st else none"
  have d: "(case R of Handle K \<Rightarrow> (if K = KValue then owns xs else none) | StatusObject \<Rightarrow> own st | Buffer \<Rightarrow> none)
      = (\<lambda>q. ?s q + ?v q)"
    by (cases R) (auto simp: fun_eq_iff)
  have "settles (account R) (\<lambda>q. ?s q + ?v q) (ThrowOnError A st) (\<lambda>_. ?v) ?v"
    using settles_frame [OF keeps_account_ThrowOnError [of R st A], of ?v] by simp
  then have "settles (account R) (\<lambda>q. ?s q + ?v q)
      (mcatch (ThrowOnError A st) (\<lambda>e. mthen (mmap (OrtRelease A ''Value'') xs) (mthrow e))) (\<lambda>_. ?v) none"
    by (rule settles_catch) (intro settles_then [OF settles_release_values] settles_throw)
  then have "settles (account R) (\<lambda>q. ?s q + ?v q)
      (mthen (mcatch (ThrowOnError A st) (\<lambda>e. mthen (mmap (OrtRelease A ''Value'') xs) (mthrow e))) (mret xs))
      (\<lambda>xs. if R = Handle KValue then owns xs else none) none"
    by (intro settles_then [where e = ?v] settles_ret)
  then show "settles (account R)
      (case x of (xs, st) \<Rightarrow> (case R of Handle K \<Rightarrow> (if K = KValue then owns xs else none) | StatusObject \<Rightarrow> own st | Buffer \<Rightarrow> none))
      (case x of (outs, st) \<Rightarrow> mthen (mcatch (ThrowOnError A st) (\<lambda>e. mthen (mmap (OrtRelease A ''Value'') outs) (mthrow e))) (mret outs))
      (\<lambda>xs. if R = Handle KValue then owns xs else none) none"
    by (simp only: d x prod.case)
qed

section \<open>Buffers of an allocator\<close>

lemma settles_account_allocated:
  assumes "n \<in> set buffer_calls"
  shows "settles (account R) none (get_allocated A T n args) (\<lambda>x. if R = Buffer then own (fst x) else none) none"
proof (cases R)
  case (Handle K)
  moreover have "neutral (handle_weight K) n"
    using assms by (cases K) (auto intro!: handle_neutral simp: buffer_calls_def)
  ultimately show ?thesis using handle.keeps_neutral(8) by (simp add: keeps_def)
next
  case StatusObject
  moreover have "n \<noteq> ''ReleaseStatus''" using assms by (auto simp: buffer_calls_def)
  ultimately show ?thesis using keeps_get(8) by (simp add: keeps_def)
next
  case Buffer
  then show ?thesis using buffer.settles_allocated [OF buffer_grants [OF assms]] by simp
qed

lemma settles_account_with_buffer:
  assumes "keeps (account R) m"
  shows "settles (account R) (if R = Buffer then own p else none) (with_buffer A allocator p m) (\<lambda>_. none) none"
proof (cases R)
  case Buffer
  then show ?thesis using settles_with_buffer assms by simp
qed (use assms keeps_handle_with_buffer keeps_status_with_buffer in \<open>auto simp: keeps_def\<close>)

end
