(* ===== verification/Opus_Account.thy ===== *)
theory Opus_Account imports Opus Ort_Resources begin

text \<open>
  The books of the OPUS engine: every handle, status and buffer that its constructor or a translation
  obtains is either held by the object, by the static environment or by a vector of the running call,
  or has been given back.
\<close>

section \<open>The account of the engine\<close>

definition held :: "resource \<Rightarrow> 'w opus_state account" where
  "held R s p =
     (if R = Handle KValue then owns (concat (vecs s Input)) p + owns (concat (vecs s Hidden)) p
        + owns (concat (vecs s Feed)) p + owns (concat (vecs s Result)) p
      else if R = Handle KSession then own (m_encoder s) p + own (m_decoder s) p
      else if R = Handle KEnv then (case env_handle s of None \<Rightarrow> 0 | Some e \<Rightarrow> own e p)
      else 0)"

definition books :: "resource \<Rightarrow> 'w opus_state account" where
  "books R s p = account R (ort s) p - held R s p"

lemma held_ort [simp]: "held R (s\<lparr>ort := t\<rparr>) = held R s"
  by (rule ext) (simp add: held_def)

lemma held_in_ort: "in_ort m s = (x, u) \<Longrightarrow> held R u = held R s"
  by (auto simp: in_ort_def Let_def split: prod.splits)

lemma settles_in_ort:
  assumes "settles (account R) d m f t" shows "settles (books R) d (in_ort m) f t"
proof (rule settlesI)
  fix s x s' p
  assume "in_ort m s = (Ok x, s')"
  then obtain u where "m (ort s) = (Ok x, u)" "s' = s\<lparr>ort := u\<rparr>"
    by (auto simp: in_ort_def Let_def split: prod.splits)
  with settles_Ok [OF assms, of "ort s" x u p] show "books R s' p + d p = books R s p + f x p"
    by (simp add: books_def)
next
  fix s e s' p
  assume "in_ort m s = (Throw e, s')"
  then obtain u where "m (ort s) = (Throw e, u)" "s' = s\<lparr>ort := u\<rparr>"
    by (auto simp: in_ort_def Let_def split: prod.splits)
  with settles_Throw [OF assms, of "ort s" e u p] show "books R s' p + d p = books R s p + t p"
    by (simp add: books_def)
qed

lemma keeps_run:
  assumes "keeps w m" "m s = (r, t)" "\<And>c. r \<noteq> Crash c" shows "w t p = w s p"
  using assms settles_Ok [OF assms(1) [unfolded keeps_def], of s _ t p] settles_Throw [OF assms(1) [unfolded keeps_def], of s _ t p]
  by (cases r) auto

lemma keeps_in_ort [keeps_intros]: "keeps (account R) m \<Longrightarrow> keeps (books R) (in_ort m)"
  unfolding keeps_def by (rule settles_in_ort)

text \<open>Steps that touch neither the runtime nor what is held.\<close>

lemma keeps_mget [keeps_intros]: "keeps w (mget f)"
  by (simp add: keeps_def settles_def mget_def)

lemma keeps_mguard [keeps_intros]: "keeps w (mguard b e)"
  unfolding mguard_def by (intro keeps_intros)

lemma keeps_msum [keeps_intros]: "keeps w (msum x)"
  unfolding msum_def by (cases x) (auto intro: keeps_intros)

lemma keeps_element [keeps_intros]: "keeps w (element v k)"
  by (simp add: keeps_def settles_def element_def)

lemma keeps_get_vec [keeps_intros]: "keeps w (get_vec v)"
  unfolding get_vec_def by (intro keeps_intros)

lemma keeps_opus_checkCancelled [keeps_intros]: "keeps (books R) (opus_checkCancelled E)"
  unfolding opus_checkCancelled_def
proof (intro keeps_intros)
  show "keeps (books R) (\<lambda>s. let (b, f) = load_flag (flag_others E) (oflag s) in (Ok b, s\<lparr>oflag := f\<rparr>))"
    by (auto simp: keeps_def settles_def books_def held_def split: prod.splits)
qed

lemma other_memory: "other_call ''<store>''" "other_call ''<load>''"
  by code_simp+

lemma keeps_store [keeps_intros]: "keeps (books R) (store A p xs)"
  unfolding store_def by (intro keeps_intros keeps_account_call other_memory)

lemma keeps_load_floats [keeps_intros]: "keeps (books R) (load_floats A p n)"
  unfolding load_floats_def by (intro keeps_intros keeps_account_call other_memory)

section \<open>Vectors\<close>

lemma held_put_vec:
  "held (Handle KValue) (put_vec v ps s) p = held (Handle KValue) s p - owns (contents s v) p + owns ps p"
  by (cases v; cases "vecs s v") (simp_all add: held_def put_vec_def contents_def)

lemma held_put_vec_other: "R \<noteq> Handle KValue \<Longrightarrow> held R (put_vec v ps s) p = held R s p"
  by (simp add: held_def put_vec_def)

lemma ort_put_vec [simp]: "ort (put_vec v ps s) = ort s"
  by (simp add: put_vec_def)

lemma contents_put_vec [simp]: "contents (put_vec v ps s) u = (if u = v then ps else contents s u)"
  by (simp add: contents_def put_vec_def)

lemma settles_push_vec: "settles (books R) (granted KValue R p) (push_vec v p) (\<lambda>_. none) t"
  by (cases "R = Handle KValue")
    (simp_all add: settles_def push_vec_def mmodify_def books_def held_put_vec held_put_vec_other)

lemma settles_take_over:
  assumes "d \<noteq> v"
  shows "settles (books R) none (take_over d j v k) (granted KValue R) t"
  using assms
  by (cases "R = Handle KValue")
    (simp_all add: settles_def take_over_def books_def held_put_vec held_put_vec_other owns_update)

lemma keeps_push_moved:
  assumes "d \<noteq> v"
  shows "keeps (books R) (push_moved d v k)"
  using assms
  by (cases "R = Handle KValue")
    (simp_all add: keeps_def settles_def push_moved_def books_def held_put_vec held_put_vec_other owns_update)

definition values_of :: "resource \<Rightarrow> ptr list \<Rightarrow> ptr \<Rightarrow> int" where
  "values_of R ps = (if R = Handle KValue then owns ps else none)"

lemma values_of_Nil: "values_of R [] = none"
  by (rule ext) (simp add: values_of_def)

lemma settles_push_frame: "settles (books R) (values_of R ps) (push_frame v ps) (\<lambda>_. none) t"
  by (cases v) (simp_all add: settles_def push_frame_def mmodify_def books_def held_def values_of_def)

lemma settles_pop_frame: "settles (books R) none (pop_frame v) (values_of R) t"
  by (cases v) (auto simp: settles_def pop_frame_def books_def held_def values_of_def contents_def
      split: list.splits)

lemma settles_release_frame: "settles (books R) none (release_frame A v) (\<lambda>_. none) none"
  unfolding release_frame_def
proof (rule settles_bind [OF settles_pop_frame])
  fix ps
  show "settles (books R) (values_of R ps) (mthen (in_ort (mmap (OrtRelease A ''Value'') ps)) (mret ())) (\<lambda>_. none) none"
    unfolding values_of_def
    by (rule settles_then [OF settles_in_ort [OF settles_release_values]]) (rule settles_ret)
qed

lemma settles_vec_scope:
  assumes "keeps (books R) body"
  shows "settles (books R) (values_of R ps) (vec_scope A v ps body) (\<lambda>_. none) none"
  unfolding vec_scope_def
proof (rule settles_then [OF settles_push_frame])
  have r: "keeps (books R) (release_frame A v)"
    using settles_release_frame by (simp add: keeps_def)
  show "settles (books R) none (mbind (mcatch body (\<lambda>e. mthen (release_frame A v) (mthrow e)))
      (\<lambda>x. mthen (release_frame A v) (mret x))) (\<lambda>_. none) none"
    unfolding keeps_def [symmetric] by (intro keeps_intros assms r)
qed

lemma keeps_vec_scope_empty: "keeps (books R) body \<Longrightarrow> keeps (books R) (vec_scope A v [] body)"
  using settles_vec_scope [of R body "[]" A v] by (simp only: keeps_def values_of_Nil)

lemma settles_move_value: "d \<noteq> v \<Longrightarrow> keeps (books R) (move_value A d j v k)"
  unfolding move_value_def keeps_def
  by (rule settles_bind [OF settles_take_over], assumption)
    (use settles_in_ort [OF settles_release_kind [of _ KValue]] in simp)

lemma settles_owning:
  assumes "settles (books R) none body f none" "k = kind_name C"
  shows "settles (books R) (granted C R p) (owning A k p body) f none"
  unfolding owning_def
proof (rule settles_bind)
  show "settles (books R) (granted C R p) (mcatch body (\<lambda>e. mthen (in_ort (OrtRelease A k p)) (mthrow e)))
      (\<lambda>x q. f x q + granted C R p q) none"
    unfolding assms(2)
    by (rule settles_catch [OF settles_add [OF assms(1)]])
      (rule settles_then [OF settles_in_ort [OF settles_release_kind]], rule settles_throw)
  show "settles (books R) (\<lambda>q. f x q + granted C R p q) (mthen (in_ort (OrtRelease A k p)) (mret x)) f none" for x
    by (rule settles_then [OF settles_in_ort [OF settles_release_more [OF _ assms(2)]]])
      (simp add: add.commute, rule settles_ret [where f = f])
qed

lemma keeps_new_owning:
  assumes "settles (account R) none m (granted C R) none" "\<And>p. keeps (books R) (body p)" "k = kind_name C"
  shows "keeps (books R) (mbind (in_ort m) (\<lambda>p. owning A k p (body p)))"
  unfolding keeps_def
  by (rule settles_bind [OF settles_in_ort [OF assms(1)]])
    (rule settles_owning [OF assms(2) [unfolded keeps_def] assms(3)])

lemma keeps_owned_bind:
  assumes "settles (account R) none m (granted C R) none" "\<And>p. keeps (books R) (body p)" "k = kind_name C"
    "\<And>p x. keeps (books R) (rest p x)"
  shows "keeps (books R) (mbind (in_ort m) (\<lambda>p. mbind (owning A k p (body p)) (rest p)))"
  unfolding keeps_def
  by (rule settles_bind [OF settles_in_ort [OF assms(1)]])
    (rule settles_bind [OF settles_owning [OF assms(2) [unfolded keeps_def] assms(3)] assms(4) [unfolded keeps_def]])

lemma keeps_new_value:
  assumes "settles (account R) none m (granted KValue R) none"
  shows "keeps (books R) (mbind (in_ort m) (push_vec v))"
  unfolding keeps_def by (rule settles_bind [OF settles_in_ort [OF assms]]) (rule settles_push_vec)

lemma keeps_run_scope:
  assumes "\<And>xs. keeps (books R) (body xs)"
  shows "keeps (books R) (mbind (in_ort (Session_Run A p ro ins vals n outs k)) (\<lambda>xs. vec_scope A v xs (body xs)))"
  unfolding keeps_def
  by (rule settles_bind [OF settles_in_ort [OF settles_Session_Run]])
    (use settles_vec_scope [OF assms] in \<open>simp add: values_of_def\<close>)

section \<open>Translation\<close>

lemma settles_create_tensor:
  "settles (account R) none (Value_CreateTensor A T info p n shape) (granted KValue R) none"
  "settles (account R) none (Value_CreateTensor_4 A T allocator shape) (granted KValue R) none"
  unfolding Value_CreateTensor_def Value_CreateTensor_2_def Value_CreateTensor_4_def Value_CreateTensor_5_def
  by (rule settles_grant; simp)+

lemma settles_run_options: "settles (account R) none (RunOptions_new A) (granted KRunOptions R) none"
  unfolding RunOptions_new_def by (rule settles_create_kind) simp_all

lemma settles_tensor_info:
  "settles (account R) none (Value_GetTensorTypeAndShapeInfo A v) (granted KTensorInfo R) none"
  unfolding Value_GetTensorTypeAndShapeInfo_def by (rule settles_grant) simp

lemma keeps_tensor_reads:
  "keeps (account R) (Value_GetTensorMutableData A v)" "keeps (account R) (TensorTypeAndShapeInfo_GetElementCount A i)"
  "keeps (account R) (AllocatorWithDefaultOptions_new A)"
  unfolding Value_GetTensorMutableData_def TensorTypeAndShapeInfo_GetElementCount_def AllocatorWithDefaultOptions_new_def
  by (rule keeps_account_call, code_simp)+

lemma keeps_choose_token: "keeps (books R) (choose_token A E m logits)"
  unfolding choose_token_def Let_def by (intro keeps_intros)

lemma keeps_read_logits: "keeps (books R) (read_logits A m)"
  unfolding read_logits_def
  by (intro keeps_bind keeps_element keeps_in_ort keeps_tensor_reads
      keeps_owned_bind [OF settles_tensor_info] keeps_then keeps_mguard keeps_ret) simp

lemma keeps_take_token: "keeps (books R) (take_token A E m step translated token)"
  unfolding take_token_def
  by (intro keeps_then keeps_if keeps_ret keeps_throw keeps_case_option keeps_mmap settles_move_value keeps_store) simp

lemma keeps_decode_step: "keeps (books R) (decode_step A E m run step translated)"
  unfolding decode_step_def
  by (intro keeps_then keeps_opus_checkCancelled keeps_bind [OF keeps_get_vec] keeps_run_scope
      keeps_bind [OF keeps_read_logits] keeps_bind [OF keeps_choose_token] keeps_take_token)

lemma keeps_sum_case:
  "(\<And>x. r = Inl x \<Longrightarrow> keeps w (f x)) \<Longrightarrow> (\<And>y. r = Inr y \<Longrightarrow> keeps w (g y)) \<Longrightarrow> keeps w (case r of Inl x \<Rightarrow> f x | Inr y \<Rightarrow> g y)"
  by (cases r) simp_all

lemma keeps_decode_loop: "keeps (books R) (decode_loop A E m run steps translated)"
proof (induction steps arbitrary: translated)
  case Nil
  show ?case unfolding decode_loop.simps by (rule keeps_throw)
next
  case (Cons step steps)
  show ?case
    unfolding decode_loop.simps
    by (intro keeps_bind keeps_decode_step keeps_sum_case keeps_ret Cons.IH)
qed

lemma keeps_fill_feed: "keeps (books R) (fill_feed A E m n)"
  unfolding fill_feed_def
  by (intro keeps_then keeps_store keeps_new_value settles_create_tensor keeps_push_moved keeps_mmap
      keeps_bind keeps_in_ort keeps_tensor_reads) simp

lemma keeps_opus_run: "keeps (books R) (opus_run A E m ids)"
  unfolding opus_run_def fill_input_def run_models_def decode_from_def
  by (intro keeps_then keeps_store keeps_vec_scope_empty keeps_new_value settles_create_tensor
      keeps_new_owning [OF settles_run_options] keeps_bind [OF keeps_get_vec] keeps_run_scope
      keeps_fill_feed keeps_decode_loop) simp

lemma keeps_opus_translate: "keeps (books R) (opus_translate A E m txt)"
  unfolding opus_translate_def
  by (intro keeps_then keeps_opus_checkCancelled keeps_case_option keeps_throw keeps_mguard
      keeps_bind [OF keeps_msum] keeps_opus_run)

text \<open>The vectors of a call are gone when it ends: frames are pushed and popped in pairs.\<close>

definition framed :: "vec set \<Rightarrow> ('w opus_state, 'a) action \<Rightarrow> bool" where
  "framed V m \<longleftrightarrow> (\<forall>s. (\<forall>v \<in> V. vecs s v \<noteq> []) \<longrightarrow> (case m s of
       (Crash c, s') \<Rightarrow> True
     | (r, s') \<Rightarrow> \<forall>v. tl (vecs s' v) = tl (vecs s v) \<and> (vecs s' v = []) = (vecs s v = [])))"

named_theorems frame_rules "actions that leave the frames as they were"

lemma framedI:
  assumes "\<And>s r s' v. (\<And>v. v \<in> V \<Longrightarrow> vecs s v \<noteq> []) \<Longrightarrow> m s = (r, s') \<Longrightarrow> (\<And>c. r \<noteq> Crash c)
     \<Longrightarrow> tl (vecs s' v) = tl (vecs s v) \<and> (vecs s' v = []) = (vecs s v = [])"
  shows "framed V m"
  unfolding framed_def using assms by (auto split: prod.splits outcome.splits)

lemma framedD:
  assumes "framed V m" "m s = (r, s')" "\<And>c. r \<noteq> Crash c" "\<And>v. v \<in> V \<Longrightarrow> vecs s v \<noteq> []"
  shows "tl (vecs s' v) = tl (vecs s v)" "(vecs s' v = []) = (vecs s v = [])"
  using assms unfolding framed_def by (cases r; auto dest!: spec [of _ s])+

lemma framed_same:
  assumes "\<And>s. vecs (snd (m s)) = vecs s" shows "framed V m"
  by (rule framedI) (metis assms snd_conv)

lemma framed_basic [frame_rules]:
  "framed V (mret x)" "framed V (mthrow e)" "framed V (mcrash c)" "framed V (mget f)" "framed V (mguard b e)"
  "framed V (msum y)" "framed V (in_ort m)" "framed V (get_vec v)" "framed V (element v k)"
  "framed V (store A p xs)" "framed V (load_floats A p n)" "framed V (opus_checkCancelled E)"
  by (rule framed_same; simp add: mret_def mthrow_def mcrash_def mget_def mguard_def msum_def in_ort_def get_vec_def
      element_def store_def load_floats_def opus_checkCancelled_def mbind_def Let_def split: prod.splits sum.splits)+

lemma framed_bind [frame_rules]:
  assumes m: "framed V m" and k: "\<And>x. framed V (k x)" shows "framed V (mbind m k)"
proof (rule framedI)
  fix s r s' v
  assume V: "\<And>v. v \<in> V \<Longrightarrow> vecs s v \<noteq> []" and run: "mbind m k s = (r, s')" and r: "\<And>c. r \<noteq> Crash c"
  obtain x u where 1: "m s = (x, u)" by (cases "m s")
  show "tl (vecs s' v) = tl (vecs s v) \<and> (vecs s' v = []) = (vecs s v = [])"
  proof (cases x)
    case (Ok y)
    have u: "tl (vecs u w) = tl (vecs s w)" "(vecs u w = []) = (vecs s w = [])" for w
      using framedD [OF m 1 _ V] Ok by auto
    have "k y u = (r, s')" using run 1 Ok by (simp add: mbind_def)
    from framedD [OF k this r] V show ?thesis by (simp add: u)
  next
    case (Throw e)
    with run 1 r show ?thesis using framedD [OF m 1 _ V] by (auto simp: mbind_def)
  next
    case (Crash c)
    with run 1 r show ?thesis by (auto simp: mbind_def)
  qed
qed

lemma framed_then [frame_rules]: "framed V m \<Longrightarrow> framed V k \<Longrightarrow> framed V (mthen m k)"
  unfolding mthen_def by (rule framed_bind)

lemma framed_catch [frame_rules]:
  assumes m: "framed V m" and h: "\<And>e. framed V (h e)" shows "framed V (mcatch m h)"
proof (rule framedI)
  fix s r s' v
  assume V: "\<And>v. v \<in> V \<Longrightarrow> vecs s v \<noteq> []" and run: "mcatch m h s = (r, s')" and r: "\<And>c. r \<noteq> Crash c"
  obtain x u where 1: "m s = (x, u)" by (cases "m s")
  show "tl (vecs s' v) = tl (vecs s v) \<and> (vecs s' v = []) = (vecs s v = [])"
  proof (cases x)
    case (Throw e)
    have u: "tl (vecs u w) = tl (vecs s w)" "(vecs u w = []) = (vecs s w = [])" for w
      using framedD [OF m 1 _ V] Throw by auto
    have "h e u = (r, s')" using run 1 Throw by (simp add: mcatch_def)
    from framedD [OF h this r] V show ?thesis by (simp add: u)
  qed (use run 1 r framedD [OF m 1 _ V] in \<open>auto simp: mcatch_def\<close>)
qed

lemma framed_cases [frame_rules]:
  "(b \<Longrightarrow> framed V m) \<Longrightarrow> (\<not> b \<Longrightarrow> framed V n) \<Longrightarrow> framed V (if b then m else n)"
  "framed V m \<Longrightarrow> (\<And>y. framed V (k y)) \<Longrightarrow> framed V (case z of None \<Rightarrow> m | Some y \<Rightarrow> k y)"
  "(\<And>x. framed V (f x)) \<Longrightarrow> (\<And>y. framed V (g y)) \<Longrightarrow> framed V (case q of Inl x \<Rightarrow> f x | Inr y \<Rightarrow> g y)"
  by (auto split: option.splits sum.splits)

lemma framed_mmap [frame_rules]: "(\<And>x. framed V (f x)) \<Longrightarrow> framed V (mmap f xs)"
  by (induction xs) (auto intro!: frame_rules)

lemma vecs_put_vec [simp]: "vecs (put_vec v ps s) u = (if u = v then ps # tl (vecs s v) else vecs s u)"
  by (simp add: put_vec_def)

lemma framed_vec_ops [frame_rules]:
  "v \<in> V \<Longrightarrow> framed V (push_vec v p)" "d \<in> V \<Longrightarrow> v \<in> V \<Longrightarrow> framed V (take_over d j v k)"
  "d \<in> V \<Longrightarrow> v \<in> V \<Longrightarrow> framed V (push_moved d v k)"
  by (rule framedI; auto simp: push_vec_def take_over_def push_moved_def mmodify_def split: if_splits)+

lemma framed_owning [frame_rules]: "framed V body \<Longrightarrow> framed V (owning A k p body)"
  unfolding owning_def by (intro frame_rules)

lemma framed_move_value [frame_rules]: "d \<in> V \<Longrightarrow> v \<in> V \<Longrightarrow> framed V (move_value A d j v k)"
  unfolding move_value_def by (intro frame_rules)

lemma release_frame_pops:
  assumes "release_frame A v s = (r, s')"
  shows "vecs s' u = (if u = v then tl (vecs s v) else vecs s u)"
  using assms
  by (auto simp: release_frame_def mbind_def mthen_def pop_frame_def in_ort_def mret_def Let_def
      split: prod.splits outcome.splits)

lemma framed_vec_scope [frame_rules]:
  assumes body: "framed (insert v V) body" shows "framed V (vec_scope A v ps body)"
proof (rule framedI)
  fix s r s' u
  assume V: "\<And>v. v \<in> V \<Longrightarrow> vecs s v \<noteq> []" and run: "vec_scope A v ps body s = (r, s')" and r: "\<And>c. r \<noteq> Crash c"
  define s1 where "s1 = s\<lparr>vecs := (vecs s)(v := ps # vecs s v)\<rparr>"
  obtain x s2 where b: "body s1 = (x, s2)" by (cases "body s1")
  have nx: "x \<noteq> Crash c" for c
    using run r [of c] b by (auto simp: vec_scope_def push_frame_def mmodify_def mthen_def mbind_def mcatch_def s1_def)
  have V1: "vecs s1 w \<noteq> []" if "w \<in> insert v V" for w using that V by (auto simp: s1_def)
  have s2: "tl (vecs s2 w) = tl (vecs s1 w)" "(vecs s2 w = []) = (vecs s1 w = [])" for w
    using framedD [OF body b nx V1] by auto
  obtain y s3 where rel: "release_frame A v s2 = (y, s3)" by (cases "release_frame A v s2")
  have "s' = s3"
    using run r b nx rel
    by (cases x; cases y) (auto simp: vec_scope_def push_frame_def mmodify_def mthen_def mbind_def mcatch_def
        mthrow_def mret_def s1_def [symmetric])
  then have "vecs s' w = (if w = v then tl (vecs s2 v) else vecs s2 w)" for w
    using release_frame_pops [OF rel] by simp
  then show "tl (vecs s' u) = tl (vecs s u) \<and> (vecs s' u = []) = (vecs s u = [])"
    using s2 by (simp add: s1_def)
qed

lemma framed_decode_step: "{Feed} \<subseteq> V \<Longrightarrow> framed V (decode_step A E m run step translated)"
  unfolding decode_step_def read_logits_def take_token_def choose_token_def Let_def by (intro frame_rules) auto

lemma framed_decode_loop: "{Feed} \<subseteq> V \<Longrightarrow> framed V (decode_loop A E m run steps translated)"
proof (induction steps arbitrary: translated)
  case Nil
  show ?case unfolding decode_loop.simps by (intro frame_rules)
next
  case (Cons step steps)
  then show ?case unfolding decode_loop.simps by (intro frame_rules framed_decode_step Cons.IH)
qed

lemma framed_opus_translate: "framed {} (opus_translate A E m txt)"
  unfolding opus_translate_def opus_run_def fill_input_def run_models_def decode_from_def fill_feed_def
  by (intro frame_rules framed_decode_loop) auto

lemma translate_frames:
  assumes "opus_translate A E m txt s = (r, s')" "\<And>c. r \<noteq> Crash c" "\<And>v. vecs s v = []"
  shows "vecs s' v = []"
  using framedD(2) [OF framed_opus_translate assms(1,2)] assms(3) by simp

section \<open>Construction\<close>

lemma settles_swap_session:
  "settles (books R) (granted KSession R p) (swap_encoder p) (granted KSession R) t"
  "settles (books R) (granted KSession R p) (swap_decoder p) (granted KSession R) t"
  by (simp_all add: settles_def swap_encoder_def swap_decoder_def books_def held_def granted_def)

lemma settles_assign_session:
  "settles (books R) (granted KSession R p) (assign_encoder A p) (\<lambda>_. none) none"
  "settles (books R) (granted KSession R p) (assign_decoder A p) (\<lambda>_. none) none"
proof -
  have "settles (books R) (granted KSession R q) (in_ort (OrtRelease A ''Session'' q)) (\<lambda>_. none) none" for q
    using settles_in_ort [OF settles_release_kind [of R KSession q A]] by simp
  then show "settles (books R) (granted KSession R p) (assign_encoder A p) (\<lambda>_. none) none"
    "settles (books R) (granted KSession R p) (assign_decoder A p) (\<lambda>_. none) none"
    unfolding assign_encoder_def assign_decoder_def
    by (auto intro: settles_bind [OF settles_swap_session(1)] settles_bind [OF settles_swap_session(2)])
qed

lemma keeps_destroy_session: "keeps (books R) (assign_encoder A 0)" "keeps (books R) (assign_decoder A 0)"
  using settles_assign_session [of R 0 A] by (simp_all add: keeps_def)

lemma keeps_set_projection: "keeps (account R) (set_projection A logid p)"
  unfolding set_projection_def by (intro keeps_if keeps_account_call; code_simp)

lemma settles_Env_new: "settles (account R) none (Env_new A lvl logid) (granted KEnv R) none"
  unfolding Env_new_def by (rule settles_construct_kind) (simp_all add: keeps_set_projection)

lemma keeps_environment: "keeps (books R) (environment A)"
proof -
  have in_env: "held R (u\<lparr>env_handle := Some q\<rparr>) p = held R s p + granted KEnv R q p"
    if "in_ort m s = (x, u)" "env_handle s = None" for m :: "('w ort, ptr) action" and x s u q p
    using that by (auto simp: in_ort_def Let_def held_def granted_def split: prod.splits)
  show ?thesis
    unfolding keeps_def
  proof (rule settlesI)
    fix s x s' p
    assume run: "environment A s = (Ok x, s')"
    show "books R s' p + none p = books R s p + none p"
    proof (cases "env_handle s")
      case (Some e)
      with run show ?thesis by (auto simp: environment_def mbind_def mget_def mret_def)
    next
      case None
      from run None obtain q u where new: "in_ort (Env_new A (logging_level_code ORT_LOGGING_LEVEL_WARNING) ''live-captions'') s = (Ok q, u)"
        and s': "s' = u\<lparr>env_handle := Some q\<rparr>"
        by (auto simp: environment_def mget_def mmodify_def mret_def elim!: mbind_OkE mthen_OkE)
      from settles_Ok [OF settles_in_ort [OF settles_Env_new] new, of R p] in_env [OF new None, of q p] held_in_ort [OF new, of R]
      show ?thesis
        by (simp add: s' books_def)
    qed
  next
    fix s e s' p
    assume "environment A s = (Throw e, s')"
    then have "in_ort (Env_new A (logging_level_code ORT_LOGGING_LEVEL_WARNING) ''live-captions'') s = (Throw e, s')"
      by (auto simp: environment_def mbind_def mthen_def mget_def mmodify_def mret_def
          split: option.splits prod.splits outcome.splits)
    from settles_Throw [OF settles_in_ort [OF settles_Env_new] this, of R p]
    show "books R s' p + none p = books R s p + none p" by simp
  qed
qed

lemma keeps_assign_new:
  assumes "settles (account R) none m (granted KSession R) none" "\<And>p. keeps (books R) (k p)"
  shows "keeps (books R) (mbind (in_ort m) (\<lambda>p. mthen (assign_encoder A p) (k p)))"
    "keeps (books R) (mbind (in_ort m) (\<lambda>p. mthen (assign_decoder A p) (k p)))"
  unfolding keeps_def
  by (rule settles_bind [OF settles_in_ort [OF assms(1)]],
      rule settles_then [OF settles_assign_session(1)] settles_then [OF settles_assign_session(2)],
      rule assms(2) [unfolded keeps_def])+

lemma settles_Session_new: "settles (account R) none (Session_new A env path opts) (granted KSession R) none"
  unfolding Session_new_def by (rule settles_create_kind) simp_all

lemma settles_SessionOptions_new: "settles (account R) none (SessionOptions_new A) (granted KSessionOptions R) none"
  unfolding SessionOptions_new_def by (rule settles_create_kind) simp_all

lemma keeps_session_options:
  "keeps (account R) (SessionOptions_SetIntraOpNumThreads A p n)" "keeps (account R) (SessionOptions_SetInterOpNumThreads A p n)"
  "keeps (account R) (SessionOptions_SetGraphOptimizationLevel A p lvl)"
  unfolding SessionOptions_SetIntraOpNumThreads_def SessionOptions_SetInterOpNumThreads_def
    SessionOptions_SetGraphOptimizationLevel_def
  by (rule keeps_account_call, code_simp)+

lemma keeps_check_name:
  assumes "\<And>i. settles (account R) none (get i allocator) (\<lambda>x. if R = Buffer then own (fst x) else none) none"
  shows "keeps (account R) (check_name A get allocator msg x)"
proof -
  obtain i expected where x: "x = (i, expected)" by (cases x)
  have "settles (account R) (if R = Buffer then own p else none)
      (mbind (with_buffer A allocator p (case nm of None \<Rightarrow> mcrash ''null string'' | Some s \<Rightarrow> mret (expected \<noteq> s)))
        (\<lambda>differs. mguard differs (RuntimeError msg))) (\<lambda>_. none) none" for p nm
    by (rule settles_bind [OF settles_account_with_buffer])
      (intro keeps_intros keeps_mguard [unfolded keeps_def])+
  then show ?thesis
    unfolding check_name_def x prod.case keeps_def
    by (intro settles_bind [OF assms]) (auto split: prod.split)
qed

lemma settles_names:
  "settles (account R) none (Session_GetInputNameAllocated A p i allocator) (\<lambda>x. if R = Buffer then own (fst x) else none) none"
  "settles (account R) none (Session_GetOutputNameAllocated A p i allocator) (\<lambda>x. if R = Buffer then own (fst x) else none) none"
  unfolding Session_GetInputNameAllocated_def Session_GetOutputNameAllocated_def
  by (rule settles_account_allocated; simp add: buffer_calls_def)+

lemma keeps_counts:
  "keeps (account R) (Session_GetInputCount A p)" "keeps (account R) (Session_GetOutputCount A p)"
  unfolding Session_GetInputCount_def Session_GetOutputCount_def
  by (rule keeps_account_call, code_simp)+

lemma keeps_check_signature: "keeps (account R) (check_signature A dec ins outs)"
  unfolding check_signature_def
  by (intro keeps_bind keeps_then keeps_if keeps_ret keeps_mguard keeps_mmap keeps_check_name settles_names
      keeps_counts keeps_tensor_reads)

lemma keeps_load_sessions: "keeps (books R) (load_sessions A dir threads ins outs)"
  unfolding load_sessions_def
  by (intro keeps_new_owning [OF settles_SessionOptions_new] keeps_then keeps_in_ort keeps_session_options
      keeps_bind [OF keeps_environment] keeps_assign_new settles_Session_new keeps_check_signature) simp

lemma keeps_read_json: "keeps (books R) (read_json E path)"
  unfolding read_json_def by (intro keeps_intros keeps_msum)

lemma keeps_int_div: "keeps w (int_div a b)"
  unfolding int_div_def by (intro keeps_intros)

lemma keeps_at_int: "keeps w (at_int E j key)"
  unfolding at_int_def by (intro keeps_bind keeps_msum)

lemma keeps_fill_pieces: "keeps w (fill_pieces E ps es)"
  by (induction E ps es rule: fill_pieces.induct)
    (auto intro!: keeps_intros keeps_msum keeps_mguard)

lemma keeps_Opus_body: "keeps (books R) (Opus_body A E mem dir threads)"
  unfolding Opus_body_def
  by (intro keeps_bind keeps_read_json keeps_at_int keeps_int_div keeps_msum keeps_fill_pieces)
    (auto split: prod.split option.split intro!: keeps_then keeps_load_sessions keeps_mget keeps_throw)

lemma settles_CreateCpu: "settles (account R) none (MemoryInfo_CreateCpu A ty mt) (granted KMemoryInfo R) none"
  unfolding MemoryInfo_CreateCpu_def by (rule settles_grant) simp

text \<open>The members of a constructed object are those of the state.\<close>

lemma Opus_body_members:
  assumes "Opus_body A E mem dir threads s = (Ok m, s')"
  shows "memory m = mem" "encoder m = m_encoder s'" "decoder m = m_decoder s'"
  using assms
  by (auto simp: Opus_body_def mget_def elim!: mbind_OkE mthen_OkE split: option.splits)

lemma settles_Opus_init:
  "settles (books R) none
     (mbind (in_ort (MemoryInfo_CreateCpu A 1 0)) (\<lambda>mem.
       mcatch (Opus_body A E mem dir threads)
         (\<lambda>e. mthen (in_ort (OrtRelease A ''MemoryInfo'' mem)) (mthrow e))))
     (\<lambda>m. granted KMemoryInfo R (memory m)) none"
proof (rule settles_bind [OF settles_in_ort [OF settles_CreateCpu]])
  fix mem
  have rel: "settles (books R) (granted KMemoryInfo R mem) (in_ort (OrtRelease A ''MemoryInfo'' mem)) (\<lambda>_. none) none"
    using settles_in_ort [OF settles_release_kind [of R KMemoryInfo mem A]] by simp
  have body: "settles (books R) (granted KMemoryInfo R mem) (Opus_body A E mem dir threads)
      (\<lambda>m. granted KMemoryInfo R (memory m)) (granted KMemoryInfo R mem)"
  proof (rule settlesI)
    fix s m s' p
    assume run: "Opus_body A E mem dir threads s = (Ok m, s')"
    from settles_Ok [OF keeps_settles [OF keeps_Opus_body [of R]] run, where d = "granted KMemoryInfo R mem" and p = p]
    show "books R s' p + granted KMemoryInfo R mem p = books R s p + granted KMemoryInfo R (memory m) p"
      by (simp add: Opus_body_members(1) [OF run])
  next
    fix s e s' p
    assume run: "Opus_body A E mem dir threads s = (Throw e, s')"
    from settles_Throw [OF keeps_settles [OF keeps_Opus_body [of R]] run, where d = "granted KMemoryInfo R mem" and p = p]
    show "books R s' p + granted KMemoryInfo R mem p = books R s p + granted KMemoryInfo R mem p" .
  qed
  show "settles (books R) (granted KMemoryInfo R mem)
      (mcatch (Opus_body A E mem dir threads) (\<lambda>e. mthen (in_ort (OrtRelease A ''MemoryInfo'' mem)) (mthrow e)))
      (\<lambda>m. granted KMemoryInfo R (memory m)) none"
    by (rule settles_catch [OF body]) (intro settles_then [OF rel] settles_throw)
qed

lemma settles_Opus_new:
  assumes "m_encoder s = 0" "m_decoder s = 0" "Opus_new A E dir threads s = (r, s')"
  shows "(case r of Ok m \<Rightarrow> books R s' p = books R s p + granted KMemoryInfo R (memory m) p
      | Throw e \<Rightarrow> books R s' p = books R s p | Crash c \<Rightarrow> True)"
proof -
  let ?init = "mbind (in_ort (MemoryInfo_CreateCpu A 1 0)) (\<lambda>mem.
       mcatch (Opus_body A E mem dir threads)
         (\<lambda>e. mthen (in_ort (OrtRelease A ''MemoryInfo'' mem)) (mthrow e)))"
  let ?handler = "\<lambda>e. mthen (assign_decoder A 0) (mthen (assign_encoder A 0) (mthrow e))"
  have s0: "s\<lparr>m_encoder := 0, m_decoder := 0\<rparr> = s" using assms(1,2) by (cases s) simp
  have run: "mcatch ?init ?handler s = (r, s')"
    using assms(3) by (simp add: Opus_new_def mthen_def mbind_def mmodify_def s0)
  have st: "settles (books R) none (mcatch ?init ?handler) (\<lambda>m. granted KMemoryInfo R (memory m)) none"
    by (rule settles_catch [OF settles_Opus_init], rule settles_then [OF keeps_destroy_session(2) [unfolded keeps_def]],
        rule settles_then [OF keeps_destroy_session(1) [unfolded keeps_def]], rule settles_throw)
  show ?thesis
    using settles_Ok [OF st, of s _ s' p] settles_Throw [OF st, of s _ s' p] run
    by (cases r) auto
qed

section \<open>What the calls leave alone\<close>

text \<open>As accounts: the sessions and the environment during a translation, the vectors during construction.\<close>

definition members_are :: "ptr \<times> ptr \<times> ptr option \<Rightarrow> 'w opus_state account" where
  "members_are c s p = (if p = 1 \<and> (m_encoder s, m_decoder s, env_handle s) = c then 1 else 0)"

definition vectors_are :: "(vec \<Rightarrow> ptr list list) \<Rightarrow> 'w opus_state account" where
  "vectors_are c s p = (if p = 1 \<and> vecs s = c then 1 else 0)"

lemma keeps_other [keeps_intros]:
  "keeps (members_are c) (in_ort m)" "keeps (vectors_are d) (in_ort m)"
  "keeps (members_are c) (opus_checkCancelled E)"
  by (auto simp: keeps_def settles_def members_are_def vectors_are_def in_ort_def opus_checkCancelled_def mguard_def
      mbind_def mret_def mthrow_def Let_def split: prod.splits outcome.splits)

lemma keeps_members_vectors [keeps_intros]:
  "keeps (members_are c) (push_frame v ps)" "keeps (members_are c) (push_vec v p)" "keeps (members_are c) (take_over d j w k)"
  "keeps (members_are c) (push_moved d v k)" "keeps (members_are c) (pop_frame v)"
  by (auto simp: keeps_def settles_def members_are_def push_frame_def push_vec_def take_over_def push_moved_def pop_frame_def
      put_vec_def mmodify_def)

lemma keeps_vectors_sessions [keeps_intros]:
  "keeps (vectors_are c) (assign_encoder A p)" "keeps (vectors_are c) (assign_decoder A p)" "keeps (vectors_are c) (environment A)"
proof -
  have "keeps (vectors_are c) (swap_encoder p)" "keeps (vectors_are c) (swap_decoder p)" for p
    by (auto simp: keeps_def settles_def vectors_are_def swap_encoder_def swap_decoder_def)
  then show "keeps (vectors_are c) (assign_encoder A p)" "keeps (vectors_are c) (assign_decoder A p)"
    unfolding assign_encoder_def assign_decoder_def by (auto intro!: keeps_intros)
  have "keeps (vectors_are c) (mmodify (\<lambda>s. s\<lparr>env_handle := x\<rparr>))" for x
    by (auto simp: keeps_def settles_def vectors_are_def mmodify_def)
  then show "keeps (vectors_are c) (environment A)"
    unfolding environment_def by (intro keeps_intros)
qed

lemma keeps_members_decode_loop: "keeps (members_are c) (decode_loop A E m run steps translated)"
proof (induction steps arbitrary: translated)
  case Nil
  show ?case unfolding decode_loop.simps by (rule keeps_throw)
next
  case (Cons step steps)
  have "keeps (members_are c) (decode_step A E m run step translated)"
    unfolding decode_step_def read_logits_def choose_token_def take_token_def vec_scope_def release_frame_def owning_def
      move_value_def store_def load_floats_def Let_def
    by (intro keeps_intros)
  then show ?case
    unfolding decode_loop.simps by (intro keeps_bind keeps_sum_case keeps_ret Cons.IH)
qed

lemma keeps_members_translate: "keeps (members_are c) (opus_translate A E m txt)"
  unfolding opus_translate_def opus_run_def fill_input_def run_models_def decode_from_def fill_feed_def
    vec_scope_def release_frame_def owning_def store_def
  by (intro keeps_intros keeps_members_decode_loop)

lemma translate_members:
  assumes "opus_translate A E m txt s = (r, t)" "\<And>c. r \<noteq> Crash c"
  shows "m_encoder t = m_encoder s \<and> m_decoder t = m_decoder s \<and> env_handle t = env_handle s"
  using keeps_run [OF keeps_members_translate assms, of "(m_encoder s, m_decoder s, env_handle s)" 1]
  by (simp add: members_are_def split: if_splits)

lemma translate_balance:
  assumes run: "opus_translate A E m txt s = (r, t)" "\<And>c. r \<noteq> Crash c" and empty: "\<And>v. vecs s v = []"
  shows "account R (ort t) p = account R (ort s) p"
proof -
  have "books R t p = books R s p" using keeps_opus_translate run by (rule keeps_run)
  moreover have "held R t p = held R s p"
    using translate_members [OF run] translate_frames [OF run empty] empty by (simp add: held_def)
  ultimately show ?thesis by (simp add: books_def)
qed

lemma keeps_vectors_fill: "keeps (vectors_are c) (fill_pieces E ps es)"
  by (induction E ps es rule: fill_pieces.induct) (auto intro!: keeps_intros)

lemma keeps_vectors_new:
  "keeps (vectors_are c) (Opus_new A E dir threads)"
proof -
  have "keeps (vectors_are c) (Opus_body A E mem dir threads)" for mem
    unfolding Opus_body_def read_json_def at_int_def int_div_def load_sessions_def owning_def
    by (intro keeps_intros keeps_vectors_fill)
  moreover have "keeps (vectors_are c) (mmodify (\<lambda>s. s\<lparr>m_encoder := 0, m_decoder := 0\<rparr>))"
    by (auto simp: keeps_def settles_def vectors_are_def mmodify_def)
  ultimately show ?thesis
    unfolding Opus_new_def by (intro keeps_intros)
qed

text \<open>The sessions after construction: those of the object, or none.\<close>

lemma assign_session_result:
  "assign_encoder A p s = (r, t) \<Longrightarrow> m_encoder t = p \<and> m_decoder t = m_decoder s"
  "assign_decoder A p s = (r, t) \<Longrightarrow> m_decoder t = p \<and> m_encoder t = m_encoder s"
  by (auto simp: assign_encoder_def assign_decoder_def swap_encoder_def swap_decoder_def mbind_def in_ort_def Let_def
      split: prod.splits)

lemma assign_no_throw: "assign_encoder A p s \<noteq> (Throw e, t)" "assign_decoder A p s \<noteq> (Throw e, t)"
  by (auto simp: OrtRelease_no_throw assign_encoder_def assign_decoder_def swap_encoder_def swap_decoder_def mbind_def in_ort_def Let_def
      split: prod.splits)

lemma Opus_new_sessions:
  assumes "Opus_new A E dir threads s = (r, t)"
  shows "r = Ok m \<Longrightarrow> encoder m = m_encoder t \<and> decoder m = m_decoder t"
    "r = Throw e \<Longrightarrow> m_encoder t = 0 \<and> m_decoder t = 0"
proof -
  assume "r = Ok m"
  with assms obtain mem u where "Opus_body A E mem dir threads u = (Ok m, t)"
    by (auto simp: Opus_new_def elim!: mthen_OkE mcatch_OkE mbind_OkE)
  then show "encoder m = m_encoder t \<and> decoder m = m_decoder t" by (simp add: Opus_body_members)
next
  assume "r = Throw e"
  with assms show "m_encoder t = 0 \<and> m_decoder t = 0"
    by (auto simp: Opus_new_def mthen_def mbind_def mcatch_def mthrow_def mmodify_def assign_no_throw
        dest!: assign_session_result split: prod.splits outcome.splits)
qed

lemma construction_balance:
  assumes "m_encoder s = 0" "m_decoder s = 0" "R \<noteq> Handle KEnv" "Opus_new A E dir threads s = (r, t)"
  shows "r = Ok m \<Longrightarrow> account R (ort t) p = account R (ort s) p + (if R = Handle KMemoryInfo then own (memory m) p
            else if R = Handle KSession then own (encoder m) p + own (decoder m) p else 0)"
    "r = Throw e \<Longrightarrow> account R (ort t) p = account R (ort s) p"
proof -
  have vecs: "vecs t = vecs s" if "\<And>c. r \<noteq> Crash c"
    using keeps_run [OF keeps_vectors_new assms(4) that, of "vecs s" 1] by (simp add: vectors_are_def split: if_splits)
  show "account R (ort t) p = account R (ort s) p + (if R = Handle KMemoryInfo then own (memory m) p
            else if R = Handle KSession then own (encoder m) p + own (decoder m) p else 0)" if "r = Ok m"
    using settles_Opus_new [OF assms(1,2,4), of R p] vecs Opus_new_sessions(1) [OF assms(4) that] assms(1-3) that
    by (simp add: books_def held_def granted_def split: if_splits)
  show "account R (ort t) p = account R (ort s) p" if "r = Throw e"
    using settles_Opus_new [OF assms(1,2,4), of R p] vecs Opus_new_sessions(2) [OF assms(4) that] assms(1-3) that
    by (simp add: books_def held_def split: if_splits)
qed

end
