(* ===== verification/Opus_Decoding.thy ===== *)
theory Opus_Decoding imports Opus_Account begin

text \<open>
  What a translation of the OPUS engine does, as seen by the runtime: the log of a run keeps the calls
  of \<open>Run\<close>, the location of tensor data, and the writes to and reads of shared memory. The relation
  \<open>decodes\<close> is the specification of greedy decoding with a key/value cache, on logs; the decoding loop
  refines it.
\<close>

section \<open>The log\<close>

datatype entry =
    Ran ptr "string option list" "ptr list" "string option list" "ptr list"
  | Located ptr ptr
  | Stored ptr "int list"
  | Seen ptr "float32 list"

fun arg_ptr :: "arg \<Rightarrow> ptr" where
  "arg_ptr (Ptr p) = p" | "arg_ptr _ = 0"

fun arg_num :: "arg \<Rightarrow> nat" where
  "arg_num (Num i) = nat i" | "arg_num _ = 0"

fun arg_strs :: "arg \<Rightarrow> string option list" where
  "arg_strs (Strs xs) = xs" | "arg_strs _ = []"

fun arg_ptrs :: "arg \<Rightarrow> ptr list" where
  "arg_ptrs (Ptrs xs) = xs" | "arg_ptrs _ = []"

fun arg_nums :: "arg \<Rightarrow> int list" where
  "arg_nums (Nums xs) = xs" | "arg_nums _ = []"

fun entry_of :: "event \<Rightarrow> entry list" where
  "entry_of (Call T n args, r) =
     (if n = ''Run'' then
        [Ran (arg_ptr (args ! 0)) (arg_strs (args ! 2)) (arg_ptrs (args ! 3)) (arg_strs (args ! 5))
           (filled (arg_num (args ! 6)) 0 (r_ptrs r 0))]
      else if n = ''GetTensorMutableData'' then [Located (arg_ptr (args ! 0)) (r_ptr r 0)]
      else if n = ''<store>'' then [Stored (arg_ptr (args ! 0)) (arg_nums (args ! 1))]
      else if n = ''<load>'' then
        [Seen (arg_ptr (args ! 0)) (map word_of_int (filled (arg_num (args ! 1)) 0 (r_nums r 0)))]
      else [])"

definition log_of :: "event list \<Rightarrow> entry list" where
  "log_of es = concat (map entry_of es)"

lemma log_of_simps [simp]: "log_of [] = []" "log_of (es @ fs) = log_of es @ log_of fs" "log_of [e] = entry_of e"
  by (simp_all add: log_of_def)

definition unlogged :: "string \<Rightarrow> bool" where
  "unlogged n \<longleftrightarrow> n \<notin> set [''Run'', ''GetTensorMutableData'', ''<store>'', ''<load>'']"

lemma entry_simps [simp]:
  "entry_of (Call T ''<store>'' [Ptr p, Nums xs], r) = [Stored p xs]"
  "entry_of (Call T ''<load>'' [Ptr p, Num i], r) = [Seen p (map word_of_int (filled (nat i) 0 (r_nums r 0)))]"
  "entry_of (Call T ''GetTensorMutableData'' [Ptr p], r) = [Located p (r_ptr r 0)]"
  "entry_of (Call T ''Run'' [Ptr p, ro, Strs ins, Ptrs vals, a, Strs outs, Num k, b], r)
     = [Ran p ins vals outs (filled (nat k) 0 (r_ptrs r 0))]"
  by simp_all

declare entry_of.simps [simp del]

text \<open>The log as an account: it is \<open>c\<close> when one unit of the pointer 1 is outstanding.\<close>

definition log_is :: "entry list \<Rightarrow> 'w ort account" where
  "log_is c s p = (if p = 1 \<and> log_of (events s) = c then 1 else 0)"

lemma keeps_log_transact: "unlogged n \<Longrightarrow> keeps (log_is c) (transact A v (Call T n args))"
  by (auto simp: keeps_def settles_def transact_def log_is_def unlogged_def entry_of.simps Let_def split: prod.splits)

lemma unlogged_call: "unlogged n \<Longrightarrow> calls_keep (log_is c) n"
  unfolding calls_keep_def call_plain_def call_status_def by (simp add: keeps_log_transact)

interpretation log_account: call_account "log_is c" for c
  by unfold_locales (auto simp: base_calls_def unlogged_def intro!: unlogged_call)

lemmas keeps_log_wrapper = log_account.keeps_neutral [OF unlogged_call]

lemma unlogged_Release: "unlogged (''Release'' @ k)"
  by (simp add: unlogged_def)

lemma keeps_log_release: "keeps (log_is c) (OrtRelease A k p)"
  by (rule log_account.keeps_release [OF unlogged_call [OF unlogged_Release]])

lemma keeps_log_create: "unlogged n \<Longrightarrow> keeps (log_is c) (create A k T n args)"
  by (rule log_account.keeps_construct(2) [OF unlogged_call [OF unlogged_Release] unlogged_call keeps_ret])

lemma log_kept:
  assumes "\<And>c. keeps (log_is c) m" "m s = (Ok x, s')"
  shows "log_of (events s') = log_of (events s)"
  using settles_Ok [OF assms(1) [unfolded keeps_def] assms(2), of "log_of (events s)" 1]
  by (simp add: log_is_def split: if_splits)

section \<open>Steps of the engine on the log and the vectors\<close>

abbreviation seen :: "'w opus_state \<Rightarrow> entry list" where
  "seen s \<equiv> log_of (events (ort s))"

text \<open>\<open>still m\<close>: when \<open>m\<close> returns, the log and the vectors are as before.\<close>

definition still :: "('w opus_state, 'a) action \<Rightarrow> bool" where
  "still m \<longleftrightarrow> (\<forall>s x t. m s = (Ok x, t) \<longrightarrow> seen t = seen s \<and> vecs t = vecs s)"

lemma stillD: "still m \<Longrightarrow> m s = (Ok x, t) \<Longrightarrow> seen t = seen s \<and> vecs t = vecs s"
  by (auto simp: still_def)

named_theorems still_rules "actions that leave the log and the vectors as they were"

lemma still_basic [still_rules]:
  "still (mret x)" "still (mthrow e)" "still (mguard b e)" "still (msum y)" "still (mget f)" "still (get_vec v)"
  "still (opus_checkCancelled E)" "still (element v k)"
  by (auto simp: still_def mret_def mthrow_def mguard_def msum_def mget_def get_vec_def element_def
      opus_checkCancelled_def mbind_def split: if_splits sum.splits prod.splits outcome.splits)

lemma still_bind [still_rules]: "still m \<Longrightarrow> (\<And>x. still (k x)) \<Longrightarrow> still (mbind m k)"
  unfolding still_def by (auto elim!: mbind_OkE)

lemma still_then [still_rules]: "still m \<Longrightarrow> still k \<Longrightarrow> still (mthen m k)"
  unfolding mthen_def by (rule still_bind)

lemma still_catch_throw [still_rules]: "still m \<Longrightarrow> still (mcatch m (\<lambda>e. mthen (h e) (mthrow e)))"
  unfolding still_def by (auto elim!: mcatch_OkE mthen_OkE)

lemma in_ort_OkE:
  assumes "in_ort m s = (Ok x, t)" obtains u where "m (ort s) = (Ok x, u)" "t = s\<lparr>ort := u\<rparr>"
  using assms by (auto simp: in_ort_def Let_def split: prod.splits)

lemma still_in_ort:
  assumes "\<And>c. keeps (log_is c) m" shows "still (in_ort m)"
  unfolding still_def by (auto elim!: in_ort_OkE simp: log_kept [OF assms])

lemma still_release [still_rules]: "still (in_ort (OrtRelease A k p))"
  by (rule still_in_ort) (rule keeps_log_release)

lemma still_owning [still_rules]: "still body \<Longrightarrow> still (owning A k p body)"
  unfolding owning_def by (intro still_rules)

lemma still_runtime [still_rules]:
  "still (in_ort (RunOptions_new A))" "still (in_ort (AllocatorWithDefaultOptions_new A))"
  "still (in_ort (Value_CreateTensor A T info p n shape))" "still (in_ort (Value_CreateTensor_4 A T al shape))"
  "still (in_ort (Value_GetTensorTypeAndShapeInfo A v))" "still (in_ort (TensorTypeAndShapeInfo_GetElementCount A i))"
  unfolding RunOptions_new_def AllocatorWithDefaultOptions_new_def Value_CreateTensor_def Value_CreateTensor_2_def
    Value_CreateTensor_4_def Value_CreateTensor_5_def Value_GetTensorTypeAndShapeInfo_def
    TensorTypeAndShapeInfo_GetElementCount_def
  by (rule still_in_ort, rule keeps_log_create keeps_log_wrapper; simp add: unlogged_def)+

text \<open>The calls that are logged.\<close>

lemma call_plain_logs:
  "in_ort (call_plain A T n args) s = (Ok r, t) \<Longrightarrow> seen t = seen s @ entry_of (Call T n args, r) \<and> vecs t = vecs s"
  unfolding call_plain_def transact_def in_ort_def Let_def by (auto split: prod.splits)

lemma in_ort_bind: "in_ort (mbind m k) = mbind (in_ort m) (\<lambda>x. in_ort (k x))"
  by (rule ext) (auto simp: in_ort_def mbind_def Let_def split: prod.splits outcome.splits)

lemma in_ort_ret: "in_ort (mret x) = mret x"
  by (rule ext) (simp add: in_ort_def mret_def)

lemma mret_Ok: "(mret x s = (Ok y, t)) = (y = x \<and> t = s)"
  by (auto simp: mret_def)

lemma store_Ok:
  assumes "store A p xs s = (Ok x, t)"
  shows "seen t = seen s @ [Stored p xs]" "vecs t = vecs s"
  using assms
  by (auto simp: store_def mthen_def in_ort_bind in_ort_ret mret_Ok elim!: mbind_OkE dest!: call_plain_logs)

lemma load_Ok:
  assumes "load_floats A p n s = (Ok xs, t)"
  shows "seen t = seen s @ [Seen p xs]" "vecs t = vecs s" "length xs = n"
  using assms
  by (auto simp: load_floats_def in_ort_bind in_ort_ret mret_Ok elim!: mbind_OkE dest!: call_plain_logs)

lemma call_status_Ok:
  "call_status A T n args s = (Ok r, t) \<Longrightarrow> log_of (events t) = log_of (events s) @ entry_of (Call T n args, r)"
  unfolding call_status_def transact_def Let_def by (auto split: prod.splits)

lemma api_call_Ok:
  "api_call A OrtApi n args s = (Ok r, t) \<Longrightarrow> log_of (events t) = log_of (events s) @ entry_of (Call OrtApi n args, r)"
  unfolding api_call_def get_table.simps by (auto elim!: mthen_OkE simp: mret_Ok call_status_Ok)

lemma checked_Ok:
  "checked A OrtApi n args s = (Ok r, t) \<Longrightarrow> log_of (events t) = log_of (events s) @ entry_of (Call OrtApi n args, r)"
  unfolding checked_def
  by (auto elim!: mbind_OkE mthen_OkE dest!: ThrowOnError_returns simp: mret_Ok api_call_Ok)

lemma locate_Ok:
  assumes "in_ort (Value_GetTensorMutableData A v) s = (Ok p, t)"
  shows "seen t = seen s @ [Located v p]" "vecs t = vecs s"
  using assms unfolding Value_GetTensorMutableData_def get_ptr_def
  by (auto elim!: in_ort_OkE mbind_OkE dest!: checked_Ok simp: mret_Ok)

lemma Run_Ok:
  assumes "in_ort (Session_Run A p ro ins vals n outs k) s = (Ok rs, t)"
  shows "seen t = seen s @ [Ran p (map Some ins) vals (map Some outs) rs]" "vecs t = vecs s" "length rs = k"
proof -
  from assms obtain u where run: "Session_Run A p ro ins vals n outs k (ort s) = (Ok rs, u)" and t: "t = s\<lparr>ort := u\<rparr>"
    by (rule in_ort_OkE)
  from run have "log_of (events u) = log_of (events (ort s)) @ [Ran p (map Some ins) vals (map Some outs) rs] \<and> length rs = k"
    unfolding Session_Run_def session_run_def
    by (auto elim!: mbind_OkE mthen_OkE mcatch_OkE dest!: ThrowOnError_returns api_call_Ok simp: mret_Ok)
  with t show "seen t = seen s @ [Ran p (map Some ins) vals (map Some outs) rs]" "vecs t = vecs s" "length rs = k"
    by simp_all
qed

text \<open>Scopes of vectors and moves between them.\<close>

lemma contents_cong: "vecs t = vecs s \<Longrightarrow> contents t = contents s"
  by (rule ext) (simp add: contents_def)

lemma still_release_frame_log:
  assumes "release_frame A v s = (r, t)" shows "r = Ok x \<Longrightarrow> seen t = seen s"
proof -
  assume r: "r = Ok x"
  have "still (in_ort (mmap (OrtRelease A ''Value'') ps))" for ps
    by (rule still_in_ort) (intro keeps_mmap keeps_log_release)
  note release = this
  with assms r show ?thesis
    by (auto simp: release_frame_def pop_frame_def mret_Ok elim!: mbind_OkE mthen_OkE dest!: stillD [OF release])
qed

lemma vec_scope_OkE:
  assumes "vec_scope A v ps body s = (Ok x, t)"
  obtains u where "body (s\<lparr>vecs := (vecs s)(v := ps # vecs s v)\<rparr>) = (Ok x, u)" "seen t = seen u"
    "\<And>w. w \<noteq> v \<Longrightarrow> contents t w = contents u w"
proof -
  from assms obtain u where b: "body (s\<lparr>vecs := (vecs s)(v := ps # vecs s v)\<rparr>) = (Ok x, u)"
    and r: "release_frame A v u = (Ok (), t)"
    unfolding vec_scope_def
    by (auto simp: push_frame_def mmodify_def mret_Ok elim!: mbind_OkE mthen_OkE mcatch_OkE)
  show ?thesis
    by (rule that [OF b still_release_frame_log [OF r refl]])
      (simp add: contents_def release_frame_pops [OF r])
qed

lemma take_over_Ok:
  assumes "take_over d j v k s = (Ok old, u)" "d \<noteq> v"
  shows "seen u = seen s \<and> j < length (contents s d) \<and> k < length (contents s v)
    \<and> contents u d = (contents s d)[j := contents s v ! k] \<and> contents u v = (contents s v)[k := 0]"
  using assms unfolding take_over_def by (auto split: if_splits)

lemma move_value_Ok:
  assumes "move_value A d j v k s = (Ok x, t)" "d \<noteq> v"
  shows "seen t = seen s \<and> j < length (contents s d) \<and> k < length (contents s v)
    \<and> contents t d = (contents s d)[j := contents s v ! k] \<and> contents t v = (contents s v)[k := 0]"
proof -
  from assms(1) obtain old u where u: "take_over d j v k s = (Ok old, u)" and r: "in_ort (OrtRelease A ''Value'' old) u = (Ok x, t)"
    unfolding move_value_def by (rule mbind_OkE)
  from stillD [OF still_release r] have "seen t = seen u" "contents t = contents u"
    by (auto intro: contents_cong)
  with take_over_Ok [OF u assms(2)] show ?thesis by (simp only:)
qed

lemma mmap_ConsE:
  assumes "mmap f (x # xs) s = (Ok zs, t)"
  obtains y u ys where "f x s = (Ok y, u)" "mmap f xs u = (Ok ys, t)" "zs = y # ys"
  using assms unfolding mmap.simps by (elim mbind_OkE) (auto simp: mret_Ok)

text \<open>The loop over the slots a step takes over.\<close>

lemma move_loop_Ok:
  assumes "mmap (\<lambda>i. move_value A Feed (3 + i) Result (1 + i)) is s = (Ok ys, t)" "distinct is"
  shows "seen t = seen s \<and> length (contents t Feed) = length (contents s Feed)
    \<and> (\<forall>j. contents t Feed ! j = (if j \<in> (+) 3 ` set is then contents s Result ! (j - 2) else contents s Feed ! j))"
  using assms
proof (induction "is" arbitrary: s ys)
  case Nil
  then show ?case by (simp add: mret_def)
next
  case (Cons i "is")
  from Cons.prems(1) obtain y zs u where m: "move_value A Feed (3 + i) Result (1 + i) s = (Ok y, u)"
    and rest: "mmap (\<lambda>i. move_value A Feed (3 + i) Result (1 + i)) is u = (Ok zs, t)"
    by (rule mmap_ConsE)
  have M: "seen u = seen s" "contents u Feed = (contents s Feed)[3 + i := contents s Result ! (1 + i)]"
    "contents u Result = (contents s Result)[Suc i := 0]" "3 + i < length (contents s Feed)"
    using move_value_Ok [OF m] by simp_all
  from Cons.IH [OF rest] Cons.prems(2)
  have IH: "seen t = seen u" "length (contents t Feed) = length (contents u Feed)"
    "\<And>j. contents t Feed ! j = (if j \<in> (+) 3 ` set is then contents u Result ! (j - 2) else contents u Feed ! j)"
    by simp_all
  have i: "i \<notin> set is" using Cons.prems(2) by simp
  have keep: "(contents s Result)[Suc i := 0] ! n = contents s Result ! n" if "n \<noteq> Suc i" for n
    using that by simp
  then have "contents u Result ! (j - 2) = contents s Result ! (j - 2)" if "j \<in> (+) 3 ` set is" for j
    using that i by (auto simp: M(3) intro!: keep)
  with IH M i show ?case by (auto simp: nth_list_update)
qed

section \<open>Greedy decoding on logs\<close>

text \<open>
  The feed of the next step: slot \<open>3 + i\<close> receives output \<open>1 + i\<close>, the decoder's caches (\<open>i mod 4 < 2\<close>)
  after every step, the encoder's after the first one only; everything else stays.
\<close>

definition advance :: "nat \<Rightarrow> nat \<Rightarrow> ptr list \<Rightarrow> ptr list \<Rightarrow> ptr list" where
  "advance step n feed rs =
     map (\<lambda>j. if 3 \<le> j \<and> j < 3 + n \<and> (step = 0 \<or> (j - 3) mod 4 < 2) then rs ! (j - 2) else feed ! j)
       [0..<length feed]"

text \<open>
  One step on the log: the decoder runs on the feed, its first output is located, the pad logit there
  is overwritten, the logits are read, and the token is written where the second input reads it.
\<close>

definition token_of :: "('j, 'p) opus \<Rightarrow> float32 list \<Rightarrow> nat" where
  "token_of m xs = pick_token (nat (pad_id m)) xs"

definition step_log :: "('j, 'p) opus_env \<Rightarrow> ('j, 'p) opus \<Rightarrow> ptr list \<Rightarrow> ptr list \<Rightarrow> ptr \<Rightarrow> float32 list \<Rightarrow> entry list" where
  "step_log E m feed rs p xs =
     [Ran (decoder m) (map Some (map c_str (in_names m))) feed (map Some (map c_str (out_names m))) rs,
      Located (rs ! 0) p, Stored (p + 4 * nat (pad_id m)) [uint f32_neg_inf], Seen p xs,
      Stored (at_token E) [int (token_of m xs)]]"

inductive decodes :: "('j, 'p) opus_env \<Rightarrow> ('j, 'p) opus \<Rightarrow> nat \<Rightarrow> ptr list \<Rightarrow> string list \<Rightarrow> entry list \<Rightarrow> string \<Rightarrow> bool"
  for E m where
  ended: "decodes E m step feed translated (step_log E m feed rs p xs) decoded"
    if "step < 256" "length rs = length (out_names m)" "length xs = length (pieces m)"
      "int (token_of m xs) = eos_id m" "sp_decode E (target m) translated = Some decoded"
| continued: "decodes E m step feed translated (step_log E m feed rs p xs @ Stored (at_cached E) [1] # log) decoded"
    if "step < 256" "length rs = length (out_names m)" "length xs = length (pieces m)"
      "int (token_of m xs) \<noteq> eos_id m" "token_of m xs < length (pieces m)"
      "decodes E m (Suc step) (advance step (cache_count m) feed rs) (translated @ [pieces m ! token_of m xs]) log decoded"

section \<open>The decoding loop refines it\<close>

lemma choose_token_Ok:
  assumes "choose_token A E m p s = (Ok token, t)"
  obtains xs where "length xs = length (pieces m)" "token = token_of m xs" "vecs t = vecs s"
    "seen t = seen s @ [Stored (p + 4 * nat (pad_id m)) [uint f32_neg_inf], Seen p xs, Stored (at_token E) [int token]]"
proof -
  from assms obtain s1 s2 xs where s1: "store A (p + 4 * nat (pad_id m)) [uint f32_neg_inf] s = (Ok (), s1)"
    and s2: "load_floats A p (length (pieces m)) s1 = (Ok xs, s2)"
    and t: "store A (at_token E) [int (token_of m xs)] s2 = (Ok (), t)" "token = token_of m xs"
    by (auto simp: choose_token_def token_of_def Let_def mcrash_def mret_Ok elim!: mthen_OkE mbind_OkE split: if_splits)
  show ?thesis
    by (rule that [of xs]) (use t(2) load_Ok [OF s2] store_Ok [OF s1] store_Ok [OF t(1)] in simp_all)
qed

lemma moved_slots_member: "i \<in> set (moved_slots step n) \<longleftrightarrow> i < n \<and> (step = 0 \<or> i mod 4 < 2)"
  by (auto simp: moved_slots_def)

lemma moved_slots_index:
  "j \<in> (+) 3 ` set (moved_slots step n) \<longleftrightarrow> 3 \<le> j \<and> j < 3 + n \<and> (step = 0 \<or> (j - 3) mod 4 < 2)"
proof
  assume "3 \<le> j \<and> j < 3 + n \<and> (step = 0 \<or> (j - 3) mod 4 < 2)"
  then show "j \<in> (+) 3 ` set (moved_slots step n)"
    by (intro image_eqI [where x = "j - 3"]) (auto simp: moved_slots_member)
qed (auto simp: moved_slots_member)

lemma move_loop_advances:
  assumes "mmap (\<lambda>i. move_value A Feed (3 + i) Result (1 + i)) (moved_slots step n) s = (Ok ys, t)"
  shows "seen t = seen s" "contents t Feed = advance step n (contents s Feed) (contents s Result)"
proof -
  have "distinct (moved_slots step n)" by (simp add: moved_slots_def)
  from move_loop_Ok [OF assms this] show "seen t = seen s" "contents t Feed = advance step n (contents s Feed) (contents s Result)"
    by (auto simp: advance_def moved_slots_index intro!: nth_equalityI)
qed

lemma read_logits_Ok:
  assumes "read_logits A m s = (Ok p, t)"
  shows "seen t = seen s @ [Located (contents s Result ! 0) p] \<and> vecs t = vecs s"
proof -
  from assms obtain s1 info s2 count where
    s1: "in_ort (Value_GetTensorMutableData A (contents s Result ! 0)) s = (Ok p, s1)"
    and s2: "in_ort (Value_GetTensorTypeAndShapeInfo A (contents s Result ! 0)) s1 = (Ok info, s2)"
    and s3: "owning A ''TensorTypeAndShapeInfo'' info (in_ort (TensorTypeAndShapeInfo_GetElementCount A info)) s2 = (Ok count, t)"
    unfolding read_logits_def
    by (auto simp: element_def mguard_def mret_Ok elim!: mbind_OkE mthen_OkE split: if_splits)
  show ?thesis
    using locate_Ok [OF s1] stillD [OF still_runtime(5) s2] stillD [OF still_owning [OF still_runtime(6)] s3] by simp
qed

lemma take_token_Ok:
  assumes "take_token A E m step translated token s = (Ok x, t)"
  shows "(\<exists>d. int token = eos_id m \<and> sp_decode E (target m) translated = Some d \<and> x = Inl d \<and> t = s)
    \<or> int token \<noteq> eos_id m \<and> token < length (pieces m) \<and> x = Inr (translated @ [pieces m ! token])
       \<and> seen t = seen s @ [Stored (at_cached E) [1]]
       \<and> contents t Feed = advance step (cache_count m) (contents s Feed) (contents s Result)"
proof (cases "int token = eos_id m")
  case True
  with assms show ?thesis by (auto simp: take_token_def mret_Ok split: option.splits)
next
  case False
  with assms obtain ys u where moves: "mmap (\<lambda>i. move_value A Feed (3 + i) Result (1 + i)) (moved_slots step (cache_count m)) s = (Ok ys, u)"
    and st: "store A (at_cached E) [1] u = (Ok (), t)" and x: "x = Inr (translated @ [pieces m ! token])" "token < length (pieces m)"
    by (auto simp: take_token_def mret_Ok elim!: mthen_OkE split: if_splits)
  from move_loop_advances [OF moves] store_Ok [OF st] contents_cong [OF store_Ok(2) [OF st]] False x
  show ?thesis by simp
qed

lemma decode_step_Ok:
  assumes "decode_step A E m run step translated s = (Ok x, t)"
  obtains rs xs p d where "length rs = length (out_names m)" "length xs = length (pieces m)"
      "int (token_of m xs) = eos_id m" "sp_decode E (target m) translated = Some d" "x = Inl d"
      "seen t = seen s @ step_log E m (contents s Feed) rs p xs"
  | rs xs p where "length rs = length (out_names m)" "length xs = length (pieces m)"
      "int (token_of m xs) \<noteq> eos_id m" "token_of m xs < length (pieces m)"
      "x = Inr (translated @ [pieces m ! token_of m xs])"
      "contents t Feed = advance step (cache_count m) (contents s Feed) rs"
      "seen t = seen s @ step_log E m (contents s Feed) rs p xs @ [Stored (at_cached E) [1]]"
proof -
  from assms obtain s1 rs s2 where c: "opus_checkCancelled E s = (Ok (), s1)"
    and run: "in_ort (Session_Run A (decoder m) run (map c_str (in_names m)) (contents s1 Feed) (length (contents s1 Feed))
         (map c_str (out_names m)) (length (out_names m))) s1 = (Ok rs, s2)"
    and scope: "vec_scope A Result rs (mbind (read_logits A m) (\<lambda>logits.
       mbind (choose_token A E m logits) (take_token A E m step translated))) s2 = (Ok x, t)"
    unfolding decode_step_def by (auto simp: get_vec_def mget_def elim!: mthen_OkE mbind_OkE)
  let ?s3 = "s2\<lparr>vecs := (vecs s2)(Result := rs # vecs s2 Result)\<rparr>"
  from scope obtain s6 where body: "mbind (read_logits A m) (\<lambda>logits.
       mbind (choose_token A E m logits) (take_token A E m step translated)) ?s3 = (Ok x, s6)"
    and t: "seen t = seen s6" "contents t Feed = contents s6 Feed"
    by (rule vec_scope_OkE) auto
  from body obtain p s4 token s5 where p: "read_logits A m ?s3 = (Ok p, s4)"
    and token: "choose_token A E m p s4 = (Ok token, s5)" and take: "take_token A E m step translated token s5 = (Ok x, s6)"
    by (auto elim!: mbind_OkE)
  from token obtain xs where xs: "length xs = length (pieces m)" "token = token_of m xs" "vecs s5 = vecs s4"
    "seen s5 = seen s4 @ [Stored (p + 4 * nat (pad_id m)) [uint f32_neg_inf], Seen p xs, Stored (at_token E) [int token]]"
    by (rule choose_token_Ok)
  have s1: "seen s1 = seen s" "vecs s1 = vecs s" "contents s1 Feed = contents s Feed"
    using stillD [OF still_basic(7) c] by (simp_all add: contents_def)
  note R = Run_Ok [OF run]
  have s3: "contents ?s3 Result = rs" "contents ?s3 Feed = contents s Feed" "seen ?s3 = seen s2"
    using s1(2) R(2) by (simp_all add: contents_def)
  have s5: "contents s5 = contents ?s3"
    using xs(3) read_logits_Ok [OF p] by (intro contents_cong) simp
  have log: "seen s5 = seen s @ step_log E m (contents s Feed) rs p xs"
    using xs read_logits_Ok [OF p] R(1) s1 s3 by (simp add: step_log_def)
  from take_token_Ok [OF take] show ?thesis
    using that(1) [of rs xs _ p] that(2) [of rs xs p] xs(1,2) R(3) log t s5 s3 by auto
qed

lemma decode_loop_refines:
  assumes "decode_loop A E m run [step..<256] translated s = (Ok r, t)"
  shows "\<exists>log. seen t = seen s @ log \<and> decodes E m step (contents s Feed) translated log r"
  using assms
proof (induction "256 - step" arbitrary: step translated s)
  case 0
  then show ?case by simp
next
  case (Suc n)
  then have step: "step < 256" "[step..<256] = step # [Suc step..<256]" by (simp_all add: upt_rec)
  from Suc.prems step(2) obtain x u where x: "decode_step A E m run step translated s = (Ok x, u)"
    and rest: "(case x of Inl decoded \<Rightarrow> mret decoded | Inr so_far \<Rightarrow> decode_loop A E m run [Suc step..<256] so_far) u = (Ok r, t)"
    by (auto elim!: mbind_OkE)
  from x show ?case
  proof (cases rule: decode_step_Ok)
    case (1 rs xs p d)
    with rest step(1) show ?thesis by (auto simp: mret_Ok intro!: decodes.ended)
  next
    case (2 rs xs p)
    have "n = 256 - Suc step" using Suc.hyps(2) by simp
    from Suc.hyps(1) [OF this] rest 2(5) obtain log where
      "seen t = seen u @ log" "decodes E m (Suc step) (contents u Feed) (translated @ [pieces m ! token_of m xs]) log r"
      by auto
    with 2 step(1) show ?thesis
      by (intro exI [of _ "step_log E m (contents s Feed) rs p xs @ Stored (at_cached E) [1] # log"])
        (auto intro!: decodes.continued)
  qed
qed

section \<open>A whole translation\<close>

lemma push_new_Ok:
  assumes "mbind (in_ort k) (push_vec v) s = (Ok x, t)" "still (in_ort k)"
  obtains p where "seen t = seen s" "contents t v = contents s v @ [p]" "\<And>w. w \<noteq> v \<Longrightarrow> contents t w = contents s w"
proof -
  from assms(1) obtain p u where k: "in_ort k s = (Ok p, u)" and t: "t = put_vec v (contents u v @ [p]) u"
    by (auto simp: push_vec_def mmodify_def elim!: mbind_OkE)
  show ?thesis
    by (rule that) (use stillD [OF assms(2) k] in \<open>simp_all add: t contents_cong [of u s]\<close>)
qed

lemma push_caches_Ok:
  assumes "mmap (\<lambda>_. mbind (in_ort (Value_CreateTensor_4 A T al shape)) (push_vec v)) is s = (Ok x, t)"
  shows "\<exists>ps. seen t = seen s \<and> contents t v = contents s v @ ps \<and> length ps = length is \<and> (\<forall>w. w \<noteq> v \<longrightarrow> contents t w = contents s w)"
  using assms
proof (induction "is" arbitrary: s x)
  case Nil
  then show ?case by (simp add: mret_Ok)
next
  case (Cons i "is")
  from Cons.prems obtain y u ys where u: "mbind (in_ort (Value_CreateTensor_4 A T al shape)) (push_vec v) s = (Ok y, u)"
    and rest: "mmap (\<lambda>_. mbind (in_ort (Value_CreateTensor_4 A T al shape)) (push_vec v)) is u = (Ok ys, t)"
    by (rule mmap_ConsE) auto
  from u obtain p where "seen u = seen s" "contents u v = contents s v @ [p]" "\<forall>w. w \<noteq> v \<longrightarrow> contents u w = contents s w"
    by (rule push_new_Ok [OF _ still_runtime(4)]) auto
  moreover from Cons.IH [OF rest] obtain ps where "seen t = seen u" "contents t v = contents u v @ ps"
    "length ps = length is" "\<forall>w. w \<noteq> v \<longrightarrow> contents t w = contents u w" by blast
  ultimately show ?case by (intro exI [of _ "p # ps"]) simp
qed

lemma fill_feed_Ok:
  assumes "fill_feed A E m n s = (Ok x, t)"
  shows "seen t = seen s @ [Stored (at_token E) [start_id m], Stored (at_cached E) [0]]
    \<and> (contents s Feed = [] \<longrightarrow> length (contents t Feed) = 4 + cache_count m \<and> contents t Feed ! 2 = contents s Hidden ! 0)"
proof -
  from assms obtain s1 s2 s3 s4 s5 al s6 s7 y1 y2 y3 where
    1: "store A (at_token E) [start_id m] s = (Ok (), s1)" and 2: "store A (at_cached E) [0] s1 = (Ok (), s2)"
    and 3: "mbind (in_ort (Value_CreateTensor A Cxx_int64 (memory m) (at_mask E) n [1, int n])) (push_vec Feed) s2 = (Ok y1, s3)"
    and 4: "mbind (in_ort (Value_CreateTensor A Cxx_int64 (memory m) (at_token E) 1 [1, 1])) (push_vec Feed) s3 = (Ok y2, s4)"
    and 5: "push_moved Feed Hidden 0 s4 = (Ok (), s5)" and 6: "in_ort (AllocatorWithDefaultOptions_new A) s5 = (Ok al, s6)"
    and 7: "mmap (\<lambda>_. mbind (in_ort (Value_CreateTensor_4 A Cxx_float al [1, heads m, 0, head_dim m])) (push_vec Feed))
       [0..<cache_count m] s6 = (Ok y3, s7)"
    and 8: "mbind (in_ort (Value_CreateTensor A Cxx_bool (memory m) (at_cached E) 1 [1])) (push_vec Feed) s7 = (Ok x, t)"
    unfolding fill_feed_def by (elim mthen_OkE mbind_OkE [of "in_ort (AllocatorWithDefaultOptions_new A)"]) auto
  from 3 obtain p3 where p3: "seen s3 = seen s2" "contents s3 Feed = contents s2 Feed @ [p3]" "contents s3 Hidden = contents s2 Hidden"
    by (rule push_new_Ok [OF _ still_runtime(3)]) auto
  from 4 obtain p4 where p4: "seen s4 = seen s3" "contents s4 Feed = contents s3 Feed @ [p4]" "contents s4 Hidden = contents s3 Hidden"
    by (rule push_new_Ok [OF _ still_runtime(3)]) auto
  from 5 have p5: "seen s5 = seen s4" "contents s5 Feed = contents s4 Feed @ [contents s4 Hidden ! 0]"
    by (auto simp: push_moved_def split: if_splits)
  have p6: "seen s6 = seen s5" "contents s6 Feed = contents s5 Feed"
    using stillD [OF still_runtime(2) 6] by (simp_all add: contents_def)
  from push_caches_Ok [OF 7] obtain ps where p7: "seen s7 = seen s6" "contents s7 Feed = contents s6 Feed @ ps" "length ps = cache_count m"
    by auto
  from 8 obtain p8 where p8: "seen t = seen s7" "contents t Feed = contents s7 Feed @ [p8]"
    by (rule push_new_Ok [OF _ still_runtime(3)]) auto
  have s2: "contents s2 = contents s" "seen s2 = seen s @ [Stored (at_token E) [start_id m], Stored (at_cached E) [0]]"
    using store_Ok [OF 1] store_Ok [OF 2] by (auto intro: contents_cong)
  show ?thesis using p3 p4 p5 p6 p7 p8 s2 by simp
qed

definition encoder_log :: "('j, 'p) opus_env \<Rightarrow> ('j, 'p) opus \<Rightarrow> int list \<Rightarrow> ptr list \<Rightarrow> ptr \<Rightarrow> entry list" where
  "encoder_log E m ids input hidden =
     [Stored (at_ids E) ids, Stored (at_mask E) (replicate (length ids) 1),
      Ran (encoder m) [Some ''input_ids'', Some ''attention_mask''] input [Some ''last_hidden_state''] [hidden],
      Stored (at_token E) [start_id m], Stored (at_cached E) [0]]"

lemma owning_Ok:
  assumes "owning A k p body s = (Ok x, t)"
  obtains u where "body s = (Ok x, u)" "seen t = seen u" "vecs t = vecs u"
proof -
  from assms obtain u v where u: "body s = (Ok x, u)" and v: "in_ort (OrtRelease A k p) u = (Ok v, t)"
    unfolding owning_def by (auto simp: mret_Ok elim!: mbind_OkE mthen_OkE mcatch_OkE)
  show ?thesis by (rule that [OF u]) (use stillD [OF still_release v] in simp_all)
qed

lemma decode_from_Ok:
  assumes "decode_from A E m run n s = (Ok r, t)"
  obtains feed log where "seen t = seen s @ [Stored (at_token E) [start_id m], Stored (at_cached E) [0]] @ log"
    "length feed = 4 + cache_count m" "feed ! 2 = contents s Hidden ! 0" "decodes E m 0 feed [] log r"
proof -
  let ?s = "s\<lparr>vecs := (vecs s)(Feed := [] # vecs s Feed)\<rparr>"
  from assms obtain u x v where fill: "fill_feed A E m n ?s = (Ok x, u)"
    and loop: "decode_loop A E m run [0..<256] [] u = (Ok r, v)" and t: "seen t = seen v"
    unfolding decode_from_def by (elim vec_scope_OkE mthen_OkE)
  have s: "contents ?s Feed = []" "contents ?s Hidden = contents s Hidden" "seen ?s = seen s"
    by (simp_all add: contents_def)
  from decode_loop_refines [OF loop] obtain log where "seen v = seen u @ log" "decodes E m 0 (contents u Feed) [] log r"
    by blast
  then show ?thesis
    using fill_feed_Ok [OF fill] s t by (intro that [of log "contents u Feed"]) simp_all
qed

lemma fill_input_Ok:
  assumes "fill_input A E m n s = (Ok x, t)" "contents s Input = []"
  shows "seen t = seen s \<and> length (contents t Input) = 2"
proof -
  from assms(1) obtain y u where
    1: "mbind (in_ort (Value_CreateTensor A Cxx_int64 (memory m) (at_ids E) n [1, int n])) (push_vec Input) s = (Ok y, u)"
    and 2: "mbind (in_ort (Value_CreateTensor A Cxx_int64 (memory m) (at_mask E) n [1, int n])) (push_vec Input) u = (Ok x, t)"
    unfolding fill_input_def by (rule mthen_OkE)
  from 1 obtain p where "seen u = seen s" "contents u Input = contents s Input @ [p]"
    by (rule push_new_Ok [OF _ still_runtime(3)])
  moreover from 2 obtain q where "seen t = seen u" "contents t Input = contents u Input @ [q]"
    by (rule push_new_Ok [OF _ still_runtime(3)])
  ultimately show ?thesis using assms(2) by simp
qed

lemma run_models_Ok:
  assumes "run_models A E m run n s = (Ok r, t)"
  obtains hidden feed log where "seen t = seen s @ [Ran (encoder m) [Some ''input_ids'', Some ''attention_mask'']
      (contents s Input) [Some ''last_hidden_state''] [hidden], Stored (at_token E) [start_id m], Stored (at_cached E) [0]] @ log"
    "length feed = 4 + cache_count m" "feed ! 2 = hidden" "decodes E m 0 feed [] log r"
proof -
  from assms obtain hs u where run: "in_ort (Session_Run A (encoder m) run [''input_ids'', ''attention_mask'']
      (contents s Input) (length (contents s Input)) [''last_hidden_state''] 1) s = (Ok hs, u)"
    and scope: "vec_scope A Hidden hs (decode_from A E m run n) u = (Ok r, t)"
    unfolding run_models_def get_vec_def by (auto simp: mget_def elim!: mbind_OkE)
  note R = Run_Ok [OF run]
  then obtain h where h: "hs = [h]" by (auto simp: length_Suc_conv)
  let ?u = "u\<lparr>vecs := (vecs u)(Hidden := hs # vecs u Hidden)\<rparr>"
  from scope obtain v where dec: "decode_from A E m run n ?u = (Ok r, v)" and t: "seen t = seen v"
    by (rule vec_scope_OkE)
  have u: "contents ?u Hidden ! 0 = h" "seen ?u = seen u" by (simp_all add: contents_def h)
  from dec show ?thesis
    by (rule decode_from_Ok) (rule that [of h]; use R t u h in simp)
qed

lemma opus_run_Ok:
  assumes "opus_run A E m ids s = (Ok r, t)"
  obtains input hidden feed log where "seen t = seen s @ encoder_log E m ids input hidden @ log" "length input = 2"
    "length feed = 4 + cache_count m" "feed ! 2 = hidden" "decodes E m 0 feed [] log r"
proof -
  from assms obtain s1 s2 x3 s3 run s4 s5 where 1: "store A (at_ids E) ids s = (Ok (), s1)"
    and 2: "store A (at_mask E) (replicate (length ids) 1) s1 = (Ok (), s2)"
    and 3: "fill_input A E m (length ids) (s2\<lparr>vecs := (vecs s2)(Input := [] # vecs s2 Input)\<rparr>) = (Ok x3, s3)"
    and 4: "in_ort (RunOptions_new A) s3 = (Ok run, s4)"
    and 5: "run_models A E m run (length ids) s4 = (Ok r, s5)" and t: "seen t = seen s5"
    unfolding opus_run_def by (elim mthen_OkE vec_scope_OkE mbind_OkE owning_Ok) simp
  have s2: "seen s2 = seen s @ [Stored (at_ids E) ids, Stored (at_mask E) (replicate (length ids) 1)]"
    using store_Ok [OF 1] store_Ok [OF 2] by simp
  have s4: "seen s4 = seen s2" "length (contents s4 Input) = 2"
    using fill_input_Ok [OF 3] stillD [OF still_runtime(1) 4] by (simp_all add: contents_def)
  from 5 show ?thesis
    by (rule run_models_Ok) (rule that; use s2 s4 t in \<open>simp add: encoder_log_def\<close>)
qed

lemma opus_translate_Ok:
  assumes "opus_translate A E m txt s = (Ok r, t)"
  obtains input_pieces ids input hidden feed log where "sp_encode E (source m) txt = Some input_pieces"
    "length input_pieces \<le> 383" "piece_ids E m input_pieces = Inr ids"
    "seen t = seen s @ encoder_log E m (ids @ [eos_id m]) input hidden @ log" "length input = 2"
    "length feed = 4 + cache_count m" "feed ! 2 = hidden" "decodes E m 0 feed [] log r"
proof -
  from assms obtain s1 ps ids where c: "opus_checkCancelled E s = (Ok (), s1)" and ps: "sp_encode E (source m) txt = Some ps"
    "length ps \<le> 383" "piece_ids E m ps = Inr ids" and run: "opus_run A E m (ids @ [eos_id m]) s1 = (Ok r, t)"
    unfolding opus_translate_def
    by (auto simp: mguard_def msum_def mret_Ok elim!: mthen_OkE mbind_OkE split: option.splits if_splits sum.splits)
  from run show ?thesis
    by (rule opus_run_Ok) (rule that [OF ps]; use stillD [OF still_basic(7) c] in simp)
qed

end
