(* ===== verification/Opus_Schedule.thy ===== *)
theory Opus_Schedule imports Opus_Decoding begin

text \<open>
  The schedule of model runs of a translation: which tensors each run of the decoder is fed with, read
  off the relation \<open>decodes\<close>, and how many runs a call makes at most, on every outcome. Then two pure
  parts of the engine: the names of the cache slots and the position of the greatest logit.
\<close>

section \<open>The chain of runs\<close>

fun run_of :: "entry \<Rightarrow> (ptr list \<times> ptr list) list" where
  "run_of (Ran session ins feed outs rs) = [(feed, rs)]"
| "run_of _ = []"

definition runs :: "entry list \<Rightarrow> (ptr list \<times> ptr list) list" where
  "runs log = concat (map run_of log)"

lemma runs_simps [simp]: "runs [] = []" "runs (e # log) = run_of e @ runs log" "runs (l @ log) = runs l @ runs log"
  by (simp_all add: runs_def)

lemma runs_step_log [simp]: "runs (step_log E m feed rs p xs) = [(feed, rs)]"
  by (simp add: step_log_def)

text \<open>Each feed is the one before, advanced by the results before.\<close>

fun chained :: "nat \<Rightarrow> nat \<Rightarrow> ptr list \<Rightarrow> (ptr list \<times> ptr list) list \<Rightarrow> bool" where
  "chained n step feed [] = False"
| "chained n step feed [(f, rs)] = (f = feed)"
| "chained n step feed ((f, rs) # R) = (f = feed \<and> chained n (Suc step) (advance step n feed rs) R)"

lemma decodes_chained:
  assumes "decodes E m step feed translated log r"
  shows "chained (cache_count m) step feed (runs log) \<and> step + length (runs log) \<le> 256
    \<and> (\<forall>x \<in> set (runs log). length (snd x) = length (out_names m))"
  using assms
proof (induction rule: decodes.induct)
  case (ended step rs xs translated decoded feed p)
  then show ?case by simp
next
  case (continued step rs xs feed translated log decoded p)
  then show ?case by (cases "runs log") auto
qed

lemma length_advance [simp]: "length (advance step n feed rs) = length feed"
  by (simp add: advance_def)

lemma advance_nth: "j < length feed \<Longrightarrow> advance step n feed rs ! j =
    (if 3 \<le> j \<and> j < 3 + n \<and> (step = 0 \<or> (j - 3) mod 4 < 2) then rs ! (j - 2) else feed ! j)"
  by (auto simp: advance_def)

lemma chained_length: "chained n step feed R \<Longrightarrow> x \<in> set R \<Longrightarrow> length (fst x) = length feed"
  by (induction n step feed R rule: chained.induct) auto

lemma chained_first: "chained n step feed R \<Longrightarrow> R \<noteq> [] \<and> fst (R ! 0) = feed"
  by (induction n step feed R rule: chained.induct) auto

lemma chained_next:
  "chained n step feed R \<Longrightarrow> Suc k < length R \<Longrightarrow> fst (R ! Suc k) = advance (step + k) n (fst (R ! k)) (snd (R ! k))"
proof (induction n step feed R arbitrary: k rule: chained.induct)
  case (3 n step feed f rs x R)
  then show ?case
    using chained_first [of n "Suc step" "advance step n feed rs" "x # R"] by (cases k) auto
qed simp_all

text \<open>Where each slot of a later feed comes from.\<close>

lemma chained_slots:
  assumes "chained n 0 feed R" "k < length R" "j < length feed"
  shows "fst (R ! k) ! j =
    (if 0 < k \<and> 3 \<le> j \<and> j < 3 + n
     then (if (j - 3) mod 4 < 2 then snd (R ! (k - 1)) else snd (R ! 0)) ! (j - 2) else feed ! j)"
  using assms(2)
proof (induction k)
  case 0
  then show ?case using chained_first [OF assms(1)] by simp
next
  case (Suc k)
  have len: "length (fst (R ! k)) = length feed"
    using Suc.prems by (intro chained_length [OF assms(1)] nth_mem) simp
  then have "fst (R ! Suc k) ! j = (if 3 \<le> j \<and> j < 3 + n \<and> (k = 0 \<or> (j - 3) mod 4 < 2)
      then snd (R ! k) ! (j - 2) else fst (R ! k) ! j)"
    using chained_next [OF assms(1) Suc.prems] assms(3) by (simp add: advance_nth)
  moreover have "fst (R ! k) ! j =
    (if 0 < k \<and> 3 \<le> j \<and> j < 3 + n
     then (if (j - 3) mod 4 < 2 then snd (R ! (k - 1)) else snd (R ! 0)) ! (j - 2) else feed ! j)"
    using Suc by simp
  ultimately show ?case by (cases "k = 0") auto
qed

section \<open>How many runs\<close>

definition ran_is :: "(ptr list \<times> ptr list) list \<Rightarrow> 'w ort account" where
  "ran_is c s p = (if p = 1 \<and> runs (log_of (events s)) = c then 1 else 0)"

lemma no_run: "n \<noteq> ''Run'' \<Longrightarrow> runs (entry_of (Call T n args, r)) = []"
  by (simp add: entry_of.simps)

lemma keeps_ran_call: "n \<noteq> ''Run'' \<Longrightarrow> calls_keep (ran_is c) n"
  unfolding calls_keep_def call_plain_def call_status_def
  by (auto simp: keeps_def settles_def transact_def ran_is_def no_run Let_def split: prod.splits)

interpretation run_account: call_account "ran_is c" for c
  by unfold_locales (auto simp: base_calls_def intro!: keeps_ran_call)

lemmas keeps_ran_wrapper = run_account.keeps_neutral [OF keeps_ran_call] run_account.keeps_plain [OF keeps_ran_call]
  run_account.keeps_call [OF keeps_ran_call]

lemma keeps_ran_release: "keeps (ran_is c) (OrtRelease A k p)"
  by (rule run_account.keeps_release [OF keeps_ran_call]) simp

definition ran :: "(ptr list \<times> ptr list) list \<Rightarrow> 'w opus_state account" where
  "ran c s = ran_is c (ort s)"

lemma keeps_ran_in_ort [keeps_intros]: "keeps (ran_is c) m \<Longrightarrow> keeps (ran c) (in_ort m)"
  unfolding keeps_def
  by (rule settlesI) (auto simp: ran_def in_ort_def Let_def split: prod.splits dest: settles_Ok settles_Throw)

text \<open>Everything but a run of a session leaves the runs alone.\<close>

lemma keeps_ran_vectors [keeps_intros]:
  "keeps (ran c) (push_frame v ps)" "keeps (ran c) (push_vec v p)" "keeps (ran c) (take_over d j w k)"
  "keeps (ran c) (push_moved d v k)" "keeps (ran c) (pop_frame v)" "keeps (ran c) (opus_checkCancelled E)"
  by (auto simp: keeps_def settles_def ran_def push_frame_def push_vec_def take_over_def push_moved_def pop_frame_def
      opus_checkCancelled_def mguard_def mbind_def mret_def mthrow_def mmodify_def Let_def split: prod.splits)

lemma keeps_ran_memory [keeps_intros]: "keeps (ran c) (store A p xs)" "keeps (ran c) (load_floats A p n)"
  unfolding store_def load_floats_def
  by (intro keeps_intros keeps_ran_wrapper; simp)+

lemma keeps_ran_move [keeps_intros]: "keeps (ran c) (move_value A d j v k)"
  unfolding move_value_def by (intro keeps_intros keeps_ran_release)

lemma keeps_ran_frame [keeps_intros]: "keeps (ran c) (release_frame A v)"
  unfolding release_frame_def by (intro keeps_intros keeps_ran_release)

lemma keeps_ran_owning [keeps_intros]: "keeps (ran c) body \<Longrightarrow> keeps (ran c) (owning A kd p body)"
  unfolding owning_def by (intro keeps_intros keeps_ran_release)

lemma keeps_ran_vec_scope [keeps_intros]: "keeps (ran c) body \<Longrightarrow> keeps (ran c) (vec_scope A v ps body)"
  unfolding vec_scope_def by (intro keeps_intros)

lemma keeps_ran_runtime [keeps_intros]:
  "keeps (ran_is c) (RunOptions_new A)" "keeps (ran_is c) (AllocatorWithDefaultOptions_new A)"
  "keeps (ran_is c) (Value_CreateTensor A T info p n shape)" "keeps (ran_is c) (Value_CreateTensor_4 A T al shape)"
  "keeps (ran_is c) (Value_GetTensorMutableData A v)"
  "keeps (ran_is c) (Value_GetTensorTypeAndShapeInfo A v)" "keeps (ran_is c) (TensorTypeAndShapeInfo_GetElementCount A i)"
  unfolding RunOptions_new_def AllocatorWithDefaultOptions_new_def Value_CreateTensor_def Value_CreateTensor_2_def
    Value_CreateTensor_4_def Value_CreateTensor_5_def Value_GetTensorTypeAndShapeInfo_def Value_GetTensorMutableData_def
    TensorTypeAndShapeInfo_GetElementCount_def
  by (rule run_account.keeps_construct(2) [OF keeps_ran_call keeps_ran_call keeps_ret] keeps_ran_wrapper; simp)+

text \<open>\<open>at_most k m\<close>: a call of \<open>m\<close> that is defined adds at most \<open>k\<close> runs.\<close>

definition at_most :: "nat \<Rightarrow> ('w opus_state, 'a) action \<Rightarrow> bool" where
  "at_most k m \<longleftrightarrow> (\<forall>s r t. m s = (r, t) \<longrightarrow> (\<forall>c. r \<noteq> Crash c)
     \<longrightarrow> length (runs (seen t)) \<le> length (runs (seen s)) + k)"

lemma at_most_keeps:
  assumes "\<And>c. keeps (ran c) m" shows "at_most k m"
  unfolding at_most_def
proof (intro allI impI)
  fix s r t
  assume m: "m s = (r, t)" and r: "\<forall>c. r \<noteq> Crash c"
  have "runs (seen t) = runs (seen s)"
    using m r settles_Ok [OF assms [of "runs (seen s)", unfolded keeps_def], of s _ t 1]
      settles_Throw [OF assms [of "runs (seen s)", unfolded keeps_def], of s _ t 1]
    by (cases r) (auto simp: ran_def ran_is_def split: if_splits)
  then show "length (runs (seen t)) \<le> length (runs (seen s)) + k" by simp
qed

lemma at_most_bind:
  assumes m: "at_most j m" and f: "\<And>x. at_most k (f x)" shows "at_most (j + k) (mbind m f)"
  unfolding at_most_def
proof (intro allI impI)
  fix s r t
  assume run: "mbind m f s = (r, t)" and r: "\<forall>c. r \<noteq> Crash c"
  obtain x u where u: "m s = (x, u)" by (cases "m s")
  have x: "\<forall>c. x \<noteq> Crash c" using run r u by (auto simp: mbind_def)
  with m u have 1: "length (runs (seen u)) \<le> length (runs (seen s)) + j" by (auto simp: at_most_def)
  show "length (runs (seen t)) \<le> length (runs (seen s)) + (j + k)"
  proof (cases x)
    case (Ok y)
    with run u have "f y u = (r, t)" by (simp add: mbind_def)
    with f [of y] r have "length (runs (seen t)) \<le> length (runs (seen u)) + k" by (auto simp: at_most_def)
    with 1 show ?thesis by simp
  qed (use run u x 1 in \<open>auto simp: mbind_def\<close>)
qed

lemma at_most_then: "at_most j m \<Longrightarrow> at_most k n \<Longrightarrow> at_most (j + k) (mthen m n)"
  unfolding mthen_def by (rule at_most_bind)

lemma at_most_cleanup:
  assumes m: "at_most k m" and h: "\<And>e c. keeps (ran c) (h e)"
  shows "at_most k (mcatch m h)"
  unfolding at_most_def
proof (intro allI impI)
  fix s r t
  assume run: "mcatch m h s = (r, t)" and r: "\<forall>c. r \<noteq> Crash c"
  obtain x u where u: "m s = (x, u)" by (cases "m s")
  have x: "\<forall>c. x \<noteq> Crash c" using run r u by (auto simp: mcatch_def)
  with m u have 1: "length (runs (seen u)) \<le> length (runs (seen s)) + k" by (auto simp: at_most_def)
  show "length (runs (seen t)) \<le> length (runs (seen s)) + k"
  proof (cases x)
    case (Throw e)
    with run u have "h e u = (r, t)" by (simp add: mcatch_def)
    with at_most_keeps [OF h, of 0 e] r have "length (runs (seen t)) \<le> length (runs (seen u))" by (auto simp: at_most_def)
    with 1 show ?thesis by simp
  qed (use run u 1 in \<open>auto simp: mcatch_def\<close>)
qed

text \<open>Steps before and after that add no run.\<close>

lemma at_most_before: "(\<And>c. keeps (ran c) m) \<Longrightarrow> at_most k n \<Longrightarrow> at_most k (mthen m n)"
  "(\<And>c. keeps (ran c) m) \<Longrightarrow> (\<And>x. at_most k (f x)) \<Longrightarrow> at_most k (mbind m f)"
  using at_most_then [OF at_most_keeps [of m 0], of k n] at_most_bind [OF at_most_keeps [of m 0], of k f] by simp_all

lemma at_most_after: "at_most k m \<Longrightarrow> (\<And>x c. keeps (ran c) (f x)) \<Longrightarrow> at_most k (mbind m f)"
  using at_most_bind [of k m 0 f, OF _ at_most_keeps] by simp

lemma at_most_scopes:
  assumes "at_most k body"
  shows "at_most k (owning A kd p body)" "at_most k (vec_scope A v ps body)"
  unfolding owning_def vec_scope_def
  by (intro at_most_before at_most_after at_most_cleanup keeps_intros keeps_ran_release assms)+

lemma at_most_status: "at_most 1 (in_ort (call_status A T n args))"
proof -
  have "length (runs (entry_of (Call T n args, r))) \<le> 1" for r by (simp add: entry_of.simps)
  then show ?thesis
    by (auto simp: at_most_def in_ort_def call_status_def transact_def Let_def split: prod.splits)
qed

lemma in_ort_cases: "in_ort (case x of (a, b) \<Rightarrow> f a b) = (case x of (a, b) \<Rightarrow> in_ort (f a b))"
  by (cases x) simp

lemma at_most_Run: "at_most 1 (in_ort (Session_Run A p ro ins vals n outs k))"
proof -
  have release: "keeps (ran_is c) (mcatch (ThrowOnError A st) (\<lambda>e. mthen (mmap (OrtRelease A ''Value'') xs) (mthrow e)))" for c st xs
    by (intro keeps_intros keeps_ran_release run_account.keeps_ThrowOnError)
  show ?thesis
    unfolding Session_Run_def session_run_def api_call_def get_table.simps mthen_def [of "mret ()"] in_ort_bind in_ort_cases
    by (intro at_most_after at_most_before(2) at_most_status keeps_case_prod keeps_ran_in_ort keeps_then release keeps_ret)
qed

lemma keeps_ran_step: "keeps (ran c) (read_logits A m)" "keeps (ran c) (choose_token A E m p)"
  "keeps (ran c) (take_token A E m step translated token)"
  unfolding read_logits_def take_token_def choose_token_def Let_def by (intro keeps_intros)+

lemma at_most_step: "at_most 1 (decode_step A E m run step translated)"
  unfolding decode_step_def
  by (rule at_most_before(1), rule keeps_ran_vectors, rule at_most_before(2), rule keeps_get_vec,
      rule at_most_after [OF at_most_Run]) (intro keeps_intros keeps_ran_step)

lemma at_most_loop: "at_most (length steps) (decode_loop A E m run steps translated)"
proof (induction steps arbitrary: translated)
  case Nil
  show ?case unfolding decode_loop.simps by (rule at_most_keeps) (intro keeps_intros)
next
  case (Cons step steps)
  have "at_most (length steps) (case r of Inl decoded \<Rightarrow> mret decoded | Inr so_far \<Rightarrow> decode_loop A E m run steps so_far)" for r
    by (cases r) (auto intro: Cons.IH at_most_keeps keeps_ret)
  from at_most_bind [OF at_most_step this] show ?case by simp
qed

lemma keeps_ran_fill: "keeps (ran c) (fill_feed A E m n)" "keeps (ran c) (fill_input A E m n)"
  unfolding fill_feed_def fill_input_def by (intro keeps_intros)+

lemma at_most_run_models: "at_most 257 (run_models A E m run n)"
proof -
  have "at_most 256 (decode_from A E m run n)"
    unfolding decode_from_def
    using at_most_loop [of "[0..<256]"] by (intro at_most_scopes at_most_before(1) keeps_ran_fill) simp
  then have "at_most (1 + 256) (mbind (in_ort (Session_Run A (encoder m) run [''input_ids'', ''attention_mask'']
      input (length input) [''last_hidden_state''] 1)) (\<lambda>hidden. vec_scope A Hidden hidden (decode_from A E m run n)))" for input
    by (intro at_most_bind at_most_Run at_most_scopes)
  then show ?thesis
    unfolding run_models_def by (intro at_most_before(2) [of "get_vec Input"] keeps_get_vec) simp
qed

lemma at_most_opus_run: "at_most 257 (opus_run A E m ids)"
  unfolding opus_run_def
  by (intro at_most_before(1) at_most_scopes keeps_ran_memory keeps_ran_fill)
    (intro at_most_before(2) at_most_scopes at_most_run_models keeps_intros)

lemma at_most_translate: "at_most 257 (opus_translate A E m txt)"
proof -
  have "at_most 257 (mthen (mguard (383 < length ps) (RuntimeError ''OPUS input too long''))
      (mbind (msum (piece_ids E m ps)) (\<lambda>ids. opus_run A E m (ids @ [eos_id m]))))" for ps
    by (rule at_most_before(1), rule keeps_mguard, rule at_most_before(2), rule keeps_msum, rule at_most_opus_run)
  then show ?thesis
    unfolding opus_translate_def
    by (intro at_most_before(1) keeps_ran_vectors) (auto split: option.split intro: at_most_keeps keeps_throw)
qed

section \<open>Names of the cache slots\<close>

lemma nth_concat_blocks:
  assumes "\<And>k. length (f k) = b" "i < b * n" "0 < b"
  shows "concat (map f [0..<n]) ! i = f (i div b) ! (i mod b)"
  using assms(2)
proof (induction n)
  case 0
  then show ?case by simp
next
  case (Suc n)
  have len: "length (concat (map f [0..<n])) = b * n" by (induction n) (simp_all add: assms(1))
  show ?case
  proof (cases "i < b * n")
    case True
    with Suc.IH len show ?thesis by (simp add: nth_append)
  next
    case False
    then have "i = b * n + (i - b * n)" "i - b * n < b" using Suc.prems by (simp_all add: algebra_simps)
    then have "i div b = n" "i mod b = i - b * n" by (metis div_mult_self4 div_less add_0_right assms(3) less_not_refl3 mult.commute,
        metis mod_mult_self4 mod_less mult.commute)
    with False len show ?thesis by (simp add: nth_append)
  qed
qed

lemma length_layer_suffixes [simp]: "length (layer_suffixes k) = 4"
  by (simp add: layer_suffixes_def)

lemma cache_suffixes_nth:
  assumes "i < 4 * n"
  shows "cache_suffixes (int n) ! i = to_string (int (i div 4))
    @ (if i mod 4 < 2 then ''.decoder'' else ''.encoder'') @ (if even i then ''.key'' else ''.value'')"
proof -
  have "cache_suffixes (int n) ! i = layer_suffixes (i div 4) ! (i mod 4)"
    unfolding cache_suffixes_def nat_int by (rule nth_concat_blocks) (use assms in simp_all)
  moreover have "even i = even (i mod 4)" by presburger
  moreover have "i mod 4 = 0 \<or> i mod 4 = 1 \<or> i mod 4 = 2 \<or> i mod 4 = 3" by presburger
  ultimately show ?thesis by (elim disjE) (simp_all add: layer_suffixes_def)
qed

lemma length_cache_suffixes [simp]: "length (cache_suffixes n) = 4 * nat n"
  unfolding cache_suffixes_def by (induction "nat n") (simp_all add: length_concat comp_def sum_list_triv)

section \<open>The greatest logit\<close>

lemma f32_less_key: "\<not> f32_isnan a \<Longrightarrow> \<not> f32_isnan b \<Longrightarrow> f32_less a b = (f32_key a < f32_key b)"
  by (simp add: f32_less_def)

lemma max_from_greatest:
  assumes "\<And>x. x \<in> set (pre @ xs) \<Longrightarrow> \<not> f32_isnan x" "best < length pre"
    "\<And>j. j < length pre \<Longrightarrow> f32_key (pre ! j) \<le> f32_key (pre ! best)"
    "\<And>j. j < best \<Longrightarrow> f32_key (pre ! j) < f32_key (pre ! best)"
  shows "let t = max_from best (pre ! best) (length pre) xs in t < length (pre @ xs)
    \<and> (\<forall>j < length (pre @ xs). f32_key ((pre @ xs) ! j) \<le> f32_key ((pre @ xs) ! t))
    \<and> (\<forall>j < t. f32_key ((pre @ xs) ! j) < f32_key ((pre @ xs) ! t))"
  using assms
proof (induction xs arbitrary: pre best)
  case Nil
  then show ?case by (simp add: Let_def)
next
  case (Cons x xs)
  have less: "f32_less (pre ! best) x = (f32_key (pre ! best) < f32_key x)"
    using Cons.prems(1) Cons.prems(2) by (intro f32_less_key) auto
  have app: "(pre @ [x]) @ xs = pre @ x # xs" "length (pre @ [x]) = Suc (length pre)" by simp_all
  show ?case
  proof (cases "f32_less (pre ! best) x")
    case True
    have "let t = max_from (length pre) ((pre @ [x]) ! length pre) (length (pre @ [x])) xs in t < length ((pre @ [x]) @ xs)
      \<and> (\<forall>j < length ((pre @ [x]) @ xs). f32_key (((pre @ [x]) @ xs) ! j) \<le> f32_key (((pre @ [x]) @ xs) ! t))
      \<and> (\<forall>j < t. f32_key (((pre @ [x]) @ xs) ! j) < f32_key (((pre @ [x]) @ xs) ! t))"
      using Cons.prems True less by (intro Cons.IH) (force simp: nth_append less_Suc_eq)+
    with True show ?thesis unfolding app by (simp add: nth_append)
  next
    case False
    have "let t = max_from best ((pre @ [x]) ! best) (length (pre @ [x])) xs in t < length ((pre @ [x]) @ xs)
      \<and> (\<forall>j < length ((pre @ [x]) @ xs). f32_key (((pre @ [x]) @ xs) ! j) \<le> f32_key (((pre @ [x]) @ xs) ! t))
      \<and> (\<forall>j < t. f32_key (((pre @ [x]) @ xs) ! j) < f32_key (((pre @ [x]) @ xs) ! t))"
      using Cons.prems False less by (intro Cons.IH) (force simp: nth_append less_Suc_eq)+
    with False Cons.prems(2) show ?thesis unfolding app by (simp add: nth_append)
  qed
qed

lemma max_element_greatest:
  assumes "xs \<noteq> []" "\<And>x. x \<in> set xs \<Longrightarrow> \<not> f32_isnan x"
  shows "max_element xs < length xs" "j < length xs \<Longrightarrow> f32_key (xs ! j) \<le> f32_key (xs ! max_element xs)"
    "j < max_element xs \<Longrightarrow> f32_key (xs ! j) < f32_key (xs ! max_element xs)"
proof -
  obtain x ys where xs: "xs = x # ys" using assms(1) by (cases xs) auto
  have "let t = max_from 0 ([x] ! 0) (length [x]) ys in t < length ([x] @ ys)
    \<and> (\<forall>j < length ([x] @ ys). f32_key (([x] @ ys) ! j) \<le> f32_key (([x] @ ys) ! t))
    \<and> (\<forall>j < t. f32_key (([x] @ ys) ! j) < f32_key (([x] @ ys) ! t))"
    using assms(2) xs by (intro max_from_greatest) auto
  then show "max_element xs < length xs" "j < length xs \<Longrightarrow> f32_key (xs ! j) \<le> f32_key (xs ! max_element xs)"
    "j < max_element xs \<Longrightarrow> f32_key (xs ! j) < f32_key (xs ! max_element xs)"
    by (auto simp: max_element_def xs Let_def)
qed

end
