(* ===== verification/Tiny_Opus.thy ===== *)
theory Tiny_Opus imports Opus_Decoding begin

text \<open>
  A small runtime and model for the OPUS engine, on which its properties are instantiated: one layer,
  a vocabulary of three pieces, pointers handed out by a counter, and logits that choose the piece
  \<open>hi\<close> first and the end token then.
\<close>

definition no_reply :: reply where
  "no_reply = \<lparr>r_status = 0, r_ptr = (\<lambda>_. 0), r_num = (\<lambda>_. 0), r_str = (\<lambda>_. None), r_bytes = (\<lambda>_. []),
     r_ptrs = (\<lambda>_. []), r_nums = (\<lambda>_. []), r_strs = (\<lambda>_. [])\<rparr>"

text \<open>The state: the next free address and the number of reads of logits.\<close>

fun tiny_reply :: "string \<Rightarrow> nat \<times> nat \<Rightarrow> reply \<times> nat \<times> nat" where
  "tiny_reply n (next_free, reads) =
     (if n = ''Run'' then (no_reply\<lparr>r_ptrs := (\<lambda>_. [next_free, next_free + 1, next_free + 2, next_free + 3, next_free + 4])\<rparr>, next_free + 5, reads)
      else if n = ''GetTensorShapeElementCount'' then (no_reply\<lparr>r_num := (\<lambda>_. 3)\<rparr>, next_free, reads)
      else if n = ''<load>'' then
        (no_reply\<lparr>r_nums := (\<lambda>_. if reads = 0 then [0, 1065353216, 0] else [1073741824, 0, 1065353216])\<rparr>, next_free, reads + 1)
      else (no_reply\<lparr>r_ptr := (\<lambda>_. next_free)\<rparr>, next_free + 1, reads))"

fun tiny_ort :: "(nat \<times> nat) api" where
  "tiny_ort (Call T n args) w = tiny_reply n w"

definition tiny_env :: "(unit, unit) opus_env" where
  "tiny_env = \<lparr>read_file = (\<lambda>_. None), json_parse = (\<lambda>_. Inr ()), json_at = (\<lambda>_ _. Inr ()), json_int = (\<lambda>_. Inr 1),
     json_size = (\<lambda>_. Inr 1), json_items = (\<lambda>_. []), json_value = (\<lambda>_ _ d. Inr d), sp_load = (\<lambda>_. Some ()),
     sp_encode = (\<lambda>_ txt. Some [txt]), sp_decode = (\<lambda>_ ps. Some (concat ps)), flag_others = (\<lambda>_. []),
     at_ids = 1, at_mask = 2, at_token = 3, at_cached = 4\<rparr>"

definition tiny_opus :: "(unit, unit) opus" where
  "tiny_opus = \<lparr>encoder = 5, decoder = 6, memory = 7, source = (), target = (), vocab = (),
     pieces = ['''', ''hi'', ''''], in_names = input_names_of 1, out_names = output_names_of 1,
     layers = 1, heads = 1, head_dim = 1, start_id = 0, eos_id = 2, pad_id = 0, unk_id = 1\<rparr>"

definition tiny_state :: "(nat \<times> nat) opus_state" where
  "tiny_state = \<lparr>ort = \<lparr>ort_world = (100, 0), events = []\<rparr>, oflag = \<lparr>cancelled = False, loads = 0\<rparr>, env_handle = None,
     m_encoder = 5, m_decoder = 6, vecs = (\<lambda>_. [])\<rparr>"

text \<open>Evaluation goes action by action: continuations are not looked at before they are reached.\<close>

lemma lazy_mbind: "m = m' \<Longrightarrow> mbind m k = mbind m' k"
  by simp

lemma lazy_mthen: "m = m' \<Longrightarrow> mthen m k = mthen m' k"
  by simp

lemma lazy_mcatch: "m = m' \<Longrightarrow> mcatch m h = mcatch m' h"
  by simp

lemma eval_monad:
  "mbind m k s = (case m s of (r, t) \<Rightarrow> (case r of Ok x \<Rightarrow> k x t | Throw e \<Rightarrow> (Throw e, t) | Crash c \<Rightarrow> (Crash c, t)))"
  "mthen m n s = (case m s of (r, t) \<Rightarrow> (case r of Ok x \<Rightarrow> n t | Throw e \<Rightarrow> (Throw e, t) | Crash c \<Rightarrow> (Crash c, t)))"
  "mcatch m h s = (case m s of (r, t) \<Rightarrow> (case r of Throw e \<Rightarrow> h e t | _ \<Rightarrow> (r, t)))"
  by (auto simp: mbind_def mthen_def mcatch_def split: prod.splits outcome.splits)

text \<open>
  The small runtime never fails, so every shape of wrapper is one call. Its replies by name; the events
  themselves do not matter for the evaluation.
\<close>

lemma tiny_replies:
  "tiny_reply ''Run'' (f, k) = (no_reply\<lparr>r_ptrs := (\<lambda>_. [f, f + 1, f + 2, f + 3, f + 4])\<rparr>, f + 5, k)"
  "tiny_reply ''GetTensorShapeElementCount'' (f, k) = (no_reply\<lparr>r_num := (\<lambda>_. 3)\<rparr>, f, k)"
  "tiny_reply ''<load>'' (f, k) = (no_reply\<lparr>r_nums := (\<lambda>_. if k = 0 then [0, 1065353216, 0] else [1073741824, 0, 1065353216])\<rparr>, f, k + 1)"
  "n \<in> {''<store>'', ''CreateTensorWithDataAsOrtValue'', ''CreateRunOptions'', ''GetAllocatorWithDefaultOptions'',
     ''CreateTensorAsOrtValue'', ''GetTensorMutableData'', ''GetTensorTypeAndShape'', ''ReleaseValue'',
     ''ReleaseRunOptions'', ''ReleaseTensorTypeAndShapeInfo''}
    \<Longrightarrow> tiny_reply n (f, k) = (no_reply\<lparr>r_ptr := (\<lambda>_. f)\<rparr>, f + 1, k)"
  by auto

definition hit :: "table \<Rightarrow> string \<Rightarrow> arg list \<Rightarrow> nat \<times> nat \<Rightarrow> event list \<Rightarrow> event list" where
  "hit T n args w es = es @ [(Call T n args, fst (tiny_reply n w))]"

lemma tiny_status [simp]: "r_status (fst (tiny_reply n w)) = 0"
  by (cases w) (simp add: no_reply_def)

declare tiny_reply.simps [simp del]

lemma tiny_plain_replies [simp]:
  "tiny_reply ''<store>'' (f, k) = (no_reply\<lparr>r_ptr := (\<lambda>_. f)\<rparr>, f + 1, k)"
  "tiny_reply ''CreateTensorWithDataAsOrtValue'' (f, k) = (no_reply\<lparr>r_ptr := (\<lambda>_. f)\<rparr>, f + 1, k)"
  "tiny_reply ''CreateRunOptions'' (f, k) = (no_reply\<lparr>r_ptr := (\<lambda>_. f)\<rparr>, f + 1, k)"
  "tiny_reply ''GetAllocatorWithDefaultOptions'' (f, k) = (no_reply\<lparr>r_ptr := (\<lambda>_. f)\<rparr>, f + 1, k)"
  "tiny_reply ''CreateTensorAsOrtValue'' (f, k) = (no_reply\<lparr>r_ptr := (\<lambda>_. f)\<rparr>, f + 1, k)"
  "tiny_reply ''GetTensorMutableData'' (f, k) = (no_reply\<lparr>r_ptr := (\<lambda>_. f)\<rparr>, f + 1, k)"
  "tiny_reply ''GetTensorTypeAndShape'' (f, k) = (no_reply\<lparr>r_ptr := (\<lambda>_. f)\<rparr>, f + 1, k)"
  "tiny_reply ''ReleaseValue'' (f, k) = (no_reply\<lparr>r_ptr := (\<lambda>_. f)\<rparr>, f + 1, k)"
  "tiny_reply ''ReleaseRunOptions'' (f, k) = (no_reply\<lparr>r_ptr := (\<lambda>_. f)\<rparr>, f + 1, k)"
  "tiny_reply ''ReleaseTensorTypeAndShapeInfo'' (f, k) = (no_reply\<lparr>r_ptr := (\<lambda>_. f)\<rparr>, f + 1, k)"
  by (rule tiny_replies(4); simp)+

declare tiny_replies(1-3) [simp]

lemma tiny_call:
  "call_status tiny_ort T n args \<lparr>ort_world = w, events = es\<rparr>
     = (Ok (fst (tiny_reply n w)), \<lparr>ort_world = snd (tiny_reply n w), events = hit T n args w es\<rparr>)"
  "call_plain tiny_ort T n args \<lparr>ort_world = w, events = es\<rparr>
     = (Ok (fst (tiny_reply n w)), \<lparr>ort_world = snd (tiny_reply n w), events = hit T n args w es\<rparr>)"
proof -
  have [simp]: "(fst (tiny_reply n w))\<lparr>r_status := 0\<rparr> = fst (tiny_reply n w)" for w
    by (cases w) (simp add: no_reply_def tiny_reply.simps)
  show "call_status tiny_ort T n args \<lparr>ort_world = w, events = es\<rparr>
     = (Ok (fst (tiny_reply n w)), \<lparr>ort_world = snd (tiny_reply n w), events = hit T n args w es\<rparr>)"
    "call_plain tiny_ort T n args \<lparr>ort_world = w, events = es\<rparr>
     = (Ok (fst (tiny_reply n w)), \<lparr>ort_world = snd (tiny_reply n w), events = hit T n args w es\<rparr>)"
    by (simp_all add: call_status_def call_plain_def transact_def hit_def Let_def case_prod_beta)
qed

lemma tiny_checked: "checked tiny_ort OrtApi n args \<lparr>ort_world = w, events = es\<rparr>
    = (Ok (fst (tiny_reply n w)), \<lparr>ort_world = snd (tiny_reply n w), events = hit OrtApi n args w es\<rparr>)"
  by (simp add: checked_def api_call_def eval_monad tiny_call mret_def ThrowOnError_def)

lemma tiny_get_ptr: "get_ptr tiny_ort OrtApi n args \<lparr>ort_world = w, events = es\<rparr>
    = (Ok (r_ptr (fst (tiny_reply n w)) 0), \<lparr>ort_world = snd (tiny_reply n w), events = hit OrtApi n args w es\<rparr>)"
  by (simp add: get_ptr_def eval_monad tiny_checked mret_def)

lemma tiny_release: "release_table k = OrtApi \<Longrightarrow> OrtRelease tiny_ort k p \<lparr>ort_world = w, events = es\<rparr>
    = (Ok (), \<lparr>ort_world = snd (tiny_reply (''Release'' @ k) w), events = hit OrtApi (''Release'' @ k) [Ptr p] w es\<rparr>)"
  by (simp add: OrtRelease_def plain_def eval_monad tiny_call mret_def)

lemma tiny_create: "create tiny_ort k OrtApi n args \<lparr>ort_world = w, events = es\<rparr>
    = (Ok (r_ptr (fst (tiny_reply n w)) 0), \<lparr>ort_world = snd (tiny_reply n w), events = hit OrtApi n args w es\<rparr>)"
  by (simp add: create_def construct_with_def guarded_def eval_monad tiny_get_ptr mret_def)

lemma tiny_tables: "release_table ''Value'' = OrtApi" "release_table ''RunOptions'' = OrtApi"
  "release_table ''TensorTypeAndShapeInfo'' = OrtApi"
  by code_simp+

lemma tiny_run: "Session_Run tiny_ort p ro ins vals n outs k \<lparr>ort_world = w, events = es\<rparr> =
    (Ok (filled k 0 (r_ptrs (fst (tiny_reply ''Run'' w)) 0)), \<lparr>ort_world = snd (tiny_reply ''Run'' w),
     events = hit OrtApi ''Run'' [Ptr p, Ptr ro, CStrs ins, Ptrs vals, Num (int n), CStrs outs, Num (int k), Ptrs (replicate k 0)] w es\<rparr>)"
  by (simp add: Session_Run_def session_run_def api_call_def eval_monad tiny_call mret_def ThrowOnError_def)

lemmas tiny_defs = tiny_call tiny_get_ptr tiny_release tiny_create tiny_tables tiny_run
  RunOptions_new_def AllocatorWithDefaultOptions_new_def Value_CreateTensor_def Value_CreateTensor_2_def
  Value_CreateTensor_4_def Value_CreateTensor_5_def Value_GetTensorMutableData_def
  Value_GetTensorTypeAndShapeInfo_def
  TensorTypeAndShapeInfo_GetElementCount_def get_size_def tiny_checked

lemma tiny_steps: "[0..<256] = 0 # 1 # [2..<256]"
  by (simp add: upt_conv_Cons del: upt_rec_numeral)

lemma tiny_slots: "[0..<4] = [0, 1, 2, 3]" "moved_slots 0 4 = [0, 1, 2, 3]" "moved_slots (Suc 0) 4 = [0, 1]"
  by (simp_all add: moved_slots_def upt_rec)

lemma tiny_names: "length (output_names_of 1) = 5"
  by (simp add: output_names_of_def cache_suffixes_def layer_suffixes_def upt_rec)

lemma tiny_pick: "pick_token 0 [0, 1065353216, 0] = 1" "pick_token 0 [1073741824, 0, 1065353216] = 2"
  by (simp_all add: pick_token_def max_element_def f32_less_def f32_isnan_def f32_key_def f32_abs_def f32_sign_def f32_neg_inf_def)

lemmas tiny_engine = eval_monad opus_translate_def opus_checkCancelled_def load_flag_def mguard_def msum_def mret_def
  opus_run_def store_def in_ort_def vec_scope_def push_frame_def mmodify_def fill_input_def push_vec_def
  put_vec_def contents_def owning_def run_models_def get_vec_def mget_def decode_from_def fill_feed_def push_moved_def
  decode_step_def read_logits_def element_def choose_token_def load_floats_def take_token_def move_value_def
  take_over_def release_frame_def pop_frame_def cache_count_def

lemma tiny_translation: "fst (opus_translate tiny_ort tiny_env tiny_opus ''hey'' tiny_state) = Ok ''hi''"
  by (simp add: tiny_engine tiny_defs tiny_state_def tiny_env_def tiny_opus_def Let_def tiny_steps
      tiny_slots tiny_names tiny_pick filled_def
   del: upt_rec_numeral cong: lazy_mbind lazy_mthen lazy_mcatch)

end
