(* ===== verification/Opus_Properties.thy ===== *)
theory Opus_Properties imports Opus_Schedule Tiny_Opus begin

text \<open>
  The properties of the OPUS engine: what a translation asks of the two models and returns, how many
  runs it makes, and what becomes of every resource it or the constructor obtains. The runtime is any
  API; where a hypothesis restricts an outcome, a translation of the small runtime meets it.
\<close>

section \<open>Translation\<close>

text \<open>C19. Whatever \<open>translate\<close> returns is greedy decoding: the input was encoded into at most 383 pieces,
  the encoder ran once on their ids and the end token, and the log of the decoder is that of \<open>decodes\<close>
  from the start token and the encoder's output: per step one run on the fed tensors by name, the pad
  logit overwritten, the greatest logit chosen and fed back, until the end token; the text is the
  decoding of the chosen pieces.\<close>

theorem translation_refines_greedy_decoding:
  assumes "opus_translate A E m txt s = (Ok r, t)"
  shows "\<exists>input_pieces ids input hidden feed log. sp_encode E (source m) txt = Some input_pieces
    \<and> length input_pieces \<le> 383 \<and> piece_ids E m input_pieces = Inr ids
    \<and> seen t = seen s @ encoder_log E m (ids @ [eos_id m]) input hidden @ log
    \<and> length input = 2 \<and> length feed = 4 + cache_count m \<and> feed ! 2 = hidden
    \<and> decodes E m 0 feed [] log r"
  using assms by (rule opus_translate_Ok) blast

theorem translation_refines_greedy_decoding_witness:
  "\<exists>t input hidden feed log. opus_translate tiny_ort tiny_env tiny_opus ''hey'' tiny_state = (Ok ''hi'', t)
     \<and> seen t = encoder_log tiny_env tiny_opus [1, 2] input hidden @ log \<and> decodes tiny_env tiny_opus 0 feed [] log ''hi''"
proof -
  obtain t where t: "opus_translate tiny_ort tiny_env tiny_opus ''hey'' tiny_state = (Ok ''hi'', t)"
    using tiny_translation by (cases "opus_translate tiny_ort tiny_env tiny_opus ''hey'' tiny_state") auto
  have "sp_encode tiny_env (source tiny_opus) ''hey'' = Some [''hey'']" "piece_ids tiny_env tiny_opus [''hey''] = Inr [1]"
    "eos_id tiny_opus = 2" "seen tiny_state = []"
    by (simp_all add: tiny_env_def tiny_opus_def tiny_state_def)
  with t translation_refines_greedy_decoding [OF t] show ?thesis by auto
qed

text \<open>C20. The key/value cache: of the runs of a translation the first is the encoder's; there are at most
  256 runs of the decoder, each is fed with as many tensors as it has inputs and with the encoder's
  output, and from the second on slot \<open>3 + i\<close> holds output \<open>1 + i\<close> of the step before for the decoder's
  own caches (\<open>i mod 4 < 2\<close>), and of the first step for the caches of the cross attention.\<close>

theorem key_value_plumbing:
  assumes "opus_translate A E m txt s = (Ok r, t)"
  shows "\<exists>enc dec. runs (seen t) = runs (seen s) @ enc # dec \<and> 0 < length dec \<and> length dec \<le> 256
    \<and> (\<forall>k < length dec. length (fst (dec ! k)) = 4 + cache_count m \<and> fst (dec ! k) ! 2 = snd enc ! 0)
    \<and> (\<forall>k < length dec. \<forall>i < cache_count m. 0 < k \<longrightarrow>
         fst (dec ! k) ! (3 + i) = (if i mod 4 < 2 then snd (dec ! (k - 1)) else snd (dec ! 0)) ! (1 + i))"
  using assms
proof (rule opus_translate_Ok)
  fix input_pieces ids input hidden feed log
  assume log: "seen t = seen s @ encoder_log E m (ids @ [eos_id m]) input hidden @ log"
    and feed: "length feed = 4 + cache_count m" "feed ! 2 = hidden" and dec: "decodes E m 0 feed [] log r"
  let ?R = "runs log"
  note D = decodes_chained [OF dec]
  then have R: "chained (cache_count m) 0 feed ?R" "length ?R \<le> 256" by simp_all
  have slots: "fst (?R ! k) ! j = (if 0 < k \<and> 3 \<le> j \<and> j < 3 + cache_count m
       then (if (j - 3) mod 4 < 2 then snd (?R ! (k - 1)) else snd (?R ! 0)) ! (j - 2) else feed ! j)"
    if "k < length ?R" "j < 4 + cache_count m" for k j
    using chained_slots [OF R(1) that(1)] that(2) feed(1) by simp
  have len: "length (fst (?R ! k)) = 4 + cache_count m" if "k < length ?R" for k
    using chained_length [OF R(1) nth_mem [OF that]] feed(1) by simp
  show ?thesis
    by (rule exI [of _ "(input, [hidden])"], rule exI [of _ ?R])
      (use log R(2) chained_first [OF R(1)] slots len feed in \<open>auto simp: encoder_log_def\<close>)
qed

theorem key_value_plumbing_witness:
  "\<exists>t enc dec. opus_translate tiny_ort tiny_env tiny_opus ''hey'' tiny_state = (Ok ''hi'', t)
     \<and> runs (seen t) = enc # dec \<and> 0 < length dec"
proof -
  obtain t where t: "opus_translate tiny_ort tiny_env tiny_opus ''hey'' tiny_state = (Ok ''hi'', t)"
    using tiny_translation by (cases "opus_translate tiny_ort tiny_env tiny_opus ''hey'' tiny_state") auto
  moreover have "runs (seen tiny_state) = []" by (simp add: tiny_state_def)
  ultimately show ?thesis using key_value_plumbing [OF t] by auto
qed

text \<open>The slots match by name: input \<open>3 + i\<close> and output \<open>1 + i\<close> that the constructor names and checks
  carry the same suffix, and the decoder's own caches are those with \<open>i mod 4 < 2\<close>; the cache flag is
  the last input.\<close>

theorem cache_names_match:
  assumes "i < 4 * n"
  shows "\<exists>suffix. input_names_of (int n) ! (3 + i) = ''past_key_values.'' @ suffix
    \<and> output_names_of (int n) ! (1 + i) = ''present.'' @ suffix
    \<and> suffix = to_string (int (i div 4)) @ (if i mod 4 < 2 then ''.decoder'' else ''.encoder'')
        @ (if even i then ''.key'' else ''.value'')
    \<and> length (input_names_of (int n)) = 4 + 4 * n \<and> last (input_names_of (int n)) = ''use_cache_branch''"
proof -
  have i: "i < length (cache_suffixes (int n))" using assms by simp
  show ?thesis
    by (rule exI [of _ "cache_suffixes (int n) ! i"])
      (use i cache_suffixes_nth [OF assms] in \<open>simp add: input_names_of_def output_names_of_def nth_append nth_Cons numeral_3_eq_3\<close>)
qed

theorem cache_names_match_witness:
  "input_names_of 2 ! (3 + 6) = ''past_key_values.1.encoder.key'' \<and> output_names_of 2 ! (1 + 6) = ''present.1.encoder.key''"
proof -
  have "to_string 1 = ''1''" by code_simp
  then show ?thesis using cache_names_match [of 6 2] by simp
qed

text \<open>C24. A translation makes at most 257 runs, whatever its outcome, as long as it is defined.\<close>

theorem translation_runs_bounded:
  assumes "opus_translate A E m txt s = (r, t)" and "\<And>c. r \<noteq> Crash c"
  shows "length (runs (seen t)) \<le> length (runs (seen s)) + 257"
  using at_most_translate [unfolded at_most_def, rule_format, OF assms(1)] assms(2) by blast

theorem translation_runs_bounded_witness:
  "\<exists>t. opus_translate tiny_ort tiny_env tiny_opus ''hey'' tiny_state = (Ok ''hi'', t) \<and> length (runs (seen t)) \<le> 257"
proof -
  obtain t where t: "opus_translate tiny_ort tiny_env tiny_opus ''hey'' tiny_state = (Ok ''hi'', t)"
    using tiny_translation by (cases "opus_translate tiny_ort tiny_env tiny_opus ''hey'' tiny_state") auto
  moreover have "runs (seen tiny_state) = []" by (simp add: tiny_state_def)
  ultimately show ?thesis using translation_runs_bounded [OF t] by simp
qed

text \<open>C23. The choice of a token: without NaNs it is the first position of the greatest logit once the pad
  logit counts as minus infinity; the pad token is not chosen while another logit is above that.\<close>

theorem picked_token_is_greatest:
  assumes "pad < length xs" and "\<And>x. x \<in> set xs \<Longrightarrow> \<not> f32_isnan x"
  shows "let ys = xs[pad := f32_neg_inf]; t = pick_token pad xs in t < length xs
    \<and> (\<forall>i < length xs. \<not> f32_less (ys ! t) (ys ! i)) \<and> (\<forall>i < t. f32_less (ys ! i) (ys ! t))
    \<and> ((\<exists>i < length xs. i \<noteq> pad \<and> f32_less f32_neg_inf (xs ! i)) \<longrightarrow> t \<noteq> pad)"
proof -
  let ?ys = "xs[pad := f32_neg_inf]" and ?t = "max_element (xs[pad := f32_neg_inf])"
  have nan: "\<not> f32_isnan y" if "y \<in> set ?ys" for y
    using that assms(2) set_update_subset_insert [of xs pad f32_neg_inf]
    by (auto simp: f32_isnan_def f32_abs_def f32_neg_inf_def)
  have "?ys \<noteq> []" using assms(1) by auto
  note greatest = max_element_greatest [OF this nan]
  have less: "f32_less (?ys ! i) (?ys ! j) = (f32_key (?ys ! i) < f32_key (?ys ! j))" if "i < length xs" "j < length xs" for i j
    using that by (intro f32_less_key nan nth_mem) simp_all
  have t: "?t < length xs" using greatest(1) by simp
  have "\<not> f32_less (?ys ! ?t) (?ys ! i)" if "i < length xs" for i
    using greatest(2) [of i] that t by (simp add: less)
  moreover have "f32_less (?ys ! i) (?ys ! ?t)" if "i < ?t" for i
    using greatest(3) [of i] that t by (simp add: less)
  moreover have "?t \<noteq> pad" if "i < length xs" "i \<noteq> pad" "f32_less f32_neg_inf (xs ! i)" for i
    using calculation(1) [OF that(1)] that assms(1) by auto
  ultimately show ?thesis
    using t unfolding pick_token_def Let_def by blast
qed

theorem picked_token_is_greatest_witness:
  "pick_token 0 [1073741824, 0, 1065353216] < 3 \<and> pick_token 0 [1073741824, 0, 1065353216] \<noteq> 0"
proof -
  let ?xs = "[1073741824, 0, 1065353216] :: float32 list"
  have len: "0 < length ?xs" by simp
  have nan: "\<not> f32_isnan x" if "x \<in> set ?xs" for x
    using that by (auto simp: f32_isnan_def f32_abs_def)
  note greatest = picked_token_is_greatest [OF len nan]
  have "\<exists>i < length ?xs. i \<noteq> 0 \<and> f32_less f32_neg_inf (?xs ! i)"
    by (rule exI [of _ 2]) (simp add: f32_less_def f32_isnan_def f32_key_def f32_abs_def f32_sign_def f32_neg_inf_def)
  with greatest show ?thesis unfolding Let_def by simp
qed

section \<open>Resources\<close>

text \<open>C21. A translation gives back everything it obtains: when it returns or throws, the balance of every
  resource - values, run options, tensor infos, statuses, buffers and the rest - is what it was, for
  every pointer, whatever the runtime answered on the way; and no vector of the call is left.\<close>

theorem translation_releases_everything:
  assumes "opus_translate A E m txt s = (r, t)" and "\<And>c. r \<noteq> Crash c" and "\<And>v. vecs s v = []"
  shows "account R (ort t) p = account R (ort s) p \<and> vecs t v = []"
  using translate_balance [OF assms] translate_frames [OF assms] by simp

theorem translation_releases_everything_witness:
  "\<exists>t. opus_translate tiny_ort tiny_env tiny_opus ''hey'' tiny_state = (Ok ''hi'', t)
     \<and> account (Handle KValue) (ort t) 105 = 0 \<and> vecs t Feed = []"
proof -
  obtain t where t: "opus_translate tiny_ort tiny_env tiny_opus ''hey'' tiny_state = (Ok ''hi'', t)"
    using tiny_translation by (cases "opus_translate tiny_ort tiny_env tiny_opus ''hey'' tiny_state") auto
  have "account (Handle KValue) (ort tiny_state) 105 = 0" "vecs tiny_state v = []" for v
    by (simp_all add: tiny_state_def ledger_def balance_def)
  with t translation_releases_everything [OF t, where p = 105 and R = "Handle KValue" and v = Feed] show ?thesis by simp
qed

section \<open>Cancellation\<close>

text \<open>A cancelled translation stops before the next run: if the flag reads true, \<open>translate\<close> and every
  step of the decoder throw at once, without any call of the runtime.\<close>

theorem cancelled_opus_stops:
  assumes "fst (load_flag (flag_others E) (oflag s))"
  shows "opus_translate A E m txt s = (Throw (RuntimeError ''Translation cancelled''), s\<lparr>oflag := snd (load_flag (flag_others E) (oflag s))\<rparr>)
    \<and> decode_step A E m run step translated s
        = (Throw (RuntimeError ''Translation cancelled''), s\<lparr>oflag := snd (load_flag (flag_others E) (oflag s))\<rparr>)"
proof -
  have "opus_checkCancelled E s = (Throw (RuntimeError ''Translation cancelled''), s\<lparr>oflag := snd (load_flag (flag_others E) (oflag s))\<rparr>)"
    using assms by (simp add: opus_checkCancelled_def mbind_def mguard_def mthrow_def case_prod_beta Let_def)
  then show ?thesis by (simp add: opus_translate_def decode_step_def mthen_def mbind_def)
qed

theorem cancelled_opus_stops_witness:
  "opus_translate tiny_ort tiny_env tiny_opus ''hey'' (tiny_state\<lparr>oflag := \<lparr>cancelled = True, loads = 0\<rparr>\<rparr>)
     = (Throw (RuntimeError ''Translation cancelled''), tiny_state\<lparr>oflag := \<lparr>cancelled = True, loads = 1\<rparr>\<rparr>)"
  using cancelled_opus_stops [of tiny_env "tiny_state\<lparr>oflag := \<lparr>cancelled = True, loads = 0\<rparr>\<rparr>" tiny_ort tiny_opus "''hey''"]
  by (simp add: tiny_env_def load_flag_def)

end
