(* ===== verification/Ort_Handles.thy ===== *)
theory Ort_Handles imports Ort_Base begin

text \<open>
  The ownership class \<open>Base\<close> of \<open>onnxruntime_cxx_api.h\<close>, from which every owning wrapper inherits, as a
  state machine over the wrapper objects of a program: construction, move, move assignment, release and
  destruction, in any order the type system allows. The runtime issues a new address for every handle.
\<close>

section \<open>States and operations\<close>

text \<open>
  \<open>holds\<close> maps the live wrapper objects to the pointer inside; \<open>loose\<close> are the handles outside any wrapper,
  fresh from the C API or relinquished by \<open>release\<close>; \<open>gone\<close> is the log of \<open>OrtRelease\<close> on non-null handles.
\<close>

type_synonym obj = nat

record handles_state =
  holds :: "obj \<Rightarrow> ptr option"
  loose :: "ptr set"
  gone :: "ptr list"

definition no_handles :: handles_state where
  "no_handles = \<lparr>holds = (\<lambda>_. None), loose = {}, gone = []\<rparr>"

definition ort_release :: "ptr \<Rightarrow> handles_state \<Rightarrow> handles_state" where
  "ort_release p s = (if p = 0 then s else s\<lparr>gone := gone s @ [p]\<rparr>)"

definition contained :: "handles_state \<Rightarrow> obj \<Rightarrow> ptr" where
  "contained s ob = (case holds s ob of None \<Rightarrow> 0 | Some p \<Rightarrow> p)"

definition set_contained :: "obj \<Rightarrow> ptr \<Rightarrow> handles_state \<Rightarrow> handles_state" where
  "set_contained ob p s = s\<lparr>holds := (holds s)(ob \<mapsto> p)\<rparr>"

text \<open>\<open>Base()\<close> and \<open>Base(p)\<close>; the latter takes over a loose handle.\<close>

definition Base_new :: "obj \<Rightarrow> handles_state \<Rightarrow> handles_state" where
  "Base_new ob = set_contained ob 0"

definition Base_wrap :: "obj \<Rightarrow> ptr \<Rightarrow> handles_state \<Rightarrow> handles_state" where
  "Base_wrap ob p s = set_contained ob p (s\<lparr>loose := loose s - {p}\<rparr>)"

definition Base_destroy :: "obj \<Rightarrow> handles_state \<Rightarrow> handles_state" where
  "Base_destroy ob s = (ort_release (contained s ob) s)\<lparr>holds := (holds s)(ob := None)\<rparr>"

text \<open>\<open>release()\<close> gives the pointer to the caller and leaves null.\<close>

definition Base_release :: "obj \<Rightarrow> handles_state \<Rightarrow> ptr \<times> handles_state" where
  "Base_release v s = (contained s v, set_contained v 0 s)"

text \<open>\<open>Base(Base&& v)\<close> and \<open>operator=(Base&& v)\<close>, statement by statement.\<close>

definition Base_move :: "obj \<Rightarrow> obj \<Rightarrow> handles_state \<Rightarrow> handles_state" where
  "Base_move ob v s = set_contained v 0 (set_contained ob (contained s v) s)"

definition Base_assign :: "obj \<Rightarrow> obj \<Rightarrow> handles_state \<Rightarrow> handles_state" where
  "Base_assign ob v s =
     (let s1 = ort_release (contained s ob) s; (p, s2) = Base_release v s1 in set_contained ob p s2)"

section \<open>Steps\<close>

inductive base_step :: "handles_state \<Rightarrow> handles_state \<Rightarrow> bool" where
  issue: "base_step s (s\<lparr>loose := insert p (loose s)\<rparr>)"
    if "p \<noteq> 0" "p \<notin> loose s" "p \<notin> ran (holds s)" "p \<notin> set (gone s)"
| new: "base_step s (Base_new ob s)" if "holds s ob = None"
| wrap: "base_step s (Base_wrap ob p s)" if "holds s ob = None" "p \<in> loose s"
| destroy: "base_step s (Base_destroy ob s)" if "holds s ob = Some q"
| release: "base_step s (snd (Base_release v s)\<lparr>loose := loose s \<union> ({fst (Base_release v s)} - {0})\<rparr>)"
    if "holds s v = Some q"
| move: "base_step s (Base_move ob v s)" if "holds s ob = None" "holds s v = Some q"
| assign: "base_step s (Base_assign ob v s)" if "holds s ob = Some p" "holds s v = Some q" "ob \<noteq> v"

inductive_cases base_stepE: "base_step s t"

inductive base_reachable :: "handles_state \<Rightarrow> bool" where
  initial: "base_reachable no_handles"
| stepped: "base_reachable s \<Longrightarrow> base_step s t \<Longrightarrow> base_reachable t"

section \<open>The ownership invariant\<close>

text \<open>
  Every handle issued so far is in exactly one place: loose, inside exactly one wrapper, or released,
  and that once.
\<close>

definition single_owner :: "handles_state \<Rightarrow> bool" where
  "single_owner s \<longleftrightarrow> 0 \<notin> loose s \<and> 0 \<notin> set (gone s) \<and> distinct (gone s) \<and> loose s \<inter> set (gone s) = {}
     \<and> (\<forall>ob p. holds s ob = Some p \<and> p \<noteq> 0 \<longrightarrow> p \<notin> loose s \<and> p \<notin> set (gone s)
          \<and> (\<forall>ob'. holds s ob' = Some p \<longrightarrow> ob' = ob))"

definition issued :: "handles_state \<Rightarrow> ptr set" where
  "issued s = (loose s \<union> set (gone s) \<union> ran (holds s)) - {0}"

named_theorems base_defs "the operations of Base, unfolded"

declare ort_release_def [base_defs] contained_def [base_defs] set_contained_def [base_defs] Base_new_def [base_defs]
  Base_wrap_def [base_defs] Base_destroy_def [base_defs] Base_release_def [base_defs] Base_move_def [base_defs]
  Base_assign_def [base_defs]

lemma single_owner_step:
  assumes "base_step s t" "single_owner s" shows "single_owner t"
  using assms
proof (cases rule: base_step.cases)
  case (issue p)
  with assms(2) show ?thesis by (auto simp: single_owner_def ran_def)
next
  case (new ob)
  with assms(2) show ?thesis by (auto simp: single_owner_def base_defs)
next
  case (wrap ob p)
  with assms(2) show ?thesis by (auto simp: single_owner_def base_defs)
next
  case (destroy ob q)
  with assms(2) show ?thesis by (auto simp: single_owner_def base_defs)
next
  case (release v q)
  with assms(2) show ?thesis by (auto simp: single_owner_def base_defs)
next
  case (move ob v q)
  with assms(2) show ?thesis by (auto simp: single_owner_def base_defs)
next
  case (assign ob p v q)
  with assms(2) show ?thesis by (auto simp: single_owner_def base_defs Let_def)
qed

lemma in_issued: "p \<in> issued s \<longleftrightarrow> p \<noteq> 0 \<and> (p \<in> loose s \<or> p \<in> set (gone s) \<or> (\<exists>ob. holds s ob = Some p))"
  by (auto simp: issued_def ran_def)

text \<open>Where a handle is after an operation that touches one or two wrappers.\<close>

lemma issued_step:
  assumes "base_step s t" "p \<in> issued s" shows "p \<in> issued t"
proof -
  from assms(2) consider (outside) "p \<noteq> 0" "p \<in> loose s \<or> p \<in> set (gone s)" | (inside) w where "p \<noteq> 0" "holds s w = Some p"
    by (auto simp: in_issued)
  then show ?thesis
  proof cases
    case outside
    from assms(1) show ?thesis
      by (cases rule: base_step.cases) (use outside in \<open>auto simp: in_issued base_defs Let_def\<close>)
  next
    case inside
    from assms(1) show ?thesis
    proof (cases rule: base_step.cases)
      case (move ob v q)
      with inside show ?thesis
        by (cases "w = v") (auto simp: in_issued base_defs intro: exI [of _ ob] exI [of _ w])
    next
      case (assign ob q v q')
      with inside show ?thesis
        by (cases "w = ob"; cases "w = v") (auto simp: in_issued base_defs Let_def intro: exI [of _ ob] exI [of _ w])
    next
      case (wrap ob q)
      with inside show ?thesis by (cases "w = ob") (auto simp: in_issued base_defs intro: exI [of _ w])
    next
      case (new ob)
      with inside show ?thesis by (cases "w = ob") (auto simp: in_issued base_defs intro: exI [of _ w])
    next
      case (destroy ob q)
      with inside show ?thesis by (cases "w = ob") (auto simp: in_issued base_defs intro: exI [of _ w])
    next
      case (release v q)
      with inside show ?thesis by (cases "w = v") (auto simp: in_issued base_defs intro: exI [of _ w])
    qed (use inside in \<open>auto simp: in_issued\<close>)
  qed
qed

lemma reachable_single_owner: "base_reachable s \<Longrightarrow> single_owner s"
proof (induction rule: base_reachable.induct)
  case initial
  show ?case by (simp add: single_owner_def no_handles_def)
qed (rule single_owner_step)

text \<open>
  What the steps leave out: \<open>x = std::move(x)\<close> releases the handle and then takes it back, so the wrapper
  holds a released handle, which its destructor releases again.
\<close>

lemma self_move_dangles:
  assumes "holds s ob = Some p" "p \<noteq> 0"
  shows "holds (Base_assign ob ob s) ob = Some p" "p \<in> set (gone (Base_assign ob ob s))"
    "\<not> distinct (gone (Base_destroy ob (Base_assign ob ob s)))"
  using assms by (auto simp: base_defs Let_def)

end
