(* ===== verification/Ort_Views.thy ===== *)
theory Ort_Views imports Ort_Handles begin

text \<open>
  The non-owning wrappers (\<open>Base<Unowned<T>>\<close> of \<open>onnxruntime_cxx_api.h\<close>, behind \<open>ConstXXX\<close> and
  \<open>UnownedXXX\<close>) next to the owning ones: copies of a pointer that release nothing. The state machine of
  \<open>Ort_Handles\<close> runs inside this one.
\<close>

section \<open>States and operations\<close>

record views_state =
  owners :: handles_state
  views :: "obj \<Rightarrow> ptr option"

definition no_views :: views_state where
  "no_views = \<lparr>owners = no_handles, views = (\<lambda>_. None)\<rparr>"

definition viewed :: "views_state \<Rightarrow> obj \<Rightarrow> ptr" where
  "viewed s v = (case views s v of None \<Rightarrow> 0 | Some p \<Rightarrow> p)"

definition set_viewed :: "obj \<Rightarrow> ptr \<Rightarrow> views_state \<Rightarrow> views_state" where
  "set_viewed v p s = s\<lparr>views := (views s)(v \<mapsto> p)\<rparr>"

text \<open>\<open>Base()\<close>, \<open>Base(p)\<close> and the defaulted copy constructor, copy assignment and destructor.\<close>

definition View_new :: "obj \<Rightarrow> views_state \<Rightarrow> views_state" where
  "View_new v = set_viewed v 0"

definition View_wrap :: "obj \<Rightarrow> ptr \<Rightarrow> views_state \<Rightarrow> views_state" where
  "View_wrap v p = set_viewed v p"

definition View_copy :: "obj \<Rightarrow> obj \<Rightarrow> views_state \<Rightarrow> views_state" where
  "View_copy v w s = set_viewed v (viewed s w) s"

definition View_destroy :: "obj \<Rightarrow> views_state \<Rightarrow> views_state" where
  "View_destroy v s = s\<lparr>views := (views s)(v := None)\<rparr>"

text \<open>\<open>Base(Base&& w)\<close>, and \<open>operator=(Base&& w)\<close>, which swaps with a pointer set to null.\<close>

definition View_move :: "obj \<Rightarrow> obj \<Rightarrow> views_state \<Rightarrow> views_state" where
  "View_move v w s = set_viewed w 0 (set_viewed v (viewed s w) s)"

definition View_assign :: "obj \<Rightarrow> obj \<Rightarrow> views_state \<Rightarrow> views_state" where
  "View_assign v w s = (let s1 = set_viewed v 0 s; p = viewed s1 v; q = viewed s1 w
     in set_viewed w p (set_viewed v q s1))"

text \<open>\<open>GetConst\<close> and \<open>GetUnowned\<close> of an owning wrapper.\<close>

definition View_get :: "obj \<Rightarrow> obj \<Rightarrow> views_state \<Rightarrow> views_state" where
  "View_get v ob s = View_wrap v (contained (owners s) ob) s"

named_theorems view_defs "the operations of views, unfolded"

declare viewed_def [view_defs] set_viewed_def [view_defs] View_new_def [view_defs] View_wrap_def [view_defs]
  View_copy_def [view_defs] View_destroy_def [view_defs] View_move_def [view_defs] View_assign_def [view_defs]
  View_get_def [view_defs]

section \<open>Steps\<close>

text \<open>A view can be made of the pointer of an owner, or of any pointer the program has had.\<close>

inductive view_step :: "views_state \<Rightarrow> views_state \<Rightarrow> bool" where
  owner: "view_step s (s\<lparr>owners := h\<rparr>)" if "base_step (owners s) h"
| empty: "view_step s (View_new v s)" if "views s v = None"
| raw: "view_step s (View_wrap v p s)" if "views s v = None" "p \<in> issued (owners s)"
| seen: "view_step s (View_get v ob s)" if "views s v = None" "holds (owners s) ob = Some q"
| copied: "view_step s (View_copy v w s)" if "views s w = Some q"
| moved: "view_step s (View_move v w s)" if "views s v = None" "views s w = Some q"
| assigned: "view_step s (View_assign v w s)" if "views s v = Some p" "views s w = Some q"
| dropped: "view_step s (View_destroy v s)" if "views s v = Some q"

inductive view_reachable :: "views_state \<Rightarrow> bool" where
  start: "view_reachable no_views"
| next_step: "view_reachable s \<Longrightarrow> view_step s t \<Longrightarrow> view_reachable t"

section \<open>Views own nothing\<close>

text \<open>A step of a view leaves the owners, and with them the log of releases, alone.\<close>

lemma view_step_owners: "view_step s t \<Longrightarrow> owners t = owners s \<or> base_step (owners s) (owners t)"
  by (induction rule: view_step.induct) (auto simp: view_defs Let_def)

text \<open>Every view is null or a pointer the C API issued.\<close>

definition views_issued :: "views_state \<Rightarrow> bool" where
  "views_issued s \<longleftrightarrow> (\<forall>v p. views s v = Some p \<longrightarrow> p = 0 \<or> p \<in> issued (owners s))"

lemma contained_issued: "contained s ob = 0 \<or> contained s ob \<in> issued s"
  by (auto simp: contained_def in_issued split: option.split)

lemma views_issued_step:
  assumes "view_step s t" "views_issued s" shows "views_issued t"
  using assms(1)
proof cases
  case (owner h)
  with assms(2) issued_step [OF owner(2)] show ?thesis by (auto simp: views_issued_def)
next
  case (seen v ob q)
  with assms(2) contained_issued [of "owners s" ob] show ?thesis by (auto simp: views_issued_def view_defs)
qed (use assms(2) in \<open>auto simp: views_issued_def view_defs Let_def split: if_splits\<close>)

lemma view_reachable_sound: "view_reachable s \<Longrightarrow> single_owner (owners s) \<and> views_issued s"
proof (induction rule: view_reachable.induct)
  case start
  show ?case using reachable_single_owner [OF initial] by (simp add: no_views_def views_issued_def)
next
  case (next_step s t)
  then show ?case using view_step_owners [of s t] single_owner_step [of "owners s" "owners t"] views_issued_step [of s t] by auto
qed

text \<open>A program without views is one of these.\<close>

lemma base_reachable_view: "base_reachable h \<Longrightarrow> \<exists>s. view_reachable s \<and> owners s = h"
proof (induction rule: base_reachable.induct)
  case initial
  show ?case using start by (force simp: no_views_def)
next
  case (stepped h h')
  then obtain s where "view_reachable s" "owners s = h" by blast
  with stepped(2) show ?case using next_step [OF _ view_step.owner] by force
qed

section \<open>Dangling views\<close>

text \<open>
  A view dangles once its handle was released. A handle that is loose or held is not released, so moving
  the owner keeps its views good, while destroying it or assigning to it leaves all of them dangling.
\<close>

definition dangles :: "views_state \<Rightarrow> obj \<Rightarrow> bool" where
  "dangles s v \<longleftrightarrow> viewed s v \<in> set (gone (owners s))"

lemma good_view:
  assumes "view_reachable s" "views s v = Some p" "p \<noteq> 0"
  shows "dangles s v \<longleftrightarrow> p \<notin> loose (owners s) \<and> (\<forall>ob. holds (owners s) ob \<noteq> Some p)"
proof -
  have "single_owner (owners s)" "p \<in> issued (owners s)"
    using view_reachable_sound [OF assms(1)] assms(2,3) by (auto simp: views_issued_def)
  then show ?thesis using assms(2,3) by (auto simp: dangles_def viewed_def single_owner_def in_issued)
qed

lemma move_keeps_views: "dangles (s\<lparr>owners := Base_move ob w (owners s)\<rparr>) v = dangles s v"
  by (simp add: dangles_def viewed_def base_defs)

lemma end_of_owner_dangles:
  assumes "holds (owners s) ob = Some p" "p \<noteq> 0" "views s v = Some p"
  shows "dangles (s\<lparr>owners := Base_destroy ob (owners s)\<rparr>) v" "dangles (s\<lparr>owners := Base_assign ob w (owners s)\<rparr>) v"
  using assms by (simp_all add: dangles_def viewed_def base_defs Let_def)

text \<open>Unlike the owner, a view that is assigned to itself by a move is null afterwards.\<close>

lemma view_self_assign: "viewed (View_assign v v s) v = 0"
  by (simp add: view_defs Let_def)

end
