(* ===== verification/Ort_Lifetimes.thy ===== *)
theory Ort_Lifetimes imports Ort_Resources Ort_Custom_Ops begin

text \<open>
  Lifetimes of what the wrappers obtain: the constructors, the names of a session and the vectors of
  value descriptions, settled for every resource; and the overridable initializers, whose names are
  not given back.
\<close>

section \<open>Constructors\<close>

lemma keeps_projection: "keeps (account R) (set_projection A logid p)"
  unfolding set_projection_def by (intro keeps_if keeps_account_call; code_simp)

lemmas env_constructors = Env_new_def Env_new_2_def Env_new_3_def Env_new_4_def Env_new_5_def

lemma settles_environments:
  "settles (account R) none (Env_new A lvl logid) (granted KEnv R) none"
  "settles (account R) none (Env_new_2 A lvl logid fn param) (granted KEnv R) none"
  "settles (account R) none (Env_new_3 A tp lvl logid) (granted KEnv R) none"
  "settles (account R) none (Env_new_4 A tp fn param lvl logid) (granted KEnv R) none"
  "settles (account R) none (Env_new_5 A log_id opts) (granted KEnv R) none"
  unfolding env_constructors
  by (rule settles_construct_kind; auto intro!: keeps_projection keeps_case_option keeps_crash)+

lemma settles_tensor_info_new:
  "settles (account R) none (TensorTypeAndShapeInfo_new A ty dims symbols) (granted KTensorInfo R) none"
  unfolding TensorTypeAndShapeInfo_new_def
proof (rule settles_construct_kind)
  show "keeps (account R) (mthen (do_call A OrtApi ''SetTensorElementType'' [Ptr p, Num ty])
      (mthen (do_call A OrtApi ''SetDimensions'' [Ptr p, Nums dims, Num (int (length dims))])
        (case symbols of None \<Rightarrow> mret ()
         | Some ss \<Rightarrow> do_call A OrtApi ''SetSymbolicDimensions'' [Ptr p, CStrs (map c_str ss), Num (int (length ss))])))" for p
    by (intro keeps_then keeps_case_option keeps_ret keeps_account_call(1); code_simp)
qed simp_all

lemma settles_session_new:
  "settles (account R) none (Session_new A env path opts) (granted KSession R) none"
  "settles (account R) none (Session_new_2 A env path opts w) (granted KSession R) none"
  "settles (account R) none (Session_new_3 A env data n opts) (granted KSession R) none"
  "settles (account R) none (Session_new_4 A env data n opts w) (granted KSession R) none"
  "settles (account R) none (Session_new_5 A env model opts) (granted KSession R) none"
  unfolding Session_new_def Session_new_2_def Session_new_3_def Session_new_4_def Session_new_5_def
  by (rule settles_create_kind; simp)+

lemma settles_value_info_new: "settles (account R) none (ValueInfo_new A nm ti) (granted KValueInfo R) none"
  unfolding ValueInfo_new_def by (rule settles_create_kind) simp_all

lemma settles_type_info:
  "settles (account R) none (Session_GetInputTypeInfo A p i) (granted KTypeInfo R) none"
  "settles (account R) none (Session_GetOutputTypeInfo A p i) (granted KTypeInfo R) none"
  unfolding Session_GetInputTypeInfo_def Session_GetOutputTypeInfo_def by (rule settles_grant; simp)+

section \<open>Names of a session\<close>

definition buffer_of :: "resource \<Rightarrow> ptr \<Rightarrow> ptr \<Rightarrow> int" where
  "buffer_of R p = (if R = Buffer then own p else none)"

lemma settles_c_string: "settles w d (c_string x) (\<lambda>_. d) t"
  by (cases x) (simp_all add: c_string_def settles_def mret_def mcrash_def)

lemma settles_checked_buffer:
  assumes "n \<in> set buffer_calls"
  shows "settles (account R) none (checked A OrtApi n args) (\<lambda>r. buffer_of R (r_ptr r 0)) none"
proof (cases R)
  case (Handle K)
  have "neutral (handle_weight K) n"
    using assms by (cases K) (auto intro!: handle_neutral simp: buffer_calls_def)
  then show ?thesis using handle.keeps_checked Handle by (simp add: keeps_def buffer_of_def)
next
  case StatusObject
  moreover have "n \<noteq> ''ReleaseStatus''" using assms by (auto simp: buffer_calls_def)
  ultimately show ?thesis using keeps_status_checked by (simp add: keeps_def buffer_of_def)
next
  case Buffer
  then show ?thesis using buffer.settles_checked_grant [OF buffer_grants [OF assms]] by (simp add: buffer_of_def)
qed

lemma settles_free_buffer: "settles (account R) (buffer_of R p) (Allocator_Free A al p) (\<lambda>_. none) none"
proof (cases R)
  case (Handle K)
  have "neutral (handle_weight K) ''AllocatorFree''" by (cases K) (auto intro!: handle_neutral)
  then show ?thesis using handle.keeps_neutral(1) Handle by (simp add: Allocator_Free_def keeps_def buffer_of_def)
next
  case StatusObject
  then show ?thesis using keeps_do_call [of "''AllocatorFree''"] by (simp add: Allocator_Free_def keeps_def buffer_of_def)
next
  case Buffer
  then show ?thesis using settles_AllocatorFree by (simp add: Allocator_Free_def buffer_of_def)
qed

lemma keeps_session_name:
  assumes "fn \<in> set buffer_calls" shows "keeps (account R) (session_name A fn p al i)"
  unfolding session_name_def keeps_def
  by (rule settles_bind [OF settles_checked_buffer [OF assms]], rule settles_bind [OF settles_c_string],
      rule settles_then [OF settles_free_buffer], rule settles_ret)

lemma keeps_session_counts:
  "keeps (account R) (Session_GetInputCount A p)" "keeps (account R) (Session_GetOutputCount A p)"
  "keeps (account R) (AllocatorWithDefaultOptions_new A)"
  unfolding Session_GetInputCount_def Session_GetOutputCount_def AllocatorWithDefaultOptions_new_def
  by (rule keeps_account_call, code_simp)+

lemma keeps_session_names:
  "keeps (account R) (Session_GetInputNames A p)" "keeps (account R) (Session_GetOutputNames A p)"
  unfolding Session_GetInputNames_def Session_GetOutputNames_def
  by (intro keeps_bind keeps_mmap keeps_session_counts keeps_session_name; simp add: buffer_calls_def)+

section \<open>Vectors of wrappers\<close>

definition owned :: "kind \<Rightarrow> resource \<Rightarrow> ptr list \<Rightarrow> ptr \<Rightarrow> int" where
  "owned C R ps = (if R = Handle C then owns ps else none)"

lemma owned_simps: "owned C R [] = none" "owned C R (p # ps) = (\<lambda>q. owned C R ps q + granted C R p q)"
  by (auto simp: owned_def granted_def fun_eq_iff)

lemma settles_collect:
  assumes f: "\<And>x. settles (account R) none (f x) (granted C R) none" and k: "k = kind_name C"
  shows "settles (account R) none (collect_owned A k f xs) (owned C R) none"
proof (induction xs)
  case Nil
  show ?case using settles_ret [of _ "owned C R" "[]"] by (simp add: owned_simps)
next
  case (Cons x xs)
  have "settles (account R) (granted C R p) (guarded A k p (collect_owned A k f xs))
      (\<lambda>ps q. owned C R ps q + granted C R p q) none" for p
    by (rule settles_guarded_kind [OF settles_add [OF Cons.IH] k])
  moreover have "settles (account R) (\<lambda>q. owned C R ps q + granted C R p q) (mret (p # ps)) (owned C R) none" for p ps
    using settles_ret [of _ "owned C R" "p # ps"] by (simp add: owned_simps)
  ultimately show ?case
    unfolding collect_owned.simps by (intro settles_bind [OF f] settles_bind)
qed

lemma settles_described:
  assumes "\<And>i. settles (account R) none (ti i) (granted KTypeInfo R) none"
  shows "settles (account R) none (case x of (i, nm) \<Rightarrow> mbind (ti i) (\<lambda>t. scoped A ''TypeInfo'' t (ValueInfo_new A nm t)))
    (granted KValueInfo R) none"
proof (cases x)
  case (Pair i nm)
  show ?thesis
    unfolding Pair prod.case
    by (rule settles_bind [OF assms]) (rule settles_scoped_kind [OF settles_value_info_new], simp)
qed

lemma settles_session_values:
  "settles (account R) none (Session_GetInputs A p) (owned KValueInfo R) none"
  "settles (account R) none (Session_GetOutputs A p) (owned KValueInfo R) none"
  unfolding Session_GetInputs_def Session_GetOutputs_def
  by (rule settles_bind [OF keeps_session_names(1) [unfolded keeps_def]] settles_bind [OF keeps_session_names(2) [unfolded keeps_def]],
      rule settles_collect, rule settles_described, rule settles_type_info, simp)+

section \<open>Calls and what they return\<close>

lemma ThrowOnError_eq:
  "ThrowOnError A st s =
     (if st = 0 then (Ok (), s)
      else let call = (\<lambda>n. Call OrtApi n [Ptr st]);
          (r1, w1) = A (call ''GetErrorMessage'') (ort_world s);
          (r2, w2) = A (call ''GetErrorCode'') w1;
          (r3, w3) = A (call ''ReleaseStatus'') w2;
          e1 = (call ''GetErrorMessage'', r1\<lparr>r_status := 0\<rparr>);
          e2 = (call ''GetErrorCode'', r2\<lparr>r_status := 0\<rparr>);
          e3 = (call ''ReleaseStatus'', r3\<lparr>r_status := 0\<rparr>)
        in case r_str r1 0 of
          None \<Rightarrow> (Crash ''std::string(nullptr)'', s\<lparr>ort_world := w1, events := events s @ [e1]\<rparr>)
        | Some msg \<Rightarrow> (Throw (OrtException msg (r_num r2 0)), s\<lparr>ort_world := w3, events := events s @ [e1, e2, e3]\<rparr>))"
proof -
  have table: "release_table ''Status'' = OrtApi" by code_simp
  show ?thesis
    by (auto simp: ThrowOnError_def scoped_def guarded_def ThrowStatus_def Status_GetErrorMessage_def c_string_def
        Status_GetErrorCode_def OrtRelease_def table plain_def call_plain_def transact_def mbind_def mthen_def mcatch_def
        mret_def mthrow_def mcrash_def Let_def split: prod.splits option.splits)
qed

text \<open>A wrapper asks the runtime first; error handling only adds events.\<close>

lemma ThrowOnError_adds: "\<exists>es. events (snd (ThrowOnError A st s)) = events s @ es"
  unfolding ThrowOnError_eq by (auto simp: Let_def split: prod.splits option.splits)

lemma get_ptr_asks: "\<exists>r. events (snd (get_ptr A OrtApi n args s)) ! length (events s) = (Call OrtApi n args, r)"
proof -
  obtain r w where A: "A (Call OrtApi n args) (ort_world s) = (r, w)" by (cases "A (Call OrtApi n args) (ort_world s)")
  let ?s = "s\<lparr>ort_world := w, events := events s @ [(Call OrtApi n args, r)]\<rparr>"
  obtain es where es: "events (snd (ThrowOnError A (r_status r) ?s)) = events ?s @ es"
    using ThrowOnError_adds by blast
  obtain x t where x: "ThrowOnError A (r_status r) ?s = (x, t)" by (cases "ThrowOnError A (r_status r) ?s")
  have "events (snd (get_ptr A OrtApi n args s)) = events t"
    using A x by (cases x) (simp_all add: get_ptr_def checked_def api_call_def call_status_def transact_def mbind_def mthen_def mret_def)
  with es x show ?thesis by (auto simp: nth_append)
qed

text \<open>The strings of a buffer that ends with a terminator.\<close>

lemma parse_cstrings_inverse:
  assumes "n \<le> length buf" "n = 0 \<or> buf ! (n - 1) = CHR 0x00"
  shows "\<exists>ss. parse_cstrings n buf = Some ss \<and> length ss \<le> n \<and> concat (map (\<lambda>s. s @ [CHR 0x00]) ss) = take n buf"
  using assms
proof (induction n buf rule: parse_cstrings.induct)
  case (1 n buf)
  show ?case
  proof (cases "n = 0")
    case False
    let ?s = "takeWhile (\<lambda>c. c \<noteq> CHR 0x00) buf"
    define k where "k = length ?s + 1"
    have last: "n - 1 < length buf" "buf ! (n - 1) = CHR 0x00" using "1.prems" False by auto
    then have nul: "CHR 0x00 \<in> set buf" by (metis nth_mem)
    have "length ?s \<le> n - 1"
    proof (rule ccontr)
      assume "\<not> length ?s \<le> n - 1"
      then have "?s ! (n - 1) \<in> set ?s" "?s ! (n - 1) = buf ! (n - 1)" by (auto intro: nth_mem takeWhile_nth)
      with last(2) show False by (auto dest: set_takeWhileD)
    qed
    then have k: "k \<le> n" "k \<le> length buf" using False last(1) by (simp_all add: k_def)
    have head: "take k buf = ?s @ [CHR 0x00]"
      using nul nth_length_takeWhile [of "\<lambda>c. c \<noteq> CHR 0x00" buf] k(2)
      by (simp add: k_def take_Suc_conv_app_nth takeWhile_eq_take [symmetric])
    have "n - k = 0 \<or> drop k buf ! (n - k - 1) = CHR 0x00"
      using last(2) k by (cases "n = k") simp_all
    moreover have "n - k \<le> length (drop k buf)" using "1.prems"(1) by (simp add: diff_le_mono)
    ultimately obtain ss where
      ss: "parse_cstrings (n - k) (drop k buf) = Some ss" "length ss \<le> n - k"
      "concat (map (\<lambda>s. s @ [CHR 0x00]) ss) = take (n - k) (drop k buf)"
      using "1.IH" [OF False _ refl k_def] nul by blast
    have "take n buf = take k buf @ take (n - k) (drop k buf)" using k(1) by (metis le_add_diff_inverse take_add)
    then have "concat (map (\<lambda>s. s @ [CHR 0x00]) (?s # ss)) = take n buf" using head ss(3) by simp
    moreover have "parse_cstrings n buf = Some (?s # ss)"
      using False nul ss(1) by (subst parse_cstrings.simps) (simp add: Let_def k_def)
    moreover have "length (?s # ss) \<le> n" using ss(2) k(1) by (simp add: k_def)
    ultimately show ?thesis by blast
  qed (simp add: parse_cstrings.simps)
qed

text \<open>The two calls that fetch a string.\<close>

lemma two_phase_returns:
  assumes "A (Call OrtApi n (args @ [Ptr 0, Num 0])) w = (r1, w1)" and "r_status r1 = 0"
    and "r_num r1 0 = int (length str + 1)"
    and "A (Call OrtApi n (args @ [Str (replicate (length str + 1) (CHR 0x00)), Num (int (length str + 1))])) w1 = (r2, w2)"
    and "r_status r2 = 0" and "r_num r2 0 = int (length str + 1)" and "take (length str) (r_bytes r2 0) = str"
  shows "fst (two_phase A OrtApi n args \<lparr>ort_world = w, events = es\<rparr>) = Ok str"
proof -
  have "filled (length str) (CHR 0x00) (filled (length str + 1) (CHR 0x00) (r_bytes r2 0)) = str"
    using assms(7) by (simp add: filled_def) (metis length_take min.bounded_iff order_refl)
  moreover have "nat (1 + int (length str)) = Suc (length str)" by simp
  ultimately show ?thesis
    using assms by (simp add: two_phase_def get_size_def checked_def api_call_def call_status_def transact_def ThrowOnError_def
        mbind_def mthen_def mret_def)
qed

end
