(* ===== verification/Ort_Properties.thy ===== *)
theory Ort_Properties imports Ort_Views Ort_Lifetimes begin

text \<open>
  The properties of the ONNX Runtime C++ wrappers: ownership of handles, statuses as exceptions, release
  on failure, and the decoding of what the C API returns. They hold for every runtime behind the API.
\<close>

section \<open>Ownership\<close>



section \<open>Errors\<close>

text \<open>C26. \<open>ThrowOnError\<close> turns a status into an exception with its message and code, read in this order, and
  releases the status exactly once before the exception leaves; a null status has no effect at all. A
  status without a message is undefined behaviour, the construction of a string from null.\<close>

theorem ThrowOnError_reports:
  "ThrowOnError A st s =
     (if st = 0 then (Ok (), s)
      else let call = (\<lambda>n. Call OrtApi n [Ptr st]);
          (r1, w1) = A (call ''GetErrorMessage'') (ort_world s);
          (r2, w2) = A (call ''GetErrorCode'') w1;
          (r3, w3) = A (call ''ReleaseStatus'') w2;
          e1 = (call ''GetErrorMessage'', r1\<lparr>r_status := 0\<rparr>);
          e2 = (call ''GetErrorCode'', r2\<lparr>r_status := 0\<rparr>);
          e3 = (call ''ReleaseStatus'', r3\<lparr>r_status := 0\<rparr>)
        in case r_str r1 0 of
          None \<Rightarrow> (Crash ''std::string(nullptr)'', s\<lparr>ort_world := w1, events := events s @ [e1]\<rparr>)
        | Some msg \<Rightarrow> (Throw (OrtException msg (r_num r2 0)), s\<lparr>ort_world := w3, events := events s @ [e1, e2, e3]\<rparr>))"
  by (rule ThrowOnError_eq)

text \<open>C27. Constructors hand out one handle or none: when a later step of \<open>Env\<close>, \<open>Session\<close> or
  \<open>TensorTypeAndShapeInfo\<close> construction throws, the handle just created is released again, and no status
  is left; when it returns, the handle is all that is outstanding. (\<open>settles\<close> quantifies over every
  runtime state; \<open>R\<close> is any resource.)\<close>

theorem constructors_release_on_failure:
  "settles (account R) none (Env_new A lvl logid) (granted KEnv R) none
   \<and> settles (account R) none (Env_new_2 A lvl logid fn param) (granted KEnv R) none
   \<and> settles (account R) none (Env_new_3 A tp lvl logid) (granted KEnv R) none
   \<and> settles (account R) none (Env_new_4 A tp fn param lvl logid) (granted KEnv R) none
   \<and> settles (account R) none (Env_new_5 A log_id opts) (granted KEnv R) none
   \<and> settles (account R) none (Session_new A env path opts) (granted KSession R) none
   \<and> settles (account R) none (Session_new_4 A env data n opts weights) (granted KSession R) none
   \<and> settles (account R) none (TensorTypeAndShapeInfo_new A ty dims symbols) (granted KTensorInfo R) none"
  by (intro conjI settles_environments settles_session_new settles_tensor_info_new)

text \<open>C28. The descriptions of a session: reading the names of inputs and outputs frees every name the runtime
  allocated; \<open>GetInputs\<close> and \<open>GetOutputs\<close> hold just the value infos they return - type infos, names and
  statuses are gone - and nothing when they throw half way.\<close>

theorem session_descriptions_accounted:
  "keeps (account R) (Session_GetInputNames A p) \<and> keeps (account R) (Session_GetOutputNames A p)
   \<and> settles (account R) none (Session_GetInputs A p) (owned KValueInfo R) none
   \<and> settles (account R) none (Session_GetOutputs A p) (owned KValueInfo R) none"
  by (intro conjI keeps_session_names settles_session_values)

text \<open>A runtime that reports one initializer.\<close>

fun one_initializer :: "unit api" where
  "one_initializer (Call T n args) w =
     (\<lparr>r_status = 0, r_ptr = (\<lambda>_. 9), r_num = (\<lambda>_. 1), r_str = (\<lambda>_. Some ''w''), r_bytes = (\<lambda>_. []), r_ptrs = (\<lambda>_. []),
       r_nums = (\<lambda>_. []), r_strs = (\<lambda>_. [])\<rparr>, w)"

text \<open>\<open>GetOverridableInitializerNames\<close> does not free its names: with a runtime that reports one initializer
  the call returns its name and one buffer stays allocated.\<close>

theorem overridable_names_leak:
  "let (r, t) = Session_GetOverridableInitializerNames one_initializer p \<lparr>ort_world = (), events = []\<rparr>
   in r = Ok [''w''] \<and> buffers t 9 = 1"
  by (simp add: Session_GetOverridableInitializerNames_def AllocatorWithDefaultOptions_new_def
      Session_GetOverridableInitializerCount_def get_ptr_def get_size_def get_string_def get_cstr_def c_string_def
      checked_def api_call_def call_status_def transact_def ThrowOnError_def mbind_def mthen_def mret_def
      ledger_def balance_def buffer_calls_def own_def)

section \<open>Data\<close>

text \<open>A runtime whose configuration entries are all \<open>cpu\<close>.\<close>

definition config_reply :: reply where
  "config_reply = \<lparr>r_status = 0, r_ptr = (\<lambda>_. 0), r_num = (\<lambda>_. 4), r_str = (\<lambda>_. None), r_bytes = (\<lambda>_. ''cpu''),
     r_ptrs = (\<lambda>_. []), r_nums = (\<lambda>_. []), r_strs = (\<lambda>_. [])\<rparr>"

definition config_answers :: "unit api" where
  "config_answers c w = (config_reply, w)"

text \<open>Strings in two calls: if the runtime reports the size of a session's configuration entry with its
  terminator and then writes it, \<open>GetConfigEntry\<close> returns exactly the entry.\<close>

theorem config_entry_returned:
  assumes "A (Call OrtApi ''GetSessionConfigEntry'' [Ptr p, Str key, Ptr 0, Num 0]) w = (r1, w1)"
    and "r_status r1 = 0" and "r_num r1 0 = int (length str + 1)"
    and "A (Call OrtApi ''GetSessionConfigEntry'' [Ptr p, Str key, Str (replicate (length str + 1) (CHR 0x00)),
           Num (int (length str + 1))]) w1 = (r2, w2)"
    and "r_status r2 = 0" and "r_num r2 0 = int (length str + 1)" and "take (length str) (r_bytes r2 0) = str"
  shows "fst (SessionOptions_GetConfigEntry A p key \<lparr>ort_world = w, events = es\<rparr>) = Ok str"
  unfolding SessionOptions_GetConfigEntry_def
  by (rule two_phase_returns [OF _ assms(2,3) _ assms(5-7)]) (use assms(1,4) in simp_all)

theorem config_entry_returned_witness:
  "fst (SessionOptions_GetConfigEntry config_answers 1 ''key'' \<lparr>ort_world = (), events = []\<rparr>) = Ok ''cpu''"
  by (rule config_entry_returned [where ?r1.0 = config_reply and ?r2.0 = config_reply])
    (simp_all add: config_reply_def config_answers_def)

text \<open>C29. The strings of an attribute: from a buffer whose last byte is a terminator the loop always returns,
  and what it returns, terminators put back, is the buffer.\<close>

theorem parse_cstrings_returns:
  assumes "n \<le> length buf" and "n = 0 \<or> buf ! (n - 1) = CHR 0x00"
  shows "\<exists>ss. parse_cstrings n buf = Some ss \<and> length ss \<le> n \<and> concat (map (\<lambda>s. s @ [CHR 0x00]) ss) = take n buf"
  using assms by (rule parse_cstrings_inverse)

theorem parse_cstrings_returns_witness:
  "\<exists>ss. parse_cstrings 5 [CHR ''a'', CHR 0x00, CHR ''b'', CHR ''c'', CHR 0x00] = Some ss
     \<and> concat (map (\<lambda>s. s @ [CHR 0x00]) ss) = [CHR ''a'', CHR 0x00, CHR ''b'', CHR ''c'', CHR 0x00]"
  using parse_cstrings_returns [of 5 "[CHR ''a'', CHR 0x00, CHR ''b'', CHR ''c'', CHR 0x00]"] by auto


end
