(* ===== verification/Ort_Data.thy ===== *)
theory Ort_Data imports Ort_Enums begin

text \<open>
  Further data of the C headers (\<open>onnxruntime_c_api.h\<close>, \<open>onnxruntime_ep_c_api.h\<close>,
  \<open>nnapi_provider_factory.h\<close>): the enumerations with the integers they stand for, sets of flags, and the
  constructors of the option structures and of \<open>OrtResourceCount\<close>.
\<close>

text \<open>The version of the API that the headers describe.\<close>

definition ORT_API_VERSION :: nat where
  "ORT_API_VERSION = 28"

section \<open>Enumerations of C\<close>

text \<open>
  What every enumeration here is: finitely many values with distinct codes. A code read back from an \<open>int\<close>
  is \<open>enum_of\<close>; it is undefined (\<open>None\<close>) for integers without a value.
\<close>

definition enum_of :: "('a \<Rightarrow> int) \<Rightarrow> 'a list \<Rightarrow> int \<Rightarrow> 'a option" where
  "enum_of code members n = find (\<lambda>x. code x = n) members"

locale c_enum =
  fixes code :: "'a \<Rightarrow> int" and members :: "'a list"
  assumes complete: "x \<in> set members" and codes: "distinct (map code members)"
begin

lemma code_inj: "code x = code y \<longleftrightarrow> x = y"
  using codes complete by (auto simp: distinct_map dest: inj_onD)

lemma enum_of_code: "enum_of code members (code x) = Some x"
proof (cases "enum_of code members (code x)")
  case None
  then show ?thesis using complete [of x] by (auto simp: enum_of_def find_None_iff)
next
  case (Some y)
  then have "code y = code x" by (auto simp: enum_of_def find_Some_iff)
  with Some show ?thesis by (simp add: code_inj)
qed

lemma enum_of_Some: "enum_of code members n = Some x \<longleftrightarrow> code x = n"
  using enum_of_code [of x] by (auto simp: enum_of_def find_Some_iff)

end

datatype OrtSparseIndicesFormat =
    ORT_SPARSE_COO_INDICES
  | ORT_SPARSE_CSR_INNER_INDICES
  | ORT_SPARSE_CSR_OUTER_INDICES
  | ORT_SPARSE_BLOCK_SPARSE_INDICES

primrec sparse_indices_code :: "OrtSparseIndicesFormat \<Rightarrow> int" where
  "sparse_indices_code ORT_SPARSE_COO_INDICES = 0"
| "sparse_indices_code ORT_SPARSE_CSR_INNER_INDICES = 1"
| "sparse_indices_code ORT_SPARSE_CSR_OUTER_INDICES = 2"
| "sparse_indices_code ORT_SPARSE_BLOCK_SPARSE_INDICES = 3"

interpretation sparse_indices: c_enum sparse_indices_code "[ORT_SPARSE_COO_INDICES, ORT_SPARSE_CSR_INNER_INDICES, ORT_SPARSE_CSR_OUTER_INDICES, ORT_SPARSE_BLOCK_SPARSE_INDICES]"
  by unfold_locales (auto intro: OrtSparseIndicesFormat.exhaust)

datatype GraphOptimizationLevel =
    ORT_DISABLE_ALL
  | ORT_ENABLE_BASIC
  | ORT_ENABLE_EXTENDED
  | ORT_ENABLE_LAYOUT
  | ORT_ENABLE_ALL

primrec optimization_level_code :: "GraphOptimizationLevel \<Rightarrow> int" where
  "optimization_level_code ORT_DISABLE_ALL = 0"
| "optimization_level_code ORT_ENABLE_BASIC = 1"
| "optimization_level_code ORT_ENABLE_EXTENDED = 2"
| "optimization_level_code ORT_ENABLE_LAYOUT = 3"
| "optimization_level_code ORT_ENABLE_ALL = 99"

interpretation optimization_level: c_enum optimization_level_code "[ORT_DISABLE_ALL, ORT_ENABLE_BASIC, ORT_ENABLE_EXTENDED, ORT_ENABLE_LAYOUT, ORT_ENABLE_ALL]"
  by unfold_locales (auto intro: GraphOptimizationLevel.exhaust)

datatype ExecutionMode =
    ORT_SEQUENTIAL
  | ORT_PARALLEL

primrec execution_mode_code :: "ExecutionMode \<Rightarrow> int" where
  "execution_mode_code ORT_SEQUENTIAL = 0"
| "execution_mode_code ORT_PARALLEL = 1"

interpretation execution_mode: c_enum execution_mode_code "[ORT_SEQUENTIAL, ORT_PARALLEL]"
  by unfold_locales (auto intro: ExecutionMode.exhaust)

datatype OrtAllocatorType =
    OrtInvalidAllocator
  | OrtDeviceAllocator
  | OrtArenaAllocator
  | OrtReadOnlyAllocator

primrec allocator_type_code :: "OrtAllocatorType \<Rightarrow> int" where
  "allocator_type_code OrtInvalidAllocator = - 1"
| "allocator_type_code OrtDeviceAllocator = 0"
| "allocator_type_code OrtArenaAllocator = 1"
| "allocator_type_code OrtReadOnlyAllocator = 2"

interpretation allocator_type: c_enum allocator_type_code "[OrtInvalidAllocator, OrtDeviceAllocator, OrtArenaAllocator, OrtReadOnlyAllocator]"
  by unfold_locales (auto intro: OrtAllocatorType.exhaust)

datatype OrtMemType =
    OrtMemTypeCPUInput
  | OrtMemTypeCPUOutput
  | OrtMemTypeDefault

primrec mem_type_code :: "OrtMemType \<Rightarrow> int" where
  "mem_type_code OrtMemTypeCPUInput = - 2"
| "mem_type_code OrtMemTypeCPUOutput = - 1"
| "mem_type_code OrtMemTypeDefault = 0"

definition OrtMemTypeCPU :: OrtMemType where
  "OrtMemTypeCPU = OrtMemTypeCPUOutput"

interpretation mem_type: c_enum mem_type_code "[OrtMemTypeCPUInput, OrtMemTypeCPUOutput, OrtMemTypeDefault]"
  by unfold_locales (auto intro: OrtMemType.exhaust)

datatype OrtDeviceMemoryType =
    OrtDeviceMemoryType_DEFAULT
  | OrtDeviceMemoryType_HOST_ACCESSIBLE

primrec device_memory_code :: "OrtDeviceMemoryType \<Rightarrow> int" where
  "device_memory_code OrtDeviceMemoryType_DEFAULT = 0"
| "device_memory_code OrtDeviceMemoryType_HOST_ACCESSIBLE = 5"

interpretation device_memory: c_enum device_memory_code "[OrtDeviceMemoryType_DEFAULT, OrtDeviceMemoryType_HOST_ACCESSIBLE]"
  by unfold_locales (auto intro: OrtDeviceMemoryType.exhaust)

datatype OrtMemoryInfoDeviceType =
    OrtMemoryInfoDeviceType_CPU
  | OrtMemoryInfoDeviceType_GPU
  | OrtMemoryInfoDeviceType_FPGA
  | OrtMemoryInfoDeviceType_NPU

primrec info_device_code :: "OrtMemoryInfoDeviceType \<Rightarrow> int" where
  "info_device_code OrtMemoryInfoDeviceType_CPU = 0"
| "info_device_code OrtMemoryInfoDeviceType_GPU = 1"
| "info_device_code OrtMemoryInfoDeviceType_FPGA = 2"
| "info_device_code OrtMemoryInfoDeviceType_NPU = 3"

interpretation info_device: c_enum info_device_code "[OrtMemoryInfoDeviceType_CPU, OrtMemoryInfoDeviceType_GPU, OrtMemoryInfoDeviceType_FPGA, OrtMemoryInfoDeviceType_NPU]"
  by unfold_locales (auto intro: OrtMemoryInfoDeviceType.exhaust)

datatype OrtHardwareDeviceType =
    OrtHardwareDeviceType_CPU
  | OrtHardwareDeviceType_GPU
  | OrtHardwareDeviceType_NPU

primrec hardware_device_code :: "OrtHardwareDeviceType \<Rightarrow> int" where
  "hardware_device_code OrtHardwareDeviceType_CPU = 0"
| "hardware_device_code OrtHardwareDeviceType_GPU = 1"
| "hardware_device_code OrtHardwareDeviceType_NPU = 2"

interpretation hardware_device: c_enum hardware_device_code "[OrtHardwareDeviceType_CPU, OrtHardwareDeviceType_GPU, OrtHardwareDeviceType_NPU]"
  by unfold_locales (auto intro: OrtHardwareDeviceType.exhaust)

datatype OrtExecutionProviderDevicePolicy =
    OrtExecutionProviderDevicePolicy_DEFAULT
  | OrtExecutionProviderDevicePolicy_PREFER_CPU
  | OrtExecutionProviderDevicePolicy_PREFER_NPU
  | OrtExecutionProviderDevicePolicy_PREFER_GPU
  | OrtExecutionProviderDevicePolicy_MAX_PERFORMANCE
  | OrtExecutionProviderDevicePolicy_MAX_EFFICIENCY
  | OrtExecutionProviderDevicePolicy_MIN_OVERALL_POWER

primrec device_policy_code :: "OrtExecutionProviderDevicePolicy \<Rightarrow> int" where
  "device_policy_code OrtExecutionProviderDevicePolicy_DEFAULT = 0"
| "device_policy_code OrtExecutionProviderDevicePolicy_PREFER_CPU = 1"
| "device_policy_code OrtExecutionProviderDevicePolicy_PREFER_NPU = 2"
| "device_policy_code OrtExecutionProviderDevicePolicy_PREFER_GPU = 3"
| "device_policy_code OrtExecutionProviderDevicePolicy_MAX_PERFORMANCE = 4"
| "device_policy_code OrtExecutionProviderDevicePolicy_MAX_EFFICIENCY = 5"
| "device_policy_code OrtExecutionProviderDevicePolicy_MIN_OVERALL_POWER = 6"

interpretation device_policy: c_enum device_policy_code "[OrtExecutionProviderDevicePolicy_DEFAULT, OrtExecutionProviderDevicePolicy_PREFER_CPU, OrtExecutionProviderDevicePolicy_PREFER_NPU, OrtExecutionProviderDevicePolicy_PREFER_GPU, OrtExecutionProviderDevicePolicy_MAX_PERFORMANCE, OrtExecutionProviderDevicePolicy_MAX_EFFICIENCY, OrtExecutionProviderDevicePolicy_MIN_OVERALL_POWER]"
  by unfold_locales (auto intro: OrtExecutionProviderDevicePolicy.exhaust)

datatype OrtDeviceEpIncompatibilityReason =
    OrtDeviceEpIncompatibility_NONE
  | OrtDeviceEpIncompatibility_DRIVER_INCOMPATIBLE
  | OrtDeviceEpIncompatibility_DEVICE_INCOMPATIBLE
  | OrtDeviceEpIncompatibility_MISSING_DEPENDENCY
  | OrtDeviceEpIncompatibility_UNKNOWN

primrec incompatibility_code :: "OrtDeviceEpIncompatibilityReason \<Rightarrow> int" where
  "incompatibility_code OrtDeviceEpIncompatibility_NONE = 0"
| "incompatibility_code OrtDeviceEpIncompatibility_DRIVER_INCOMPATIBLE = 1"
| "incompatibility_code OrtDeviceEpIncompatibility_DEVICE_INCOMPATIBLE = 2"
| "incompatibility_code OrtDeviceEpIncompatibility_MISSING_DEPENDENCY = 4"
| "incompatibility_code OrtDeviceEpIncompatibility_UNKNOWN = - 2147483648"

interpretation incompatibility: c_enum incompatibility_code "[OrtDeviceEpIncompatibility_NONE, OrtDeviceEpIncompatibility_DRIVER_INCOMPATIBLE, OrtDeviceEpIncompatibility_DEVICE_INCOMPATIBLE, OrtDeviceEpIncompatibility_MISSING_DEPENDENCY, OrtDeviceEpIncompatibility_UNKNOWN]"
  by unfold_locales (auto intro: OrtDeviceEpIncompatibilityReason.exhaust)

datatype OrtCudnnConvAlgoSearch =
    OrtCudnnConvAlgoSearchExhaustive
  | OrtCudnnConvAlgoSearchHeuristic
  | OrtCudnnConvAlgoSearchDefault

primrec conv_search_code :: "OrtCudnnConvAlgoSearch \<Rightarrow> int" where
  "conv_search_code OrtCudnnConvAlgoSearchExhaustive = 0"
| "conv_search_code OrtCudnnConvAlgoSearchHeuristic = 1"
| "conv_search_code OrtCudnnConvAlgoSearchDefault = 2"

interpretation conv_search: c_enum conv_search_code "[OrtCudnnConvAlgoSearchExhaustive, OrtCudnnConvAlgoSearchHeuristic, OrtCudnnConvAlgoSearchDefault]"
  by unfold_locales (auto intro: OrtCudnnConvAlgoSearch.exhaust)

datatype OrtExternalMemoryHandleType =
    ORT_EXTERNAL_MEMORY_HANDLE_TYPE_D3D12_RESOURCE
  | ORT_EXTERNAL_MEMORY_HANDLE_TYPE_D3D12_HEAP
  | ORT_EXTERNAL_MEMORY_HANDLE_TYPE_VK_MEMORY_WIN32
  | ORT_EXTERNAL_MEMORY_HANDLE_TYPE_VK_MEMORY_OPAQUE_FD

primrec external_memory_code :: "OrtExternalMemoryHandleType \<Rightarrow> int" where
  "external_memory_code ORT_EXTERNAL_MEMORY_HANDLE_TYPE_D3D12_RESOURCE = 0"
| "external_memory_code ORT_EXTERNAL_MEMORY_HANDLE_TYPE_D3D12_HEAP = 1"
| "external_memory_code ORT_EXTERNAL_MEMORY_HANDLE_TYPE_VK_MEMORY_WIN32 = 2"
| "external_memory_code ORT_EXTERNAL_MEMORY_HANDLE_TYPE_VK_MEMORY_OPAQUE_FD = 3"

interpretation external_memory: c_enum external_memory_code "[ORT_EXTERNAL_MEMORY_HANDLE_TYPE_D3D12_RESOURCE, ORT_EXTERNAL_MEMORY_HANDLE_TYPE_D3D12_HEAP, ORT_EXTERNAL_MEMORY_HANDLE_TYPE_VK_MEMORY_WIN32, ORT_EXTERNAL_MEMORY_HANDLE_TYPE_VK_MEMORY_OPAQUE_FD]"
  by unfold_locales (auto intro: OrtExternalMemoryHandleType.exhaust)

datatype OrtExternalSemaphoreType =
    ORT_EXTERNAL_SEMAPHORE_D3D12_FENCE
  | ORT_EXTERNAL_SEMAPHORE_VK_TIMELINE_SEMAPHORE_WIN32
  | ORT_EXTERNAL_SEMAPHORE_VK_TIMELINE_SEMAPHORE_OPAQUE_FD

primrec external_semaphore_code :: "OrtExternalSemaphoreType \<Rightarrow> int" where
  "external_semaphore_code ORT_EXTERNAL_SEMAPHORE_D3D12_FENCE = 0"
| "external_semaphore_code ORT_EXTERNAL_SEMAPHORE_VK_TIMELINE_SEMAPHORE_WIN32 = 1"
| "external_semaphore_code ORT_EXTERNAL_SEMAPHORE_VK_TIMELINE_SEMAPHORE_OPAQUE_FD = 2"

interpretation external_semaphore: c_enum external_semaphore_code "[ORT_EXTERNAL_SEMAPHORE_D3D12_FENCE, ORT_EXTERNAL_SEMAPHORE_VK_TIMELINE_SEMAPHORE_WIN32, ORT_EXTERNAL_SEMAPHORE_VK_TIMELINE_SEMAPHORE_OPAQUE_FD]"
  by unfold_locales (auto intro: OrtExternalSemaphoreType.exhaust)

datatype OrtGraphicsApi =
    ORT_GRAPHICS_API_NONE
  | ORT_GRAPHICS_API_D3D12
  | ORT_GRAPHICS_API_VULKAN

primrec graphics_api_code :: "OrtGraphicsApi \<Rightarrow> int" where
  "graphics_api_code ORT_GRAPHICS_API_NONE = 0"
| "graphics_api_code ORT_GRAPHICS_API_D3D12 = 1"
| "graphics_api_code ORT_GRAPHICS_API_VULKAN = 2"

interpretation graphics_api: c_enum graphics_api_code "[ORT_GRAPHICS_API_NONE, ORT_GRAPHICS_API_D3D12, ORT_GRAPHICS_API_VULKAN]"
  by unfold_locales (auto intro: OrtGraphicsApi.exhaust)

datatype OrtCompiledModelCompatibility =
    OrtCompiledModelCompatibility_EP_NOT_APPLICABLE
  | OrtCompiledModelCompatibility_EP_SUPPORTED_OPTIMAL
  | OrtCompiledModelCompatibility_EP_SUPPORTED_PREFER_RECOMPILATION
  | OrtCompiledModelCompatibility_EP_UNSUPPORTED

primrec compiled_model_code :: "OrtCompiledModelCompatibility \<Rightarrow> int" where
  "compiled_model_code OrtCompiledModelCompatibility_EP_NOT_APPLICABLE = 0"
| "compiled_model_code OrtCompiledModelCompatibility_EP_SUPPORTED_OPTIMAL = 1"
| "compiled_model_code OrtCompiledModelCompatibility_EP_SUPPORTED_PREFER_RECOMPILATION = 2"
| "compiled_model_code OrtCompiledModelCompatibility_EP_UNSUPPORTED = 3"

interpretation compiled_model: c_enum compiled_model_code "[OrtCompiledModelCompatibility_EP_NOT_APPLICABLE, OrtCompiledModelCompatibility_EP_SUPPORTED_OPTIMAL, OrtCompiledModelCompatibility_EP_SUPPORTED_PREFER_RECOMPILATION, OrtCompiledModelCompatibility_EP_UNSUPPORTED]"
  by unfold_locales (auto intro: OrtCompiledModelCompatibility.exhaust)

datatype OrtCustomOpInputOutputCharacteristic =
    INPUT_OUTPUT_REQUIRED
  | INPUT_OUTPUT_OPTIONAL
  | INPUT_OUTPUT_VARIADIC

primrec characteristic_code :: "OrtCustomOpInputOutputCharacteristic \<Rightarrow> int" where
  "characteristic_code INPUT_OUTPUT_REQUIRED = 0"
| "characteristic_code INPUT_OUTPUT_OPTIONAL = 1"
| "characteristic_code INPUT_OUTPUT_VARIADIC = 2"

interpretation characteristic: c_enum characteristic_code "[INPUT_OUTPUT_REQUIRED, INPUT_OUTPUT_OPTIONAL, INPUT_OUTPUT_VARIADIC]"
  by unfold_locales (auto intro: OrtCustomOpInputOutputCharacteristic.exhaust)

datatype OrtCompileApiFlags =
    OrtCompileApiFlags_NONE
  | OrtCompileApiFlags_ERROR_IF_NO_NODES_COMPILED
  | OrtCompileApiFlags_ERROR_IF_OUTPUT_FILE_EXISTS

primrec compile_flag_code :: "OrtCompileApiFlags \<Rightarrow> int" where
  "compile_flag_code OrtCompileApiFlags_NONE = 0"
| "compile_flag_code OrtCompileApiFlags_ERROR_IF_NO_NODES_COMPILED = 1"
| "compile_flag_code OrtCompileApiFlags_ERROR_IF_OUTPUT_FILE_EXISTS = 2"

interpretation compile_flag: c_enum compile_flag_code "[OrtCompileApiFlags_NONE, OrtCompileApiFlags_ERROR_IF_NO_NODES_COMPILED, OrtCompileApiFlags_ERROR_IF_OUTPUT_FILE_EXISTS]"
  by unfold_locales (auto intro: OrtCompileApiFlags.exhaust)

datatype OrtProfilingEventCategory =
    OrtProfilingEventCategory_SESSION
  | OrtProfilingEventCategory_NODE
  | OrtProfilingEventCategory_KERNEL
  | OrtProfilingEventCategory_API

primrec event_category_code :: "OrtProfilingEventCategory \<Rightarrow> int" where
  "event_category_code OrtProfilingEventCategory_SESSION = 0"
| "event_category_code OrtProfilingEventCategory_NODE = 1"
| "event_category_code OrtProfilingEventCategory_KERNEL = 2"
| "event_category_code OrtProfilingEventCategory_API = 3"

interpretation event_category: c_enum event_category_code "[OrtProfilingEventCategory_SESSION, OrtProfilingEventCategory_NODE, OrtProfilingEventCategory_KERNEL, OrtProfilingEventCategory_API]"
  by unfold_locales (auto intro: OrtProfilingEventCategory.exhaust)

datatype OrtResourceCountKind =
    OrtResourceCountKind_None
  | OrtResourceCountKind_TotalBytes

primrec resource_kind_code :: "OrtResourceCountKind \<Rightarrow> int" where
  "resource_kind_code OrtResourceCountKind_None = 0"
| "resource_kind_code OrtResourceCountKind_TotalBytes = 1"

interpretation resource_kind: c_enum resource_kind_code "[OrtResourceCountKind_None, OrtResourceCountKind_TotalBytes]"
  by unfold_locales (auto intro: OrtResourceCountKind.exhaust)

datatype OrtEpDataLayout =
    OrtEpDataLayout_NCHW
  | OrtEpDataLayout_NHWC

primrec data_layout_code :: "OrtEpDataLayout \<Rightarrow> int" where
  "data_layout_code OrtEpDataLayout_NCHW = 0"
| "data_layout_code OrtEpDataLayout_NHWC = 1"

definition OrtEpDataLayout_Default :: OrtEpDataLayout where
  "OrtEpDataLayout_Default = OrtEpDataLayout_NCHW"

interpretation data_layout: c_enum data_layout_code "[OrtEpDataLayout_NCHW, OrtEpDataLayout_NHWC]"
  by unfold_locales (auto intro: OrtEpDataLayout.exhaust)

datatype OrtGraphCaptureNodeAssignmentPolicy =
    OrtGraphCaptureNodeAssignmentPolicy_ALL_NODES_ON_EP
  | OrtGraphCaptureNodeAssignmentPolicy_ALLOW_CPU_FOR_SHAPES

primrec capture_policy_code :: "OrtGraphCaptureNodeAssignmentPolicy \<Rightarrow> int" where
  "capture_policy_code OrtGraphCaptureNodeAssignmentPolicy_ALL_NODES_ON_EP = 0"
| "capture_policy_code OrtGraphCaptureNodeAssignmentPolicy_ALLOW_CPU_FOR_SHAPES = 1"

interpretation capture_policy: c_enum capture_policy_code "[OrtGraphCaptureNodeAssignmentPolicy_ALL_NODES_ON_EP, OrtGraphCaptureNodeAssignmentPolicy_ALLOW_CPU_FOR_SHAPES]"
  by unfold_locales (auto intro: OrtGraphCaptureNodeAssignmentPolicy.exhaust)

datatype NNAPIFlags =
    NNAPI_FLAG_USE_NONE
  | NNAPI_FLAG_USE_FP16
  | NNAPI_FLAG_USE_NCHW
  | NNAPI_FLAG_CPU_DISABLED
  | NNAPI_FLAG_CPU_ONLY

primrec nnapi_flag_code :: "NNAPIFlags \<Rightarrow> int" where
  "nnapi_flag_code NNAPI_FLAG_USE_NONE = 0"
| "nnapi_flag_code NNAPI_FLAG_USE_FP16 = 1"
| "nnapi_flag_code NNAPI_FLAG_USE_NCHW = 2"
| "nnapi_flag_code NNAPI_FLAG_CPU_DISABLED = 4"
| "nnapi_flag_code NNAPI_FLAG_CPU_ONLY = 8"

definition NNAPI_FLAG_LAST :: NNAPIFlags where
  "NNAPI_FLAG_LAST = NNAPI_FLAG_CPU_ONLY"

interpretation nnapi_flag: c_enum nnapi_flag_code "[NNAPI_FLAG_USE_NONE, NNAPI_FLAG_USE_FP16, NNAPI_FLAG_USE_NCHW, NNAPI_FLAG_CPU_DISABLED, NNAPI_FLAG_CPU_ONLY]"
  by unfold_locales (auto intro: NNAPIFlags.exhaust)

section \<open>Flags\<close>

text \<open>
  Flags are or-ed into an unsigned word of 32 bits. A flag enumeration has, besides a value for none,
  values of one bit each.
\<close>

definition flag_bits :: "('a \<Rightarrow> int) \<Rightarrow> 'a \<Rightarrow> 32 word" where
  "flag_bits code f = word_of_int (code f)"

definition flag_word :: "('a \<Rightarrow> int) \<Rightarrow> 'a list \<Rightarrow> 32 word" where
  "flag_word code fs = foldr (\<lambda>f w. or (flag_bits code f) w) fs 0"

definition has_flag :: "('a \<Rightarrow> int) \<Rightarrow> 32 word \<Rightarrow> 'a \<Rightarrow> bool" where
  "has_flag code w f = (and w (flag_bits code f) \<noteq> 0)"

locale flag_enum = c_enum +
  fixes position :: "'a \<Rightarrow> nat" and none :: 'a
  assumes none_bits: "flag_bits code none = 0"
    and one_bit: "x \<noteq> none \<Longrightarrow> flag_bits code x = push_bit (position x) 1 \<and> position x < 32"
    and positions: "x \<noteq> none \<Longrightarrow> y \<noteq> none \<Longrightarrow> position x = position y \<Longrightarrow> x = y"
begin

lemma bit_flag: "bit (flag_bits code x) n \<longleftrightarrow> x \<noteq> none \<and> n = position x"
  using none_bits one_bit [of x] by (cases "x = none") (auto simp: bit_simps)

lemma bit_flag_word: "bit (flag_word code fs) n \<longleftrightarrow> (\<exists>f \<in> set fs. f \<noteq> none \<and> position f = n)"
  by (induction fs) (auto simp: flag_word_def bit_simps bit_flag)

text \<open>A word of flags says exactly which flags are in it; order and repetition do not matter.\<close>

lemma has_flag_word: "has_flag code (flag_word code fs) f \<longleftrightarrow> f \<noteq> none \<and> f \<in> set fs"
proof -
  have "has_flag code (flag_word code fs) f \<longleftrightarrow> (\<exists>n. bit (flag_word code fs) n \<and> bit (flag_bits code f) n)"
    by (auto simp: has_flag_def bit_eq_iff bit_simps dest: bit_imp_le_length [where 'a = 32, simplified])
  then show ?thesis using positions by (auto simp: bit_flag_word bit_flag)
qed

lemma flag_word_set: "set fs - {none} = set gs - {none} \<Longrightarrow> flag_word code fs = flag_word code gs"
  by (rule bit_word_eqI) (auto simp: bit_flag_word)

end

primrec nnapi_position :: "NNAPIFlags \<Rightarrow> nat" where
  "nnapi_position NNAPI_FLAG_USE_NONE = 0"
| "nnapi_position NNAPI_FLAG_USE_FP16 = 0"
| "nnapi_position NNAPI_FLAG_USE_NCHW = 1"
| "nnapi_position NNAPI_FLAG_CPU_DISABLED = 2"
| "nnapi_position NNAPI_FLAG_CPU_ONLY = 3"

primrec compile_position :: "OrtCompileApiFlags \<Rightarrow> nat" where
  "compile_position OrtCompileApiFlags_NONE = 0"
| "compile_position OrtCompileApiFlags_ERROR_IF_NO_NODES_COMPILED = 0"
| "compile_position OrtCompileApiFlags_ERROR_IF_OUTPUT_FILE_EXISTS = 1"

primrec incompatibility_position :: "OrtDeviceEpIncompatibilityReason \<Rightarrow> nat" where
  "incompatibility_position OrtDeviceEpIncompatibility_NONE = 0"
| "incompatibility_position OrtDeviceEpIncompatibility_DRIVER_INCOMPATIBLE = 0"
| "incompatibility_position OrtDeviceEpIncompatibility_DEVICE_INCOMPATIBLE = 1"
| "incompatibility_position OrtDeviceEpIncompatibility_MISSING_DEPENDENCY = 2"
| "incompatibility_position OrtDeviceEpIncompatibility_UNKNOWN = 31"

interpretation nnapi_flags: flag_enum nnapi_flag_code
    "[NNAPI_FLAG_USE_NONE, NNAPI_FLAG_USE_FP16, NNAPI_FLAG_USE_NCHW, NNAPI_FLAG_CPU_DISABLED, NNAPI_FLAG_CPU_ONLY]"
    nnapi_position NNAPI_FLAG_USE_NONE
proof unfold_locales
  fix x y
  show "flag_bits nnapi_flag_code NNAPI_FLAG_USE_NONE = 0" by (simp add: flag_bits_def)
  show "x \<noteq> NNAPI_FLAG_USE_NONE \<Longrightarrow> flag_bits nnapi_flag_code x = push_bit (nnapi_position x) 1 \<and> nnapi_position x < 32"
    by (cases x) (simp_all add: flag_bits_def)
  show "x \<noteq> NNAPI_FLAG_USE_NONE \<Longrightarrow> y \<noteq> NNAPI_FLAG_USE_NONE \<Longrightarrow> nnapi_position x = nnapi_position y \<Longrightarrow> x = y"
    by (cases x; cases y) simp_all
qed

interpretation compile_flags: flag_enum compile_flag_code
    "[OrtCompileApiFlags_NONE, OrtCompileApiFlags_ERROR_IF_NO_NODES_COMPILED, OrtCompileApiFlags_ERROR_IF_OUTPUT_FILE_EXISTS]"
    compile_position OrtCompileApiFlags_NONE
proof unfold_locales
  fix x y
  show "flag_bits compile_flag_code OrtCompileApiFlags_NONE = 0" by (simp add: flag_bits_def)
  show "x \<noteq> OrtCompileApiFlags_NONE \<Longrightarrow> flag_bits compile_flag_code x = push_bit (compile_position x) 1 \<and> compile_position x < 32"
    by (cases x) (simp_all add: flag_bits_def)
  show "x \<noteq> OrtCompileApiFlags_NONE \<Longrightarrow> y \<noteq> OrtCompileApiFlags_NONE \<Longrightarrow> compile_position x = compile_position y \<Longrightarrow> x = y"
    by (cases x; cases y) simp_all
qed

interpretation incompatibility_flags: flag_enum incompatibility_code
    "[OrtDeviceEpIncompatibility_NONE, OrtDeviceEpIncompatibility_DRIVER_INCOMPATIBLE,
      OrtDeviceEpIncompatibility_DEVICE_INCOMPATIBLE, OrtDeviceEpIncompatibility_MISSING_DEPENDENCY,
      OrtDeviceEpIncompatibility_UNKNOWN]"
    incompatibility_position OrtDeviceEpIncompatibility_NONE
proof unfold_locales
  fix x y
  show "flag_bits incompatibility_code OrtDeviceEpIncompatibility_NONE = 0" by (simp add: flag_bits_def)
  show "x \<noteq> OrtDeviceEpIncompatibility_NONE \<Longrightarrow>
      flag_bits incompatibility_code x = push_bit (incompatibility_position x) 1 \<and> incompatibility_position x < 32"
    by (cases x) (simp_all add: flag_bits_def)
  show "x \<noteq> OrtDeviceEpIncompatibility_NONE \<Longrightarrow> y \<noteq> OrtDeviceEpIncompatibility_NONE \<Longrightarrow>
      incompatibility_position x = incompatibility_position y \<Longrightarrow> x = y"
    by (cases x; cases y) simp_all
qed

section \<open>Structures with constructors\<close>

text \<open>
  The defaults a C++ user of the headers gets. \<open>SIZE_MAX\<close> on the 64-bit platform of the application;
  pointers are addresses, C strings may be null.
\<close>

definition SIZE_MAX :: "64 word" where
  "SIZE_MAX = - 1"

record OrtCUDAProviderOptions =
  cuda_device_id :: int
  cudnn_conv_algo_search :: OrtCudnnConvAlgoSearch
  cuda_gpu_mem_limit :: "64 word"
  cuda_arena_extend_strategy :: int
  cuda_do_copy_in_default_stream :: int
  cuda_has_user_compute_stream :: int
  cuda_user_compute_stream :: nat
  cuda_default_memory_arena_cfg :: nat
  cuda_tunable_op_enable :: int
  cuda_tunable_op_tuning_enable :: int
  cuda_tunable_op_max_tuning_duration_ms :: int

definition OrtCUDAProviderOptions_new :: OrtCUDAProviderOptions where
  "OrtCUDAProviderOptions_new = \<lparr>cuda_device_id = 0, cudnn_conv_algo_search = OrtCudnnConvAlgoSearchExhaustive,
     cuda_gpu_mem_limit = SIZE_MAX, cuda_arena_extend_strategy = 0, cuda_do_copy_in_default_stream = 1,
     cuda_has_user_compute_stream = 0, cuda_user_compute_stream = 0, cuda_default_memory_arena_cfg = 0,
     cuda_tunable_op_enable = 0, cuda_tunable_op_tuning_enable = 0, cuda_tunable_op_max_tuning_duration_ms = 0\<rparr>"

record OrtROCMProviderOptions =
  rocm_device_id :: int
  miopen_conv_exhaustive_search :: int
  rocm_gpu_mem_limit :: "64 word"
  rocm_arena_extend_strategy :: int
  rocm_do_copy_in_default_stream :: int
  rocm_has_user_compute_stream :: int
  rocm_user_compute_stream :: nat
  rocm_default_memory_arena_cfg :: nat
  rocm_enable_hip_graph :: int
  rocm_tunable_op_enable :: int
  rocm_tunable_op_tuning_enable :: int
  rocm_tunable_op_max_tuning_duration_ms :: int

definition OrtROCMProviderOptions_new :: OrtROCMProviderOptions where
  "OrtROCMProviderOptions_new = \<lparr>rocm_device_id = 0, miopen_conv_exhaustive_search = 0,
     rocm_gpu_mem_limit = SIZE_MAX, rocm_arena_extend_strategy = 0, rocm_do_copy_in_default_stream = 1,
     rocm_has_user_compute_stream = 0, rocm_user_compute_stream = 0, rocm_default_memory_arena_cfg = 0,
     rocm_enable_hip_graph = 0, rocm_tunable_op_enable = 0, rocm_tunable_op_tuning_enable = 0,
     rocm_tunable_op_max_tuning_duration_ms = 0\<rparr>"

record OrtOpenVINOProviderOptions =
  vino_device_type :: "string option"
  vino_enable_npu_fast_compile :: "8 word"
  vino_device_id :: "string option"
  vino_num_of_threads :: "64 word"
  vino_cache_dir :: "string option"
  vino_context :: nat
  vino_enable_opencl_throttling :: "8 word"
  vino_enable_dynamic_shapes :: "8 word"

definition OrtOpenVINOProviderOptions_new :: OrtOpenVINOProviderOptions where
  "OrtOpenVINOProviderOptions_new = \<lparr>vino_device_type = None, vino_enable_npu_fast_compile = 0, vino_device_id = None,
     vino_num_of_threads = 0, vino_cache_dir = None, vino_context = 0, vino_enable_opencl_throttling = 0,
     vino_enable_dynamic_shapes = 0\<rparr>"

text \<open>\<open>OrtResourceCount\<close>: a tag and a union, of which the member in use is a 64-bit number.\<close>

record OrtResourceCount =
  rc_kind :: "32 word"
  rc_reserved :: "32 word"
  rc_total_bytes :: "64 word"

definition OrtResourceCount_new :: OrtResourceCount where
  "OrtResourceCount_new = \<lparr>rc_kind = word_of_int (resource_kind_code OrtResourceCountKind_None), rc_reserved = 0,
     rc_total_bytes = 0\<rparr>"

definition OrtResourceCount_None :: OrtResourceCount where
  "OrtResourceCount_None = OrtResourceCount_new"

definition OrtResourceCount_FromTotalBytes :: "64 word \<Rightarrow> OrtResourceCount" where
  "OrtResourceCount_FromTotalBytes n =
     (let rc = OrtResourceCount_new;
          rc = rc\<lparr>rc_kind := word_of_int (resource_kind_code OrtResourceCountKind_TotalBytes)\<rparr>
      in rc\<lparr>rc_total_bytes := n\<rparr>)"

definition OrtResourceCount_AsTotalBytes :: "OrtResourceCount \<Rightarrow> 64 word" where
  "OrtResourceCount_AsTotalBytes rc = rc_total_bytes rc"

text \<open>A count is read back, with its kind, and counts of bytes differ from no count, also zero bytes.\<close>

lemma resource_count_roundtrip:
  "OrtResourceCount_AsTotalBytes (OrtResourceCount_FromTotalBytes n) = n"
  "enum_of resource_kind_code [OrtResourceCountKind_None, OrtResourceCountKind_TotalBytes]
     (uint (rc_kind (OrtResourceCount_FromTotalBytes n))) = Some OrtResourceCountKind_TotalBytes"
  "OrtResourceCount_FromTotalBytes n \<noteq> OrtResourceCount_None" "rc_reserved (OrtResourceCount_FromTotalBytes n) = 0"
  by (simp_all add: OrtResourceCount_AsTotalBytes_def OrtResourceCount_FromTotalBytes_def OrtResourceCount_new_def
      OrtResourceCount_None_def Let_def enum_of_def)

end
