(* ===== verification/Ort_Global.thy ===== *)
theory Ort_Global imports Ort_Base Ort_Data begin

text \<open>
  The pointer to the API table behind every wrapper (\<open>detail::Global\<close> of \<open>onnxruntime_cxx_api.h\<close>) in both
  builds, with and without \<open>ORT_API_MANUAL_INIT\<close>, and the exception of the wrappers.
\<close>

section \<open>The global table\<close>

text \<open>
  \<open>api\<close> is the block-level static: not yet initialised, or a pointer, perhaps null. \<open>base_calls\<close> counts the
  calls of \<open>OrtGetApiBase()->GetApi\<close>; what it returns for a version is a parameter.
\<close>

record global_state =
  api :: "ptr option"
  base_calls :: nat

type_synonym api_base = "nat \<Rightarrow> nat \<Rightarrow> ptr"

text \<open>The parameter yields the table for a version, at the given call.\<close>

definition base_GetApi :: "api_base \<Rightarrow> (global_state, ptr) action" where
  "base_GetApi G = (\<lambda>s. (Ok (G ORT_API_VERSION (base_calls s)), s\<lparr>base_calls := base_calls s + 1\<rparr>))"

definition DefaultInit :: "bool \<Rightarrow> api_base \<Rightarrow> (global_state, ptr) action" where
  "DefaultInit manual G = (if manual then mret 0 else base_GetApi G)"

definition Global_Api :: "bool \<Rightarrow> api_base \<Rightarrow> ptr \<Rightarrow> (global_state, ptr) action" where
  "Global_Api manual G newValue =
     mthen (mbind (mget api) (\<lambda>a. case a of
         None \<Rightarrow> mbind (DefaultInit manual G) (\<lambda>p. mmodify (\<lambda>s. s\<lparr>api := Some p\<rparr>))
       | Some p \<Rightarrow> mret ()))
    (mthen (if newValue \<noteq> 0 then mmodify (\<lambda>s. s\<lparr>api := Some newValue\<rparr>) else mret ())
      (mget (\<lambda>s. case api s of None \<Rightarrow> 0 | Some p \<Rightarrow> p)))"

text \<open>\<open>InitApi\<close> exists in the manual build only.\<close>

definition InitApi :: "api_base \<Rightarrow> ptr \<Rightarrow> (global_state, unit) action" where
  "InitApi G p = mthen (Global_Api True G p) (mret ())"

definition InitApi_2 :: "api_base \<Rightarrow> (global_state, unit) action" where
  "InitApi_2 G = mbind (base_GetApi G) (InitApi G)"

text \<open>The reference is formed from whatever the pointer is: from null, that is undefined.\<close>

definition GetApi :: "bool \<Rightarrow> api_base \<Rightarrow> (global_state, ptr) action" where
  "GetApi manual G = mbind (Global_Api manual G 0) (\<lambda>p. if p = 0 then mcrash ''null reference'' else mret p)"

section \<open>What the wrappers see\<close>

lemmas global_defs = DefaultInit_def Global_Api_def InitApi_def InitApi_2_def GetApi_def base_GetApi_def
  mthen_def mbind_def mret_def mget_def mmodify_def mcrash_def

definition fresh_global :: global_state where
  "fresh_global = \<lparr>api = None, base_calls = 0\<rparr>"

text \<open>The calls of a program, in any order; \<open>None\<close> is a call of \<open>GetApi\<close>, \<open>Some p\<close> one of \<open>InitApi(p)\<close>.\<close>

fun global_calls :: "bool \<Rightarrow> api_base \<Rightarrow> ptr option list \<Rightarrow> (global_state, ptr list) action" where
  "global_calls manual G [] = mret []"
| "global_calls manual G (None # cs) = mbind (GetApi manual G) (\<lambda>p. mbind (global_calls manual G cs) (\<lambda>ps. mret (p # ps)))"
| "global_calls manual G (Some p # cs) = mthen (InitApi G p) (global_calls manual G cs)"

text \<open>The table that is current after a prefix of the calls: the newest that is not null.\<close>

fun current_tables :: "ptr \<Rightarrow> ptr option list \<Rightarrow> ptr list" where
  "current_tables p [] = []"
| "current_tables p (None # cs) = p # current_tables p cs"
| "current_tables p (Some q # cs) = current_tables (if q = 0 then p else q) cs"

text \<open>
  Without manual initialisation the table is fetched by the first use, once; every \<open>GetApi\<close> yields it. With
  it, \<open>GetApi\<close> is undefined until a table is set, and yields the one set last.
\<close>

lemma GetApi_known: "api s = Some p \<Longrightarrow> p \<noteq> 0 \<Longrightarrow> GetApi manual G s = (Ok p, s)"
  by (simp add: global_defs)

lemma global_automatic_known:
  assumes "api s = Some p" "p \<noteq> 0"
  shows "global_calls False G (replicate n None) s = (Ok (replicate n p), s)"
  using GetApi_known [OF assms] by (induction n) (simp_all add: mbind_def mret_def)

lemma global_automatic:
  assumes "G ORT_API_VERSION 0 \<noteq> 0"
  shows "\<exists>s. global_calls False G (replicate (Suc n) None) fresh_global = (Ok (replicate (Suc n) (G ORT_API_VERSION 0)), s)
     \<and> base_calls s = 1"
proof -
  let ?s = "\<lparr>api = Some (G ORT_API_VERSION 0), base_calls = 1\<rparr>"
  have "GetApi False G fresh_global = (Ok (G ORT_API_VERSION 0), ?s)"
    using assms by (simp add: global_defs fresh_global_def)
  with global_automatic_known [of ?s "G ORT_API_VERSION 0" G n] assms show ?thesis
    by (simp add: mbind_def mret_def)
qed

lemma InitApi_known: "api s = Some p \<Longrightarrow> InitApi G q s = (Ok (), s\<lparr>api := Some (if q = 0 then p else q)\<rparr>)"
  by (simp add: global_defs)

lemma global_manual_known:
  assumes "api s = Some p" "p \<noteq> 0"
  shows "\<exists>t. global_calls True G cs s = (Ok (current_tables p cs), t) \<and> base_calls t = base_calls s"
  using assms
proof (induction cs arbitrary: s p)
  case Nil
  then show ?case by (simp add: mret_def)
next
  case (Cons c cs)
  show ?case
  proof (cases c)
    case None
    obtain t where "global_calls True G cs s = (Ok (current_tables p cs), t)" "base_calls t = base_calls s"
      using Cons.IH [OF Cons.prems] by blast
    then show ?thesis using None GetApi_known [OF Cons.prems] by (simp add: mbind_def mret_def)
  next
    case (Some q)
    let ?q = "if q = 0 then p else q"
    obtain t where "global_calls True G cs (s\<lparr>api := Some ?q\<rparr>) = (Ok (current_tables ?q cs), t)" "base_calls t = base_calls s"
      using Cons.IH [of "s\<lparr>api := Some ?q\<rparr>" ?q] Cons.prems by (cases "q = 0") auto
    then show ?thesis using Some InitApi_known [OF Cons.prems(1)] by (simp add: mthen_def mbind_def)
  qed
qed

lemma global_manual:
  assumes "p \<noteq> 0"
  shows "\<exists>t. global_calls True G (Some p # cs) fresh_global = (Ok (current_tables p cs), t) \<and> base_calls t = 0"
    "fst (GetApi True G fresh_global) = Crash ''null reference''"
proof -
  let ?s = "\<lparr>api = Some p, base_calls = 0\<rparr>"
  have "InitApi G p fresh_global = (Ok (), ?s)" using assms by (simp add: global_defs fresh_global_def)
  with global_manual_known [of ?s p G cs] assms
  show "\<exists>t. global_calls True G (Some p # cs) fresh_global = (Ok (current_tables p cs), t) \<and> base_calls t = 0"
    by (auto simp: mthen_def mbind_def)
  show "fst (GetApi True G fresh_global) = Crash ''null reference''" by (simp add: global_defs fresh_global_def)
qed

text \<open>\<open>InitApi(nullptr)\<close> before the first use leaves null: the static is initialised by then.\<close>

lemma null_init_is_kept:
  "fst (mthen (InitApi G 0) (GetApi True G) fresh_global) = Crash ''null reference''"
  by (simp add: global_defs fresh_global_def)

end
