(* ===== verification/Ort_Logging.thy ===== *)
theory Ort_Logging imports Ort_Resources begin

text \<open>
  Code that stands in the class declarations of \<open>onnxruntime_cxx_api.h\<close>: the logging macros, which look
  at the cached level before they call the runtime, and the attribute templates of \<open>KernelInfoImpl\<close>.
\<close>

section \<open>Macros\<close>

text \<open>
  \<open>file\<close>, \<open>line\<close> and \<open>func\<close> are \<open>ORT_FILE\<close>, \<open>__LINE__\<close> and \<open>__FUNCTION__\<close> of the place. The status is a
  temporary: it is released at the end of the statement, also when \<open>ThrowOnError\<close> throws.
\<close>

definition ORT_CXX_LOG :: "'w api \<Rightarrow> string \<Rightarrow> int \<Rightarrow> string \<Rightarrow> logger \<Rightarrow> OrtLoggingLevel \<Rightarrow> string \<Rightarrow> ('w ort, unit) action" where
  "ORT_CXX_LOG A file line func lg severity message =
     (if logging_level_code severity \<ge> Logger_GetLoggingSeverityLevel lg then
        mbind (Logger_LogMessage A (logger_handle lg) (logging_level_code severity) file line func message) (\<lambda>st.
        scoped A ''Status'' st (ThrowOnError_ref A st))
      else mret ())"

definition ORT_CXX_LOG_NOEXCEPT :: "'w api \<Rightarrow> string \<Rightarrow> int \<Rightarrow> string \<Rightarrow> logger \<Rightarrow> OrtLoggingLevel \<Rightarrow> string
    \<Rightarrow> ('w ort, unit) action" where
  "ORT_CXX_LOG_NOEXCEPT A file line func lg severity message =
     (if logging_level_code severity \<ge> Logger_GetLoggingSeverityLevel lg then
        mbind (Logger_LogMessage A (logger_handle lg) (logging_level_code severity) file line func message) (\<lambda>st.
        OrtRelease A ''Status'' st)
      else mret ())"

text \<open>The formatting variants; \<open>formatted\<close> is what the format expands to, if it can be expanded.\<close>

definition ORT_CXX_LOGF :: "'w api \<Rightarrow> string \<Rightarrow> int \<Rightarrow> string \<Rightarrow> logger \<Rightarrow> OrtLoggingLevel \<Rightarrow> string option
    \<Rightarrow> ('w ort, unit) action" where
  "ORT_CXX_LOGF A file line func lg severity formatted =
     (if logging_level_code severity \<ge> Logger_GetLoggingSeverityLevel lg then
        mbind (Logger_LogFormattedMessage A (logger_handle lg) (logging_level_code severity) file line func formatted) (\<lambda>st.
        scoped A ''Status'' st (ThrowOnError_ref A st))
      else mret ())"

definition ORT_CXX_LOGF_NOEXCEPT :: "'w api \<Rightarrow> string \<Rightarrow> int \<Rightarrow> string \<Rightarrow> logger \<Rightarrow> OrtLoggingLevel \<Rightarrow> string option
    \<Rightarrow> ('w ort, unit) action" where
  "ORT_CXX_LOGF_NOEXCEPT A file line func lg severity formatted =
     (if logging_level_code severity \<ge> Logger_GetLoggingSeverityLevel lg then
        mbind (Logger_LogFormattedMessage A (logger_handle lg) (logging_level_code severity) file line func formatted) (\<lambda>st.
        OrtRelease A ''Status'' st)
      else mret ())"

text \<open>No macro leaves a status behind, on any way out.\<close>

lemma settles_logged:
  assumes "hands_over statuses m" "\<And>st. settles statuses (own st) (k st) (\<lambda>_. none) none"
  shows "keeps statuses (if b then mbind m k else mret ())"
  using assms by (auto simp: keeps_def hands_over_def intro: settles_bind settles_ret)

lemma hands_over_message: "hands_over statuses (Logger_LogMessage A p lvl file line func msg)"
  unfolding Logger_LogMessage_def by (rule hands_over_as_status) simp

lemma hands_over_formatted: "hands_over statuses (Logger_LogFormattedMessage A p lvl file line func formatted)"
  by (cases formatted)
    (simp_all add: Logger_LogFormattedMessage_def Let_def hands_over_as_status Status_make_def flip: as_status_def)

lemma macros_keep_statuses:
  "keeps statuses (ORT_CXX_LOG A file line func lg severity message)"
  "keeps statuses (ORT_CXX_LOG_NOEXCEPT A file line func lg severity message)"
  "keeps statuses (ORT_CXX_LOGF A file line func lg severity formatted)"
  "keeps statuses (ORT_CXX_LOGF_NOEXCEPT A file line func lg severity formatted)"
  unfolding ORT_CXX_LOG_def ORT_CXX_LOG_NOEXCEPT_def ORT_CXX_LOGF_def ORT_CXX_LOGF_NOEXCEPT_def
  by (intro settles_logged hands_over_message hands_over_formatted settles_scoped_Status keeps_ThrowOnError_ref
      settles_OrtRelease_Status)+

text \<open>Below the level of the logger a macro does nothing at all: no call reaches the runtime.\<close>

lemma macros_mute:
  assumes "logging_level_code severity < cached_severity_level lg"
  shows "ORT_CXX_LOG A file line func lg severity message s = (Ok (), s)"
    "ORT_CXX_LOG_NOEXCEPT A file line func lg severity message s = (Ok (), s)"
    "ORT_CXX_LOGF A file line func lg severity formatted s = (Ok (), s)"
    "ORT_CXX_LOGF_NOEXCEPT A file line func lg severity formatted s = (Ok (), s)"
  using assms by (simp_all add: ORT_CXX_LOG_def ORT_CXX_LOG_NOEXCEPT_def ORT_CXX_LOGF_def ORT_CXX_LOGF_NOEXCEPT_def
      Logger_GetLoggingSeverityLevel_def mret_def)

text \<open>The \<open>NOEXCEPT\<close> macros throw nothing.\<close>

definition throws_nothing :: "('s, 'a) action \<Rightarrow> bool" where
  "throws_nothing m \<longleftrightarrow> (\<forall>s e. fst (m s) \<noteq> Throw e)"

lemma throws_nothing_intros:
  "throws_nothing (mret x)" "throws_nothing (mcrash c)"
  "throws_nothing m \<Longrightarrow> (\<And>x. throws_nothing (k x)) \<Longrightarrow> throws_nothing (mbind m k)"
  "(\<And>e. throws_nothing (h e)) \<Longrightarrow> throws_nothing (mcatch m' h)"
  by (auto simp: throws_nothing_def mret_def mcrash_def mbind_def mcatch_def split: prod.splits outcome.splits)
    (metis fst_conv)+

lemma throws_nothing_calls:
  "throws_nothing (OrtRelease A k p)" "throws_nothing (as_status A OrtApi n args)"
  unfolding OrtRelease_def as_status_def api_call_def call_status_def mthen_def
  by (intro throws_nothing_intros; simp add: throws_nothing_def transact_def mret_def Let_def split: prod.splits)+

lemma noexcept_macros:
  "throws_nothing (ORT_CXX_LOG_NOEXCEPT A file line func lg severity message)"
  "throws_nothing (ORT_CXX_LOGF_NOEXCEPT A file line func lg severity formatted)"
proof -
  have "throws_nothing (Logger_LogFormattedMessage A p lvl file line func formatted)" for p lvl
    by (cases formatted) (simp_all add: Logger_LogFormattedMessage_def Let_def throws_nothing_calls Status_make_def flip: as_status_def)
  then show "throws_nothing (ORT_CXX_LOGF_NOEXCEPT A file line func lg severity formatted)"
    by (simp add: ORT_CXX_LOGF_NOEXCEPT_def throws_nothing_intros throws_nothing_calls)
  show "throws_nothing (ORT_CXX_LOG_NOEXCEPT A file line func lg severity message)"
    by (simp add: ORT_CXX_LOG_NOEXCEPT_def Logger_LogMessage_def throws_nothing_intros throws_nothing_calls)
qed

section \<open>Attributes of a kernel\<close>

text \<open>
  \<open>GetAttribute<R>\<close> and \<open>GetAttributes<R>\<close>: the overload of \<open>GetAttr\<close> or \<open>GetAttrs\<close> that \<open>R\<close> selects
  fills a local value, which is returned.
\<close>

definition KernelInfo_GetAttribute :: "('w api \<Rightarrow> ptr \<Rightarrow> string \<Rightarrow> ('w ort, 'r) action) \<Rightarrow> 'w api \<Rightarrow> ptr \<Rightarrow> string
    \<Rightarrow> ('w ort, 'r) action" where
  "KernelInfo_GetAttribute GetAttr A p nm = mbind (GetAttr A p nm) mret"

definition KernelInfo_GetAttributes :: "('w api \<Rightarrow> ptr \<Rightarrow> string \<Rightarrow> ('w ort, 'r list) action) \<Rightarrow> 'w api \<Rightarrow> ptr \<Rightarrow> string
    \<Rightarrow> ('w ort, 'r list) action" where
  "KernelInfo_GetAttributes GetAttrs A p nm = mbind (GetAttrs A p nm) mret"

lemma attribute_calls: "other_call ''KernelInfoGetAttribute_float''" "other_call ''KernelInfoGetAttribute_int64''"
  "other_call ''KernelInfoGetAttribute_string''" "other_call ''KernelInfoGetAttributeArray_float''"
  "other_call ''KernelInfoGetAttributeArray_int64''"
  by code_simp+

text \<open>Reading an attribute leaves no resource behind, whether it is there or not.\<close>

lemma attributes_keep:
  "keeps (account R) (KernelInfo_GetAttribute AttrUtils_GetAttr A p nm)"
  "keeps (account R) (KernelInfo_GetAttribute AttrUtils_GetAttr_2 A p nm)"
  "keeps (account R) (KernelInfo_GetAttribute AttrUtils_GetAttr_3 A p nm)"
  "keeps (account R) (KernelInfo_GetAttributes AttrUtils_GetAttrs A p nm)"
  "keeps (account R) (KernelInfo_GetAttributes AttrUtils_GetAttrs_2 A p nm)"
  unfolding KernelInfo_GetAttribute_def KernelInfo_GetAttributes_def AttrUtils_GetAttr_def AttrUtils_GetAttr_2_def
    AttrUtils_GetAttr_3_def AttrUtils_GetAttrs_def AttrUtils_GetAttrs_2_def get_attr_array_def
  by (intro keeps_intros keeps_account_call attribute_calls)+

end
