(* ===== verification/Ort_Custom_Op_Base.thy ===== *)
theory Ort_Custom_Op_Base imports Ort_Custom_Ops Ort_Data begin

text \<open>
  \<open>CustomOpBase\<close> of \<open>onnxruntime_cxx_api.h\<close>: the constructor that fills the function table of an
  \<open>OrtCustomOp\<close> for an operator class, with the defaults for the members the class does not declare.
\<close>

section \<open>The function table\<close>

text \<open>
  A slot of the table: indeterminate as long as nothing was assigned, null, or a function. \<open>'op\<close> are the
  operator objects, \<open>'s\<close> the state their functions act on; kernels are addresses.
\<close>

datatype 'f slot = Indeterminate | Null | Fn 'f

record ('op, 's) OrtCustomOp =
  op_version :: nat
  CreateKernel :: "('op \<Rightarrow> ptr \<Rightarrow> ('s, ptr) action) slot"
  GetName :: "('op \<Rightarrow> string) slot"
  GetExecutionProviderType :: "('op \<Rightarrow> string option) slot"
  GetInputType :: "('op \<Rightarrow> nat \<Rightarrow> ONNXTensorElementDataType) slot"
  GetInputTypeCount :: "('op \<Rightarrow> nat) slot"
  GetOutputType :: "('op \<Rightarrow> nat \<Rightarrow> ONNXTensorElementDataType) slot"
  GetOutputTypeCount :: "('op \<Rightarrow> nat) slot"
  KernelCompute :: "(ptr \<Rightarrow> ptr \<Rightarrow> ('s, unit) action) slot"
  KernelDestroy :: "(ptr \<Rightarrow> ('s, unit) action) slot"
  GetInputCharacteristic :: "('op \<Rightarrow> nat \<Rightarrow> OrtCustomOpInputOutputCharacteristic) slot"
  GetOutputCharacteristic :: "('op \<Rightarrow> nat \<Rightarrow> OrtCustomOpInputOutputCharacteristic) slot"
  GetInputMemoryType :: "('op \<Rightarrow> nat \<Rightarrow> OrtMemType) slot"
  GetVariadicInputMinArity :: "('op \<Rightarrow> int) slot"
  GetVariadicInputHomogeneity :: "('op \<Rightarrow> int) slot"
  GetVariadicOutputMinArity :: "('op \<Rightarrow> int) slot"
  GetVariadicOutputHomogeneity :: "('op \<Rightarrow> int) slot"
  CreateKernelV2 :: "('op \<Rightarrow> ptr \<Rightarrow> ('s, ptr \<times> ptr) action) slot"
  KernelComputeV2 :: "(ptr \<Rightarrow> ptr \<Rightarrow> ('s, ptr) action) slot"
  InferOutputShapeFn :: "('op \<Rightarrow> ptr \<Rightarrow> ('s, ptr) action) slot"
  GetStartVersion :: "('op \<Rightarrow> int) slot"
  GetEndVersion :: "('op \<Rightarrow> int) slot"
  GetMayInplace :: "unit slot"
  ReleaseMayInplace :: "unit slot"
  GetAliasMap :: "unit slot"
  ReleaseAliasMap :: "unit slot"

definition indeterminate_op :: "('op, 's) OrtCustomOp" where
  "indeterminate_op = \<lparr>op_version = 0, CreateKernel = Indeterminate, GetName = Indeterminate,
     GetExecutionProviderType = Indeterminate, GetInputType = Indeterminate, GetInputTypeCount = Indeterminate,
     GetOutputType = Indeterminate, GetOutputTypeCount = Indeterminate, KernelCompute = Indeterminate,
     KernelDestroy = Indeterminate, GetInputCharacteristic = Indeterminate, GetOutputCharacteristic = Indeterminate,
     GetInputMemoryType = Indeterminate, GetVariadicInputMinArity = Indeterminate,
     GetVariadicInputHomogeneity = Indeterminate, GetVariadicOutputMinArity = Indeterminate,
     GetVariadicOutputHomogeneity = Indeterminate, CreateKernelV2 = Indeterminate, KernelComputeV2 = Indeterminate,
     InferOutputShapeFn = Indeterminate, GetStartVersion = Indeterminate, GetEndVersion = Indeterminate,
     GetMayInplace = Indeterminate, ReleaseMayInplace = Indeterminate, GetAliasMap = Indeterminate,
     ReleaseAliasMap = Indeterminate\<rparr>"

section \<open>Operator classes\<close>

text \<open>
  The class \<open>TOp\<close> with its kernel class \<open>TKernel\<close>: the members it has to declare, and as options those
  that \<open>CustomOpBase\<close> provides a default for. \<open>top_CreateKernelV2\<close> yields status and kernel;
  \<open>top_delete\<close> is the destructor of a kernel, \<open>top_start\<close> and \<open>top_end\<close> read \<open>start_ver_\<close> and \<open>end_ver_\<close>.
\<close>

record ('op, 's) op_class =
  top_GetName :: "'op \<Rightarrow> string"
  top_GetInputTypeCount :: "'op \<Rightarrow> nat"
  top_GetInputType :: "'op \<Rightarrow> nat \<Rightarrow> ONNXTensorElementDataType"
  top_GetOutputTypeCount :: "'op \<Rightarrow> nat"
  top_GetOutputType :: "'op \<Rightarrow> nat \<Rightarrow> ONNXTensorElementDataType"
  top_GetExecutionProviderType :: "('op \<Rightarrow> string option) option"
  top_GetInputMemoryType :: "('op \<Rightarrow> nat \<Rightarrow> OrtMemType) option"
  top_GetInputCharacteristic :: "('op \<Rightarrow> nat \<Rightarrow> OrtCustomOpInputOutputCharacteristic) option"
  top_GetOutputCharacteristic :: "('op \<Rightarrow> nat \<Rightarrow> OrtCustomOpInputOutputCharacteristic) option"
  top_GetVariadicInputMinArity :: "('op \<Rightarrow> int) option"
  top_GetVariadicInputHomogeneity :: "('op \<Rightarrow> bool) option"
  top_GetVariadicOutputMinArity :: "('op \<Rightarrow> int) option"
  top_GetVariadicOutputHomogeneity :: "('op \<Rightarrow> bool) option"
  top_CreateKernel :: "'op \<Rightarrow> ptr \<Rightarrow> ('s, ptr) action"
  top_Compute :: "ptr \<Rightarrow> ptr \<Rightarrow> ('s, unit) action"
  top_CreateKernelV2 :: "'op \<Rightarrow> ptr \<Rightarrow> ('s, ptr \<times> ptr) action"
  top_ComputeV2 :: "ptr \<Rightarrow> ptr \<Rightarrow> ('s, ptr) action"
  top_delete :: "ptr \<Rightarrow> ('s, unit) action"
  top_start :: "'op \<Rightarrow> int"
  top_end :: "'op \<Rightarrow> int"

text \<open>The defaults of the base class.\<close>

definition base_GetExecutionProviderType :: "'op \<Rightarrow> string option" where
  "base_GetExecutionProviderType this = None"

definition base_GetInputCharacteristic :: "'op \<Rightarrow> nat \<Rightarrow> OrtCustomOpInputOutputCharacteristic" where
  "base_GetInputCharacteristic this index = INPUT_OUTPUT_REQUIRED"

definition base_GetOutputCharacteristic :: "'op \<Rightarrow> nat \<Rightarrow> OrtCustomOpInputOutputCharacteristic" where
  "base_GetOutputCharacteristic this index = INPUT_OUTPUT_REQUIRED"

definition base_GetInputMemoryType :: "'op \<Rightarrow> nat \<Rightarrow> OrtMemType" where
  "base_GetInputMemoryType this index = OrtMemTypeDefault"

definition base_GetVariadicInputMinArity :: "'op \<Rightarrow> int" where
  "base_GetVariadicInputMinArity this = 1"

definition base_GetVariadicInputHomogeneity :: "'op \<Rightarrow> bool" where
  "base_GetVariadicInputHomogeneity this = True"

definition base_GetVariadicOutputMinArity :: "'op \<Rightarrow> int" where
  "base_GetVariadicOutputMinArity this = 1"

definition base_GetVariadicOutputHomogeneity :: "'op \<Rightarrow> bool" where
  "base_GetVariadicOutputHomogeneity this = True"

definition base_GetSessionConfigKeys :: "'op \<Rightarrow> string list" where
  "base_GetSessionConfigKeys this = []"

text \<open>\<open>MAX_CUSTOM_OP_END_VER\<close> expands to \<open>(1UL << 31) - 1\<close>, converted to \<open>int\<close>.\<close>

definition base_start_ver :: int where
  "base_start_ver = 1"

definition base_end_ver :: int where
  "base_end_ver = sint (ucast (push_bit 31 1 - 1 :: 64 word) :: 32 word)"

text \<open>\<open>static_cast<const TOp*>(this_)->M\<close>: the member of the class, or the one it inherits.\<close>

definition member_or :: "'f option \<Rightarrow> 'f \<Rightarrow> 'f" where
  "member_or declared inherited = (case declared of None \<Rightarrow> inherited | Some f \<Rightarrow> f)"

section \<open>The constructor\<close>

text \<open>
  \<open>SetShapeInferFn<TOp>(0)\<close>: the overload for classes with \<open>InferOutputShape\<close>, otherwise the one with
  \<open>...\<close>. The context of the call is a local object; \<open>returning_status\<close> is what becomes of an
  \<open>InferOutputShape\<close> that returns a \<open>Status\<close>: converted to the pointer, and destroyed.
\<close>

definition SetShapeInferFn :: "'w api \<Rightarrow> (shape_infer_context \<Rightarrow> ('w ort, ptr) action) option \<Rightarrow> ('op, 'w ort) OrtCustomOp
    \<Rightarrow> ('op, 'w ort) OrtCustomOp" where
  "SetShapeInferFn A infer v = (case infer of
       None \<Rightarrow> v\<lparr>InferOutputShapeFn := Null\<rparr>
     | Some f \<Rightarrow> v\<lparr>InferOutputShapeFn := Fn (\<lambda>this ort_ctx. mbind (ShapeInferContext_new A ort_ctx) f)\<rparr>)"

definition returning_status :: "'w api \<Rightarrow> (shape_infer_context \<Rightarrow> ('w ort, ptr) action) \<Rightarrow> shape_infer_context \<Rightarrow> ('w ort, ptr) action" where
  "returning_status A f ctx = mbind (f ctx) (\<lambda>st. mthen (OrtRelease A ''Status'' st) (mret st))"

definition kernel_slots :: "bool \<Rightarrow> ('op, 's) op_class \<Rightarrow> ('op, 's) OrtCustomOp \<Rightarrow> ('op, 's) OrtCustomOp" where
  "kernel_slots with_status C v =
     (if with_status then
        v\<lparr>CreateKernelV2 := Fn (\<lambda>this info. top_CreateKernelV2 C this info),
          KernelComputeV2 := Fn (\<lambda>op_kernel context'. top_ComputeV2 C op_kernel context')\<rparr>
      else
        v\<lparr>CreateKernelV2 := Null, KernelComputeV2 := Null,
          CreateKernel := Fn (\<lambda>this info. top_CreateKernel C this info),
          KernelCompute := Fn (\<lambda>op_kernel context'. top_Compute C op_kernel context')\<rparr>)"

definition CustomOpBase_new :: "'w api \<Rightarrow> bool \<Rightarrow> ('op, 'w ort) op_class \<Rightarrow> (shape_infer_context \<Rightarrow> ('w ort, ptr) action) option
    \<Rightarrow> ('op, 'w ort) OrtCustomOp" where
  "CustomOpBase_new A with_status C infer =
     (let v = indeterminate_op\<lparr>op_version := ORT_API_VERSION, GetName := Fn (top_GetName C),
            GetExecutionProviderType := Fn (member_or (top_GetExecutionProviderType C) base_GetExecutionProviderType),
            GetInputTypeCount := Fn (top_GetInputTypeCount C), GetInputType := Fn (top_GetInputType C),
            GetInputMemoryType := Fn (member_or (top_GetInputMemoryType C) base_GetInputMemoryType),
            GetOutputTypeCount := Fn (top_GetOutputTypeCount C), GetOutputType := Fn (top_GetOutputType C),
            KernelDestroy := Fn (\<lambda>op_kernel. if op_kernel = 0 then mret () else top_delete C op_kernel),
            GetInputCharacteristic := Fn (member_or (top_GetInputCharacteristic C) base_GetInputCharacteristic),
            GetOutputCharacteristic := Fn (member_or (top_GetOutputCharacteristic C) base_GetOutputCharacteristic),
            GetVariadicInputMinArity := Fn (member_or (top_GetVariadicInputMinArity C) base_GetVariadicInputMinArity),
            GetVariadicInputHomogeneity :=
              Fn (\<lambda>this. of_bool (member_or (top_GetVariadicInputHomogeneity C) base_GetVariadicInputHomogeneity this)),
            GetVariadicOutputMinArity := Fn (member_or (top_GetVariadicOutputMinArity C) base_GetVariadicOutputMinArity),
            GetVariadicOutputHomogeneity :=
              Fn (\<lambda>this. of_bool (member_or (top_GetVariadicOutputHomogeneity C) base_GetVariadicOutputHomogeneity this))\<rparr>;
          v = SetShapeInferFn A infer (kernel_slots with_status C v)
      in v\<lparr>GetStartVersion := Fn (top_start C), GetEndVersion := Fn (top_end C), GetMayInplace := Null,
           ReleaseMayInplace := Null, GetAliasMap := Null, ReleaseAliasMap := Null\<rparr>)"

section \<open>Members of the shape inference context\<close>

text \<open>The accessors of a dimension read a member of a union: of the wrong one, that is undefined.\<close>

fun SymbolicInteger_IsInt :: "SymbolicInteger \<Rightarrow> bool" where
  "SymbolicInteger_IsInt (IntDim i) = True"
| "SymbolicInteger_IsInt (SymDim s) = False"

fun SymbolicInteger_AsInt :: "SymbolicInteger \<Rightarrow> int option" where
  "SymbolicInteger_AsInt (IntDim i) = Some i"
| "SymbolicInteger_AsInt (SymDim s) = None"

fun SymbolicInteger_AsSym :: "SymbolicInteger \<Rightarrow> string option option" where
  "SymbolicInteger_AsSym (IntDim i) = None"
| "SymbolicInteger_AsSym (SymDim s) = Some s"

definition ShapeInferContext_GetInputCount :: "shape_infer_context \<Rightarrow> nat" where
  "ShapeInferContext_GetInputCount c = length (input_shapes c)"

text \<open>Every index below the count yields a shape, any other an exception.\<close>

lemma input_count_bounds:
  "ShapeInferContext_GetInputShape c i s = (if i < ShapeInferContext_GetInputCount c then (Ok (input_shapes c ! i), s)
     else (Throw (OutOfRange ''vector''), s))"
  by (simp add: ShapeInferContext_GetInputShape_def ShapeInferContext_GetInputCount_def mret_def mthrow_def)

section \<open>What the runtime finds\<close>

lemma base_end_ver_value: "base_end_ver = 2147483647"
  by (simp add: base_end_ver_def)

text \<open>
  Exactly one of the two calling conventions is there. With statuses the slots of the other stay
  indeterminate: whoever reads them before \<open>CreateKernelV2\<close> reads an uninitialised pointer.
\<close>

lemma kernel_convention:
  assumes "v = CustomOpBase_new A with_status C infer"
  shows "(\<exists>f. CreateKernelV2 v = Fn f) = with_status" "(\<exists>f. KernelComputeV2 v = Fn f) = with_status"
    "(\<exists>f. CreateKernel v = Fn f) = (\<not> with_status)" "(\<exists>f. KernelCompute v = Fn f) = (\<not> with_status)"
    "CreateKernelV2 v \<noteq> Indeterminate" "KernelComputeV2 v \<noteq> Indeterminate"
    "(CreateKernel v = Indeterminate) = with_status" "(KernelCompute v = Indeterminate) = with_status"
  unfolding assms CustomOpBase_new_def
  by (cases infer; simp add: Let_def kernel_slots_def SetShapeInferFn_def indeterminate_op_def)+

lemma shape_inference_slot:
  "InferOutputShapeFn (CustomOpBase_new A with_status C None) = Null"
  "\<exists>g. InferOutputShapeFn (CustomOpBase_new A with_status C (Some f)) = Fn g
     \<and> (\<forall>this ctx. g this ctx = mbind (ShapeInferContext_new A ctx) f)"
  by (simp_all add: CustomOpBase_new_def Let_def kernel_slots_def SetShapeInferFn_def)

text \<open>A kernel is destroyed with the destructor of its class; a null kernel is left alone.\<close>

lemma kernel_destroyed:
  "\<exists>d. KernelDestroy (CustomOpBase_new A with_status C infer) = Fn d
     \<and> d 0 s = (Ok (), s) \<and> (op_kernel \<noteq> 0 \<longrightarrow> d op_kernel s = top_delete C op_kernel s)"
  by (cases infer) (simp_all add: CustomOpBase_new_def Let_def kernel_slots_def SetShapeInferFn_def mret_def)

text \<open>
  A class whose \<open>InferOutputShape\<close> returns the pointer hands its status over. One that returns a \<open>Status\<close>
  does not: nothing is pending when the pointer reaches the runtime, so an error status it returned was
  released before, and the runtime reads and releases it again.
\<close>

lemma status_returned_dangles:
  assumes "hands_over statuses (f ctx)"
  shows "keeps statuses (returning_status A f ctx)"
  unfolding returning_status_def keeps_def
  by (rule settles_bind [OF assms [unfolded hands_over_def]], rule settles_then [OF settles_OrtRelease_Status], rule settles_ret)

end
