(* ===== verification/HyMt_Reuse.thy ===== *)
theory HyMt_Reuse imports HyMt_Engine begin

text \<open>
  How much of the KV memory one request leaves to the next, exactly: the statistics a caller reads after a
  call are those of its prefix decision, and the state a returned call leaves behind is summarised by what
  it translated last - session, cache scope and prompt tokens - or by nothing.
\<close>

section \<open>What an action keeps and what it ends in\<close>

text \<open>
  \<open>steady f m\<close>: no outcome of \<open>m\<close> changes the observation \<open>f\<close> of the state. \<open>ends_in P m\<close>: whenever \<open>m\<close> returns,
  \<open>P\<close> holds of the state after. Both compose along the code without any assumption.
\<close>

definition steady :: "('s \<Rightarrow> 'b) \<Rightarrow> ('s, 'a) action \<Rightarrow> bool" where
  "steady f m \<longleftrightarrow> (\<forall>s. f (snd (m s)) = f s)"

definition ends_in :: "('s \<Rightarrow> bool) \<Rightarrow> ('s, 'a) action \<Rightarrow> bool" where
  "ends_in P m \<longleftrightarrow> (\<forall>s x t. m s = (Ok x, t) \<longrightarrow> P t)"

named_theorems steady_intros "composition rules of steady"

lemma steadyD: "steady f m \<Longrightarrow> m s = (x, t) \<Longrightarrow> f t = f s"
  unfolding steady_def by (metis snd_conv)

lemma ends_inD: "ends_in P m \<Longrightarrow> m s = (Ok x, t) \<Longrightarrow> P t"
  by (simp add: ends_in_def)

lemma mbind_Ok: "mbind m k s = (Ok y, t) \<Longrightarrow> (\<And>x u. m s = (Ok x, u) \<Longrightarrow> k x u = (Ok y, t) \<Longrightarrow> P) \<Longrightarrow> P"
  by (auto simp: mbind_def split: prod.splits outcome.splits)

lemma mthen_Ok: "mthen m k s = (Ok y, t) \<Longrightarrow> (\<And>x u. m s = (Ok x, u) \<Longrightarrow> k u = (Ok y, t) \<Longrightarrow> P) \<Longrightarrow> P"
  unfolding mthen_def by (rule mbind_Ok)

lemma steady_mbind [steady_intros]: "steady f m \<Longrightarrow> (\<And>x. steady f (k x)) \<Longrightarrow> steady f (mbind m k)"
  unfolding steady_def by (auto simp: mbind_def split: prod.splits outcome.splits) (metis snd_conv)+

lemma steady_mthen [steady_intros]: "steady f m \<Longrightarrow> steady f k \<Longrightarrow> steady f (mthen m k)"
  unfolding mthen_def by (rule steady_mbind)

lemma steady_mcatch [steady_intros]: "steady f m \<Longrightarrow> (\<And>e. steady f (h e)) \<Longrightarrow> steady f (mcatch m h)"
  unfolding steady_def by (auto simp: mcatch_def split: prod.splits outcome.splits) (metis snd_conv)+

lemma steady_plain [steady_intros]:
  "steady f (mret x)" "steady f (mthrow e)" "steady f (mcrash c)" "steady f (mget g)" "steady f (mguard b e)"
  by (auto simp: steady_def mret_def mthrow_def mcrash_def mget_def mguard_def)

lemma steady_mmodify: "(\<And>s. f (g s) = f s) \<Longrightarrow> steady f (mmodify g)"
  by (simp add: steady_def mmodify_def)

lemma steady_cases [steady_intros]:
  "(b \<Longrightarrow> steady f m) \<Longrightarrow> (\<not> b \<Longrightarrow> steady f n) \<Longrightarrow> steady f (if b then m else n)"
  "steady f (k1) \<Longrightarrow> (\<And>y. steady f (k2 y)) \<Longrightarrow> steady f (case z of None \<Rightarrow> k1 | Some y \<Rightarrow> k2 y)"
  "(\<And>a b. steady f (k3 a b)) \<Longrightarrow> steady f (case p of (a, b) \<Rightarrow> k3 a b)"
  "(\<And>e. steady f (k4 e)) \<Longrightarrow> (\<And>y. steady f (k5 y)) \<Longrightarrow> steady f (case q of Inl e \<Rightarrow> k4 e | Inr y \<Rightarrow> k5 y)"
  by (auto split: option.splits prod.splits sum.splits)

lemma ends_in_mbind: "(\<And>x. ends_in P (k x)) \<Longrightarrow> ends_in P (mbind m k)"
  unfolding ends_in_def by (metis mbind_Ok)

lemma ends_in_mthen: "ends_in P k \<Longrightarrow> ends_in P (mthen m k)"
  unfolding mthen_def by (rule ends_in_mbind)

section \<open>The two counters\<close>

definition counts :: "('m, 'c, 'w) hymt \<Rightarrow> int \<times> int" where
  "counts s = (input_tokens (lastStats s), cache_reused_tokens (lastStats s))"

text \<open>The primitives keep every observation that does not look at the field they write.\<close>

lemma steady_now [steady_intros]: "(\<And>s n. f (s\<lparr>reads := n\<rparr>) = f s) \<Longrightarrow> steady f (now L)"
  by (simp add: steady_def now_def)

lemma steady_load_cancelled [steady_intros]: "(\<And>s x. f (s\<lparr>eflag := x\<rparr>) = f s) \<Longrightarrow> steady f (load_cancelled L)"
  by (simp add: steady_def load_cancelled_def split: prod.splits)

lemma steady_with_ctx [steady_intros]: "(\<And>s c. f (s\<lparr>ctx := c\<rparr>) = f s) \<Longrightarrow> steady f (with_ctx g)"
  by (simp add: steady_def with_ctx_def split: prod.splits option.splits)

lemma steady_invoke [steady_intros]: "(\<And>s evs. f (s\<lparr>published := evs\<rparr>) = f s) \<Longrightarrow> steady f (invoke h ev)"
  by (simp add: steady_def invoke_def Let_def split: option.splits)

lemma steady_upd_stats [steady_intros]: "(\<And>s. f (s\<lparr>lastStats := g (lastStats s)\<rparr>) = f s) \<Longrightarrow> steady f (upd_stats g)"
  unfolding upd_stats_def by (rule steady_mmodify) simp

lemma steady_get_model [steady_intros]: "steady f get_model"
  by (simp add: steady_def get_model_def split: option.splits)

lemma steady_checkCancelled [steady_intros]: "(\<And>s x. f (s\<lparr>eflag := x\<rparr>) = f s) \<Longrightarrow> steady f (checkCancelled L)"
  unfolding checkCancelled_def by (intro steady_intros) simp

lemma steady_finish [steady_intros]: "steady counts (finish L R result)"
  unfolding finish_def by (intro steady_intros steady_mmodify) (simp_all add: counts_def)

lemma steady_publishProgress [steady_intros]: "steady counts (publishProgress L R result at pub)"
  unfolding publishProgress_def Let_def by (intro steady_intros) (simp_all add: counts_def)

lemma steady_prefill [steady_intros]: "steady counts (prefill L b tokens offset)"
proof (induction L b tokens offset rule: prefill.induct)
  case (1 L b tokens offset)
  show ?case
  proof (cases "offset < int (length tokens) \<and> \<not> b \<le> 0")
    case True
    have "steady counts (prefill L b tokens (offset + b))" using 1 True by simp
    then show ?thesis
      by (subst prefill.simps) (intro steady_intros; simp add: counts_def)
  next
    case False
    then show ?thesis by (subst prefill.simps) (auto intro: steady_intros)
  qed
qed

lemma steady_generate [steady_intros]: "steady counts (generate L R smp result at pub i n)"
proof (induction n arbitrary: smp result at pub i)
  case 0
  show ?case by (simp add: steady_intros)
next
  case (Suc n)
  show ?case unfolding generate.simps Let_def by (intro steady_intros Suc.IH) (simp_all add: counts_def)
qed

section \<open>The record at the end of a run\<close>

definition recorded_end :: "('m, 'd, 'c, 's, 'w) llama \<Rightarrow> ('m, 'c, 'w) hymt \<Rightarrow> bool" where
  "recorded_end L s \<longleftrightarrow> (\<exists>c. ctx s = Some c \<and> cachedPositionMax s = seq_pos_max L c)"

lemma finish_records: "r_allow R \<Longrightarrow> ends_in (recorded_end L) (finish L R result)"
proof -
  assume "r_allow R"
  then have last: "ends_in (recorded_end L) (mthen
      (if r_allow R then
         mbind (with_ctx (\<lambda>c. (seq_pos_max L c, c))) (\<lambda>p.
         mmodify (\<lambda>s. s\<lparr>cachedPromptTokens := r_tokens R, cachedConfiguration := r_configuration R,
           cachedSession := session_id (r_request R), cachedPositionMax := p, cacheValid := (p \<ge> 0)\<rparr>))
       else mret ())
      (mret result))"
    by (auto simp: ends_in_def recorded_end_def mthen_def mbind_def with_ctx_def mmodify_def mret_def
      split: option.splits)
  show ?thesis unfolding finish_def
    by (rule ends_in_mbind, rule ends_in_mthen, rule ends_in_mbind, rule ends_in_mthen, rule ends_in_mthen, rule last)
qed

lemma ends_in_throw: "ends_in P (mthrow e)"
  by (simp add: ends_in_def mthrow_def)

lemma ends_in_cases:
  "(b \<Longrightarrow> ends_in P m) \<Longrightarrow> (\<not> b \<Longrightarrow> ends_in P n) \<Longrightarrow> ends_in P (if b then m else n)"
  "ends_in P k1 \<Longrightarrow> (\<And>y. ends_in P (k2 y)) \<Longrightarrow> ends_in P (case z of None \<Rightarrow> k1 | Some y \<Rightarrow> k2 y)"
  "(\<And>a b. ends_in P (k3 a b)) \<Longrightarrow> ends_in P (case p of (a, b) \<Rightarrow> k3 a b)"
  by (auto split: option.splits prod.splits)

lemma generate_records: "r_allow R \<Longrightarrow> ends_in (recorded_end L) (generate L R smp result at pub i n)"
proof (induction n arbitrary: smp result at pub i)
  case 0
  show ?case by (simp add: ends_in_throw)
next
  case (Suc n)
  show ?case unfolding generate.simps Let_def
    by (intro ends_in_mbind ends_in_mthen ends_in_cases ends_in_throw finish_records Suc.IH Suc.prems)
qed

text \<open>What a returned run did: the tokens of its prompt, its prefix decision, and the two counters.\<close>

definition ran_as :: "('m, 'd, 'c, 's, 'w) llama \<Rightarrow> string \<Rightarrow> request \<Rightarrow> bool \<Rightarrow> ('m, 'c, 'w) hymt \<Rightarrow> ('m, 'c, 'w) hymt \<Rightarrow> bool" where
  "ran_as L prompt req allow s t \<longleftrightarrow> (\<exists>m format tokens f k n v. model s = Some m \<and> prepare L m prompt = Inr (format, tokens)
     \<and> reuse_prefix L allow req (configuration_of (path s) (cache_scope req) format) tokens
          (s\<lparr>eflag := f, reads := k\<rparr>) = (Ok n, v)
     \<and> counts t = (int (length tokens), int (n - 1)) \<and> (allow \<longrightarrow> recorded_end L t))"

lemma checkCancelled_Ok: "checkCancelled L s = (Ok x, u) \<Longrightarrow> \<exists>f. u = s\<lparr>eflag := f\<rparr>"
  by (auto simp: checkCancelled_def load_cancelled_def mbind_def mguard_def mret_def mthrow_def
      split: prod.splits if_splits)

lemma now_Ok: "now L s = (Ok x, u) \<Longrightarrow> x = clock L (reads s) \<and> u = s\<lparr>reads := Suc (reads s)\<rparr>"
  by (auto simp: now_def)

lemma get_model_Ok: "get_model s = (Ok m, u) \<Longrightarrow> u = s \<and> model s = Some m"
  by (auto simp: get_model_def split: option.splits)

lemma mget_Ok: "mget f s = (Ok x, u) \<Longrightarrow> x = f s \<and> u = s"
  by (auto simp: mget_def)

lemma counted_tail:
  assumes "mthen clear_cache (mthen (mmodify g) K) v = (Ok r, t)" "steady counts K"
  shows "counts t = counts (g (snd (clear_cache v)))"
  using assms(1) steadyD [OF assms(2)]
  by (auto simp: clear_cache_def mmodify_def elim!: mthen_Ok)

lemma run_Ok: "run L prompt req cb allow s = (Ok r, t) \<Longrightarrow> ran_as L prompt req allow s t"
  unfolding run_def
  apply (erule mthen_Ok, erule mbind_Ok, erule mbind_Ok)
  apply (drule checkCancelled_Ok, drule now_Ok, drule get_model_Ok, clarsimp split: sum.splits simp: mthrow_def)
  apply (erule mbind_Ok, drule mget_Ok, erule mbind_Ok, clarsimp)
  apply (subst ran_as_def)
  apply (intro exI conjI, assumption, assumption, assumption)
   apply (drule counted_tail)
    apply (intro steady_intros; simp add: counts_def)
   apply (simp add: counts_def clear_cache_def mmodify_def of_nat_diff)
  apply (rule impI)
  apply (rule ends_inD [where P = "recorded_end L"])
   defer 1
   apply assumption
  apply (intro ends_in_mthen ends_in_mbind ends_in_cases generate_records)
  apply simp
  done

section \<open>Histories\<close>

text \<open>
  The abstraction of the cache: nothing usable, or session, cache scope and prompt tokens of the last cached
  translation. \<open>remembers\<close> relates it to the concrete record.
\<close>

type_synonym history = "(int \<times> string \<times> int list) option"

definition remembers :: "('m, 'd, 'c, 's, 'w) llama \<Rightarrow> history \<Rightarrow> ('m, 'c, 'w) hymt \<Rightarrow> bool" where
  "remembers L h s \<longleftrightarrow> (case h of None \<Rightarrow> \<not> cacheValid s
     | Some (session, scope, tokens) \<Rightarrow> cacheValid s \<and> cachedSession s = session \<and> cachedPromptTokens s = tokens
         \<and> recorded_end L s \<and> (\<exists>m format. model s = Some m \<and> chat_template L m = Some format
              \<and> cachedConfiguration s = configuration_of (path s) scope format))"

text \<open>The abstract prefix decision: how many tokens of a request are kept from a history.\<close>

definition kept :: "history \<Rightarrow> request \<Rightarrow> int list \<Rightarrow> nat" where
  "kept h req tokens = (case h of None \<Rightarrow> 0
     | Some (session, scope, old) \<Rightarrow>
         if session = session_id req \<and> scope = cache_scope req then longestCommonPrefix old tokens - 1 else 0)"

definition removes :: "('m, 'd, 'c, 's, 'w) llama \<Rightarrow> bool" where
  "removes L \<longleftrightarrow> (\<forall>c p. fst (seq_rm L c p))"

lemma longestCommonPrefix_self: "longestCommonPrefix ts ts = length ts"
  by (rule antisym [OF longestCommonPrefix_le(1) longestCommonPrefix_maximal]) simp_all

lemma removesD: "removes L \<Longrightarrow> seq_rm L c p \<noteq> (False, c')"
  unfolding removes_def by (metis fst_conv)

lemma reuse_prefix_kept:
  assumes "remembers L h s" "removes L" "model s = Some m" "chat_template L m = Some format"
    and "reuse_prefix L allow req (configuration_of (path s) (cache_scope req) format) tokens
          (s\<lparr>eflag := f, reads := k\<rparr>) = (Ok n, v)"
  shows "n - 1 = (if allow then kept h req tokens else 0)"
proof (cases "ctx s")
  case None
  then show ?thesis using assms(5) by (simp add: reuse_prefix_def)
next
  case (Some c)
  let ?cfg = "configuration_of (path s) (cache_scope req) format"
  let ?s = "s\<lparr>eflag := f, reads := k\<rparr>"
  have n: "n = (if identity_matches L allow req ?cfg c ?s then longestCommonPrefix (cachedPromptTokens s) tokens else 0)"
    using assms(5) Some \<open>removes L\<close>
    by (auto simp: reuse_prefix_def Let_def split: prod.splits if_splits simp: removesD)
  show ?thesis
  proof (cases h)
    case None
    then show ?thesis using n assms(1) by (simp add: remembers_def identity_matches_def kept_def)
  next
    case h: (Some x)
    then obtain session scope old where x: "h = Some (session, scope, old)" by (cases x) auto
    then have "identity_matches L allow req ?cfg c ?s
        \<longleftrightarrow> allow \<and> session = session_id req \<and> scope = cache_scope req"
      using assms(1,3,4) Some
      by (auto simp: remembers_def identity_matches_def recorded_end_def configuration_of_inj)
    moreover have "cachedPromptTokens s = old" using assms(1) x by (simp add: remembers_def)
    ultimately show ?thesis using n x by (auto simp: kept_def)
  qed
qed

section \<open>Translations on the CPU\<close>

lemma recover_on_cpu: "ctx u = Some c \<Longrightarrow> \<not> opencl u \<Longrightarrow> wp (recover L allow prompt req cb e) (\<lambda>_ _. False) (\<lambda>_ _. True) u"
  by (simp add: recover_def clear_memory_def wp_simps)

lemma attempted:
  assumes laws: "kv_laws L (nat context_size) kv fresh nx" and "ready kv s" "\<not> opencl s"
    and "translate_attempts L allow prompt req cb s = (Ok r, t)"
  shows "attempt L prompt req cb allow (s\<lparr>lastStats := zero_stats, published := []\<rparr>) = (Ok r, t)"
proof -
  let ?s = "s\<lparr>lastStats := zero_stats, published := []\<rparr>"
  from assms(2) obtain m where m: "model s = Some m" by (auto simp: ready_def)
  have r: "ready kv ?s" using assms(2)
    by (auto simp: ready_def valid_batches_def cache_sound_def split: option.splits)
  obtain x u where a: "attempt L prompt req cb allow ?s = (x, u)" by fastforce
  show ?thesis
  proof (cases x)
    case (Throw e)
    then have "failed_from L kv cb (ref_translate L nx m prompt) ?s e u"
      using wp_Throw_D [OF wp_attempt [OF laws r, where m = m]] a m by simp
    then obtain c where "ctx u = Some c" "\<not> opencl u"
      using assms(3) fixed_part_fields(7) [of u ?s] by (auto simp: failed_from_def)
    from wp_Ok_D [OF recover_on_cpu [OF this]] show ?thesis
      using assms(4) a Throw by (simp add: translate_attempts_def mthen_def mbind_def mmodify_def mcatch_def)
  qed (use assms(4) a in \<open>simp_all add: translate_attempts_def mthen_def mbind_def mmodify_def mcatch_def\<close>)
qed

text \<open>The step of the abstraction: one returned translation.\<close>

lemma translation_step:
  assumes laws: "kv_laws L (nat context_size) kv fresh nx" and s: "ready kv s" "\<not> opencl s" "removes L" "remembers L h s"
    and ok: "translate_attempts L allow prompt req cb s = (Ok r, t)"
  obtains m format tokens where "model s = Some m" "prepare L m prompt = Inr (format, tokens)"
    "ref_translate L nx m prompt = Inr r"
    "input_tokens (lastStats t) = int (length tokens)"
    "cache_reused_tokens (lastStats t) = int (if allow then kept h req tokens else 0)"
    "remembers L (if allow then Some (session_id req, cache_scope req, tokens) else None) t"
    "ready kv t" "\<not> opencl t" "model t = Some m"
proof -
  let ?s = "s\<lparr>lastStats := zero_stats, published := []\<rparr>"
  from s(1) obtain m where m: "model s = Some m" by (auto simp: ready_def)
  have r: "cache_sound kv ?s" "0 < batch ?s" "model ?s = Some m" using s(1) m
    by (auto simp: ready_def valid_batches_def cache_sound_def split: option.splits)
  from attempted [OF laws s(1,2) ok] obtain v where run: "run L prompt req cb allow ?s = (Ok r, v)"
    and t: "t = v\<lparr>lastStats := (lastStats v)\<lparr>fallback_count := fallbackCount v\<rparr>\<rparr>"
    unfolding attempt_def by (auto simp: mmodify_def mret_def elim!: mbind_Ok mthen_Ok)
  from run_Ok [OF run] m obtain format tokens f k n w where prep: "prepare L m prompt = Inr (format, tokens)"
    and reuse: "reuse_prefix L allow req (configuration_of (path ?s) (cache_scope req) format) tokens
          (?s\<lparr>eflag := f, reads := k\<rparr>) = (Ok n, w)"
    and cnt: "counts v = (int (length tokens), int (n - 1))" and rec: "allow \<longrightarrow> recorded_end L v"
    unfolding ran_as_def by auto
  have "run_done L kv nx prompt req allow m ?s r v"
    by (rule wp_Ok_D [OF wp_run [OF laws r(1,3,2)] run])
  then have fin: "fixed_part v = fixed_part s" "ref_translate L nx m prompt = Inr r" "cacheValid v = allow"
    "allow \<longrightarrow> cachedPromptTokens v = tokens \<and> cachedSession v = session_id req
       \<and> cachedConfiguration v = configuration_of (path s) (cache_scope req) format"
    using prep by (auto simp: run_done_def)
  note fields = fixed_part_fields [OF fin(1)]
  have rem: "remembers L h ?s" using s(4) by (auto simp: remembers_def recorded_end_def split: option.splits)
  have "n - 1 = (if allow then kept h req tokens else 0)"
    by (rule reuse_prefix_kept [OF rem s(3) r(3) prepare_bounds(3) [OF prep] reuse])
  moreover have "remembers L (if allow then Some (session_id req, cache_scope req, tokens) else None) t"
    using fin rec fields m prepare_bounds(3) [OF prep] t by (auto simp: remembers_def recorded_end_def)
  moreover have "ready kv t" "\<not> opencl t"
    using translate_attempts_cases [OF laws s(1), of allow prompt req cb] ok s(2) fields t
    by (auto simp: translated_def)
  ultimately show ?thesis using that [OF m prep fin(2)] cnt t fields m by (simp add: counts_def)
qed

text \<open>On the CPU a throwing translation forgets everything.\<close>

lemma failed_step:
  assumes laws: "kv_laws L (nat context_size) kv fresh nx" and s: "ready kv s" "\<not> opencl s"
    and "translate_attempts L allow prompt req cb s = (Throw e, t)"
  shows "remembers L None t \<and> ready kv t \<and> \<not> opencl t"
  using translate_attempts_cases [OF laws s(1), of allow prompt req cb] assms(4) s(2)
  by (auto simp: not_translated_def remembers_def cold_def same_engine_def fell_back_def broken_def)

end
