(* ===== verification/HyMt_Callbacks.thy ===== *)
theory HyMt_Callbacks imports HyMt_Reuse HyMt_Progress begin

text \<open>
  Which callbacks an engine on the CPU cannot provoke: a callback that only objects to events with foreign
  ids, invalid text or a gap below 80 ms never throws, so a translation with it is the translation with a
  silent callback. Also here: what no run touches, and that nobody but other threads sets the flag.
\<close>

section \<open>What no run touches\<close>

text \<open>An observation that does not look at anything a run writes, except perhaps the flag and the events.\<close>

definition outside :: "('m, 'd, 'c, 's, 'w) llama \<Rightarrow> (('m, 'c, 'w) hymt \<Rightarrow> 'b) \<Rightarrow> bool" where
  "outside L f \<longleftrightarrow> (\<forall>s st. f (s\<lparr>lastStats := st\<rparr>) = f s) \<and> (\<forall>s n. f (s\<lparr>reads := n\<rparr>) = f s)
     \<and> (\<forall>s c. f (s\<lparr>ctx := c\<rparr>) = f s)
     \<and> (\<forall>s b ts cf ss p. f (s\<lparr>cachedPromptTokens := ts, cachedConfiguration := cf, cachedSession := ss,
          cachedPositionMax := p, cacheValid := b\<rparr>) = f s)
     \<and> (\<forall>s b ts cf p. f (s\<lparr>cacheValid := b, cachedPromptTokens := ts, cachedConfiguration := cf, cachedPositionMax := p\<rparr>) = f s)
     \<and> steady f (load_cancelled L)"

lemma steady_outside:
  assumes "outside L f"
  shows "steady f (checkCancelled L)" "steady f (now L)" "steady f (with_ctx g)" "steady f (upd_stats h)"
    "steady f clear_cache" "steady f (mmodify (\<lambda>s. s\<lparr>lastStats := q s\<rparr>))" "steady f (finish L R result)"
    "steady f (reuse_prefix L allow req configuration tokens)"
proof -
  have w: "f (s\<lparr>lastStats := st\<rparr>) = f s" "f (s\<lparr>reads := n\<rparr>) = f s" "f (s\<lparr>ctx := c\<rparr>) = f s"
    "f (s\<lparr>cachedPromptTokens := ts, cachedConfiguration := cf, cachedSession := ss,
          cachedPositionMax := p, cacheValid := b\<rparr>) = f s"
    "f (s\<lparr>cacheValid := b, cachedPromptTokens := ts, cachedConfiguration := cf, cachedPositionMax := p\<rparr>) = f s"
    for s st n c b ts cf ss p
    using assms unfolding outside_def by blast+
  show "steady f (checkCancelled L)"
    unfolding checkCancelled_def by (intro steady_mbind steady_plain) (use assms in \<open>simp add: outside_def\<close>)
  show "steady f (now L)" and "steady f (with_ctx g)" and "steady f (upd_stats h)" by (intro steady_intros w)+
  show "steady f clear_cache" unfolding clear_cache_def by (intro steady_mmodify w)
  show "steady f (mmodify (\<lambda>s. s\<lparr>lastStats := q s\<rparr>))" by (intro steady_mmodify w)
  show "steady f (finish L R result)" unfolding finish_def by (intro steady_intros steady_mmodify w)
  show "steady f (reuse_prefix L allow req configuration tokens)"
    by (simp add: steady_def reuse_prefix_def Let_def w split: option.splits prod.splits)
qed

lemma steady_outside_publish:
  "outside L f \<Longrightarrow> (\<And>s evs. f (s\<lparr>published := evs\<rparr>) = f s) \<Longrightarrow> steady f (publishProgress L R result at pub)"
  unfolding publishProgress_def Let_def
  by (intro steady_mbind steady_mthen steady_plain steady_cases steady_invoke steady_outside)

lemma steady_outside_prefill: "outside L f \<Longrightarrow> steady f (prefill L b tokens offset)"
proof (induction L b tokens offset rule: prefill.induct)
  case (1 L b tokens offset)
  show ?case
  proof (cases "offset < int (length tokens) \<and> \<not> b \<le> 0")
    case True
    then have "steady f (prefill L b tokens (offset + b))" using 1 by simp
    then show ?thesis using 1(2)
      by (subst prefill.simps) (intro steady_mbind steady_mthen steady_plain steady_cases steady_outside)
  next
    case False
    then show ?thesis by (subst prefill.simps) (auto intro: steady_intros)
  qed
qed

lemma steady_outside_generate:
  "outside L f \<Longrightarrow> (\<And>s evs. f (s\<lparr>published := evs\<rparr>) = f s) \<Longrightarrow> steady f (generate L R smp result at pub i n)"
proof (induction n arbitrary: smp result at pub i)
  case 0
  show ?case by (simp add: steady_intros)
next
  case (Suc n)
  then show ?case unfolding generate.simps Let_def
    by (intro steady_mbind steady_mthen steady_plain steady_cases steady_outside steady_outside_publish Suc.IH)
qed

lemma steady_attempt:
  assumes "outside L f" "\<And>s evs. f (s\<lparr>published := evs\<rparr>) = f s"
  shows "steady f (attempt L prompt req cb allow)"
proof -
  have "steady f (run L prompt req cb allow)" unfolding run_def
    by (intro steady_mbind steady_mthen steady_plain steady_cases steady_get_model
        steady_outside [OF assms(1)] steady_outside_prefill [OF assms(1)] steady_outside_generate [OF assms])
  then show ?thesis unfolding attempt_def
    by (intro steady_mbind steady_mthen steady_plain steady_outside [OF assms(1)])
qed

lemma outside_fixed_part: "outside L fixed_part"
  by (simp add: outside_def steady_load_cancelled)

lemma outside_published: "outside L published"
  by (simp add: outside_def steady_load_cancelled)

text \<open>Without stores of other threads the flag keeps its value.\<close>

lemma outside_cancelled: "\<forall>n. others L n = [] \<Longrightarrow> outside L (\<lambda>s. cancelled (eflag s))"
  by (simp add: outside_def steady_def load_cancelled_def load_flag_def Let_def)

section \<open>Accepting callbacks\<close>

text \<open>
  The events a request may see: its ids, provisional, valid UTF-8, at least 80 ms apart. A callback accepts
  the request if it never throws on such a sequence.
\<close>

definition event_plain :: "request \<Rightarrow> progress \<Rightarrow> bool" where
  "event_plain req ev \<longleftrightarrow> p_session_id ev = session_id req \<and> p_segment_id ev = segment_id req
     \<and> p_revision ev = revision req \<and> p_provisional ev \<and> well_formed (p_text ev)"

definition paced :: "request \<Rightarrow> progress list \<Rightarrow> bool" where
  "paced req evs \<longleftrightarrow> (\<forall>ev \<in> set evs. event_plain req ev)
     \<and> sorted_wrt (\<lambda>a b. p_elapsed_ms a + 80 \<le> p_elapsed_ms b) evs"

definition accepts :: "request \<Rightarrow> callback \<Rightarrow> bool" where
  "accepts req cb \<longleftrightarrow> (case cb of None \<Rightarrow> True | Some f \<Rightarrow> \<forall>evs. evs \<noteq> [] \<longrightarrow> paced req evs \<longrightarrow> f evs = None)"

definition silenced :: "callback \<Rightarrow> callback" where
  "silenced cb = map_option (\<lambda>f evs. None) cb"

text \<open>The events so far, and the time of the last one.\<close>

definition in_pace :: "'m run_env \<Rightarrow> int \<Rightarrow> ('m, 'c, 'w) hymt \<Rightarrow> bool" where
  "in_pace R at s \<longleftrightarrow> paced (r_request R) (published s) \<and> r_start R \<le> at
     \<and> (\<forall>ev \<in> set (published s). p_elapsed_ms ev \<le> to_ms (at - r_start R))"

lemma in_pace_published: "published t = published s \<Longrightarrow> in_pace R at t = in_pace R at s"
  by (simp add: in_pace_def)

lemma in_pace_next:
  assumes "in_pace R at s" "at + 80 * 1000000 \<le> now'" "event_plain (r_request R) ev" "p_elapsed_ms ev = to_ms (now' - r_start R)"
  shows "paced (r_request R) (published s @ [ev])" "published t = published s @ [ev] \<Longrightarrow> in_pace R now' t"
proof -
  have "to_ms (at - r_start R) + 80 \<le> p_elapsed_ms ev"
    using to_ms_gap [of "at - r_start R" "now' - r_start R"] assms by (simp add: in_pace_def)
  then have "p_elapsed_ms a + 80 \<le> p_elapsed_ms ev" if "a \<in> set (published s)" for a
    using that assms(1) by (fastforce simp: in_pace_def)
  then show "paced (r_request R) (published s @ [ev])"
    using assms by (simp add: paced_def sorted_wrt_append in_pace_def)
  then show "in_pace R now' t" if "published t = published s @ [ev]"
    using that assms \<open>\<And>a. a \<in> set (published s) \<Longrightarrow> p_elapsed_ms a + 80 \<le> p_elapsed_ms ev\<close>
    by (fastforce simp: in_pace_def)
qed

definition next_event :: "('m, 'd, 'c, 's, 'w) llama \<Rightarrow> 'm run_env \<Rightarrow> string \<Rightarrow> ('m, 'c, 'w) hymt \<Rightarrow> progress" where
  "next_event L R result s = \<lparr>p_session_id = session_id (r_request R), p_segment_id = segment_id (r_request R),
    p_revision = revision (r_request R), p_elapsed_ms = to_ms (clock L (reads s) - r_start R),
    p_text = visible_text result, p_provisional = True\<rparr>"

lemma publishProgress_cases:
  assumes "r_callback R = Some f"
  obtains (silent) k where "publishProgress L R result at pub s = (Ok (at, pub), s\<lparr>reads := k\<rparr>)"
      "publishProgress L (R\<lparr>r_callback := Some g\<rparr>) result at pub s = (Ok (at, pub), s\<lparr>reads := k\<rparr>)"
  | (event) u st where "at + 80 * 1000000 \<le> clock L (reads s)" "u = s\<lparr>reads := Suc (reads s), published := published s @ [next_event L R result s]\<rparr>"
      "publishProgress L R result at pub s = (case f (published u) of Some e \<Rightarrow> (Throw e, u)
         | None \<Rightarrow> (Ok (clock L (reads s), length (visible_text result)), u\<lparr>lastStats := st\<rparr>))"
      "publishProgress L (R\<lparr>r_callback := Some g\<rparr>) result at pub s = (case g (published u) of Some e \<Rightarrow> (Throw e, u)
         | None \<Rightarrow> (Ok (clock L (reads s), length (visible_text result)), u\<lparr>lastStats := st\<rparr>))"
proof -
  let ?b = "lastCompleteWordBoundary result (completeUtf8Prefix result)"
  let ?t = "clock L (reads s)"
  have vis: "trimProgress (take ?b result) = visible_text result" by (simp add: visible_text_def)
  have s: "s = s\<lparr>reads := reads s\<rparr>" by simp
  consider (a) "?b \<le> pub" | (b) "\<not> ?b \<le> pub" "?t - at < 80 * 1000000 \<or> length (visible_text result) \<le> pub"
    | (c) "\<not> ?b \<le> pub" "\<not> ?t - at < 80 * 1000000" "\<not> length (visible_text result) \<le> pub" by blast
  then show ?thesis
  proof cases
    case a
    then show ?thesis using assms by (intro silent [of "reads s"]) (simp_all add: publishProgress_def mret_def)
  next
    case b
    then show ?thesis using assms
      by (intro silent [of "Suc (reads s)"]) (auto simp: publishProgress_def mret_def mbind_def now_def vis)
  next
    case c
    let ?u = "s\<lparr>reads := Suc (reads s), published := published s @ [next_event L R result s]\<rparr>"
    let ?st = "if first_visible_ms (lastStats s) = 0 then (lastStats s)\<lparr>first_visible_ms := p_elapsed_ms (next_event L R result s)\<rparr>
      else lastStats s"
    show ?thesis using assms c
      by (intro event [of ?u ?st]) (simp_all add: publishProgress_def mret_def mbind_def mthen_def now_def vis invoke_def
          upd_stats_def mmodify_def Let_def next_event_def split: option.split)
  qed
qed

lemma publish_silenced:
  assumes "r_callback R = Some f" "accepts (r_request R) (Some f)" "in_pace R at s"
  shows "publishProgress L R result at pub s = publishProgress L (R\<lparr>r_callback := silenced (Some f)\<rparr>) result at pub s"
    and "publishProgress L R result at pub s = (Ok (at', pub'), t) \<Longrightarrow> in_pace R at' t"
proof -
  have ev: "event_plain (r_request R) (next_event L R result s)"
    "p_elapsed_ms (next_event L R result s) = to_ms (clock L (reads s) - r_start R)"
    using visible_text_well_formed [of result] by (simp_all add: next_event_def event_plain_def)
  have *: "publishProgress L R result at pub s = publishProgress L (R\<lparr>r_callback := silenced (Some f)\<rparr>) result at pub s
      \<and> (\<forall>at' pub' t. publishProgress L R result at pub s = (Ok (at', pub'), t) \<longrightarrow> in_pace R at' t)"
  proof (cases rule: publishProgress_cases [OF assms(1), of L result at pub s "\<lambda>evs. None"])
    case (1 k)
    then show ?thesis using assms(3) by (auto simp: silenced_def in_pace_def)
  next
    case (2 u st)
    note next_ok = in_pace_next [OF assms(3) 2(1) ev]
    have "f (published u) = None" using next_ok(1) assms(2) 2(2) by (simp add: accepts_def)
    moreover have "in_pace R (clock L (reads s)) (u\<lparr>lastStats := st\<rparr>)" by (rule next_ok(2)) (simp add: 2(2))
    ultimately show ?thesis using 2(3,4) by (auto simp: silenced_def)
  qed
  then show "publishProgress L R result at pub s = publishProgress L (R\<lparr>r_callback := silenced (Some f)\<rparr>) result at pub s"
    and "publishProgress L R result at pub s = (Ok (at', pub'), t) \<Longrightarrow> in_pace R at' t" by blast+
qed

text \<open>The rest of a run looks at the callback only to ask whether there is one.\<close>

lemma mbind_same: "m s = m' s \<Longrightarrow> (\<And>x t. m s = (Ok x, t) \<Longrightarrow> k x t = k' x t) \<Longrightarrow> mbind m k s = mbind m' k' s"
  by (auto simp: mbind_def split: prod.splits outcome.splits)

lemma mbind_step:
  "steady published m \<Longrightarrow> (\<And>x t. published t = published s \<Longrightarrow> k x t = k' x t) \<Longrightarrow> mbind m k s = mbind m k' s"
  by (rule mbind_same [OF refl]) (metis steadyD)

lemma mthen_step:
  "steady published m \<Longrightarrow> (\<And>t. published t = published s \<Longrightarrow> k t = k' t) \<Longrightarrow> mthen m k s = mthen m k' s"
  unfolding mthen_def by (rule mbind_step)

lemmas steady_published = steady_outside [OF outside_published] steady_outside_prefill [OF outside_published]
  steady_get_model steady_plain

lemma finish_silenced: "finish L (R\<lparr>r_callback := silenced (r_callback R)\<rparr>) result = finish L R result"
  by (cases "r_callback R") (simp_all add: finish_def silenced_def)

lemma generate_silenced:
  assumes f: "r_callback R = Some f" "accepts (r_request R) (Some f)"
  shows "in_pace R at s \<Longrightarrow>
    generate L R smp result at pub i n s = generate L (R\<lparr>r_callback := silenced (Some f)\<rparr>) smp result at pub i n s"
proof (induction n arbitrary: s smp result at pub i)
  case 0
  show ?case by simp
next
  case (Suc n)
  note pace = in_pace_published [where R = R and at = at, THEN iffD2, OF _ Suc.prems]
  have publish: "mbind (publishProgress L R result' at pub) k u
      = mbind (publishProgress L (R\<lparr>r_callback := silenced (Some f)\<rparr>) result' at pub) k' u"
    if "published u = published s" "\<And>at' pub' v. in_pace R at' v \<Longrightarrow> k (at', pub') v = k' (at', pub') v" for result' k k' u
  proof (rule mbind_same)
    show "publishProgress L R result' at pub u
        = publishProgress L (R\<lparr>r_callback := silenced (Some f)\<rparr>) result' at pub u"
      by (rule publish_silenced(1) [OF f pace [OF that(1)]])
    show "k x v = k' x v" if "publishProgress L R result' at pub u = (Ok x, v)" for x v
      using publish_silenced(2) [OF f pace [OF \<open>published u = published s\<close>]] that
        \<open>\<And>at' pub' v. in_pace R at' v \<Longrightarrow> k (at', pub') v = k' (at', pub') v\<close> by (cases x) blast
  qed
  have rest: "generate L R smp' result' at' pub' j n v
      = generate L (R\<lparr>r_callback := silenced (Some f)\<rparr>) smp' result' at' pub' j n v"
    if "in_pace R at' u" "published v = published u" for smp' result' at' pub' j u v
    by (rule Suc.IH) (simp add: in_pace_published [OF that(2)] that(1))
  have same: "r_start (R\<lparr>r_callback := silenced (Some f)\<rparr>) = r_start R" "r_model (R\<lparr>r_callback := silenced (Some f)\<rparr>) = r_model R"
    by simp_all
  show ?case
    unfolding generate.simps Let_def finish_silenced [of _ R, unfolded f(1)] same
    apply ((rule mthen_step mbind_step, (intro steady_cases steady_mbind steady_mthen steady_published))+)
    apply (simp only: split_def)
    apply ((rule mthen_step mbind_step, rule steady_published)+)
    apply (simp split: option.split)
    apply (intro impI allI)
    apply ((rule mthen_step mbind_step, (intro steady_cases steady_mbind steady_mthen steady_published))+)
    apply (rule publish, simp)
    apply simp
    apply ((rule mthen_step mbind_step, rule steady_published)+)
    apply (erule rest, simp)
    done
qed

lemma sum_same: "(\<And>y. k y s = k' y s) \<Longrightarrow> (case z of Inl e \<Rightarrow> h e | Inr y \<Rightarrow> k y) s = (case z of Inl e \<Rightarrow> h e | Inr y \<Rightarrow> k' y) s"
  by (simp split: sum.split)

lemma run_silenced:
  assumes "accepts req cb" "published s = []"
  shows "run L prompt req cb allow s = run L prompt req (silenced cb) allow s"
proof (cases cb)
  case None
  then show ?thesis by (simp add: silenced_def)
next
  case (Some f)
  note gen = generate_silenced [where f = f and L = L and R = "\<lparr>r_model = m, r_request = req, r_callback = cb, r_allow = allow,
      r_tokens = tokens, r_configuration = configuration, r_start = st, r_decode_start = ds\<rparr>" for m tokens configuration st ds]
  show ?thesis
    unfolding run_def
    apply ((rule mthen_step mbind_step, rule steady_published)+)
    apply (rule sum_same)
    apply (simp only: split_def)
    apply ((rule mthen_step mbind_step, rule steady_published)+)
    apply (subst gen)
    using assms Some by (auto simp: in_pace_def paced_def)
qed

text \<open>On the CPU a failed attempt is not repeated: the cache is dropped and the exception goes on.\<close>

lemma recover_cpu:
  "\<not> opencl s \<Longrightarrow> recover L allow prompt req cb e s = mthen clear_cache (mthen (clear_memory L) (mthrow e)) s"
  by (simp add: recover_def mthen_def mbind_def clear_cache_def mmodify_def mget_def mret_def)

lemma steady_recover_on_cpu:
  assumes f: "outside L f" and "\<not> opencl s"
  shows "f (snd (recover L allow prompt req cb e s)) = f s"
proof -
  have "steady f (mthen clear_cache (mthen (clear_memory L) (mthrow e :: (_, string) action)))"
    unfolding clear_memory_def by (intro steady_mthen steady_plain steady_outside [OF f])
  then show ?thesis by (simp add: steady_def recover_cpu [OF assms(2)])
qed

text \<open>So is a translation on the CPU: a failed attempt is not repeated there.\<close>

lemma translate_silenced:
  assumes "accepts req cb" "\<not> opencl s"
  shows "translate_attempts L allow prompt req cb s = translate_attempts L allow prompt req (silenced cb) s"
proof -
  let ?s = "s\<lparr>lastStats := zero_stats, published := []\<rparr>"
  have same: "attempt L prompt req cb allow ?s = attempt L prompt req (silenced cb) allow ?s"
    unfolding attempt_def by (rule mbind_same [OF run_silenced [OF assms(1)]]) simp_all
  have cpu: "\<not> opencl t" if "attempt L prompt req (silenced cb) allow ?s = (x, t)" for x t
    using steadyD [OF steady_attempt [OF outside_fixed_part] that] assms(2) fixed_part_fields(7) [of t ?s] by simp
  have "recover L allow prompt req cb e t = recover L allow prompt req (silenced cb) e t" if "\<not> opencl t" for e t
    using that by (simp add: recover_cpu)
  with same cpu show ?thesis
    by (auto simp: translate_attempts_def mthen_def mbind_def mmodify_def mcatch_def split: prod.splits outcome.splits)
qed

end
