(* ===== verification/HyMt_Orderly.thy ===== *)
theory HyMt_Orderly imports HyMt_Callbacks begin

text \<open>
  A callback that throws is not called again: on the CPU every event but the newest was accepted, and when
  the call returns, all were. (On the device a throwing callback is taken for a failure of the device.)
\<close>

section \<open>Accepted events\<close>

text \<open>\<open>clean f evs\<close>: the callback accepted every event; \<open>stopped f evs\<close>: every event but perhaps the last.\<close>

definition clean :: "(progress list \<Rightarrow> exn option) \<Rightarrow> progress list \<Rightarrow> bool" where
  "clean f evs \<longleftrightarrow> (\<forall>n. 0 < n \<and> n \<le> length evs \<longrightarrow> f (take n evs) = None)"

definition stopped :: "(progress list \<Rightarrow> exn option) \<Rightarrow> progress list \<Rightarrow> bool" where
  "stopped f evs \<longleftrightarrow> (\<forall>n. 0 < n \<and> n < length evs \<longrightarrow> f (take n evs) = None)"

lemma clean_Nil: "clean f []"
  by (simp add: clean_def)

lemma clean_stopped: "clean f evs \<Longrightarrow> stopped f evs"
  by (simp add: clean_def stopped_def)

lemma clean_snoc: "clean f (evs @ [ev]) \<longleftrightarrow> clean f evs \<and> f (evs @ [ev]) = None"
  by (auto simp: clean_def le_Suc_eq)

lemma stopped_snoc: "stopped f (evs @ [ev]) \<longleftrightarrow> clean f evs"
  by (auto simp: clean_def stopped_def less_Suc_eq_le)

text \<open>From a clean state an orderly action returns to one, or ends in a stopped one.\<close>

definition orderly :: "(progress list \<Rightarrow> exn option) \<Rightarrow> (('m, 'c, 'w) hymt, 'a) action \<Rightarrow> bool" where
  "orderly f m \<longleftrightarrow> (\<forall>s x t. clean f (published s) \<longrightarrow> m s = (x, t) \<longrightarrow>
     stopped f (published t) \<and> (\<forall>r. x = Ok r \<longrightarrow> clean f (published t)))"

lemma orderly_steady: "steady published m \<Longrightarrow> orderly f m"
  unfolding orderly_def by (metis clean_stopped steadyD)

lemma orderlyD:
  "orderly f m \<Longrightarrow> clean f (published s) \<Longrightarrow> m s = (x, t) \<Longrightarrow> stopped f (published t) \<and> (\<forall>r. x = Ok r \<longrightarrow> clean f (published t))"
  by (simp add: orderly_def)

lemma orderly_mbind:
  assumes "orderly f m" "\<And>x. orderly f (k x)" shows "orderly f (mbind m k)"
  unfolding orderly_def
proof (intro allI impI)
  fix s y t assume s: "clean f (published s)" and run: "mbind m k s = (y, t)"
  obtain x u where m: "m s = (x, u)" by fastforce
  note first = orderlyD [OF assms(1) s m]
  show "stopped f (published t) \<and> (\<forall>r. y = Ok r \<longrightarrow> clean f (published t))"
  proof (cases x)
    case (Ok r)
    then have "k r u = (y, t)" using run m by (simp add: mbind_def)
    then show ?thesis using orderlyD [OF assms(2)] first Ok by blast
  qed (use first run m in \<open>auto simp: mbind_def\<close>)
qed

lemma orderly_mthen: "orderly f m \<Longrightarrow> orderly f k \<Longrightarrow> orderly f (mthen m k)"
  unfolding mthen_def by (rule orderly_mbind)

lemma orderly_invoke: "orderly f (invoke f ev)"
  by (auto simp: orderly_def invoke_def Let_def stopped_snoc clean_snoc split: option.splits)

lemma orderly_cases:
  "(b \<Longrightarrow> orderly f m) \<Longrightarrow> (\<not> b \<Longrightarrow> orderly f n) \<Longrightarrow> orderly f (if b then m else n)"
  "orderly f k1 \<Longrightarrow> (\<And>y. orderly f (k2 y)) \<Longrightarrow> orderly f (case z of None \<Rightarrow> k1 | Some y \<Rightarrow> k2 y)"
  "(\<And>a b. orderly f (k3 a b)) \<Longrightarrow> orderly f (case p of (a, b) \<Rightarrow> k3 a b)"
  "(\<And>e. orderly f (k4 e)) \<Longrightarrow> (\<And>y. orderly f (k5 y)) \<Longrightarrow> orderly f (case q of Inl e \<Rightarrow> k4 e | Inr y \<Rightarrow> k5 y)"
  by (auto split: option.splits prod.splits sum.splits)

lemmas orderly_primitives = steady_published [THEN orderly_steady]

lemma orderly_publish: "r_callback R = Some f \<Longrightarrow> orderly f (publishProgress L R result at pub)"
  unfolding publishProgress_def Let_def
  by (auto intro!: orderly_mbind orderly_mthen orderly_cases orderly_invoke orderly_primitives split: option.split)

lemma orderly_generate: "r_callback R = Some f \<Longrightarrow> orderly f (generate L R smp result at pub i n)"
proof (induction n arbitrary: smp result at pub i)
  case 0
  show ?case by (simp add: orderly_primitives)
next
  case (Suc n)
  then show ?case unfolding generate.simps Let_def
    by (intro orderly_mbind orderly_mthen orderly_cases orderly_primitives orderly_publish Suc.IH)
qed

lemma orderly_attempt: "orderly f (attempt L prompt req (Some f) allow)"
  unfolding attempt_def run_def
  by (intro orderly_mbind orderly_mthen orderly_cases orderly_primitives orderly_generate) simp

lemma orderly_translate:
  assumes "translate_attempts L allow prompt req (Some f) s = (x, t)" "\<not> opencl s"
  shows "stopped f (published t)" "x = Ok r \<Longrightarrow> clean f (published t)"
proof -
  let ?s = "s\<lparr>lastStats := zero_stats, published := []\<rparr>"
  obtain y u where a: "attempt L prompt req (Some f) allow ?s = (y, u)" by fastforce
  have u: "stopped f (published u)" "y = Ok r \<Longrightarrow> clean f (published u)" for r
    using orderlyD [OF orderly_attempt _ a] clean_Nil by simp_all
  have "\<not> opencl u"
    using steadyD [OF steady_attempt [OF outside_fixed_part] a] assms(2) fixed_part_fields(7) [of u ?s] by simp
  then have rec: "published (snd (recover L allow prompt req (Some f) e u)) = published u"
    "fst (recover L allow prompt req (Some f) e u) \<noteq> Ok r" for e r
    using steady_recover_on_cpu [OF outside_published]
    by (auto simp: recover_cpu clear_memory_def mthen_def mbind_def mthrow_def clear_cache_def mmodify_def with_ctx_def
        split: option.splits prod.splits)
  have t: "translate_attempts L allow prompt req (Some f) s = (case y of Throw e \<Rightarrow> recover L allow prompt req (Some f) e u | _ \<Rightarrow> (y, u))"
    using a by (simp add: translate_attempts_def mthen_def mbind_def mmodify_def mcatch_def split: outcome.split)
  show "stopped f (published t)" using u rec(1) assms(1) t by (cases y) (auto, metis snd_conv)
  show "clean f (published t)" if "x = Ok r" using u rec assms(1) t that by (cases y) (auto, metis fst_conv)
qed

end
