(* ===== verification/Engines.thy ===== *)
theory Engines imports HyMt_Orderly Opus begin

text \<open>
  The interface \<open>TranslationEngine\<close> of \<open>translation.hpp\<close> as its two implementations fill it in, and what the
  programs that use an engine may rely on, stated as locales: any engine honours cancellation; an engine
  that decodes with a prefix cache is, seen from outside, a function of the prompt and a history.
\<close>

section \<open>The interface\<close>

text \<open>
  A table of the operations over the state of an object. \<open>flag_of\<close> and \<open>set_flag\<close> give access to the member
  \<open>cancelled\<close>; \<open>events_of\<close> are the progress events handed to the callback of the last call.
\<close>

record 's engine =
  translate_text :: "string \<Rightarrow> ('s, string) action"
  with_progress :: "string \<Rightarrow> request \<Rightarrow> callback \<Rightarrow> ('s, string) action"
  uncached :: "string \<Rightarrow> ('s, string) action"
  uncached_with_progress :: "string \<Rightarrow> request \<Rightarrow> callback \<Rightarrow> ('s, string) action"
  backend_name :: "'s \<Rightarrow> string"
  stats_of :: "'s \<Rightarrow> stats"
  flag_of :: "'s \<Rightarrow> flag"
  set_flag :: "flag \<Rightarrow> 's \<Rightarrow> 's"
  events_of :: "'s \<Rightarrow> progress list"

definition engine_cancel :: "'s engine \<Rightarrow> 's \<Rightarrow> 's" where
  "engine_cancel V s = set_flag V (cancel (flag_of V s)) s"

definition engine_reset :: "'s engine \<Rightarrow> 's \<Rightarrow> 's" where
  "engine_reset V s = set_flag V (resetCancellation (flag_of V s)) s"

definition hymt_engine :: "('m, 'd, 'c, 's, 'w) llama \<Rightarrow> ('m, 'c, 'w) hymt engine" where
  "hymt_engine L = \<lparr>translate_text = translate L, with_progress = translateWithProgress L,
     uncached = translateUncached L, uncached_with_progress = translateUncachedWithProgress L,
     backend_name = backend, stats_of = engine_stats, flag_of = eflag, set_flag = (\<lambda>f s. s\<lparr>eflag := f\<rparr>),
     events_of = published\<rparr>"

definition opus_engine :: "'w api \<Rightarrow> ('j, 'p) opus_env \<Rightarrow> ('j, 'p) opus \<Rightarrow> 'w opus_state engine" where
  "opus_engine A E m = \<lparr>translate_text = opus_translate A E m, with_progress = opus_translateWithProgress A E m,
     uncached = opus_translateUncached A E m, uncached_with_progress = opus_translateUncachedWithProgress A E m,
     backend_name = (\<lambda>_. opus_backend), stats_of = (\<lambda>_. opus_stats), flag_of = oflag, set_flag = (\<lambda>f s. s\<lparr>oflag := f\<rparr>),
     events_of = (\<lambda>_. [])\<rparr>"

text \<open>
  The destructors: members in reverse order of their declaration. The context of HyMt goes before its
  model; an Opus object releases its memory info, its decoder and its encoder.
\<close>

definition hymt_delete :: "(('m, 'c, 'w) hymt, unit) action" where
  "hymt_delete = mthen (mmodify (\<lambda>s. s\<lparr>ctx := None\<rparr>)) (mmodify (\<lambda>s. s\<lparr>model := None\<rparr>))"

definition opus_delete :: "'w api \<Rightarrow> ('j, 'p) opus \<Rightarrow> ('w opus_state, unit) action" where
  "opus_delete A m =
     mthen (in_ort (OrtRelease A ''MemoryInfo'' (memory m)))
    (mthen (in_ort (OrtRelease A ''Session'' (decoder m)))
      (in_ort (OrtRelease A ''Session'' (encoder m))))"

text \<open>An engine that is one component of a larger state.\<close>

definition zoom :: "('b \<Rightarrow> 'a) \<Rightarrow> ('a \<Rightarrow> 'b \<Rightarrow> 'b) \<Rightarrow> ('a, 'x) action \<Rightarrow> ('b, 'x) action" where
  "zoom look write m = (\<lambda>s. let (x, t) = m (look s) in (x, write t s))"

definition lift_engine :: "('b \<Rightarrow> 'a) \<Rightarrow> ('a \<Rightarrow> 'b \<Rightarrow> 'b) \<Rightarrow> 'a engine \<Rightarrow> 'b engine" where
  "lift_engine look write V = \<lparr>translate_text = (\<lambda>prompt. zoom look write (translate_text V prompt)),
     with_progress = (\<lambda>prompt req cb. zoom look write (with_progress V prompt req cb)),
     uncached = (\<lambda>prompt. zoom look write (uncached V prompt)),
     uncached_with_progress = (\<lambda>prompt req cb. zoom look write (uncached_with_progress V prompt req cb)),
     backend_name = (\<lambda>s. backend_name V (look s)), stats_of = (\<lambda>s. stats_of V (look s)),
     flag_of = (\<lambda>s. flag_of V (look s)), set_flag = (\<lambda>f s. write (set_flag V f (look s)) s),
     events_of = (\<lambda>s. events_of V (look s))\<rparr>"

section \<open>Cancellation\<close>

text \<open>The contract every engine keeps: with the flag set a translation throws, and the engine stays sane.\<close>

locale cancellable =
  fixes V :: "'s engine" and sane :: "'s \<Rightarrow> bool"
  assumes flag_set: "sane s \<Longrightarrow> sane (set_flag V f s) \<and> flag_of V (set_flag V f s) = f"
    and cancelled_throws: "sane s \<Longrightarrow> cancelled (flag_of V s) \<Longrightarrow>
      \<exists>t. translate_text V prompt s = (Throw (RuntimeError ''Translation cancelled''), t) \<and> sane t"
begin

lemma sane_cancel: "sane s \<Longrightarrow> sane (engine_cancel V s) \<and> cancelled (flag_of V (engine_cancel V s))"
  by (simp add: engine_cancel_def flag_set cancel_def)

lemma cancel_rejects:
  "sane s \<Longrightarrow> \<exists>t. translate_text V prompt (engine_cancel V s) = (Throw (RuntimeError ''Translation cancelled''), t) \<and> sane t"
  using cancelled_throws sane_cancel by blast

end

text \<open>Without other threads, on a ready HyMt; on any Opus object.\<close>

definition hymt_alone :: "('m, 'd, 'c, 's, 'w) llama \<Rightarrow> ('c \<Rightarrow> int list) \<Rightarrow> ('c \<Rightarrow> bool)
    \<Rightarrow> ('s \<Rightarrow> int list \<Rightarrow> int \<times> 's) \<Rightarrow> ('m, 'c, 'w) hymt \<Rightarrow> bool" where
  "hymt_alone L kv fresh nx s \<longleftrightarrow> kv_laws L (nat context_size) kv fresh nx \<and> (\<forall>n. others L n = []) \<and> ready kv s"

lemma ready_eflag [simp]: "ready kv (s\<lparr>eflag := f\<rparr>) = ready kv s"
  by (simp add: ready_def valid_batches_def cache_sound_def split: option.split)

lemma hymt_cancelled_throws:
  assumes "hymt_alone L kv fresh nx s" "cancelled (eflag s)"
  shows "\<exists>t. translate L prompt s = (Throw (RuntimeError ''Translation cancelled''), t) \<and> hymt_alone L kv fresh nx t"
  using wp_cancelled [of L kv fresh nx s True prompt default_request None] assms
  unfolding hymt_alone_def translate_def translateWithProgress_def wp_def
  by (auto split: prod.splits outcome.splits)

lemma opus_cancelled_throws:
  assumes "\<forall>n. flag_others E n = []" "cancelled (oflag s)"
  shows "\<exists>t. opus_translate A E m prompt s = (Throw (RuntimeError ''Translation cancelled''), t)"
  using assms by (simp add: opus_translate_def opus_checkCancelled_def load_flag_def mguard_def mthrow_def mbind_def
      mthen_def Let_def)

interpretation hymt: cancellable "hymt_engine L" "hymt_alone L kv fresh nx" for L kv fresh nx
  by unfold_locales (simp add: hymt_engine_def hymt_alone_def, simp add: hymt_engine_def hymt_cancelled_throws)

interpretation opus: cancellable "opus_engine A E m" "\<lambda>s. \<forall>n. flag_others E n = []" for A E m
  by unfold_locales (simp_all add: opus_engine_def opus_cancelled_throws)

text \<open>The contract carries over to an engine inside a larger state.\<close>

lemma cancellable_lift:
  assumes "cancellable V sane" "\<And>a s. look (write a s) = a"
  shows "cancellable (lift_engine look write V) (\<lambda>s. sane (look s))"
proof unfold_locales
  show "sane (look (set_flag (lift_engine look write V) f s))
      \<and> flag_of (lift_engine look write V) (set_flag (lift_engine look write V) f s) = f" if "sane (look s)" for f s
    using cancellable.flag_set [OF assms(1) that, of f] assms(2) by (simp add: lift_engine_def)
  show "\<exists>t. translate_text (lift_engine look write V) prompt s = (Throw (RuntimeError ''Translation cancelled''), t) \<and> sane (look t)"
    if "sane (look s)" "cancelled (flag_of (lift_engine look write V) s)" for prompt s
  proof -
    from cancellable.cancelled_throws [OF assms(1) that(1)] that(2)
    obtain t where "translate_text V prompt (look s) = (Throw (RuntimeError ''Translation cancelled''), t)" "sane t"
      by (auto simp: lift_engine_def)
    then show ?thesis by (simp add: lift_engine_def zoom_def assms(2))
  qed
qed

section \<open>Callbacks\<close>

text \<open>
  An orderly engine stops when its callback throws: every event of a call but the newest was accepted, and
  all of them if it returned.
\<close>

locale orderly_engine =
  fixes V :: "'s engine" and sane :: "'s \<Rightarrow> bool"
  assumes orderly_call: "sane s \<Longrightarrow> with_progress V prompt req (Some f) s = (x, t) \<Longrightarrow>
      stopped f (events_of V t) \<and> (\<forall>r. x = Ok r \<longrightarrow> clean f (events_of V t))"

lemma hymt_orderly:
  "\<not> opencl s \<Longrightarrow> with_progress (hymt_engine L) prompt req (Some f) s = (x, t) \<Longrightarrow>
     stopped f (events_of (hymt_engine L) t) \<and> (\<forall>r. x = Ok r \<longrightarrow> clean f (events_of (hymt_engine L) t))"
  using orderly_translate [of L True prompt req f s x t] by (simp add: hymt_engine_def translateWithProgress_def)

interpretation hymt_order: orderly_engine "hymt_engine L" "\<lambda>s. \<not> opencl s" for L
  by unfold_locales (rule hymt_orderly)

interpretation opus_order: orderly_engine "opus_engine A E m" "\<lambda>s. True" for A E m
  by unfold_locales (simp add: opus_engine_def clean_Nil clean_stopped)

lemma orderly_lift:
  assumes V: "orderly_engine V sane" and look: "\<And>a s. look (write a s) = a"
  shows "orderly_engine (lift_engine look write V) (\<lambda>s. sane (look s))"
proof
  fix s prompt req f x t
  assume s: "sane (look s)" and run: "with_progress (lift_engine look write V) prompt req (Some f) s = (x, t)"
  obtain y u where m: "with_progress V prompt req (Some f) (look s) = (y, u)" by fastforce
  with run have "x = y" "t = write u s" by (simp_all add: lift_engine_def zoom_def)
  then show "stopped f (events_of (lift_engine look write V) t)
      \<and> (\<forall>r. x = Ok r \<longrightarrow> clean f (events_of (lift_engine look write V) t))"
    using orderly_engine.orderly_call [OF V s m] by (simp add: lift_engine_def look)
qed

section \<open>Engines with a prefix cache\<close>

text \<open>
  The contract of a prefix cache: what a translation returns or throws depends on the prompt alone (\<open>says\<close>);
  the history decides how many prompt tokens are reused (\<open>kept\<close>) and becomes session, scope and tokens of
  the request, or nothing after an uncached or a failed translation. It holds while the engine is \<open>calm\<close>:
  not cancelled, and in an environment that works.
\<close>

locale caching = cancellable +
  fixes says :: "string \<Rightarrow> exn + string" and toks :: "string \<Rightarrow> int list"
    and remembered :: "history \<Rightarrow> 's \<Rightarrow> bool" and calm :: "'s \<Rightarrow> bool"
  assumes plain: "translate_text V prompt = with_progress V prompt default_request None"
      "uncached V prompt = uncached_with_progress V prompt default_request None"
    and cached_call: "sane s \<Longrightarrow> calm s \<Longrightarrow> remembered h s \<Longrightarrow> accepts req cb \<Longrightarrow>
      wp (with_progress V prompt req cb)
        (\<lambda>r t. sane t \<and> calm t \<and> says prompt = Inr r
           \<and> remembered (Some (session_id req, cache_scope req, toks prompt)) t
           \<and> input_tokens (stats_of V t) = int (length (toks prompt))
           \<and> cache_reused_tokens (stats_of V t) = int (kept h req (toks prompt)))
        (\<lambda>e t. sane t \<and> calm t \<and> says prompt = Inl e \<and> remembered None t) s"
    and uncached_call: "sane s \<Longrightarrow> calm s \<Longrightarrow> remembered h s \<Longrightarrow> accepts req cb \<Longrightarrow>
      wp (uncached_with_progress V prompt req cb)
        (\<lambda>r t. sane t \<and> calm t \<and> says prompt = Inr r \<and> remembered None t
           \<and> input_tokens (stats_of V t) = int (length (toks prompt)) \<and> cache_reused_tokens (stats_of V t) = 0)
        (\<lambda>e t. sane t \<and> calm t \<and> says prompt = Inl e \<and> remembered None t) s"
begin

lemma accepts_none: "accepts req None"
  by (simp add: accepts_def)

text \<open>Repeating a prompt in its session and scope reuses all of it but the last token.\<close>

lemma kept_repeated: "kept (Some (session_id req, cache_scope req, ts)) req ts = length ts - 1"
  by (simp add: kept_def longestCommonPrefix_self)

lemma kept_other:
  "session \<noteq> session_id req \<or> scope \<noteq> cache_scope req \<Longrightarrow> kept (Some (session, scope, ts)) req ts' = 0"
  by (auto simp: kept_def)

end

definition hymt_tokens :: "('m, 'd, 'c, 's, 'w) llama \<Rightarrow> 'm \<Rightarrow> string \<Rightarrow> int list" where
  "hymt_tokens L m prompt = (case prepare L m prompt of Inl e \<Rightarrow> [] | Inr (format, tokens) \<Rightarrow> tokens)"

definition hymt_calm :: "('m, 'd, 'c, 's, 'w) llama \<Rightarrow> ('c \<Rightarrow> int list) \<Rightarrow> 'm \<Rightarrow> ('m, 'c, 'w) hymt \<Rightarrow> bool" where
  "hymt_calm L kv m s \<longleftrightarrow> \<not> cancelled (eflag s) \<and> \<not> opencl s \<and> model s = Some m
     \<and> reliable L (nat context_size) kv None \<and> removes L"

lemma steady_translate_on_cpu:
  assumes f: "outside L f" "\<And>s evs. f (s\<lparr>published := evs\<rparr>) = f s" and "\<not> opencl s"
  shows "f (snd (translate_attempts L allow prompt req cb s)) = f s"
proof -
  let ?s = "s\<lparr>lastStats := zero_stats, published := []\<rparr>"
  obtain x t where a: "attempt L prompt req cb allow ?s = (x, t)" by fastforce
  have "f ?s = f s" using f unfolding outside_def by simp
  moreover have "f t = f ?s" using steadyD [OF steady_attempt [OF f] a] .
  moreover have "\<not> opencl t"
    using steadyD [OF steady_attempt [OF outside_fixed_part] a] assms(3) fixed_part_fields(7) [of t ?s] by simp
  ultimately show ?thesis using a steady_recover_on_cpu [OF f(1), of t]
    by (simp add: translate_attempts_def mthen_def mbind_def mmodify_def mcatch_def split: outcome.split)
qed

lemma hymt_call:
  assumes s: "hymt_alone L kv fresh nx s" "hymt_calm L kv m s" "remembers L h s" "accepts req cb"
  shows "wp (translate_attempts L allow prompt req cb)
    (\<lambda>r t. hymt_alone L kv fresh nx t \<and> hymt_calm L kv m t \<and> ref_translate L nx m prompt = Inr r
       \<and> remembers L (if allow then Some (session_id req, cache_scope req, hymt_tokens L m prompt) else None) t
       \<and> input_tokens (lastStats t) = int (length (hymt_tokens L m prompt))
       \<and> cache_reused_tokens (lastStats t) = int (if allow then kept h req (hymt_tokens L m prompt) else 0))
    (\<lambda>e t. hymt_alone L kv fresh nx t \<and> hymt_calm L kv m t \<and> ref_translate L nx m prompt = Inl e \<and> remembers L None t) s"
proof -
  have laws: "kv_laws L (nat context_size) kv fresh nx" and r: "ready kv s" and o: "\<forall>n. others L n = []"
    using s(1) by (simp_all add: hymt_alone_def)
  have c: "\<not> opencl s" "model s = Some m" "removes L" "\<not> cancelled (eflag s)" "reliable L (nat context_size) kv None"
    using s(2) by (simp_all add: hymt_calm_def)
  have rel: "reliable L (nat context_size) kv (silenced cb)"
    using c(5) by (auto simp: reliable_def silenced_def split: option.split)
  let ?m = "translate_attempts L allow prompt req"
  note eq = translate_silenced [OF s(4) c(1), of L allow prompt]
  note outs = steady_translate_on_cpu [OF outside_cancelled [OF o] _ c(1), simplified]
  show ?thesis
  proof (cases rule: translate_attempts_cases [OF laws r, of allow prompt req cb])
    case (1 r t)
    show ?thesis
    proof -
      obtain format tokens where "prepare L m prompt = Inr (format, tokens)" "ref_translate L nx m prompt = Inr r"
        "input_tokens (lastStats t) = int (length tokens)"
        "cache_reused_tokens (lastStats t) = int (if allow then kept h req tokens else 0)"
        "remembers L (if allow then Some (session_id req, cache_scope req, tokens) else None) t"
        "ready kv t" "\<not> opencl t" "model t = Some m"
        using translation_step [OF laws r c(1,3) s(3) 1(1)] c(2) by (metis option.inject)
      moreover have "\<not> cancelled (eflag t)" using outs [of allow prompt req cb] 1(1) c(4) by simp
      ultimately show ?thesis using 1(1) laws o c(3,5)
        by (cases allow) (simp_all add: wp_def hymt_alone_def hymt_calm_def hymt_tokens_def)
    qed
  next
    case (2 e t)
    have "fst (?m (silenced cb) s) = Throw e" using 2(1) eq by simp
    then have "ref_translate L nx m prompt = Inl e"
      using reliable_outcome [OF laws r c(2) rel c(4) c(1), of allow prompt req] by (simp split: sum.splits)
    moreover have "\<not> cancelled (eflag t)" using outs [of allow prompt req cb] 2(1) c(4) by simp
    moreover have "model t = Some m" "ready kv t"
      using 2(2) c(1,2) by (auto simp: not_translated_def same_engine_def fell_back_def broken_def)
    moreover have "remembers L None t" "\<not> opencl t" using failed_step [OF laws r c(1) 2(1)] by simp_all
    ultimately show ?thesis using 2(1) laws o c(3,5) by (simp add: wp_def hymt_alone_def hymt_calm_def)
  qed
qed

interpretation hymt_cpu: caching "hymt_engine L" "hymt_alone L kv fresh nx" "ref_translate L nx m" "hymt_tokens L m"
    "remembers L" "hymt_calm L kv m" for L kv fresh nx m
  by unfold_locales (use hymt_call [where allow = True] hymt_call [where allow = False] in
      \<open>simp_all add: hymt_engine_def translate_def translateUncached_def translateWithProgress_def
        translateUncachedWithProgress_def engine_stats_def\<close>)

lemma wp_zoom: "wp (zoom look write m) Q E s = wp m (\<lambda>x t. Q x (write t s)) (\<lambda>e t. E e (write t s)) (look s)"
  by (simp add: zoom_def wp_def split: prod.splits outcome.splits)

lemma caching_lift:
  assumes V: "caching V sane says toks remembered calm" and look: "\<And>a s. look (write a s) = a"
  shows "caching (lift_engine look write V) (\<lambda>s. sane (look s)) says toks (\<lambda>h s. remembered h (look s)) (\<lambda>s. calm (look s))"
proof -
  have "cancellable V sane" using V by (simp add: caching_def)
  then have base: "cancellable (lift_engine look write V) (\<lambda>s. sane (look s))"
    by (rule cancellable_lift) (rule look)
  show ?thesis
    using caching.cached_call [OF V] caching.uncached_call [OF V] caching.plain [OF V] base
    by (simp add: caching_def caching_axioms_def lift_engine_def wp_zoom look)
qed

text \<open>A new HyMt is not cancelled, and remembers nothing.\<close>

lemma steady_initialize: "steady eflag (initialize L device)"
proof -
  have "steady eflag (load_step L device)" "steady eflag (context_step L m)" for m
    by (auto simp: steady_def load_step_def context_step_def Let_def split: prod.splits sum.splits)
  then show ?thesis unfolding initialize_def clear_cache_def
    by (intro steady_intros steady_mmodify) (simp_all add: place_layers_def Let_def)
qed

lemma steady_construct: "steady eflag (construct L)"
proof -
  have "steady eflag (probe L d)" for d by (auto simp: steady_def probe_def split: prod.splits)
  then show ?thesis unfolding construct_def try_opencl_def count_fallback_def
    by (intro steady_intros steady_initialize steady_mmodify) simp_all
qed

lemma new_hymt:
  assumes "load_hymt L modelPath cpuThreads contextBatch contextUbatch False w = (Ok (), s)"
    and "kv_laws L (nat context_size) kv fresh nx" "\<forall>n. others L n = []" "reliable L (nat context_size) kv None" "removes L"
  obtains m where "hymt_alone L kv fresh nx s" "hymt_calm L kv m s" "remembers L None s"
proof -
  have st: "started L kv False s" using wp_Ok_D [OF wp_construct [OF assms(2) refl] assms(1) [unfolded load_hymt_def]] .
  then obtain m where "model s = Some m" by (auto simp: started_def ready_def)
  moreover have "\<not> cancelled (eflag s)"
    using steadyD [OF steady_construct assms(1) [unfolded load_hymt_def]] by (simp add: unconstructed_def)
  ultimately show ?thesis using that [of m] st assms(2-5)
    by (simp add: started_def hymt_alone_def hymt_calm_def remembers_def cold_def)
qed

end
