(* ===== verification/Drivers.thy ===== *)
theory Drivers imports Engines begin

text \<open>
  What the programs over the translation engines share: the state of a driver, the calls it makes of an
  engine, the engines of one process over one runtime, and the contracts of \<open>Engines\<close> restated for calls
  from a driver.
\<close>

section \<open>Drivers\<close>

text \<open>The state of a program that drives engines: theirs, the lines it printed, its readings of the clock.\<close>

record 'e driver =
  engines_state :: 'e
  printed :: "string list"
  complaints :: "string list"
  ticks :: nat

definition drive :: "('e, 'a) action \<Rightarrow> (('e, 'z) driver_scheme, 'a) action" where
  "drive = zoom engines_state (\<lambda>a s. s\<lparr>engines_state := a\<rparr>)"

definition ask :: "('e \<Rightarrow> 'a) \<Rightarrow> (('e, 'z) driver_scheme, 'a) action" where
  "ask f = mget (\<lambda>s. f (engines_state s))"

definition say :: "string list \<Rightarrow> (('e, 'z) driver_scheme, unit) action" where
  "say parts = mmodify (\<lambda>s. s\<lparr>printed := printed s @ [concat parts]\<rparr>)"

definition tick :: "(nat \<Rightarrow> int) \<Rightarrow> (('e, 'z) driver_scheme, int) action" where
  "tick clk = (\<lambda>s. (Ok (clk (ticks s)), s\<lparr>ticks := Suc (ticks s)\<rparr>))"

definition bytes :: "nat list \<Rightarrow> string" where
  "bytes = map char_of"

section \<open>The engines of a process\<close>

text \<open>
  The engines of the process: HyMt objects by number, OPUS objects over one runtime, each with its flag. An
  engine of it is one component of the state.
\<close>

record ('m, 'c, 'w, 'v) engines =
  hys :: "nat \<Rightarrow> ('m, 'c, 'w) hymt"
  rt :: "'v opus_state"
  flags :: "nat \<Rightarrow> flag"

definition look_hy :: "nat \<Rightarrow> ('m, 'c, 'w, 'v) engines \<Rightarrow> ('m, 'c, 'w) hymt" where
  "look_hy k s = hys s k"

definition write_hy :: "nat \<Rightarrow> ('m, 'c, 'w) hymt \<Rightarrow> ('m, 'c, 'w, 'v) engines \<Rightarrow> ('m, 'c, 'w, 'v) engines" where
  "write_hy k t s = s\<lparr>hys := (hys s)(k := t)\<rparr>"

definition look_opus :: "nat \<Rightarrow> ('m, 'c, 'w, 'v) engines \<Rightarrow> 'v opus_state" where
  "look_opus k s = (rt s)\<lparr>oflag := flags s k\<rparr>"

definition write_opus :: "nat \<Rightarrow> 'v opus_state \<Rightarrow> ('m, 'c, 'w, 'v) engines \<Rightarrow> ('m, 'c, 'w, 'v) engines" where
  "write_opus k t s = s\<lparr>rt := t, flags := (flags s)(k := oflag t)\<rparr>"

definition hy_engine :: "('m, 'd, 'c, 's, 'w) llama \<Rightarrow> nat \<Rightarrow> ('m, 'c, 'w, 'v) engines engine" where
  "hy_engine L k = lift_engine (look_hy k) (write_hy k) (hymt_engine L)"

definition op_engine :: "'v api \<Rightarrow> ('j, 'p) opus_env \<Rightarrow> nat \<Rightarrow> ('j, 'p) opus \<Rightarrow> ('m, 'c, 'w, 'v) engines engine" where
  "op_engine A E k m = lift_engine (look_opus k) (write_opus k) (opus_engine A E m)"

definition load_hy :: "('m, 'd, 'c, 's, 'w) llama \<Rightarrow> nat \<Rightarrow> string \<Rightarrow> int \<Rightarrow> int \<Rightarrow> int \<Rightarrow> bool
    \<Rightarrow> (('m, 'c, 'w, 'v) engines, unit) action" where
  "load_hy L k modelPath cpuThreads contextBatch contextUbatch prefer =
     zoom (look_hy k) (write_hy k) (\<lambda>s. load_hymt L modelPath cpuThreads contextBatch contextUbatch prefer (world s))"

definition load_op :: "'v api \<Rightarrow> ('j, 'p) opus_env \<Rightarrow> nat \<Rightarrow> string \<Rightarrow> int
    \<Rightarrow> (('m, 'c, 'w, 'v) engines, ('j, 'p) opus) action" where
  "load_op A E k dir cpuThreads =
     mthen (mmodify (\<lambda>s. s\<lparr>flags := (flags s)(k := \<lparr>cancelled = False, loads = 0\<rparr>)\<rparr>))
      (zoom (look_opus k) (write_opus k) (Opus_new A E dir cpuThreads))"

text \<open>A \<open>std::unique_ptr\<close> to an engine: destroyed when its scope is left, normally or by an exception.\<close>

definition holding :: "('s, unit) action \<Rightarrow> ('s, 'a) action \<Rightarrow> ('s, 'a) action" where
  "holding destroy body =
     mbind (mcatch body (\<lambda>e. mthen destroy (mthrow e))) (\<lambda>x. mthen destroy (mret x))"

definition complain :: "string list \<Rightarrow> (('e, 'z) driver_scheme, unit) action" where
  "complain parts = mmodify (\<lambda>s. s\<lparr>complaints := complaints s @ [concat parts]\<rparr>)"

section \<open>Calls of a driver\<close>

lemma wp_drive:
  "wp (drive m) Q E s = wp m (\<lambda>x t. Q x (s\<lparr>engines_state := t\<rparr>)) (\<lambda>e t. E e (s\<lparr>engines_state := t\<rparr>)) (engines_state s)"
  by (simp add: drive_def zoom_def wp_def split: prod.splits outcome.splits)

lemma wp_ask [wp_simps]: "wp (ask f) Q E s = Q (f (engines_state s)) s"
  by (simp add: ask_def wp_simps)

lemma wp_say [wp_simps]: "wp (say ps) Q E s = Q () (s\<lparr>printed := printed s @ [concat ps]\<rparr>)"
  by (simp add: say_def wp_simps)

lemma wp_tick [wp_simps]: "wp (tick clk) Q E s = Q (clk (ticks s)) (s\<lparr>ticks := Suc (ticks s)\<rparr>)"
  by (simp add: tick_def wp_def)

context caching begin

text \<open>The state between two sections of \<open>main\<close>: engine sane and calm, with a known history.\<close>

definition at_rest :: "history \<Rightarrow> ('s, 'z) driver_scheme \<Rightarrow> bool" where
  "at_rest h s \<longleftrightarrow> sane (engines_state s) \<and> calm (engines_state s) \<and> remembered h (engines_state s)"

lemma at_rest_drivers [simp]:
  "at_rest h (s\<lparr>printed := x\<rparr>) = at_rest h s" "at_rest h (s\<lparr>ticks := n\<rparr>) = at_rest h s"
  by (simp_all add: at_rest_def)

lemma wp_cached_call:
  assumes "at_rest h s" "accepts req cb"
    and "\<And>r t. at_rest (Some (session_id req, cache_scope req, toks prompt)) t \<Longrightarrow> says prompt = Inr r \<Longrightarrow>
      input_tokens (stats_of V (engines_state t)) = int (length (toks prompt)) \<Longrightarrow>
      cache_reused_tokens (stats_of V (engines_state t)) = int (kept h req (toks prompt)) \<Longrightarrow>
      driver.more t = driver.more s \<Longrightarrow> Q r t"
    and "\<And>e t. says prompt = Inl e \<Longrightarrow> E e t"
  shows "wp (drive (with_progress V prompt req cb)) Q E s"
  unfolding wp_drive
  by (rule wp_mono [OF cached_call [OF _ _ _ assms(2)]]) (use assms in \<open>auto simp: at_rest_def\<close>)

lemma wp_uncached_with:
  assumes "at_rest h s" "accepts req cb"
    and "\<And>r t. at_rest None t \<Longrightarrow> says prompt = Inr r \<Longrightarrow>
      input_tokens (stats_of V (engines_state t)) = int (length (toks prompt)) \<Longrightarrow>
      cache_reused_tokens (stats_of V (engines_state t)) = 0 \<Longrightarrow> driver.more t = driver.more s \<Longrightarrow> Q r t"
    and "\<And>e t. says prompt = Inl e \<Longrightarrow> E e t"
  shows "wp (drive (uncached_with_progress V prompt req cb)) Q E s"
  unfolding wp_drive
  by (rule wp_mono [OF uncached_call [OF _ _ _ assms(2)]]) (use assms in \<open>auto simp: at_rest_def\<close>)

lemma wp_uncached_call:
  assumes "at_rest h s" and "\<And>r t. at_rest None t \<Longrightarrow> says prompt = Inr r \<Longrightarrow> Q r t" "\<And>e t. says prompt = Inl e \<Longrightarrow> E e t"
  shows "wp (drive (uncached V prompt)) Q E s"
  unfolding plain(2) by (rule wp_uncached_with [OF assms(1) accepts_none]) (use assms in auto)

end

section \<open>The contracts of the engines of a process\<close>

interpretation proc_hy: caching "hy_engine L k" "\<lambda>s. hymt_alone L kv fresh nx (look_hy k s)" "ref_translate L nx m"
    "hymt_tokens L m" "\<lambda>h s. remembers L h (look_hy k s)" "\<lambda>s. hymt_calm L kv m (look_hy k s)" for L k kv fresh nx m
  unfolding hy_engine_def by (rule caching_lift) (unfold_locales, simp add: look_hy_def write_hy_def)

interpretation proc_op: cancellable "op_engine A E k m" "\<lambda>s. \<forall>n. flag_others E n = []" for A E k m
proof -
  have "cancellable (op_engine A E k m) (\<lambda>s. (\<lambda>t. \<forall>n. flag_others E n = []) (look_opus k s))"
    unfolding op_engine_def
    by (rule cancellable_lift) (unfold_locales, simp add: look_opus_def write_opus_def)
  then show "cancellable (op_engine A E k m) (\<lambda>s. \<forall>n. flag_others E n = [])" by simp
qed

interpretation proc_hy_order: orderly_engine "hy_engine L k" "\<lambda>s. \<not> opencl (look_hy k s)" for L k
  unfolding hy_engine_def by (rule orderly_lift) (unfold_locales, simp add: look_hy_def write_hy_def)

interpretation proc_op_order: orderly_engine "op_engine A E k m" "\<lambda>s. True" for A E k m
proof -
  have "orderly_engine (op_engine A E k m) (\<lambda>s. (\<lambda>t. True) (look_opus k s))"
    unfolding op_engine_def by (rule orderly_lift) (unfold_locales, simp add: look_opus_def write_opus_def)
  then show "orderly_engine (op_engine A E k m) (\<lambda>s. True)" by simp
qed

end
