(* ===== verification/Smoke.thy ===== *)
theory Smoke imports Drivers begin

text \<open>
  The regression program \<open>smoke.cpp\<close>: it loads the three engines, translates fixed sentences through the
  interface \<open>TranslationEngine\<close> and throws when an expectation fails. Its sections are written over any
  engine; the checks of prefix reuse, cadence and cancellation are proved never to fire for engines that
  keep the contracts of \<open>Engines\<close>.
\<close>

section \<open>The sentences\<close>

definition instruct :: "string \<Rightarrow> string" where
  "instruct language = ''Translate the following text into '' @ language
     @ ''. Only output the translated result without any additional explanation:'' @ bytes [0x0A, 0x0A]"

text \<open>\<open>cases\<close>: a prompt and what its translation has to contain.\<close>

definition smoke_case :: "nat \<Rightarrow> string \<times> string" where
  "smoke_case i =
     (if i = 0 then (instruct ''English'' @ ''Goedemorgen. De vergadering begint om negen uur.'', ''meeting'')
      else if i = 1 then
        (''Reference the following translations:'' @ bytes [0x0A, 0xE6, 0x99, 0xB6, 0xE5, 0x9C, 0x86]
           @ '' translates to wafer'' @ bytes [0x0A, 0xE5, 0xA5, 0x97, 0xE5, 0x88, 0xBB] @ '' translates to overlay''
           @ bytes [0x0A, 0x0A] @ instruct ''English''
           @ bytes [0xE8, 0xAF, 0xB7, 0xE6, 0xA3, 0x80, 0xE6, 0x9F, 0xA5, 0xE6, 0x99, 0xB6, 0xE5, 0x9C, 0x86, 0xE4, 0xB8,
               0x8A, 0xE7, 0x9A, 0x84, 0xE5, 0xA5, 0x97, 0xE5, 0x88, 0xBB, 0xE8, 0xAF, 0xAF, 0xE5, 0xB7, 0xAE, 0xE3, 0x80, 0x82],
         ''wafer'')
      else (instruct ''French'' @ ''Please check the temperature before starting the machine.'',
            ''temp'' @ bytes [0xC3, 0xA9] @ ''rature''))"

definition changed_prompt :: string where
  "changed_prompt = instruct ''English'' @ ''Goedemorgen. De trein vertrekt om elf uur.''"

definition smoke_request :: request where
  "smoke_request = \<lparr>session_id = 41, segment_id = 3, revision = 2, cache_scope = ''hy-chat-v1|target=en|glossary=none''\<rparr>"

section \<open>The callbacks\<close>

text \<open>
  The callback of the first translation. It receives the events so far: \<open>updates\<close> holds all but the newest,
  because each was pushed when it passed.
\<close>

definition smoke_check :: "request \<Rightarrow> progress list \<Rightarrow> exn option" where
  "smoke_check req evs =
     (let ev = last evs; updates = butlast evs in
      if p_session_id ev \<noteq> session_id req \<or> p_segment_id ev \<noteq> segment_id req \<or> p_revision ev \<noteq> revision req
         \<or> \<not> p_provisional ev \<or> \<not> validUtf8 (p_text ev)
      then Some (RuntimeError ''Invalid native progressive translation metadata or UTF-8'')
      else if updates \<noteq> [] \<and> p_elapsed_ms ev - p_elapsed_ms (last updates) < 80
      then Some (RuntimeError ''Native progress exceeded the 80 ms UI cadence'')
      else None)"

definition smoke_check_accented :: "request \<Rightarrow> progress list \<Rightarrow> exn option" where
  "smoke_check_accented req evs =
     (let ev = last evs in
      if \<not> validUtf8 (p_text ev) \<or> \<not> p_provisional ev \<or> p_session_id ev \<noteq> session_id req
         \<or> p_segment_id ev \<noteq> segment_id req \<or> p_revision ev \<noteq> revision req
      then Some (RuntimeError ''Invalid UTF-8 progress event on accented output'') else None)"

section \<open>The sections of \<open>main\<close>\<close>

definition smoke_first :: "'e engine \<Rightarrow> ('e driver, string \<times> stats \<times> nat) action" where
  "smoke_first V =
     mbind (drive (with_progress V (fst (smoke_case 0)) smoke_request (Some (smoke_check smoke_request)))) (\<lambda>first.
     mbind (ask (events_of V)) (\<lambda>updates.
     mthen (mguard (str_find (snd (smoke_case 0)) first 0 = None \<or> updates = [])
        (RuntimeError ''Hy-MT2 progressive smoke mismatch or missing callback''))
    (mbind (ask (stats_of V)) (\<lambda>st.
     mthen (mguard (input_tokens st \<le> 0 \<or> output_tokens st \<le> 0 \<or> first_visible_ms st \<le> 0
          \<or> complete_ms st < first_visible_ms st)
        (RuntimeError ''Hy-MT2 token or first-visible/completion timings are missing''))
      (mret (first, st, length updates))))))"

definition smoke_repeated :: "'e engine \<Rightarrow> string \<Rightarrow> ('e driver, stats \<times> stats) action" where
  "smoke_repeated V first =
     mbind (drive (with_progress V (fst (smoke_case 0)) smoke_request None)) (\<lambda>repeated.
     mbind (ask (stats_of V)) (\<lambda>st.
     mthen (mguard (repeated \<noteq> first \<or> cache_reused_tokens st \<noteq> input_tokens st - 1)
        (RuntimeError ''Exact prompt did not reuse its longest safe KV prefix''))
    (mbind (drive (uncached V (fst (smoke_case 0)))) (\<lambda>uncachedFirst.
     mthen (mguard (uncachedFirst \<noteq> repeated) (RuntimeError ''Cached output differs from full prefill output''))
    (mbind (ask (stats_of V)) (\<lambda>ust. mret (st, ust)))))))"

definition smoke_changed :: "'e engine \<Rightarrow> ('e driver, stats) action" where
  "smoke_changed V =
     mthen (drive (with_progress V (fst (smoke_case 0)) smoke_request None))
    (mbind (drive (with_progress V changed_prompt smoke_request None)) (\<lambda>cachedChanged.
     mbind (ask (stats_of V)) (\<lambda>st.
     mthen (mguard (cache_reused_tokens st \<le> 0)
        (RuntimeError ''Changed prompt did not reuse its longest shared token prefix''))
    (mbind (drive (uncached V changed_prompt)) (\<lambda>uncachedChanged.
     mthen (mguard (cachedChanged \<noteq> uncachedChanged)
        (RuntimeError ''Divergent KV state contaminated another request''))
      (mret st))))))"

definition next_session :: request where
  "next_session = smoke_request\<lparr>session_id := session_id smoke_request + 1\<rparr>"

definition next_scope :: request where
  "next_scope = next_session\<lparr>cache_scope := ''hy-chat-v1|target=fr|glossary=updated''\<rparr>"

definition smoke_scopes :: "'e engine \<Rightarrow> ('e driver, unit) action" where
  "smoke_scopes V =
     mthen (drive (with_progress V changed_prompt next_session None))
    (mbind (ask (stats_of V)) (\<lambda>st.
     mthen (mguard (cache_reused_tokens st \<noteq> 0) (RuntimeError ''Session change reused old KV state''))
    (mthen (drive (with_progress V changed_prompt next_session None))
    (mthen (drive (with_progress V changed_prompt next_scope None))
    (mbind (ask (stats_of V)) (\<lambda>st.
     mguard (cache_reused_tokens st \<noteq> 0) (RuntimeError ''Prompt configuration change reused old KV state'')))))))"

definition smoke_report :: "stats \<Rightarrow> nat \<Rightarrow> stats \<Rightarrow> stats \<Rightarrow> stats \<Rightarrow> ('e driver, unit) action" where
  "smoke_report st n repeated full changed = say
     [''Hy-MT2 KV/progressive: input='', to_string (input_tokens st), '' output='', to_string (output_tokens st),
      '' firstVisible='', to_string (first_visible_ms st), '' ms complete='', to_string (complete_ms st),
      '' ms callbacks='', nat_digits n, '' samePromptReused='', to_string (cache_reused_tokens repeated), ''/'',
      to_string (input_tokens repeated - 1), '' tokens coldPrefill='', to_string (prefill_ms full), '' ms warmPrefill='',
      to_string (prefill_ms repeated), '' ms divergentReused='', to_string (cache_reused_tokens changed),
      '' tokens; sessions/configuration invalidated'']"

text \<open>The loop over the remaining cases; the request goes from round to round.\<close>

definition case_request :: "nat \<Rightarrow> request \<Rightarrow> request" where
  "case_request index req = req\<lparr>session_id := session_id req + 1, segment_id := int (index + 3), revision := revision req + 1,
     cache_scope := (if index = 2 then ''hy-chat-v1|target=fr|glossary=none''
       else ''hy-chat-v1|target=en|glossary=wafer-overlay'')\<rparr>"

definition smoke_round :: "'e engine \<Rightarrow> (nat \<Rightarrow> int) \<Rightarrow> nat \<Rightarrow> request \<Rightarrow> ('e driver, unit) action" where
  "smoke_round V clk index req =
     mbind (tick clk) (\<lambda>start.
     mbind (drive (with_progress V (fst (smoke_case index)) req
         (if index = 2 then Some (smoke_check_accented req) else None))) (\<lambda>result.
     mbind (ask (events_of V)) (\<lambda>updates.
     mthen (mguard (str_find (snd (smoke_case index)) result 0 = None) (RuntimeError (''Hy-MT2 smoke mismatch: '' @ result)))
    (mthen (mguard (index = 2 \<and> (updates = [] \<or> \<not> list_ex (\<lambda>ch. 0x80 \<le> (of_char ch :: nat)) result))
        (RuntimeError ''Accented translation did not produce a valid UTF-8 progress update''))
    (mbind (tick clk) (\<lambda>t.
     mbind (ask (stats_of V)) (\<lambda>timing.
     mbind (ask (backend_name V)) (\<lambda>name.
     say [''Hy-MT2 '', name, '': '', result, '' ('', to_string (to_ms (t - start)), '' ms; prefill '', to_string (prefill_ms timing),
       '' ms, decode '', to_string (decode_ms timing), '' ms, input/output '', to_string (input_tokens timing), ''/'',
       to_string (output_tokens timing), '' tokens, KV reused '', to_string (cache_reused_tokens timing), '')'']))))))))"

fun smoke_rounds :: "'e engine \<Rightarrow> (nat \<Rightarrow> int) \<Rightarrow> nat list \<Rightarrow> request \<Rightarrow> ('e driver, unit) action" where
  "smoke_rounds V clk [] req = mret ()"
| "smoke_rounds V clk (index # rest) req =
     (let req' = case_request index req
      in mthen (smoke_round V clk index req') (smoke_rounds V clk rest req'))"

definition smoke_hymt :: "'e engine \<Rightarrow> (nat \<Rightarrow> int) \<Rightarrow> ('e driver, unit) action" where
  "smoke_hymt V clk =
     mbind (smoke_first V) (\<lambda>(first, st, n).
     mbind (smoke_repeated V first) (\<lambda>(repeated, full).
     mbind (smoke_changed V) (\<lambda>changed.
     mthen (smoke_scopes V)
    (mthen (smoke_report st n repeated full changed)
      (smoke_rounds V clk [1, 2] next_scope)))))"

text \<open>Two translations of one sentence by an OPUS engine.\<close>

definition smoke_opus :: "'e engine \<Rightarrow> string \<Rightarrow> string list \<Rightarrow> string \<Rightarrow> string \<Rightarrow> ('e driver, unit) action" where
  "smoke_opus V sentence expected mismatch label =
     mthen (mmap (\<lambda>n. mbind (drive (translate_text V sentence)) (\<lambda>result.
         mthen (mguard (\<not> list_all (\<lambda>w. str_find w result 0 \<noteq> None) expected) (RuntimeError (mismatch @ result)))
           (say [label, result]))) [0..<2])
       (mret ())"

text \<open>A cancelled engine has to refuse; \<open>catch (const std::runtime_error &)\<close> lets other exceptions through.\<close>

fun is_runtime_error :: "exn \<Rightarrow> bool" where
  "is_runtime_error (RuntimeError m) = True"
| "is_runtime_error _ = False"

definition smoke_cancel :: "'e engine \<Rightarrow> ('e driver, unit) action" where
  "smoke_cancel V =
     mthen (drive (mmodify (engine_cancel V)))
    (mbind (mcatch (mthen (drive (translate_text V ''Must not execute after cancellation'')) (mret False))
        (\<lambda>e. if is_runtime_error e then mret True else mthrow e)) (\<lambda>rejected.
     mguard (\<not> rejected) (RuntimeError ''Cancellation was ignored'')))"

section \<open>\<open>main\<close>\<close>

definition smoke_body :: "('m, 'd, 'c, 's, 'w) llama \<Rightarrow> 'v api \<Rightarrow> ('j, 'p) opus_env \<Rightarrow> (nat \<Rightarrow> int) \<Rightarrow> string list
    \<Rightarrow> (('m, 'c, 'w, 'v) engines driver, int) action" where
  "smoke_body L A E clk argv =
     mthen (mguard (length argv \<noteq> 4) (RuntimeError ''Usage: translation-smoke hymt.gguf opus-nl-directory opus-fr-directory''))
    (mthen (drive (load_hy L 0 (argv ! 1) 4 256 128 False))
    (holding (drive (zoom (look_hy 0) (write_hy 0) hymt_delete))
      (mthen (smoke_hymt (hy_engine L 0) clk)
      (mbind (drive (load_op A E 0 (argv ! 2) 2)) (\<lambda>opus.
       holding (drive (zoom (look_opus 0) (write_opus 0) (opus_delete A opus)))
        (mthen (smoke_opus (op_engine A E 0 opus) ''De temperatuur van de machine is te hoog.''
            [''temperature'', ''too high''] ''OPUS smoke mismatch: '' ''OPUS cached decoder CPU: '')
        (mbind (drive (load_op A E 1 (argv ! 3) 2)) (\<lambda>french.
         holding (drive (zoom (look_opus 1) (write_opus 1) (opus_delete A french)))
          (mthen (smoke_opus (op_engine A E 1 french) ''The temperature of the machine is too high.''
              [''temp'' @ bytes [0xC3, 0xA9] @ ''rature'', bytes [0xC3, 0xA9] @ ''lev'' @ bytes [0xC3, 0xA9] @ ''e'']
              ''OPUS French mismatch: '' ''OPUS French cached decoder CPU: '')
          (mthen (mmap smoke_cancel [hy_engine L 0, op_engine A E 0 opus, op_engine A E 1 french])
          (mthen (say [''PASS: three translation directions, decoder caching, context reset, cancellation''])
            (mret 0))))))))))))"

definition smoke_main :: "('m, 'd, 'c, 's, 'w) llama \<Rightarrow> 'v api \<Rightarrow> ('j, 'p) opus_env \<Rightarrow> (nat \<Rightarrow> int) \<Rightarrow> string list
    \<Rightarrow> (('m, 'c, 'w, 'v) engines driver, int) action" where
  "smoke_main L A E clk argv =
     mcatch (smoke_body L A E clk argv) (\<lambda>e. mthen (complain [exn_what e]) (mret 1))"

section \<open>What cannot fail\<close>

text \<open>The messages of the checks on prefix reuse, on cached against uncached output, and on progress events.\<close>

definition regressions :: "exn set" where
  "regressions = {RuntimeError ''Invalid native progressive translation metadata or UTF-8'',
     RuntimeError ''Native progress exceeded the 80 ms UI cadence'',
     RuntimeError ''Exact prompt did not reuse its longest safe KV prefix'',
     RuntimeError ''Cached output differs from full prefill output'',
     RuntimeError ''Divergent KV state contaminated another request'',
     RuntimeError ''Session change reused old KV state'',
     RuntimeError ''Prompt configuration change reused old KV state'',
     RuntimeError ''Invalid UTF-8 progress event on accented output''}"

lemma smoke_checks_accept: "accepts req (Some (smoke_check req))" "accepts req (Some (smoke_check_accented req))"
proof -
  have last: "event_plain req (last evs)" if "evs \<noteq> []" "paced req evs" for evs
    using that by (simp add: paced_def)
  have gap: "80 \<le> p_elapsed_ms (last evs) - p_elapsed_ms (last (butlast evs))" if "butlast evs \<noteq> []" "paced req evs" for evs
  proof -
    have "evs = butlast evs @ [last evs]" using that(1) by (cases evs) auto
    then have "sorted_wrt (\<lambda>a b. p_elapsed_ms a + 80 \<le> p_elapsed_ms b) (butlast evs @ [last evs])"
      using that(2) by (simp add: paced_def)
    then show ?thesis using last_in_set [OF that(1)] by (fastforce simp: sorted_wrt_append)
  qed
  show "accepts req (Some (smoke_check req))"
    using last gap by (fastforce simp: accepts_def smoke_check_def event_plain_def validUtf8_well_formed Let_def)
  show "accepts req (Some (smoke_check_accented req))"
    using last by (fastforce simp: accepts_def smoke_check_accented_def event_plain_def validUtf8_well_formed Let_def)
qed

context caching begin

abbreviation honest :: bool where
  "honest \<equiv> (\<forall>prompt e. says prompt = Inl e \<longrightarrow> e \<notin> regressions)"

lemma wp_smoke_first:
  assumes "at_rest h s" honest
  shows "wp (smoke_first V) (\<lambda>(first, st, n) t. at_rest (Some (41, cache_scope smoke_request, toks (fst (smoke_case 0)))) t
       \<and> says (fst (smoke_case 0)) = Inr first \<and> toks (fst (smoke_case 0)) \<noteq> []) (\<lambda>e t. e \<notin> regressions) s"
  unfolding smoke_first_def wp_mbind [of "drive m" for m]
  by (rule wp_cached_call [OF assms(1) smoke_checks_accept(1)])
    (use assms(2) in \<open>auto simp: wp_simps regressions_def smoke_request_def\<close>)

lemma wp_smoke_repeated:
  assumes "at_rest (Some (41, cache_scope smoke_request, toks (fst (smoke_case 0)))) s" honest
    and "says (fst (smoke_case 0)) = Inr first" "toks (fst (smoke_case 0)) \<noteq> []"
  shows "wp (smoke_repeated V first) (\<lambda>x t. at_rest None t) (\<lambda>e t. e \<notin> regressions) s"
proof -
  have kept: "kept (Some (41, cache_scope smoke_request, ts)) smoke_request ts = length ts - 1" for ts
    using kept_repeated [of smoke_request ts] by (simp add: smoke_request_def)
  show ?thesis
    unfolding smoke_repeated_def wp_mbind [of "drive m" for m]
    apply (rule wp_cached_call [OF assms(1) accepts_none])
     apply (use assms(2-4) in \<open>simp_all add: wp_simps kept\<close>)
    apply (intro conjI impI)
     apply (simp add: Suc_leI of_nat_diff)
    apply (rule wp_uncached_call, assumption)
     apply (simp_all add: wp_simps)
    done
qed

lemma wp_smoke_changed:
  assumes "at_rest h s" honest
  shows "wp (smoke_changed V) (\<lambda>x t. at_rest None t) (\<lambda>e t. e \<notin> regressions) s"
  unfolding smoke_changed_def wp_mbind [of "drive m" for m] wp_mthen [of "drive m" for m]
  apply (rule wp_cached_call [OF assms(1) accepts_none])
   apply (rule wp_cached_call [OF _ accepts_none], assumption)
    apply (use assms(2) in \<open>simp_all add: wp_simps\<close>)
  apply (intro conjI impI)
   apply (simp add: regressions_def)
  apply (rule wp_uncached_call, assumption)
   apply (simp_all add: wp_simps)
  done

lemma wp_smoke_scopes:
  assumes "at_rest None s" honest
  shows "wp (smoke_scopes V) (\<lambda>x t. \<exists>h. at_rest h t) (\<lambda>e t. e \<notin> regressions) s"
proof -
  have other: "kept (Some (session_id next_session, cache_scope next_session, ts)) next_scope ts' = 0" for ts ts'
    by (rule kept_other) (simp add: next_scope_def next_session_def smoke_request_def)
  show ?thesis
    unfolding smoke_scopes_def wp_mbind [of "drive m" for m] wp_mthen [of "drive m" for m]
    apply (rule wp_cached_call [OF assms(1) accepts_none])
     apply (use assms(2) in \<open>simp_all add: wp_simps kept_def [of None]\<close>)
    apply (rule wp_cached_call [OF _ accepts_none], assumption)
     apply (rule wp_cached_call [OF _ accepts_none], assumption)
      apply (auto simp: wp_simps other)
    done
qed

lemma wp_smoke_round:
  assumes "at_rest h s" honest
  shows "wp (smoke_round V clk index req) (\<lambda>x t. \<exists>h. at_rest h t) (\<lambda>e t. e \<notin> regressions) s"
proof -
  have "accepts req (if index = 2 then Some (smoke_check_accented req) else None)"
    by (simp add: smoke_checks_accept accepts_none)
  then show ?thesis
    unfolding smoke_round_def wp_mbind wp_tick
    by (intro wp_cached_call [where h = h]) (use assms in \<open>auto simp: wp_simps regressions_def\<close>)
qed

lemma wp_smoke_rounds:
  "at_rest h s \<Longrightarrow> honest \<Longrightarrow> wp (smoke_rounds V clk is req) (\<lambda>x t. \<exists>h. at_rest h t) (\<lambda>e t. e \<notin> regressions) s"
proof (induction "is" arbitrary: h s req)
  case Nil
  then show ?case by (auto simp: wp_simps)
next
  case (Cons i rest)
  show ?case unfolding smoke_rounds.simps Let_def wp_mthen
    by (rule wp_mono [OF wp_smoke_round [OF Cons.prems]]) (use Cons in blast)+
qed

text \<open>The whole Hy-MT2 part: none of the regressions is ever reported.\<close>

lemma wp_smoke_hymt:
  assumes "at_rest h s" honest
  shows "wp (smoke_hymt V clk) (\<lambda>x t. \<exists>h. at_rest h t) (\<lambda>e t. e \<notin> regressions) s"
  unfolding smoke_hymt_def wp_mbind
proof (rule wp_mono [OF wp_smoke_first [OF assms]], goal_cases)
  case (1 x t)
  obtain first st n where x: "x = (first, st, n)" by (cases x) auto
  have report_rounds: "wp (mthen (smoke_report st n repeated full changed) (smoke_rounds V clk [1, 2] next_scope))
      (\<lambda>x t. \<exists>h. at_rest h t) (\<lambda>e t. e \<notin> regressions) u" if "at_rest h u" for h u repeated full changed
    unfolding wp_mthen smoke_report_def wp_say by (rule wp_smoke_rounds [of h]) (simp_all add: that assms(2))
  have rest: "wp (mbind (smoke_changed V) (\<lambda>changed. mthen (smoke_scopes V)
      (mthen (smoke_report st n repeated full changed) (smoke_rounds V clk [1, 2] next_scope))))
      (\<lambda>x t. \<exists>h. at_rest h t) (\<lambda>e t. e \<notin> regressions) u" if "at_rest None u" for u repeated full
    unfolding wp_mbind wp_mthen [of "smoke_scopes V"]
    by (rule wp_mono [OF wp_smoke_changed [OF that assms(2)]], rule wp_mono [OF wp_smoke_scopes [OF _ assms(2)]])
      (blast intro: report_rounds)+
  show ?case
    using 1 unfolding x prod.case wp_mbind
    by (intro wp_mono [OF wp_smoke_repeated [OF _ assms(2)]]) (blast | (simp only: split_def, rule rest, assumption))+
qed

end

text \<open>Cancellation is never ignored by an engine that keeps its contract.\<close>

context cancellable begin

lemma smoke_cancel_passes:
  "sane (engines_state s) \<Longrightarrow> wp (smoke_cancel V) (\<lambda>x t. sane (engines_state t)) (\<lambda>e t. False) s"
  using cancel_rejects [of "engines_state s" "''Must not execute after cancellation''"]
  by (auto simp: smoke_cancel_def drive_def zoom_def mcatch_def mthen_def mbind_def mmodify_def mret_def mguard_def wp_def)

end

text \<open>The exceptions of the reference are none of the regressions.\<close>

lemma prepare_honest: "prepare L m prompt = Inl e \<Longrightarrow> e \<notin> regressions"
  by (auto simp: prepare_def Let_def regressions_def split: option.splits if_splits prod.splits)

lemma generate_honest: "ref_generate L m nx smp toks acc n = Inl e \<Longrightarrow> e \<notin> regressions"
proof (induction L m nx smp toks acc n rule: ref_generate.induct)
  case 1
  then show ?case by (auto simp: regressions_def)
next
  case (2 L m nx smp toks acc n)
  then show ?case by (auto simp: regressions_def split: prod.splits if_splits option.splits)
qed

lemma ref_translate_honest: "ref_translate L nx m prompt = Inl e \<Longrightarrow> e \<notin> regressions"
  by (auto simp: ref_translate_def prepare_honest generate_honest split: sum.splits)

end
