(* ===== verification/Benchmark.thy ===== *)
theory Benchmark imports Drivers begin

text \<open>
  The benchmark program \<open>translation-benchmark.cpp\<close>: its arguments, the measured translations of every line
  of the input, cold against warm in the \<open>cache-ab\<close> mode, and the rows it writes. JSON, the files and the
  resource usage of the process are parameters.
\<close>

section \<open>Arguments\<close>

text \<open>\<open>std::stoi\<close>: blanks, a sign, at least one digit; the rest is ignored; the value has to fit in 32 bits.\<close>

definition blank :: "char \<Rightarrow> bool" where
  "blank c \<longleftrightarrow> (let n = of_char c :: nat in n = 32 \<or> 9 \<le> n \<and> n \<le> 13)"

definition digit :: "char \<Rightarrow> int option" where
  "digit c = (let n = of_char c :: nat in if 48 \<le> n \<and> n \<le> 57 then Some (int n - 48) else None)"

fun leading_number :: "int \<Rightarrow> string \<Rightarrow> int" where
  "leading_number acc [] = acc"
| "leading_number acc (c # cs) = (case digit c of None \<Rightarrow> acc | Some d \<Rightarrow> leading_number (10 * acc + d) cs)"

definition stoi :: "string \<Rightarrow> exn + int" where
  "stoi s =
     (let t = dropWhile blank (c_str s);
          negative = (t \<noteq> [] \<and> hd t = CHR ''-'');
          u = (if t \<noteq> [] \<and> (hd t = CHR ''-'' \<or> hd t = CHR ''+'') then tl t else t)
      in if u = [] \<or> digit (hd u) = None then Inl (InvalidArgument ''stoi: no conversion'')
         else (let v = (if negative then - leading_number 0 u else leading_number 0 u)
               in if v < - (2 ^ 31) \<or> 2 ^ 31 \<le> v then Inl (OutOfRange ''stoi: out of range'') else Inr v))"

record bench_config =
  hy_mode :: bool
  thread_count :: int
  requested :: string
  batch_size :: int
  ubatch_size :: int
  cache_ab :: bool

definition bench_args :: "string list \<Rightarrow> exn + bench_config" where
  "bench_args argv =
     (if length argv < 6 \<or> 10 < length argv then Inl (RuntimeError (''Usage: translation-benchmark <hy|opus> ''
          @ ''<model.gguf|opus-dir> <threads> <cases.jsonl> <results.jsonl> [cpu|opencl] [batch] [ubatch] [cache-ab]''))
      else if argv ! 1 \<noteq> ''hy'' \<and> argv ! 1 \<noteq> ''opus'' then Inl (RuntimeError ''Mode must be hy or opus'')
      else (case stoi (argv ! 3) of Inl e \<Rightarrow> Inl e
      | Inr th \<Rightarrow>
        (let backend' = (if 7 \<le> length argv then argv ! 6 else ''cpu'')
         in if backend' \<noteq> ''cpu'' \<and> backend' \<noteq> ''opencl'' then Inl (RuntimeError ''Backend must be cpu or opencl'')
            else (case (if 8 \<le> length argv then stoi (argv ! 7) else Inr 256) of Inl e \<Rightarrow> Inl e
            | Inr b \<Rightarrow>
              (case (if 9 \<le> length argv then stoi (argv ! 8) else Inr 128) of Inl e \<Rightarrow> Inl e
              | Inr ub \<Rightarrow> Inr \<lparr>hy_mode = (argv ! 1 = ''hy''), thread_count = th, requested = backend',
                  batch_size = b, ubatch_size = ub, cache_ab = (10 \<le> length argv \<and> argv ! 9 = ''cache-ab'')\<rparr>)))))"

section \<open>State and parameters\<close>

text \<open>A row is the list of its JSON members; \<open>JValue\<close> copies a value of the sample.\<close>

datatype 'j json_item = JInt int | JText string | JBool bool | JValue 'j

record ('e, 'j) bench = "'e driver" +
  rows :: "(string \<times> 'j json_item) list list"

text \<open>
  \<open>input_lines\<close>: the lines of a file that opens; \<open>creates\<close>: whether a file can be written, \<open>row_written\<close> whether
  row \<open>n\<close> was; \<open>usage\<close>: what \<open>getrusage\<close> answers for row \<open>n\<close>; \<open>json_text\<close>: the text of a JSON string;
  \<open>json_dump\<close> throws, among others, on text that is not UTF-8.
\<close>

record 'j bench_env =
  input_lines :: "string \<Rightarrow> string list option"
  creates :: "string \<Rightarrow> bool"
  row_written :: "nat \<Rightarrow> bool"
  usage :: "nat \<Rightarrow> int option"
  json_text :: "'j \<Rightarrow> exn + string"
  json_dump :: "(string \<times> 'j json_item) list \<Rightarrow> exn + string"

definition maxRssKb :: "'j bench_env \<Rightarrow> nat \<Rightarrow> int" where
  "maxRssKb B n = (case usage B n of None \<Rightarrow> - 1 | Some kb \<Rightarrow> kb)"

definition at_text :: "('j, 'p) opus_env \<Rightarrow> 'j bench_env \<Rightarrow> 'j \<Rightarrow> string \<Rightarrow> ('s, string) action" where
  "at_text E B js key = mbind (msum (json_at E js key)) (\<lambda>v. msum (json_text B v))"

text \<open>\<open>throw std::runtime_error(... + js.at("id").get<std::string>())\<close>\<close>

definition fail_for :: "('j, 'p) opus_env \<Rightarrow> 'j bench_env \<Rightarrow> 'j \<Rightarrow> string \<Rightarrow> ('s, 'a) action" where
  "fail_for E B js msg = mbind (at_text E B js ''id'') (\<lambda>i. mthrow (RuntimeError (msg @ i)))"

section \<open>One sample\<close>

definition english :: string where
  "english = ''Translate the following text into English. Only output the translated result without any additional explanation:''
     @ bytes [0x0A, 0x0A]"

definition bench_prompt :: "bench_config \<Rightarrow> string \<Rightarrow> string" where
  "bench_prompt C source' = (if hy_mode C then english @ source' else source')"

definition bench_request :: "int \<Rightarrow> request" where
  "bench_request n = \<lparr>session_id = 1, segment_id = n, revision = 0, cache_scope = ''hy-chat-prompt-v1|benchmark''\<rparr>"

definition observe :: callback where
  "observe = Some (\<lambda>evs. None)"

record measured =
  translation :: string
  cold_us :: int
  warm_us :: int
  cold_stats :: stats
  warm_stats :: stats

text \<open>The \<open>cache-ab\<close> branch: a full prefill, a request that seeds the cache, and the same request warm.\<close>

definition bench_ab :: "'e engine \<Rightarrow> ('j, 'p) opus_env \<Rightarrow> 'j bench_env \<Rightarrow> (nat \<Rightarrow> int) \<Rightarrow> 'j \<Rightarrow> string \<Rightarrow> request
    \<Rightarrow> (('e, 'z) driver_scheme, measured) action" where
  "bench_ab V E B clk js prompt req =
     mbind (tick clk) (\<lambda>coldStart.
     mbind (drive (uncached_with_progress V prompt req observe)) (\<lambda>coldTranslation.
     mbind (tick clk) (\<lambda>t.
     mbind (ask (stats_of V)) (\<lambda>coldStats.
     mbind (drive (with_progress V prompt req observe)) (\<lambda>seed.
     mthen (if seed \<noteq> coldTranslation then fail_for E B js ''Cached seed differs from uncached output for '' else mret ())
    (mbind (tick clk) (\<lambda>warmStart.
     mbind (drive (with_progress V prompt req observe)) (\<lambda>translated.
     mbind (tick clk) (\<lambda>u.
     mbind (ask (stats_of V)) (\<lambda>warmStats.
     mthen (if translated \<noteq> coldTranslation then fail_for E B js ''Warm cached output differs from uncached output for ''
            else mret ())
      (mret \<lparr>translation = translated, cold_us = to_us (t - coldStart), warm_us = to_us (u - warmStart),
         cold_stats = coldStats, warm_stats = warmStats\<rparr>)))))))))))"

definition bench_row :: "bench_config \<Rightarrow> 'j \<Rightarrow> string \<Rightarrow> 'j \<Rightarrow> measured \<Rightarrow> int \<Rightarrow> stats \<Rightarrow> int \<Rightarrow> string
    \<Rightarrow> (string \<times> 'j json_item) list" where
  "bench_row C i source' reference m elapsed st rss name =
     [(''id'', JValue i), (''source'', JText source'), (''reference_en'', JValue reference), (''translation'', JText (translation m)),
      (''elapsed_us'', JInt elapsed), (''prefill_ms'', JInt (prefill_ms st)), (''decode_ms'', JInt (decode_ms st)),
      (''first_token_ms'', JInt (first_token_ms st)), (''first_visible_ms'', JInt (first_visible_ms st)),
      (''complete_ms'', JInt (complete_ms st)), (''output_tokens'', JInt (output_tokens st)), (''process_max_rss_kb'', JInt rss),
      (''input_tokens'', JInt (input_tokens st)), (''cache_reused_tokens'', JInt (cache_reused_tokens st)),
      (''prefill_decode_us'', JInt (prefill_decode_us st)), (''prefill_sync_us'', JInt (prefill_sync_us st)),
      (''sampling_us'', JInt (sampling_us st)), (''decode_compute_us'', JInt (decode_compute_us st)),
      (''decode_sync_us'', JInt (decode_sync_us st)), (''device_bytes_allocated'', JInt (device_bytes_allocated st)),
      (''offloaded_layers'', JInt (offloaded_layers st)), (''total_layers'', JInt (total_layers st)),
      (''fallback_count'', JInt (fallback_count st)), (''backend'', JText name), (''requested_backend'', JText (requested C)),
      (''batch'', JInt (batch_size C)), (''ubatch'', JInt (ubatch_size C)), (''cache_ab'', JBool (cache_ab C \<and> hy_mode C)),
      (''cold_elapsed_us'', JInt (cold_us m)), (''cold_prefill_ms'', JInt (prefill_ms (cold_stats m))),
      (''cold_decode_ms'', JInt (decode_ms (cold_stats m))), (''cold_first_visible_ms'', JInt (first_visible_ms (cold_stats m))),
      (''cold_complete_ms'', JInt (complete_ms (cold_stats m))), (''cold_input_tokens'', JInt (input_tokens (cold_stats m))),
      (''cold_output_tokens'', JInt (output_tokens (cold_stats m))), (''warm_elapsed_us'', JInt (warm_us m)),
      (''warm_first_visible_ms'', JInt (first_visible_ms (warm_stats m))), (''warm_complete_ms'', JInt (complete_ms (warm_stats m))),
      (''warm_cache_reused_tokens'', JInt (cache_reused_tokens (warm_stats m)))]"

definition bench_sample :: "'e engine \<Rightarrow> ('j, 'p) opus_env \<Rightarrow> 'j bench_env \<Rightarrow> (nat \<Rightarrow> int) \<Rightarrow> bench_config \<Rightarrow> int \<Rightarrow> string
    \<Rightarrow> (('e, 'j) bench, unit) action" where
  "bench_sample V E B clk C n line =
     mbind (msum (json_parse E line)) (\<lambda>js.
     mbind (at_text E B js ''source'') (\<lambda>source'.
     let prompt = bench_prompt C source'; req = bench_request n in
     mbind (tick clk) (\<lambda>start.
     mbind (if cache_ab C \<and> hy_mode C then bench_ab V E B clk js prompt req
            else mbind (drive (with_progress V prompt req observe)) (\<lambda>translated.
              mret \<lparr>translation = translated, cold_us = - 1, warm_us = - 1, cold_stats = zero_stats, warm_stats = zero_stats\<rparr>))
       (\<lambda>m.
     mbind (if cache_ab C \<and> hy_mode C then mret (warm_us m) else mbind (tick clk) (\<lambda>t. mret (to_us (t - start)))) (\<lambda>elapsed.
     mthen (if translation m = [] then fail_for E B js ''Empty translation for '' else mret ())
    (mbind (ask (stats_of V)) (\<lambda>st.
     mbind (msum (json_at E js ''id'')) (\<lambda>i.
     mbind (msum (json_at E js ''reference_en'')) (\<lambda>reference.
     mbind (mget (\<lambda>s. maxRssKb B (length (rows s)))) (\<lambda>rss.
     mbind (ask (backend_name V)) (\<lambda>name.
     mbind (mget (\<lambda>s. length (rows s))) (\<lambda>k.
     let row = bench_row C i source' reference m elapsed st rss name in
     mthen (msum (json_dump B row))
    (mthen (mmodify (\<lambda>s. s\<lparr>rows := rows s @ [row]\<rparr>))
       (mguard (\<not> row_written B k) (RuntimeError ''Could not write benchmark result'')))))))))))))))"

text \<open>The loop over the lines; empty ones are skipped and take no number.\<close>

fun bench_lines :: "'e engine \<Rightarrow> ('j, 'p) opus_env \<Rightarrow> 'j bench_env \<Rightarrow> (nat \<Rightarrow> int) \<Rightarrow> bench_config \<Rightarrow> int \<Rightarrow> string list
    \<Rightarrow> (('e, 'j) bench, unit) action" where
  "bench_lines V E B clk C n [] = mret ()"
| "bench_lines V E B clk C n (line # lines) =
     (if line = [] then bench_lines V E B clk C n lines
      else mthen (bench_sample V E B clk C (n + 1) line) (bench_lines V E B clk C (n + 1) lines))"

section \<open>\<open>main\<close>\<close>

definition bench_run :: "'e engine \<Rightarrow> ('j, 'p) opus_env \<Rightarrow> 'j bench_env \<Rightarrow> (nat \<Rightarrow> int) \<Rightarrow> bench_config \<Rightarrow> int \<Rightarrow> string list
    \<Rightarrow> (('e, 'j) bench, int) action" where
  "bench_run V E B clk C loadUs lines =
     mbind (tick clk) (\<lambda>warmStart.
     mbind (drive (translate_text V ((if hy_mode C then english else []) @ ''De temperatuur is aangenaam vandaag.''))) (\<lambda>warmOutput.
     mbind (tick clk) (\<lambda>t.
     mthen (mguard (warmOutput = []) (RuntimeError ''Warm-up translation was empty''))
    (mbind (ask (backend_name V)) (\<lambda>name.
     mthen (complain [''model_load_us='', to_string loadUs, '' warm_translation_us='', to_string (to_us (t - warmStart)),
        '' requested_backend='', requested C, '' batch='', to_string (batch_size C), '' ubatch='', to_string (ubatch_size C),
        '' backend='', [CHR 0x22], name, [CHR 0x22]])
    (mthen (bench_lines V E B clk C 0 lines)
    (mthen (drive (mmodify (engine_cancel V)))
    (mthen (say [''PASS: resident '', if hy_mode C then ''hy'' else ''opus'', '' model benchmark completed''])
      (mret 0)))))))))"

definition bench_body :: "('m, 'd, 'c, 's, 'w) llama \<Rightarrow> 'v api \<Rightarrow> ('j, 'p) opus_env \<Rightarrow> 'j bench_env \<Rightarrow> (nat \<Rightarrow> int) \<Rightarrow> string list
    \<Rightarrow> ((('m, 'c, 'w, 'v) engines, 'j) bench, int) action" where
  "bench_body L A E B clk argv =
     mbind (msum (bench_args argv)) (\<lambda>C.
     case input_lines B (argv ! 4) of
       None \<Rightarrow> mthrow (RuntimeError ''Could not open benchmark input/output'')
     | Some lines \<Rightarrow>
        mthen (mguard (\<not> creates B (argv ! 5)) (RuntimeError ''Could not open benchmark input/output''))
       (mthen (mguard (\<not> hy_mode C \<and> requested C = ''opencl'') (RuntimeError ''OPUS has no OpenCL backend''))
       (mbind (tick clk) (\<lambda>loadStart.
        if hy_mode C then
          mthen (drive (load_hy L 0 (argv ! 2) (thread_count C) (batch_size C) (ubatch_size C) (requested C = ''opencl'')))
           (holding (drive (zoom (look_hy 0) (write_hy 0) hymt_delete))
             (mbind (tick clk) (\<lambda>t. bench_run (hy_engine L 0) E B clk C (to_us (t - loadStart)) lines)))
        else
          mbind (drive (load_op A E 0 (argv ! 2) (thread_count C))) (\<lambda>m.
            holding (drive (zoom (look_opus 0) (write_opus 0) (opus_delete A m)))
             (mbind (tick clk) (\<lambda>t. bench_run (op_engine A E 0 m) E B clk C (to_us (t - loadStart)) lines)))))))"

definition bench_main :: "('m, 'd, 'c, 's, 'w) llama \<Rightarrow> 'v api \<Rightarrow> ('j, 'p) opus_env \<Rightarrow> 'j bench_env \<Rightarrow> (nat \<Rightarrow> int) \<Rightarrow> string list
    \<Rightarrow> ((('m, 'c, 'w, 'v) engines, 'j) bench, int) action" where
  "bench_main L A E B clk argv =
     mcatch (bench_body L A E B clk argv) (\<lambda>e. mthen (complain [''FAIL: '', exn_what e]) (mret 1))"

section \<open>What a run measures\<close>

lemma wp_msum: "wp (msum x) Q E s = (case x of Inl e \<Rightarrow> E e s | Inr v \<Rightarrow> Q v s)"
  by (simp add: msum_def wp_simps split: sum.split)

lemma observe_accepts: "accepts req observe"
  by (simp add: accepts_def observe_def)

context caching begin

text \<open>
  The \<open>cache-ab\<close> branch: its checks never fire; the cold translation is a full prefill, the warm one reuses
  all tokens but the last, and both say the same.
\<close>

definition measured_ab :: "string \<Rightarrow> measured \<Rightarrow> bool" where
  "measured_ab prompt m \<longleftrightarrow> says prompt = Inr (translation m) \<and> cache_reused_tokens (cold_stats m) = 0
     \<and> input_tokens (cold_stats m) = int (length (toks prompt)) \<and> input_tokens (warm_stats m) = int (length (toks prompt))
     \<and> cache_reused_tokens (warm_stats m) = int (length (toks prompt) - 1)"

lemma wp_bench_ab:
  assumes "at_rest h s"
  shows "wp (bench_ab V E B clk js prompt req)
     (\<lambda>m t. measured_ab prompt m \<and> (\<exists>h. at_rest h t) \<and> driver.more t = driver.more s) (\<lambda>e t. says prompt = Inl e) s"
proof -
  have more: "driver.more (u\<lparr>ticks := n\<rparr>) = driver.more u" for u :: "('s, 'z) driver_scheme" and n by (cases u) simp
  show ?thesis
    unfolding bench_ab_def wp_mbind wp_tick wp_ask wp_mthen
    apply (rule wp_uncached_with [where h = h, OF _ observe_accepts], simp add: assms)
     apply (rule wp_cached_call [OF _ observe_accepts], simp)
      apply (simp add: wp_simps)
      apply (rule wp_cached_call [OF _ observe_accepts], simp)
       apply (auto simp: wp_simps measured_ab_def kept_repeated more)
    done
qed

text \<open>The row of a line: its sample's source, and what the engine says to the prompt made of it.\<close>

definition row_for :: "('j, 'p) opus_env \<Rightarrow> 'j bench_env \<Rightarrow> bench_config \<Rightarrow> string \<Rightarrow> (string \<times> 'j json_item) list \<Rightarrow> bool" where
  "row_for E B C line row \<longleftrightarrow> (\<exists>js v source' answer. json_parse E line = Inr js \<and> json_at E js ''source'' = Inr v
     \<and> json_text B v = Inr source' \<and> says (bench_prompt C source') = Inr answer \<and> answer \<noteq> []
     \<and> map_of row ''source'' = Some (JText source') \<and> map_of row ''translation'' = Some (JText answer))"

lemma rows_more: "driver.more t = driver.more s \<Longrightarrow> rows t = rows s"
  by (cases t; cases s) simp

lemma bench_row_fields:
  "map_of (bench_row C i source' reference m elapsed st rss name) ''source'' = Some (JText source')"
  "map_of (bench_row C i source' reference m elapsed st rss name) ''translation'' = Some (JText (translation m))"
  by (simp_all add: bench_row_def)

lemma wp_bench_measure:
  assumes "at_rest h s"
  shows "wp (if cache_ab C \<and> hy_mode C then bench_ab V E B clk js prompt req
            else mbind (drive (with_progress V prompt req observe)) (\<lambda>translated.
              mret \<lparr>translation = translated, cold_us = - 1, warm_us = - 1, cold_stats = zero_stats, warm_stats = zero_stats\<rparr>))
     (\<lambda>m t. says prompt = Inr (translation m) \<and> (\<exists>h. at_rest h t) \<and> rows t = rows s) (\<lambda>e t. True) s"
proof (cases "cache_ab C \<and> hy_mode C")
  case True
  show ?thesis unfolding if_P [OF True]
    by (rule wp_mono [OF wp_bench_ab [OF assms]]) (auto simp: measured_ab_def dest: rows_more)
next
  case False
  then show ?thesis unfolding if_not_P [OF False] wp_mbind
    by (intro wp_cached_call [OF assms observe_accepts]) (auto simp: wp_simps dest: rows_more)
qed

lemma wp_bench_sample:
  assumes "at_rest h s"
  shows "wp (bench_sample V E B clk C n line)
     (\<lambda>_ t. (\<exists>h. at_rest h t) \<and> (\<exists>row. rows t = rows s @ [row] \<and> row_for E B C line row)) (\<lambda>e t. True) s"
proof -
  have fail: "wp (fail_for E B js msg) Q (\<lambda>e t. True) u" for js msg Q and u :: "('s, 'a) bench"
    by (simp add: fail_for_def at_text_def wp_simps wp_msum split: sum.split)
  have rest: "at_rest h (u\<lparr>rows := x\<rparr>) = at_rest h u" for h x and u :: "('s, 'a) bench"
    by (simp add: at_rest_def)
  show ?thesis
  proof (cases "json_parse E line")
    case (Inr js)
    note parsed = Inr
    show ?thesis
    proof (cases "json_at E js ''source''")
      case (Inr v)
      note at = Inr
      show ?thesis
      proof (cases "json_text B v")
        case (Inr source')
        have "wp (bench_sample V E B clk C n line) (\<lambda>_ t. (\<exists>h. at_rest h t) \<and> (\<exists>row. rows t = rows s @ [row] \<and> row_for E B C line row))
            (\<lambda>e t. True) s"
          unfolding bench_sample_def wp_mbind wp_msum parsed at_text_def at Inr sum.case Let_def wp_tick
          apply (rule wp_mono [OF wp_bench_measure [where h = h]])
            apply (simp add: assms)
           apply (auto simp: wp_simps wp_msum fail rest row_for_def parsed at Inr bench_row_fields split: sum.split)
          done
        then show ?thesis .
      qed (simp add: bench_sample_def at_text_def wp_simps wp_msum parsed at)
    qed (simp add: bench_sample_def at_text_def wp_simps wp_msum parsed)
  qed (simp add: bench_sample_def wp_simps wp_msum)
qed

text \<open>The loop: one row for every line that is not empty, in order.\<close>

lemma wp_bench_lines:
  "at_rest h s \<Longrightarrow> wp (bench_lines V E B clk C n lines)
     (\<lambda>_ t. \<exists>new. rows t = rows s @ new \<and> list_all2 (row_for E B C) (filter (\<lambda>line. line \<noteq> []) lines) new) (\<lambda>e t. True) s"
proof (induction lines arbitrary: h s n)
  case Nil
  then show ?case by (simp add: wp_simps)
next
  case (Cons line lines)
  show ?case
  proof (cases "line = []")
    case True
    then show ?thesis using Cons by simp
  next
    case False
    have "wp (bench_lines V E B clk C (n + 1) lines)
        (\<lambda>_ t. \<exists>new. rows t = rows s @ new \<and> list_all2 (row_for E B C) (line # filter (\<lambda>line. line \<noteq> []) lines) new)
        (\<lambda>e t. True) u" if u: "at_rest h' u" "rows u = rows s @ [row]" "row_for E B C line row" for h' u row
      by (rule wp_mono [OF Cons.IH [OF u(1)]]) (use u in auto)
    then show ?thesis using False unfolding bench_lines.simps if_not_P [OF False] wp_mthen
      by (intro wp_mono [OF wp_bench_sample [OF Cons.prems]]) auto
  qed
qed

end

end
