(* ===== verification/HyMt_History.thy ===== *)
theory HyMt_History imports Engines begin

text \<open>
  A Hy-MT2 engine on the CPU over its whole life: whatever was asked of it before, in whatever order and with
  whatever outcome, its cache record is described by the abstract history of \<open>HyMt_Reuse\<close>: session, scope
  and prompt tokens of the translation before, or nothing.
\<close>

section \<open>The life of an engine\<close>

text \<open>
  The states an engine comes to, with the history it should remember. A step is a finished call, cached or
  not, or a write to its flag by \<open>cancel\<close>, \<open>resetCancellation\<close> or another thread between two calls.
\<close>

inductive served :: "('m, 'd, 'c, 's, 'w) llama \<Rightarrow> history \<Rightarrow> ('m, 'c, 'w) hymt \<Rightarrow> bool" for L where
  loaded: "load_hymt L modelPath cpuThreads contextBatch contextUbatch preferOpenCL' w = (Ok (), s) \<Longrightarrow> \<not> opencl s
     \<Longrightarrow> served L None s"
| answered: "served L h s \<Longrightarrow> translate_attempts L allow prompt req cb s = (Ok r, t) \<Longrightarrow> model s = Some m
     \<Longrightarrow> prepare L m prompt = Inr (format, tokens)
     \<Longrightarrow> served L (if allow then Some (session_id req, cache_scope req, tokens) else None) t"
| failed: "served L h s \<Longrightarrow> translate_attempts L allow prompt req cb s = (Throw e, t) \<Longrightarrow> served L None t"
| flagged: "served L h s \<Longrightarrow> served L h (s\<lparr>eflag := f\<rparr>)"

lemma remembers_eflag [simp]: "remembers L h (s\<lparr>eflag := f\<rparr>) = remembers L h s"
  by (simp add: remembers_def recorded_end_def split: option.split)

lemma served_state:
  assumes laws: "kv_laws L (nat context_size) kv fresh nx" "removes L" and s: "served L h s"
  shows "ready kv s \<and> \<not> opencl s \<and> remembers L h s"
  using s
proof induction
  case (loaded modelPath cpuThreads contextBatch contextUbatch preferOpenCL' w s)
  have "started L kv preferOpenCL' s"
    using wp_Ok_D [OF wp_construct [OF laws(1) refl] loaded(1) [unfolded load_hymt_def]] .
  then show ?case using loaded(2) by (simp add: started_def remembers_def cold_def)
next
  case (answered h s allow prompt req cb r t m format tokens)
  then have s: "ready kv s" "\<not> opencl s" "remembers L h s" by simp_all
  show ?case
    by (rule translation_step [OF laws(1) s(1,2) laws(2) s(3) answered(2)]) (use answered(3,4) in auto)
next
  case (failed h s allow prompt req cb e t)
  then show ?case using failed_step [OF laws(1) _ _ failed(2)] by simp
qed simp_all

lemma served_reuse:
  assumes laws: "kv_laws L (nat context_size) kv fresh nx" "removes L" and s: "served L h s"
    and call: "translate_attempts L allow prompt req cb s = (Ok r, t)"
  shows "\<exists>m format tokens. model s = Some m \<and> prepare L m prompt = Inr (format, tokens)
     \<and> input_tokens (lastStats t) = int (length tokens)
     \<and> cache_reused_tokens (lastStats t) = int (if allow then kept h req tokens else 0)"
proof -
  from served_state [OF laws s] have r: "ready kv s" "\<not> opencl s" "remembers L h s" by simp_all
  show ?thesis by (rule translation_step [OF laws(1) r(1,2) laws(2) r(3) call]) blast
qed

end
