(* ===== verification/Startup.thy ===== *)
theory Startup imports Prelude begin

text \<open>
  What \<open>translation.cpp\<close> sets up once per process, before the first model is loaded: the log callback that
  records the messages of a model load for \<open>parseOffloadedLayers\<close> and passes every message on, the one-time
  initialisation of the backend, and the variables for the OpenCL driver.
\<close>

section \<open>State\<close>

text \<open>A log callback of llama.cpp: none, \<open>captureLlamaLog\<close>, or one that somebody else installed.\<close>

datatype logger = NoLogger | CaptureLogger | ForeignLogger nat

text \<open>
  \<open>llama_logger\<close> is the callback llama.cpp calls, \<open>previousLlamaLogger\<close> the one it called before.
  \<open>modelLoadLog\<close> is thread-local and points to one of the local strings \<open>load_logs\<close> of \<open>initialize\<close>; the
  \<open>once_flag\<close>s are \<open>installed\<close> and \<open>initialised\<close>. \<open>received\<close> holds what each foreign callback got.
\<close>

record process =
  llama_logger :: logger
  previousLlamaLogger :: logger
  installed :: bool
  initialised :: bool
  backend_inits :: nat
  modelLoadLog :: "nat \<Rightarrow> nat option"
  load_logs :: "nat \<Rightarrow> string"
  next_log :: nat
  received :: "nat \<Rightarrow> string option list"
  standard_error :: "string list"
  variables :: "string \<rightharpoonup> string"

section \<open>Messages\<close>

text \<open>A message is appended to the string its thread has set, if any.\<close>

definition recorded :: "nat \<Rightarrow> string option \<Rightarrow> process \<Rightarrow> process" where
  "recorded th msg s = (case (modelLoadLog s th, msg) of
      (Some i, Some str) \<Rightarrow> s\<lparr>load_logs := (load_logs s)(i := load_logs s i @ c_str str)\<rparr>
    | _ \<Rightarrow> s)"

text \<open>
  A callback called on a thread; a message can be null. \<open>captureLlamaLog\<close> calls the previous callback: if that
  were itself, the call would never return.
\<close>

partial_function (option) call_logger :: "nat \<Rightarrow> logger \<Rightarrow> string option \<Rightarrow> process \<Rightarrow> process option" where
  "call_logger th lg msg s =
     (case lg of
        NoLogger \<Rightarrow> Some s
      | ForeignLogger k \<Rightarrow> Some (s\<lparr>received := (received s)(k := received s k @ [msg])\<rparr>)
      | CaptureLogger \<Rightarrow>
         (let s1 = recorded th msg s
          in if previousLlamaLogger s1 \<noteq> NoLogger then call_logger th (previousLlamaLogger s1) msg s1
             else Some (case msg of None \<Rightarrow> s1 | Some str \<Rightarrow> s1\<lparr>standard_error := standard_error s1 @ [c_str str]\<rparr>)))"

text \<open>llama.cpp logs a message on a thread.\<close>

definition llama_logs :: "nat \<Rightarrow> string option \<Rightarrow> (process, unit) action" where
  "llama_logs th msg = (\<lambda>s. case call_logger th (llama_logger s) msg s of
       None \<Rightarrow> (Crash ''unbounded recursion'', s)
     | Some t \<Rightarrow> (Ok (), t))"

definition installLlamaLogCapture :: "process \<Rightarrow> process" where
  "installLlamaLogCapture s =
     (if installed s then s
      else s\<lparr>installed := True, previousLlamaLogger := llama_logger s, llama_logger := CaptureLogger\<rparr>)"

section \<open>Set-up and loading\<close>

definition setenv :: "string \<Rightarrow> string \<Rightarrow> process \<Rightarrow> process" where
  "setenv name val s = s\<lparr>variables := (variables s)(name \<mapsto> c_str val)\<rparr>"

text \<open>The beginning of the constructor of \<open>HyMt\<close>; \<open>opencl_build\<close> is the macro \<open>TRANSLATION_OPENCL\<close>.\<close>

definition hymt_setup :: "bool \<Rightarrow> string \<Rightarrow> process \<Rightarrow> process" where
  "hymt_setup opencl_build cacheDir s =
     (let s1 = (if opencl_build
            then setenv ''OCL_ICD_FILENAMES'' ''libOpenCL.so''
              (if cacheDir \<noteq> [] then setenv ''GGML_OPENCL_KERNEL_CACHE_DIR'' cacheDir s else s)
            else s);
          s2 = installLlamaLogCapture s1
      in if initialised s2 then s2 else s2\<lparr>initialised := True, backend_inits := backend_inits s2 + 1\<rparr>)"

text \<open>
  The load of a model in \<open>initialize\<close>, on thread \<open>th\<close>: the pointer is set to a new string, and restored on both
  ways out. The value is the log.
\<close>

definition capture_load :: "nat \<Rightarrow> (process, 'a) action \<Rightarrow> (process, 'a \<times> string) action" where
  "capture_load th load =
     mbind (mget next_log) (\<lambda>i.
     mbind (mget (\<lambda>s. modelLoadLog s th)) (\<lambda>previousCapture.
     mthen (mmodify (\<lambda>s. s\<lparr>next_log := Suc i, load_logs := (load_logs s)(i := []),
        modelLoadLog := (modelLoadLog s)(th \<mapsto> i)\<rparr>))
    (mbind (mcatch load (\<lambda>e.
        mthen (mmodify (\<lambda>s. s\<lparr>modelLoadLog := (modelLoadLog s)(th := previousCapture)\<rparr>)) (mthrow e))) (\<lambda>m.
     mthen (mmodify (\<lambda>s. s\<lparr>modelLoadLog := (modelLoadLog s)(th := previousCapture)\<rparr>))
      (mget (\<lambda>s. (m, load_logs s i)))))))"

text \<open>A load that logs messages, of whatever threads, and then returns a model or throws.\<close>

fun logs_all :: "(nat \<times> string option) list \<Rightarrow> (process, unit) action" where
  "logs_all [] = mret ()"
| "logs_all ((th, msg) # msgs) = mthen (llama_logs th msg) (logs_all msgs)"

section \<open>Every message arrives once\<close>

text \<open>Set up, with a callback before it that was not \<open>captureLlamaLog\<close>.\<close>

definition set_up :: "process \<Rightarrow> bool" where
  "set_up s \<longleftrightarrow> installed s \<and> llama_logger s = CaptureLogger \<and> previousLlamaLogger s \<noteq> CaptureLogger"

definition untouched :: "process \<Rightarrow> bool" where
  "untouched s \<longleftrightarrow> \<not> installed s \<and> llama_logger s \<noteq> CaptureLogger"

lemma setup_installs: "untouched s \<or> set_up s \<Longrightarrow> set_up (hymt_setup b dir s)"
  by (auto simp: untouched_def set_up_def hymt_setup_def installLlamaLogCapture_def setenv_def Let_def)

text \<open>Where a message goes after it was recorded.\<close>

definition passed_on :: "string option \<Rightarrow> process \<Rightarrow> process" where
  "passed_on msg s = (case previousLlamaLogger s of
      ForeignLogger k \<Rightarrow> s\<lparr>received := (received s)(k := received s k @ [msg])\<rparr>
    | _ \<Rightarrow> (case msg of None \<Rightarrow> s | Some str \<Rightarrow> s\<lparr>standard_error := standard_error s @ [c_str str]\<rparr>))"

lemma recorded_fields:
  "llama_logger (recorded th msg s) = llama_logger s" "previousLlamaLogger (recorded th msg s) = previousLlamaLogger s"
  "installed (recorded th msg s) = installed s" "modelLoadLog (recorded th msg s) = modelLoadLog s"
  "received (recorded th msg s) = received s" "standard_error (recorded th msg s) = standard_error s"
  by (simp_all add: recorded_def split: option.split)

lemma passed_on_fields:
  "llama_logger (passed_on msg s) = llama_logger s" "previousLlamaLogger (passed_on msg s) = previousLlamaLogger s"
  "installed (passed_on msg s) = installed s" "modelLoadLog (passed_on msg s) = modelLoadLog s"
  "load_logs (passed_on msg s) = load_logs s"
  by (simp_all add: passed_on_def split: option.split logger.split)

lemma llama_logs_Ok:
  "set_up s \<Longrightarrow> llama_logs th msg s = (Ok (), passed_on msg (recorded th msg s))"
  by (cases "previousLlamaLogger s")
    (auto simp: llama_logs_def set_up_def passed_on_def recorded_fields call_logger.simps Let_def split: option.splits)

text \<open>The texts of a thread among messages, and what the callback before the capture hears.\<close>

definition texts_of :: "nat \<Rightarrow> (nat \<times> string option) list \<Rightarrow> string" where
  "texts_of th msgs = concat (map (\<lambda>(th', msg). case msg of None \<Rightarrow> [] | Some str \<Rightarrow> if th' = th then c_str str else []) msgs)"

definition heard :: "process \<Rightarrow> (nat \<times> string option) list \<Rightarrow> process \<Rightarrow> bool" where
  "heard s msgs t \<longleftrightarrow> (case previousLlamaLogger s of
      ForeignLogger k \<Rightarrow> received t k = received s k @ map snd msgs \<and> standard_error t = standard_error s
    | _ \<Rightarrow> standard_error t = standard_error s @ concat (map (\<lambda>(th, msg). case msg of None \<Rightarrow> [] | Some str \<Rightarrow> [c_str str]) msgs) \<and> received t = received s)"

lemma logs_all_effect:
  assumes "set_up s" "modelLoadLog s th = Some i" "\<And>th'. modelLoadLog s th' = Some i \<Longrightarrow> th' = th"
  shows "\<exists>t. logs_all msgs s = (Ok (), t) \<and> set_up t \<and> modelLoadLog t = modelLoadLog s
     \<and> previousLlamaLogger t = previousLlamaLogger s
     \<and> load_logs t i = load_logs s i @ texts_of th msgs \<and> heard s msgs t"
  using assms
proof (induction msgs arbitrary: s)
  case Nil
  show ?case using Nil(1,2) by (simp add: texts_of_def heard_def mret_def split: logger.split)
next
  case (Cons x msgs)
  obtain th' msg where x: "x = (th', msg)" by (cases x)
  let ?u = "passed_on msg (recorded th' msg s)"
  have step: "logs_all (x # msgs) s = logs_all msgs ?u"
    using llama_logs_Ok [OF Cons.prems(1)] by (simp add: x mthen_def mbind_def)
  have u: "set_up ?u" "modelLoadLog ?u th = Some i" "\<And>a. modelLoadLog ?u a = Some i \<Longrightarrow> a = th"
    using Cons.prems(1,2) by (simp_all add: set_up_def passed_on_fields recorded_fields Cons.prems(3))
  have logged: "load_logs ?u i = load_logs s i @ texts_of th [x]"
  proof (cases "th' = th")
    case False
    then have "modelLoadLog s th' \<noteq> Some (i)" using Cons.prems(3) by blast
    then show ?thesis using False by (auto simp: passed_on_fields recorded_def x texts_of_def split: option.split)
  qed (use Cons.prems(2) in \<open>auto simp: passed_on_fields recorded_def x texts_of_def split: option.split\<close>)
  have first: "heard s [x] ?u"
    by (simp add: heard_def passed_on_def recorded_fields x split: logger.split option.split)
  from Cons.IH [OF u] obtain t where t: "logs_all msgs ?u = (Ok (), t)" "set_up t" "modelLoadLog t = modelLoadLog s"
    "previousLlamaLogger t = previousLlamaLogger s" "load_logs t i = load_logs ?u i @ texts_of th msgs" "heard ?u msgs t"
    by (auto simp: passed_on_fields recorded_fields)
  moreover have "heard s (x # msgs) t"
    using first t(6) by (auto simp: heard_def passed_on_fields recorded_fields split: logger.splits)
  moreover have "load_logs t i = load_logs s i @ texts_of th (x # msgs)"
    using t(5) logged by (simp add: texts_of_def)
  ultimately show ?case using step by simp
qed

text \<open>A load that ends with a model or an exception.\<close>

definition load_ends :: "(nat \<times> string option) list \<Rightarrow> exn + 'a \<Rightarrow> (process, 'a) action" where
  "load_ends msgs r = mthen (logs_all msgs) (case r of Inl e \<Rightarrow> mthrow e | Inr m \<Rightarrow> mret m)"

definition strings_used :: "process \<Rightarrow> bool" where
  "strings_used s \<longleftrightarrow> (\<forall>th i. modelLoadLog s th = Some i \<longrightarrow> i < next_log s)"

lemma capture_load_exact:
  assumes "set_up s" "strings_used s"
  shows "\<exists>t. capture_load th (load_ends msgs r) s = (case r of Inl e \<Rightarrow> Throw e | Inr m \<Rightarrow> Ok (m, texts_of th msgs), t)
     \<and> modelLoadLog t = modelLoadLog s \<and> heard s msgs t"
proof -
  let ?i = "next_log s"
  let ?s = "s\<lparr>next_log := Suc ?i, load_logs := (load_logs s)(?i := []), modelLoadLog := (modelLoadLog s)(th \<mapsto> ?i)\<rparr>"
  have s: "set_up ?s" "modelLoadLog ?s th = Some ?i" "\<And>a. modelLoadLog ?s a = Some ?i \<Longrightarrow> a = th"
    using assms by (auto simp: set_up_def strings_used_def split: if_splits)
  obtain t where t: "logs_all msgs ?s = (Ok (), t)" "modelLoadLog t = modelLoadLog ?s"
    "load_logs t ?i = texts_of th msgs" "heard ?s msgs t"
    using logs_all_effect [OF s] by auto
  have h: "heard s msgs (t\<lparr>modelLoadLog := f\<rparr>)" for f using t(4) by (simp add: heard_def split: logger.splits)
  show ?thesis using t(1-3) h
    by (cases r) (auto simp: capture_load_def load_ends_def mbind_def mthen_def mcatch_def mget_def mmodify_def mret_def mthrow_def)
qed

section \<open>Any number of engines\<close>

lemma setup_fields:
  "strings_used (hymt_setup b dir s) = strings_used s" "received (hymt_setup b dir s) = received s"
  "standard_error (hymt_setup b dir s) = standard_error s"
  "previousLlamaLogger (hymt_setup b dir s) = (if installed s then previousLlamaLogger s else llama_logger s)"
  "backend_inits (hymt_setup b dir s) = (if initialised s then backend_inits s else backend_inits s + 1)"
  "initialised (hymt_setup b dir s)" "installed (hymt_setup b dir s)"
  by (simp_all add: hymt_setup_def installLlamaLogCapture_def setenv_def strings_used_def Let_def)

lemma setups:
  assumes "untouched s" "\<not> initialised s"
  shows "set_up ((hymt_setup b dir ^^ Suc n) s) \<and> strings_used ((hymt_setup b dir ^^ Suc n) s) = strings_used s
     \<and> received ((hymt_setup b dir ^^ Suc n) s) = received s \<and> standard_error ((hymt_setup b dir ^^ Suc n) s) = standard_error s
     \<and> previousLlamaLogger ((hymt_setup b dir ^^ Suc n) s) = llama_logger s
     \<and> backend_inits ((hymt_setup b dir ^^ Suc n) s) = backend_inits s + 1
     \<and> installed ((hymt_setup b dir ^^ Suc n) s) \<and> initialised ((hymt_setup b dir ^^ Suc n) s)"
proof (induction n)
  case 0
  show ?case using assms setup_installs [of s b dir] by (simp add: setup_fields untouched_def)
next
  case (Suc n)
  show ?case using Suc.IH setup_installs [of "(hymt_setup b dir ^^ Suc n) s" b dir]
    by (simp add: setup_fields del: funpow.simps(2)) (simp add: funpow.simps(2) [of "Suc n"] setup_fields del: funpow.simps(2))
qed

end
