(* ===== verification/Jni.thy ===== *)
theory Jni imports Drivers Startup "HOL-Library.Multiset" begin

text \<open>
  \<open>jni.cpp\<close>: the functions the Java side calls. The virtual machine is a parameter; what matters of it here
  is explicit: the pending exception, the local references, and the calls made while an exception is
  pending, which JNI leaves undefined except for the few that examine or clean up.
\<close>

section \<open>The virtual machine\<close>

type_synonym jref = nat

record 'j jvm =
  pending :: "string option"
  undefined_calls :: nat
  local_refs :: "jref list"
  heap :: 'j

text \<open>
  \<open>contents_of\<close> an array; \<open>new_bytes\<close> and \<open>new_longs\<close> allocate, null when memory runs out; \<open>find_class\<close>
  looks a class up by name, null when there is none; \<open>class_ref\<close> yields the class of an object;
  \<open>has_method\<close>; \<open>on_progress\<close> runs the Java method of the callback and yields the message of the exception
  it threw, if any. \<open>java_text\<close> is the result of \<open>NewStringUTF\<close>.
\<close>

record 'j jni =
  contents_of :: "'j \<Rightarrow> jref \<Rightarrow> string"
  new_bytes :: "nat \<Rightarrow> 'j \<Rightarrow> jref \<times> 'j"
  write_bytes :: "jref \<Rightarrow> string \<Rightarrow> 'j \<Rightarrow> 'j"
  find_class :: "string \<Rightarrow> 'j \<Rightarrow> jref \<times> 'j"
  class_ref :: "jref \<Rightarrow> 'j \<Rightarrow> jref \<times> 'j"
  has_method :: "jref \<Rightarrow> string \<Rightarrow> string \<Rightarrow> 'j \<Rightarrow> bool"
  on_progress :: "jref \<Rightarrow> int list \<Rightarrow> jref \<Rightarrow> 'j \<Rightarrow> string option \<times> 'j"
  java_text :: "string \<Rightarrow> 'j \<Rightarrow> jref \<times> 'j"
  new_longs :: "nat \<Rightarrow> 'j \<Rightarrow> jref \<times> 'j"
  write_longs :: "jref \<Rightarrow> int list \<Rightarrow> 'j \<Rightarrow> 'j"

text \<open>A call that must not be made with an exception pending.\<close>

definition strict_call :: "('j jvm, unit) action" where
  "strict_call = mmodify (\<lambda>v. if pending v = None then v else v\<lparr>undefined_calls := undefined_calls v + 1\<rparr>)"

definition in_heap :: "('j \<Rightarrow> 'a \<times> 'j) \<Rightarrow> ('j jvm, 'a) action" where
  "in_heap f = (\<lambda>v. let (x, h) = f (heap v) in (Ok x, v\<lparr>heap := h\<rparr>))"

definition ExceptionCheck :: "('j jvm, bool) action" where
  "ExceptionCheck = mget (\<lambda>v. pending v \<noteq> None)"

definition raise_java :: "string \<Rightarrow> ('j jvm, unit) action" where
  "raise_java msg = mmodify (\<lambda>v. v\<lparr>pending := Some msg\<rparr>)"

text \<open>An allocation: null leaves an \<open>OutOfMemoryError\<close>, a reference is local until deleted.\<close>

definition allocated :: "('j \<Rightarrow> jref \<times> 'j) \<Rightarrow> ('j jvm, jref) action" where
  "allocated f =
     mthen strict_call
    (mbind (in_heap f) (\<lambda>a.
     mthen (if a = 0 then raise_java ''OutOfMemoryError'' else mmodify (\<lambda>v. v\<lparr>local_refs := local_refs v @ [a]\<rparr>))
       (mret a)))"

definition NewByteArray :: "'j jni \<Rightarrow> nat \<Rightarrow> ('j jvm, jref) action" where
  "NewByteArray J n = allocated (new_bytes J n)"

definition SetByteArrayRegion :: "'j jni \<Rightarrow> jref \<Rightarrow> string \<Rightarrow> ('j jvm, unit) action" where
  "SetByteArrayRegion J a s = mthen strict_call (in_heap (\<lambda>h. ((), write_bytes J a s h)))"

definition DeleteLocalRef :: "jref \<Rightarrow> ('j jvm, unit) action" where
  "DeleteLocalRef a = mmodify (\<lambda>v. v\<lparr>local_refs := remove1 a (local_refs v)\<rparr>)"

definition CallVoidMethod :: "'j jni \<Rightarrow> jref \<Rightarrow> int list \<Rightarrow> jref \<Rightarrow> ('j jvm, unit) action" where
  "CallVoidMethod J callback args a =
     mthen strict_call
    (mbind (in_heap (on_progress J callback args a)) (\<lambda>thrown.
     case thrown of None \<Rightarrow> mret () | Some msg \<Rightarrow> raise_java msg))"

section \<open>Helpers\<close>

text \<open>\<open>utf8\<close>: \<open>GetArrayLength\<close>, then \<open>GetByteArrayRegion\<close> of the whole array.\<close>

definition jni_utf8 :: "'j jni \<Rightarrow> jref \<Rightarrow> ('j jvm, string) action" where
  "jni_utf8 J a =
     mthen strict_call
    (mbind (mget (\<lambda>v. length (contents_of J (heap v) a))) (\<lambda>n.
     mthen strict_call
      (mget (\<lambda>v. filled n (CHR 0x00) (take n (contents_of J (heap v) a))))))"

text \<open>\<open>FindClass\<close>: a local reference too.\<close>

definition FindClass :: "'j jni \<Rightarrow> string \<Rightarrow> ('j jvm, jref) action" where
  "FindClass J name =
     mthen strict_call
    (mbind (in_heap (find_class J name)) (\<lambda>cls.
     mthen (if cls = 0 then raise_java ''NoClassDefFoundError'' else mmodify (\<lambda>v. v\<lparr>local_refs := local_refs v @ [cls]\<rparr>))
       (mret cls)))"

text \<open>\<open>fail\<close>: an exception of the native code becomes an \<open>IllegalStateException\<close>, unless one is pending.\<close>

definition jni_fail :: "'j jni \<Rightarrow> exn \<Rightarrow> ('j jvm, unit) action" where
  "jni_fail J e =
     mbind ExceptionCheck (\<lambda>b.
     if b then mret ()
     else mbind (FindClass J ''java/lang/IllegalStateException'') (\<lambda>cls. mthen strict_call (raise_java (exn_what e))))"

text \<open>The body of the progress callback.\<close>

definition jni_event :: "'j jni \<Rightarrow> jref \<Rightarrow> progress \<Rightarrow> ('j jvm, unit) action" where
  "jni_event J callback ev =
     mbind (NewByteArray J (length (p_text ev))) (\<lambda>a.
     if a = 0 then mret ()
     else
       mthen (SetByteArrayRegion J a (p_text ev))
      (mbind ExceptionCheck (\<lambda>b.
       mthen (if b then mret ()
              else CallVoidMethod J callback [p_session_id ev, p_segment_id ev, p_revision ev, p_elapsed_ms ev] a)
      (mthen (DeleteLocalRef a)
      (mbind ExceptionCheck (\<lambda>c. mguard c (RuntimeError ''Native progress callback failed'')))))))"

text \<open>
  As a callback of an engine: the machine after the events so far, starting from \<open>v\<close>, and what the newest
  event throws.
\<close>

definition after_events :: "'j jni \<Rightarrow> jref \<Rightarrow> 'j jvm \<Rightarrow> progress list \<Rightarrow> 'j jvm" where
  "after_events J callback v evs = foldl (\<lambda>v ev. snd (jni_event J callback ev v)) v evs"

definition jni_callback :: "'j jni \<Rightarrow> jref \<Rightarrow> 'j jvm \<Rightarrow> progress list \<Rightarrow> exn option" where
  "jni_callback J callback v evs =
     (case fst (jni_event J callback (last evs) (after_events J callback v (butlast evs))) of
        Throw e \<Rightarrow> Some e
      | _ \<Rightarrow> None)"

section \<open>State\<close>

text \<open>The objects behind the handles: the number of an engine, with the members of an OPUS object.\<close>

datatype 'o object = HyObject nat | OpusObject nat 'o

record ('e, 'o, 'j) app =
  vm :: "'j jvm"
  procs :: 'e
  live :: "int \<Rightarrow> 'o object option"
  made :: nat

definition in_vm :: "('j jvm, 'a) action \<Rightarrow> (('e, 'o, 'j) app, 'a) action" where
  "in_vm = zoom vm (\<lambda>v s. s\<lparr>vm := v\<rparr>)"

definition in_procs :: "('e, 'a) action \<Rightarrow> (('e, 'o, 'j) app, 'a) action" where
  "in_procs = zoom procs (\<lambda>e s. s\<lparr>procs := e\<rparr>)"

text \<open>\<open>reinterpret_cast<TranslationEngine *>(handle)\<close>: a stale or null handle is undefined behaviour.\<close>

definition deref :: "int \<Rightarrow> (('e, 'o, 'j) app, 'o object) action" where
  "deref handle = (\<lambda>s. case live s handle of
       None \<Rightarrow> (Crash ''stale handle'', s)
     | Some ob \<Rightarrow> (Ok ob, s))"

definition engine_of :: "('m, 'd, 'c, 's, 'w) llama \<Rightarrow> 'v api \<Rightarrow> ('k, 'p) opus_env \<Rightarrow> ('k, 'p) opus object
    \<Rightarrow> ('m, 'c, 'w, 'v) engines engine" where
  "engine_of L A E ob = (case ob of HyObject k \<Rightarrow> hy_engine L k | OpusObject k m \<Rightarrow> op_engine A E k m)"

text \<open>\<open>try { body } catch (const std::exception & e) { fail(env, e); return z; }\<close>\<close>

definition guarded_entry :: "'j jni \<Rightarrow> 'a \<Rightarrow> (('e, 'o, 'j) app, 'a) action \<Rightarrow> (('e, 'o, 'j) app, 'a) action" where
  "guarded_entry J z body = mcatch body (\<lambda>e. mthen (in_vm (jni_fail J e)) (mret z))"

section \<open>The functions\<close>

text \<open>A new object gets the next number; its address is that number plus one.\<close>

definition register :: "(nat \<Rightarrow> 'o object) \<Rightarrow> (('e, 'o, 'j) app, int) action" where
  "register ob = (\<lambda>s. (Ok (int (made s) + 1),
     s\<lparr>live := (live s)(int (made s) + 1 \<mapsto> ob (made s)), made := Suc (made s)\<rparr>))"

definition jni_load :: "('m, 'd, 'c, 's, 'w) llama \<Rightarrow> 'v api \<Rightarrow> ('k, 'p) opus_env \<Rightarrow> 'j jni \<Rightarrow> jref \<Rightarrow> int \<Rightarrow> int \<Rightarrow> int
    \<Rightarrow> bool \<Rightarrow> bool \<Rightarrow> jref \<Rightarrow> ((('m, 'c, 'w, 'v) engines, ('k, 'p) opus, 'j) app, int) action" where
  "jni_load L A E J path' cpuThreads contextBatch contextUbatch opus' preferOpenCL' cacheDir =
     guarded_entry J 0
      (if opus' then
         mbind (in_vm (jni_utf8 J path')) (\<lambda>dir.
         mbind (mget made) (\<lambda>k.
         mbind (in_procs (load_op A E k dir cpuThreads)) (\<lambda>m. register (\<lambda>k. OpusObject k m))))
       else
         mbind (in_vm (jni_utf8 J path')) (\<lambda>p.
         mthen (if cacheDir \<noteq> 0 then in_vm (jni_utf8 J cacheDir) else mret [])
        (mbind (mget made) (\<lambda>k.
         mthen (in_procs (load_hy L k p cpuThreads contextBatch contextUbatch preferOpenCL')) (register HyObject)))))"

text \<open>
  The call of the engine with the progress callback: the machine sees exactly the events the engine
  publishes. Without a callback it is left alone.
\<close>

definition call_engine :: "'e engine \<Rightarrow> 'j jni \<Rightarrow> jref \<Rightarrow> string \<Rightarrow> request \<Rightarrow> (('e, 'o, 'j) app, string) action" where
  "call_engine V J callback prompt req = (\<lambda>s.
     if callback = 0 then in_procs (with_progress V prompt req None) s
     else
      (let (x, e) = with_progress V prompt req (Some (jni_callback J callback (vm s))) (procs s)
       in (x, s\<lparr>procs := e, vm := after_events J callback (vm s) (events_of V e)\<rparr>)))"

definition find_callback :: "'j jni \<Rightarrow> jref \<Rightarrow> ('j jvm, jref) action" where
  "find_callback J callback =
     (if callback = 0 then mret 0
      else
       mthen strict_call
      (mbind (in_heap (class_ref J callback)) (\<lambda>cls.
       mthen (mmodify (\<lambda>v. v\<lparr>local_refs := local_refs v @ [cls]\<rparr>))
      (mthen strict_call
      (mbind (mget (\<lambda>v. has_method J cls ''onProgress'' ''(JJIJ[B)V'' (heap v))) (\<lambda>found.
       if found then mret cls
       else mthen (raise_java ''NoSuchMethodError'')
         (mthrow (RuntimeError ''Native progress callback method is unavailable''))))))))"

text \<open>\<open>run\<close>, over the call of the engine: from the result on, from the text on, and the whole.\<close>

definition jni_result :: "'j jni \<Rightarrow> jref \<Rightarrow> string \<Rightarrow> (('e, 'o, 'j) app, jref) action" where
  "jni_result J cls result =
     mbind (in_vm (NewByteArray J (length result))) (\<lambda>a.
     mthen (if a \<noteq> 0 then in_vm (SetByteArrayRegion J a result) else mret ())
    (mthen (if cls \<noteq> 0 then in_vm (DeleteLocalRef cls) else mret ())
      (mret a)))"

definition jni_translate :: "(string \<Rightarrow> (('e, 'o, 'j) app, string) action) \<Rightarrow> 'j jni \<Rightarrow> jref \<Rightarrow> jref
    \<Rightarrow> (('e, 'o, 'j) app, jref) action" where
  "jni_translate call J text' cls =
     mbind (in_vm (jni_utf8 J text')) (\<lambda>prompt. mbind (call prompt) (jni_result J cls))"

definition jni_run_with :: "(string \<Rightarrow> request \<Rightarrow> (('e, 'o, 'j) app, string) action) \<Rightarrow> 'j jni \<Rightarrow> jref \<Rightarrow> int \<Rightarrow> int \<Rightarrow> int
    \<Rightarrow> jref \<Rightarrow> jref \<Rightarrow> (('e, 'o, 'j) app, jref) action" where
  "jni_run_with call J text' sessionId segmentId revision' cacheScope callback =
     guarded_entry J 0
      (mbind (if cacheScope \<noteq> 0 then in_vm (jni_utf8 J cacheScope) else mret []) (\<lambda>scope.
       mbind (in_vm (find_callback J callback)) (\<lambda>cls.
       jni_translate (\<lambda>prompt. call prompt
          \<lparr>session_id = sessionId, segment_id = segmentId, revision = revision', cache_scope = scope\<rparr>) J text' cls)))"

definition jni_run :: "('m, 'd, 'c, 's, 'w) llama \<Rightarrow> 'v api \<Rightarrow> ('k, 'p) opus_env \<Rightarrow> 'j jni \<Rightarrow> int \<Rightarrow> jref \<Rightarrow> int \<Rightarrow> int \<Rightarrow> int
    \<Rightarrow> jref \<Rightarrow> jref \<Rightarrow> ((('m, 'c, 'w, 'v) engines, ('k, 'p) opus, 'j) app, jref) action" where
  "jni_run L A E J handle text' sessionId segmentId revision' cacheScope callback =
     jni_run_with (\<lambda>prompt req. mbind (deref handle) (\<lambda>ob. call_engine (engine_of L A E ob) J callback prompt req))
       J text' sessionId segmentId revision' cacheScope callback"

definition jni_abort :: "('m, 'd, 'c, 's, 'w) llama \<Rightarrow> 'v api \<Rightarrow> ('k, 'p) opus_env \<Rightarrow> int
    \<Rightarrow> ((('m, 'c, 'w, 'v) engines, ('k, 'p) opus, 'j) app, unit) action" where
  "jni_abort L A E handle = mbind (deref handle) (\<lambda>ob. in_procs (mmodify (engine_cancel (engine_of L A E ob))))"

definition jni_resetCancellation :: "('m, 'd, 'c, 's, 'w) llama \<Rightarrow> 'v api \<Rightarrow> ('k, 'p) opus_env \<Rightarrow> int
    \<Rightarrow> ((('m, 'c, 'w, 'v) engines, ('k, 'p) opus, 'j) app, unit) action" where
  "jni_resetCancellation L A E handle = mbind (deref handle) (\<lambda>ob. in_procs (mmodify (engine_reset (engine_of L A E ob))))"

text \<open>\<open>delete\<close>: nothing happens for a null pointer; the handle is dead afterwards.\<close>

definition jni_free :: "'v api \<Rightarrow> int \<Rightarrow> ((('m, 'c, 'w, 'v) engines, ('k, 'p) opus, 'j) app, unit) action" where
  "jni_free A handle =
     (if handle = 0 then mret ()
      else
       mbind (deref handle) (\<lambda>ob.
       mthen (in_procs (case ob of
           HyObject k \<Rightarrow> zoom (look_hy k) (write_hy k) hymt_delete
         | OpusObject k m \<Rightarrow> zoom (look_opus k) (write_opus k) (opus_delete A m)))
        (mmodify (\<lambda>s. s\<lparr>live := (live s)(handle := None)\<rparr>))))"

definition jni_backend :: "('m, 'd, 'c, 's, 'w) llama \<Rightarrow> 'v api \<Rightarrow> ('k, 'p) opus_env \<Rightarrow> 'j jni \<Rightarrow> int
    \<Rightarrow> ((('m, 'c, 'w, 'v) engines, ('k, 'p) opus, 'j) app, jref) action" where
  "jni_backend L A E J handle =
     mbind (deref handle) (\<lambda>ob.
     mbind (mget (\<lambda>s. backend_name (engine_of L A E ob) (procs s))) (\<lambda>name.
     in_vm (allocated (java_text J (c_str name)))))"

definition stat_values :: "stats \<Rightarrow> int list" where
  "stat_values st = [prefill_ms st, decode_ms st, first_token_ms st, output_tokens st,
     input_tokens st, cache_reused_tokens st, prefill_decode_us st, prefill_sync_us st,
     sampling_us st, decode_compute_us st, decode_sync_us st, first_visible_ms st, complete_ms st,
     device_bytes_allocated st, offloaded_layers st, total_layers st, fallback_count st]"

definition jni_stats :: "('m, 'd, 'c, 's, 'w) llama \<Rightarrow> 'v api \<Rightarrow> ('k, 'p) opus_env \<Rightarrow> 'j jni \<Rightarrow> int
    \<Rightarrow> ((('m, 'c, 'w, 'v) engines, ('k, 'p) opus, 'j) app, jref) action" where
  "jni_stats L A E J handle =
     mbind (deref handle) (\<lambda>ob.
     mbind (mget (\<lambda>s. stats_of (engine_of L A E ob) (procs s))) (\<lambda>st.
     mbind (in_vm (allocated (new_longs J 17))) (\<lambda>a.
     mthen (if a \<noteq> 0 then in_vm (mthen strict_call (in_heap (\<lambda>h. ((), write_longs J a (take 17 (stat_values st)) h)))) else mret ())
       (mret a))))"

text \<open>\<open>QnnService.configureDspPath\<close>: a variable of the process, for the driver; no exception is caught.\<close>

definition jni_configureDspPath :: "'j jni \<Rightarrow> jref \<Rightarrow> ('j jvm \<times> process, unit) action" where
  "jni_configureDspPath J path' =
     mbind (zoom fst (\<lambda>v (w, p). (v, p)) (jni_utf8 J path')) (\<lambda>text'.
     mmodify (\<lambda>(v, p). (v, setenv ''ADSP_LIBRARY_PATH'' text' p)))"

section \<open>The machine stays in order\<close>

text \<open>
  \<open>tidy v A w\<close>: from \<open>v\<close> to \<open>w\<close> no undefined call was made, and the local references \<open>A\<close> are new. \<open>roomy\<close>:
  the allocator of the machine does not run out and the classes of the Java library and of
  objects are found; \<open>faithful_arrays\<close>: an array holds what was written to it.
\<close>

definition tidy :: "'j jvm \<Rightarrow> jref multiset \<Rightarrow> 'j jvm \<Rightarrow> bool" where
  "tidy v A w \<longleftrightarrow> undefined_calls w = undefined_calls v \<and> mset (local_refs w) = mset (local_refs v) + A"

definition roomy :: "'j jni \<Rightarrow> bool" where
  "roomy J \<longleftrightarrow> (\<forall>n h. fst (new_bytes J n h) \<noteq> 0) \<and> (\<forall>name h. fst (find_class J name h) \<noteq> 0)
     \<and> (\<forall>a h. fst (class_ref J a h) \<noteq> 0)"

definition faithful_arrays :: "'j jni \<Rightarrow> bool" where
  "faithful_arrays J \<longleftrightarrow> (\<forall>a s h. contents_of J (write_bytes J a s h) a = s)"

lemma roomyD: "roomy J \<Longrightarrow> new_bytes J n h \<noteq> (0, h')" "roomy J \<Longrightarrow> find_class J name h \<noteq> (0, h')"
  "roomy J \<Longrightarrow> class_ref J a h \<noteq> (0, h')"
  unfolding roomy_def by (metis fst_conv)+

lemmas jni_defs = NewByteArray_def SetByteArrayRegion_def DeleteLocalRef_def CallVoidMethod_def allocated_def strict_call_def
  in_heap_def ExceptionCheck_def raise_java_def mthen_def mbind_def mmodify_def mget_def mret_def mthrow_def mguard_def

lemma jni_event_outcome:
  assumes "pending v = None" "roomy J" "jni_event J callback ev v = (x, w)"
  shows "tidy v {#} w \<and> ((x = Ok () \<and> pending w = None) \<or> (\<exists>e. x = Throw e) \<and> pending w \<noteq> None)"
  using assms
  by (auto simp: jni_event_def jni_defs roomyD(1) tidy_def Let_def split: prod.splits option.splits if_splits)

lemma after_events_snoc: "after_events J callback v (evs @ [ev]) = snd (jni_event J callback ev (after_events J callback v evs))"
  by (simp add: after_events_def)

lemma after_clean:
  assumes "pending v = None" "roomy J"
  shows "clean (jni_callback J callback v) evs \<Longrightarrow>
    tidy v {#} (after_events J callback v evs) \<and> pending (after_events J callback v evs) = None"
proof (induction evs rule: rev_induct)
  case Nil
  then show ?case using assms by (simp add: after_events_def tidy_def)
next
  case (snoc ev evs)
  then have c: "clean (jni_callback J callback v) evs" "jni_callback J callback v (evs @ [ev]) = None"
    by (simp_all add: clean_snoc)
  note IH = snoc.IH [OF c(1)]
  obtain x w where e: "jni_event J callback ev (after_events J callback v evs) = (x, w)" by fastforce
  with jni_event_outcome [OF conjunct2 [OF IH] assms(2) e] c(2) have "tidy (after_events J callback v evs) {#} w" "pending w = None"
    by (auto simp: jni_callback_def)
  then show ?case using IH e by (simp add: after_events_snoc tidy_def)
qed

lemma after_stopped:
  assumes "pending v = None" "roomy J" "stopped (jni_callback J callback v) evs"
  shows "tidy v {#} (after_events J callback v evs)"
proof (cases evs rule: rev_cases)
  case Nil
  then show ?thesis by (simp add: after_events_def tidy_def)
next
  case (snoc evs' ev)
  then have "clean (jni_callback J callback v) evs'" using assms(3) by (simp add: stopped_snoc)
  note before = after_clean [OF assms(1,2) this]
  obtain x w where e: "jni_event J callback ev (after_events J callback v evs') = (x, w)" by fastforce
  from jni_event_outcome [OF conjunct2 [OF before] assms(2) e] before show ?thesis
    using e snoc by (auto simp: after_events_snoc tidy_def)
qed

section \<open>What \<open>run\<close> reports\<close>

text \<open>Partial correctness: like \<open>wp\<close>, but nothing is said of undefined behaviour of the engine.\<close>

definition wlp :: "('s, 'a) action \<Rightarrow> ('a \<Rightarrow> 's \<Rightarrow> bool) \<Rightarrow> (exn \<Rightarrow> 's \<Rightarrow> bool) \<Rightarrow> 's \<Rightarrow> bool" where
  "wlp m Q E s = (case m s of
       (Ok x, t) \<Rightarrow> Q x t
     | (Throw e, t) \<Rightarrow> E e t
     | (Crash c, t) \<Rightarrow> True)"

lemma wlp_mret: "wlp (mret x) Q E s = Q x s" by (simp add: wlp_def mret_def)

lemma wlp_mbind: "wlp (mbind m k) Q E s = wlp m (\<lambda>x t. wlp (k x) Q E t) E s"
  by (simp add: wlp_def mbind_def split: prod.splits outcome.splits)

lemma wlp_mthen: "wlp (mthen m n) Q E s = wlp m (\<lambda>x t. wlp n Q E t) E s"
  by (simp add: wlp_def mthen_def mbind_def split: prod.splits outcome.splits)

lemma wlp_mget: "wlp (mget f) Q E s = Q (f s) s" by (simp add: wlp_def mget_def)

lemma wlp_mcatch: "wlp (mcatch m h) Q E s = wlp m Q (\<lambda>e t. wlp (h e) Q E t) s"
  by (simp add: wlp_def mcatch_def split: prod.splits outcome.splits)

lemma wlp_if: "wlp (if b then m else n) Q E s = (if b then wlp m Q E s else wlp n Q E s)" by simp

lemma wlp_in_vm: "wlp (in_vm a) Q E u = wlp a (\<lambda>x v. Q x (u\<lparr>vm := v\<rparr>)) (\<lambda>e v. E e (u\<lparr>vm := v\<rparr>)) (vm u)"
  by (simp add: wlp_def in_vm_def zoom_def split: prod.splits outcome.splits)

lemmas wlp_simps = wlp_mret wlp_mbind wlp_mthen wlp_mget wlp_mcatch wlp_if wlp_in_vm

lemma wlp_mono: "wlp m Q E s \<Longrightarrow> (\<And>x t. Q x t \<Longrightarrow> Q' x t) \<Longrightarrow> (\<And>e t. E e t \<Longrightarrow> E' e t) \<Longrightarrow> wlp m Q' E' s"
  by (auto simp: wlp_def split: prod.splits outcome.splits)

text \<open>The pieces around the engine, from a machine without a pending exception.\<close>

lemma wlp_utf8:
  assumes "pending v = None" "Q (contents_of J (heap v) a) v" shows "wlp (jni_utf8 J a) Q E v"
  using assms by (simp add: jni_utf8_def wlp_def jni_defs)

lemma wlp_find_callback:
  assumes "roomy J" "pending v = None" "callback = 0 \<Longrightarrow> Q 0 v"
    and "\<And>cls w. callback \<noteq> 0 \<Longrightarrow> tidy v {#cls#} w \<Longrightarrow> cls \<noteq> 0 \<Longrightarrow> pending w = None \<Longrightarrow> Q cls w"
    and "\<And>cls e w. tidy v {#cls#} w \<Longrightarrow> pending w \<noteq> None \<Longrightarrow> E e w"
  shows "wlp (find_callback J callback) Q E v"
proof -
  obtain cls h where c: "class_ref J callback (heap v) = (cls, h)" "cls \<noteq> 0"
    using assms(1) unfolding roomy_def by (metis prod.collapse)
  show ?thesis using assms(2-5) c by (auto simp: find_callback_def wlp_def jni_defs tidy_def)
qed

lemma wlp_fail:
  assumes "roomy J" "\<And>A w. tidy v A w \<Longrightarrow> size A \<le> 1 \<Longrightarrow> pending w \<noteq> None \<Longrightarrow> Q () w"
  shows "wlp (jni_fail J e) Q E v"
proof -
  obtain cls h where c: "find_class J ''java/lang/IllegalStateException'' (heap v) = (cls, h)" "cls \<noteq> 0"
    using assms(1) unfolding roomy_def by (metis prod.collapse)
  show ?thesis using c assms(2) [of "{#}" v] assms(2) [of "{#cls#}"]
    by (auto simp: jni_fail_def FindClass_def wlp_def tidy_def jni_defs)
qed

text \<open>What runs in the machine leaves the table of engines alone, so the handle still means the same engine.\<close>

lemma jni_run_with_cong:
  assumes "\<And>u prompt req. live u = live s \<Longrightarrow> call1 prompt req u = call2 prompt req u"
  shows "jni_run_with call1 J arr sessionId segmentId revision' cacheScope callback s
    = jni_run_with call2 J arr sessionId segmentId revision' cacheScope callback s"
proof -
  have vm: "mbind (in_vm m) k u = mbind (in_vm m) k' u" if "live u = live s" "\<And>x v. live v = live s \<Longrightarrow> k x v = k' x v" for m k k' u
    using that by (simp add: mbind_def in_vm_def zoom_def split: prod.split outcome.split)
  have scope: "mbind (if b then in_vm m else mret []) k u = mbind (if b then in_vm m else mret []) k' u"
    if "live u = live s" "\<And>x v. live v = live s \<Longrightarrow> k x v = k' x v" for b m k k' u
    by (cases b) (simp add: vm [OF that], simp add: mbind_def mret_def that)
  have translate: "jni_translate (\<lambda>prompt. call1 prompt req) J arr cls u = jni_translate (\<lambda>prompt. call2 prompt req) J arr cls u"
    if "live u = live s" for req cls u
    unfolding jni_translate_def by (rule vm [OF that]) (simp add: mbind_def assms)
  show ?thesis unfolding jni_run_with_def guarded_entry_def mcatch_def
    by (subst scope [OF refl]) (rule vm, assumption, erule translate, simp)
qed

lemma call_on_handle:
  "live s handle = Some ob \<Longrightarrow> live u = live s \<Longrightarrow>
     mbind (deref handle) (\<lambda>ob. call_engine (engine_of L A E ob) J callback prompt req) u
       = call_engine (engine_of L A E ob) J callback prompt req u"
  by (simp add: mbind_def deref_def)

lemma jni_run_on_handle:
  assumes "live s handle = Some ob"
  shows "jni_run L A E J handle arr sessionId segmentId revision' cacheScope callback s
    = jni_run_with (call_engine (engine_of L A E ob) J callback) J arr sessionId segmentId revision' cacheScope callback s"
  unfolding jni_run_def by (rule jni_run_with_cong, rule call_on_handle [OF assms])

context orderly_engine begin

lemma wlp_call_engine:
  assumes s: "sane (procs s)" "pending (vm s) = None" "roomy J"
    and Q: "\<And>r e w cb. with_progress V prompt req cb (procs s) = (Ok r, e) \<Longrightarrow> tidy (vm s) {#} w \<Longrightarrow> pending w = None
      \<Longrightarrow> Q r (s\<lparr>procs := e, vm := w\<rparr>)"
    and E: "\<And>x e w. tidy (vm s) {#} w \<Longrightarrow> E x (s\<lparr>procs := e, vm := w\<rparr>)"
  shows "wlp (call_engine V J callback prompt req) Q E s"
proof (cases "callback = 0")
  case True
  obtain x e where call: "with_progress V prompt req None (procs s) = (x, e)" by fastforce
  have same: "s\<lparr>procs := e\<rparr> = s\<lparr>procs := e, vm := vm s\<rparr>" by simp
  have calm: "tidy (vm s) {#} (vm s)" by (simp add: tidy_def)
  show ?thesis
  proof (cases x)
    case (Ok r)
    with Q [OF call [unfolded Ok] calm s(2)] call True show ?thesis
      by (simp add: call_engine_def wlp_def in_procs_def zoom_def)
  next
    case (Throw y)
    with E [OF calm, of y e] call True show ?thesis by (simp add: call_engine_def wlp_def in_procs_def zoom_def)
  qed (use call True in \<open>simp add: call_engine_def wlp_def in_procs_def zoom_def\<close>)
next
  case False
  let ?f = "jni_callback J callback (vm s)"
  obtain x e where call: "with_progress V prompt req (Some ?f) (procs s) = (x, e)" by fastforce
  let ?w = "after_events J callback (vm s) (events_of V e)"
  note order = orderly_call [OF s(1) call]
  show ?thesis
  proof (cases x)
    case (Ok r)
    then have "clean ?f (events_of V e)" using order by simp
    from after_clean [OF s(2,3) this] Q [OF call [unfolded Ok], of ?w] show ?thesis
      using call False Ok by (simp add: call_engine_def wlp_def)
  next
    case (Throw y)
    then have "tidy (vm s) {#} ?w" using order after_clean [OF s(2,3), of callback "events_of V e"]
      after_stopped [OF s(2,3), of callback "events_of V e"] by auto
    from E [OF this, of y e] show ?thesis using call False Throw by (simp add: call_engine_def wlp_def)
  qed (use call False in \<open>simp add: call_engine_def wlp_def\<close>)
qed

text \<open>What \<open>run\<close> leaves, and its two ends: the exception handler, and the array of a result.\<close>

definition reported :: "(string \<Rightarrow> request \<Rightarrow> bool) \<Rightarrow> ('s, 'o, 'j) app \<Rightarrow> 'j jni \<Rightarrow> jref \<Rightarrow> ('s, 'o, 'j) app \<Rightarrow> bool" where
  "reported asked s J a t \<longleftrightarrow> (\<exists>A. tidy (vm s) A (vm t) \<and> size A \<le> 2)
     \<and> (if a = 0 then pending (vm t) \<noteq> None
        else pending (vm t) = None
          \<and> (\<exists>prompt req cb. asked prompt req \<and> with_progress V prompt req cb (procs s) = (Ok (contents_of J (heap (vm t)) a), procs t)))"

lemma tidy_trans: "tidy u A v \<Longrightarrow> tidy v B w \<Longrightarrow> tidy u (A + B) w"
  by (auto simp: tidy_def)

lemma wlp_handler:
  assumes "roomy J" "tidy (vm s) A (vm u)" "size A \<le> 1"
  shows "wlp (mthen (in_vm (jni_fail J e)) (mret 0)) (reported asked s J) E u"
  unfolding wlp_mthen wlp_in_vm wlp_mret
proof (rule wlp_fail [OF assms(1)])
  fix B w assume "tidy (vm u) B w" "size B \<le> 1" "pending w \<noteq> None"
  with tidy_trans [OF assms(2)] assms(3) have "tidy (vm s) (A + B) w" "size (A + B) \<le> 2" by simp_all
  then show "reported asked s J 0 (u\<lparr>vm := w\<rparr>)" using \<open>pending w \<noteq> None\<close> by (auto simp: reported_def)
qed

lemma wlp_result:
  assumes "roomy J" "faithful_arrays J" "pending (vm u) = None" "with_progress V prompt req cb (procs s) = (Ok r, procs u)"
    and "tidy (vm s) (if cls = 0 then {#} else {#cls#}) (vm u)" "asked prompt req"
  shows "wlp (jni_result J cls r) (reported asked s J) E u"
proof -
  obtain a h where new: "new_bytes J (length r) (heap (vm u)) = (a, h)" "a \<noteq> 0"
    using assms(1) unfolding roomy_def by (metis prod.collapse)
  have held: "contents_of J (write_bytes J a r h) a = r" using assms(2) by (simp add: faithful_arrays_def)
  have one: "\<exists>A. (M :: jref multiset) = N + A \<and> size A \<le> 2" if "M = N + {#a#}" for M N
    by (rule exI [of _ "{#a#}"]) (simp add: that)
  show ?thesis using new assms(3-6)
    by (auto simp: jni_result_def wlp_def in_vm_def zoom_def jni_defs reported_def tidy_def held intro!: one)
qed

text \<open>
  \<open>run\<close> from a machine without a pending exception: it never throws and makes no undefined call; a null result
  comes with a pending exception, an array holds the text the engine returned, and at most two local
  references are left behind.
\<close>

lemma wlp_translate:
  assumes s: "sane (procs s)" "roomy J" "faithful_arrays J"
    and u: "procs u = procs s" "pending (vm u) = None" "tidy (vm s) (if cls = 0 then {#} else {#cls#}) (vm u)"
    and asked: "\<And>h. asked (contents_of J h arr) req"
  shows "wlp (jni_translate (\<lambda>prompt. call_engine V J callback prompt req) J arr cls) (reported asked s J)
     (\<lambda>e t. wlp (mthen (in_vm (jni_fail J e)) (mret 0)) (reported asked s J) E t) u"
  unfolding jni_translate_def wlp_mbind wlp_in_vm
proof (rule wlp_utf8 [OF u(2)])
  let ?H = "\<lambda>e t. wlp (mthen (in_vm (jni_fail J e)) (mret 0)) (reported asked s J) E t"
  let ?prompt = "contents_of J (heap (vm u)) arr"
  have "wlp (call_engine V J callback ?prompt req) (\<lambda>r. wlp (jni_result J cls r) (reported asked s J) ?H) ?H u"
  proof (rule wlp_call_engine)
    fix r e w cb
    assume "with_progress V ?prompt req cb (procs u) = (Ok r, e)" "tidy (vm u) {#} w" "pending w = None"
    then show "wlp (jni_result J cls r) (reported asked s J) ?H (u\<lparr>procs := e, vm := w\<rparr>)" using u s asked tidy_trans [OF u(3)]
      by (intro wlp_result [where prompt = ?prompt and req = req and cb = cb]) auto
  next
    fix x e w assume "tidy (vm u) {#} w"
    with tidy_trans [OF u(3) this] show "?H x (u\<lparr>procs := e, vm := w\<rparr>)"
      by (intro wlp_handler [where A = "if cls = 0 then {#} else {#cls#}"] s(2)) auto
  qed (use u s in auto)
  then show "wlp (call_engine V J callback ?prompt req) (\<lambda>r. wlp (jni_result J cls r) (reported asked s J) ?H) ?H
     (u\<lparr>vm := vm u\<rparr>)" by simp
qed

lemma run_reports:
  assumes s: "sane (procs s)" "pending (vm s) = None" "roomy J" "faithful_arrays J"
    and asked: "asked = (\<lambda>prompt req. (\<exists>h. prompt = contents_of J h arr) \<and> session_id req = sessionId
      \<and> segment_id req = segmentId \<and> revision req = revision')"
  shows "wlp (jni_run_with (call_engine V J callback) J arr sessionId segmentId revision' cacheScope callback)
     (reported asked s J) (\<lambda>e t. False) s"
proof -
  let ?H = "\<lambda>e t. wlp (mthen (in_vm (jni_fail J e)) (mret 0)) (reported asked s J) (\<lambda>e t. False) t"
  let ?req = "\<lambda>scope. \<lparr>session_id = sessionId, segment_id = segmentId, revision = revision', cache_scope = scope\<rparr>"
  have known: "asked (contents_of J h arr) (?req scope)" for h scope by (auto simp: asked)
  have found: "wlp (mbind (in_vm (find_callback J callback))
      (\<lambda>cls. jni_translate (\<lambda>prompt. call_engine V J callback prompt (?req scope)) J arr cls)) (reported asked s J) ?H s"
    for scope
    unfolding wlp_mbind wlp_in_vm
  proof (rule wlp_find_callback [OF s(3,2)])
    show "wlp (jni_translate (\<lambda>prompt. call_engine V J callback prompt (?req scope)) J arr 0) (reported asked s J) ?H (s\<lparr>vm := vm s\<rparr>)"
      by (rule wlp_translate [OF s(1,3,4)]) (use s(2) known in \<open>auto simp: tidy_def\<close>)
    fix cls w assume w: "tidy (vm s) {#cls#} w"
    show "?H e (s\<lparr>vm := w\<rparr>)" for e by (intro wlp_handler [where A = "{#cls#}"] s(3)) (use w in auto)
    show "wlp (jni_translate (\<lambda>prompt. call_engine V J callback prompt (?req scope)) J arr cls) (reported asked s J) ?H (s\<lparr>vm := w\<rparr>)"
      if "pending w = None" "cls \<noteq> 0"
      by (rule wlp_translate [OF s(1,3,4)]) (use w that known in \<open>auto simp: tidy_def\<close>)
  qed
  show ?thesis
    unfolding jni_run_with_def guarded_entry_def wlp_mcatch
  proof (subst wlp_mbind, cases "cacheScope = 0")
    case False
    then show "wlp (if cacheScope \<noteq> 0 then in_vm (jni_utf8 J cacheScope) else mret [])
       (\<lambda>scope t. wlp (mbind (in_vm (find_callback J callback)) (jni_translate (\<lambda>prompt. call_engine V J callback prompt
          \<lparr>session_id = sessionId, segment_id = segmentId, revision = revision', cache_scope = scope\<rparr>) J arr))
          (reported asked s J) ?H t) ?H s"
      using found by (simp add: wlp_in_vm wlp_utf8 s(2))
  qed (simp add: wlp_mret found)
qed

end

end
