(* ===== verification/Jni_Handles.thy ===== *)
theory Jni_Handles imports Jni begin

text \<open>
  The life of the handles that \<open>jni.cpp\<close> gives to Java, over any sequence of calls: a step relation with the
  history of loads and frees, the set of open handles as a function of that history, and the isolation of
  the engines behind different handles.
\<close>

section \<open>Histories\<close>

datatype handle_event = Loaded int | Freed int

fun engine_number :: "'o object \<Rightarrow> nat" where
  "engine_number (HyObject k) = k"
| "engine_number (OpusObject k m) = k"

text \<open>
  The calls that returned to Java, in order; what Java does in between to its own machine is arbitrary. A
  load that yields null and the free of null leave no trace.
\<close>

inductive jni_history :: "('m, 'd, 'c, 's, 'w) llama \<Rightarrow> 'v api \<Rightarrow> ('k, 'p) opus_env \<Rightarrow> 'j jni \<Rightarrow> handle_event list
    \<Rightarrow> (('m, 'c, 'w, 'v) engines, ('k, 'p) opus, 'j) app \<Rightarrow> bool" for L A E J where
  begun: "jni_history L A E J [] s" if "live s = Map.empty" "made s = 0"
| java: "jni_history L A E J evs (s\<lparr>vm := v\<rparr>)" if "jni_history L A E J evs s"
| loading: "jni_history L A E J (if h = 0 then evs else evs @ [Loaded h]) t"
    if "jni_history L A E J evs s"
      "jni_load L A E J path' cpuThreads contextBatch contextUbatch opus' preferOpenCL' cacheDir s = (Ok h, t)"
| running: "jni_history L A E J evs t"
    if "jni_history L A E J evs s" "jni_run L A E J h arr sessionId segmentId revision' cacheScope callback s = (Ok a, t)"
| aborting: "jni_history L A E J evs t" if "jni_history L A E J evs s" "jni_abort L A E h s = (Ok (), t)"
| resetting: "jni_history L A E J evs t" if "jni_history L A E J evs s" "jni_resetCancellation L A E h s = (Ok (), t)"
| naming: "jni_history L A E J evs t" if "jni_history L A E J evs s" "jni_backend L A E J h s = (Ok a, t)"
| counting: "jni_history L A E J evs t" if "jni_history L A E J evs s" "jni_stats L A E J h s = (Ok a, t)"
| freeing: "jni_history L A E J (if h = 0 then evs else evs @ [Freed h]) t"
    if "jni_history L A E J evs s" "jni_free A h s = (Ok (), t)"

text \<open>The abstract view: handles given out and taken back, and those that are open.\<close>

fun handles_out :: "handle_event list \<Rightarrow> int list" where
  "handles_out [] = []"
| "handles_out (Loaded h # evs) = h # handles_out evs"
| "handles_out (Freed h # evs) = handles_out evs"

fun handles_back :: "handle_event list \<Rightarrow> int list" where
  "handles_back [] = []"
| "handles_back (Loaded h # evs) = handles_back evs"
| "handles_back (Freed h # evs) = h # handles_back evs"

definition open_handles :: "handle_event list \<Rightarrow> int set" where
  "open_handles evs = set (handles_out evs) - set (handles_back evs)"

lemma handles_snoc [simp]:
  "handles_out (evs @ [Loaded h]) = handles_out evs @ [h]" "handles_out (evs @ [Freed h]) = handles_out evs"
  "handles_back (evs @ [Loaded h]) = handles_back evs" "handles_back (evs @ [Freed h]) = handles_back evs @ [h]"
  by (induction evs rule: handles_out.induct) auto

section \<open>What the calls do to the table\<close>

definition table :: "('e, 'o, 'j) app \<Rightarrow> (int \<Rightarrow> 'o object option) \<times> nat" where
  "table s = (live s, made s)"

text \<open>The engines but that of number \<open>k\<close>.\<close>

definition besides :: "nat \<Rightarrow> ('m, 'c, 'w, 'v) engines \<Rightarrow> nat \<Rightarrow> (('m, 'c, 'w) hymt \<times> flag) option" where
  "besides k e j = (if j = k then None else Some (hys e j, flags e j))"

lemma besidesD: "besides k e = besides k e' \<Longrightarrow> j \<noteq> k \<Longrightarrow> hys e j = hys e' j \<and> flags e j = flags e' j"
  by (drule fun_cong [where x = j]) (simp add: besides_def)

lemma besides_write [simp]: "besides k (write_hy k t e) = besides k e" "besides k (write_opus k u e) = besides k e"
  by (auto simp: besides_def write_hy_def write_opus_def)

lemma steady_in_vm: "(\<And>s v. f (s\<lparr>vm := v\<rparr>) = f s) \<Longrightarrow> steady f (in_vm m)"
  by (simp add: steady_def in_vm_def zoom_def split: prod.split)

lemma steady_in_procs: "(\<And>s. f (s\<lparr>procs := snd (m (procs s))\<rparr>) = f s) \<Longrightarrow> steady f (in_procs m)"
  by (simp add: steady_def in_procs_def zoom_def split: prod.split) (metis snd_conv)

lemma steady_snd: "steady f m \<Longrightarrow> f (snd (m s)) = f s"
  by (simp add: steady_def)

lemma steady_deref: "steady f (deref h)"
  by (simp add: steady_def deref_def split: option.split)

text \<open>A call of an engine, and a whole \<open>run\<close>: they change the machine and the engine.\<close>

lemma besides_engine:
  "besides (engine_number ob) (snd (with_progress (engine_of L A E ob) prompt req cb e)) = besides (engine_number ob) e"
  "besides (engine_number ob) (set_flag (engine_of L A E ob) fl e) = besides (engine_number ob) e"
  by (cases ob; simp add: engine_of_def hy_engine_def op_engine_def lift_engine_def zoom_def split: prod.split)+

lemma steady_call_engine:
  assumes "\<And>s v e. e = procs s \<or> (\<exists>cb. e = snd (with_progress V prompt req cb (procs s))) \<Longrightarrow> f (s\<lparr>procs := e, vm := v\<rparr>) = f s"
  shows "steady f (call_engine V J callback prompt req)"
proof -
  have "f (s\<lparr>procs := snd (with_progress V prompt req cb (procs s))\<rparr>) = f s" for s cb
    using assms [of "snd (with_progress V prompt req cb (procs s))" s "vm s"] by auto
  then show ?thesis using assms
    by (auto simp: steady_def call_engine_def in_procs_def zoom_def split: prod.splits) (metis snd_conv)+
qed

lemma steady_run_with:
  assumes vm: "\<And>s v. f (s\<lparr>vm := v\<rparr>) = f s" and call: "\<And>prompt req. steady f (call prompt req)"
  shows "steady f (jni_run_with call J arr sessionId segmentId revision' cacheScope callback)"
  unfolding jni_run_with_def guarded_entry_def jni_translate_def jni_result_def
  by (intro steady_intros steady_in_vm vm call)

text \<open>The table of objects through every call but \<open>load\<close> and \<open>free\<close>.\<close>

lemma steady_table_call: "steady table (call_engine V J callback prompt req)"
  by (rule steady_call_engine) (simp add: table_def)

lemma steady_table:
  "steady table (jni_run L A E J h arr sessionId segmentId revision' cacheScope callback)"
  "steady table (jni_abort L A E h)" "steady table (jni_resetCancellation L A E h)"
  "steady table (jni_backend L A E J h)" "steady table (jni_stats L A E J h)"
proof -
  have vm: "steady table (in_vm m)" and procs: "steady table (in_procs n)" for m n
    by (rule steady_in_vm steady_in_procs; simp add: table_def)+
  note parts = steady_intros steady_deref vm procs steady_table_call
  show "steady table (jni_run L A E J h arr sessionId segmentId revision' cacheScope callback)"
    unfolding jni_run_def by (rule steady_run_with) (simp add: table_def, intro parts)
  show "steady table (jni_abort L A E h)" "steady table (jni_resetCancellation L A E h)"
    "steady table (jni_backend L A E J h)" "steady table (jni_stats L A E J h)"
    unfolding jni_abort_def jni_resetCancellation_def jni_backend_def jni_stats_def by (intro parts)+
qed

text \<open>The other engines through every call on a live handle.\<close>

definition rest_of :: "nat \<Rightarrow> (('m, 'c, 'w, 'v) engines, 'o, 'j) app \<Rightarrow> nat \<Rightarrow> (('m, 'c, 'w) hymt \<times> flag) option" where
  "rest_of k s = besides k (procs s)"

lemma steady_rest:
  "steady (rest_of (engine_number ob)) (call_engine (engine_of L A E ob) J callback prompt req)"
  by (rule steady_call_engine) (auto simp: rest_of_def besides_engine)

lemma calls_keep_rest:
  assumes "live s h = Some ob"
  shows "rest_of (engine_number ob) (snd (jni_run L A E J h arr sessionId segmentId revision' cacheScope callback s))
      = rest_of (engine_number ob) s"
    "rest_of (engine_number ob) (snd (jni_abort L A E h s)) = rest_of (engine_number ob) s"
    "rest_of (engine_number ob) (snd (jni_resetCancellation L A E h s)) = rest_of (engine_number ob) s"
    "rest_of (engine_number ob) (snd (jni_free A h s)) = rest_of (engine_number ob) s"
proof -
  show "rest_of (engine_number ob) (snd (jni_run L A E J h arr sessionId segmentId revision' cacheScope callback s))
      = rest_of (engine_number ob) s"
    unfolding jni_run_on_handle [OF assms]
    by (rule steady_snd, rule steady_run_with [OF _ steady_rest]) (simp add: rest_of_def)
  show "rest_of (engine_number ob) (snd (jni_abort L A E h s)) = rest_of (engine_number ob) s"
    "rest_of (engine_number ob) (snd (jni_resetCancellation L A E h s)) = rest_of (engine_number ob) s"
    using assms besides_engine(2)
    by (simp_all add: jni_abort_def jni_resetCancellation_def mbind_def deref_def in_procs_def zoom_def mmodify_def
        engine_cancel_def engine_reset_def rest_of_def)
  show "rest_of (engine_number ob) (snd (jni_free A h s)) = rest_of (engine_number ob) s"
    using assms by (cases ob) (simp_all add: jni_free_def mbind_def mthen_def deref_def in_procs_def zoom_def mmodify_def
        mret_def rest_of_def split: prod.split outcome.split)
qed

text \<open>A load that returns: null and the table as it was, or the next address and a new object of the next number.\<close>

text \<open>\<open>unmoved s u\<close>: on the way from \<open>s\<close> to \<open>u\<close> only the machine and the engine about to be made changed.\<close>

definition unmoved :: "(('m, 'c, 'w, 'v) engines, 'o, 'j) app \<Rightarrow> (('m, 'c, 'w, 'v) engines, 'o, 'j) app \<Rightarrow> bool" where
  "unmoved s u \<longleftrightarrow> table u = table s \<and> rest_of (made s) u = rest_of (made s) s"

lemma unmoved_steps:
  assumes "unmoved s u" "\<And>x t. unmoved s t \<Longrightarrow> Q x t" "\<And>e t. unmoved s t \<Longrightarrow> E e t"
  shows "wlp (in_vm m) Q E u"
    "(\<And>e. besides (made s) (snd (n e)) = besides (made s) e) \<Longrightarrow> wlp (in_procs n) Q E u"
proof -
  have "unmoved s (snd (in_vm m u))" using assms(1)
    by (simp add: unmoved_def in_vm_def zoom_def table_def rest_of_def split: prod.split)
  then show "wlp (in_vm m) Q E u" using assms(2,3) by (cases "in_vm m u") (auto simp: wlp_def split: outcome.split)
  assume own: "\<And>e. besides (made s) (snd (n e)) = besides (made s) e"
  have "unmoved s (snd (in_procs n u))" using assms(1) own [of "procs u"]
    by (simp add: unmoved_def in_procs_def zoom_def table_def rest_of_def case_prod_beta)
  then show "wlp (in_procs n) Q E u" using assms(2,3) by (cases "in_procs n u") (auto simp: wlp_def split: outcome.split)
qed

lemma load_besides:
  "besides k (snd (load_op A E k dir n e)) = besides k e"
  "besides k (snd (load_hy L k path' n b ub pref e)) = besides k e"
proof -
  have "besides k (e\<lparr>flags := (flags e)(k := fl)\<rparr>) = besides k e" for fl by (auto simp: besides_def)
  then show "besides k (snd (load_op A E k dir n e)) = besides k e"
    "besides k (snd (load_hy L k path' n b ub pref e)) = besides k e"
    by (simp_all add: load_op_def load_hy_def mthen_def mbind_def mmodify_def zoom_def split: prod.split)
qed

definition loaded_as :: "(('m, 'c, 'w, 'v) engines, 'o, 'j) app \<Rightarrow> int \<Rightarrow> (('m, 'c, 'w, 'v) engines, 'o, 'j) app \<Rightarrow> bool" where
  "loaded_as s h t \<longleftrightarrow> (h = 0 \<and> unmoved s t)
    \<or> (h = int (made s) + 1 \<and> (\<exists>ob. engine_number ob = made s \<and> table t = ((live s)(h \<mapsto> ob), Suc (made s))
          \<and> rest_of (made s) t = rest_of (made s) s))"

lemma wlp_register:
  assumes "unmoved s u" "\<And>k. engine_number (ob k) = k" "\<And>h t. loaded_as s h t \<Longrightarrow> Q h t"
  shows "wlp (register ob) Q E u"
proof -
  let ?h = "int (made u) + 1"
  let ?t = "u\<lparr>live := (live u)(?h \<mapsto> ob (made u)), made := Suc (made u)\<rparr>"
  have "loaded_as s ?h ?t" using assms(1,2)
    by (auto simp: loaded_as_def unmoved_def table_def rest_of_def)
  then show ?thesis using assms(3) by (simp add: register_def wlp_def)
qed

lemma wlp_fail_any: "(\<And>w. Q () w) \<Longrightarrow> wlp (jni_fail J e) Q E v"
  by (cases "find_class J ''java/lang/IllegalStateException'' (heap v)")
    (simp add: jni_fail_def FindClass_def wlp_def jni_defs)

lemma wlp_load:
  "wlp (jni_load L A E J path' cpuThreads contextBatch contextUbatch opus' preferOpenCL' cacheDir) (loaded_as s) (\<lambda>e t. False) s"
proof -
  let ?H = "\<lambda>e t. wlp (in_vm (jni_fail J e)) (\<lambda>x. loaded_as s 0) (\<lambda>e t. False) t"
  have start: "unmoved s s" by (simp add: unmoved_def)
  have handler: "?H e t" if "unmoved s t" for e t
    unfolding wlp_in_vm by (rule wlp_fail_any) (use that in \<open>simp add: loaded_as_def unmoved_def table_def rest_of_def\<close>)
  have opus: "wlp (mbind (in_vm (jni_utf8 J path')) (\<lambda>dir. mbind (mget made) (\<lambda>k.
      mbind (in_procs (load_op A E k dir cpuThreads)) (\<lambda>m. register (\<lambda>k. OpusObject k m))))) (loaded_as s) ?H s"
    unfolding wlp_mbind wlp_mget
  proof (rule unmoved_steps [OF start])
    fix dir t assume t: "unmoved s t"
    then have [simp]: "made t = made s" by (simp add: unmoved_def table_def)
    show "wlp (in_procs (load_op A E (made t) dir cpuThreads))
        (\<lambda>m t. wlp (register (\<lambda>k. OpusObject k m)) (loaded_as s) ?H t) ?H t"
      by (rule unmoved_steps(2) [OF t]) (auto simp: load_besides intro: wlp_register handler)
  qed (rule handler)
  have scope: "wlp (if cacheDir \<noteq> 0 then in_vm (jni_utf8 J cacheDir) else mret []) Q ?H u"
    if "unmoved s u" "\<And>x t. unmoved s t \<Longrightarrow> Q x t" for Q u
  proof (cases "cacheDir = 0")
    case False
    then show ?thesis using unmoved_steps(1) [OF that, where E = ?H and m = "jni_utf8 J cacheDir"] handler by simp
  qed (simp add: wlp_mret that)
  have hymt: "wlp (mbind (in_vm (jni_utf8 J path')) (\<lambda>p.
      mthen (if cacheDir \<noteq> 0 then in_vm (jni_utf8 J cacheDir) else mret [])
     (mbind (mget made) (\<lambda>k.
      mthen (in_procs (load_hy L k p cpuThreads contextBatch contextUbatch preferOpenCL')) (register HyObject)))))
        (loaded_as s) ?H s"
    unfolding wlp_mbind wlp_mthen wlp_mget
  proof (rule unmoved_steps [OF start])
    fix p u assume u: "unmoved s u"
    show "wlp (if cacheDir \<noteq> 0 then in_vm (jni_utf8 J cacheDir) else mret [])
        (\<lambda>x t. wlp (in_procs (load_hy L (made t) p cpuThreads contextBatch contextUbatch preferOpenCL'))
           (\<lambda>x t. wlp (register HyObject) (loaded_as s) ?H t) ?H t) ?H u"
    proof (rule scope [OF u])
      fix x t assume t: "unmoved s t"
      then have [simp]: "made t = made s" by (simp add: unmoved_def table_def)
      show "wlp (in_procs (load_hy L (made t) p cpuThreads contextBatch contextUbatch preferOpenCL'))
           (\<lambda>x t. wlp (register HyObject) (loaded_as s) ?H t) ?H t"
        by (rule unmoved_steps(2) [OF t]) (auto simp: load_besides intro: wlp_register handler)
    qed
  qed (rule handler)
  show ?thesis using opus hymt by (simp add: jni_load_def guarded_entry_def wlp_mcatch wlp_mthen wlp_mret)
qed

lemma free_outcome:
  assumes "jni_free A h s = (Ok (), t)"
  shows "(h = 0 \<and> t = s) \<or> (\<exists>ob. h \<noteq> 0 \<and> live s h = Some ob \<and> table t = ((live s)(h := None), made s))"
  using assms by (auto simp: jni_free_def mret_def mbind_def mthen_def deref_def in_procs_def zoom_def mmodify_def table_def
     split: option.splits object.splits prod.splits outcome.splits if_splits)

section \<open>The table follows the history\<close>

definition handle_table :: "handle_event list \<Rightarrow> (int \<Rightarrow> 'o object option) \<times> nat \<Rightarrow> bool" where
  "handle_table evs T \<longleftrightarrow> dom (fst T) = open_handles evs
     \<and> handles_out evs = map (\<lambda>k. int k + 1) [0..<snd T]
     \<and> distinct (handles_back evs) \<and> set (handles_back evs) \<subseteq> set (handles_out evs)
     \<and> (\<forall>h ob. fst T h = Some ob \<longrightarrow> h = int (engine_number ob) + 1)"

lemma handle_table_load:
  assumes "handle_table evs (T, n)" "engine_number ob = n"
  shows "handle_table (evs @ [Loaded (int n + 1)]) (T(int n + 1 \<mapsto> ob), Suc n)"
proof -
  from assms have out: "handles_out evs = map (\<lambda>k. int k + 1) [0..<n]" and dom: "dom T = open_handles evs"
    and taken: "distinct (handles_back evs)" "set (handles_back evs) \<subseteq> set (handles_out evs)"
    and numbers: "\<And>h ob. T h = Some ob \<Longrightarrow> h = int (engine_number ob) + 1"
    by (auto simp: handle_table_def)
  have "int n + 1 \<notin> set (handles_out evs)" by (auto simp: out)
  then have "open_handles (evs @ [Loaded (int n + 1)]) = insert (int n + 1) (open_handles evs)"
    using taken(2) by (auto simp: open_handles_def)
  with out dom taken numbers assms(2) show ?thesis by (auto simp: handle_table_def)
qed

lemma handle_table_free:
  "handle_table evs (T, n) \<Longrightarrow> h \<in> dom T \<Longrightarrow> handle_table (evs @ [Freed h]) (T(h := None), n)"
  by (auto simp: handle_table_def open_handles_def)

lemma history_table: "jni_history L A E J evs s \<Longrightarrow> handle_table evs (table s)"
proof (induction rule: jni_history.induct)
  case (begun s)
  then show ?case by (simp add: handle_table_def table_def open_handles_def)
next
  case (java evs s v)
  then show ?case by (simp add: table_def)
next
  case (loading evs s path' cpuThreads contextBatch contextUbatch opus' preferOpenCL' cacheDir h t)
  from wlp_load [of L A E J path' cpuThreads contextBatch contextUbatch opus' preferOpenCL' cacheDir s] loading(2,3) show ?case
    using handle_table_load by (auto simp: table_def wlp_def loaded_as_def unmoved_def)
next
  case (freeing evs s h t)
  from free_outcome [OF freeing(2)] freeing(3) show ?case
    using handle_table_free [OF _ domI] by (auto simp: table_def)
qed (drule steadyD [OF steady_table(1)] steadyD [OF steady_table(2)] steadyD [OF steady_table(3)]
    steadyD [OF steady_table(4)] steadyD [OF steady_table(5)], simp)+

section \<open>Isolation\<close>

text \<open>A call that concerns handle \<open>h\<close>, whatever its outcome; a load concerns the handle it returns.\<close>

inductive jni_call :: "('m, 'd, 'c, 's, 'w) llama \<Rightarrow> 'v api \<Rightarrow> ('k, 'p) opus_env \<Rightarrow> 'j jni \<Rightarrow> int
    \<Rightarrow> (('m, 'c, 'w, 'v) engines, ('k, 'p) opus, 'j) app \<Rightarrow> (('m, 'c, 'w, 'v) engines, ('k, 'p) opus, 'j) app \<Rightarrow> bool"
  for L A E J h s where
  "jni_call L A E J h s t"
    if "jni_load L A E J path' cpuThreads contextBatch contextUbatch opus' preferOpenCL' cacheDir s = (Ok h, t)"
| "jni_call L A E J h s t"
    if "live s h = Some ob" "jni_run L A E J h arr sessionId segmentId revision' cacheScope callback s = (x, t)"
| "jni_call L A E J h s t" if "live s h = Some ob" "jni_abort L A E h s = (y, t)"
| "jni_call L A E J h s t" if "live s h = Some ob" "jni_resetCancellation L A E h s = (y, t)"
| "jni_call L A E J h s t" if "live s h = Some ob" "jni_free A h s = (y, t)"

lemma live_numbers:
  assumes "jni_history L A E J evs s" "live s h = Some ob"
  shows "h = int (engine_number ob) + 1" "engine_number ob < made s"
proof -
  have "h \<in> set (handles_out evs)" and number: "h = int (engine_number ob) + 1"
    using history_table [OF assms(1)] assms(2) by (auto simp: handle_table_def table_def open_handles_def)
  then show "h = int (engine_number ob) + 1" "engine_number ob < made s"
    using history_table [OF assms(1)] by (auto simp: handle_table_def table_def)
qed

lemma free_keeps_live: "h \<noteq> h' \<Longrightarrow> live (snd (jni_free A h s)) h' = live s h'"
  by (simp add: jni_free_def mret_def mbind_def mthen_def deref_def in_procs_def zoom_def mmodify_def
     split: option.split object.split prod.split outcome.split)

lemma call_isolates:
  assumes "jni_history L A E J evs s" "jni_call L A E J h s t" "live s h' = Some ob'" "h \<noteq> h'"
  shows "live t h' = Some ob' \<and> hys (procs t) (engine_number ob') = hys (procs s) (engine_number ob')
     \<and> flags (procs t) (engine_number ob') = flags (procs s) (engine_number ob')"
proof -
  note numbers = live_numbers [OF assms(1,3)]
  have other: ?thesis if "rest_of k t = rest_of k s" "k \<noteq> engine_number ob'" "live t h' = live s h'" for k
    using besidesD [OF that(1) [unfolded rest_of_def], of "engine_number ob'"] that(2,3) assms(3) by auto
  have through: ?thesis
    if "live s h = Some ob" "rest_of (engine_number ob) t = rest_of (engine_number ob) s" "live t h' = live s h'" for ob
    using other [OF that(2) _ that(3)] live_numbers(1) [OF assms(1) that(1)] numbers(1) assms(4) by auto
  have same: "live t = live s" if "table t = table s" using that by (simp add: table_def)
  from assms(2) show ?thesis
  proof cases
    case (1 path' cpuThreads contextBatch contextUbatch opus' preferOpenCL' cacheDir)
    with wlp_load [of L A E J path' cpuThreads contextBatch contextUbatch opus' preferOpenCL' cacheDir s]
    have "loaded_as s h t" by (simp add: wlp_def)
    then show ?thesis using other [of "made s"] numbers assms(4) by (auto simp: loaded_as_def unmoved_def table_def)
  next
    case (2 ob arr sessionId segmentId revision' cacheScope callback x)
    then show ?thesis using through [OF 2(1)] same [OF steadyD [OF steady_table(1) 2(2)]]
      calls_keep_rest(1) [OF 2(1), of L A E J arr sessionId segmentId revision' cacheScope callback] by simp
  next
    case (3 ob y)
    then show ?thesis using through [OF 3(1)] same [OF steadyD [OF steady_table(2) 3(2)]]
      calls_keep_rest(2) [OF 3(1), of L A E] by simp
  next
    case (4 ob y)
    then show ?thesis using through [OF 4(1)] same [OF steadyD [OF steady_table(3) 4(2)]]
      calls_keep_rest(3) [OF 4(1), of L A E] by simp
  next
    case (5 ob y)
    then show ?thesis using through [OF 5(1)] free_keeps_live [OF assms(4), of A s]
      calls_keep_rest(4) [OF 5(1), of A] by simp
  qed
qed

end
