(* ===== verification/Tiny_Drivers.thy ===== *)
theory Tiny_Drivers imports HyMt_History Jni_Handles Tiny_Llama Tiny_Opus begin

text \<open>
  Concrete runs of the small llama.cpp for the properties of the drivers: a loaded engine, a translation whose
  callback throws, and a Java machine whose progress method throws.
\<close>

section \<open>Evaluation\<close>

lemmas generate_numeral = generate.simps(2) [where n = "pred_numeral k" for k, folded numeral_eq_Suc]

lemma tiny_prepare_words: "prepare (tiny g l) m ''a b'' = Inr (''t'', [97, 32, 98])"
  by (simp add: prepare_def tiny_def Let_def c_str_def filled_def max_output_def context_size_def)

lemma tiny_more_fields:
  "clock (tiny g l) = (\<lambda>n. int n * 50000000)"
  "sampler_chain (tiny g l) = (\<lambda>st. 0)" "sample (tiny g l) = (\<lambda>s c. tiny_next s (tiny_kv c))"
  "is_eog (tiny g l) = (\<lambda>m t. t = 0)" "token_to_piece (tiny g l) = (\<lambda>m t n. (1, [char_of (nat t)]))"
  "synchronize (tiny g l) = (\<lambda>c. c)" "vocab_n_tokens (tiny g l) = (\<lambda>m. 256)" "model_n_layer (tiny g l) = (\<lambda>m. 4)"
  "new_context (tiny g l) = (\<lambda>m ps w. (Some \<lparr>tiny_kv = [], tiny_fresh = False, tiny_gpu = (m = 1)\<rparr>, w))"
  by (simp_all add: tiny_def)

lemma tiny_boundary:
  "lastCompleteWordBoundary ''a'' (completeUtf8Prefix ''a'') = 0"
  "lastCompleteWordBoundary ''a '' (completeUtf8Prefix ''a '') = 2"
  "trimProgress ''a '' = ''a''"
  by code_simp+

lemmas tiny_hymt_start = eval_monad fallbackToCpu_def initialize_def load_step_def context_step_def place_layers_def
  free_memory_def mguard_def mget_def mret_def mmodify_def mthrow_def clear_cache_def Let_def unconstructed_def tiny_fields
  tiny_more_fields

lemmas tiny_hymt_run = tiny_hymt_start translateWithProgress_def translate_attempts_def attempt_def run_def recover_def clear_memory_def
  checkCancelled_def now_def load_cancelled_def get_model_def with_ctx_def upd_stats_def invoke_def
  reuse_prefix_def identity_matches_def Tiny_Llama.tiny_engine_def tiny_prepare_words tiny_boundary load_flag_def tiny_next_def
  piece_of_def filled_def publishProgress_def max_output_def prefill.simps [where offset = 0] prefill.simps [where offset = 8]
  generate_numeral char_of_def bit_0 zero_stats_def to_ms_def to_us_def

text \<open>An engine loads, on the CPU.\<close>

lemma tiny_loaded:
  obtains s where "load_hymt (tiny True True) ''m'' 4 8 8 False () = (Ok (), s)" "\<not> opencl s" "model s = Some 0"
proof -
  have "\<exists>s. load_hymt (tiny True True) ''m'' 4 8 8 False () = (Ok (), s) \<and> \<not> opencl s \<and> model s = Some 0"
    by (simp add: tiny_hymt_start load_hymt_def construct_def count_fallback_def try_opencl_def cong: lazy_mbind lazy_mthen lazy_mcatch)
  with that show thesis by blast
qed

text \<open>
  A callback that throws on its first two events, on the device: the first exception is taken for a failure of
  the device, the sentence is translated again on the CPU, and its first event throws once more.
\<close>

lemma tiny_throwing_callback:
  assumes f: "\<And>ev. f [ev] = Some e" "\<And>ev ev'. f [ev, ev'] = Some e'"
  shows "\<exists>t ev ev'. translateWithProgress (tiny True True) ''a b'' req (Some f) (Tiny_Llama.tiny_engine True) = (Throw e', t)
     \<and> published t = [ev, ev'] \<and> \<not> opencl t"
  by (simp add: tiny_hymt_run f cong: lazy_mbind lazy_mthen lazy_mcatch)

section \<open>Java machines\<close>

text \<open>A machine whose only array is its heap; \<open>onProgress\<close> throws \<open>thrown\<close>.\<close>

definition tiny_jni :: "string option \<Rightarrow> string jni" where
  "tiny_jni thrown = \<lparr>contents_of = (\<lambda>h a. h), new_bytes = (\<lambda>n h. (1, h)), write_bytes = (\<lambda>a txt h. txt),
     find_class = (\<lambda>name h. (2, h)), class_ref = (\<lambda>a h. (3, h)), has_method = (\<lambda>cls name sig h. True),
     on_progress = (\<lambda>callback args a h. (thrown, h)), java_text = (\<lambda>txt h. (4, h)), new_longs = (\<lambda>n h. (5, h)),
     write_longs = (\<lambda>a ns h. h)\<rparr>"

lemma tiny_jni_fields:
  "contents_of (tiny_jni x) = (\<lambda>h a. h)" "new_bytes (tiny_jni x) = (\<lambda>n h. (1, h))" "write_bytes (tiny_jni x) = (\<lambda>a txt h. txt)"
  "find_class (tiny_jni x) = (\<lambda>name h. (2, h))" "class_ref (tiny_jni x) = (\<lambda>a h. (3, h))"
  "has_method (tiny_jni x) = (\<lambda>cls name sig h. True)" "on_progress (tiny_jni x) = (\<lambda>callback args a h. (x, h))"
  by (simp_all add: tiny_jni_def)

lemma tiny_jni_laws: "roomy (tiny_jni x)" "faithful_arrays (tiny_jni x)"
  by (simp_all add: roomy_def faithful_arrays_def tiny_jni_fields)

definition idle_app :: "'e \<Rightarrow> string \<Rightarrow> ('e, 'o, string) app" where
  "idle_app e h = \<lparr>vm = \<lparr>pending = None, undefined_calls = 0, local_refs = [], heap = h\<rparr>, procs = e,
     live = Map.empty, made = 0\<rparr>"

lemmas jni_eval = eval_monad NewByteArray_def SetByteArrayRegion_def DeleteLocalRef_def CallVoidMethod_def allocated_def
  strict_call_def in_heap_def ExceptionCheck_def raise_java_def mmodify_def mget_def mret_def mthrow_def mguard_def tiny_jni_fields

lemma tiny_throwing_run:
  "\<exists>t. jni_run_with (call_engine (hymt_engine (tiny True True)) (tiny_jni (Some ''closed'')) 7) (tiny_jni (Some ''closed''))
       6 1 2 3 0 7 (idle_app (Tiny_Llama.tiny_engine True) ''a b'') = (Ok 0, t)
     \<and> undefined_calls (vm t) = 2 \<and> \<not> opencl (procs t)"
proof -
  let ?J = "tiny_jni (Some ''closed'')"
  let ?v = "\<lparr>pending = None, undefined_calls = 0, local_refs = [3], heap = ''a b''\<rparr>"
  let ?f = "jni_callback ?J 7 ?v"
  let ?e = "RuntimeError ''Native progress callback failed''"
  have first: "jni_event ?J 7 ev ?v
      = (Throw ?e, \<lparr>pending = Some ''closed'', undefined_calls = 0, local_refs = [3], heap = p_text ev\<rparr>)" for ev
    by (simp add: jni_event_def jni_eval cong: lazy_mbind lazy_mthen)
  have second: "jni_event ?J 7 ev' (after_events ?J 7 ?v [ev])
      = (Throw ?e, \<lparr>pending = Some ''closed'', undefined_calls = 2, local_refs = [3], heap = p_text ev'\<rparr>)" for ev ev'
    by (simp add: after_events_def first, simp add: jni_event_def jni_eval cong: lazy_mbind lazy_mthen)
  have f: "?f [ev] = Some ?e" "?f [ev, ev'] = Some ?e" for ev ev'
    by (simp add: jni_callback_def after_events_def first, simp add: jni_callback_def second)
  have seen: "after_events ?J 7 ?v [ev, ev']
      = \<lparr>pending = Some ''closed'', undefined_calls = 2, local_refs = [3], heap = p_text ev'\<rparr>" for ev ev'
    using second [of ev' ev] by (simp add: after_events_def)
  obtain t ev ev' where t: "translateWithProgress (tiny True True) ''a b''
      \<lparr>session_id = 1, segment_id = 2, revision = 3, cache_scope = []\<rparr> (Some ?f) (Tiny_Llama.tiny_engine True) = (Throw ?e, t)"
    "published t = [ev, ev']" "\<not> opencl t"
    using tiny_throwing_callback [of ?f, OF f] by blast
  show ?thesis
    by (simp add: jni_run_with_def guarded_entry_def in_vm_def zoom_def find_callback_def jni_utf8_def jni_translate_def
        call_engine_def hymt_engine_def idle_app_def jni_eval jni_fail_def filled_def t seen cong: lazy_mbind lazy_mthen lazy_mcatch)
qed

text \<open>A load of the small model from Java, and the free of its handle.\<close>

lemma tiny_jni_load:
  fixes a :: "((nat, tiny_ctx, unit, 'v) engines, ('k, 'p) opus, string) app"
  assumes "pending (vm a) = None" "heap (vm a) = ''m''"
  shows "\<exists>t. jni_load (tiny True True) A E (tiny_jni x) 6 4 8 8 False False 0 a = (Ok (int (made a) + 1), t)
     \<and> vm t = vm a \<and> made t = Suc (made a) \<and> live t = (live a)(int (made a) + 1 \<mapsto> HyObject (made a))"
proof -
  obtain s where load: "load_hymt (tiny True True) ''m'' 4 8 8 False () = (Ok (), s)" by (rule tiny_loaded)
  have path': "in_vm (jni_utf8 (tiny_jni x) 6) a = (Ok ''m'', a)"
    using assms by (simp add: in_vm_def zoom_def jni_utf8_def jni_eval filled_def)
  show ?thesis
    using load by (simp add: jni_load_def guarded_entry_def mcatch_def mbind_def mthen_def path' mret_def mget_def
        in_procs_def zoom_def load_hy_def look_hy_def register_def)
qed

lemma tiny_two_engines:
  fixes e :: "(nat, tiny_ctx, unit, nat \<times> nat) engines"
  obtains s :: "((nat, tiny_ctx, unit, nat \<times> nat) engines, (unit, unit) opus, string) app"
  where "jni_history (tiny True True) A E (tiny_jni x) [Loaded 1, Loaded 2] s"
    "live s 1 = Some (HyObject 0)" "live s 2 = Some (HyObject 1)"
proof -
  let ?load = "jni_load (tiny True True) A E (tiny_jni x) 6 4 8 8 False False 0"
  let ?a = "(idle_app e ''m'') :: ((nat, tiny_ctx, unit, nat \<times> nat) engines, (unit, unit) opus, string) app"
  let ?history = "jni_history (tiny True True) A E (tiny_jni x)"
  obtain s where s: "?load ?a = (Ok 1, s)" "vm s = vm ?a" "made s = 1" "live s 1 = Some (HyObject 0)"
    using tiny_jni_load [of ?a A E x] by (auto simp: idle_app_def)
  obtain t where t: "?load s = (Ok 2, t)" "live t 1 = Some (HyObject 0)" "live t 2 = Some (HyObject 1)"
    using tiny_jni_load [of s A E x] s by (auto simp: idle_app_def)
  have "?history [] ?a" by (rule jni_history.begun) (simp_all add: idle_app_def)
  from jni_history.loading [OF jni_history.loading [OF this s(1)] t(1)] have "?history [Loaded 1, Loaded 2] t" by simp
  with t(2,3) that show thesis by blast
qed

end
