(* ===== verification/Opus_Lifetime.thy ===== *)
theory Opus_Lifetime imports Engines Opus_Account begin

text \<open>
  The whole life of an OPUS engine: constructed, used for any number of translations whatever their
  outcome, and destroyed. What it took from the runtime is given back.
\<close>

section \<open>Use and destruction\<close>

text \<open>Translations one after another; the caller survives exceptions, undefined behaviour ends the story.\<close>

fun opus_calls :: "'w api \<Rightarrow> ('j, 'p) opus_env \<Rightarrow> ('j, 'p) opus \<Rightarrow> string list \<Rightarrow> 'w opus_state \<Rightarrow> 'w opus_state option" where
  "opus_calls A E m [] s = Some s"
| "opus_calls A E m (prompt # prompts) s =
     (case opus_translate A E m prompt s of
        (Crash c, t) \<Rightarrow> None
      | (_, t) \<Rightarrow> opus_calls A E m prompts t)"

lemma calls_balance:
  assumes "opus_calls A E m prompts s = Some t" "\<And>v. vecs s v = []"
  shows "account R (ort t) p = account R (ort s) p"
  using assms
proof (induction A E m prompts s rule: opus_calls.induct)
  case (2 A E m prompt prompts s)
  obtain x u where u: "opus_translate A E m prompt s = (x, u)" by fastforce
  with 2(3) have x: "x \<noteq> Crash c" for c by auto
  have rest: "opus_calls A E m prompts u = Some t" using 2(3) u x by (cases x) auto
  have "account R (ort t) p = account R (ort u) p"
    using rest 2(1,2) [OF u [symmetric]] translate_frames [OF u x 2(4)] x by (cases x) auto
  then show ?case using translate_balance [OF u x 2(4), of R p] by simp
qed simp

lemma release_balance:
  assumes "in_ort (OrtRelease A (kind_name K) q) s = (Ok (), t)"
  shows "account R (ort t) p + granted K R q p = account R (ort s) p"
proof -
  from assms obtain w where w: "OrtRelease A (kind_name K) q (ort s) = (Ok (), w)" "ort t = w"
    by (auto simp: in_ort_def Let_def split: prod.splits)
  from settles_Ok [OF settles_release_kind w(1), of R p] show ?thesis by (simp add: w(2))
qed

lemma delete_balance:
  assumes "opus_delete A m s = (Ok (), t)"
  shows "account R (ort t) p + granted KMemoryInfo R (memory m) p + granted KSession R (decoder m) p
       + granted KSession R (encoder m) p = account R (ort s) p"
proof -
  from assms obtain u v where "in_ort (OrtRelease A ''MemoryInfo'' (memory m)) s = (Ok (), u)"
    "in_ort (OrtRelease A ''Session'' (decoder m)) u = (Ok (), v)" "in_ort (OrtRelease A ''Session'' (encoder m)) v = (Ok (), t)"
    unfolding opus_delete_def by (auto elim!: mthen_Ok)
  from release_balance [of A KMemoryInfo "memory m" s u R p] release_balance [of A KSession "decoder m" u v R p]
    release_balance [of A KSession "encoder m" v t R p] this
  show ?thesis by simp
qed

section \<open>The life of an engine\<close>

lemma Opus_new_clears: "Opus_new A E dir nt s = Opus_new A E dir nt (s\<lparr>m_encoder := 0, m_decoder := 0\<rparr>)"
  by (simp add: Opus_new_def mthen_def mbind_def mmodify_def)

text \<open>
  Constructed, used, destroyed; the final state. A constructor that throws is the end of it, undefined
  behaviour has no final state.
\<close>

definition opus_life :: "'w api \<Rightarrow> ('j, 'p) opus_env \<Rightarrow> string \<Rightarrow> int \<Rightarrow> string list \<Rightarrow> 'w opus_state \<Rightarrow> 'w opus_state option" where
  "opus_life A E dir nt prompts s =
     (case Opus_new A E dir nt s of
        (Ok m, t) \<Rightarrow> (case opus_calls A E m prompts t of
            None \<Rightarrow> None
          | Some u \<Rightarrow> (case opus_delete A m u of (Ok x, v) \<Rightarrow> Some v | _ \<Rightarrow> None))
      | (Throw e, t) \<Rightarrow> Some t
      | (Crash c, t) \<Rightarrow> None)"

lemma lifetime_balance:
  assumes "opus_life A E dir nt prompts s = Some v" "\<And>v. vecs s v = []" "R \<noteq> Handle KEnv"
  shows "account R (ort v) p = account R (ort s) p"
proof -
  let ?s = "s\<lparr>m_encoder := 0, m_decoder := 0\<rparr>"
  obtain x t where new: "Opus_new A E dir nt ?s = (x, t)" by fastforce
  then have run: "Opus_new A E dir nt s = (x, t)" using Opus_new_clears by metis
  note built = construction_balance [OF _ _ assms(3) new, of _ p]
  show ?thesis
  proof (cases x)
    case (Ok m)
    obtain u where u: "opus_calls A E m prompts t = Some u" "opus_delete A m u = (Ok (), v)"
      using assms(1) run Ok by (auto simp: opus_life_def split: option.splits prod.splits outcome.splits)
    have "vectors_are (vecs s) t 1 = vectors_are (vecs s) ?s 1"
      using keeps_run [OF keeps_vectors_new new] Ok by simp
    then have "vecs t w = []" for w using assms(2) by (simp add: vectors_are_def split: if_splits)
    note calls = calls_balance [OF u(1) this, of R p]
    show ?thesis using built(1) [of m] Ok calls delete_balance [OF u(2), of R p]
      by (simp add: granted_def split: if_splits)
  next
    case (Throw e)
    then show ?thesis using built(2) [of e] run assms(1) by (simp add: opus_life_def)
  qed (use assms(1) run in \<open>simp add: opus_life_def\<close>)
qed

end
