(* ===== verification/Tiny_Loader.thy ===== *)
theory Tiny_Loader imports Tiny_Opus Opus_Lifetime begin

text \<open>
  A small runtime and files from which an OPUS engine with one layer is constructed, so that the properties of
  its whole life have an instance that succeeds.
\<close>

definition loader_env :: "(int, unit) opus_env" where
  "loader_env = \<lparr>read_file = (\<lambda>_. Some []), json_parse = (\<lambda>_. Inr 0),
     json_at = (\<lambda>_ key. Inr (if key = ''vocab_size'' then 3 else if key = ''eos_token_id'' then 2
       else if key = ''pad_token_id'' \<or> key = ''decoder_start_token_id'' then 0 else 1)),
     json_int = Inr, json_size = (\<lambda>v. Inr (nat v)), json_items = (\<lambda>_. [(''hi'', 1)]), json_value = (\<lambda>_ _ d. Inr d),
     sp_load = (\<lambda>_. Some ()), sp_encode = (\<lambda>_ txt. Some [txt]), sp_decode = (\<lambda>_ ps. Some (concat ps)),
     flag_others = (\<lambda>_. []), at_ids = 1, at_mask = 2, at_token = 3, at_cached = 4\<rparr>"

text \<open>The runtime of \<open>Tiny_Opus\<close>, with the names of a decoder of one layer.\<close>

fun loader_ort :: "(nat \<times> nat) api" where
  "loader_ort (Call T n args) w =
     (if n = ''SessionGetInputCount'' then (no_reply\<lparr>r_num := (\<lambda>_. 8)\<rparr>, w)
      else if n = ''SessionGetOutputCount'' then (no_reply\<lparr>r_num := (\<lambda>_. 5)\<rparr>, w)
      else if n = ''SessionGetInputName'' then
        (no_reply\<lparr>r_ptr := (\<lambda>_. 50), r_str := (\<lambda>_. case args ! 1 of Num i \<Rightarrow> Some (input_names_of 1 ! nat i) | _ \<Rightarrow> None)\<rparr>, w)
      else if n = ''SessionGetOutputName'' then
        (no_reply\<lparr>r_ptr := (\<lambda>_. 50), r_str := (\<lambda>_. case args ! 1 of Num i \<Rightarrow> Some (output_names_of 1 ! nat i) | _ \<Rightarrow> None)\<rparr>, w)
      else tiny_reply n w)"

text \<open>Its calls never fail; the log of events is kept closed.\<close>

definition logged :: "table \<Rightarrow> string \<Rightarrow> arg list \<Rightarrow> nat \<times> nat \<Rightarrow> event list \<Rightarrow> event list" where
  "logged T n args w es = es @ [(Call T n args, fst (loader_ort (Call T n args) w))]"

lemma loader_status [simp]: "r_status (fst (loader_ort (Call T n args) w)) = 0"
  by (cases w) (simp add: no_reply_def)

lemma loader_names:
  "n \<notin> {''SessionGetInputCount'', ''SessionGetOutputCount'', ''SessionGetInputName'', ''SessionGetOutputName'', ''Run'',
      ''GetTensorShapeElementCount'', ''<load>''}
    \<Longrightarrow> loader_ort (Call T n args) (f, k) = (no_reply\<lparr>r_ptr := (\<lambda>_. f)\<rparr>, f + 1, k)"
  "n \<in> {''Run'', ''GetTensorShapeElementCount'', ''<load>''} \<Longrightarrow> loader_ort (Call T n args) w = tiny_reply n w"
  "loader_ort (Call T ''SessionGetInputCount'' args) w = (no_reply\<lparr>r_num := (\<lambda>_. 8)\<rparr>, w)"
  "loader_ort (Call T ''SessionGetOutputCount'' args) w = (no_reply\<lparr>r_num := (\<lambda>_. 5)\<rparr>, w)"
  "loader_ort (Call T ''SessionGetInputName'' [a, Num i, b]) w
     = (no_reply\<lparr>r_ptr := (\<lambda>_. 50), r_str := (\<lambda>_. Some (input_names_of 1 ! nat i))\<rparr>, w)"
  "loader_ort (Call T ''SessionGetOutputName'' [a, Num i, b]) w
     = (no_reply\<lparr>r_ptr := (\<lambda>_. 50), r_str := (\<lambda>_. Some (output_names_of 1 ! nat i))\<rparr>, w)"
  by (auto simp: tiny_reply.simps)

lemma no_reply_fields: "r_status no_reply = 0" "r_ptr no_reply = (\<lambda>_. 0)"
  by (simp_all add: no_reply_def)

lemma loader_tables:
  "release_table ''Session'' = OrtApi" "release_table ''SessionOptions'' = OrtApi" "release_table ''MemoryInfo'' = OrtApi"
  "release_table ''Env'' = OrtApi"
  by code_simp+

declare loader_ort.simps [simp del]

lemma loader_call:
  "call_status loader_ort T n args \<lparr>ort_world = w, events = es\<rparr>
     = (Ok (fst (loader_ort (Call T n args) w)),
        \<lparr>ort_world = snd (loader_ort (Call T n args) w), events = logged T n args w es\<rparr>)"
  "call_plain loader_ort T n args \<lparr>ort_world = w, events = es\<rparr>
     = (Ok (fst (loader_ort (Call T n args) w)),
        \<lparr>ort_world = snd (loader_ort (Call T n args) w), events = logged T n args w es\<rparr>)"
proof -
  have [simp]: "(fst (loader_ort (Call T n args) w))\<lparr>r_status := 0\<rparr> = fst (loader_ort (Call T n args) w)" for w
    by (cases w) (simp add: loader_ort.simps no_reply_def tiny_reply.simps)
  show "call_status loader_ort T n args \<lparr>ort_world = w, events = es\<rparr>
     = (Ok (fst (loader_ort (Call T n args) w)),
        \<lparr>ort_world = snd (loader_ort (Call T n args) w), events = logged T n args w es\<rparr>)"
    "call_plain loader_ort T n args \<lparr>ort_world = w, events = es\<rparr>
     = (Ok (fst (loader_ort (Call T n args) w)),
        \<lparr>ort_world = snd (loader_ort (Call T n args) w), events = logged T n args w es\<rparr>)"
    by (simp_all add: call_status_def call_plain_def transact_def logged_def Let_def case_prod_beta)
qed

lemmas loader_load = eval_monad no_reply_fields loader_call mret_def ThrowOnError_def api_call_def checked_def get_ptr_def do_call_def get_size_def get_num_def
  get_allocated_def create_def construct_with_def guarded_def OrtRelease_def plain_def AllocatedFree_def with_buffer_def
  Opus_new_def Opus_body_def read_json_def msum_def at_int_def int_div_def load_sessions_def in_ort_def mmodify_def mget_def mguard_def
  owning_def environment_def Env_new_def set_projection_def Session_new_def MemoryInfo_CreateCpu_def SessionOptions_new_def
  SessionOptions_SetIntraOpNumThreads_def SessionOptions_SetInterOpNumThreads_def SessionOptions_SetGraphOptimizationLevel_def
  assign_encoder_def assign_decoder_def swap_encoder_def swap_decoder_def check_signature_def check_name_def
  Session_GetInputCount_def Session_GetOutputCount_def AllocatorWithDefaultOptions_new_def
  Session_GetInputNameAllocated_def Session_GetOutputNameAllocated_def loader_env_def tiny_state_def

definition loader_opus :: "(int, unit) opus" where
  "loader_opus = \<lparr>encoder = 107, decoder = 109, memory = 100, source = (), target = (), vocab = 0, pieces = [[], ''hi'', []],
     in_names = input_names_of 1, out_names = output_names_of 1, layers = 1, heads = 1, head_dim = 1,
     start_id = 0, eos_id = 2, pad_id = 0, unk_id = 1\<rparr>"

definition loader_state :: "event list \<Rightarrow> (nat \<times> nat) opus_state" where
  "loader_state es = \<lparr>ort = \<lparr>ort_world = (126, 0), events = es\<rparr>, oflag = \<lparr>cancelled = False, loads = 0\<rparr>,
     env_handle = Some 105, m_encoder = 107, m_decoder = 109, vecs = (\<lambda>_. [])\<rparr>"

lemma loader_loads: "\<exists>es. Opus_new loader_ort loader_env ''models'' 4 tiny_state = (Ok loader_opus, loader_state es)"
  by (simp add: loader_load loader_names loader_tables c_str_def upt_rec input_names_of_def output_names_of_def
      cache_suffixes_def layer_suffixes_def numeral_3_eq_3 loader_opus_def loader_state_def cong: lazy_mbind lazy_mthen lazy_mcatch)

text \<open>The same from the state before the first engine, where no member holds a session.\<close>

definition fresh_state :: "(nat \<times> nat) opus_state" where
  "fresh_state = tiny_state\<lparr>m_encoder := 0, m_decoder := 0\<rparr>"

lemma loader_loads_fresh: "\<exists>t. Opus_new loader_ort loader_env ''models'' 4 fresh_state = (Ok loader_opus, t)"
  by (simp add: fresh_state_def loader_load loader_names loader_tables c_str_def upt_rec input_names_of_def output_names_of_def
      cache_suffixes_def layer_suffixes_def numeral_3_eq_3 loader_opus_def cong: lazy_mbind lazy_mthen lazy_mcatch)

lemma loader_translates: "fst (opus_translate loader_ort loader_env loader_opus ''hey'' (loader_state es)) = Ok ''hi''"
  by (simp add: loader_load tiny_engine loader_names no_reply_fields Session_Run_def session_run_def
     RunOptions_new_def Value_CreateTensor_def Value_CreateTensor_2_def
  Value_CreateTensor_4_def Value_CreateTensor_5_def Value_GetTensorMutableData_def
  Value_GetTensorTypeAndShapeInfo_def TensorTypeAndShapeInfo_GetElementCount_def tiny_tables loader_state_def loader_opus_def loader_env_def Let_def tiny_steps
      tiny_slots tiny_names tiny_pick filled_def
   del: upt_rec_numeral cong: lazy_mbind lazy_mthen lazy_mcatch)

lemma loader_deletes: "\<exists>t. opus_delete loader_ort m s = (Ok (), t)"
  by (cases s, cases "ort s") (simp add: opus_delete_def loader_load loader_tables)

lemma loader_lives: "\<exists>v. opus_life loader_ort loader_env ''models'' 4 [''hey''] tiny_state = Some v"
proof -
  obtain es where new: "Opus_new loader_ort loader_env ''models'' 4 tiny_state = (Ok loader_opus, loader_state es)"
    using loader_loads by blast
  obtain u where "opus_translate loader_ort loader_env loader_opus ''hey'' (loader_state es) = (Ok ''hi'', u)"
    using loader_translates [of es] by (metis fst_conv surj_pair)
  with new loader_deletes [of loader_opus u] show ?thesis by (auto simp: opus_life_def)
qed

end
