(* ===== verification/Ort_Interface.thy ===== *)
theory Ort_Interface imports Ort_Base begin

text \<open>
  The function tables of the C API as the headers declare them (\<open>OrtApi\<close>, \<open>OrtModelEditorApi\<close>,
  \<open>OrtCompileApi\<close> and \<open>OrtInteropApi\<close> of \<open>onnxruntime_c_api.h\<close>, \<open>OrtEpApi\<close> of \<open>onnxruntime_ep_c_api.h\<close>):
  for every function its result type and its parameters with direction and C type, in the order of the
  tables. What the functions do is not in the repository; the declarations say how they may be called.
\<close>

section \<open>Declarations\<close>

text \<open>
  A parameter is read, read or null, read and written, written, or freed, as its annotation says (one
  without annotation is read). \<open>ORT_API2_STATUS\<close> declares a function that returns \<open>OrtStatus*\<close>,
  \<open>ORT_CLASS_RELEASE(X)\<close> the function \<open>ReleaseX\<close> that frees an \<open>OrtX*\<close>.
\<close>

datatype param = In string | InOpt string | InOut string | Out string | Frees string

type_synonym decl = "string \<times> string \<times> param list"

section \<open>The tables\<close>

definition OrtApi_1 :: "decl list" where
  "OrtApi_1 =
    [(''CreateStatus'', ''OrtStatus*'', [In ''OrtErrorCode'', In ''const char*'']),
     (''GetErrorCode'', ''OrtErrorCode'', [In ''const OrtStatus*'']),
     (''GetErrorMessage'', ''const char*'', [In ''const OrtStatus*'']),
     (''CreateEnv'', ''OrtStatus*'', [In ''OrtLoggingLevel'', In ''const char*'', Out ''OrtEnv**'']),
     (''CreateEnvWithCustomLogger'', ''OrtStatus*'', [In ''OrtLoggingFunction'', InOpt ''void*'', In ''OrtLoggingLevel'', In ''const char*'', Out ''OrtEnv**'']),
     (''EnableTelemetryEvents'', ''OrtStatus*'', [In ''const OrtEnv*'']),
     (''DisableTelemetryEvents'', ''OrtStatus*'', [In ''const OrtEnv*'']),
     (''CreateSession'', ''OrtStatus*'', [In ''const OrtEnv*'', In ''const ORTCHAR_T*'', In ''const OrtSessionOptions*'', Out ''OrtSession**'']),
     (''CreateSessionFromArray'', ''OrtStatus*'', [In ''const OrtEnv*'', In ''const void*'', In ''size_t'', In ''const OrtSessionOptions*'', Out ''OrtSession**'']),
     (''Run'', ''OrtStatus*'', [InOut ''OrtSession*'', InOpt ''const OrtRunOptions*'', In ''const char* const*'', In ''const OrtValue* const*'', In ''size_t'', In ''const char* const*'', In ''size_t'', InOut ''OrtValue**''])]"

definition OrtApi_2 :: "decl list" where
  "OrtApi_2 =
    [(''CreateSessionOptions'', ''OrtStatus*'', [Out ''OrtSessionOptions**'']),
     (''SetOptimizedModelFilePath'', ''OrtStatus*'', [InOut ''OrtSessionOptions*'', In ''const ORTCHAR_T*'']),
     (''CloneSessionOptions'', ''OrtStatus*'', [In ''const OrtSessionOptions*'', Out ''OrtSessionOptions**'']),
     (''SetSessionExecutionMode'', ''OrtStatus*'', [InOut ''OrtSessionOptions*'', In ''ExecutionMode'']),
     (''EnableProfiling'', ''OrtStatus*'', [InOut ''OrtSessionOptions*'', In ''const ORTCHAR_T*'']),
     (''DisableProfiling'', ''OrtStatus*'', [InOut ''OrtSessionOptions*'']),
     (''EnableMemPattern'', ''OrtStatus*'', [InOut ''OrtSessionOptions*'']),
     (''DisableMemPattern'', ''OrtStatus*'', [InOut ''OrtSessionOptions*'']),
     (''EnableCpuMemArena'', ''OrtStatus*'', [InOut ''OrtSessionOptions*'']),
     (''DisableCpuMemArena'', ''OrtStatus*'', [InOut ''OrtSessionOptions*'']),
     (''SetSessionLogId'', ''OrtStatus*'', [InOut ''OrtSessionOptions*'', In ''const char*'']),
     (''SetSessionLogVerbosityLevel'', ''OrtStatus*'', [InOut ''OrtSessionOptions*'', In ''int'']),
     (''SetSessionLogSeverityLevel'', ''OrtStatus*'', [InOut ''OrtSessionOptions*'', In ''int''])]"

definition OrtApi_3 :: "decl list" where
  "OrtApi_3 =
    [(''SetSessionGraphOptimizationLevel'', ''OrtStatus*'', [InOut ''OrtSessionOptions*'', In ''GraphOptimizationLevel'']),
     (''SetIntraOpNumThreads'', ''OrtStatus*'', [InOut ''OrtSessionOptions*'', In ''int'']),
     (''SetInterOpNumThreads'', ''OrtStatus*'', [InOut ''OrtSessionOptions*'', In ''int'']),
     (''CreateCustomOpDomain'', ''OrtStatus*'', [In ''const char*'', Out ''OrtCustomOpDomain**'']),
     (''CustomOpDomain_Add'', ''OrtStatus*'', [InOut ''OrtCustomOpDomain*'', In ''const OrtCustomOp*'']),
     (''AddCustomOpDomain'', ''OrtStatus*'', [InOut ''OrtSessionOptions*'', In ''OrtCustomOpDomain*'']),
     (''RegisterCustomOpsLibrary'', ''OrtStatus*'', [InOut ''OrtSessionOptions*'', In ''const char*'', Out ''void**'']),
     (''SessionGetInputCount'', ''OrtStatus*'', [In ''const OrtSession*'', Out ''size_t*'']),
     (''SessionGetOutputCount'', ''OrtStatus*'', [In ''const OrtSession*'', Out ''size_t*'']),
     (''SessionGetOverridableInitializerCount'', ''OrtStatus*'', [In ''const OrtSession*'', Out ''size_t*'']),
     (''SessionGetInputTypeInfo'', ''OrtStatus*'', [In ''const OrtSession*'', In ''size_t'', Out ''OrtTypeInfo**''])]"

definition OrtApi_4 :: "decl list" where
  "OrtApi_4 =
    [(''SessionGetOutputTypeInfo'', ''OrtStatus*'', [In ''const OrtSession*'', In ''size_t'', Out ''OrtTypeInfo**'']),
     (''SessionGetOverridableInitializerTypeInfo'', ''OrtStatus*'', [In ''const OrtSession*'', In ''size_t'', Out ''OrtTypeInfo**'']),
     (''SessionGetInputName'', ''OrtStatus*'', [In ''const OrtSession*'', In ''size_t'', InOut ''OrtAllocator*'', Out ''char**'']),
     (''SessionGetOutputName'', ''OrtStatus*'', [In ''const OrtSession*'', In ''size_t'', InOut ''OrtAllocator*'', Out ''char**'']),
     (''SessionGetOverridableInitializerName'', ''OrtStatus*'', [In ''const OrtSession*'', In ''size_t'', InOut ''OrtAllocator*'', Out ''char**'']),
     (''CreateRunOptions'', ''OrtStatus*'', [Out ''OrtRunOptions**'']),
     (''RunOptionsSetRunLogVerbosityLevel'', ''OrtStatus*'', [InOut ''OrtRunOptions*'', In ''int'']),
     (''RunOptionsSetRunLogSeverityLevel'', ''OrtStatus*'', [InOut ''OrtRunOptions*'', In ''int'']),
     (''RunOptionsSetRunTag'', ''OrtStatus*'', [InOut ''OrtRunOptions*'', In ''const char*'']),
     (''RunOptionsGetRunLogVerbosityLevel'', ''OrtStatus*'', [In ''const OrtRunOptions*'', Out ''int*'']),
     (''RunOptionsGetRunLogSeverityLevel'', ''OrtStatus*'', [In ''const OrtRunOptions*'', Out ''int*'']),
     (''RunOptionsGetRunTag'', ''OrtStatus*'', [In ''const OrtRunOptions*'', Out ''const char**'']),
     (''RunOptionsSetTerminate'', ''OrtStatus*'', [InOut ''OrtRunOptions*''])]"

definition OrtApi_5 :: "decl list" where
  "OrtApi_5 =
    [(''RunOptionsUnsetTerminate'', ''OrtStatus*'', [InOut ''OrtRunOptions*'']),
     (''CreateTensorAsOrtValue'', ''OrtStatus*'', [InOut ''OrtAllocator*'', In ''const int64_t*'', In ''size_t'', In ''ONNXTensorElementDataType'', Out ''OrtValue**'']),
     (''CreateTensorWithDataAsOrtValue'', ''OrtStatus*'', [In ''const OrtMemoryInfo*'', InOut ''void*'', In ''size_t'', In ''const int64_t*'', In ''size_t'', In ''ONNXTensorElementDataType'', Out ''OrtValue**'']),
     (''IsTensor'', ''OrtStatus*'', [In ''const OrtValue*'', Out ''int*'']),
     (''GetTensorMutableData'', ''OrtStatus*'', [In ''OrtValue*'', Out ''void**'']),
     (''FillStringTensor'', ''OrtStatus*'', [InOut ''OrtValue*'', In ''const char* const*'', In ''size_t'']),
     (''GetStringTensorDataLength'', ''OrtStatus*'', [In ''const OrtValue*'', Out ''size_t*'']),
     (''GetStringTensorContent'', ''OrtStatus*'', [In ''const OrtValue*'', Out ''void*'', In ''size_t'', Out ''size_t*'', In ''size_t'']),
     (''CastTypeInfoToTensorInfo'', ''OrtStatus*'', [In ''const OrtTypeInfo*'', Out ''const OrtTensorTypeAndShapeInfo**'']),
     (''GetOnnxTypeFromTypeInfo'', ''OrtStatus*'', [In ''const OrtTypeInfo*'', Out ''enum ONNXType*'']),
     (''CreateTensorTypeAndShapeInfo'', ''OrtStatus*'', [Out ''OrtTensorTypeAndShapeInfo**''])]"

definition OrtApi_6 :: "decl list" where
  "OrtApi_6 =
    [(''SetTensorElementType'', ''OrtStatus*'', [InOut ''OrtTensorTypeAndShapeInfo*'', In ''enum ONNXTensorElementDataType'']),
     (''SetDimensions'', ''OrtStatus*'', [In ''OrtTensorTypeAndShapeInfo*'', In ''const int64_t*'', In ''size_t'']),
     (''GetTensorElementType'', ''OrtStatus*'', [In ''const OrtTensorTypeAndShapeInfo*'', Out ''enum ONNXTensorElementDataType*'']),
     (''GetDimensionsCount'', ''OrtStatus*'', [In ''const OrtTensorTypeAndShapeInfo*'', Out ''size_t*'']),
     (''GetDimensions'', ''OrtStatus*'', [In ''const OrtTensorTypeAndShapeInfo*'', Out ''int64_t*'', In ''size_t'']),
     (''GetSymbolicDimensions'', ''OrtStatus*'', [In ''const OrtTensorTypeAndShapeInfo*'', Out ''const char**'', In ''size_t'']),
     (''GetTensorShapeElementCount'', ''OrtStatus*'', [In ''const OrtTensorTypeAndShapeInfo*'', Out ''size_t*'']),
     (''GetTensorTypeAndShape'', ''OrtStatus*'', [In ''const OrtValue*'', Out ''OrtTensorTypeAndShapeInfo**'']),
     (''GetTypeInfo'', ''OrtStatus*'', [In ''const OrtValue*'', Out ''OrtTypeInfo**'']),
     (''GetValueType'', ''OrtStatus*'', [In ''const OrtValue*'', Out ''enum ONNXType*'']),
     (''CreateMemoryInfo'', ''OrtStatus*'', [In ''const char*'', In ''enum OrtAllocatorType'', In ''int'', In ''enum OrtMemType'', Out ''OrtMemoryInfo**'']),
     (''CreateCpuMemoryInfo'', ''OrtStatus*'', [In ''enum OrtAllocatorType'', In ''enum OrtMemType'', Out ''OrtMemoryInfo**''])]"

definition OrtApi_7 :: "decl list" where
  "OrtApi_7 =
    [(''CompareMemoryInfo'', ''OrtStatus*'', [In ''const OrtMemoryInfo*'', In ''const OrtMemoryInfo*'', Out ''int*'']),
     (''MemoryInfoGetName'', ''OrtStatus*'', [In ''const OrtMemoryInfo*'', Out ''const char**'']),
     (''MemoryInfoGetId'', ''OrtStatus*'', [In ''const OrtMemoryInfo*'', Out ''int*'']),
     (''MemoryInfoGetMemType'', ''OrtStatus*'', [In ''const OrtMemoryInfo*'', Out ''OrtMemType*'']),
     (''MemoryInfoGetType'', ''OrtStatus*'', [In ''const OrtMemoryInfo*'', Out ''OrtAllocatorType*'']),
     (''AllocatorAlloc'', ''OrtStatus*'', [InOut ''OrtAllocator*'', In ''size_t'', Out ''void**'']),
     (''AllocatorFree'', ''OrtStatus*'', [InOut ''OrtAllocator*'', In ''void*'']),
     (''AllocatorGetInfo'', ''OrtStatus*'', [In ''const OrtAllocator*'', Out ''const OrtMemoryInfo**'']),
     (''GetAllocatorWithDefaultOptions'', ''OrtStatus*'', [Out ''OrtAllocator**'']),
     (''AddFreeDimensionOverride'', ''OrtStatus*'', [InOut ''OrtSessionOptions*'', In ''const char*'', In ''int64_t'']),
     (''GetValue'', ''OrtStatus*'', [In ''const OrtValue*'', In ''int'', InOut ''OrtAllocator*'', Out ''OrtValue**'']),
     (''GetValueCount'', ''OrtStatus*'', [In ''const OrtValue*'', Out ''size_t*'']),
     (''CreateValue'', ''OrtStatus*'', [In ''const OrtValue* const*'', In ''size_t'', In ''enum ONNXType'', Out ''OrtValue**''])]"

definition OrtApi_8 :: "decl list" where
  "OrtApi_8 =
    [(''CreateOpaqueValue'', ''OrtStatus*'', [In ''const char*'', In ''const char*'', In ''const void*'', In ''size_t'', Out ''OrtValue**'']),
     (''GetOpaqueValue'', ''OrtStatus*'', [In ''const char*'', In ''const char*'', In ''const OrtValue*'', Out ''void*'', In ''size_t'']),
     (''KernelInfoGetAttribute_float'', ''OrtStatus*'', [In ''const OrtKernelInfo*'', In ''const char*'', Out ''float*'']),
     (''KernelInfoGetAttribute_int64'', ''OrtStatus*'', [In ''const OrtKernelInfo*'', In ''const char*'', Out ''int64_t*'']),
     (''KernelInfoGetAttribute_string'', ''OrtStatus*'', [In ''const OrtKernelInfo*'', In ''const char*'', Out ''char*'', InOut ''size_t*'']),
     (''KernelContext_GetInputCount'', ''OrtStatus*'', [In ''const OrtKernelContext*'', Out ''size_t*'']),
     (''KernelContext_GetOutputCount'', ''OrtStatus*'', [In ''const OrtKernelContext*'', Out ''size_t*'']),
     (''KernelContext_GetInput'', ''OrtStatus*'', [In ''const OrtKernelContext*'', In ''size_t'', Out ''const OrtValue**'']),
     (''KernelContext_GetOutput'', ''OrtStatus*'', [InOut ''OrtKernelContext*'', In ''size_t'', In ''const int64_t*'', In ''size_t'', Out ''OrtValue**'']),
     (''ReleaseEnv'', ''void'', [Frees ''OrtEnv*'']),
     (''ReleaseStatus'', ''void'', [Frees ''OrtStatus*''])]"

definition OrtApi_9 :: "decl list" where
  "OrtApi_9 =
    [(''ReleaseMemoryInfo'', ''void'', [Frees ''OrtMemoryInfo*'']),
     (''ReleaseSession'', ''void'', [Frees ''OrtSession*'']),
     (''ReleaseValue'', ''void'', [Frees ''OrtValue*'']),
     (''ReleaseRunOptions'', ''void'', [Frees ''OrtRunOptions*'']),
     (''ReleaseTypeInfo'', ''void'', [Frees ''OrtTypeInfo*'']),
     (''ReleaseTensorTypeAndShapeInfo'', ''void'', [Frees ''OrtTensorTypeAndShapeInfo*'']),
     (''ReleaseSessionOptions'', ''void'', [Frees ''OrtSessionOptions*'']),
     (''ReleaseCustomOpDomain'', ''void'', [Frees ''OrtCustomOpDomain*'']),
     (''GetDenotationFromTypeInfo'', ''OrtStatus*'', [In ''const OrtTypeInfo*'', Out ''const char** const'', Out ''size_t*'']),
     (''CastTypeInfoToMapTypeInfo'', ''OrtStatus*'', [In ''const OrtTypeInfo*'', Out ''const OrtMapTypeInfo**'']),
     (''CastTypeInfoToSequenceTypeInfo'', ''OrtStatus*'', [In ''const OrtTypeInfo*'', Out ''const OrtSequenceTypeInfo**'']),
     (''GetMapKeyType'', ''OrtStatus*'', [In ''const OrtMapTypeInfo*'', Out ''enum ONNXTensorElementDataType*'']),
     (''GetMapValueType'', ''OrtStatus*'', [In ''const OrtMapTypeInfo*'', Out ''OrtTypeInfo**'']),
     (''GetSequenceElementType'', ''OrtStatus*'', [In ''const OrtSequenceTypeInfo*'', Out ''OrtTypeInfo**'']),
     (''ReleaseMapTypeInfo'', ''void'', [Frees ''OrtMapTypeInfo*'']),
     (''ReleaseSequenceTypeInfo'', ''void'', [Frees ''OrtSequenceTypeInfo*''])]"

definition OrtApi_10 :: "decl list" where
  "OrtApi_10 =
    [(''SessionEndProfiling'', ''OrtStatus*'', [In ''OrtSession*'', InOut ''OrtAllocator*'', Out ''char**'']),
     (''SessionGetModelMetadata'', ''OrtStatus*'', [In ''const OrtSession*'', Out ''OrtModelMetadata**'']),
     (''ModelMetadataGetProducerName'', ''OrtStatus*'', [In ''const OrtModelMetadata*'', InOut ''OrtAllocator*'', Out ''char**'']),
     (''ModelMetadataGetGraphName'', ''OrtStatus*'', [In ''const OrtModelMetadata*'', InOut ''OrtAllocator*'', Out ''char**'']),
     (''ModelMetadataGetDomain'', ''OrtStatus*'', [In ''const OrtModelMetadata*'', InOut ''OrtAllocator*'', Out ''char**'']),
     (''ModelMetadataGetDescription'', ''OrtStatus*'', [In ''const OrtModelMetadata*'', InOut ''OrtAllocator*'', Out ''char**'']),
     (''ModelMetadataLookupCustomMetadataMap'', ''OrtStatus*'', [In ''const OrtModelMetadata*'', InOut ''OrtAllocator*'', In ''const char*'', Out ''char**'']),
     (''ModelMetadataGetVersion'', ''OrtStatus*'', [In ''const OrtModelMetadata*'', Out ''int64_t*'']),
     (''ReleaseModelMetadata'', ''void'', [Frees ''OrtModelMetadata*'']),
     (''CreateEnvWithGlobalThreadPools'', ''OrtStatus*'', [In ''OrtLoggingLevel'', In ''const char*'', In ''const OrtThreadingOptions*'', Out ''OrtEnv**'']),
     (''DisablePerSessionThreads'', ''OrtStatus*'', [InOut ''OrtSessionOptions*'']),
     (''CreateThreadingOptions'', ''OrtStatus*'', [Out ''OrtThreadingOptions**'']),
     (''ReleaseThreadingOptions'', ''void'', [Frees ''OrtThreadingOptions*''])]"

definition OrtApi_11 :: "decl list" where
  "OrtApi_11 =
    [(''ModelMetadataGetCustomMetadataMapKeys'', ''OrtStatus*'', [In ''const OrtModelMetadata*'', InOut ''OrtAllocator*'', Out ''char***'', Out ''int64_t*'']),
     (''AddFreeDimensionOverrideByName'', ''OrtStatus*'', [InOut ''OrtSessionOptions*'', In ''const char*'', In ''int64_t'']),
     (''GetAvailableProviders'', ''OrtStatus*'', [Out ''char***'', Out ''int*'']),
     (''ReleaseAvailableProviders'', ''OrtStatus*'', [In ''char**'', In ''int'']),
     (''GetStringTensorElementLength'', ''OrtStatus*'', [In ''const OrtValue*'', In ''size_t'', Out ''size_t*'']),
     (''GetStringTensorElement'', ''OrtStatus*'', [In ''const OrtValue*'', In ''size_t'', In ''size_t'', Out ''void*'']),
     (''FillStringTensorElement'', ''OrtStatus*'', [InOut ''OrtValue*'', In ''const char*'', In ''size_t'']),
     (''AddSessionConfigEntry'', ''OrtStatus*'', [InOut ''OrtSessionOptions*'', In ''const char*'', In ''const char*'']),
     (''CreateAllocator'', ''OrtStatus*'', [In ''const OrtSession*'', In ''const OrtMemoryInfo*'', Out ''OrtAllocator**'']),
     (''ReleaseAllocator'', ''void'', [Frees ''OrtAllocator*''])]"

definition OrtApi_12 :: "decl list" where
  "OrtApi_12 =
    [(''RunWithBinding'', ''OrtStatus*'', [InOut ''OrtSession*'', In ''const OrtRunOptions*'', In ''const OrtIoBinding*'']),
     (''CreateIoBinding'', ''OrtStatus*'', [InOut ''OrtSession*'', Out ''OrtIoBinding**'']),
     (''ReleaseIoBinding'', ''void'', [Frees ''OrtIoBinding*'']),
     (''BindInput'', ''OrtStatus*'', [InOut ''OrtIoBinding*'', In ''const char*'', In ''const OrtValue*'']),
     (''BindOutput'', ''OrtStatus*'', [InOut ''OrtIoBinding*'', In ''const char*'', In ''const OrtValue*'']),
     (''BindOutputToDevice'', ''OrtStatus*'', [InOut ''OrtIoBinding*'', In ''const char*'', In ''const OrtMemoryInfo*'']),
     (''GetBoundOutputNames'', ''OrtStatus*'', [In ''const OrtIoBinding*'', In ''OrtAllocator*'', Out ''char**'', Out ''size_t**'', Out ''size_t*'']),
     (''GetBoundOutputValues'', ''OrtStatus*'', [In ''const OrtIoBinding*'', In ''OrtAllocator*'', Out ''OrtValue***'', Out ''size_t*'']),
     (''ClearBoundInputs'', ''void'', [InOut ''OrtIoBinding*'']),
     (''ClearBoundOutputs'', ''void'', [InOut ''OrtIoBinding*'']),
     (''TensorAt'', ''OrtStatus*'', [InOut ''OrtValue*'', In ''const int64_t*'', In ''size_t'', Out ''void**''])]"

definition OrtApi_13 :: "decl list" where
  "OrtApi_13 =
    [(''CreateAndRegisterAllocator'', ''OrtStatus*'', [InOut ''OrtEnv*'', In ''const OrtMemoryInfo*'', In ''const OrtArenaCfg*'']),
     (''SetLanguageProjection'', ''OrtStatus*'', [In ''const OrtEnv*'', In ''OrtLanguageProjection'']),
     (''SessionGetProfilingStartTimeNs'', ''OrtStatus*'', [In ''const OrtSession*'', Out ''uint64_t*'']),
     (''SetGlobalIntraOpNumThreads'', ''OrtStatus*'', [InOut ''OrtThreadingOptions*'', In ''int'']),
     (''SetGlobalInterOpNumThreads'', ''OrtStatus*'', [InOut ''OrtThreadingOptions*'', In ''int'']),
     (''SetGlobalSpinControl'', ''OrtStatus*'', [InOut ''OrtThreadingOptions*'', In ''int'']),
     (''AddInitializer'', ''OrtStatus*'', [InOut ''OrtSessionOptions*'', In ''const char*'', In ''const OrtValue*'']),
     (''CreateEnvWithCustomLoggerAndGlobalThreadPools'', ''OrtStatus*'', [In ''OrtLoggingFunction'', InOpt ''void*'', In ''OrtLoggingLevel'', In ''const char*'', In ''const OrtThreadingOptions*'', Out ''OrtEnv**''])]"

definition OrtApi_14 :: "decl list" where
  "OrtApi_14 =
    [(''SessionOptionsAppendExecutionProvider_CUDA'', ''OrtStatus*'', [In ''OrtSessionOptions*'', In ''const OrtCUDAProviderOptions*'']),
     (''SessionOptionsAppendExecutionProvider_ROCM'', ''OrtStatus*'', [In ''OrtSessionOptions*'', In ''const OrtROCMProviderOptions*'']),
     (''SessionOptionsAppendExecutionProvider_OpenVINO'', ''OrtStatus*'', [In ''OrtSessionOptions*'', In ''const OrtOpenVINOProviderOptions*'']),
     (''SetGlobalDenormalAsZero'', ''OrtStatus*'', [InOut ''OrtThreadingOptions*'']),
     (''CreateArenaCfg'', ''OrtStatus*'', [In ''size_t'', In ''int'', In ''int'', In ''int'', Out ''OrtArenaCfg**'']),
     (''ReleaseArenaCfg'', ''void'', [Frees ''OrtArenaCfg*'']),
     (''ModelMetadataGetGraphDescription'', ''OrtStatus*'', [In ''const OrtModelMetadata*'', InOut ''OrtAllocator*'', Out ''char**'']),
     (''SessionOptionsAppendExecutionProvider_TensorRT'', ''OrtStatus*'', [In ''OrtSessionOptions*'', In ''const OrtTensorRTProviderOptions*'']),
     (''SetCurrentGpuDeviceId'', ''OrtStatus*'', [In ''int'']),
     (''GetCurrentGpuDeviceId'', ''OrtStatus*'', [In ''int*''])]"

definition OrtApi_15 :: "decl list" where
  "OrtApi_15 =
    [(''KernelInfoGetAttributeArray_float'', ''OrtStatus*'', [In ''const OrtKernelInfo*'', In ''const char*'', Out ''float*'', InOut ''size_t*'']),
     (''KernelInfoGetAttributeArray_int64'', ''OrtStatus*'', [In ''const OrtKernelInfo*'', In ''const char*'', Out ''int64_t*'', InOut ''size_t*'']),
     (''CreateArenaCfgV2'', ''OrtStatus*'', [In ''const char* const*'', In ''const size_t*'', In ''size_t'', Out ''OrtArenaCfg**'']),
     (''AddRunConfigEntry'', ''OrtStatus*'', [InOut ''OrtRunOptions*'', In ''const char*'', In ''const char*'']),
     (''CreatePrepackedWeightsContainer'', ''OrtStatus*'', [Out ''OrtPrepackedWeightsContainer**'']),
     (''ReleasePrepackedWeightsContainer'', ''void'', [Frees ''OrtPrepackedWeightsContainer*''])]"

definition OrtApi_16 :: "decl list" where
  "OrtApi_16 =
    [(''CreateSessionWithPrepackedWeightsContainer'', ''OrtStatus*'', [In ''const OrtEnv*'', In ''const ORTCHAR_T*'', In ''const OrtSessionOptions*'', InOut ''OrtPrepackedWeightsContainer*'', Out ''OrtSession**'']),
     (''CreateSessionFromArrayWithPrepackedWeightsContainer'', ''OrtStatus*'', [In ''const OrtEnv*'', In ''const void*'', In ''size_t'', In ''const OrtSessionOptions*'', InOut ''OrtPrepackedWeightsContainer*'', Out ''OrtSession**'']),
     (''SessionOptionsAppendExecutionProvider_TensorRT_V2'', ''OrtStatus*'', [In ''OrtSessionOptions*'', In ''const OrtTensorRTProviderOptionsV2*'']),
     (''CreateTensorRTProviderOptions'', ''OrtStatus*'', [Out ''OrtTensorRTProviderOptionsV2**'']),
     (''UpdateTensorRTProviderOptions'', ''OrtStatus*'', [InOut ''OrtTensorRTProviderOptionsV2*'', In ''const char* const*'', In ''const char* const*'', In ''size_t'']),
     (''GetTensorRTProviderOptionsAsString'', ''OrtStatus*'', [In ''const OrtTensorRTProviderOptionsV2*'', InOut ''OrtAllocator*'', Out ''char**'']),
     (''ReleaseTensorRTProviderOptions'', ''void'', [Frees ''OrtTensorRTProviderOptionsV2*'']),
     (''EnableOrtCustomOps'', ''OrtStatus*'', [InOut ''OrtSessionOptions*''])]"

definition OrtApi_17 :: "decl list" where
  "OrtApi_17 =
    [(''RegisterAllocator'', ''OrtStatus*'', [InOut ''OrtEnv*'', In ''OrtAllocator*'']),
     (''UnregisterAllocator'', ''OrtStatus*'', [InOut ''OrtEnv*'', In ''const OrtMemoryInfo*'']),
     (''IsSparseTensor'', ''OrtStatus*'', [In ''const OrtValue*'', Out ''int*'']),
     (''CreateSparseTensorAsOrtValue'', ''OrtStatus*'', [InOut ''OrtAllocator*'', In ''const int64_t*'', In ''size_t'', In ''ONNXTensorElementDataType'', Out ''OrtValue**'']),
     (''FillSparseTensorCoo'', ''OrtStatus*'', [InOut ''OrtValue*'', In ''const OrtMemoryInfo*'', In ''const int64_t*'', In ''size_t'', In ''const void*'', In ''const int64_t*'', In ''size_t'']),
     (''FillSparseTensorCsr'', ''OrtStatus*'', [InOut ''OrtValue*'', In ''const OrtMemoryInfo*'', In ''const int64_t*'', In ''size_t'', In ''const void*'', In ''const int64_t*'', In ''size_t'', In ''const int64_t*'', In ''size_t'']),
     (''FillSparseTensorBlockSparse'', ''OrtStatus*'', [InOut ''OrtValue*'', In ''const OrtMemoryInfo*'', In ''const int64_t*'', In ''size_t'', In ''const void*'', In ''const int64_t*'', In ''size_t'', In ''const int32_t*''])]"

definition OrtApi_18 :: "decl list" where
  "OrtApi_18 =
    [(''CreateSparseTensorWithValuesAsOrtValue'', ''OrtStatus*'', [In ''const OrtMemoryInfo*'', InOut ''void*'', In ''const int64_t*'', In ''size_t'', In ''const int64_t*'', In ''size_t'', In ''ONNXTensorElementDataType'', Out ''OrtValue**'']),
     (''UseCooIndices'', ''OrtStatus*'', [InOut ''OrtValue*'', InOut ''int64_t*'', In ''size_t'']),
     (''UseCsrIndices'', ''OrtStatus*'', [InOut ''OrtValue*'', InOut ''int64_t*'', In ''size_t'', InOut ''int64_t*'', In ''size_t'']),
     (''UseBlockSparseIndices'', ''OrtStatus*'', [InOut ''OrtValue*'', In ''const int64_t*'', In ''size_t'', InOut ''int32_t*'']),
     (''GetSparseTensorFormat'', ''OrtStatus*'', [In ''const OrtValue*'', Out ''enum OrtSparseFormat*'']),
     (''GetSparseTensorValuesTypeAndShape'', ''OrtStatus*'', [In ''const OrtValue*'', Out ''OrtTensorTypeAndShapeInfo**'']),
     (''GetSparseTensorValues'', ''OrtStatus*'', [In ''const OrtValue*'', Out ''const void**'']),
     (''GetSparseTensorIndicesTypeShape'', ''OrtStatus*'', [In ''const OrtValue*'', In ''enum OrtSparseIndicesFormat'', Out ''OrtTensorTypeAndShapeInfo**'']),
     (''GetSparseTensorIndices'', ''OrtStatus*'', [In ''const OrtValue*'', In ''enum OrtSparseIndicesFormat'', Out ''size_t*'', Out ''const void**'']),
     (''HasValue'', ''OrtStatus*'', [In ''const OrtValue*'', Out ''int*''])]"

definition OrtApi_19 :: "decl list" where
  "OrtApi_19 =
    [(''KernelContext_GetGPUComputeStream'', ''OrtStatus*'', [In ''const OrtKernelContext*'', Out ''void**'']),
     (''GetTensorMemoryInfo'', ''OrtStatus*'', [In ''const OrtValue*'', Out ''const OrtMemoryInfo**'']),
     (''GetExecutionProviderApi'', ''OrtStatus*'', [In ''const char*'', In ''uint32_t'', Out ''const void**'']),
     (''SessionOptionsSetCustomCreateThreadFn'', ''OrtStatus*'', [InOut ''OrtSessionOptions*'', In ''OrtCustomCreateThreadFn'']),
     (''SessionOptionsSetCustomThreadCreationOptions'', ''OrtStatus*'', [InOut ''OrtSessionOptions*'', In ''void*'']),
     (''SessionOptionsSetCustomJoinThreadFn'', ''OrtStatus*'', [InOut ''OrtSessionOptions*'', In ''OrtCustomJoinThreadFn'']),
     (''SetGlobalCustomCreateThreadFn'', ''OrtStatus*'', [InOut ''OrtThreadingOptions*'', In ''OrtCustomCreateThreadFn'']),
     (''SetGlobalCustomThreadCreationOptions'', ''OrtStatus*'', [InOut ''OrtThreadingOptions*'', In ''void*'']),
     (''SetGlobalCustomJoinThreadFn'', ''OrtStatus*'', [InOut ''OrtThreadingOptions*'', In ''OrtCustomJoinThreadFn'']),
     (''SynchronizeBoundInputs'', ''OrtStatus*'', [InOut ''OrtIoBinding*'']),
     (''SynchronizeBoundOutputs'', ''OrtStatus*'', [InOut ''OrtIoBinding*''])]"

definition OrtApi_20 :: "decl list" where
  "OrtApi_20 =
    [(''SessionOptionsAppendExecutionProvider_CUDA_V2'', ''OrtStatus*'', [In ''OrtSessionOptions*'', In ''const OrtCUDAProviderOptionsV2*'']),
     (''CreateCUDAProviderOptions'', ''OrtStatus*'', [Out ''OrtCUDAProviderOptionsV2**'']),
     (''UpdateCUDAProviderOptions'', ''OrtStatus*'', [InOut ''OrtCUDAProviderOptionsV2*'', In ''const char* const*'', In ''const char* const*'', In ''size_t'']),
     (''GetCUDAProviderOptionsAsString'', ''OrtStatus*'', [In ''const OrtCUDAProviderOptionsV2*'', InOut ''OrtAllocator*'', Out ''char**'']),
     (''ReleaseCUDAProviderOptions'', ''void'', [Frees ''OrtCUDAProviderOptionsV2*'']),
     (''SessionOptionsAppendExecutionProvider_MIGraphX'', ''OrtStatus*'', [In ''OrtSessionOptions*'', In ''const OrtMIGraphXProviderOptions*'']),
     (''AddExternalInitializers'', ''OrtStatus*'', [In ''OrtSessionOptions*'', In ''const char* const*'', In ''const OrtValue* const*'', In ''size_t'']),
     (''CreateOpAttr'', ''OrtStatus*'', [In ''const char*'', In ''const void*'', In ''int'', In ''OrtOpAttrType'', Out ''OrtOpAttr**''])]"

definition OrtApi_21 :: "decl list" where
  "OrtApi_21 =
    [(''ReleaseOpAttr'', ''void'', [Frees ''OrtOpAttr*'']),
     (''CreateOp'', ''OrtStatus*'', [In ''const OrtKernelInfo*'', In ''const char*'', In ''const char*'', In ''int'', In ''const char**'', In ''const ONNXTensorElementDataType*'', In ''int'', In ''const OrtOpAttr* const*'', In ''int'', In ''int'', In ''int'', Out ''OrtOp**'']),
     (''InvokeOp'', ''OrtStatus*'', [In ''const OrtKernelContext*'', In ''const OrtOp*'', In ''const OrtValue* const*'', In ''int'', InOut ''OrtValue* const*'', In ''int'']),
     (''ReleaseOp'', ''void'', [Frees ''OrtOp*''])]"

definition OrtApi_22 :: "decl list" where
  "OrtApi_22 =
    [(''SessionOptionsAppendExecutionProvider'', ''OrtStatus*'', [In ''OrtSessionOptions*'', In ''const char*'', In ''const char* const*'', In ''const char* const*'', In ''size_t'']),
     (''CopyKernelInfo'', ''OrtStatus*'', [In ''const OrtKernelInfo*'', Out ''OrtKernelInfo**'']),
     (''ReleaseKernelInfo'', ''void'', [Frees ''OrtKernelInfo*''])]"

definition OrtApi_23 :: "decl list" where
  "OrtApi_23 =
    [(''GetTrainingApi'', ''const OrtTrainingApi*'', [In ''uint32_t'']),
     (''SessionOptionsAppendExecutionProvider_CANN'', ''OrtStatus*'', [In ''OrtSessionOptions*'', In ''const OrtCANNProviderOptions*'']),
     (''CreateCANNProviderOptions'', ''OrtStatus*'', [Out ''OrtCANNProviderOptions**'']),
     (''UpdateCANNProviderOptions'', ''OrtStatus*'', [InOut ''OrtCANNProviderOptions*'', In ''const char* const*'', In ''const char* const*'', In ''size_t'']),
     (''GetCANNProviderOptionsAsString'', ''OrtStatus*'', [In ''const OrtCANNProviderOptions*'', InOut ''OrtAllocator*'', Out ''char**'']),
     (''ReleaseCANNProviderOptions'', ''void'', [Frees ''OrtCANNProviderOptions*'']),
     (''MemoryInfoGetDeviceType'', ''void'', [In ''const OrtMemoryInfo*'', Out ''OrtMemoryInfoDeviceType*'']),
     (''UpdateEnvWithCustomLogLevel'', ''OrtStatus*'', [In ''OrtEnv*'', In ''OrtLoggingLevel'']),
     (''SetGlobalIntraOpThreadAffinity'', ''OrtStatus*'', [InOut ''OrtThreadingOptions*'', In ''const char*'']),
     (''RegisterCustomOpsLibrary_V2'', ''OrtStatus*'', [InOut ''OrtSessionOptions*'', In ''const ORTCHAR_T*''])]"

definition OrtApi_24 :: "decl list" where
  "OrtApi_24 =
    [(''RegisterCustomOpsUsingFunction'', ''OrtStatus*'', [InOut ''OrtSessionOptions*'', In ''const char*'']),
     (''KernelInfo_GetInputCount'', ''OrtStatus*'', [In ''const OrtKernelInfo*'', Out ''size_t*'']),
     (''KernelInfo_GetOutputCount'', ''OrtStatus*'', [In ''const OrtKernelInfo*'', Out ''size_t*'']),
     (''KernelInfo_GetInputName'', ''OrtStatus*'', [In ''const OrtKernelInfo*'', In ''size_t'', Out ''char*'', InOut ''size_t*'']),
     (''KernelInfo_GetOutputName'', ''OrtStatus*'', [In ''const OrtKernelInfo*'', In ''size_t'', Out ''char*'', InOut ''size_t*'']),
     (''KernelInfo_GetInputTypeInfo'', ''OrtStatus*'', [In ''const OrtKernelInfo*'', In ''size_t'', Out ''OrtTypeInfo**'']),
     (''KernelInfo_GetOutputTypeInfo'', ''OrtStatus*'', [In ''const OrtKernelInfo*'', In ''size_t'', Out ''OrtTypeInfo**''])]"

definition OrtApi_25 :: "decl list" where
  "OrtApi_25 =
    [(''KernelInfoGetAttribute_tensor'', ''OrtStatus*'', [In ''const OrtKernelInfo*'', In ''const char*'', InOut ''OrtAllocator*'', Out ''OrtValue**'']),
     (''HasSessionConfigEntry'', ''OrtStatus*'', [In ''const OrtSessionOptions*'', In ''const char*'', Out ''int*'']),
     (''GetSessionConfigEntry'', ''OrtStatus*'', [In ''const OrtSessionOptions*'', In ''const char*'', Out ''char*'', InOut ''size_t*'']),
     (''SessionOptionsAppendExecutionProvider_Dnnl'', ''OrtStatus*'', [In ''OrtSessionOptions*'', In ''const OrtDnnlProviderOptions*'']),
     (''CreateDnnlProviderOptions'', ''OrtStatus*'', [Out ''OrtDnnlProviderOptions**'']),
     (''UpdateDnnlProviderOptions'', ''OrtStatus*'', [InOut ''OrtDnnlProviderOptions*'', In ''const char* const*'', In ''const char* const*'', In ''size_t'']),
     (''GetDnnlProviderOptionsAsString'', ''OrtStatus*'', [In ''const OrtDnnlProviderOptions*'', InOut ''OrtAllocator*'', Out ''char**'']),
     (''ReleaseDnnlProviderOptions'', ''void'', [Frees ''OrtDnnlProviderOptions*''])]"

definition OrtApi_26 :: "decl list" where
  "OrtApi_26 =
    [(''KernelInfo_GetNodeName'', ''OrtStatus*'', [In ''const OrtKernelInfo*'', Out ''char*'', InOut ''size_t*'']),
     (''KernelInfo_GetLogger'', ''OrtStatus*'', [In ''const OrtKernelInfo*'', Out ''const OrtLogger**'']),
     (''KernelContext_GetLogger'', ''OrtStatus*'', [In ''const OrtKernelContext*'', Out ''const OrtLogger**'']),
     (''Logger_LogMessage'', ''OrtStatus*'', [In ''const OrtLogger*'', In ''OrtLoggingLevel'', In ''const char*'', In ''const ORTCHAR_T*'', In ''int'', In ''const char*'']),
     (''Logger_GetLoggingSeverityLevel'', ''OrtStatus*'', [In ''const OrtLogger*'', Out ''OrtLoggingLevel*'']),
     (''KernelInfoGetConstantInput_tensor'', ''OrtStatus*'', [In ''const OrtKernelInfo*'', In ''size_t'', Out ''int*'', Out ''const OrtValue**'']),
     (''CastTypeInfoToOptionalTypeInfo'', ''OrtStatus*'', [In ''const OrtTypeInfo*'', Out ''const OrtOptionalTypeInfo**''])]"

definition OrtApi_27 :: "decl list" where
  "OrtApi_27 =
    [(''GetOptionalContainedTypeInfo'', ''OrtStatus*'', [In ''const OrtOptionalTypeInfo*'', Out ''OrtTypeInfo**'']),
     (''GetResizedStringTensorElementBuffer'', ''OrtStatus*'', [InOut ''OrtValue*'', In ''size_t'', In ''size_t'', InOut ''char**'']),
     (''KernelContext_GetAllocator'', ''OrtStatus*'', [In ''const OrtKernelContext*'', In ''const OrtMemoryInfo*'', Out ''OrtAllocator**'']),
     (''GetBuildInfoString'', ''const char*'', []),
     (''CreateROCMProviderOptions'', ''OrtStatus*'', [Out ''OrtROCMProviderOptions**'']),
     (''UpdateROCMProviderOptions'', ''OrtStatus*'', [InOut ''OrtROCMProviderOptions*'', In ''const char* const*'', In ''const char* const*'', In ''size_t'']),
     (''GetROCMProviderOptionsAsString'', ''OrtStatus*'', [In ''const OrtROCMProviderOptions*'', InOut ''OrtAllocator*'', Out ''char**'']),
     (''ReleaseROCMProviderOptions'', ''void'', [Frees ''OrtROCMProviderOptions*'']),
     (''CreateAndRegisterAllocatorV2'', ''OrtStatus*'', [InOut ''OrtEnv*'', In ''const char*'', In ''const OrtMemoryInfo*'', In ''const OrtArenaCfg*'', In ''const char* const*'', In ''const char* const*'', In ''size_t''])]"

definition OrtApi_28 :: "decl list" where
  "OrtApi_28 =
    [(''RunAsync'', ''OrtStatus*'', [InOut ''OrtSession*'', InOpt ''const OrtRunOptions*'', In ''const char* const*'', In ''const OrtValue* const*'', In ''size_t'', In ''const char* const*'', In ''size_t'', InOut ''OrtValue**'', In ''RunAsyncCallbackFn'', InOpt ''void*'']),
     (''UpdateTensorRTProviderOptionsWithValue'', ''OrtStatus*'', [InOut ''OrtTensorRTProviderOptionsV2*'', In ''const char*'', In ''void*'']),
     (''GetTensorRTProviderOptionsByName'', ''OrtStatus*'', [In ''const OrtTensorRTProviderOptionsV2*'', In ''const char*'', Out ''void**'']),
     (''UpdateCUDAProviderOptionsWithValue'', ''OrtStatus*'', [InOut ''OrtCUDAProviderOptionsV2*'', In ''const char*'', In ''void*'']),
     (''GetCUDAProviderOptionsByName'', ''OrtStatus*'', [In ''const OrtCUDAProviderOptionsV2*'', In ''const char*'', Out ''void**'']),
     (''KernelContext_GetResource'', ''OrtStatus*'', [In ''const OrtKernelContext*'', In ''int'', In ''int'', Out ''void**'']),
     (''SetUserLoggingFunction'', ''OrtStatus*'', [InOut ''OrtSessionOptions*'', In ''OrtLoggingFunction'', InOpt ''void*'']),
     (''ShapeInferContext_GetInputCount'', ''OrtStatus*'', [In ''const OrtShapeInferContext*'', Out ''size_t*'']),
     (''ShapeInferContext_GetInputTypeShape'', ''OrtStatus*'', [In ''const OrtShapeInferContext*'', In ''size_t'', Out ''OrtTensorTypeAndShapeInfo**'']),
     (''ShapeInferContext_GetAttribute'', ''OrtStatus*'', [In ''const OrtShapeInferContext*'', In ''const char*'', Out ''const OrtOpAttr**''])]"

definition OrtApi_29 :: "decl list" where
  "OrtApi_29 =
    [(''ShapeInferContext_SetOutputTypeShape'', ''OrtStatus*'', [In ''const OrtShapeInferContext*'', In ''size_t'', In ''const OrtTensorTypeAndShapeInfo*'']),
     (''SetSymbolicDimensions'', ''OrtStatus*'', [In ''OrtTensorTypeAndShapeInfo*'', In ''const char**'', In ''size_t'']),
     (''ReadOpAttr'', ''OrtStatus*'', [In ''const OrtOpAttr*'', In ''OrtOpAttrType'', InOut ''void*'', In ''size_t'', Out ''size_t*'']),
     (''SetDeterministicCompute'', ''OrtStatus*'', [InOut ''OrtSessionOptions*'', In ''bool'']),
     (''KernelContext_ParallelFor'', ''OrtStatus*'', [In ''const OrtKernelContext*'', In ''void(*)(void*, size_t)'', In ''size_t'', In ''size_t'', In ''void*'']),
     (''SessionOptionsAppendExecutionProvider_OpenVINO_V2'', ''OrtStatus*'', [In ''OrtSessionOptions*'', In ''const char* const*'', In ''const char* const*'', In ''size_t'']),
     (''SessionOptionsAppendExecutionProvider_VitisAI'', ''OrtStatus*'', [In ''OrtSessionOptions*'', In ''const char* const*'', In ''const char* const*'', In ''size_t'']),
     (''KernelContext_GetScratchBuffer'', ''OrtStatus*'', [In ''const OrtKernelContext*'', In ''const OrtMemoryInfo*'', In ''size_t'', Out ''void**'']),
     (''KernelInfoGetAllocator'', ''OrtStatus*'', [In ''const OrtKernelInfo*'', In ''OrtMemType'', Out ''OrtAllocator**''])]"

definition OrtApi_30 :: "decl list" where
  "OrtApi_30 =
    [(''AddExternalInitializersFromFilesInMemory'', ''OrtStatus*'', [In ''OrtSessionOptions*'', In ''const ORTCHAR_T* const*'', In ''char* const*'', In ''const size_t*'', In ''size_t'']),
     (''CreateLoraAdapter'', ''OrtStatus*'', [In ''const ORTCHAR_T*'', In ''OrtAllocator*'', Out ''OrtLoraAdapter**'']),
     (''CreateLoraAdapterFromArray'', ''OrtStatus*'', [In ''const void*'', In ''size_t'', In ''OrtAllocator*'', Out ''OrtLoraAdapter**'']),
     (''ReleaseLoraAdapter'', ''void'', [Frees ''OrtLoraAdapter*'']),
     (''RunOptionsAddActiveLoraAdapter'', ''OrtStatus*'', [InOut ''OrtRunOptions*'', In ''const OrtLoraAdapter*'']),
     (''SetEpDynamicOptions'', ''OrtStatus*'', [InOut ''OrtSession*'', In ''const char* const*'', In ''const char* const*'', In ''size_t'']),
     (''ReleaseValueInfo'', ''void'', [Frees ''OrtValueInfo*'']),
     (''ReleaseNode'', ''void'', [Frees ''OrtNode*'']),
     (''ReleaseGraph'', ''void'', [Frees ''OrtGraph*'']),
     (''ReleaseModel'', ''void'', [Frees ''OrtModel*'']),
     (''GetValueInfoName'', ''OrtStatus*'', [In ''const OrtValueInfo*'', Out ''const char**'']),
     (''GetValueInfoTypeInfo'', ''OrtStatus*'', [In ''const OrtValueInfo*'', Out ''const OrtTypeInfo**''])]"

definition OrtApi_31 :: "decl list" where
  "OrtApi_31 =
    [(''GetModelEditorApi'', ''const OrtModelEditorApi*'', []),
     (''CreateTensorWithDataAndDeleterAsOrtValue'', ''OrtStatus*'', [In ''OrtAllocator*'', In ''void*'', In ''size_t'', In ''const int64_t*'', In ''size_t'', In ''ONNXTensorElementDataType'', Out ''OrtValue**'']),
     (''SessionOptionsSetLoadCancellationFlag'', ''OrtStatus*'', [InOut ''OrtSessionOptions*'', In ''bool'']),
     (''GetCompileApi'', ''const OrtCompileApi*'', []),
     (''CreateKeyValuePairs'', ''void'', [Out ''OrtKeyValuePairs**'']),
     (''AddKeyValuePair'', ''void'', [In ''OrtKeyValuePairs*'', In ''const char*'', In ''const char*'']),
     (''GetKeyValue'', ''const char*'', [In ''const OrtKeyValuePairs*'', In ''const char*'']),
     (''GetKeyValuePairs'', ''void'', [In ''const OrtKeyValuePairs*'', Out ''const char* const**'', Out ''const char* const**'', Out ''size_t*'']),
     (''RemoveKeyValuePair'', ''void'', [In ''OrtKeyValuePairs*'', In ''const char*'']),
     (''ReleaseKeyValuePairs'', ''void'', [Frees ''OrtKeyValuePairs*''])]"

definition OrtApi_32 :: "decl list" where
  "OrtApi_32 =
    [(''RegisterExecutionProviderLibrary'', ''OrtStatus*'', [In ''OrtEnv*'', In ''const char*'', In ''const ORTCHAR_T*'']),
     (''UnregisterExecutionProviderLibrary'', ''OrtStatus*'', [In ''OrtEnv*'', In ''const char*'']),
     (''GetEpDevices'', ''OrtStatus*'', [In ''const OrtEnv*'', Out ''const OrtEpDevice* const**'', Out ''size_t*'']),
     (''SessionOptionsAppendExecutionProvider_V2'', ''OrtStatus*'', [In ''OrtSessionOptions*'', In ''OrtEnv*'', In ''const OrtEpDevice* const*'', In ''size_t'', In ''const char* const*'', In ''const char* const*'', In ''size_t'']),
     (''SessionOptionsSetEpSelectionPolicy'', ''OrtStatus*'', [In ''OrtSessionOptions*'', In ''OrtExecutionProviderDevicePolicy'']),
     (''SessionOptionsSetEpSelectionPolicyDelegate'', ''OrtStatus*'', [In ''OrtSessionOptions*'', In ''EpSelectionDelegate'', InOpt ''void*'']),
     (''HardwareDevice_Type'', ''OrtHardwareDeviceType'', [In ''const OrtHardwareDevice*'']),
     (''HardwareDevice_VendorId'', ''uint32_t'', [In ''const OrtHardwareDevice*'']),
     (''HardwareDevice_Vendor'', ''const char*'', [In ''const OrtHardwareDevice*'']),
     (''HardwareDevice_DeviceId'', ''uint32_t'', [In ''const OrtHardwareDevice*'']),
     (''HardwareDevice_Metadata'', ''const OrtKeyValuePairs*'', [In ''const OrtHardwareDevice*''])]"

definition OrtApi_33 :: "decl list" where
  "OrtApi_33 =
    [(''EpDevice_EpName'', ''const char*'', [In ''const OrtEpDevice*'']),
     (''EpDevice_EpVendor'', ''const char*'', [In ''const OrtEpDevice*'']),
     (''EpDevice_EpMetadata'', ''const OrtKeyValuePairs*'', [In ''const OrtEpDevice*'']),
     (''EpDevice_EpOptions'', ''const OrtKeyValuePairs*'', [In ''const OrtEpDevice*'']),
     (''EpDevice_Device'', ''const OrtHardwareDevice*'', [In ''const OrtEpDevice*'']),
     (''GetEpApi'', ''const OrtEpApi*'', []),
     (''GetTensorSizeInBytes'', ''OrtStatus*'', [In ''const OrtValue*'', Out ''size_t*'']),
     (''AllocatorGetStats'', ''OrtStatus*'', [In ''const OrtAllocator*'', Out ''OrtKeyValuePairs**'']),
     (''CreateMemoryInfo_V2'', ''OrtStatus*'', [In ''const char*'', In ''enum OrtMemoryInfoDeviceType'', In ''uint32_t'', In ''int32_t'', In ''enum OrtDeviceMemoryType'', In ''size_t'', In ''enum OrtAllocatorType'', Out ''OrtMemoryInfo**'']),
     (''MemoryInfoGetDeviceMemType'', ''OrtDeviceMemoryType'', [In ''const OrtMemoryInfo*'']),
     (''MemoryInfoGetVendorId'', ''uint32_t'', [In ''const OrtMemoryInfo*'']),
     (''ValueInfo_GetValueProducer'', ''OrtStatus*'', [In ''const OrtValueInfo*'', Out ''const OrtNode**'', Out ''size_t*''])]"

definition OrtApi_34 :: "decl list" where
  "OrtApi_34 =
    [(''ValueInfo_GetValueNumConsumers'', ''OrtStatus*'', [In ''const OrtValueInfo*'', Out ''size_t*'']),
     (''ValueInfo_GetValueConsumers'', ''OrtStatus*'', [In ''const OrtValueInfo*'', Out ''const OrtNode**'', Out ''int64_t*'', In ''size_t'']),
     (''ValueInfo_GetInitializerValue'', ''OrtStatus*'', [In ''const OrtValueInfo*'', Out ''const OrtValue**'']),
     (''ValueInfo_GetExternalInitializerInfo'', ''OrtStatus*'', [In ''const OrtValueInfo*'', Out ''OrtExternalInitializerInfo**'']),
     (''ValueInfo_IsRequiredGraphInput'', ''OrtStatus*'', [In ''const OrtValueInfo*'', Out ''bool*'']),
     (''ValueInfo_IsOptionalGraphInput'', ''OrtStatus*'', [In ''const OrtValueInfo*'', Out ''bool*'']),
     (''ValueInfo_IsGraphOutput'', ''OrtStatus*'', [In ''const OrtValueInfo*'', Out ''bool*'']),
     (''ValueInfo_IsConstantInitializer'', ''OrtStatus*'', [In ''const OrtValueInfo*'', Out ''bool*''])]"

definition OrtApi_35 :: "decl list" where
  "OrtApi_35 =
    [(''ValueInfo_IsFromOuterScope'', ''OrtStatus*'', [In ''const OrtValueInfo*'', Out ''bool*'']),
     (''Graph_GetName'', ''OrtStatus*'', [In ''const OrtGraph*'', Out ''const char**'']),
     (''Graph_GetModelPath'', ''OrtStatus*'', [In ''const OrtGraph*'', Out ''const ORTCHAR_T**'']),
     (''Graph_GetOnnxIRVersion'', ''OrtStatus*'', [In ''const OrtGraph*'', Out ''int64_t*'']),
     (''Graph_GetNumOperatorSets'', ''OrtStatus*'', [In ''const OrtGraph*'', Out ''size_t*'']),
     (''Graph_GetOperatorSets'', ''OrtStatus*'', [In ''const OrtGraph*'', Out ''const char**'', Out ''int64_t*'', In ''size_t'']),
     (''Graph_GetNumInputs'', ''OrtStatus*'', [In ''const OrtGraph*'', Out ''size_t*'']),
     (''Graph_GetInputs'', ''OrtStatus*'', [In ''const OrtGraph*'', Out ''const OrtValueInfo**'', In ''size_t'']),
     (''Graph_GetNumOutputs'', ''OrtStatus*'', [In ''const OrtGraph*'', Out ''size_t*''])]"

definition OrtApi_36 :: "decl list" where
  "OrtApi_36 =
    [(''Graph_GetOutputs'', ''OrtStatus*'', [In ''const OrtGraph*'', Out ''const OrtValueInfo**'', In ''size_t'']),
     (''Graph_GetNumInitializers'', ''OrtStatus*'', [In ''const OrtGraph*'', Out ''size_t*'']),
     (''Graph_GetInitializers'', ''OrtStatus*'', [In ''const OrtGraph*'', Out ''const OrtValueInfo**'', In ''size_t'']),
     (''Graph_GetNumNodes'', ''OrtStatus*'', [In ''const OrtGraph*'', Out ''size_t*'']),
     (''Graph_GetNodes'', ''OrtStatus*'', [In ''const OrtGraph*'', Out ''const OrtNode**'', In ''size_t'']),
     (''Graph_GetParentNode'', ''OrtStatus*'', [In ''const OrtGraph*'', Out ''const OrtNode**'']),
     (''Graph_GetGraphView'', ''OrtStatus*'', [In ''const OrtGraph*'', In ''const OrtNode**'', In ''size_t'', Out ''OrtGraph**'']),
     (''Node_GetId'', ''OrtStatus*'', [In ''const OrtNode*'', Out ''size_t*'']),
     (''Node_GetName'', ''OrtStatus*'', [In ''const OrtNode*'', Out ''const char**''])]"

definition OrtApi_37 :: "decl list" where
  "OrtApi_37 =
    [(''Node_GetOperatorType'', ''OrtStatus*'', [In ''const OrtNode*'', Out ''const char**'']),
     (''Node_GetDomain'', ''OrtStatus*'', [In ''const OrtNode*'', Out ''const char**'']),
     (''Node_GetSinceVersion'', ''OrtStatus*'', [In ''const OrtNode*'', Out ''int*'']),
     (''Node_GetNumInputs'', ''OrtStatus*'', [In ''const OrtNode*'', Out ''size_t*'']),
     (''Node_GetInputs'', ''OrtStatus*'', [In ''const OrtNode*'', Out ''const OrtValueInfo**'', In ''size_t'']),
     (''Node_GetNumOutputs'', ''OrtStatus*'', [In ''const OrtNode*'', Out ''size_t*'']),
     (''Node_GetOutputs'', ''OrtStatus*'', [In ''const OrtNode*'', Out ''const OrtValueInfo**'', In ''size_t'']),
     (''Node_GetNumImplicitInputs'', ''OrtStatus*'', [In ''const OrtNode*'', Out ''size_t*'']),
     (''Node_GetImplicitInputs'', ''OrtStatus*'', [In ''const OrtNode*'', Out ''const OrtValueInfo**'', In ''size_t'']),
     (''Node_GetNumAttributes'', ''OrtStatus*'', [In ''const OrtNode*'', Out ''size_t*''])]"

definition OrtApi_38 :: "decl list" where
  "OrtApi_38 =
    [(''Node_GetAttributes'', ''OrtStatus*'', [In ''const OrtNode*'', Out ''const OrtOpAttr**'', In ''size_t'']),
     (''Node_GetAttributeByName'', ''OrtStatus*'', [In ''const OrtNode*'', In ''const char*'', Out ''const OrtOpAttr**'']),
     (''OpAttr_GetTensorAttributeAsOrtValue'', ''OrtStatus*'', [In ''const OrtOpAttr*'', Out ''OrtValue**'']),
     (''OpAttr_GetType'', ''OrtStatus*'', [In ''const OrtOpAttr*'', Out ''OrtOpAttrType*'']),
     (''OpAttr_GetName'', ''OrtStatus*'', [In ''const OrtOpAttr*'', Out ''const char**'']),
     (''Node_GetNumSubgraphs'', ''OrtStatus*'', [In ''const OrtNode*'', Out ''size_t*'']),
     (''Node_GetSubgraphs'', ''OrtStatus*'', [In ''const OrtNode*'', Out ''const OrtGraph**'', In ''size_t'', Out ''const char**'']),
     (''Node_GetGraph'', ''OrtStatus*'', [In ''const OrtNode*'', Out ''const OrtGraph**'']),
     (''Node_GetEpName'', ''OrtStatus*'', [In ''const OrtNode*'', Out ''const char**''])]"

definition OrtApi_39 :: "decl list" where
  "OrtApi_39 =
    [(''ReleaseExternalInitializerInfo'', ''void'', [Frees ''OrtExternalInitializerInfo*'']),
     (''ExternalInitializerInfo_GetFilePath'', ''const ORTCHAR_T*'', [In ''const OrtExternalInitializerInfo*'']),
     (''ExternalInitializerInfo_GetFileOffset'', ''int64_t'', [In ''const OrtExternalInitializerInfo*'']),
     (''ExternalInitializerInfo_GetByteSize'', ''size_t'', [In ''const OrtExternalInitializerInfo*'']),
     (''GetRunConfigEntry'', ''const char*'', [In ''const OrtRunOptions*'', In ''const char*'']),
     (''EpDevice_MemoryInfo'', ''const OrtMemoryInfo*'', [In ''const OrtEpDevice*'', In ''OrtDeviceMemoryType'']),
     (''CreateSharedAllocator'', ''OrtStatus*'', [In ''OrtEnv*'', In ''const OrtEpDevice*'', In ''OrtDeviceMemoryType'', In ''OrtAllocatorType'', InOpt ''const OrtKeyValuePairs*'', Out ''OrtAllocator**'']),
     (''GetSharedAllocator'', ''OrtStatus*'', [In ''OrtEnv*'', In ''const OrtMemoryInfo*'', Out ''OrtAllocator**'']),
     (''ReleaseSharedAllocator'', ''OrtStatus*'', [In ''OrtEnv*'', In ''const OrtEpDevice*'', In ''OrtDeviceMemoryType''])]"

definition OrtApi_40 :: "decl list" where
  "OrtApi_40 =
    [(''GetTensorData'', ''OrtStatus*'', [In ''const OrtValue*'', Out ''const void**'']),
     (''GetSessionOptionsConfigEntries'', ''OrtStatus*'', [In ''const OrtSessionOptions*'', Out ''OrtKeyValuePairs**'']),
     (''SessionGetMemoryInfoForInputs'', ''OrtStatus*'', [In ''const OrtSession*'', Out ''const OrtMemoryInfo**'', In ''size_t'']),
     (''SessionGetMemoryInfoForOutputs'', ''OrtStatus*'', [In ''const OrtSession*'', Out ''const OrtMemoryInfo**'', In ''size_t'']),
     (''SessionGetEpDeviceForInputs'', ''OrtStatus*'', [In ''const OrtSession*'', Out ''const OrtEpDevice**'', In ''size_t'']),
     (''CreateSyncStreamForEpDevice'', ''OrtStatus*'', [In ''const OrtEpDevice*'', InOpt ''const OrtKeyValuePairs*'', Out ''OrtSyncStream**'']),
     (''SyncStream_GetHandle'', ''void*'', [In ''OrtSyncStream*'']),
     (''ReleaseSyncStream'', ''void'', [Frees ''OrtSyncStream*''])]"

definition OrtApi_41 :: "decl list" where
  "OrtApi_41 =
    [(''CopyTensors'', ''OrtStatus*'', [In ''const OrtEnv*'', In ''const OrtValue* const*'', In ''OrtValue* const*'', InOpt ''OrtSyncStream*'', In ''size_t'']),
     (''Graph_GetModelMetadata'', ''OrtStatus*'', [In ''const OrtGraph*'', Out ''OrtModelMetadata**'']),
     (''GetModelCompatibilityForEpDevices'', ''OrtStatus*'', [In ''const OrtEpDevice* const*'', In ''size_t'', In ''const char*'', Out ''OrtCompiledModelCompatibility*'']),
     (''CreateExternalInitializerInfo'', ''OrtStatus*'', [In ''const ORTCHAR_T*'', In ''int64_t'', In ''size_t'', Out ''OrtExternalInitializerInfo**'']),
     (''TensorTypeAndShape_HasShape'', ''bool'', [In ''const OrtTensorTypeAndShapeInfo*'']),
     (''KernelInfo_GetConfigEntries'', ''OrtStatus*'', [In ''const OrtKernelInfo*'', Out ''OrtKeyValuePairs**'']),
     (''KernelInfo_GetOperatorDomain'', ''OrtStatus*'', [In ''const OrtKernelInfo*'', Out ''char*'', InOut ''size_t*''])]"

definition OrtApi_42 :: "decl list" where
  "OrtApi_42 =
    [(''KernelInfo_GetOperatorType'', ''OrtStatus*'', [In ''const OrtKernelInfo*'', Out ''char*'', InOut ''size_t*'']),
     (''KernelInfo_GetOperatorSinceVersion'', ''OrtStatus*'', [In ''const OrtKernelInfo*'', Out ''int*'']),
     (''GetInteropApi'', ''const OrtInteropApi*'', []),
     (''SessionGetEpDeviceForOutputs'', ''OrtStatus*'', [In ''const OrtSession*'', Out ''const OrtEpDevice**'', In ''size_t'']),
     (''GetNumHardwareDevices'', ''OrtStatus*'', [In ''const OrtEnv*'', Out ''size_t*'']),
     (''GetHardwareDevices'', ''OrtStatus*'', [In ''const OrtEnv*'', Out ''const OrtHardwareDevice**'', In ''size_t'']),
     (''GetHardwareDeviceEpIncompatibilityDetails'', ''OrtStatus*'', [In ''const OrtEnv*'', In ''const char*'', In ''const OrtHardwareDevice*'', Out ''OrtDeviceEpIncompatibilityDetails**''])]"

definition OrtApi_43 :: "decl list" where
  "OrtApi_43 =
    [(''DeviceEpIncompatibilityDetails_GetReasonsBitmask'', ''OrtStatus*'', [In ''const OrtDeviceEpIncompatibilityDetails*'', Out ''uint32_t*'']),
     (''DeviceEpIncompatibilityDetails_GetNotes'', ''OrtStatus*'', [In ''const OrtDeviceEpIncompatibilityDetails*'', Out ''const char**'']),
     (''DeviceEpIncompatibilityDetails_GetErrorCode'', ''OrtStatus*'', [In ''const OrtDeviceEpIncompatibilityDetails*'', Out ''int32_t*'']),
     (''ReleaseDeviceEpIncompatibilityDetails'', ''void'', [Frees ''OrtDeviceEpIncompatibilityDetails*'']),
     (''GetCompatibilityInfoFromModel'', ''OrtStatus*'', [In ''const ORTCHAR_T*'', In ''const char*'', InOut ''OrtAllocator*'', Out ''char**'']),
     (''GetCompatibilityInfoFromModelBytes'', ''OrtStatus*'', [In ''const void*'', In ''size_t'', In ''const char*'', InOut ''OrtAllocator*'', Out ''char**'']),
     (''CreateEnvWithOptions'', ''OrtStatus*'', [In ''const OrtEnvCreationOptions*'', Out ''OrtEnv**''])]"

definition OrtApi_44 :: "decl list" where
  "OrtApi_44 =
    [(''Session_GetEpGraphAssignmentInfo'', ''OrtStatus*'', [In ''const OrtSession*'', Out ''const OrtEpAssignedSubgraph* const**'', Out ''size_t*'']),
     (''EpAssignedSubgraph_GetEpName'', ''OrtStatus*'', [In ''const OrtEpAssignedSubgraph*'', Out ''const char**'']),
     (''EpAssignedSubgraph_GetNodes'', ''OrtStatus*'', [In ''const OrtEpAssignedSubgraph*'', Out ''const OrtEpAssignedNode* const**'', Out ''size_t*'']),
     (''EpAssignedNode_GetName'', ''OrtStatus*'', [In ''const OrtEpAssignedNode*'', Out ''const char**'']),
     (''EpAssignedNode_GetDomain'', ''OrtStatus*'', [In ''const OrtEpAssignedNode*'', Out ''const char**'']),
     (''EpAssignedNode_GetOperatorType'', ''OrtStatus*'', [In ''const OrtEpAssignedNode*'', Out ''const char**'']),
     (''RunOptionsSetSyncStream'', ''void'', [InOut ''OrtRunOptions*'', In ''OrtSyncStream*'']),
     (''GetTensorElementTypeAndShapeDataReference'', ''OrtStatus*'', [In ''const OrtValue*'', Out ''ONNXTensorElementDataType*'', Out ''const int64_t**'', Out ''size_t*'']),
     (''RunOptionsEnableProfiling'', ''OrtStatus*'', [InOut ''OrtRunOptions*'', In ''const ORTCHAR_T*''])]"

definition OrtApi_45 :: "decl list" where
  "OrtApi_45 =
    [(''RunOptionsDisableProfiling'', ''OrtStatus*'', [InOut ''OrtRunOptions*'']),
     (''KernelInfoGetAttributeArray_string'', ''OrtStatus*'', [In ''const OrtKernelInfo*'', In ''const char*'', InOut ''OrtAllocator*'', Out ''char***'', Out ''size_t*'']),
     (''SetPerSessionThreadPoolCallbacks'', ''OrtStatus*'', [InOut ''OrtEnv*'', In ''const OrtThreadPoolCallbacksConfig*'']),
     (''GetMemPatternEnabled'', ''OrtStatus*'', [In ''const OrtSessionOptions*'', Out ''int*'']),
     (''GetSessionExecutionMode'', ''OrtStatus*'', [In ''const OrtSessionOptions*'', Out ''ExecutionMode*'']),
     (''SessionReleaseCapturedGraph'', ''OrtStatus*'', [In ''OrtSession*'', In ''int'']),
     (''GetExperimentalFunction'', ''OrtExperimentalFnPtr'', [In ''const char*'']),
     (''KernelContext_GetSyncStream'', ''OrtStatus*'', [In ''const OrtKernelContext*'', Out ''OrtSyncStream**''])]"

definition OrtApi_functions :: "decl list" where
  "OrtApi_functions = concat [OrtApi_1, OrtApi_2, OrtApi_3, OrtApi_4, OrtApi_5, OrtApi_6, OrtApi_7, OrtApi_8, OrtApi_9, OrtApi_10, OrtApi_11, OrtApi_12, OrtApi_13, OrtApi_14, OrtApi_15, OrtApi_16, OrtApi_17, OrtApi_18, OrtApi_19, OrtApi_20, OrtApi_21, OrtApi_22, OrtApi_23, OrtApi_24, OrtApi_25, OrtApi_26, OrtApi_27, OrtApi_28, OrtApi_29, OrtApi_30, OrtApi_31, OrtApi_32, OrtApi_33, OrtApi_34, OrtApi_35, OrtApi_36, OrtApi_37, OrtApi_38, OrtApi_39, OrtApi_40, OrtApi_41, OrtApi_42, OrtApi_43, OrtApi_44, OrtApi_45]"

definition OrtModelEditorApi_1 :: "decl list" where
  "OrtModelEditorApi_1 =
    [(''CreateTensorTypeInfo'', ''OrtStatus*'', [In ''const OrtTensorTypeAndShapeInfo*'', Out ''OrtTypeInfo**'']),
     (''CreateSparseTensorTypeInfo'', ''OrtStatus*'', [In ''const OrtTensorTypeAndShapeInfo*'', Out ''OrtTypeInfo**'']),
     (''CreateMapTypeInfo'', ''OrtStatus*'', [In ''ONNXTensorElementDataType'', In ''const OrtTypeInfo*'', Out ''OrtTypeInfo**'']),
     (''CreateSequenceTypeInfo'', ''OrtStatus*'', [In ''const OrtTypeInfo*'', Out ''OrtTypeInfo**'']),
     (''CreateOptionalTypeInfo'', ''OrtStatus*'', [In ''const OrtTypeInfo*'', Out ''OrtTypeInfo**'']),
     (''CreateValueInfo'', ''OrtStatus*'', [In ''const char*'', In ''const OrtTypeInfo*'', Out ''OrtValueInfo**'']),
     (''CreateNode'', ''OrtStatus*'', [In ''const char*'', In ''const char*'', In ''const char*'', In ''const char* const*'', In ''size_t'', In ''const char* const*'', In ''size_t'', In ''OrtOpAttr**'', In ''size_t'', Out ''OrtNode**'']),
     (''CreateGraph'', ''OrtStatus*'', [Out ''OrtGraph**''])]"

definition OrtModelEditorApi_2 :: "decl list" where
  "OrtModelEditorApi_2 =
    [(''SetGraphInputs'', ''OrtStatus*'', [InOut ''OrtGraph*'', In ''OrtValueInfo**'', In ''size_t'']),
     (''SetGraphOutputs'', ''OrtStatus*'', [InOut ''OrtGraph*'', In ''OrtValueInfo**'', In ''size_t'']),
     (''AddInitializerToGraph'', ''OrtStatus*'', [InOut ''OrtGraph*'', In ''const char*'', InOut ''OrtValue*'', In ''bool'']),
     (''AddNodeToGraph'', ''OrtStatus*'', [InOut ''OrtGraph*'', InOut ''OrtNode*'']),
     (''CreateModel'', ''OrtStatus*'', [In ''const char* const*'', In ''const int*'', In ''size_t'', Out ''OrtModel**'']),
     (''AddGraphToModel'', ''OrtStatus*'', [InOut ''OrtModel*'', InOut ''OrtGraph*''])]"

definition OrtModelEditorApi_3 :: "decl list" where
  "OrtModelEditorApi_3 =
    [(''CreateSessionFromModel'', ''OrtStatus*'', [In ''const OrtEnv*'', In ''const OrtModel*'', In ''const OrtSessionOptions*'', Out ''OrtSession**'']),
     (''CreateModelEditorSession'', ''OrtStatus*'', [In ''const OrtEnv*'', In ''const ORTCHAR_T*'', In ''const OrtSessionOptions*'', Out ''OrtSession**'']),
     (''CreateModelEditorSessionFromArray'', ''OrtStatus*'', [In ''const OrtEnv*'', In ''const void*'', In ''size_t'', In ''const OrtSessionOptions*'', Out ''OrtSession**'']),
     (''SessionGetOpsetForDomain'', ''OrtStatus*'', [In ''const OrtSession*'', In ''const char*'', Out ''int*'']),
     (''ApplyModelToModelEditorSession'', ''OrtStatus*'', [InOut ''OrtSession*'', In ''OrtModel*'']),
     (''FinalizeModelEditorSession'', ''OrtStatus*'', [InOut ''OrtSession*'', In ''const OrtSessionOptions*'', InOpt ''OrtPrepackedWeightsContainer*''])]"

definition OrtModelEditorApi_functions :: "decl list" where
  "OrtModelEditorApi_functions = concat [OrtModelEditorApi_1, OrtModelEditorApi_2, OrtModelEditorApi_3]"

definition OrtCompileApi_1 :: "decl list" where
  "OrtCompileApi_1 =
    [(''ReleaseModelCompilationOptions'', ''void'', [Frees ''OrtModelCompilationOptions*'']),
     (''CreateModelCompilationOptionsFromSessionOptions'', ''OrtStatus*'', [In ''const OrtEnv*'', In ''const OrtSessionOptions*'', Out ''OrtModelCompilationOptions**'']),
     (''ModelCompilationOptions_SetInputModelPath'', ''OrtStatus*'', [In ''OrtModelCompilationOptions*'', In ''const ORTCHAR_T*'']),
     (''ModelCompilationOptions_SetInputModelFromBuffer'', ''OrtStatus*'', [In ''OrtModelCompilationOptions*'', In ''const void*'', In ''size_t'']),
     (''ModelCompilationOptions_SetOutputModelPath'', ''OrtStatus*'', [In ''OrtModelCompilationOptions*'', In ''const ORTCHAR_T*'']),
     (''ModelCompilationOptions_SetOutputModelExternalInitializersFile'', ''OrtStatus*'', [In ''OrtModelCompilationOptions*'', In ''const ORTCHAR_T*'', In ''size_t'']),
     (''ModelCompilationOptions_SetOutputModelBuffer'', ''OrtStatus*'', [In ''OrtModelCompilationOptions*'', InOut ''OrtAllocator*'', Out ''void**'', Out ''size_t*'']),
     (''ModelCompilationOptions_SetEpContextEmbedMode'', ''OrtStatus*'', [In ''OrtModelCompilationOptions*'', In ''bool''])]"

definition OrtCompileApi_2 :: "decl list" where
  "OrtCompileApi_2 =
    [(''CompileModel'', ''OrtStatus*'', [In ''const OrtEnv*'', In ''const OrtModelCompilationOptions*'']),
     (''ModelCompilationOptions_SetFlags'', ''OrtStatus*'', [In ''OrtModelCompilationOptions*'', In ''uint32_t'']),
     (''ModelCompilationOptions_SetEpContextBinaryInformation'', ''OrtStatus*'', [In ''OrtModelCompilationOptions*'', In ''const ORTCHAR_T*'', In ''const ORTCHAR_T*'']),
     (''ModelCompilationOptions_SetGraphOptimizationLevel'', ''OrtStatus*'', [In ''OrtModelCompilationOptions*'', In ''GraphOptimizationLevel'']),
     (''ModelCompilationOptions_SetOutputModelWriteFunc'', ''OrtStatus*'', [In ''OrtModelCompilationOptions*'', In ''OrtWriteBufferFunc'', In ''void*'']),
     (''ModelCompilationOptions_SetOutputModelGetInitializerLocationFunc'', ''OrtStatus*'', [In ''OrtModelCompilationOptions*'', In ''OrtGetInitializerLocationFunc'', In ''void*'']),
     (''ModelCompilationOptions_SetInputModel'', ''OrtStatus*'', [In ''OrtModelCompilationOptions*'', In ''const OrtModel*''])]"

definition OrtCompileApi_functions :: "decl list" where
  "OrtCompileApi_functions = concat [OrtCompileApi_1, OrtCompileApi_2]"

definition OrtInteropApi_1 :: "decl list" where
  "OrtInteropApi_1 =
    [(''CreateExternalResourceImporterForDevice'', ''OrtStatus*'', [In ''const OrtEpDevice*'', Out ''OrtExternalResourceImporter**'']),
     (''ReleaseExternalResourceImporter'', ''void'', [Frees ''OrtExternalResourceImporter*'']),
     (''CanImportMemory'', ''OrtStatus*'', [In ''const OrtExternalResourceImporter*'', In ''OrtExternalMemoryHandleType'', Out ''bool*'']),
     (''ImportMemory'', ''OrtStatus*'', [In ''OrtExternalResourceImporter*'', In ''const OrtExternalMemoryDescriptor*'', Out ''OrtExternalMemoryHandle**'']),
     (''ReleaseExternalMemoryHandle'', ''void'', [Frees ''OrtExternalMemoryHandle*'']),
     (''CreateTensorFromMemory'', ''OrtStatus*'', [In ''OrtExternalResourceImporter*'', In ''const OrtExternalMemoryHandle*'', In ''const OrtExternalTensorDescriptor*'', Out ''OrtValue**'']),
     (''CanImportSemaphore'', ''OrtStatus*'', [In ''const OrtExternalResourceImporter*'', In ''OrtExternalSemaphoreType'', Out ''bool*'']),
     (''ImportSemaphore'', ''OrtStatus*'', [In ''OrtExternalResourceImporter*'', In ''const OrtExternalSemaphoreDescriptor*'', Out ''OrtExternalSemaphoreHandle**'']),
     (''ReleaseExternalSemaphoreHandle'', ''void'', [Frees ''OrtExternalSemaphoreHandle*''])]"

definition OrtInteropApi_2 :: "decl list" where
  "OrtInteropApi_2 =
    [(''WaitSemaphore'', ''OrtStatus*'', [In ''OrtExternalResourceImporter*'', In ''OrtExternalSemaphoreHandle*'', In ''OrtSyncStream*'', In ''uint64_t'']),
     (''SignalSemaphore'', ''OrtStatus*'', [In ''OrtExternalResourceImporter*'', In ''OrtExternalSemaphoreHandle*'', In ''OrtSyncStream*'', In ''uint64_t'']),
     (''InitGraphicsInteropForEpDevice'', ''OrtStatus*'', [In ''const OrtEpDevice*'', In ''const OrtGraphicsInteropConfig*'']),
     (''DeinitGraphicsInteropForEpDevice'', ''OrtStatus*'', [In ''const OrtEpDevice*''])]"

definition OrtInteropApi_functions :: "decl list" where
  "OrtInteropApi_functions = concat [OrtInteropApi_1, OrtInteropApi_2]"

definition OrtEpApi_1 :: "decl list" where
  "OrtEpApi_1 =
    [(''CreateEpDevice'', ''OrtStatus*'', [In ''OrtEpFactory*'', In ''const OrtHardwareDevice*'', InOpt ''const OrtKeyValuePairs*'', InOpt ''const OrtKeyValuePairs*'', Out ''OrtEpDevice**'']),
     (''ReleaseEpDevice'', ''void'', [Frees ''OrtEpDevice*'']),
     (''EpGraphSupportInfo_AddNodesToFuse'', ''OrtStatus*'', [In ''OrtEpGraphSupportInfo*'', In ''const OrtNode* const*'', In ''size_t'', InOpt ''const OrtNodeFusionOptions*'']),
     (''EpGraphSupportInfo_AddSingleNode'', ''OrtStatus*'', [In ''OrtEpGraphSupportInfo*'', In ''const OrtNode*'']),
     (''NodeComputeContext_NodeName'', ''const char*'', [In ''const OrtNodeComputeContext*'']),
     (''EpDevice_AddAllocatorInfo'', ''OrtStatus*'', [In ''OrtEpDevice*'', In ''const OrtMemoryInfo*'']),
     (''MemoryInfo_GetMemoryDevice'', ''const OrtMemoryDevice*'', [In ''const OrtMemoryInfo*'']),
     (''Value_GetMemoryDevice'', ''const OrtMemoryDevice*'', [In ''const OrtValue*'']),
     (''MemoryDevice_AreEqual'', ''bool'', [In ''const OrtMemoryDevice*'', In ''const OrtMemoryDevice*'']),
     (''MemoryDevice_GetDeviceType'', ''OrtMemoryInfoDeviceType'', [In ''const OrtMemoryDevice*'']),
     (''MemoryDevice_GetMemoryType'', ''OrtDeviceMemoryType'', [In ''const OrtMemoryDevice*''])]"

definition OrtEpApi_2 :: "decl list" where
  "OrtEpApi_2 =
    [(''MemoryDevice_GetVendorId'', ''uint32_t'', [In ''const OrtMemoryDevice*'']),
     (''MemoryDevice_GetDeviceId'', ''uint32_t'', [In ''const OrtMemoryDevice*'']),
     (''SyncStream_GetImpl'', ''const OrtSyncStreamImpl*'', [In ''const OrtSyncStream*'']),
     (''SyncStream_GetSyncId'', ''uint64_t'', [In ''const OrtSyncStream*'']),
     (''GetSyncIdForLastWaitOnSyncStream'', ''uint64_t'', [In ''const OrtSyncStream*'', In ''const OrtSyncStream*'']),
     (''CreateHardwareDevice'', ''OrtStatus*'', [In ''OrtHardwareDeviceType'', In ''uint32_t'', In ''uint32_t'', In ''const char*'', InOpt ''const OrtKeyValuePairs*'', Out ''OrtHardwareDevice**'']),
     (''ReleaseHardwareDevice'', ''void'', [Frees ''OrtHardwareDevice*'']),
     (''CreateKernelRegistry'', ''OrtStatus*'', [Out ''OrtKernelRegistry**'']),
     (''ReleaseKernelRegistry'', ''void'', [Frees ''OrtKernelRegistry*'']),
     (''KernelRegistry_AddKernel'', ''OrtStatus*'', [In ''OrtKernelRegistry*'', In ''const OrtKernelDef*'', In ''OrtKernelCreateFunc'', In ''void*'']),
     (''CreateKernelDefBuilder'', ''OrtStatus*'', [Out ''OrtKernelDefBuilder**'']),
     (''ReleaseKernelDefBuilder'', ''void'', [Frees ''OrtKernelDefBuilder*'']),
     (''KernelDefBuilder_SetOperatorType'', ''OrtStatus*'', [In ''OrtKernelDefBuilder*'', In ''const char*''])]"

definition OrtEpApi_3 :: "decl list" where
  "OrtEpApi_3 =
    [(''KernelDefBuilder_SetDomain'', ''OrtStatus*'', [In ''OrtKernelDefBuilder*'', In ''const char*'']),
     (''KernelDefBuilder_SetSinceVersion'', ''OrtStatus*'', [In ''OrtKernelDefBuilder*'', In ''int'', In ''int'']),
     (''KernelDefBuilder_SetExecutionProvider'', ''OrtStatus*'', [In ''OrtKernelDefBuilder*'', In ''const char*'']),
     (''KernelDefBuilder_SetInputMemType'', ''OrtStatus*'', [In ''OrtKernelDefBuilder*'', In ''size_t'', In ''OrtMemType'']),
     (''KernelDefBuilder_SetOutputMemType'', ''OrtStatus*'', [In ''OrtKernelDefBuilder*'', In ''size_t'', In ''OrtMemType'']),
     (''KernelDefBuilder_AddTypeConstraint'', ''OrtStatus*'', [In ''OrtKernelDefBuilder*'', In ''const char*'', In ''const OrtDataType* const*'', In ''size_t'']),
     (''KernelDefBuilder_AddInputOutputAliases'', ''OrtStatus*'', [In ''OrtKernelDefBuilder*'', In ''int const*'', In ''int const*'', In ''size_t'']),
     (''KernelDefBuilder_AddInputOutputMutableAliases'', ''OrtStatus*'', [In ''OrtKernelDefBuilder*'', In ''int const*'', In ''int const*'', In ''size_t'']),
     (''KernelDefBuilder_Build'', ''OrtStatus*'', [In ''OrtKernelDefBuilder*'', Out ''OrtKernelDef**'']),
     (''ReleaseKernelDef'', ''void'', [Frees ''OrtKernelDef*'']),
     (''KernelDef_GetOperatorType'', ''const char*'', [In ''const OrtKernelDef*''])]"

definition OrtEpApi_4 :: "decl list" where
  "OrtEpApi_4 =
    [(''KernelDef_GetDomain'', ''const char*'', [In ''const OrtKernelDef*'']),
     (''KernelDef_GetSinceVersion'', ''OrtStatus*'', [In ''const OrtKernelDef*'', Out ''int*'', Out ''int*'']),
     (''KernelDef_GetExecutionProvider'', ''const char*'', [In ''const OrtKernelDef*'']),
     (''KernelDef_GetInputMemType'', ''OrtStatus*'', [In ''const OrtKernelDef*'', In ''size_t'', Out ''OrtMemType*'']),
     (''KernelDef_GetOutputMemType'', ''OrtStatus*'', [In ''const OrtKernelDef*'', In ''size_t'', Out ''OrtMemType*'']),
     (''GetTensorDataType'', ''OrtStatus*'', [In ''ONNXTensorElementDataType'', Out ''const OrtDataType**'']),
     (''EpGraphSupportInfo_LookUpKernel'', ''OrtStatus*'', [In ''OrtEpGraphSupportInfo*'', In ''const OrtNode*'', Out ''const OrtKernelDef**'']),
     (''SharedPrePackedWeightCache_StoreWeightData'', ''OrtStatus*'', [In ''OrtSharedPrePackedWeightCache*'', In ''void**'', In ''size_t*'', In ''size_t'']),
     (''KernelInfo_GetEp'', ''OrtStatus*'', [In ''const OrtKernelInfo*'', Out ''const OrtEp**'']),
     (''DeviceEpIncompatibilityDetails_SetDetails'', ''OrtStatus*'', [InOut ''OrtDeviceEpIncompatibilityDetails*'', In ''uint32_t'', In ''int32_t'', InOpt ''const char*''])]"

definition OrtEpApi_5 :: "decl list" where
  "OrtEpApi_5 =
    [(''CreateIfKernel'', ''OrtStatus*'', [In ''const OrtKernelInfo*'', Out ''OrtKernelImpl**'']),
     (''CreateLoopKernel'', ''OrtStatus*'', [In ''const OrtKernelInfo*'', In ''OrtLoopKernelHelper*'', Out ''OrtKernelImpl**'']),
     (''CreateScanKernel'', ''OrtStatus*'', [In ''const OrtKernelInfo*'', In ''OrtScanKernelHelper*'', Out ''OrtKernelImpl**'']),
     (''ReleaseKernelImpl'', ''void'', [Frees ''OrtKernelImpl*'']),
     (''GetEnvConfigEntries'', ''OrtStatus*'', [Out ''OrtKeyValuePairs**'']),
     (''GetOpSchema'', ''OrtStatus*'', [In ''const char*'', In ''int'', In ''const char*'', Out ''OrtOpSchema**'']),
     (''ReleaseOpSchema'', ''void'', [Frees ''OrtOpSchema*''])]"

definition OrtEpApi_6 :: "decl list" where
  "OrtEpApi_6 =
    [(''OpSchema_GetSinceVersion'', ''OrtStatus*'', [In ''const OrtOpSchema*'', Out ''int*'']),
     (''OpSchema_GetNumInputs'', ''OrtStatus*'', [In ''const OrtOpSchema*'', Out ''size_t*'']),
     (''OpSchema_GetInputName'', ''OrtStatus*'', [In ''const OrtOpSchema*'', In ''size_t'', Out ''const char**'']),
     (''OpSchema_GetInputTypeConstraint'', ''OrtStatus*'', [In ''const OrtOpSchema*'', In ''size_t'', Out ''const OrtOpSchemaTypeConstraint**'']),
     (''OpSchema_GetNumOutputs'', ''OrtStatus*'', [In ''const OrtOpSchema*'', Out ''size_t*'']),
     (''OpSchema_GetOutputName'', ''OrtStatus*'', [In ''const OrtOpSchema*'', In ''size_t'', Out ''const char**'']),
     (''OpSchema_GetOutputTypeConstraint'', ''OrtStatus*'', [In ''const OrtOpSchema*'', In ''size_t'', Out ''const OrtOpSchemaTypeConstraint**'']),
     (''OpSchema_GetTypeConstraintCount'', ''OrtStatus*'', [In ''const OrtOpSchema*'', Out ''size_t*'']),
     (''OpSchema_GetTypeConstraint'', ''OrtStatus*'', [In ''const OrtOpSchema*'', In ''size_t'', Out ''const OrtOpSchemaTypeConstraint**''])]"

definition OrtEpApi_7 :: "decl list" where
  "OrtEpApi_7 =
    [(''OpSchemaTypeConstraint_GetTypeParamName'', ''OrtStatus*'', [In ''const OrtOpSchemaTypeConstraint*'', Out ''const char**'']),
     (''OpSchemaTypeConstraint_GetAllowedTypes'', ''OrtStatus*'', [In ''const OrtOpSchemaTypeConstraint*'', Out ''const char* const**'', Out ''size_t*'']),
     (''OpSchemaTypeConstraint_GetInputIndices'', ''OrtStatus*'', [In ''const OrtOpSchemaTypeConstraint*'', Out ''const size_t**'', Out ''size_t*'']),
     (''OpSchemaTypeConstraint_GetOutputIndices'', ''OrtStatus*'', [In ''const OrtOpSchemaTypeConstraint*'', Out ''const size_t**'', Out ''size_t*'']),
     (''CreateProfilingEvent'', ''OrtStatus*'', [In ''OrtProfilingEventCategory'', In ''int32_t'', In ''int32_t'', In ''const char*'', In ''int64_t'', In ''int64_t'', In ''const char* const*'', In ''const char* const*'', In ''size_t'', Out ''OrtProfilingEvent**'']),
     (''ReleaseProfilingEvent'', ''void'', [Frees ''OrtProfilingEvent*'']),
     (''ProfilingEvent_GetCategory'', ''OrtStatus*'', [In ''const OrtProfilingEvent*'', Out ''OrtProfilingEventCategory*'']),
     (''ProfilingEvent_GetName'', ''OrtStatus*'', [In ''const OrtProfilingEvent*'', Out ''const char**'']),
     (''ProfilingEvent_GetTimestampUs'', ''OrtStatus*'', [In ''const OrtProfilingEvent*'', Out ''int64_t*''])]"

definition OrtEpApi_8 :: "decl list" where
  "OrtEpApi_8 =
    [(''ProfilingEvent_GetDurationUs'', ''OrtStatus*'', [In ''const OrtProfilingEvent*'', Out ''int64_t*'']),
     (''ProfilingEvent_GetArgValue'', ''OrtStatus*'', [In ''const OrtProfilingEvent*'', In ''const char*'', Out ''const char**'']),
     (''ProfilingEventsContainer_AddEvents'', ''OrtStatus*'', [In ''OrtProfilingEventsContainer*'', In ''const OrtProfilingEvent* const*'', In ''size_t''])]"

definition OrtEpApi_functions :: "decl list" where
  "OrtEpApi_functions = concat [OrtEpApi_1, OrtEpApi_2, OrtEpApi_3, OrtEpApi_4, OrtEpApi_5, OrtEpApi_6, OrtEpApi_7, OrtEpApi_8]"

section \<open>Calls that conform\<close>

primrec functions_of :: "table \<Rightarrow> decl list" where
  "functions_of OrtApi = OrtApi_functions"
| "functions_of ModelEditorApi = OrtModelEditorApi_functions"
| "functions_of CompileApi = OrtCompileApi_functions"
| "functions_of EpApi = OrtEpApi_functions"

text \<open>
  A call passes the parameters that are read and may leave out buffers to be written, which are part of the
  reply. Integers and enumerations are passed as numbers, C strings and arrays where the type has them. The
  member \<open>Free\<close> of an allocator and the accesses to memory shared with the runtime are not functions of a
  table.
\<close>

definition stars :: "string \<Rightarrow> nat" where
  "stars t = length (filter (\<lambda>c. c = CHR ''*'') t)"

primrec suits :: "string \<Rightarrow> arg \<Rightarrow> bool" where
  "suits t (Ptr p) \<longleftrightarrow> 0 < stars t"
| "suits t (Num k) \<longleftrightarrow> stars t = 0"
| "suits t (Str x) \<longleftrightarrow> t \<in> set [''const char*'', ''const ORTCHAR_T*'']"
| "suits t (Ptrs ps) \<longleftrightarrow> stars t = 2"
| "suits t (Nums ks) \<longleftrightarrow> stars t = 1"
| "suits t (Strs xs) \<longleftrightarrow> t = ''const char* const*''"

fun passed :: "param list \<Rightarrow> arg list \<Rightarrow> bool" where
  "passed [] as \<longleftrightarrow> as = []"
| "passed (Out t # ps) as \<longleftrightarrow> passed ps as \<or> (case as of [] \<Rightarrow> False | a # bs \<Rightarrow> suits t a \<and> passed ps bs)"
| "passed (In t # ps) as \<longleftrightarrow> (case as of [] \<Rightarrow> False | a # bs \<Rightarrow> suits t a \<and> passed ps bs)"
| "passed (InOpt t # ps) as \<longleftrightarrow> (case as of [] \<Rightarrow> False | a # bs \<Rightarrow> suits t a \<and> passed ps bs)"
| "passed (InOut t # ps) as \<longleftrightarrow> (case as of [] \<Rightarrow> False | a # bs \<Rightarrow> suits t a \<and> passed ps bs)"
| "passed (Frees t # ps) as \<longleftrightarrow> (case as of [] \<Rightarrow> False | a # bs \<Rightarrow> suits t a \<and> passed ps bs)"

definition memory_accesses :: "string list" where
  "memory_accesses = [''OrtAllocator::Free'', ''<store>'', ''<load>'']"

fun conforms :: "event \<Rightarrow> bool" where
  "conforms (Call T n args, r) \<longleftrightarrow>
     (T = OrtApi \<and> n \<in> set memory_accesses \<and> r_status r = 0)
     \<or> (\<exists>(fn, res, ps) \<in> set (functions_of T). fn = n \<and> passed ps args \<and> (r_status r \<noteq> 0 \<longrightarrow> res = ''OrtStatus*''))"

end
