(* ===== verification/Ort_Books.thy ===== *)
theory Ort_Books imports Ort_Interface Ort_Resources begin

text \<open>
  The books of \<open>Ort_Settle\<close> against the headers: which declared functions hand out a handle, and which release
  it. The tables \<open>creators\<close> and \<open>release_names\<close> are checked entry by entry.
\<close>

section \<open>Functions that hand out a handle\<close>

text \<open>An output parameter \<open>OrtX**\<close> hands out an \<open>OrtX\<close>; one of a pointer to \<open>const\<close> only lends it.\<close>

definition handle_type :: "kind \<Rightarrow> string" where
  "handle_type K = ''Ort'' @ kind_name K @ ''**''"

definition made_by :: "param list \<Rightarrow> string list" where
  "made_by ps = concat (map (\<lambda>p. case p of Out t \<Rightarrow> if t \<in> set (map handle_type kinds) then [t] else [] | _ \<Rightarrow> []) ps)"

definition makers :: "decl list \<Rightarrow> (string \<times> string) list" where
  "makers ds = concat (map (\<lambda>(n, res, ps). map (Pair n) (made_by ps)) ds)"

text \<open>All tables, also that of the interop API, which no wrapper calls.\<close>

definition all_functions :: "decl list" where
  "all_functions = concat [OrtApi_functions, OrtModelEditorApi_functions, OrtCompileApi_functions, OrtInteropApi_functions,
     OrtEpApi_functions]"

lemma makers_append: "makers [] = []" "makers (ds @ es) = makers ds @ makers es"
  by (simp_all add: makers_def)

lemma handle_types: "map handle_type kinds = [''OrtValue**'', ''OrtSession**'', ''OrtSessionOptions**'', ''OrtRunOptions**'',
    ''OrtTensorTypeAndShapeInfo**'', ''OrtTypeInfo**'', ''OrtValueInfo**'', ''OrtMemoryInfo**'', ''OrtEnv**'']"
  by (simp add: handle_type_def kinds_def)

lemmas makers_simps = makers_def made_by_def handle_types

text \<open>Table by table.\<close>

lemma makers_OrtApi_1:
  "makers OrtApi_1 = [(''CreateEnv'', ''OrtEnv**''), (''CreateEnvWithCustomLogger'', ''OrtEnv**''), (''CreateSession'', ''OrtSession**''), (''CreateSessionFromArray'', ''OrtSession**'')]"
  "makers OrtApi_2 = [(''CreateSessionOptions'', ''OrtSessionOptions**''), (''CloneSessionOptions'', ''OrtSessionOptions**'')]"
  "makers OrtApi_3 = [(''SessionGetInputTypeInfo'', ''OrtTypeInfo**'')]"
  "makers OrtApi_4 = [(''SessionGetOutputTypeInfo'', ''OrtTypeInfo**''), (''SessionGetOverridableInitializerTypeInfo'', ''OrtTypeInfo**''), (''CreateRunOptions'', ''OrtRunOptions**'')]"
  "makers OrtApi_5 = [(''CreateTensorAsOrtValue'', ''OrtValue**''), (''CreateTensorWithDataAsOrtValue'', ''OrtValue**''), (''CreateTensorTypeAndShapeInfo'', ''OrtTensorTypeAndShapeInfo**'')]"
  "makers OrtApi_6 = [(''GetTensorTypeAndShape'', ''OrtTensorTypeAndShapeInfo**''), (''GetTypeInfo'', ''OrtTypeInfo**''), (''CreateMemoryInfo'', ''OrtMemoryInfo**''), (''CreateCpuMemoryInfo'', ''OrtMemoryInfo**'')]"
  "makers OrtApi_7 = [(''GetValue'', ''OrtValue**''), (''CreateValue'', ''OrtValue**'')]"
  "makers OrtApi_8 = [(''CreateOpaqueValue'', ''OrtValue**''), (''KernelContext_GetOutput'', ''OrtValue**'')]"
  "makers OrtApi_9 = [(''GetMapValueType'', ''OrtTypeInfo**''), (''GetSequenceElementType'', ''OrtTypeInfo**'')]"
  "makers OrtApi_10 = [(''CreateEnvWithGlobalThreadPools'', ''OrtEnv**'')]"
  "makers OrtApi_11 = []"
  "makers OrtApi_12 = []"
  "makers OrtApi_13 = [(''CreateEnvWithCustomLoggerAndGlobalThreadPools'', ''OrtEnv**'')]"
  "makers OrtApi_14 = []"
  "makers OrtApi_15 = []"
  by (simp_all add: makers_simps OrtApi_1_def OrtApi_2_def OrtApi_3_def OrtApi_4_def OrtApi_5_def OrtApi_6_def OrtApi_7_def OrtApi_8_def OrtApi_9_def OrtApi_10_def OrtApi_11_def OrtApi_12_def OrtApi_13_def OrtApi_14_def OrtApi_15_def)

lemma makers_OrtApi_2:
  "makers OrtApi_16 = [(''CreateSessionWithPrepackedWeightsContainer'', ''OrtSession**''), (''CreateSessionFromArrayWithPrepackedWeightsContainer'', ''OrtSession**'')]"
  "makers OrtApi_17 = [(''CreateSparseTensorAsOrtValue'', ''OrtValue**'')]"
  "makers OrtApi_18 = [(''CreateSparseTensorWithValuesAsOrtValue'', ''OrtValue**''), (''GetSparseTensorValuesTypeAndShape'', ''OrtTensorTypeAndShapeInfo**''), (''GetSparseTensorIndicesTypeShape'', ''OrtTensorTypeAndShapeInfo**'')]"
  "makers OrtApi_19 = []"
  "makers OrtApi_20 = []"
  "makers OrtApi_21 = []"
  "makers OrtApi_22 = []"
  "makers OrtApi_23 = []"
  "makers OrtApi_24 = [(''KernelInfo_GetInputTypeInfo'', ''OrtTypeInfo**''), (''KernelInfo_GetOutputTypeInfo'', ''OrtTypeInfo**'')]"
  "makers OrtApi_25 = [(''KernelInfoGetAttribute_tensor'', ''OrtValue**'')]"
  "makers OrtApi_26 = []"
  "makers OrtApi_27 = [(''GetOptionalContainedTypeInfo'', ''OrtTypeInfo**'')]"
  "makers OrtApi_28 = [(''ShapeInferContext_GetInputTypeShape'', ''OrtTensorTypeAndShapeInfo**'')]"
  "makers OrtApi_29 = []"
  "makers OrtApi_30 = []"
  by (simp_all add: makers_simps OrtApi_16_def OrtApi_17_def OrtApi_18_def OrtApi_19_def OrtApi_20_def OrtApi_21_def OrtApi_22_def OrtApi_23_def OrtApi_24_def OrtApi_25_def OrtApi_26_def OrtApi_27_def OrtApi_28_def OrtApi_29_def OrtApi_30_def)

lemma makers_OrtApi_3:
  "makers OrtApi_31 = [(''CreateTensorWithDataAndDeleterAsOrtValue'', ''OrtValue**'')]"
  "makers OrtApi_32 = []"
  "makers OrtApi_33 = [(''CreateMemoryInfo_V2'', ''OrtMemoryInfo**'')]"
  "makers OrtApi_34 = []"
  "makers OrtApi_35 = []"
  "makers OrtApi_36 = []"
  "makers OrtApi_37 = []"
  "makers OrtApi_38 = [(''OpAttr_GetTensorAttributeAsOrtValue'', ''OrtValue**'')]"
  "makers OrtApi_39 = []"
  "makers OrtApi_40 = []"
  "makers OrtApi_41 = []"
  "makers OrtApi_42 = []"
  "makers OrtApi_43 = [(''CreateEnvWithOptions'', ''OrtEnv**'')]"
  "makers OrtApi_44 = []"
  "makers OrtApi_45 = []"
  by (simp_all add: makers_simps OrtApi_31_def OrtApi_32_def OrtApi_33_def OrtApi_34_def OrtApi_35_def OrtApi_36_def OrtApi_37_def OrtApi_38_def OrtApi_39_def OrtApi_40_def OrtApi_41_def OrtApi_42_def OrtApi_43_def OrtApi_44_def OrtApi_45_def)

lemma makers_OrtModelEditorApi:
  "makers OrtModelEditorApi_1 = [(''CreateTensorTypeInfo'', ''OrtTypeInfo**''), (''CreateSparseTensorTypeInfo'', ''OrtTypeInfo**''), (''CreateMapTypeInfo'', ''OrtTypeInfo**''), (''CreateSequenceTypeInfo'', ''OrtTypeInfo**''), (''CreateOptionalTypeInfo'', ''OrtTypeInfo**''), (''CreateValueInfo'', ''OrtValueInfo**'')]"
  "makers OrtModelEditorApi_2 = []"
  "makers OrtModelEditorApi_3 = [(''CreateSessionFromModel'', ''OrtSession**''), (''CreateModelEditorSession'', ''OrtSession**''), (''CreateModelEditorSessionFromArray'', ''OrtSession**'')]"
  by (simp_all add: makers_simps OrtModelEditorApi_1_def OrtModelEditorApi_2_def OrtModelEditorApi_3_def)

lemma makers_OrtCompileApi:
  "makers OrtCompileApi_1 = []"
  "makers OrtCompileApi_2 = []"
  by (simp_all add: makers_simps OrtCompileApi_1_def OrtCompileApi_2_def)

lemma makers_OrtInteropApi:
  "makers OrtInteropApi_1 = [(''CreateTensorFromMemory'', ''OrtValue**'')]"
  "makers OrtInteropApi_2 = []"
  by (simp_all add: makers_simps OrtInteropApi_1_def OrtInteropApi_2_def)

lemma makers_OrtEpApi:
  "makers OrtEpApi_1 = []"
  "makers OrtEpApi_2 = []"
  "makers OrtEpApi_3 = []"
  "makers OrtEpApi_4 = []"
  "makers OrtEpApi_5 = []"
  "makers OrtEpApi_6 = []"
  "makers OrtEpApi_7 = []"
  "makers OrtEpApi_8 = []"
  by (simp_all add: makers_simps OrtEpApi_1_def OrtEpApi_2_def OrtEpApi_3_def OrtEpApi_4_def OrtEpApi_5_def OrtEpApi_6_def OrtEpApi_7_def OrtEpApi_8_def)

lemma makers_all: "makers all_functions =
    [(''CreateEnv'', ''OrtEnv**''),
     (''CreateEnvWithCustomLogger'', ''OrtEnv**''),
     (''CreateSession'', ''OrtSession**''),
     (''CreateSessionFromArray'', ''OrtSession**''),
     (''CreateSessionOptions'', ''OrtSessionOptions**''),
     (''CloneSessionOptions'', ''OrtSessionOptions**''),
     (''SessionGetInputTypeInfo'', ''OrtTypeInfo**''),
     (''SessionGetOutputTypeInfo'', ''OrtTypeInfo**''),
     (''SessionGetOverridableInitializerTypeInfo'', ''OrtTypeInfo**''),
     (''CreateRunOptions'', ''OrtRunOptions**''),
     (''CreateTensorAsOrtValue'', ''OrtValue**''),
     (''CreateTensorWithDataAsOrtValue'', ''OrtValue**''),
     (''CreateTensorTypeAndShapeInfo'', ''OrtTensorTypeAndShapeInfo**''),
     (''GetTensorTypeAndShape'', ''OrtTensorTypeAndShapeInfo**''),
     (''GetTypeInfo'', ''OrtTypeInfo**''),
     (''CreateMemoryInfo'', ''OrtMemoryInfo**''),
     (''CreateCpuMemoryInfo'', ''OrtMemoryInfo**''),
     (''GetValue'', ''OrtValue**''),
     (''CreateValue'', ''OrtValue**''),
     (''CreateOpaqueValue'', ''OrtValue**''),
     (''KernelContext_GetOutput'', ''OrtValue**''),
     (''GetMapValueType'', ''OrtTypeInfo**''),
     (''GetSequenceElementType'', ''OrtTypeInfo**''),
     (''CreateEnvWithGlobalThreadPools'', ''OrtEnv**''),
     (''CreateEnvWithCustomLoggerAndGlobalThreadPools'', ''OrtEnv**''),
     (''CreateSessionWithPrepackedWeightsContainer'', ''OrtSession**''),
     (''CreateSessionFromArrayWithPrepackedWeightsContainer'', ''OrtSession**''),
     (''CreateSparseTensorAsOrtValue'', ''OrtValue**''),
     (''CreateSparseTensorWithValuesAsOrtValue'', ''OrtValue**''),
     (''GetSparseTensorValuesTypeAndShape'', ''OrtTensorTypeAndShapeInfo**''),
     (''GetSparseTensorIndicesTypeShape'', ''OrtTensorTypeAndShapeInfo**''),
     (''KernelInfo_GetInputTypeInfo'', ''OrtTypeInfo**''),
     (''KernelInfo_GetOutputTypeInfo'', ''OrtTypeInfo**''),
     (''KernelInfoGetAttribute_tensor'', ''OrtValue**''),
     (''GetOptionalContainedTypeInfo'', ''OrtTypeInfo**''),
     (''ShapeInferContext_GetInputTypeShape'', ''OrtTensorTypeAndShapeInfo**''),
     (''CreateTensorWithDataAndDeleterAsOrtValue'', ''OrtValue**''),
     (''CreateMemoryInfo_V2'', ''OrtMemoryInfo**''),
     (''OpAttr_GetTensorAttributeAsOrtValue'', ''OrtValue**''),
     (''CreateEnvWithOptions'', ''OrtEnv**''),
     (''CreateTensorTypeInfo'', ''OrtTypeInfo**''),
     (''CreateSparseTensorTypeInfo'', ''OrtTypeInfo**''),
     (''CreateMapTypeInfo'', ''OrtTypeInfo**''),
     (''CreateSequenceTypeInfo'', ''OrtTypeInfo**''),
     (''CreateOptionalTypeInfo'', ''OrtTypeInfo**''),
     (''CreateValueInfo'', ''OrtValueInfo**''),
     (''CreateSessionFromModel'', ''OrtSession**''),
     (''CreateModelEditorSession'', ''OrtSession**''),
     (''CreateModelEditorSessionFromArray'', ''OrtSession**''),
     (''CreateTensorFromMemory'', ''OrtValue**'')]"
  by (simp add: all_functions_def OrtApi_functions_def OrtModelEditorApi_functions_def OrtCompileApi_functions_def
      OrtInteropApi_functions_def OrtEpApi_functions_def makers_append makers_OrtApi_1 makers_OrtApi_2 makers_OrtApi_3
      makers_OrtModelEditorApi makers_OrtCompileApi makers_OrtInteropApi makers_OrtEpApi)

text \<open>
  Functions that hand out a handle the books do not follow: it belongs to the runtime or to a kernel, or the
  wrapper around it is not one of those accounted for.
\<close>

primrec uncounted :: "kind \<Rightarrow> string list" where
  "uncounted KValue = [''KernelContext_GetOutput'', ''KernelInfoGetAttribute_tensor'', ''OpAttr_GetTensorAttributeAsOrtValue'',
     ''CreateTensorFromMemory'']"
| "uncounted KSession = []"
| "uncounted KSessionOptions = []"
| "uncounted KRunOptions = []"
| "uncounted KTensorInfo = [''ShapeInferContext_GetInputTypeShape'']"
| "uncounted KTypeInfo = [''GetMapValueType'', ''GetSequenceElementType'', ''KernelInfo_GetInputTypeInfo'',
     ''KernelInfo_GetOutputTypeInfo'', ''GetOptionalContainedTypeInfo'']"
| "uncounted KValueInfo = []"
| "uncounted KMemoryInfo = []"
| "uncounted KEnv = []"

definition makers_of :: "kind \<Rightarrow> string list" where
  "makers_of K = map fst (filter (\<lambda>(n, t). t = handle_type K) (makers all_functions))"

lemma makers_of_kinds: "set (makers_of K) = set (creators K) \<union> set (uncounted K)"
  by (cases K; auto simp: makers_of_def makers_all handle_type_def)

section \<open>Declarations in use\<close>

text \<open>The release functions, and the functions the OPUS engine reaches.\<close>

lemma chunk_OrtApi_1: "set OrtApi_1 \<subseteq> set (functions_of OrtApi)"
  by (auto simp: OrtApi_functions_def)

lemma declares_OrtApi_1:
  "(''GetErrorCode'', ''OrtErrorCode'', [In ''const OrtStatus*'']) \<in> set (functions_of OrtApi)"
  "(''GetErrorMessage'', ''const char*'', [In ''const OrtStatus*'']) \<in> set (functions_of OrtApi)"
  "(''CreateEnv'', ''OrtStatus*'', [In ''OrtLoggingLevel'', In ''const char*'', Out ''OrtEnv**'']) \<in> set (functions_of OrtApi)"
  "(''CreateSession'', ''OrtStatus*'', [In ''const OrtEnv*'', In ''const ORTCHAR_T*'', In ''const OrtSessionOptions*'', Out ''OrtSession**'']) \<in> set (functions_of OrtApi)"
  "(''Run'', ''OrtStatus*'', [InOut ''OrtSession*'', InOpt ''const OrtRunOptions*'', In ''const char* const*'', In ''const OrtValue* const*'', In ''size_t'', In ''const char* const*'', In ''size_t'', InOut ''OrtValue**'']) \<in> set (functions_of OrtApi)"
  using chunk_OrtApi_1 by (auto simp: OrtApi_1_def)

lemma chunk_OrtApi_2: "set OrtApi_2 \<subseteq> set (functions_of OrtApi)"
  by (auto simp: OrtApi_functions_def)

lemma declares_OrtApi_2:
  "(''CreateSessionOptions'', ''OrtStatus*'', [Out ''OrtSessionOptions**'']) \<in> set (functions_of OrtApi)"
  using chunk_OrtApi_2 by (auto simp: OrtApi_2_def)

lemma chunk_OrtApi_3: "set OrtApi_3 \<subseteq> set (functions_of OrtApi)"
  by (auto simp: OrtApi_functions_def)

lemma declares_OrtApi_3:
  "(''SetSessionGraphOptimizationLevel'', ''OrtStatus*'', [InOut ''OrtSessionOptions*'', In ''GraphOptimizationLevel'']) \<in> set (functions_of OrtApi)"
  "(''SetIntraOpNumThreads'', ''OrtStatus*'', [InOut ''OrtSessionOptions*'', In ''int'']) \<in> set (functions_of OrtApi)"
  "(''SetInterOpNumThreads'', ''OrtStatus*'', [InOut ''OrtSessionOptions*'', In ''int'']) \<in> set (functions_of OrtApi)"
  "(''SessionGetInputCount'', ''OrtStatus*'', [In ''const OrtSession*'', Out ''size_t*'']) \<in> set (functions_of OrtApi)"
  "(''SessionGetOutputCount'', ''OrtStatus*'', [In ''const OrtSession*'', Out ''size_t*'']) \<in> set (functions_of OrtApi)"
  using chunk_OrtApi_3 by (auto simp: OrtApi_3_def)

lemma chunk_OrtApi_4: "set OrtApi_4 \<subseteq> set (functions_of OrtApi)"
  by (auto simp: OrtApi_functions_def)

lemma declares_OrtApi_4:
  "(''SessionGetInputName'', ''OrtStatus*'', [In ''const OrtSession*'', In ''size_t'', InOut ''OrtAllocator*'', Out ''char**'']) \<in> set (functions_of OrtApi)"
  "(''SessionGetOutputName'', ''OrtStatus*'', [In ''const OrtSession*'', In ''size_t'', InOut ''OrtAllocator*'', Out ''char**'']) \<in> set (functions_of OrtApi)"
  "(''CreateRunOptions'', ''OrtStatus*'', [Out ''OrtRunOptions**'']) \<in> set (functions_of OrtApi)"
  using chunk_OrtApi_4 by (auto simp: OrtApi_4_def)

lemma chunk_OrtApi_5: "set OrtApi_5 \<subseteq> set (functions_of OrtApi)"
  by (auto simp: OrtApi_functions_def)

lemma declares_OrtApi_5:
  "(''CreateTensorAsOrtValue'', ''OrtStatus*'', [InOut ''OrtAllocator*'', In ''const int64_t*'', In ''size_t'', In ''ONNXTensorElementDataType'', Out ''OrtValue**'']) \<in> set (functions_of OrtApi)"
  "(''CreateTensorWithDataAsOrtValue'', ''OrtStatus*'', [In ''const OrtMemoryInfo*'', InOut ''void*'', In ''size_t'', In ''const int64_t*'', In ''size_t'', In ''ONNXTensorElementDataType'', Out ''OrtValue**'']) \<in> set (functions_of OrtApi)"
  "(''GetTensorMutableData'', ''OrtStatus*'', [In ''OrtValue*'', Out ''void**'']) \<in> set (functions_of OrtApi)"
  using chunk_OrtApi_5 by (auto simp: OrtApi_5_def)

lemma chunk_OrtApi_6: "set OrtApi_6 \<subseteq> set (functions_of OrtApi)"
  by (auto simp: OrtApi_functions_def)

lemma declares_OrtApi_6:
  "(''GetTensorShapeElementCount'', ''OrtStatus*'', [In ''const OrtTensorTypeAndShapeInfo*'', Out ''size_t*'']) \<in> set (functions_of OrtApi)"
  "(''GetTensorTypeAndShape'', ''OrtStatus*'', [In ''const OrtValue*'', Out ''OrtTensorTypeAndShapeInfo**'']) \<in> set (functions_of OrtApi)"
  "(''CreateCpuMemoryInfo'', ''OrtStatus*'', [In ''enum OrtAllocatorType'', In ''enum OrtMemType'', Out ''OrtMemoryInfo**'']) \<in> set (functions_of OrtApi)"
  using chunk_OrtApi_6 by (auto simp: OrtApi_6_def)

lemma chunk_OrtApi_7: "set OrtApi_7 \<subseteq> set (functions_of OrtApi)"
  by (auto simp: OrtApi_functions_def)

lemma declares_OrtApi_7:
  "(''GetAllocatorWithDefaultOptions'', ''OrtStatus*'', [Out ''OrtAllocator**'']) \<in> set (functions_of OrtApi)"
  using chunk_OrtApi_7 by (auto simp: OrtApi_7_def)

lemma chunk_OrtApi_8: "set OrtApi_8 \<subseteq> set (functions_of OrtApi)"
  by (auto simp: OrtApi_functions_def)

lemma declares_OrtApi_8:
  "(''ReleaseEnv'', ''void'', [Frees ''OrtEnv*'']) \<in> set (functions_of OrtApi)"
  "(''ReleaseStatus'', ''void'', [Frees ''OrtStatus*'']) \<in> set (functions_of OrtApi)"
  using chunk_OrtApi_8 by (auto simp: OrtApi_8_def)

lemma chunk_OrtApi_9: "set OrtApi_9 \<subseteq> set (functions_of OrtApi)"
  by (auto simp: OrtApi_functions_def)

lemma declares_OrtApi_9:
  "(''ReleaseMemoryInfo'', ''void'', [Frees ''OrtMemoryInfo*'']) \<in> set (functions_of OrtApi)"
  "(''ReleaseSession'', ''void'', [Frees ''OrtSession*'']) \<in> set (functions_of OrtApi)"
  "(''ReleaseValue'', ''void'', [Frees ''OrtValue*'']) \<in> set (functions_of OrtApi)"
  "(''ReleaseRunOptions'', ''void'', [Frees ''OrtRunOptions*'']) \<in> set (functions_of OrtApi)"
  "(''ReleaseTypeInfo'', ''void'', [Frees ''OrtTypeInfo*'']) \<in> set (functions_of OrtApi)"
  "(''ReleaseTensorTypeAndShapeInfo'', ''void'', [Frees ''OrtTensorTypeAndShapeInfo*'']) \<in> set (functions_of OrtApi)"
  "(''ReleaseSessionOptions'', ''void'', [Frees ''OrtSessionOptions*'']) \<in> set (functions_of OrtApi)"
  "(''ReleaseCustomOpDomain'', ''void'', [Frees ''OrtCustomOpDomain*'']) \<in> set (functions_of OrtApi)"
  "(''ReleaseMapTypeInfo'', ''void'', [Frees ''OrtMapTypeInfo*'']) \<in> set (functions_of OrtApi)"
  "(''ReleaseSequenceTypeInfo'', ''void'', [Frees ''OrtSequenceTypeInfo*'']) \<in> set (functions_of OrtApi)"
  using chunk_OrtApi_9 by (auto simp: OrtApi_9_def)

lemma chunk_OrtApi_10: "set OrtApi_10 \<subseteq> set (functions_of OrtApi)"
  by (auto simp: OrtApi_functions_def)

lemma declares_OrtApi_10:
  "(''ReleaseModelMetadata'', ''void'', [Frees ''OrtModelMetadata*'']) \<in> set (functions_of OrtApi)"
  "(''ReleaseThreadingOptions'', ''void'', [Frees ''OrtThreadingOptions*'']) \<in> set (functions_of OrtApi)"
  using chunk_OrtApi_10 by (auto simp: OrtApi_10_def)

lemma chunk_OrtApi_11: "set OrtApi_11 \<subseteq> set (functions_of OrtApi)"
  by (auto simp: OrtApi_functions_def)

lemma declares_OrtApi_11:
  "(''ReleaseAvailableProviders'', ''OrtStatus*'', [In ''char**'', In ''int'']) \<in> set (functions_of OrtApi)"
  "(''ReleaseAllocator'', ''void'', [Frees ''OrtAllocator*'']) \<in> set (functions_of OrtApi)"
  using chunk_OrtApi_11 by (auto simp: OrtApi_11_def)

lemma chunk_OrtApi_12: "set OrtApi_12 \<subseteq> set (functions_of OrtApi)"
  by (auto simp: OrtApi_functions_def)

lemma declares_OrtApi_12:
  "(''ReleaseIoBinding'', ''void'', [Frees ''OrtIoBinding*'']) \<in> set (functions_of OrtApi)"
  using chunk_OrtApi_12 by (auto simp: OrtApi_12_def)

lemma chunk_OrtApi_13: "set OrtApi_13 \<subseteq> set (functions_of OrtApi)"
  by (auto simp: OrtApi_functions_def)

lemma declares_OrtApi_13:
  "(''SetLanguageProjection'', ''OrtStatus*'', [In ''const OrtEnv*'', In ''OrtLanguageProjection'']) \<in> set (functions_of OrtApi)"
  using chunk_OrtApi_13 by (auto simp: OrtApi_13_def)

lemma chunk_OrtApi_14: "set OrtApi_14 \<subseteq> set (functions_of OrtApi)"
  by (auto simp: OrtApi_functions_def)

lemma declares_OrtApi_14:
  "(''ReleaseArenaCfg'', ''void'', [Frees ''OrtArenaCfg*'']) \<in> set (functions_of OrtApi)"
  using chunk_OrtApi_14 by (auto simp: OrtApi_14_def)

lemma chunk_OrtApi_15: "set OrtApi_15 \<subseteq> set (functions_of OrtApi)"
  by (auto simp: OrtApi_functions_def)

lemma declares_OrtApi_15:
  "(''ReleasePrepackedWeightsContainer'', ''void'', [Frees ''OrtPrepackedWeightsContainer*'']) \<in> set (functions_of OrtApi)"
  using chunk_OrtApi_15 by (auto simp: OrtApi_15_def)

lemma chunk_OrtApi_16: "set OrtApi_16 \<subseteq> set (functions_of OrtApi)"
  by (auto simp: OrtApi_functions_def)

lemma declares_OrtApi_16:
  "(''ReleaseTensorRTProviderOptions'', ''void'', [Frees ''OrtTensorRTProviderOptionsV2*'']) \<in> set (functions_of OrtApi)"
  using chunk_OrtApi_16 by (auto simp: OrtApi_16_def)

lemma chunk_OrtApi_20: "set OrtApi_20 \<subseteq> set (functions_of OrtApi)"
  by (auto simp: OrtApi_functions_def)

lemma declares_OrtApi_20:
  "(''ReleaseCUDAProviderOptions'', ''void'', [Frees ''OrtCUDAProviderOptionsV2*'']) \<in> set (functions_of OrtApi)"
  using chunk_OrtApi_20 by (auto simp: OrtApi_20_def)

lemma chunk_OrtApi_21: "set OrtApi_21 \<subseteq> set (functions_of OrtApi)"
  by (auto simp: OrtApi_functions_def)

lemma declares_OrtApi_21:
  "(''ReleaseOpAttr'', ''void'', [Frees ''OrtOpAttr*'']) \<in> set (functions_of OrtApi)"
  "(''ReleaseOp'', ''void'', [Frees ''OrtOp*'']) \<in> set (functions_of OrtApi)"
  using chunk_OrtApi_21 by (auto simp: OrtApi_21_def)

lemma chunk_OrtApi_22: "set OrtApi_22 \<subseteq> set (functions_of OrtApi)"
  by (auto simp: OrtApi_functions_def)

lemma declares_OrtApi_22:
  "(''ReleaseKernelInfo'', ''void'', [Frees ''OrtKernelInfo*'']) \<in> set (functions_of OrtApi)"
  using chunk_OrtApi_22 by (auto simp: OrtApi_22_def)

lemma chunk_OrtApi_23: "set OrtApi_23 \<subseteq> set (functions_of OrtApi)"
  by (auto simp: OrtApi_functions_def)

lemma declares_OrtApi_23:
  "(''ReleaseCANNProviderOptions'', ''void'', [Frees ''OrtCANNProviderOptions*'']) \<in> set (functions_of OrtApi)"
  using chunk_OrtApi_23 by (auto simp: OrtApi_23_def)

lemma chunk_OrtApi_25: "set OrtApi_25 \<subseteq> set (functions_of OrtApi)"
  by (auto simp: OrtApi_functions_def)

lemma declares_OrtApi_25:
  "(''ReleaseDnnlProviderOptions'', ''void'', [Frees ''OrtDnnlProviderOptions*'']) \<in> set (functions_of OrtApi)"
  using chunk_OrtApi_25 by (auto simp: OrtApi_25_def)

lemma chunk_OrtApi_27: "set OrtApi_27 \<subseteq> set (functions_of OrtApi)"
  by (auto simp: OrtApi_functions_def)

lemma declares_OrtApi_27:
  "(''ReleaseROCMProviderOptions'', ''void'', [Frees ''OrtROCMProviderOptions*'']) \<in> set (functions_of OrtApi)"
  using chunk_OrtApi_27 by (auto simp: OrtApi_27_def)

lemma chunk_OrtApi_30: "set OrtApi_30 \<subseteq> set (functions_of OrtApi)"
  by (auto simp: OrtApi_functions_def)

lemma declares_OrtApi_30:
  "(''ReleaseLoraAdapter'', ''void'', [Frees ''OrtLoraAdapter*'']) \<in> set (functions_of OrtApi)"
  "(''ReleaseValueInfo'', ''void'', [Frees ''OrtValueInfo*'']) \<in> set (functions_of OrtApi)"
  "(''ReleaseNode'', ''void'', [Frees ''OrtNode*'']) \<in> set (functions_of OrtApi)"
  "(''ReleaseGraph'', ''void'', [Frees ''OrtGraph*'']) \<in> set (functions_of OrtApi)"
  "(''ReleaseModel'', ''void'', [Frees ''OrtModel*'']) \<in> set (functions_of OrtApi)"
  using chunk_OrtApi_30 by (auto simp: OrtApi_30_def)

lemma chunk_OrtApi_31: "set OrtApi_31 \<subseteq> set (functions_of OrtApi)"
  by (auto simp: OrtApi_functions_def)

lemma declares_OrtApi_31:
  "(''GetModelEditorApi'', ''const OrtModelEditorApi*'', []) \<in> set (functions_of OrtApi)"
  "(''GetCompileApi'', ''const OrtCompileApi*'', []) \<in> set (functions_of OrtApi)"
  "(''ReleaseKeyValuePairs'', ''void'', [Frees ''OrtKeyValuePairs*'']) \<in> set (functions_of OrtApi)"
  using chunk_OrtApi_31 by (auto simp: OrtApi_31_def)

lemma chunk_OrtApi_33: "set OrtApi_33 \<subseteq> set (functions_of OrtApi)"
  by (auto simp: OrtApi_functions_def)

lemma declares_OrtApi_33:
  "(''GetEpApi'', ''const OrtEpApi*'', []) \<in> set (functions_of OrtApi)"
  using chunk_OrtApi_33 by (auto simp: OrtApi_33_def)

lemma chunk_OrtApi_39: "set OrtApi_39 \<subseteq> set (functions_of OrtApi)"
  by (auto simp: OrtApi_functions_def)

lemma declares_OrtApi_39:
  "(''ReleaseExternalInitializerInfo'', ''void'', [Frees ''OrtExternalInitializerInfo*'']) \<in> set (functions_of OrtApi)"
  "(''ReleaseSharedAllocator'', ''OrtStatus*'', [In ''OrtEnv*'', In ''const OrtEpDevice*'', In ''OrtDeviceMemoryType'']) \<in> set (functions_of OrtApi)"
  using chunk_OrtApi_39 by (auto simp: OrtApi_39_def)

lemma chunk_OrtApi_40: "set OrtApi_40 \<subseteq> set (functions_of OrtApi)"
  by (auto simp: OrtApi_functions_def)

lemma declares_OrtApi_40:
  "(''ReleaseSyncStream'', ''void'', [Frees ''OrtSyncStream*'']) \<in> set (functions_of OrtApi)"
  using chunk_OrtApi_40 by (auto simp: OrtApi_40_def)

lemma chunk_OrtApi_43: "set OrtApi_43 \<subseteq> set (functions_of OrtApi)"
  by (auto simp: OrtApi_functions_def)

lemma declares_OrtApi_43:
  "(''ReleaseDeviceEpIncompatibilityDetails'', ''void'', [Frees ''OrtDeviceEpIncompatibilityDetails*'']) \<in> set (functions_of OrtApi)"
  using chunk_OrtApi_43 by (auto simp: OrtApi_43_def)

lemma chunk_OrtCompileApi_1: "set OrtCompileApi_1 \<subseteq> set (functions_of CompileApi)"
  by (auto simp: OrtCompileApi_functions_def)

lemma declares_OrtCompileApi_1:
  "(''ReleaseModelCompilationOptions'', ''void'', [Frees ''OrtModelCompilationOptions*'']) \<in> set (functions_of CompileApi)"
  using chunk_OrtCompileApi_1 by (auto simp: OrtCompileApi_1_def)

lemma chunk_OrtEpApi_1: "set OrtEpApi_1 \<subseteq> set (functions_of EpApi)"
  by (auto simp: OrtEpApi_functions_def)

lemma declares_OrtEpApi_1:
  "(''ReleaseEpDevice'', ''void'', [Frees ''OrtEpDevice*'']) \<in> set (functions_of EpApi)"
  using chunk_OrtEpApi_1 by (auto simp: OrtEpApi_1_def)

lemma chunk_OrtEpApi_2: "set OrtEpApi_2 \<subseteq> set (functions_of EpApi)"
  by (auto simp: OrtEpApi_functions_def)

lemma declares_OrtEpApi_2:
  "(''ReleaseHardwareDevice'', ''void'', [Frees ''OrtHardwareDevice*'']) \<in> set (functions_of EpApi)"
  "(''ReleaseKernelRegistry'', ''void'', [Frees ''OrtKernelRegistry*'']) \<in> set (functions_of EpApi)"
  "(''ReleaseKernelDefBuilder'', ''void'', [Frees ''OrtKernelDefBuilder*'']) \<in> set (functions_of EpApi)"
  using chunk_OrtEpApi_2 by (auto simp: OrtEpApi_2_def)

lemma chunk_OrtEpApi_3: "set OrtEpApi_3 \<subseteq> set (functions_of EpApi)"
  by (auto simp: OrtEpApi_functions_def)

lemma declares_OrtEpApi_3:
  "(''ReleaseKernelDef'', ''void'', [Frees ''OrtKernelDef*'']) \<in> set (functions_of EpApi)"
  using chunk_OrtEpApi_3 by (auto simp: OrtEpApi_3_def)

lemma chunk_OrtEpApi_5: "set OrtEpApi_5 \<subseteq> set (functions_of EpApi)"
  by (auto simp: OrtEpApi_functions_def)

lemma declares_OrtEpApi_5:
  "(''ReleaseKernelImpl'', ''void'', [Frees ''OrtKernelImpl*'']) \<in> set (functions_of EpApi)"
  "(''ReleaseOpSchema'', ''void'', [Frees ''OrtOpSchema*'']) \<in> set (functions_of EpApi)"
  using chunk_OrtEpApi_5 by (auto simp: OrtEpApi_5_def)

lemma chunk_OrtEpApi_7: "set OrtEpApi_7 \<subseteq> set (functions_of EpApi)"
  by (auto simp: OrtEpApi_functions_def)

lemma declares_OrtEpApi_7:
  "(''ReleaseProfilingEvent'', ''void'', [Frees ''OrtProfilingEvent*'']) \<in> set (functions_of EpApi)"
  using chunk_OrtEpApi_7 by (auto simp: OrtEpApi_7_def)

lemmas declared =
  declares_OrtApi_1
  declares_OrtApi_2
  declares_OrtApi_3
  declares_OrtApi_4
  declares_OrtApi_5
  declares_OrtApi_6
  declares_OrtApi_7
  declares_OrtApi_8
  declares_OrtApi_9
  declares_OrtApi_10
  declares_OrtApi_11
  declares_OrtApi_12
  declares_OrtApi_13
  declares_OrtApi_14
  declares_OrtApi_15
  declares_OrtApi_16
  declares_OrtApi_20
  declares_OrtApi_21
  declares_OrtApi_22
  declares_OrtApi_23
  declares_OrtApi_25
  declares_OrtApi_27
  declares_OrtApi_30
  declares_OrtApi_31
  declares_OrtApi_33
  declares_OrtApi_39
  declares_OrtApi_40
  declares_OrtApi_43
  declares_OrtCompileApi_1
  declares_OrtEpApi_1
  declares_OrtEpApi_2
  declares_OrtEpApi_3
  declares_OrtEpApi_5
  declares_OrtEpApi_7

text \<open>
  Every release function the wrappers call is declared in the table they call it through, and frees a
  handle of their class.
\<close>

definition frees :: "string \<Rightarrow> param list \<Rightarrow> bool" where
  "frees k ps \<longleftrightarrow> ps = [Frees (''Ort'' @ k @ ''*'')] \<or> ps = [Frees (''Ort'' @ k @ ''V2*'')]"

lemma releases_declared:
  "\<forall>(k, T) \<in> set release_names. \<exists>ps. (''Release'' @ k, ''void'', ps) \<in> set (functions_of T) \<and> frees k ps"
  unfolding release_names_def
  by (simp del: functions_of.simps) (intro conjI; rule exI, rule conjI, rule declared, simp add: frees_def)

end
