(* ===== verification/Opus_Calls.thy ===== *)
theory Opus_Calls imports Opus_Lifetime Ort_Books begin

text \<open>
  The calls the OPUS engine makes over its whole life, against the declarations of the C API: each names a
  function of its table and passes what the function takes, and only a function that is declared to
  return a status returns one. The calls of every wrapper on the way and of every error path are included.
\<close>

section \<open>Runs whose calls conform\<close>

text \<open>\<open>conforming f m\<close>: \<open>m\<close> only adds calls that conform to the log \<open>f\<close> reads from the state, also before a crash.\<close>

named_theorems conforming_intros

definition conforming :: "('s \<Rightarrow> event list) \<Rightarrow> ('s, 'a) action \<Rightarrow> bool" where
  "conforming f m \<longleftrightarrow> (\<forall>s. \<exists>new. f (snd (m s)) = f s @ new \<and> list_all conforms new)"

lemma conformingI:
  assumes "\<And>s x t. m s = (x, t) \<Longrightarrow> \<exists>new. f t = f s @ new \<and> list_all conforms new"
  shows "conforming f m"
  unfolding conforming_def using assms by (metis prod.collapse)

lemma conformingD:
  assumes "conforming f m" "m s = (x, t)"
  shows "\<exists>new. f t = f s @ new \<and> list_all conforms new"
  using assms unfolding conforming_def by (metis snd_conv)

lemma conforming_step:
  assumes "conforming f m" "m u = (x, t)" "f u = f s @ new" "list_all conforms new"
  shows "\<exists>new. f t = f s @ new \<and> list_all conforms new"
  using conformingD [OF assms(1,2)] assms(3,4) by auto

lemma conforming_ret [conforming_intros]: "conforming f (mret x)"
  by (simp add: conforming_def mret_def)

lemma conforming_throw [conforming_intros]: "conforming f (mthrow e)"
  by (simp add: conforming_def mthrow_def)

lemma conforming_crash [conforming_intros]: "conforming f (mcrash c)"
  by (simp add: conforming_def mcrash_def)

lemma conforming_get [conforming_intros]: "conforming f (mget g)"
  by (simp add: conforming_def mget_def)

lemma conforming_bind [conforming_intros]:
  assumes m: "conforming f m" and k: "\<And>x. conforming f (k x)" shows "conforming f (mbind m k)"
proof (rule conformingI)
  fix s x t
  assume run: "mbind m k s = (x, t)"
  obtain y u where y: "m s = (y, u)" by fastforce
  with conformingD [OF m] obtain new where new: "f u = f s @ new" "list_all conforms new" by blast
  with run y show "\<exists>new. f t = f s @ new \<and> list_all conforms new"
    using conforming_step [OF k _ new] by (cases y) (auto simp: mbind_def)
qed

lemma conforming_then [conforming_intros]: "conforming f m \<Longrightarrow> conforming f k \<Longrightarrow> conforming f (mthen m k)"
  unfolding mthen_def by (intro conforming_intros)

lemma conforming_catch [conforming_intros]:
  assumes m: "conforming f m" and h: "\<And>e. conforming f (h e)" shows "conforming f (mcatch m h)"
proof (rule conformingI)
  fix s x t
  assume run: "mcatch m h s = (x, t)"
  obtain y u where y: "m s = (y, u)" by fastforce
  with conformingD [OF m] obtain new where new: "f u = f s @ new" "list_all conforms new" by blast
  with run y show "\<exists>new. f t = f s @ new \<and> list_all conforms new"
    using conforming_step [OF h _ new] by (cases y) (auto simp: mcatch_def)
qed

lemma conforming_if [conforming_intros]:
  "conforming f m \<Longrightarrow> conforming f k \<Longrightarrow> conforming f (if b then m else k)"
  by simp

lemma conforming_guard [conforming_intros]: "conforming f (mguard b e)"
  unfolding mguard_def by (intro conforming_intros)

lemma conforming_sum [conforming_intros]: "conforming f (msum x)"
  unfolding msum_def by (cases x) (auto intro: conforming_intros)

lemma conforming_case_option [conforming_intros]:
  "conforming f m \<Longrightarrow> (\<And>y. conforming f (k y)) \<Longrightarrow> conforming f (case x of None \<Rightarrow> m | Some y \<Rightarrow> k y)"
  by (cases x) auto

lemma conforming_case_prod [conforming_intros]:
  "(\<And>a b. conforming f (k a b)) \<Longrightarrow> conforming f (case x of (a, b) \<Rightarrow> k a b)"
  by (cases x) auto

lemma conforming_case_sum [conforming_intros]:
  "(\<And>a. conforming f (k a)) \<Longrightarrow> (\<And>b. conforming f (h b)) \<Longrightarrow> conforming f (case x of Inl a \<Rightarrow> k a | Inr b \<Rightarrow> h b)"
  by (cases x) auto

lemma conforming_let [conforming_intros]: "conforming f (k x) \<Longrightarrow> conforming f (let y = x in k y)"
  by simp

lemma conforming_map [conforming_intros]: "(\<And>x. conforming f (g x)) \<Longrightarrow> conforming f (mmap g xs)"
  by (induction xs) (auto intro!: conforming_intros)

lemma conforming_c_string [conforming_intros]: "conforming f (c_string x)"
  unfolding c_string_def by (intro conforming_intros)

section \<open>Calls of the runtime\<close>

lemma conforming_transact:
  assumes "\<And>r. conforms (c, view r)" shows "conforming events (transact A view c)"
  using assms by (auto simp: conforming_def transact_def Let_def split: prod.splits)

lemma conforming_call_status:
  assumes "(n, ''OrtStatus*'', ps) \<in> set (functions_of T)" "passed ps args"
  shows "conforming events (call_status A T n args)"
  unfolding call_status_def using assms by (intro conforming_transact) auto

lemma conforming_call_plain:
  assumes "(n, res, ps) \<in> set (functions_of T)" "passed ps args"
  shows "conforming events (call_plain A T n args)"
  unfolding call_plain_def using assms by (intro conforming_transact) auto

lemma conforming_access:
  assumes "n \<in> set memory_accesses"
  shows "conforming events (call_plain A OrtApi n args)"
  unfolding call_plain_def using assms by (intro conforming_transact) simp

lemma conforming_get_table [conforming_intros]: "conforming events (get_table A T)"
  by (cases T)
    (auto simp: GetModelEditorApi_def GetCompileApi_def GetEpApi_def sub_table_def
      intro!: conforming_intros conforming_call_plain declared)

lemma conforming_plain:
  "(n, res, ps) \<in> set (functions_of T) \<Longrightarrow> passed ps args \<Longrightarrow> conforming events (plain A T n args)"
  unfolding plain_def by (intro conforming_intros conforming_call_plain)

lemma conforming_api_call:
  "(n, ''OrtStatus*'', ps) \<in> set (functions_of T) \<Longrightarrow> passed ps args \<Longrightarrow> conforming events (api_call A T n args)"
  unfolding api_call_def by (intro conforming_intros conforming_call_status)

text \<open>Release functions take a pointer, whatever their class.\<close>

lemma passed_release: "frees k ps \<Longrightarrow> passed ps [Ptr p]"
  by (auto simp: frees_def stars_def)

lemma conforming_release [conforming_intros]:
  assumes "k \<in> set (map fst release_names)" shows "conforming events (OrtRelease A k p)"
proof -
  from assms have "(k, release_table k) \<in> set release_names"
    unfolding release_table_def by (metis imageE list.set_map map_of_SomeD map_of_eq_None_iff not_None_eq option.case(2))
  with releases_declared obtain ps where "(''Release'' @ k, ''void'', ps) \<in> set (functions_of (release_table k))" "frees k ps"
    by blast
  then show ?thesis unfolding OrtRelease_def
    by (intro conforming_intros conforming_plain passed_release)
qed

lemma releasable [conforming_intros]:
  "''Value'' \<in> set (map fst release_names)" "''Status'' \<in> set (map fst release_names)"
  "''Env'' \<in> set (map fst release_names)" "''Session'' \<in> set (map fst release_names)"
  "''SessionOptions'' \<in> set (map fst release_names)" "''RunOptions'' \<in> set (map fst release_names)"
  "''MemoryInfo'' \<in> set (map fst release_names)" "''TensorTypeAndShapeInfo'' \<in> set (map fst release_names)"
  by (simp_all add: release_names_def)

lemma conforming_guarded [conforming_intros]:
  "k \<in> set (map fst release_names) \<Longrightarrow> conforming events body \<Longrightarrow> conforming events (guarded A k p body)"
  unfolding guarded_def by (intro conforming_intros)

lemma conforming_scoped [conforming_intros]:
  "k \<in> set (map fst release_names) \<Longrightarrow> conforming events body \<Longrightarrow> conforming events (scoped A k p body)"
  unfolding scoped_def by (intro conforming_intros)

lemma conforming_AllocatedFree [conforming_intros]: "conforming events (AllocatedFree A allocator p)"
  unfolding AllocatedFree_def by (intro conforming_intros conforming_access) (simp add: memory_accesses_def)

lemma conforming_with_buffer [conforming_intros]:
  "conforming events body \<Longrightarrow> conforming events (with_buffer A allocator p body)"
  unfolding with_buffer_def by (intro conforming_intros)

lemma conforming_ThrowOnError [conforming_intros]: "conforming events (ThrowOnError A st)"
  unfolding ThrowOnError_def ThrowStatus_def Status_GetErrorMessage_def Status_GetErrorCode_def
  by (intro conforming_intros; (rule conforming_plain, rule declared, simp add: stars_def))

lemma conforming_checked:
  "(n, ''OrtStatus*'', ps) \<in> set (functions_of T) \<Longrightarrow> passed ps args \<Longrightarrow> conforming events (checked A T n args)"
  unfolding checked_def by (intro conforming_intros conforming_api_call)

lemma conforming_answer:
  assumes "(n, ''OrtStatus*'', ps) \<in> set (functions_of T)" "passed ps args"
  shows "conforming events (do_call A T n args)" "conforming events (get_ptr A T n args)"
    "conforming events (get_size A T n args)" "conforming events (get_allocated A T n args)"
  unfolding do_call_def get_ptr_def get_size_def get_allocated_def
  by (intro conforming_intros conforming_checked [OF assms])+

lemma conforming_construct:
  assumes "(n, ''OrtStatus*'', ps) \<in> set (functions_of T)" "passed ps args" "k \<in> set (map fst release_names)"
    "\<And>p. conforming events (rest p)"
  shows "conforming events (construct_with A k T n args rest)"
  unfolding construct_with_def by (intro conforming_intros conforming_answer [OF assms(1,2)] assms)


text \<open>The wrappers the engine reaches, each with the declaration of its function.\<close>

lemma conforming_setup [conforming_intros]:
  "conforming events (MemoryInfo_CreateCpu A t m)"
  "conforming events (set_projection A logid p)"
  "conforming events (AllocatorWithDefaultOptions_new A)"
  "conforming events (SessionOptions_SetInterOpNumThreads A p k)"
  "conforming events (SessionOptions_SetIntraOpNumThreads A p k)"
  "conforming events (SessionOptions_SetGraphOptimizationLevel A p k)"
  unfolding MemoryInfo_CreateCpu_def set_projection_def AllocatorWithDefaultOptions_new_def
    SessionOptions_SetInterOpNumThreads_def SessionOptions_SetIntraOpNumThreads_def SessionOptions_SetGraphOptimizationLevel_def
  by ((intro conforming_if)?, (rule conforming_answer, rule declared, simp add: stars_def)+)+

lemma conforming_new [conforming_intros]:
  "conforming events (Env_new A level logid)"
  "conforming events (SessionOptions_new A)"
  "conforming events (Session_new A env fname opts)"
  "conforming events (RunOptions_new A)"
  unfolding Env_new_def SessionOptions_new_def Session_new_def RunOptions_new_def create_def
  by (rule conforming_construct, rule declared, simp add: stars_def, intro conforming_intros, intro conforming_intros)+

lemma conforming_tensors [conforming_intros]:
  "conforming events (Value_CreateTensor A c info p n shape)"
  "conforming events (Value_CreateTensor_4 A c allocator shape)"
  "conforming events (Value_GetTensorMutableData A p)"
  "conforming events (Value_GetTensorTypeAndShapeInfo A p)"
  "conforming events (TensorTypeAndShapeInfo_GetElementCount A p)"
  unfolding Value_CreateTensor_def Value_CreateTensor_2_def Value_CreateTensor_4_def Value_CreateTensor_5_def
    Value_GetTensorMutableData_def Value_GetTensorTypeAndShapeInfo_def TensorTypeAndShapeInfo_GetElementCount_def
  by (rule conforming_answer, rule declared, simp add: stars_def)+

lemma conforming_session [conforming_intros]:
  "conforming events (Session_GetInputCount A p)"
  "conforming events (Session_GetOutputCount A p)"
  "conforming events (Session_GetInputNameAllocated A p i allocator)"
  "conforming events (Session_GetOutputNameAllocated A p i allocator)"
  unfolding Session_GetInputCount_def Session_GetOutputCount_def Session_GetInputNameAllocated_def
    Session_GetOutputNameAllocated_def
  by (rule conforming_answer, rule declared, simp add: stars_def)+

lemma conforming_Session_Run [conforming_intros]:
  "conforming events (Session_Run A p options ins vs n outs k)"
  unfolding Session_Run_def session_run_def
  by (intro conforming_intros, rule conforming_api_call, rule declared, simp add: stars_def)

section \<open>The engine\<close>

abbreviation engine_log :: "'w opus_state \<Rightarrow> event list" where
  "engine_log s \<equiv> events (ort s)"

lemma conforming_in_ort [conforming_intros]: "conforming events m \<Longrightarrow> conforming engine_log (in_ort m)"
  by (auto simp: conforming_def in_ort_def Let_def split: prod.splits) (metis snd_conv)

lemma conforming_modify:
  assumes "\<And>s. ort (g s) = ort s" shows "conforming engine_log (mmodify g)"
  using assms by (simp add: conforming_def mmodify_def)

lemma conforming_vectors [conforming_intros]:
  "conforming engine_log (push_frame v ps)" "conforming engine_log (pop_frame v)"
  "conforming engine_log (push_vec v p)" "conforming engine_log (get_vec v)"
  "conforming engine_log (take_over d j v k)" "conforming engine_log (push_moved d v k)"
  "conforming engine_log (element v k)"
  "conforming engine_log (swap_encoder p)" "conforming engine_log (swap_decoder p)"
  by (simp_all add: conforming_def push_frame_def pop_frame_def push_vec_def get_vec_def take_over_def push_moved_def
      element_def swap_encoder_def swap_decoder_def mmodify_def mget_def put_vec_def)

lemma conforming_memory [conforming_intros]:
  "conforming engine_log (store A p xs)" "conforming engine_log (load_floats A p n)"
  unfolding store_def load_floats_def
  by (intro conforming_intros conforming_access; simp add: memory_accesses_def)+

lemma conforming_owning [conforming_intros]:
  "k \<in> set (map fst release_names) \<Longrightarrow> conforming engine_log body \<Longrightarrow> conforming engine_log (owning A k p body)"
  unfolding owning_def by (intro conforming_intros)

lemma conforming_vec_scope [conforming_intros]:
  "conforming engine_log body \<Longrightarrow> conforming engine_log (vec_scope A v ps body)"
  unfolding vec_scope_def release_frame_def by (intro conforming_intros)

lemma conforming_opus_checkCancelled [conforming_intros]: "conforming engine_log (opus_checkCancelled E)"
  unfolding opus_checkCancelled_def
  by (intro conforming_intros) (simp add: conforming_def split: prod.splits)

text \<open>Construction.\<close>

lemma conforming_read [conforming_intros]:
  "conforming f (read_json E fname)" "conforming f (at_int E j key)" "conforming f (int_div a b)"
  unfolding read_json_def at_int_def int_div_def by (intro conforming_intros)+

lemma conforming_fill_pieces [conforming_intros]: "conforming f (fill_pieces E ps entries)"
  by (induction E ps entries rule: fill_pieces.induct) (auto intro!: conforming_intros)

lemma conforming_check_name [conforming_intros]:
  "(\<And>i allocator. conforming events (get i allocator)) \<Longrightarrow> conforming events (check_name A get allocator msg x)"
  unfolding check_name_def by (intro conforming_intros)

lemma conforming_check_signature [conforming_intros]: "conforming events (check_signature A dec ins outs)"
  unfolding check_signature_def by (intro conforming_intros)

lemma conforming_environment [conforming_intros]: "conforming engine_log (environment A)"
  unfolding environment_def by (intro conforming_intros conforming_modify) simp

lemma conforming_assign [conforming_intros]:
  "conforming engine_log (assign_encoder A p)" "conforming engine_log (assign_decoder A p)"
  unfolding assign_encoder_def assign_decoder_def by (intro conforming_intros)+

lemma conforming_load_sessions [conforming_intros]: "conforming engine_log (load_sessions A dir n ins outs)"
  unfolding load_sessions_def by (intro conforming_intros)

lemma conforming_Opus_new: "conforming engine_log (Opus_new A E dir n)"
  unfolding Opus_new_def Opus_body_def by (intro conforming_intros conforming_modify) simp

text \<open>Translation and destruction.\<close>

lemma conforming_decode_step [conforming_intros]: "conforming engine_log (decode_step A E m ro step so_far)"
  unfolding decode_step_def read_logits_def choose_token_def take_token_def move_value_def by (intro conforming_intros)

lemma conforming_decode_loop [conforming_intros]: "conforming engine_log (decode_loop A E m ro steps so_far)"
  by (induction steps arbitrary: so_far) (auto intro!: conforming_intros)

lemma conforming_decode_from [conforming_intros]: "conforming engine_log (decode_from A E m ro n)"
  unfolding decode_from_def fill_feed_def by (intro conforming_intros)

lemma conforming_opus_run [conforming_intros]: "conforming engine_log (opus_run A E m ids)"
  unfolding opus_run_def fill_input_def run_models_def by (intro conforming_intros)

lemma conforming_opus_translate: "conforming engine_log (opus_translate A E m prompt)"
  unfolding opus_translate_def by (intro conforming_intros)

lemma conforming_opus_delete: "conforming engine_log (opus_delete A m)"
  unfolding opus_delete_def by (intro conforming_intros)

end
