(* ===== verification/Driver_Properties.thy ===== *)
theory Driver_Properties imports Smoke Benchmark Tiny_Drivers Tiny_Loader Opus_Calls begin

text \<open>
  The properties of whole engine lives and of the programs over the engines: the cache statistics over any
  history of calls, the resources of an OPUS engine, the regression and benchmark programs, and the JNI
  bridge.
\<close>

section \<open>The life of an engine\<close>



text \<open>C22. The constructor holds exactly its members: when it succeeds, the memory info and the two sessions
  of the new object are what it keeps, and when it throws - a missing file, bad metadata, a failed
  session, an unexpected signature - it keeps nothing; the process-wide environment aside, which the
  first call that gets that far creates for good.\<close>

theorem construction_holds_its_members:
  assumes "m_encoder s = 0" and "m_decoder s = 0" and "R \<noteq> Handle KEnv"
  shows "case Opus_new A E dir n s of
      (Ok m, t) \<Rightarrow> account R (ort t) p = account R (ort s) p
         + (if R = Handle KMemoryInfo then own (memory m) p
            else if R = Handle KSession then own (encoder m) p + own (decoder m) p else 0)
    | (Throw e, t) \<Rightarrow> account R (ort t) p = account R (ort s) p
    | (Crash c, t) \<Rightarrow> True"
proof (cases "Opus_new A E dir n s")
  case (Pair r t)
  then show ?thesis using construction_balance [OF assms Pair] by (cases r) simp_all
qed

theorem construction_holds_its_members_witness:
  "\<exists>t. Opus_new loader_ort loader_env ''models'' 4 fresh_state = (Ok loader_opus, t)
     \<and> account (Handle KMemoryInfo) (ort t) 100 = 1
     \<and> account (Handle KSession) (ort t) 107 = 1 \<and> account (Handle KSession) (ort t) 109 = 1
     \<and> (\<forall>p. account StatusObject (ort t) p = 0)"
proof -
  obtain t where new: "Opus_new loader_ort loader_env ''models'' 4 fresh_state = (Ok loader_opus, t)"
    using loader_loads_fresh by blast
  have before: "m_encoder fresh_state = 0" "m_decoder fresh_state = 0" "account R (ort fresh_state) q = 0" for R q
    by (simp_all add: fresh_state_def tiny_state_def ledger_def balance_def)
  have held: "account R (ort t) q = (if R = Handle KMemoryInfo then own 100 q
      else if R = Handle KSession then own 107 q + own 109 q else 0)" if "R \<noteq> Handle KEnv" for R q
    using construction_holds_its_members [OF before(1,2) that,
        where A = loader_ort and E = loader_env and dir = "''models''" and n = 4 and p = q] before(3)
    by (simp add: new loader_opus_def split: if_splits)
  show ?thesis using held [of "Handle KMemoryInfo"] held [of "Handle KSession"] held [of StatusObject]
    by (simp add: new own_def)
qed




section \<open>The programs\<close>












section \<open>The JNI bridge\<close>



text \<open>On the device the same is not true. An exception of the progress method, thrown through the engine, is
  taken for a failure of the device: the engine falls back to the CPU for good, translates the text again and
  calls back into Java with the exception still pending. In this run the method throws on its first event: the
  second attempt makes two JNI calls that an exception forbids.\<close>

theorem throwing_callback_is_retried:
  "\<exists>t. jni_run_with (call_engine (hymt_engine (tiny True True)) (tiny_jni (Some ''closed'')) 7) (tiny_jni (Some ''closed''))
       6 1 2 3 0 7 (idle_app (tiny_engine True) ''a b'') = (Ok 0, t)
     \<and> opencl (tiny_engine True) \<and> \<not> opencl (procs t) \<and> undefined_calls (vm t) = 2"
  using tiny_throwing_run by (auto simp: tiny_engine_ready)





section \<open>Start-up\<close>

text \<open>C40. The log a model load is judged by is exact. In a process whose log callback is not yet the capture, after
  any positive number of engines was set up, a load on a thread, whatever it and other threads log meanwhile,
  returns: the log is what its own thread logged and nothing else, the pointer of every thread is as
  before, also when the load throws, every message reaches the callback that was there before exactly once and in
  order, or the standard error if there was none, and the backend was initialised once.\<close>

theorem load_log_is_exact:
  assumes "untouched s" and "\<not> initialised s" and "strings_used s"
  shows "\<exists>t. capture_load th (load_ends msgs r) ((hymt_setup b dir ^^ Suc n) s)
        = (case r of Inl e \<Rightarrow> Throw e | Inr m \<Rightarrow> Ok (m, texts_of th msgs), t)
     \<and> modelLoadLog t = modelLoadLog ((hymt_setup b dir ^^ Suc n) s)
     \<and> backend_inits ((hymt_setup b dir ^^ Suc n) s) = backend_inits s + 1
     \<and> (case llama_logger s of
          ForeignLogger k \<Rightarrow> received t k = received s k @ map snd msgs \<and> standard_error t = standard_error s
        | _ \<Rightarrow> received t = received s \<and> standard_error t
            = standard_error s @ concat (map (\<lambda>(th, msg). case msg of None \<Rightarrow> [] | Some str \<Rightarrow> [c_str str]) msgs))"
  using capture_load_exact [of "(hymt_setup b dir ^^ Suc n) s" th msgs r] setups [OF assms(1,2), where b = b and dir = dir and n = n] assms(3)
  by (auto simp: heard_def split: logger.splits simp del: funpow.simps)

definition new_process :: process where
  "new_process = \<lparr>llama_logger = ForeignLogger 0, previousLlamaLogger = NoLogger, installed = False, initialised = False,
     backend_inits = 0, modelLoadLog = (\<lambda>_. None), load_logs = (\<lambda>_. []), next_log = 0, received = (\<lambda>_. []),
     standard_error = [], variables = Map.empty\<rparr>"

theorem load_log_is_exact_witness:
  "\<exists>t. capture_load 1 (load_ends [(1, Some ''offloaded 3/4''), (2, Some ''x''), (1, Some '' layers to GPU'')] (Inr 7))
        ((hymt_setup True ''cache'' ^^ Suc 1) new_process) = (Ok (7, ''offloaded 3/4 layers to GPU''), t)
     \<and> received t 0 = [Some ''offloaded 3/4'', Some ''x'', Some '' layers to GPU'']"
proof -
  have s: "untouched new_process" "\<not> initialised new_process" "strings_used new_process"
    by (simp_all add: new_process_def untouched_def strings_used_def)
  have "texts_of 1 [(1, Some ''offloaded 3/4''), (2, Some ''x''), (1, Some '' layers to GPU'')] = ''offloaded 3/4 layers to GPU''"
    by (simp add: texts_of_def c_str_def)
  then show ?thesis
    using load_log_is_exact [OF s, where th = 1 and b = True and dir = "''cache''" and n = 1 and r = "Inr 7"
        and msgs = "[(1, Some ''offloaded 3/4''), (2, Some ''x''), (1, Some '' layers to GPU'')]"]
    by (auto simp: new_process_def simp del: funpow.simps)
qed

end
